(* ===== verification/PyVal.thy ===== *)
theory PyVal
  imports Sha256
begin

text \<open>
  Dynamic Python values, dictionaries in insertion order, the exceptions of the program
  (\<open>python/urp/errors.py\<close> and the built-in ones) and the two effect types: \<open>'a res\<close>, a
  result or an exception, and \<open>('a, 's) sres\<close>, a result or an exception together with
  the state the code leaves behind, so that writes made before a raise persist.
\<close>

subsection \<open>Values\<close>

text \<open>
  \<open>PFloat m e\<close> is the finite float whose shortest decimal text (Python's \<open>repr\<close>) is
  \<open>m\<close> with \<open>e\<close> digits after the point: 0.5 is \<open>PFloat 5 1\<close>, 2.0 is \<open>PFloat 20 1\<close>.
  Floats whose \<open>repr\<close> has an exponent, infinities and NaN are outside the model.
  Dictionaries have string keys and keep their insertion order.
\<close>

datatype pyval =
    PNone
  | PBool bool
  | PInt int
  | PFloat int nat
  | PStr string
  | PBytes bytes
  | PList "pyval list"
  | PTuple "pyval list"
  | PDict "(string \<times> pyval) list"

type_synonym pydict = "(string \<times> pyval) list"

text \<open>Truth value of an object, as \<open>if x\<close>, \<open>x or y\<close> and \<open>bool(x)\<close> use it.\<close>

fun truthy :: "pyval \<Rightarrow> bool" where
  "truthy PNone = False"
| "truthy (PBool b) = b"
| "truthy (PInt i) = (i \<noteq> 0)"
| "truthy (PFloat m e) = (m \<noteq> 0)"
| "truthy (PStr s) = (s \<noteq> [])"
| "truthy (PBytes b) = (b \<noteq> [])"
| "truthy (PList xs) = (xs \<noteq> [])"
| "truthy (PTuple xs) = (xs \<noteq> [])"
| "truthy (PDict d) = (d \<noteq> [])"

definition dget :: "(string \<times> 'v) list \<Rightarrow> string \<Rightarrow> 'v option" where
  "dget d k = map_of d k"

definition dset :: "string \<Rightarrow> 'v \<Rightarrow> (string \<times> 'v) list \<Rightarrow> (string \<times> 'v) list" where
  "dset k v d = AList.update k v d"

definition dpop :: "string \<Rightarrow> (string \<times> 'v) list \<Rightarrow> (string \<times> 'v) list" where
  "dpop k d = AList.delete k d"

definition dkeys :: "(string \<times> 'v) list \<Rightarrow> string list" where
  "dkeys d = map fst d"

lemma dget_dset [dict_simps, simp]: "dget (dset k v d) k' = (if k' = k then Some v else dget d k')"
  by (simp add: dget_def dset_def update_conv')

lemma dget_dpop [dict_simps, simp]: "dget (dpop k d) k' = (if k' = k then None else dget d k')"
  by (simp add: dget_def dpop_def delete_conv')

lemma dget_Nil [dict_simps, simp]: "dget [] k = None"
  by (simp add: dget_def)

lemma dget_Cons [dict_simps, simp]: "dget ((k', v) # d) k = (if k' = k then Some v else dget d k)"
  by (simp add: dget_def)

lemma dkeys_dset: "set (dkeys (dset k v d)) = insert k (set (dkeys d))"
  by (simp add: dkeys_def dset_def dom_update)

lemma dget_in_dkeys: "dget d k = Some v \<Longrightarrow> k \<in> set (dkeys d)"
  by (auto simp: dget_def dkeys_def dest: map_of_SomeD intro: rev_image_eqI)

text \<open>Python's \<open>==\<close>: numbers by value (booleans are numbers), sequences of the same type
  element by element, dictionaries regardless of order.\<close>

fun py_num :: "pyval \<Rightarrow> (int \<times> nat) option" where
  "py_num (PBool b) = Some (if b then 1 else 0, 0)"
| "py_num (PInt i) = Some (i, 0)"
| "py_num (PFloat m e) = Some (m, e)"
| "py_num v = None"

fun py_eq :: "pyval \<Rightarrow> pyval \<Rightarrow> bool" where
  "py_eq (PList xs) w = (case w of PList ys \<Rightarrow> list_all2 py_eq xs ys
     | _ \<Rightarrow> False)"
| "py_eq (PTuple xs) w = (case w of PTuple ys \<Rightarrow> list_all2 py_eq xs ys
     | _ \<Rightarrow> False)"
| "py_eq (PDict d) w = (case w of PDict d' \<Rightarrow> length d = length d' \<and> (\<forall>kv \<in> set d.
       case dget d' (fst kv) of None \<Rightarrow> False | Some v' \<Rightarrow> py_eq (snd kv) v')
     | _ \<Rightarrow> False)"
| "py_eq v w = (case (py_num v, py_num w) of
     (Some (m, e), Some (m', e')) \<Rightarrow> m * 10 ^ e' = m' * 10 ^ e
   | _ \<Rightarrow> v = w)"

subsection \<open>Exceptions and effects\<close>

text \<open>
  \<open>URPError\<close> is the exception class of \<open>python/urp/errors.py\<close> (code, message, work unit,
  policy bundle, retryable, details); the other constructors are the built-in exceptions
  the modelled code raises, with their message where the code composes one; \<open>OtherError\<close>
  is an exception of any other class, named.
\<close>

datatype py_exc =
    ValueError string
  | KeyError string
  | TypeError string
  | IndexError
  | FileNotFoundError string
  | RuntimeError string
  | RecursionError
  | OtherError string
  | URPError string string "string option" "string option" bool pydict

type_synonym 'a res = "py_exc + 'a"
type_synonym ('a, 's) sres = "'s \<Rightarrow> 'a res \<times> 's"

fun bindR :: "'a res \<Rightarrow> ('a \<Rightarrow> 'b res) \<Rightarrow> 'b res" where
  "bindR (Inl e) f = Inl e"
| "bindR (Inr x) f = f x"

fun map_res :: "('a \<Rightarrow> 'b) \<Rightarrow> 'a res \<Rightarrow> 'b res" where
  "map_res f (Inl e) = Inl e"
| "map_res f (Inr x) = Inr (f x)"

fun seq_res :: "'a res list \<Rightarrow> 'a list res" where
  "seq_res [] = Inr []"
| "seq_res (Inl e # rs) = Inl e"
| "seq_res (Inr x # rs) = map_res (Cons x) (seq_res rs)"

definition guardR :: "bool \<Rightarrow> py_exc \<Rightarrow> unit res" where
  "guardR ok e = (if ok then Inr () else Inl e)"

definition retS :: "'a \<Rightarrow> ('a, 's) sres" where
  "retS x = (\<lambda>s. (Inr x, s))"

definition raiseS :: "py_exc \<Rightarrow> ('a, 's) sres" where
  "raiseS e = (\<lambda>s. (Inl e, s))"

definition liftR :: "'a res \<Rightarrow> ('a, 's) sres" where
  "liftR r = (\<lambda>s. (r, s))"

definition bindS :: "('a, 's) sres \<Rightarrow> ('a \<Rightarrow> ('b, 's) sres) \<Rightarrow> ('b, 's) sres" where
  "bindS m f = (\<lambda>s. case m s of (Inl e, s') \<Rightarrow> (Inl e, s') | (Inr x, s') \<Rightarrow> f x s')"

definition thenS :: "('a, 's) sres \<Rightarrow> ('b, 's) sres \<Rightarrow> ('b, 's) sres" where
  "thenS m n = bindS m (\<lambda>_. n)"

fun mapS :: "('a \<Rightarrow> ('b, 's) sres) \<Rightarrow> 'a list \<Rightarrow> ('b list, 's) sres" where
  "mapS f [] = retS []"
| "mapS f (x # xs) = bindS (f x) (\<lambda>y. bindS (mapS f xs) (\<lambda>ys. retS (y # ys)))"

lemma bindR_Inr [effect_simps]:
  "(bindR r f = Inr y) = (\<exists>x. r = Inr x \<and> f x = Inr y)"
  by (cases r) auto

lemma map_res_Inr [effect_simps]:
  "(map_res f r = Inr y) = (\<exists>x. r = Inr x \<and> y = f x)"
  by (cases r) auto

lemma guardR_Inr [effect_simps]: "(guardR ok e = Inr u) = ok"
  by (simp add: guardR_def)

lemma guardR_simps [simp]: "guardR True e = Inr ()" "guardR False e = Inl e"
  by (simp_all add: guardR_def)

lemma bindS_Inr [effect_simps]:
  "(bindS m f s = (Inr y, s'')) = (\<exists>x s'. m s = (Inr x, s') \<and> f x s' = (Inr y, s''))"
  by (auto simp: bindS_def split: prod.splits sum.splits)

lemma retS_eq [effect_simps]: "(retS x s = (r, s')) = (r = Inr x \<and> s' = s)"
  by (auto simp: retS_def)

lemma raiseS_eq [effect_simps]: "(raiseS e s = (r, s')) = (r = Inl e \<and> s' = s)"
  by (auto simp: raiseS_def)

lemma liftR_eq [effect_simps]: "(liftR x s = (r, s')) = (x = r \<and> s' = s)"
  by (auto simp: liftR_def)

lemma thenS_Inr [effect_simps]:
  "(thenS m n s = (Inr y, s'')) = (\<exists>x s'. m s = (Inr x, s') \<and> n s' = (Inr y, s''))"
  by (simp add: thenS_def bindS_Inr)

lemma bindS_step [simp]: "m s = (Inr x, s') \<Longrightarrow> bindS m f s = f x s'"
  by (simp add: bindS_def)

lemma bindS_fail [simp]: "m s = (Inl e, s') \<Longrightarrow> bindS m f s = (Inl e, s')"
  by (simp add: bindS_def)

lemma seq_res_map_Inr: "(\<And>x. x \<in> set xs \<Longrightarrow> f x = Inr (g x)) \<Longrightarrow> seq_res (map f xs) = Inr (map g xs)"
  by (induction xs) auto

end
