(* ===== verification/Json.thy ===== *)
theory Json
  imports PyVal
begin

text \<open>
  The text forms of values: \<open>str\<close>/\<open>repr\<close>, the JSON text \<open>json.dumps(..., sort_keys=True,
  default=str)\<close> prints, base64, and on top of them \<open>stable_json_hash\<close> of
  \<open>python/urp/contracts.py\<close> and the payload envelope of \<open>python/urp/encoding.py\<close>.
\<close>

subsection \<open>Text of values\<close>

fun join :: "string \<Rightarrow> string list \<Rightarrow> string" where
  "join sep [] = []"
| "join sep [x] = x"
| "join sep (x # y # xs) = x @ sep @ join sep (y # xs)"

definition pad_zeros :: "nat \<Rightarrow> string \<Rightarrow> string" where
  "pad_zeros n s = replicate (n - length s) (CHR ''0'') @ s"

definition show_float :: "int \<Rightarrow> nat \<Rightarrow> string" where
  "show_float m e =
     (let ds = pad_zeros (Suc e) (show_nat (nat \<bar>m\<bar>)); k = length ds - e
      in (if m < 0 then ''-'' else []) @ take k ds @ ''.'' @ (if e = 0 then ''0'' else drop k ds))"

definition hex_escape :: "nat \<Rightarrow> string" where
  "hex_escape n = [hex_digit (n div 16), hex_digit (n mod 16)]"

definition repr_char :: "char \<Rightarrow> char \<Rightarrow> string" where
  "repr_char q c = (let n = (of_char c :: nat) in
     if c = q \<or> n = 92 then [CHR 0x5C, c]
     else if n = 10 then [CHR 0x5C, CHR ''n'']
     else if n = 13 then [CHR 0x5C, CHR ''r'']
     else if n = 9 then [CHR 0x5C, CHR ''t'']
     else if n < 32 \<or> (126 < n \<and> n < 161) \<or> n = 173 then [CHR 0x5C, CHR ''x''] @ hex_escape n
     else [c])"

definition repr_quote :: "string \<Rightarrow> char" where
  "repr_quote s = (if CHR 0x27 \<in> set s \<and> CHR 0x22 \<notin> set s then CHR 0x22 else CHR 0x27)"

definition repr_str :: "string \<Rightarrow> string" where
  "repr_str s = (let q = repr_quote s in q # concat (map (repr_char q) s) @ [q])"

definition repr_byte :: "char \<Rightarrow> char \<Rightarrow> string" where
  "repr_byte q c = (let n = (of_char c :: nat) in
     if c = q \<or> n = 92 then [CHR 0x5C, c]
     else if n = 10 then [CHR 0x5C, CHR ''n'']
     else if n = 13 then [CHR 0x5C, CHR ''r'']
     else if n = 9 then [CHR 0x5C, CHR ''t'']
     else if n < 32 \<or> 126 < n then [CHR 0x5C, CHR ''x''] @ hex_escape n
     else [c])"

definition repr_bytes :: "bytes \<Rightarrow> string" where
  "repr_bytes bs = (let s = map (\<lambda>b. char_of (unat b)) bs; q = repr_quote s
     in CHR ''b'' # q # concat (map (repr_byte q) s) @ [q])"

fun py_repr :: "pyval \<Rightarrow> string" where
  "py_repr PNone = ''None''"
| "py_repr (PBool b) = (if b then ''True'' else ''False'')"
| "py_repr (PInt i) = show_int i"
| "py_repr (PFloat m e) = show_float m e"
| "py_repr (PStr s) = repr_str s"
| "py_repr (PBytes b) = repr_bytes b"
| "py_repr (PList xs) = ''['' @ join '', '' (map py_repr xs) @ '']''"
| "py_repr (PTuple [x]) = ''('' @ py_repr x @ '',)''"
| "py_repr (PTuple xs) = ''('' @ join '', '' (map py_repr xs) @ '')''"
| "py_repr (PDict d) = ''{'' @ join '', '' (map (\<lambda>kv. repr_str (fst kv) @ '': '' @ py_repr (snd kv)) d) @ ''}''"

fun py_str :: "pyval \<Rightarrow> string" where
  "py_str (PStr s) = s"
| "py_str v = py_repr v"

subsection \<open>JSON text\<close>

definition json_char :: "char \<Rightarrow> string" where
  "json_char c = (let n = (of_char c :: nat) in
     if n = 34 \<or> n = 92 then [CHR 0x5C, c]
     else if n = 10 then [CHR 0x5C, CHR ''n'']
     else if n = 13 then [CHR 0x5C, CHR ''r'']
     else if n = 9 then [CHR 0x5C, CHR ''t'']
     else if n = 12 then [CHR 0x5C, CHR ''f'']
     else if n = 8 then [CHR 0x5C, CHR ''b'']
     else if n < 32 \<or> 126 < n then [CHR 0x5C, CHR ''u'', CHR ''0'', CHR ''0''] @ hex_escape n
     else [c])"

definition json_str :: "string \<Rightarrow> string" where
  "json_str s = CHR 0x22 # concat (map json_char s) @ [CHR 0x22]"

text \<open>
  \<open>json.dumps(v, sort_keys=True, separators=(isep, ksep), default=str)\<close>: a value JSON has
  no form for (only bytes here) is printed as the string \<open>str\<close> gives.
\<close>

fun dumps :: "string \<Rightarrow> string \<Rightarrow> pyval \<Rightarrow> string" where
  "dumps isep ksep PNone = ''null''"
| "dumps isep ksep (PBool b) = (if b then ''true'' else ''false'')"
| "dumps isep ksep (PInt i) = show_int i"
| "dumps isep ksep (PFloat m e) = show_float m e"
| "dumps isep ksep (PStr s) = json_str s"
| "dumps isep ksep (PBytes b) = json_str (repr_bytes b)"
| "dumps isep ksep (PList xs) = ''['' @ join isep (map (dumps isep ksep) xs) @ '']''"
| "dumps isep ksep (PTuple xs) = ''['' @ join isep (map (dumps isep ksep) xs) @ '']''"
| "dumps isep ksep (PDict d) =
     ''{'' @ join isep (map (\<lambda>p. json_str (fst p) @ ksep @ snd p)
        (sort_key fst (map (\<lambda>kv. (fst kv, dumps isep ksep (snd kv))) d))) @ ''}''"

definition stable_json :: "pyval \<Rightarrow> string" where
  "stable_json v = dumps '','' '':'' v"

definition stable_json_hash :: "pyval \<Rightarrow> string" where
  "stable_json_hash v = sha256_hex (utf8 (stable_json v))"

subsection \<open>Base64\<close>

definition b64_char :: "nat \<Rightarrow> char" where
  "b64_char n = char_of (if n < 26 then 65 + n else if n < 52 then 71 + n
     else if n < 62 then n - 4 else if n = 62 then 43 else (47::nat))"

definition b64_val :: "char \<Rightarrow> nat option" where
  "b64_val c = (let n = (of_char c :: nat) in
     if 65 \<le> n \<and> n \<le> 90 then Some (n - 65)
     else if 97 \<le> n \<and> n \<le> 122 then Some (n - 71)
     else if 48 \<le> n \<and> n \<le> 57 then Some (n + 4)
     else if n = 43 then Some 62 else if n = 47 then Some 63 else None)"

fun b64encode :: "bytes \<Rightarrow> string" where
  "b64encode [] = []"
| "b64encode [a] = (let n = unat a * 16 in [b64_char (n div 64), b64_char (n mod 64)] @ ''=='')"
| "b64encode [a, b] = (let n = (unat a * 256 + unat b) * 4 in
     [b64_char (n div 4096), b64_char (n div 64 mod 64), b64_char (n mod 64)] @ ''='')"
| "b64encode (a # b # c # bs) = (let n = unat a * 65536 + unat b * 256 + unat c in
     [b64_char (n div 262144), b64_char (n div 4096 mod 64), b64_char (n div 64 mod 64), b64_char (n mod 64)]
     @ b64encode bs)"

text \<open>
  \<open>base64.b64decode(s, validate=True)\<close>: groups of four characters of the alphabet, with
  padding only in the last group; \<open>None\<close> is the \<open>binascii.Error\<close>.
\<close>

fun b64decode :: "string \<Rightarrow> bytes option" where
  "b64decode [] = Some []"
| "b64decode (w # x # y # z # cs) =
     (case (b64_val w, b64_val x) of
        (Some p, Some q) \<Rightarrow>
          (if y = CHR ''='' \<and> z = CHR ''='' \<and> cs = [] then Some [of_nat ((p * 64 + q) div 16)]
           else case b64_val y of None \<Rightarrow> None
           | Some r \<Rightarrow>
               (if z = CHR ''='' \<and> cs = [] then
                  (let n = (p * 4096 + q * 64 + r) div 4 in Some [of_nat (n div 256), of_nat (n mod 256)])
                else case b64_val z of None \<Rightarrow> None
                | Some s \<Rightarrow>
                    (let n = p * 262144 + q * 4096 + r * 64 + s in
                     map_option (\<lambda>bs. of_nat (n div 65536) # of_nat (n div 256 mod 256) # of_nat (n mod 256) # bs)
                       (b64decode cs))))
      | _ \<Rightarrow> None)"
| "b64decode cs = None"

lemma b64_val_char: "n < 64 \<Longrightarrow> b64_val (b64_char n) = Some n"
  by (auto simp: b64_val_def b64_char_def Let_def of_char_of)

lemma b64_char_not_pad: "n < 64 \<Longrightarrow> b64_char n \<noteq> CHR ''=''"
proof
  assume "n < 64" and "b64_char n = CHR ''=''"
  then have "b64_val (CHR ''='') = Some n" using b64_val_char by metis
  then show False by (simp add: b64_val_def)
qed

lemma byte_bound: "unat (b::byte) < 256"
proof -
  have "unat b < 2 ^ LENGTH(8)" by (rule unsigned_less)
  then show ?thesis by simp
qed

lemma base64_digits3: "n div 4096 * 4096 + n div 64 mod 64 * 64 + n mod 64 = (n::nat)"
proof -
  have "n div 64 div 64 = n div 4096" by simp
  with div_mult_mod_eq [of "n div 64" 64] div_mult_mod_eq [of n 64] show ?thesis by linarith
qed

lemma base64_digits4:
  "n div 262144 * 262144 + n div 4096 mod 64 * 4096 + n div 64 mod 64 * 64 + n mod 64 = (n::nat)"
proof -
  have "n div 4096 div 64 = n div 262144" by simp
  with div_mult_mod_eq [of "n div 4096" 64] base64_digits3 [of n] show ?thesis by linarith
qed

lemma base256_digits:
  assumes "b < 256" and "c < (256::nat)"
  shows "(a * 65536 + b * 256 + c) div 65536 = a"
    and "(a * 65536 + b * 256 + c) div 256 mod 256 = b"
    and "(a * 65536 + b * 256 + c) mod 256 = c"
proof -
  have eq: "a * 65536 + b * 256 + c = (a * 256 + b) * 256 + c" by simp
  have d: "(a * 65536 + b * 256 + c) div 256 = a * 256 + b"
    unfolding eq using div_mult_self3 [of 256 c "a * 256 + b"] assms(2) by simp
  show "(a * 65536 + b * 256 + c) mod 256 = c"
    unfolding eq mod_mult_self3 by (rule mod_less [OF assms(2)])
  show "(a * 65536 + b * 256 + c) div 256 mod 256 = b" unfolding d using assms by simp
  have "(a * 65536 + b * 256 + c) div 65536 = (a * 65536 + b * 256 + c) div 256 div 256" by simp
  also have "\<dots> = a" unfolding d using assms by simp
  finally show "(a * 65536 + b * 256 + c) div 65536 = a" .
qed

theorem b64_roundtrip: "b64decode (b64encode bs) = Some bs"
proof (induction bs rule: b64encode.induct)
  case 1
  then show ?case by simp
next
  case (2 a)
  have "unat a * 16 div 64 < 64" using byte_bound [of a] by simp
  moreover have "(unat a * 16 div 64 * 64 + unat a * 16 mod 64) div 16 = unat a"
    by (simp only: div_mult_mod_eq)
  ultimately show ?case
    by (simp add: Let_def b64_val_char del: div_mult_mult1 div_mult_mult2 div_mult2_numeral_eq)
next
  case (3 a b)
  define n where "n = (unat a * 256 + unat b) * 4"
  have n: "n < 262144" using byte_bound [of a] byte_bound [of b] by (simp add: n_def)
  have rec: "n div 4096 * 4096 + n div 64 mod 64 * 64 + n mod 64 = n" by (rule base64_digits3)
  have "n div 4 = unat a * 256 + unat b" by (simp add: n_def)
  then have "n div 4 div 256 = unat a" "n div 4 mod 256 = unat b" using byte_bound [of b] by auto
  then show ?case using n rec unfolding b64encode.simps Let_def n_def [symmetric]
    by (simp add: Let_def b64_val_char b64_char_not_pad)
next
  case (4 a b c bs)
  define n where "n = unat a * 65536 + unat b * 256 + unat c"
  have n: "n < 16777216"
    using byte_bound [of a] byte_bound [of b] byte_bound [of c] by (simp add: n_def)
  have rec: "n div 262144 * 262144 + n div 4096 mod 64 * 4096 + n div 64 mod 64 * 64 + n mod 64 = n"
    by (rule base64_digits4)
  have "n div 65536 = unat a" "n div 256 mod 256 = unat b" "n mod 256 = unat c"
    using base256_digits [of "unat b" "unat c" "unat a"] byte_bound [of b] byte_bound [of c]
    by (simp_all add: n_def)
  then show ?case using n rec "4.IH" unfolding b64encode.simps Let_def n_def [symmetric]
    by (simp add: Let_def b64_val_char b64_char_not_pad)
qed

subsection \<open>The payload envelope\<close>

text \<open>
  \<open>encode_json_value\<close> replaces bytes by a two-key object; \<open>decode_json_value\<close> recognises
  exactly that object and otherwise rebuilds the value.
\<close>

definition ENCODING_KEY :: string where
  "ENCODING_KEY = ''_urp_encoding''"

fun encode_json_value :: "pyval \<Rightarrow> pyval" where
  "encode_json_value (PBytes b) =
     PDict [(ENCODING_KEY, PStr ''base64''), (''data'', PStr (b64encode b))]"
| "encode_json_value (PDict d) = PDict (map (\<lambda>kv. (fst kv, encode_json_value (snd kv))) d)"
| "encode_json_value (PList xs) = PList (map encode_json_value xs)"
| "encode_json_value (PTuple xs) = PList (map encode_json_value xs)"
| "encode_json_value v = v"

definition is_envelope :: "pydict \<Rightarrow> bool" where
  "is_envelope d = (set (dkeys d) = {ENCODING_KEY, ''data''}
     \<and> dget d ENCODING_KEY = Some (PStr ''base64''))"

fun decode_json_value :: "pyval \<Rightarrow> pyval res" where
  "decode_json_value (PDict d) =
     (if is_envelope d then
        (case b64decode (case dget d ''data'' of Some v \<Rightarrow> py_str v | None \<Rightarrow> []) of
           Some b \<Rightarrow> Inr (PBytes b)
         | None \<Rightarrow> Inl (ValueError ''invalid URP base64 payload envelope''))
      else map_res (\<lambda>vs. PDict (zip (dkeys d) vs))
             (seq_res (map (\<lambda>kv. decode_json_value (snd kv)) d)))"
| "decode_json_value (PList xs) = map_res PList (seq_res (map decode_json_value xs))"
| "decode_json_value v = Inr v"

text \<open>What JSON keeps of a value: tuples become lists. And the values that carry no
  object an encoded byte string could be confused with.\<close>

fun untuple :: "pyval \<Rightarrow> pyval" where
  "untuple (PDict d) = PDict (map (\<lambda>kv. (fst kv, untuple (snd kv))) d)"
| "untuple (PList xs) = PList (map untuple xs)"
| "untuple (PTuple xs) = PList (map untuple xs)"
| "untuple v = v"

fun envelope_free :: "pyval \<Rightarrow> bool" where
  "envelope_free (PDict d) = (set (dkeys d) \<noteq> {ENCODING_KEY, ''data''}
     \<and> (\<forall>kv \<in> set d. envelope_free (snd kv)))"
| "envelope_free (PList xs) = (\<forall>x \<in> set xs. envelope_free x)"
| "envelope_free (PTuple xs) = (\<forall>x \<in> set xs. envelope_free x)"
| "envelope_free v = True"

lemma decode_encode:
  "envelope_free v \<Longrightarrow> decode_json_value (encode_json_value v) = Inr (untuple v)"
proof (induction v rule: encode_json_value.induct)
  case (1 b)
  have "is_envelope [(ENCODING_KEY, PStr ''base64''), (''data'', PStr (b64encode b))]"
    by (simp add: is_envelope_def dkeys_def)
  moreover have "ENCODING_KEY \<noteq> ''data''" by (simp add: ENCODING_KEY_def)
  ultimately show ?case by (simp add: b64_roundtrip)
next
  case (2 d)
  let ?e = "map (\<lambda>kv. (fst kv, encode_json_value (snd kv))) d"
  have keys: "dkeys ?e = dkeys d" by (simp add: dkeys_def comp_def)
  then have "\<not> is_envelope ?e" using "2.prems" by (simp add: is_envelope_def)
  moreover have "seq_res (map (\<lambda>kv. decode_json_value (encode_json_value (snd kv))) d)
      = Inr (map (\<lambda>kv. untuple (snd kv)) d)"
    using 2 by (intro seq_res_map_Inr) auto
  moreover have "zip (dkeys d) (map (\<lambda>kv. untuple (snd kv)) d) = map (\<lambda>kv. (fst kv, untuple (snd kv))) d"
    by (simp add: dkeys_def zip_map_map zip_same_conv_map)
  ultimately show ?case by (simp add: keys comp_def)
next
  case (3 xs)
  then show ?case by (simp add: comp_def seq_res_map_Inr [where g = untuple])
next
  case (4 xs)
  then show ?case by (simp add: comp_def seq_res_map_Inr [where g = untuple])
qed auto

text \<open>
  Every value free of the reserved two-key object survives the payload
  envelope: decoding the encoded value gives the value back, with tuples read back as lists
  and every byte string restored exactly.
\<close>

theorem payload_envelope_roundtrip:
  assumes "envelope_free v"
  shows "decode_json_value (encode_json_value v) = Inr (untuple v)"
  using assms by (rule decode_encode)

theorem payload_envelope_roundtrip_witness:
  "decode_json_value (encode_json_value (PDict [(''body'', PBytes [0, 255]), (''n'', PTuple [PInt 3])]))
     = Inr (PDict [(''body'', PBytes [0, 255]), (''n'', PList [PInt 3])])"
proof -
  let ?v = "PDict [(''body'', PBytes [0, 255]), (''n'', PTuple [PInt 3])]"
  have "envelope_free ?v" by (simp add: dkeys_def ENCODING_KEY_def doubleton_eq_iff)
  from payload_envelope_roundtrip [OF this] show ?thesis by simp
qed

text \<open>The restriction is needed: an object a caller builds with the two reserved keys is
  taken for an encoded byte string.\<close>

lemma reserved_object_is_decoded:
  "decode_json_value (encode_json_value (PDict [(ENCODING_KEY, PStr ''base64''), (''data'', PStr [])]))
     = Inr (PBytes [])"
  by (simp add: is_envelope_def dkeys_def ENCODING_KEY_def)

end
