(* ===== verification/Contracts.thy ===== *)
theory Contracts
  imports Json
begin

text \<open>
  The data model of \<open>python/urp/contracts.py\<close>: preservation contracts, work unit kinds,
  work units, plans, manifests and ledger events, with their dictionary forms and the event
  hash that chains the ledger. Random identifiers and the clock are inputs: a constructor
  that draws a fresh identifier or reads the time takes it as an argument.
\<close>

subsection \<open>Enumerations\<close>

datatype contract =
    EXACT_BYTES | EXACT_LOGICAL | BOUNDED_APPROX | SEMANTIC | DERIVED | TOMBSTONE

fun contract_value :: "contract \<Rightarrow> string" where
  "contract_value EXACT_BYTES = ''exact_bytes''"
| "contract_value EXACT_LOGICAL = ''exact_logical''"
| "contract_value BOUNDED_APPROX = ''bounded_approx''"
| "contract_value SEMANTIC = ''semantic''"
| "contract_value DERIVED = ''derived''"
| "contract_value TOMBSTONE = ''tombstone''"

definition contracts :: "contract list" where
  "contracts = [EXACT_BYTES, EXACT_LOGICAL, BOUNDED_APPROX, SEMANTIC, DERIVED, TOMBSTONE]"

definition contract_of :: "string \<Rightarrow> contract res" where
  "contract_of s = (case find (\<lambda>c. contract_value c = s) contracts of
     Some c \<Rightarrow> Inr c | None \<Rightarrow> Inl (ValueError (repr_str s @ '' is not a valid Contract'')))"

datatype work_unit_kind =
    BYTE_OBJECT | FILE | DIRECTORY_SNAPSHOT | BLOCK_EXTENT
  | BACKUP_SNAPSHOT | CONTAINER_LAYER | STRUCTURED_FILE | TABLE_SNAPSHOT
  | TABLE_ROW_GROUP | STREAM_SEGMENT | EVENT_BATCH | METRIC_SERIES
  | TRACE_BATCH | LOG_BATCH | MEDIA_ASSET | IMAGE_ASSET
  | VIDEO_ASSET | AUDIO_ASSET | DOCUMENT_ASSET | VECTOR_INDEX_SEGMENT
  | EMBEDDING_REQUEST | EMBEDDING_BATCH | PROMPT_REQUEST | COMPLETION_RESPONSE
  | CHAT_SESSION | AGENT_STEP | TOOL_CALL | RAG_CONTEXT_PACK
  | TRAINING_DATASET | EVALUATION_JOB | MODEL_CHECKPOINT | ADAPTER_ARTIFACT
  | FINE_TUNE_JOB | INFERENCE_BATCH | KV_CACHE_SEGMENT | SYNTHETIC_DATA_JOB
  | BATCH_COMPUTE_JOB | LIFECYCLE_TRANSITION | DELETION_CANDIDATE | REHYDRATION_REQUEST
  | POLICY_OVERRIDE | PLUGIN_ACTION

fun kind_value :: "work_unit_kind \<Rightarrow> string" where
  "kind_value BYTE_OBJECT = ''byte_object''"
| "kind_value FILE = ''file''"
| "kind_value DIRECTORY_SNAPSHOT = ''directory_snapshot''"
| "kind_value BLOCK_EXTENT = ''block_extent''"
| "kind_value BACKUP_SNAPSHOT = ''backup_snapshot''"
| "kind_value CONTAINER_LAYER = ''container_layer''"
| "kind_value STRUCTURED_FILE = ''structured_file''"
| "kind_value TABLE_SNAPSHOT = ''table_snapshot''"
| "kind_value TABLE_ROW_GROUP = ''table_row_group''"
| "kind_value STREAM_SEGMENT = ''stream_segment''"
| "kind_value EVENT_BATCH = ''event_batch''"
| "kind_value METRIC_SERIES = ''metric_series''"
| "kind_value TRACE_BATCH = ''trace_batch''"
| "kind_value LOG_BATCH = ''log_batch''"
| "kind_value MEDIA_ASSET = ''media_asset''"
| "kind_value IMAGE_ASSET = ''image_asset''"
| "kind_value VIDEO_ASSET = ''video_asset''"
| "kind_value AUDIO_ASSET = ''audio_asset''"
| "kind_value DOCUMENT_ASSET = ''document_asset''"
| "kind_value VECTOR_INDEX_SEGMENT = ''vector_index_segment''"
| "kind_value EMBEDDING_REQUEST = ''embedding_request''"
| "kind_value EMBEDDING_BATCH = ''embedding_batch''"
| "kind_value PROMPT_REQUEST = ''prompt_request''"
| "kind_value COMPLETION_RESPONSE = ''completion_response''"
| "kind_value CHAT_SESSION = ''chat_session''"
| "kind_value AGENT_STEP = ''agent_step''"
| "kind_value TOOL_CALL = ''tool_call''"
| "kind_value RAG_CONTEXT_PACK = ''rag_context_pack''"
| "kind_value TRAINING_DATASET = ''training_dataset''"
| "kind_value EVALUATION_JOB = ''evaluation_job''"
| "kind_value MODEL_CHECKPOINT = ''model_checkpoint''"
| "kind_value ADAPTER_ARTIFACT = ''adapter_artifact''"
| "kind_value FINE_TUNE_JOB = ''fine_tune_job''"
| "kind_value INFERENCE_BATCH = ''inference_batch''"
| "kind_value KV_CACHE_SEGMENT = ''kv_cache_segment''"
| "kind_value SYNTHETIC_DATA_JOB = ''synthetic_data_job''"
| "kind_value BATCH_COMPUTE_JOB = ''batch_compute_job''"
| "kind_value LIFECYCLE_TRANSITION = ''lifecycle_transition''"
| "kind_value DELETION_CANDIDATE = ''deletion_candidate''"
| "kind_value REHYDRATION_REQUEST = ''rehydration_request''"
| "kind_value POLICY_OVERRIDE = ''policy_override''"
| "kind_value PLUGIN_ACTION = ''plugin_action''"

definition work_unit_kinds :: "work_unit_kind list" where
  "work_unit_kinds = [
    BYTE_OBJECT, FILE, DIRECTORY_SNAPSHOT, BLOCK_EXTENT,
    BACKUP_SNAPSHOT, CONTAINER_LAYER, STRUCTURED_FILE, TABLE_SNAPSHOT,
    TABLE_ROW_GROUP, STREAM_SEGMENT, EVENT_BATCH, METRIC_SERIES,
    TRACE_BATCH, LOG_BATCH, MEDIA_ASSET, IMAGE_ASSET,
    VIDEO_ASSET, AUDIO_ASSET, DOCUMENT_ASSET, VECTOR_INDEX_SEGMENT,
    EMBEDDING_REQUEST, EMBEDDING_BATCH, PROMPT_REQUEST, COMPLETION_RESPONSE,
    CHAT_SESSION, AGENT_STEP, TOOL_CALL, RAG_CONTEXT_PACK,
    TRAINING_DATASET, EVALUATION_JOB, MODEL_CHECKPOINT, ADAPTER_ARTIFACT,
    FINE_TUNE_JOB, INFERENCE_BATCH, KV_CACHE_SEGMENT, SYNTHETIC_DATA_JOB,
    BATCH_COMPUTE_JOB, LIFECYCLE_TRANSITION, DELETION_CANDIDATE, REHYDRATION_REQUEST,
    POLICY_OVERRIDE, PLUGIN_ACTION]"

definition kind_of :: "string \<Rightarrow> work_unit_kind res" where
  "kind_of s = (case find (\<lambda>k. kind_value k = s) work_unit_kinds of
     Some k \<Rightarrow> Inr k | None \<Rightarrow> Inl (ValueError (repr_str s @ '' is not a valid WorkUnitKind'')))"

lemma contract_of_value [simp]: "contract_of (contract_value c) = Inr c"
  by (cases c) (simp_all add: contract_of_def contracts_def)

lemma kind_of_value [simp]: "kind_of (kind_value k) = Inr k"
  by (cases k) (simp_all add: kind_of_def work_unit_kinds_def)

lemma contract_value_inject [simp]: "(contract_value c = contract_value d) = (c = d)"
  by (metis contract_of_value sum.inject(2))

lemma kind_value_inject [simp]: "(kind_value k = kind_value l) = (k = l)"
  by (metis kind_of_value sum.inject(2))

subsection \<open>Reading dynamic fields\<close>

text \<open>
  The dataclasses hold typed fields; \<open>from_dict\<close> reads them from a dictionary of dynamic
  values. A value of another type than the annotated one is a \<open>TypeError\<close> of the model
  (the dataclasses do not check it).
\<close>

definition opt_value :: "string option \<Rightarrow> pyval" where
  "opt_value o' = (case o' of None \<Rightarrow> PNone | Some s \<Rightarrow> PStr s)"

definition item :: "pydict \<Rightarrow> string \<Rightarrow> pyval res" where
  "item d k = (case dget d k of None \<Rightarrow> Inl (KeyError k) | Some v \<Rightarrow> Inr v)"

definition get_value :: "pydict \<Rightarrow> string \<Rightarrow> pyval" where
  "get_value d k = (case dget d k of None \<Rightarrow> PNone | Some v \<Rightarrow> v)"

definition get_default :: "pydict \<Rightarrow> string \<Rightarrow> pyval \<Rightarrow> pyval" where
  "get_default d k v0 = (case dget d k of None \<Rightarrow> v0 | Some v \<Rightarrow> v)"

fun as_str :: "pyval \<Rightarrow> string res" where
  "as_str (PStr s) = Inr s"
| "as_str v = Inl (TypeError ''str expected'')"

fun as_opt_str :: "pyval \<Rightarrow> string option res" where
  "as_opt_str PNone = Inr None"
| "as_opt_str (PStr s) = Inr (Some s)"
| "as_opt_str v = Inl (TypeError ''str or None expected'')"

text \<open>\<open>dict(x or {})\<close> and \<open>list(x or [])\<close>.\<close>

definition dict_or_empty :: "pyval \<Rightarrow> pydict res" where
  "dict_or_empty v = (if \<not> truthy v then Inr [] else case v of PDict d \<Rightarrow> Inr d
     | _ \<Rightarrow> Inl (TypeError ''cannot convert to dict''))"

definition list_or_empty :: "pyval \<Rightarrow> pyval list res" where
  "list_or_empty v = (if \<not> truthy v then Inr [] else case v of PList xs \<Rightarrow> Inr xs
     | PTuple xs \<Rightarrow> Inr xs | PStr s \<Rightarrow> Inr (map (\<lambda>c. PStr [c]) s)
     | PBytes b \<Rightarrow> Inr (map (\<lambda>x. PInt (uint x)) b) | PDict d \<Rightarrow> Inr (map PStr (dkeys d))
     | _ \<Rightarrow> Inl (TypeError ''cannot convert to list''))"

text \<open>\<open>x or fallback\<close> for a string field.\<close>

definition str_or :: "pyval \<Rightarrow> string \<Rightarrow> string res" where
  "str_or v fallback = (if truthy v then as_str v else Inr fallback)"

text \<open>\<open>int(x)\<close>.\<close>

definition digits_value :: "string \<Rightarrow> nat option" where
  "digits_value s = (if s \<noteq> [] \<and> list_all (\<lambda>c. CHR ''0'' \<le> c \<and> c \<le> CHR ''9'') s
     then Some (foldl (\<lambda>a c. 10 * a + (of_char c - 48)) 0 s) else None)"

fun py_int :: "pyval \<Rightarrow> int res" where
  "py_int (PInt i) = Inr i"
| "py_int (PBool b) = Inr (if b then 1 else 0)"
| "py_int (PFloat m e) = Inr (if m < 0 then - ((- m) div 10 ^ e) else m div 10 ^ e)"
| "py_int (PStr s) = (case digits_value s of Some n \<Rightarrow> Inr (int n)
     | None \<Rightarrow> (case s of c # cs \<Rightarrow>
          (case (c = CHR ''-'', digits_value cs) of (True, Some n) \<Rightarrow> Inr (- int n)
           | _ \<Rightarrow> Inl (ValueError ''invalid literal for int()''))
        | [] \<Rightarrow> Inl (ValueError ''invalid literal for int()'')))"
| "py_int v = Inl (TypeError ''int() argument must be a string or a number'')"

lemmas read_defs = item_def get_value_def get_default_def dict_or_empty_def list_or_empty_def
  str_or_def opt_value_def

lemma as_opt_str_opt_value [simp]: "as_opt_str (opt_value x) = Inr x"
  by (cases x) (simp_all add: opt_value_def)

lemma dict_or_empty_PDict [simp]: "dict_or_empty (PDict d) = Inr d"
  by (simp add: dict_or_empty_def)

lemma str_or_PStr [simp]: "s \<noteq> [] \<Longrightarrow> str_or (PStr s) t = Inr s"
  by (simp add: str_or_def)

subsection \<open>Work units\<close>

record work_unit =
  wu_kind :: work_unit_kind
  wu_tenant :: string
  wu_logical_ref :: string
  wu_payload :: pyval
  wu_requested_contract :: "contract option"
  wu_namespace :: string
  wu_metadata :: pydict
  wu_policy_context :: pydict
  wu_trace_id :: string
  wu_id :: string
  wu_created_at :: string
  wu_payload_ref :: pyval
  wu_effective_contract :: "contract option"
  wu_deadline :: "string option"
  wu_latency_budget_ms :: "int option"
  wu_quality_target :: pydict

definition opt_contract :: "contract option \<Rightarrow> pyval" where
  "opt_contract c = opt_value (map_option contract_value c)"

definition opt_int :: "int option \<Rightarrow> pyval" where
  "opt_int i = (case i of None \<Rightarrow> PNone | Some n \<Rightarrow> PInt n)"

definition work_unit_to_dict :: "work_unit \<Rightarrow> pydict" where
  "work_unit_to_dict wu = [
     (''kind'', PStr (kind_value (wu_kind wu))),
     (''tenant'', PStr (wu_tenant wu)),
     (''logical_ref'', PStr (wu_logical_ref wu)),
     (''payload'', wu_payload wu),
     (''requested_contract'', opt_contract (wu_requested_contract wu)),
     (''namespace'', PStr (wu_namespace wu)),
     (''metadata'', PDict (wu_metadata wu)),
     (''policy_context'', PDict (wu_policy_context wu)),
     (''trace_id'', PStr (wu_trace_id wu)),
     (''id'', PStr (wu_id wu)),
     (''created_at'', PStr (wu_created_at wu)),
     (''payload_ref'', wu_payload_ref wu),
     (''effective_contract'', opt_contract (wu_effective_contract wu)),
     (''deadline'', opt_value (wu_deadline wu)),
     (''latency_budget_ms'', opt_int (wu_latency_budget_ms wu)),
     (''quality_target'', PDict (wu_quality_target wu))]"

definition read_contract :: "pyval \<Rightarrow> contract option res" where
  "read_contract v = (if truthy v then bindR (as_str v) (\<lambda>s. map_res Some (contract_of s)) else Inr None)"

definition read_opt_int :: "pyval \<Rightarrow> int option res" where
  "read_opt_int v = (if v = PNone then Inr None else map_res Some (py_int v))"

text \<open>\<open>fresh_tr\<close>, \<open>fresh_wu\<close> and \<open>now\<close> are what \<open>new_id("tr")\<close>, \<open>new_id("wu")\<close> and
  \<open>utc_now()\<close> return when the dictionary has no such field.\<close>

definition work_unit_from_dict :: "string \<Rightarrow> string \<Rightarrow> string \<Rightarrow> pydict \<Rightarrow> work_unit res" where
  "work_unit_from_dict fresh_tr fresh_wu now d =
     bindR (item d ''kind'') (\<lambda>v. bindR (as_str v) (\<lambda>s. bindR (kind_of s) (\<lambda>kind.
     bindR (item d ''tenant'') (\<lambda>v. bindR (as_str v) (\<lambda>tenant.
     bindR (item d ''logical_ref'') (\<lambda>v. bindR (as_str v) (\<lambda>ref.
     bindR (read_contract (get_value d ''requested_contract'')) (\<lambda>requested.
     bindR (as_str (get_default d ''namespace'' (PStr ''default''))) (\<lambda>ns.
     bindR (dict_or_empty (get_value d ''metadata'')) (\<lambda>metadata.
     bindR (dict_or_empty (get_value d ''policy_context'')) (\<lambda>context.
     bindR (str_or (get_value d ''trace_id'') fresh_tr) (\<lambda>trace.
     bindR (str_or (get_value d ''id'') fresh_wu) (\<lambda>ident.
     bindR (str_or (get_value d ''created_at'') now) (\<lambda>created.
     bindR (read_contract (get_value d ''effective_contract'')) (\<lambda>effective.
     bindR (as_opt_str (get_value d ''deadline'')) (\<lambda>deadline.
     bindR (read_opt_int (get_value d ''latency_budget_ms'')) (\<lambda>latency.
     bindR (dict_or_empty (get_value d ''quality_target'')) (\<lambda>quality.
     Inr \<lparr>wu_kind = kind, wu_tenant = tenant, wu_logical_ref = ref, wu_payload = get_value d ''payload'',
       wu_requested_contract = requested, wu_namespace = ns, wu_metadata = metadata,
       wu_policy_context = context, wu_trace_id = trace, wu_id = ident, wu_created_at = created,
       wu_payload_ref = get_value d ''payload_ref'', wu_effective_contract = effective,
       wu_deadline = deadline, wu_latency_budget_ms = latency, wu_quality_target = quality\<rparr>))))))))))))))))))"

lemma read_contract_opt [simp]: "read_contract (opt_contract c) = Inr c"
proof (cases c)
  case (Some x)
  have "contract_value x \<noteq> []" by (cases x) simp_all
  with Some show ?thesis by (simp add: read_contract_def opt_contract_def opt_value_def)
qed (simp add: read_contract_def opt_contract_def opt_value_def)

lemma read_opt_int_opt [simp]: "read_opt_int (opt_int i) = Inr i"
  by (cases i) (simp_all add: read_opt_int_def opt_int_def)

definition json_safe_work_unit :: "work_unit \<Rightarrow> pydict" where
  "json_safe_work_unit wu = (let d = work_unit_to_dict wu
     in dset ''payload'' (encode_json_value (get_value d ''payload'')) d)"

definition work_unit_from_json_safe :: "string \<Rightarrow> string \<Rightarrow> string \<Rightarrow> pydict \<Rightarrow> work_unit res" where
  "work_unit_from_json_safe fresh_tr fresh_wu now d =
     bindR (decode_json_value (get_value d ''payload'')) (\<lambda>payload.
       work_unit_from_dict fresh_tr fresh_wu now (dset ''payload'' payload d))"

lemma work_unit_json_safe_roundtrip:
  assumes "envelope_free (wu_payload wu)" "wu_trace_id wu \<noteq> []" "wu_id wu \<noteq> []" "wu_created_at wu \<noteq> []"
  shows "work_unit_from_json_safe tr ident now (json_safe_work_unit wu)
    = Inr (wu\<lparr>wu_payload := untuple (wu_payload wu)\<rparr>)"
  using assms
  by (simp add: work_unit_from_json_safe_def json_safe_work_unit_def work_unit_to_dict_def dset_def
      get_value_def decode_encode work_unit_from_dict_def item_def get_default_def)

subsection \<open>Classification and plans\<close>

text \<open>\<open>entropy_bits_per_byte\<close> is the exact Shannon entropy, a real number.\<close>

record plan_action =
  pa_type :: string
  pa_required :: bool
  pa_risk :: string
  pa_params :: pydict
  pa_reason :: string

definition plan_action_to_dict :: "plan_action \<Rightarrow> pydict" where
  "plan_action_to_dict a = [(''type'', PStr (pa_type a)), (''required'', PBool (pa_required a)),
     (''risk'', PStr (pa_risk a)), (''params'', PDict (pa_params a)), (''reason'', PStr (pa_reason a))]"

definition plan_action_from_dict :: "pyval \<Rightarrow> plan_action res" where
  "plan_action_from_dict v = (case v of PDict d \<Rightarrow>
     bindR (item d ''type'') (\<lambda>v. bindR (as_str v) (\<lambda>ty.
     bindR (as_str (get_default d ''risk'' (PStr ''low''))) (\<lambda>risk.
     bindR (dict_or_empty (get_value d ''params'')) (\<lambda>params.
     bindR (as_str (get_default d ''reason'' (PStr []))) (\<lambda>reason.
     Inr \<lparr>pa_type = ty, pa_required = truthy (get_default d ''required'' (PBool True)),
       pa_risk = risk, pa_params = params, pa_reason = reason\<rparr>)))))
   | _ \<Rightarrow> Inl (TypeError ''action must be a dict''))"

record plan =
  pl_work_unit_id :: string
  pl_contract :: contract
  pl_actions :: "plan_action list"
  pl_tenant :: "string option"
  pl_plan_id :: string
  pl_trace_id :: "string option"
  pl_mode :: string
  pl_policy_bundle_id :: string
  pl_risk :: string
  pl_expected :: pydict
  pl_fallback :: string

definition plan_to_dict :: "plan \<Rightarrow> pydict" where
  "plan_to_dict p = [
     (''plan_id'', PStr (pl_plan_id p)),
     (''work_unit_id'', PStr (pl_work_unit_id p)),
     (''tenant'', opt_value (pl_tenant p)),
     (''trace_id'', opt_value (pl_trace_id p)),
     (''contract'', PStr (contract_value (pl_contract p))),
     (''actions'', PList (map (\<lambda>a. PDict (plan_action_to_dict a)) (pl_actions p))),
     (''mode'', PStr (pl_mode p)),
     (''policy_bundle_id'', PStr (pl_policy_bundle_id p)),
     (''risk'', PStr (pl_risk p)),
     (''expected'', PDict (pl_expected p)),
     (''fallback'', PStr (pl_fallback p))]"

definition plan_from_dict :: "string \<Rightarrow> pydict \<Rightarrow> plan res" where
  "plan_from_dict fresh_pl d =
     bindR (item d ''work_unit_id'') (\<lambda>v. bindR (as_str v) (\<lambda>wu.
     bindR (item d ''contract'') (\<lambda>v. bindR (as_str v) (\<lambda>s. bindR (contract_of s) (\<lambda>c.
     bindR (case get_default d ''actions'' (PList []) of PList xs \<Rightarrow> Inr xs
              | _ \<Rightarrow> Inl (TypeError ''actions must be a list'')) (\<lambda>rows.
     bindR (seq_res (map plan_action_from_dict rows)) (\<lambda>actions.
     bindR (as_opt_str (get_value d ''tenant'')) (\<lambda>tenant.
     bindR (str_or (get_value d ''plan_id'') fresh_pl) (\<lambda>ident.
     bindR (as_opt_str (get_value d ''trace_id'')) (\<lambda>trace.
     bindR (as_str (get_default d ''mode'' (PStr ''observe''))) (\<lambda>mode.
     bindR (as_str (get_default d ''policy_bundle_id'' (PStr ''default''))) (\<lambda>bundle.
     bindR (as_str (get_default d ''risk'' (PStr ''low''))) (\<lambda>risk.
     bindR (dict_or_empty (get_value d ''expected'')) (\<lambda>expected.
     bindR (as_str (get_default d ''fallback'' (PStr ''store_exact_or_call_baseline''))) (\<lambda>fallback.
     Inr \<lparr>pl_work_unit_id = wu, pl_contract = c, pl_actions = actions, pl_tenant = tenant,
       pl_plan_id = ident, pl_trace_id = trace, pl_mode = mode, pl_policy_bundle_id = bundle,
       pl_risk = risk, pl_expected = expected, pl_fallback = fallback\<rparr>)))))))))))))))"

lemma plan_action_roundtrip [simp]: "plan_action_from_dict (PDict (plan_action_to_dict a)) = Inr a"
  by (simp add: plan_action_from_dict_def plan_action_to_dict_def read_defs)

lemma plan_roundtrip: "pl_plan_id p \<noteq> [] \<Longrightarrow> plan_from_dict ident (plan_to_dict p) = Inr p"
  by (simp add: plan_from_dict_def plan_to_dict_def item_def get_value_def get_default_def
      comp_def seq_res_map_Inr [where g = id, simplified])

subsection \<open>Manifests\<close>

record manifest =
  mf_work_unit_id :: string
  mf_tenant :: string
  mf_kind :: work_unit_kind
  mf_contract :: contract
  mf_logical_ref :: string
  mf_state :: string
  mf_namespace :: string
  mf_trace_id :: "string option"
  mf_policy :: pydict
  mf_classification :: pydict
  mf_physical :: pydict
  mf_plan :: pydict
  mf_verification :: pydict
  mf_lineage :: pydict
  mf_telemetry :: pydict
  mf_signatures :: "pyval list"
  mf_manifest_version :: string
  mf_manifest_id :: string
  mf_created_at :: string

definition manifest_to_dict :: "manifest \<Rightarrow> pydict" where
  "manifest_to_dict m = [
     (''manifest_version'', PStr (mf_manifest_version m)),
     (''manifest_id'', PStr (mf_manifest_id m)),
     (''work_unit_id'', PStr (mf_work_unit_id m)),
     (''tenant'', PStr (mf_tenant m)),
     (''kind'', PStr (kind_value (mf_kind m))),
     (''contract'', PStr (contract_value (mf_contract m))),
     (''logical_ref'', PStr (mf_logical_ref m)),
     (''namespace'', PStr (mf_namespace m)),
     (''trace_id'', opt_value (mf_trace_id m)),
     (''state'', PStr (mf_state m)),
     (''created_at'', PStr (mf_created_at m)),
     (''policy'', PDict (mf_policy m)),
     (''classification'', PDict (mf_classification m)),
     (''physical'', PDict (mf_physical m)),
     (''plan'', PDict (mf_plan m)),
     (''verification'', PDict (mf_verification m)),
     (''lineage'', PDict (mf_lineage m)),
     (''telemetry'', PDict (mf_telemetry m)),
     (''signatures'', PList (mf_signatures m))]"

definition manifest_from_dict :: "string \<Rightarrow> string \<Rightarrow> pydict \<Rightarrow> manifest res" where
  "manifest_from_dict fresh_mf now d =
     bindR (item d ''work_unit_id'') (\<lambda>v. bindR (as_str v) (\<lambda>wu.
     bindR (item d ''tenant'') (\<lambda>v. bindR (as_str v) (\<lambda>tenant.
     bindR (item d ''kind'') (\<lambda>v. bindR (as_str v) (\<lambda>s. bindR (kind_of s) (\<lambda>kind.
     bindR (item d ''contract'') (\<lambda>v. bindR (as_str v) (\<lambda>s. bindR (contract_of s) (\<lambda>c.
     bindR (as_str (get_default d ''logical_ref'' (PStr []))) (\<lambda>ref.
     bindR (as_str (get_default d ''state'' (PStr ''active''))) (\<lambda>state.
     bindR (str_or (get_value d ''namespace'') ''default'') (\<lambda>ns.
     bindR (as_opt_str (get_value d ''trace_id'')) (\<lambda>trace.
     bindR (dict_or_empty (get_value d ''policy'')) (\<lambda>policy.
     bindR (dict_or_empty (get_value d ''classification'')) (\<lambda>classification.
     bindR (dict_or_empty (get_value d ''physical'')) (\<lambda>physical.
     bindR (dict_or_empty (get_value d ''plan'')) (\<lambda>plan.
     bindR (dict_or_empty (get_value d ''verification'')) (\<lambda>verification.
     bindR (dict_or_empty (get_value d ''lineage'')) (\<lambda>lineage.
     bindR (dict_or_empty (get_value d ''telemetry'')) (\<lambda>telemetry.
     bindR (list_or_empty (get_value d ''signatures'')) (\<lambda>signatures.
     bindR (as_str (get_default d ''manifest_version'' (PStr ''urp.manifest.v1''))) (\<lambda>version.
     bindR (str_or (get_value d ''manifest_id'') fresh_mf) (\<lambda>ident.
     bindR (str_or (get_value d ''created_at'') now) (\<lambda>created.
     Inr \<lparr>mf_work_unit_id = wu, mf_tenant = tenant, mf_kind = kind, mf_contract = c,
       mf_logical_ref = ref, mf_state = state, mf_namespace = ns, mf_trace_id = trace,
       mf_policy = policy, mf_classification = classification, mf_physical = physical,
       mf_plan = plan, mf_verification = verification, mf_lineage = lineage,
       mf_telemetry = telemetry, mf_signatures = signatures, mf_manifest_version = version,
       mf_manifest_id = ident, mf_created_at = created\<rparr>)))))))))))))))))))))))))"

lemma list_or_empty_PList [simp]: "list_or_empty (PList xs) = Inr xs"
  by (simp add: list_or_empty_def)

lemma manifest_roundtrip:
  assumes "mf_manifest_id m \<noteq> []" "mf_created_at m \<noteq> []" "mf_namespace m \<noteq> []"
  shows "manifest_from_dict ident now (manifest_to_dict m) = Inr m"
  using assms
  by (simp add: manifest_from_dict_def manifest_to_dict_def item_def get_value_def get_default_def)

subsection \<open>Ledger events\<close>

record ledger_event =
  ev_event_type :: string
  ev_tenant :: string
  ev_work_unit_id :: "string option"
  ev_manifest_id :: "string option"
  ev_policy_bundle_id :: "string option"
  ev_actor :: "string option"
  ev_decision :: "string option"
  ev_details :: pydict
  ev_trace_id :: "string option"
  ev_prev_hash :: "string option"
  ev_event_id :: string
  ev_created_at :: string
  ev_event_hash :: "string option"

definition event_to_dict :: "ledger_event \<Rightarrow> pydict" where
  "event_to_dict e = [
     (''event_id'', PStr (ev_event_id e)),
     (''event_type'', PStr (ev_event_type e)),
     (''tenant'', PStr (ev_tenant e)),
     (''work_unit_id'', opt_value (ev_work_unit_id e)),
     (''manifest_id'', opt_value (ev_manifest_id e)),
     (''policy_bundle_id'', opt_value (ev_policy_bundle_id e)),
     (''actor'', opt_value (ev_actor e)),
     (''decision'', opt_value (ev_decision e)),
     (''details'', PDict (ev_details e)),
     (''trace_id'', opt_value (ev_trace_id e)),
     (''created_at'', PStr (ev_created_at e)),
     (''prev_hash'', opt_value (ev_prev_hash e)),
     (''event_hash'', opt_value (ev_event_hash e))]"

definition event_from_dict :: "string \<Rightarrow> string \<Rightarrow> pydict \<Rightarrow> ledger_event res" where
  "event_from_dict fresh_evt now d =
     bindR (item d ''event_type'') (\<lambda>v. bindR (as_str v) (\<lambda>ty.
     bindR (item d ''tenant'') (\<lambda>v. bindR (as_str v) (\<lambda>tenant.
     bindR (as_opt_str (get_value d ''work_unit_id'')) (\<lambda>wu.
     bindR (as_opt_str (get_value d ''manifest_id'')) (\<lambda>mf.
     bindR (as_opt_str (get_value d ''policy_bundle_id'')) (\<lambda>bundle.
     bindR (as_opt_str (get_value d ''actor'')) (\<lambda>actor.
     bindR (as_opt_str (get_value d ''decision'')) (\<lambda>decision.
     bindR (dict_or_empty (get_value d ''details'')) (\<lambda>details.
     bindR (as_opt_str (get_value d ''trace_id'')) (\<lambda>trace.
     bindR (as_opt_str (get_value d ''prev_hash'')) (\<lambda>prev.
     bindR (str_or (get_value d ''event_id'') fresh_evt) (\<lambda>ident.
     bindR (str_or (get_value d ''created_at'') now) (\<lambda>created.
     bindR (as_opt_str (get_value d ''event_hash'')) (\<lambda>hash.
     Inr \<lparr>ev_event_type = ty, ev_tenant = tenant, ev_work_unit_id = wu, ev_manifest_id = mf,
       ev_policy_bundle_id = bundle, ev_actor = actor, ev_decision = decision,
       ev_details = details, ev_trace_id = trace, ev_prev_hash = prev, ev_event_id = ident,
       ev_created_at = created, ev_event_hash = hash\<rparr>)))))))))))))))"

lemma event_roundtrip:
  "ev_event_id e \<noteq> [] \<Longrightarrow> ev_created_at e \<noteq> [] \<Longrightarrow> event_from_dict ident now (event_to_dict e) = Inr e"
  by (simp add: event_from_dict_def event_to_dict_def item_def get_value_def)

text \<open>The event's hash covers every field, with the given predecessor and no hash of its own.\<close>

definition chain_payload :: "ledger_event \<Rightarrow> string option \<Rightarrow> pydict" where
  "chain_payload e prev =
     dset ''event_hash'' PNone (dset ''prev_hash'' (opt_value prev) (event_to_dict e))"

definition with_chain_hash :: "ledger_event \<Rightarrow> string option \<Rightarrow> ledger_event" where
  "with_chain_hash e prev =
     e\<lparr>ev_prev_hash := prev, ev_event_hash := Some (stable_json_hash (PDict (chain_payload e prev)))\<rparr>"

lemma chain_payload_event: "chain_payload e prev = event_to_dict (e\<lparr>ev_prev_hash := prev, ev_event_hash := None\<rparr>)"
  by (simp add: chain_payload_def dset_def event_to_dict_def opt_value_def)

lemma with_chain_hash_idem [simp]:
  "with_chain_hash (with_chain_hash e prev) prev = with_chain_hash e prev"
  by (simp add: with_chain_hash_def chain_payload_event)

text \<open>
  The four persisted record kinds survive their dictionary form: reading
  back what \<open>to_dict\<close> writes gives the same plan, manifest and ledger event, and a work
  unit comes back through its JSON-safe form with its payload bytes intact; the identifiers
  and timestamps must not be empty, since empty ones are replaced by fresh ones.
\<close>

theorem record_roundtrips:
  assumes "pl_plan_id p \<noteq> []"
    and "mf_manifest_id m \<noteq> []" "mf_created_at m \<noteq> []" "mf_namespace m \<noteq> []"
    and "ev_event_id e \<noteq> []" "ev_created_at e \<noteq> []"
    and "envelope_free (wu_payload wu)" "wu_trace_id wu \<noteq> []" "wu_id wu \<noteq> []" "wu_created_at wu \<noteq> []"
  shows "plan_from_dict i1 (plan_to_dict p) = Inr p
    \<and> manifest_from_dict i2 now (manifest_to_dict m) = Inr m
    \<and> event_from_dict i3 now (event_to_dict e) = Inr e
    \<and> work_unit_from_json_safe i4 i5 now (json_safe_work_unit wu)
        = Inr (wu\<lparr>wu_payload := untuple (wu_payload wu)\<rparr>)"
  using assms by (simp add: plan_roundtrip manifest_roundtrip event_roundtrip work_unit_json_safe_roundtrip)

definition sample_work_unit :: work_unit where
  "sample_work_unit = \<lparr>wu_kind = BYTE_OBJECT, wu_tenant = ''acme'', wu_logical_ref = ''s3://b/k'',
     wu_payload = PBytes [104, 105], wu_requested_contract = None, wu_namespace = ''default'',
     wu_metadata = [], wu_policy_context = [], wu_trace_id = ''tr_1'', wu_id = ''wu_1'',
     wu_created_at = ''2026-01-01T00:00:00+00:00'', wu_payload_ref = PNone,
     wu_effective_contract = None, wu_deadline = None, wu_latency_budget_ms = Some 5,
     wu_quality_target = []\<rparr>"

definition sample_plan :: plan where
  "sample_plan = \<lparr>pl_work_unit_id = ''wu_1'', pl_contract = EXACT_BYTES,
     pl_actions = [\<lparr>pa_type = ''hash'', pa_required = True, pa_risk = ''low'', pa_params = [], pa_reason = []\<rparr>],
     pl_tenant = Some ''acme'', pl_plan_id = ''pl_1'', pl_trace_id = None, pl_mode = ''enforce'',
     pl_policy_bundle_id = ''default'', pl_risk = ''low'', pl_expected = [], pl_fallback = ''store_exact_bytes''\<rparr>"

definition sample_manifest :: manifest where
  "sample_manifest = \<lparr>mf_work_unit_id = ''wu_1'', mf_tenant = ''acme'', mf_kind = BYTE_OBJECT,
     mf_contract = EXACT_BYTES, mf_logical_ref = ''s3://b/k'', mf_state = ''active'',
     mf_namespace = ''default'', mf_trace_id = None, mf_policy = [], mf_classification = [],
     mf_physical = [], mf_plan = [], mf_verification = [], mf_lineage = [], mf_telemetry = [],
     mf_signatures = [], mf_manifest_version = ''urp.manifest.v1'', mf_manifest_id = ''mf_1'',
     mf_created_at = ''2026-01-01T00:00:00+00:00''\<rparr>"

definition sample_event :: ledger_event where
  "sample_event = \<lparr>ev_event_type = ''work_unit.received'', ev_tenant = ''acme'',
     ev_work_unit_id = Some ''wu_1'', ev_manifest_id = None, ev_policy_bundle_id = Some ''default'',
     ev_actor = None, ev_decision = None, ev_details = [], ev_trace_id = Some ''tr_1'',
     ev_prev_hash = None, ev_event_id = ''evt_1'', ev_created_at = ''2026-01-01T00:00:00+00:00'',
     ev_event_hash = None\<rparr>"

theorem record_roundtrips_witness:
  "plan_from_dict [] (plan_to_dict sample_plan) = Inr sample_plan
    \<and> manifest_from_dict [] [] (manifest_to_dict sample_manifest) = Inr sample_manifest
    \<and> event_from_dict [] [] (event_to_dict sample_event) = Inr sample_event
    \<and> work_unit_from_json_safe [] [] [] (json_safe_work_unit sample_work_unit) = Inr sample_work_unit"
  using record_roundtrips [of sample_plan sample_manifest sample_event sample_work_unit "[]" "[]" "[]" "[]" "[]" "[]"]
  by (simp add: sample_plan_def sample_manifest_def sample_event_def sample_work_unit_def)

end
