(* ===== verification/PyText.thy ===== *)
theory PyText
  imports Contracts
begin

text \<open>
  The string methods the program uses (\<open>strip\<close>, \<open>lower\<close>, \<open>casefold\<close>, \<open>split\<close>,
  \<open>partition\<close>, substring tests, slices) on strings of code points below 256, and the
  identifier check of \<open>python/urp/storage.py\<close>.
\<close>

definition is_space :: "char \<Rightarrow> bool" where
  "is_space c = (let n = (of_char c :: nat) in
     n = 32 \<or> (9 \<le> n \<and> n \<le> 13) \<or> (28 \<le> n \<and> n \<le> 31) \<or> n = 133 \<or> n = 160)"

definition py_lstrip :: "string \<Rightarrow> string" where
  "py_lstrip s = dropWhile is_space s"

definition py_strip :: "string \<Rightarrow> string" where
  "py_strip s = rev (dropWhile is_space (rev (dropWhile is_space s)))"

definition lower_char :: "char \<Rightarrow> char" where
  "lower_char c = (let n = (of_char c :: nat) in
     if (65 \<le> n \<and> n \<le> 90) \<or> (192 \<le> n \<and> n \<le> 222 \<and> n \<noteq> 215) then char_of (n + 32) else c)"

definition py_lower :: "string \<Rightarrow> string" where
  "py_lower s = map lower_char s"

definition upper_char :: "char \<Rightarrow> char" where
  "upper_char c = (let n = (of_char c :: nat) in
     if (97 \<le> n \<and> n \<le> 122) \<or> (224 \<le> n \<and> n \<le> 254 \<and> n \<noteq> 247) then char_of (n - 32) else c)"

definition py_upper :: "string \<Rightarrow> string" where
  "py_upper s = map upper_char s"

definition casefold_char :: "char \<Rightarrow> string" where
  "casefold_char c = (if (of_char c :: nat) = 223 then ''ss'' else [lower_char c])"

definition casefold :: "string \<Rightarrow> string" where
  "casefold s = concat (map casefold_char s)"

text \<open>\<open>s.split()\<close>: the maximal runs of characters that are not white space.\<close>

fun split_acc :: "string \<Rightarrow> string \<Rightarrow> string list" where
  "split_acc w [] = (if w = [] then [] else [rev w])"
| "split_acc w (c # cs) =
     (if is_space c then (if w = [] then split_acc [] cs else rev w # split_acc [] cs)
      else split_acc (c # w) cs)"

definition py_split :: "string \<Rightarrow> string list" where
  "py_split s = split_acc [] s"

definition squeeze :: "string \<Rightarrow> string" where
  "squeeze s = join '' '' (py_split s)"

fun contains :: "string \<Rightarrow> string \<Rightarrow> bool" where
  "contains p [] = (p = [])"
| "contains p (c # cs) = (prefix p (c # cs) \<or> contains p cs)"

text \<open>\<open>s.partition(sep)\<close> for a one-character separator.\<close>

fun partition_char :: "char \<Rightarrow> string \<Rightarrow> string \<times> string \<times> string" where
  "partition_char sep [] = ([], [], [])"
| "partition_char sep (c # cs) =
     (if c = sep then ([], [sep], cs)
      else (case partition_char sep cs of (a, m, b) \<Rightarrow> (c # a, m, b)))"

text \<open>\<open>s.split("@", 1)[0]\<close>.\<close>

definition before_at :: "string \<Rightarrow> string" where
  "before_at s = takeWhile (\<lambda>c. c \<noteq> CHR ''@'') s"

text \<open>\<open>rows[-limit:] if limit else rows\<close>; a negative limit drops from the front.\<close>

definition last_rows :: "int option \<Rightarrow> 'a list \<Rightarrow> 'a list" where
  "last_rows limit xs = (case limit of None \<Rightarrow> xs
     | Some l \<Rightarrow> if l = 0 then xs
         else if 0 < l then drop (length xs - nat l) xs
         else drop (nat (- l)) xs)"

lemma split_acc_words:
  "(\<forall>c \<in> set w. \<not> is_space c) \<Longrightarrow> \<forall>x \<in> set (split_acc w s). x \<noteq> [] \<and> (\<forall>c \<in> set x. \<not> is_space c)"
proof (induction s arbitrary: w)
  case (Cons c cs)
  show ?case
  proof (cases "is_space c")
    case True
    with Cons.IH [of "[]"] Cons.prems show ?thesis by simp
  next
    case False
    with Cons.IH [of "c # w"] Cons.prems show ?thesis by simp
  qed
qed simp

lemma py_split_words: "x \<in> set (py_split s) \<Longrightarrow> x \<noteq> [] \<and> (\<forall>c \<in> set x. \<not> is_space c)"
  unfolding py_split_def using split_acc_words [of "[]" s] by auto

lemma split_acc_app:
  "\<forall>c \<in> set w. \<not> is_space c \<Longrightarrow> split_acc v (w @ s) = split_acc (rev w @ v) s"
  by (induction w arbitrary: v) auto

lemma split_acc_join:
  assumes "\<forall>x \<in> set ws. x \<noteq> [] \<and> (\<forall>c \<in> set x. \<not> is_space c)"
  shows "split_acc [] (join '' '' ws) = ws"
  using assms
proof (induction "'' ''" ws rule: join.induct)
  case (2 x)
  then show ?case using split_acc_app [of x "[]" "[]"] by auto
next
  case (3 x y xs)
  have "is_space (CHR '' '')" by (simp add: is_space_def)
  then have "split_acc [] (x @ '' '' @ join '' '' (y # xs)) = x # split_acc [] (join '' '' (y # xs))"
    using 3 split_acc_app [of x "[]" "'' '' @ join '' '' (y # xs)"] by auto
  then show ?case using 3 by simp
qed simp_all

lemma squeeze_idem [simp]: "squeeze (squeeze s) = squeeze s"
  unfolding squeeze_def py_split_def
  by (subst split_acc_join) (use split_acc_words [of "[]" s] in auto)

lemma py_split_squeeze [simp]: "py_split (squeeze s) = py_split s"
  unfolding squeeze_def py_split_def
  by (rule split_acc_join) (use split_acc_words [of "[]" s] in auto)

lemma last_rows_suffix: "\<exists>ys. xs = ys @ last_rows l xs"
proof -
  have "\<exists>ys. xs = ys @ drop n xs" for n
    by (rule exI [of _ "take n xs"]) simp
  then show ?thesis by (cases l) (auto simp: last_rows_def)
qed

lemma last_rows_subset: "set (last_rows l xs) \<subseteq> set xs"
  using last_rows_suffix [of xs l] by (metis Un_iff set_append subsetI)

subsection \<open>Identifiers\<close>

text \<open>
  \<open>IDENTIFIER_RE\<close> is \<open>[A-Za-z0-9][A-Za-z0-9._-]{0,127}\<close>, matched in full.
\<close>

definition is_alnum :: "char \<Rightarrow> bool" where
  "is_alnum c = (let n = (of_char c :: nat) in
     (48 \<le> n \<and> n \<le> 57) \<or> (65 \<le> n \<and> n \<le> 90) \<or> (97 \<le> n \<and> n \<le> 122))"

definition is_ident_char :: "char \<Rightarrow> bool" where
  "is_ident_char c = (is_alnum c \<or> c = CHR ''.'' \<or> c = CHR ''_'' \<or> c = CHR ''-'')"

fun identifier_re :: "string \<Rightarrow> bool" where
  "identifier_re [] = False"
| "identifier_re (c # cs) = (is_alnum c \<and> length cs \<le> 127 \<and> list_all is_ident_char cs)"

definition validate_identifier :: "string \<Rightarrow> string \<Rightarrow> string option \<Rightarrow> string res" where
  "validate_identifier value label pre =
     (if \<not> identifier_re value then
        Inl (ValueError (''invalid '' @ label @ '': expected 1-128 safe identifier characters''))
      else if value \<in> {''.'', ''..''} then
        Inl (ValueError (''invalid '' @ label @ '': path traversal is not allowed''))
      else (case pre of
          Some p \<Rightarrow> if p \<noteq> [] \<and> \<not> prefix p value
            then Inl (ValueError (''invalid '' @ label @ '': expected prefix '' @ p)) else Inr value
        | None \<Rightarrow> Inr value))"

text \<open>
  Paths below a storage root are lists of components; \<open>resolve\<close> follows \<open>.\<close> and \<open>..\<close>
  (there are no symbolic links in the model). \<open>resolve_under\<close> joins a relative path to the
  root, an absolute one replacing it, and refuses a result outside the root.
\<close>

fun resolve_acc :: "string list \<Rightarrow> string list \<Rightarrow> string list" where
  "resolve_acc acc [] = rev acc"
| "resolve_acc acc (p # ps) =
     (if p = [] \<or> p = ''.'' then resolve_acc acc ps
      else if p = ''..'' then resolve_acc (drop 1 acc) ps
      else resolve_acc (p # acc) ps)"

definition resolve_path :: "string list \<Rightarrow> string list" where
  "resolve_path p = resolve_acc [] p"

fun split_on :: "char \<Rightarrow> string \<Rightarrow> string list" where
  "split_on sep [] = [[]]"
| "split_on sep (c # cs) =
     (case split_on sep cs of
        w # ws \<Rightarrow> if c = sep then [] # w # ws else (c # w) # ws
      | [] \<Rightarrow> [[c]])"

definition resolve_under :: "string list \<Rightarrow> string \<Rightarrow> string list res" where
  "resolve_under root relative =
     (let base = resolve_path root;
          candidate = resolve_path (if prefix ''/'' relative then split_on (CHR ''/'') relative
                                    else base @ split_on (CHR ''/'') relative)
      in if prefix base candidate then Inr candidate
         else Inl (ValueError ''path escapes configured storage root''))"

lemma validate_identifier_Inr:
  assumes "validate_identifier v label p = Inr w"
  shows "w = v \<and> identifier_re v \<and> (\<forall>q. p = Some q \<longrightarrow> prefix q v)"
  using assms by (auto simp: validate_identifier_def split: if_splits option.splits)

lemma identifier_no_slash: "identifier_re v \<Longrightarrow> CHR ''/'' \<notin> set v"
  by (cases v) (auto simp: is_alnum_def is_ident_char_def list_all_iff)

lemma split_on_nonempty [simp]: "split_on sep s \<noteq> []"
  by (induction s) (auto split: list.splits)

lemma split_on_no_sep: "sep \<notin> set s \<Longrightarrow> split_on sep s = [s]"
  by (induction s) auto

lemma resolve_acc_clean:
  "(\<forall>p \<in> set ps. p \<noteq> [] \<and> p \<noteq> ''.'' \<and> p \<noteq> ''..'') \<Longrightarrow> resolve_acc acc ps = rev acc @ ps"
  by (induction ps arbitrary: acc) auto

lemma resolve_acc_result:
  "(\<forall>p \<in> set acc. p \<noteq> [] \<and> p \<noteq> ''.'' \<and> p \<noteq> ''..'') \<Longrightarrow>
   p \<in> set (resolve_acc acc ps) \<Longrightarrow> p \<noteq> [] \<and> p \<noteq> ''.'' \<and> p \<noteq> ''..''"
  by (induction acc ps rule: resolve_acc.induct) (auto split: if_splits dest: in_set_dropD)

lemma resolve_path_clean: "p \<in> set (resolve_path ps) \<Longrightarrow> p \<noteq> [] \<and> p \<noteq> ''.'' \<and> p \<noteq> ''..''"
  unfolding resolve_path_def by (rule resolve_acc_result) auto

lemma resolve_path_base: "resolve_path (resolve_path root @ ps) = resolve_acc (rev (resolve_path root)) ps"
proof -
  have "resolve_acc acc (qs @ ps) = resolve_acc (rev qs @ acc) ps"
    if "\<forall>p \<in> set qs. p \<noteq> [] \<and> p \<noteq> ''.'' \<and> p \<noteq> ''..''" for acc qs
    using that by (induction qs arbitrary: acc) auto
  from this [of "resolve_path root" "[]"] show ?thesis
    using resolve_path_clean by (simp add: resolve_path_def [of "resolve_path root @ ps"])
qed

text \<open>
  No path built from a checked name leaves its storage root: whatever
  \<open>resolve_under\<close> returns lies below the resolved root and has no dot component, and a name
  \<open>validate_identifier\<close> accepts resolves to exactly one component below the root.
\<close>

theorem storage_paths_contained:
  "(\<forall>p. resolve_under root rel = Inr p \<longrightarrow>
      prefix (resolve_path root) p \<and> (\<forall>c \<in> set p. c \<noteq> [] \<and> c \<noteq> ''.'' \<and> c \<noteq> ''..''))
   \<and> (validate_identifier name label pre = Inr v \<longrightarrow>
      resolve_under root name = Inr (resolve_path root @ [name]))"
proof
  show "\<forall>p. resolve_under root rel = Inr p \<longrightarrow>
      prefix (resolve_path root) p \<and> (\<forall>c \<in> set p. c \<noteq> [] \<and> c \<noteq> ''.'' \<and> c \<noteq> ''..'')"
    using resolve_path_clean by (auto simp: resolve_under_def Let_def split: if_splits)
  show "validate_identifier name label pre = Inr v \<longrightarrow>
      resolve_under root name = Inr (resolve_path root @ [name])"
  proof
    assume ok: "validate_identifier name label pre = Inr v"
    then have re: "identifier_re name" using validate_identifier_Inr by blast
    then have "name \<noteq> [] \<and> name \<noteq> ''.'' \<and> name \<noteq> ''..''"
      by (cases name) (auto simp: is_alnum_def)
    moreover have "\<not> prefix ''/'' name" and "split_on (CHR ''/'') name = [name]"
      using identifier_no_slash [OF re] split_on_no_sep by (auto simp: prefix_def)
    ultimately show "resolve_under root name = Inr (resolve_path root @ [name])"
      by (simp add: resolve_under_def Let_def resolve_path_base)
  qed
qed

theorem storage_paths_contained_witness:
  "resolve_under [''state'', ''manifests''] ''mf_1'' = Inr [''state'', ''manifests'', ''mf_1'']"
proof -
  have ok: "validate_identifier ''mf_1'' ''manifest id'' (Some ''mf_'') = Inr ''mf_1''"
    by (simp add: validate_identifier_def is_alnum_def is_ident_char_def)
  show ?thesis
    using storage_paths_contained [of "[''state'', ''manifests'']" "[]" "''mf_1''" "''manifest id''" "Some ''mf_''" "''mf_1''"] ok
    by (simp add: resolve_path_def)
qed

end
