(* ===== verification/Auth.thy ===== *)
theory Auth
  imports PyText
begin

text \<open>
  \<open>python/urp/auth.py\<close> and the error constructors of \<open>python/urp/errors.py\<close>: role-based
  authorization with tenant boundaries, API-key authentication, the action each request
  path needs, and the tenant of the current principal (the context variable is an explicit
  argument \<open>principal option\<close> of every operation that reads it).
\<close>

subsection \<open>Errors\<close>

definition invalid_work_unit :: "string \<Rightarrow> pydict \<Rightarrow> py_exc" where
  "invalid_work_unit message details = URPError ''invalid_work_unit'' message None None False details"

definition policy_denied :: "string \<Rightarrow> string option \<Rightarrow> string option \<Rightarrow> py_exc" where
  "policy_denied message wu bundle = URPError ''policy_denied'' message wu bundle False []"

definition authentication_required :: "string \<Rightarrow> py_exc" where
  "authentication_required message = URPError ''authentication_required'' message None None False []"

definition tenant_mismatch :: "string \<Rightarrow> string \<Rightarrow> py_exc" where
  "tenant_mismatch expected actual = URPError ''tenant_mismatch''
     ''the authenticated principal cannot access the requested tenant'' None None False
     [(''principal_tenant'', PStr expected), (''requested_tenant'', PStr actual)]"

definition verifier_failed :: "string \<Rightarrow> string option \<Rightarrow> pydict \<Rightarrow> py_exc" where
  "verifier_failed message wu details = URPError ''verifier_failed'' message wu None False details"

definition manifest_not_found :: "string \<Rightarrow> py_exc" where
  "manifest_not_found mid = URPError ''manifest_not_found'' (''manifest not found: '' @ mid) None None False
     [(''manifest_id'', PStr mid)]"

definition work_unit_not_found :: "string \<Rightarrow> py_exc" where
  "work_unit_not_found wid = URPError ''work_unit_not_found'' (''work unit not found: '' @ wid) (Some wid) None False []"

definition rehydration_failed :: "string \<Rightarrow> string option \<Rightarrow> pydict \<Rightarrow> py_exc" where
  "rehydration_failed message wu details = URPError ''rehydration_failed'' message wu None False details"

fun error_code :: "py_exc \<Rightarrow> string option" where
  "error_code (URPError code message wu bundle retryable details) = Some code"
| "error_code e = None"

fun urp_error_to_dict :: "py_exc \<Rightarrow> pydict" where
  "urp_error_to_dict (URPError code message wu bundle retryable details) =
     [(''error'', PDict [(''code'', PStr code), (''message'', PStr message),
        (''work_unit_id'', opt_value wu), (''policy_bundle_id'', opt_value bundle),
        (''retryable'', PBool retryable), (''details'', PDict details)])]"
| "urp_error_to_dict e = []"

subsection \<open>Principals and authorization\<close>

record principal =
  pr_actor :: string
  pr_tenant :: string
  pr_roles :: "string list"

type_synonym permissions = "(string \<times> string list) list"

definition default_permissions :: permissions where
  "default_permissions = [
     (''admin'', [''*'']),
     (''operator'', [''work_unit:read'', ''work_unit:write'', ''manifest:read'', ''manifest:rehydrate'',
        ''manifest:sensitive'', ''ledger:query'', ''policy:evaluate'', ''cache:use'', ''object:read'',
        ''object:write'', ''scheduler:submit'', ''reports:read'', ''observability:read'',
        ''auth:self'', ''approval:read'']),
     (''viewer'', [''work_unit:read'', ''manifest:read'', ''ledger:query'', ''reports:read'',
        ''observability:read'', ''auth:self'']),
     (''developer'', [''work_unit:read'', ''work_unit:write'', ''manifest:read'', ''manifest:rehydrate'',
        ''manifest:sensitive'', ''cache:use'', ''object:read'', ''object:write'', ''auth:self'']),
     (''gateway'', [''work_unit:write'', ''manifest:read'', ''cache:use'', ''object:read'',
        ''object:write'', ''auth:self''])]"

definition role_permissions :: "permissions \<Rightarrow> permissions" where
  "role_permissions extra = fold (\<lambda>(r, ps) d. dset r ps d) extra default_permissions"

text \<open>\<open>if tenant and principal.tenant not in {tenant, "*"}\<close>.\<close>

definition outside_tenant :: "principal \<Rightarrow> string option \<Rightarrow> bool" where
  "outside_tenant p t = (case t of None \<Rightarrow> False
     | Some t \<Rightarrow> t \<noteq> [] \<and> pr_tenant p \<noteq> t \<and> pr_tenant p \<noteq> ''*'')"

definition allowed :: "permissions \<Rightarrow> principal \<Rightarrow> string \<Rightarrow> string option \<Rightarrow> bool" where
  "allowed perms p action t =
     (if outside_tenant p t then False
      else list_ex (\<lambda>r. case dget perms r of None \<Rightarrow> False
             | Some ps \<Rightarrow> ''*'' \<in> set ps \<or> action \<in> set ps) (pr_roles p))"

definition require_permission :: "permissions \<Rightarrow> principal \<Rightarrow> string \<Rightarrow> string option \<Rightarrow> unit res" where
  "require_permission perms p action t =
     (if outside_tenant p t then Inl (tenant_mismatch (pr_tenant p) (the t))
      else if \<not> allowed perms p action t then
        Inl (URPError ''authorization_denied'' (pr_actor p @ '' is not allowed to perform '' @ action) None None False [])
      else Inr ())"

subsection \<open>Authentication\<close>

record authenticator =
  auth_disabled :: bool
  auth_records :: "(string \<times> principal) list"

definition token_hash :: "string \<Rightarrow> string" where
  "token_hash token = sha256_hex (utf8 token)"

definition new_authenticator :: "(string \<times> principal) list \<Rightarrow> bool \<Rightarrow> authenticator" where
  "new_authenticator records disabled = \<lparr>auth_disabled = disabled,
     auth_records = fold (\<lambda>(tok, p) d. if tok = [] then d else dset (token_hash tok) p d) records []\<rparr>"

text \<open>The records of \<open>URP_API_KEYS_JSON\<close>, given the value \<open>json.loads\<close> returned.\<close>

definition api_key_record :: "string \<times> pyval \<Rightarrow> (string \<times> principal) res" where
  "api_key_record tv = (case snd tv of
     PDict d \<Rightarrow>
       (let act = (let v = get_value d ''actor'' in if truthy v then py_str v else ''api-client'');
            ten = (let v = get_value d ''tenant'' in if truthy v then py_str v else []);
            rs = (case get_default d ''roles'' (PList []) of PList xs \<Rightarrow> map py_str xs | _ \<Rightarrow> [])
        in if ten = [] \<or> rs = [] then Inl (ValueError ''configured API keys require tenant and roles'')
           else Inr (fst tv, \<lparr>pr_actor = act, pr_tenant = ten, pr_roles = rs\<rparr>))
   | _ \<Rightarrow> Inl (ValueError ''each URP_API_KEYS_JSON value must be an object''))"

definition authenticator_from_env :: "(string \<Rightarrow> string option) \<Rightarrow> (string \<Rightarrow> pyval res) \<Rightarrow> authenticator res" where
  "authenticator_from_env env loads =
     (let mode = py_lower (py_strip (case env ''URP_AUTH_MODE'' of None \<Rightarrow> ''required'' | Some m \<Rightarrow> m))
      in if mode = ''disabled'' then Inr (new_authenticator [] True)
         else
           (let local = (case env ''URP_LOCAL_API_KEY'' of
                  Some k \<Rightarrow> if k = [] then [] else
                    [(k, \<lparr>pr_actor = (case env ''URP_LOCAL_ACTOR'' of None \<Rightarrow> ''local-admin'' | Some a \<Rightarrow> a),
                          pr_tenant = ''*'', pr_roles = [''admin'']\<rparr>)]
                | None \<Rightarrow> [])
            in case env ''URP_API_KEYS_JSON'' of
                 None \<Rightarrow> Inr (new_authenticator local False)
               | Some raw \<Rightarrow>
                   if raw = [] then Inr (new_authenticator local False)
                   else bindR (loads raw) (\<lambda>decoded. case decoded of
                       PDict d \<Rightarrow> bindR (seq_res (map api_key_record d))
                         (\<lambda>rows. Inr (new_authenticator (fold (\<lambda>(t, p) m. dset t p m) rows local) False))
                     | _ \<Rightarrow> Inl (ValueError ''URP_API_KEYS_JSON must be an object keyed by API token''))))"

definition configured :: "authenticator \<Rightarrow> bool" where
  "configured a = (auth_disabled a \<or> auth_records a \<noteq> [])"

definition authenticate :: "authenticator \<Rightarrow> string option \<Rightarrow> principal res" where
  "authenticate a api_key =
     (if auth_disabled a then Inr \<lparr>pr_actor = ''anonymous-local'', pr_tenant = ''*'', pr_roles = [''admin'']\<rparr>
      else case api_key of
        None \<Rightarrow> Inl (authentication_required ''authentication is required'')
      | Some k \<Rightarrow>
          if k = [] then Inl (authentication_required ''authentication is required'')
          else (case dget (auth_records a) (token_hash k) of
              None \<Rightarrow> Inl (authentication_required ''invalid API key'')
            | Some p \<Rightarrow> Inr p))"

definition principal_from_api_key :: "string option \<Rightarrow> string \<Rightarrow> authenticator \<Rightarrow> principal res" where
  "principal_from_api_key api_key t a =
     bindR (authenticate a api_key) (\<lambda>p.
       if pr_tenant p \<noteq> t \<and> pr_tenant p \<noteq> ''*'' then Inl (tenant_mismatch (pr_tenant p) t) else Inr p)"

definition bearer_header :: "string \<Rightarrow> string option res" where
  "bearer_header authorization =
     (case partition_char (CHR '' '') authorization of (scheme, _, value) \<Rightarrow>
        if py_lower scheme \<noteq> ''bearer'' \<or> py_strip value = []
        then Inl (authentication_required ''expected Authorization: Bearer <token>'')
        else Inr (Some (py_strip value)))"

definition bearer_token :: "string option \<Rightarrow> string option \<Rightarrow> string option res" where
  "bearer_token authorization api_key_header =
     (case api_key_header of
        Some h \<Rightarrow> if h \<noteq> [] then Inr (if py_strip h = [] then None else Some (py_strip h))
          else (case authorization of None \<Rightarrow> Inr None
                | Some a \<Rightarrow> if a = [] then Inr None else bearer_header a)
      | None \<Rightarrow> (case authorization of None \<Rightarrow> Inr None
                | Some a \<Rightarrow> if a = [] then Inr None else bearer_header a))"

subsection \<open>The action a request needs\<close>

definition action_for_request :: "string \<Rightarrow> string \<Rightarrow> string" where
  "action_for_request method path =
     (let get = (py_upper method = ''GET'') in
      if path = ''/metrics'' then ''admin:manage''
      else if prefix ''/v1/admin/'' path \<or> prefix ''/v1/kms/'' path then ''admin:manage''
      else if path = ''/v1/auth/check'' then ''auth:self''
      else if prefix ''/v1/approvals'' path then (if get then ''approval:read'' else ''approval:manage'')
      else if prefix ''/v1/plugins'' path then (if \<not> get then ''plugin:manage'' else ''plugin:read'')
      else if prefix ''/v1/policies/bundles'' path then (if \<not> get then ''policy:manage'' else ''policy:read'')
      else if prefix ''/v1/policies'' path then ''policy:evaluate''
      else if prefix ''/v1/ledger'' path then ''ledger:query''
      else if prefix ''/v1/manifests'' path then
        (if suffix ''/rehydrate'' path then ''manifest:rehydrate'' else ''manifest:read'')
      else if prefix ''/v1/work-units'' path \<or> prefix ''/v1/plans'' path then
        (if get then ''work_unit:read'' else ''work_unit:write'')
      else if prefix ''/v1/s3/objects/delete'' path then ''object:delete''
      else if prefix ''/v1/s3'' path then
        (if list_ex (\<lambda>tok. contains tok path) [''/get'', ''/head'', ''/range'', ''/list'']
         then ''object:read'' else ''object:write'')
      else if prefix ''/v1/cache'' path \<or> prefix ''/v1/chat'' path \<or> prefix ''/v1/completions'' path
        \<or> prefix ''/v1/embeddings'' path then ''cache:use''
      else if prefix ''/v1/scheduler'' path then (if \<not> get then ''scheduler:submit'' else ''reports:read'')
      else if prefix ''/v1/reports'' path then ''reports:read''
      else if prefix ''/v1/traces'' path \<or> prefix ''/v1/logs'' path \<or> prefix ''/v1/routes'' path
        then ''observability:read''
      else if prefix ''/v1/platforms'' path \<or> prefix ''/v1/conformance'' path \<or> prefix ''/v1/adapters'' path
        \<or> prefix ''/v1/benchmarks'' path then ''admin:manage''
      else if path = ''/v1/models'' then ''cache:use''
      else ''admin:manage'')"

subsection \<open>The tenant of the current principal\<close>

type_synonym ctx = "principal option"

definition current_tenant :: "ctx \<Rightarrow> string option" where
  "current_tenant c = (case c of None \<Rightarrow> None | Some p \<Rightarrow> if pr_tenant p = ''*'' then None else Some (pr_tenant p))"

text \<open>\<open>if tenant and row.tenant != tenant: raise tenant_mismatch(tenant, row.tenant)\<close>.\<close>

definition bound_tenant :: "ctx \<Rightarrow> string option" where
  "bound_tenant c = (case current_tenant c of Some t \<Rightarrow> if t = [] then None else Some t | None \<Rightarrow> None)"

definition enforce_tenant :: "ctx \<Rightarrow> string \<Rightarrow> unit res" where
  "enforce_tenant c row_tenant = (case bound_tenant c of
     Some t \<Rightarrow> if row_tenant \<noteq> t then Inl (tenant_mismatch t row_tenant) else Inr ()
   | None \<Rightarrow> Inr ())"

definition visible :: "ctx \<Rightarrow> string \<Rightarrow> bool" where
  "visible c row_tenant = (enforce_tenant c row_tenant = Inr ())"

lemma visible_iff: "visible c t = (\<forall>b. bound_tenant c = Some b \<longrightarrow> t = b)"
  by (auto simp: visible_def enforce_tenant_def split: option.splits)

lemma enforce_tenant_Inr: "(enforce_tenant c t = Inr u) = visible c t"
  by (simp add: visible_def)



definition managing_actions :: "string list" where
  "managing_actions = [''admin:manage'', ''object:delete'', ''approval:manage'', ''plugin:manage'', ''policy:manage'']"

lemma default_permissions_check:
  "list_all (\<lambda>(r, ps). r = ''admin'' \<or> list_all (\<lambda>a. a \<noteq> ''*'' \<and> a \<notin> set managing_actions) ps) default_permissions"
  by code_simp

lemma default_role_grants:
  assumes "dget (role_permissions []) r = Some ps"
  shows "r = ''admin'' \<or> (''*'' \<notin> set ps \<and> set ps \<inter> set managing_actions = {})"
proof -
  have "(r, ps) \<in> set default_permissions"
    using assms by (auto simp: role_permissions_def dget_def dest: map_of_SomeD)
  with default_permissions_check show ?thesis by (auto simp: list_all_iff)
qed

text \<open>
  With the built-in roles only an administrator can delete objects, manage
  approvals, plugins or policies, or reach the administrative and key-management paths:
  for a principal with no \<open>admin\<close> role every such request is denied.
\<close>

theorem only_admin_manages:
  assumes "''admin'' \<notin> set (pr_roles p)"
    and "prefix ''/v1/admin/'' path \<or> prefix ''/v1/kms/'' path \<or> path = ''/metrics''
      \<or> prefix ''/v1/s3/objects/delete'' path
      \<or> (prefix ''/v1/approvals'' path \<and> py_upper method \<noteq> ''GET'')
      \<or> (prefix ''/v1/plugins'' path \<and> py_upper method \<noteq> ''GET'')
      \<or> (prefix ''/v1/policies/bundles'' path \<and> py_upper method \<noteq> ''GET'')"
  shows "\<not> allowed (role_permissions []) p (action_for_request method path) t"
proof -
  have act: "action_for_request method path \<in> set managing_actions"
    using assms(2)
  proof (elim disjE conjE)
    assume "prefix ''/v1/s3/objects/delete'' path"
    then obtain zs where "path = ''/v1/s3/objects/delete'' @ zs" by (rule prefixE)
    then show ?thesis by (simp add: action_for_request_def managing_actions_def)
  next
    assume "prefix ''/v1/approvals'' path" and m: "py_upper method \<noteq> ''GET''"
    then obtain zs where "path = ''/v1/approvals'' @ zs" by (elim prefixE)
    then show ?thesis using m by (simp add: action_for_request_def managing_actions_def)
  next
    assume "prefix ''/v1/plugins'' path" and m: "py_upper method \<noteq> ''GET''"
    then obtain zs where "path = ''/v1/plugins'' @ zs" by (elim prefixE)
    then show ?thesis using m by (simp add: action_for_request_def managing_actions_def)
  next
    assume "prefix ''/v1/policies/bundles'' path" and m: "py_upper method \<noteq> ''GET''"
    then obtain zs where "path = ''/v1/policies/bundles'' @ zs" by (elim prefixE)
    then show ?thesis using m by (simp add: action_for_request_def managing_actions_def)
  next
    assume "prefix ''/v1/admin/'' path"
    then obtain zs where "path = ''/v1/admin/'' @ zs" by (rule prefixE)
    then show ?thesis by (simp add: action_for_request_def managing_actions_def)
  next
    assume "prefix ''/v1/kms/'' path"
    then obtain zs where "path = ''/v1/kms/'' @ zs" by (rule prefixE)
    then show ?thesis by (simp add: action_for_request_def managing_actions_def)
  next
    assume "path = ''/metrics''"
    then show ?thesis by (simp add: action_for_request_def managing_actions_def)
  qed
  show ?thesis
  proof
    assume "allowed (role_permissions []) p (action_for_request method path) t"
    then obtain r ps where "r \<in> set (pr_roles p)" "dget (role_permissions []) r = Some ps"
        "''*'' \<in> set ps \<or> action_for_request method path \<in> set ps"
      by (auto simp: allowed_def list_ex_iff split: if_splits option.splits)
    with act assms(1) default_role_grants [of r ps] show False by blast
  qed
qed

theorem only_admin_manages_witness:
  "\<not> allowed (role_permissions []) \<lparr>pr_actor = ''op'', pr_tenant = ''acme'', pr_roles = [''operator'']\<rparr>
     (action_for_request ''POST'' ''/v1/s3/objects/delete'') (Some ''acme'')"
  by (rule only_admin_manages) simp_all

lemma new_records_keys:
  "dget (fold (\<lambda>(tok, p) d. if tok = [] then d else dset (token_hash tok) p d) records d0) h = Some p \<Longrightarrow>
   dget d0 h = Some p \<or> (\<exists>tok. (tok, p) \<in> set records \<and> tok \<noteq> [] \<and> token_hash tok = h)"
proof (induction records arbitrary: d0)
  case (Cons r rs)
  from Cons.IH [of "(case r of (tok, p) \<Rightarrow> \<lambda>d. if tok = [] then d else dset (token_hash tok) p d) d0"] Cons.prems
  show ?case by (auto split: prod.splits if_splits)
qed simp

text \<open>
  Authentication hands out exactly registered principals: an accepted key is
  non-empty and has the digest of a registered token of that principal, the token
  registered last is accepted with its principal, and without a key the authenticator
  (unless disabled) raises \<open>authentication_required\<close>.
\<close>

theorem authenticate_registered:
  "(authenticate (new_authenticator records False) key = Inr p \<longrightarrow>
      (\<exists>k tok. key = Some k \<and> k \<noteq> [] \<and> (tok, p) \<in> set records \<and> tok \<noteq> [] \<and> token_hash tok = token_hash k))
   \<and> (tok \<noteq> [] \<longrightarrow> authenticate (new_authenticator (records @ [(tok, q)]) False) (Some tok) = Inr q)
   \<and> authenticate (new_authenticator records False) None
        = Inl (authentication_required ''authentication is required'')"
  using new_records_keys [of records "[]"]
  by (fastforce simp: authenticate_def new_authenticator_def split: option.splits if_splits)

theorem authenticate_registered_witness:
  "\<exists>tok. (tok, \<lparr>pr_actor = ''ann'', pr_tenant = ''acme'', pr_roles = [''viewer'']\<rparr>)
     \<in> set [(''k1'', \<lparr>pr_actor = ''ann'', pr_tenant = ''acme'', pr_roles = [''viewer'']\<rparr>)]"
proof -
  let ?p = "\<lparr>pr_actor = ''ann'', pr_tenant = ''acme'', pr_roles = [''viewer'']\<rparr>"
  have "authenticate (new_authenticator ([] @ [(''k1'', ?p)]) False) (Some ''k1'') = Inr ?p"
    using authenticate_registered [where records = "[]" and tok = "''k1''" and q = ?p] by simp
  then show ?thesis
    using authenticate_registered [where records = "[(''k1'', ?p)]" and key = "Some ''k1''" and p = ?p]
    by auto
qed

end
