(* ===== verification/Chunking.thy ===== *)
theory Chunking
  imports Auth
begin

text \<open>
  \<open>python/urp/chunking.py\<close> and the checksum verifier of \<open>python/urp/verifiers.py\<close>: the
  content-defined chunker (a 32-bit rolling value that wraps), the fixed-size chunker, and
  the proof that both tile their input.
\<close>

unbundle bit_operations_syntax

subsection \<open>Chunks\<close>

record chunk =
  ck_offset :: nat
  ck_data :: bytes
  ck_sha256 :: string

definition chunk_start :: "chunk \<Rightarrow> nat" where
  "chunk_start c = ck_offset c"

definition chunk_end :: "chunk \<Rightarrow> nat" where
  "chunk_end c = ck_offset c + length (ck_data c)"

definition sha256_bytes :: "bytes \<Rightarrow> string" where
  "sha256_bytes data = sha256_hex data"

definition mk_chunk :: "nat \<Rightarrow> bytes \<Rightarrow> chunk" where
  "mk_chunk start part = \<lparr>ck_offset = start, ck_data = part, ck_sha256 = sha256_bytes part\<rparr>"

text \<open>\<open>data[i:j]\<close> for \<open>0 \<le> i \<le> j\<close>.\<close>

definition slice :: "nat \<Rightarrow> nat \<Rightarrow> 'a list \<Rightarrow> 'a list" where
  "slice i j xs = take (j - i) (drop i xs)"

subsection \<open>The content-defined chunker\<close>

definition roll :: "u32 \<Rightarrow> byte \<Rightarrow> u32" where
  "roll rolling b = push_bit 1 rolling + ucast b + 0x9E3779B1"

text \<open>The loop over \<open>enumerate(data)\<close>: index, start of the open chunk, rolling value, chunks so far.\<close>

fun cdc_loop :: "bytes \<Rightarrow> nat \<Rightarrow> nat \<Rightarrow> nat \<Rightarrow> nat \<Rightarrow> nat \<Rightarrow> u32 \<Rightarrow> chunk list \<Rightarrow> bytes \<Rightarrow> nat \<times> chunk list" where
  "cdc_loop data min_size avg_bits max_size i start rolling chunks [] = (start, chunks)"
| "cdc_loop data min_size avg_bits max_size i start rolling chunks (b # bs) =
     (let rolling' = roll rolling b;
          size = i - start + 1;
          should_cut = (min_size \<le> size \<and> (rolling' AND mask avg_bits = 0 \<or> max_size \<le> size))
      in if should_cut
         then cdc_loop data min_size avg_bits max_size (i + 1) (i + 1) 0
                (chunks @ [mk_chunk start (slice start (i + 1) data)]) bs
         else cdc_loop data min_size avg_bits max_size (i + 1) start rolling' chunks bs)"

definition content_defined_chunks :: "bytes \<Rightarrow> int \<Rightarrow> nat \<Rightarrow> int \<Rightarrow> chunk list res" where
  "content_defined_chunks data min_size avg_bits max_size =
     (if data = [] then Inr []
      else if min_size \<le> 0 \<or> max_size < min_size then Inl (ValueError ''invalid chunk sizes'')
      else (case cdc_loop data (nat min_size) avg_bits (nat max_size) 0 0 0 [] data of (start, chunks) \<Rightarrow>
        Inr (if start < length data then chunks @ [mk_chunk start (drop start data)] else chunks)))"

subsection \<open>The fixed-size chunker\<close>

definition py_range :: "nat \<Rightarrow> nat \<Rightarrow> nat list" where
  "py_range n step = map (\<lambda>k. k * step) [0..<(n + step - 1) div step]"

definition fixed_chunks :: "bytes \<Rightarrow> int \<Rightarrow> chunk list res" where
  "fixed_chunks data width =
     (if width \<le> 0 then Inl (ValueError ''chunk size must be positive'')
      else Inr (map (\<lambda>start. mk_chunk start (slice start (start + nat width) data))
                 (py_range (length data) (nat width))))"

subsection \<open>The checksum verifier\<close>

record verification_result =
  vr_accepted :: bool
  vr_verifier_id :: string
  vr_reason :: string
  vr_details :: pydict

definition verification_to_dict :: "verification_result \<Rightarrow> pydict" where
  "verification_to_dict v = [(''accepted'', PBool (vr_accepted v)), (''verifier_id'', PStr (vr_verifier_id v)),
     (''reason'', PStr (vr_reason v)), (''details'', PDict (vr_details v))]"

definition verify_sha256 :: "bytes \<Rightarrow> string \<Rightarrow> verification_result" where
  "verify_sha256 data expected_hex =
     (let got = sha256_hex data in
      \<lparr>vr_accepted = (got = expected_hex), vr_verifier_id = ''sha256_restore@0'',
       vr_reason = (if got = expected_hex then ''match'' else ''mismatch''),
       vr_details = [(''expected'', PStr expected_hex), (''actual'', PStr got)]\<rparr>)"

subsection \<open>Tilings\<close>

text \<open>\<open>tiles from chunks to\<close>: the chunks follow each other without gap or overlap.\<close>

fun tiles :: "nat \<Rightarrow> chunk list \<Rightarrow> nat \<Rightarrow> bool" where
  "tiles o1 [] e = (o1 = e)"
| "tiles o1 (c # cs) e = (ck_offset c = o1 \<and> tiles (o1 + length (ck_data c)) cs e)"

definition chunk_ok :: "chunk \<Rightarrow> bool" where
  "chunk_ok c = (ck_sha256 c = sha256_bytes (ck_data c) \<and> ck_data c \<noteq> [])"

definition chunking_of :: "bytes \<Rightarrow> chunk list \<Rightarrow> bool" where
  "chunking_of data cs = (concat (map ck_data cs) = data \<and> tiles 0 cs (length data) \<and> list_all chunk_ok cs)"

lemma tiles_append: "tiles a (cs @ ds) e = (\<exists>m. tiles a cs m \<and> tiles m ds e)"
  by (induction cs arbitrary: a) auto

lemma tiles_end: "tiles a cs e \<Longrightarrow> e = a + length (concat (map ck_data cs))"
  by (induction cs arbitrary: a) fastforce+

lemma slice_length [slice_simps]: "i \<le> j \<Longrightarrow> j \<le> length xs \<Longrightarrow> length (slice i j xs) = j - i"
  by (simp add: slice_def)

lemma take_slice [slice_simps]: "i \<le> j \<Longrightarrow> take i xs @ slice i j xs = take j xs"
  by (simp add: slice_def take_add flip: take_add)

lemma slice_to_end [slice_simps]: "slice i (length xs) xs = drop i xs"
  by (simp add: slice_def)

lemma mk_chunk_simps [simp]:
  "ck_offset (mk_chunk s p) = s" "ck_data (mk_chunk s p) = p" "ck_sha256 (mk_chunk s p) = sha256_bytes p"
  by (simp_all add: mk_chunk_def)

text \<open>What the loop keeps: the finished chunks tile the prefix before \<open>start\<close>, each between the
  bounds, and the open chunk is shorter than the maximum.\<close>

definition cdc_inv :: "bytes \<Rightarrow> nat \<Rightarrow> nat \<Rightarrow> nat \<Rightarrow> nat \<Rightarrow> chunk list \<Rightarrow> bool" where
  "cdc_inv data mn mx i start chunks =
     (start \<le> i \<and> i \<le> length data \<and> i - start < mx \<and> concat (map ck_data chunks) = take start data
      \<and> tiles 0 chunks start \<and> list_all chunk_ok chunks
      \<and> list_all (\<lambda>c. mn \<le> length (ck_data c) \<and> length (ck_data c) \<le> mx) chunks)"

lemma cdc_loop_inv:
  assumes "0 < mn" "mn \<le> mx"
  shows "cdc_inv data mn mx i start chunks \<Longrightarrow> data = take i data @ rest \<Longrightarrow>
     cdc_loop data mn bits mx i start r chunks rest = (start', chunks') \<Longrightarrow>
     cdc_inv data mn mx (length data) start' chunks'"
proof (induction rest arbitrary: i start r chunks)
  case Nil
  then have "take i data = data" by simp
  then have "length data \<le> i" by (metis length_take min.absorb_iff1 min.commute)
  with Nil show ?case by (auto simp: cdc_inv_def)
next
  case (Cons b bs)
  have i: "i < length data"
    using Cons.prems(2) by (metis append_take_drop_id drop_eq_Nil linorder_not_less list.distinct(1) same_append_eq)
  have rest: "data = take (i + 1) data @ bs"
    using Cons.prems(2) i
    by (metis Suc_eq_plus1 append_take_drop_id drop_Suc list.sel(3) same_append_eq tl_drop)
  let ?cut = "mn \<le> i - start + 1 \<and> (roll r b AND mask bits = 0 \<or> mx \<le> i - start + 1)"
  show ?case
  proof (cases ?cut)
    case True
    let ?c = "mk_chunk start (slice start (i + 1) data)"
    have len: "length (slice start (i + 1) data) = i + 1 - start"
      using Cons.prems(1) i by (simp add: slice_length cdc_inv_def)
    have "cdc_inv data mn mx (i + 1) (i + 1) (chunks @ [?c])"
      using Cons.prems(1) i len assms True take_slice [of start "i + 1" data]
      by (auto simp: cdc_inv_def tiles_append chunk_ok_def)
    moreover have "cdc_loop data mn bits mx (i + 1) (i + 1) 0 (chunks @ [?c]) bs = (start', chunks')"
      using Cons.prems(3) True by (simp add: Let_def)
    ultimately show ?thesis using Cons.IH rest by blast
  next
    case False
    have "cdc_inv data mn mx (i + 1) start chunks"
      using Cons.prems(1) i False assms by (auto simp: cdc_inv_def)
    moreover have "cdc_loop data mn bits mx (i + 1) start (roll r b) chunks bs = (start', chunks')"
      using Cons.prems(3) False by (simp add: Let_def split: if_splits)
    ultimately show ?thesis using Cons.IH rest by blast
  qed
qed

lemma cdc_result:
  assumes "content_defined_chunks data mn bits mx = Inr cs" "data \<noteq> []"
  shows "chunking_of data cs \<and> (\<forall>c \<in> set cs. length (ck_data c) \<le> nat mx)
    \<and> (\<forall>c \<in> set (butlast cs). nat mn \<le> length (ck_data c))"
proof -
  have ok: "0 < nat mn" "nat mn \<le> nat mx"
    using assms by (auto simp: content_defined_chunks_def split: if_splits)
  obtain start chunks where loop: "cdc_loop data (nat mn) bits (nat mx) 0 0 0 [] data = (start, chunks)"
    by fastforce
  have inv: "cdc_inv data (nat mn) (nat mx) (length data) start chunks"
    by (rule cdc_loop_inv [OF ok _ _ loop]) (use ok in \<open>auto simp: cdc_inv_def\<close>)
  have cs: "cs = (if start < length data then chunks @ [mk_chunk start (drop start data)] else chunks)"
    using assms loop ok by (auto simp: content_defined_chunks_def split: if_splits)
  show ?thesis
  proof (cases "start < length data")
    case True
    then show ?thesis using inv cs
      by (auto simp: cdc_inv_def chunking_of_def tiles_append chunk_ok_def list_all_iff)
  next
    case False
    then show ?thesis using inv cs
      by (auto simp: cdc_inv_def chunking_of_def list_all_iff dest: in_set_butlastD)
  qed
qed

text \<open>
  C22 (functional). With legal sizes the content-defined chunker always returns, its chunks
  concatenate to the input, follow each other without gap or overlap, carry the digest of
  their data, are never longer than the maximum, and all but the last are at least the
  minimum; illegal sizes raise on every non-empty input.
\<close>

theorem content_defined_chunks_tile:
  assumes "data \<noteq> []"
  shows "if 0 < mn \<and> mn \<le> mx
    then \<exists>cs. content_defined_chunks data mn bits mx = Inr cs \<and> chunking_of data cs
      \<and> (\<forall>c \<in> set cs. int (length (ck_data c)) \<le> mx)
      \<and> (\<forall>c \<in> set (butlast cs). mn \<le> int (length (ck_data c)))
    else content_defined_chunks data mn bits mx = Inl (ValueError ''invalid chunk sizes'')"
proof (cases "0 < mn \<and> mn \<le> mx")
  case True
  then have "\<exists>cs. content_defined_chunks data mn bits mx = Inr cs"
    using assms by (auto simp: content_defined_chunks_def split: prod.splits)
  then obtain cs where cs: "content_defined_chunks data mn bits mx = Inr cs" ..
  with cdc_result [OF cs assms] True show ?thesis by (fastforce simp: nat_le_iff le_nat_iff)
qed (use assms in \<open>auto simp: content_defined_chunks_def\<close>)

theorem content_defined_chunks_tile_witness:
  "\<exists>cs. content_defined_chunks [1, 2, 3, 4, 5] 2 12 2 = Inr cs \<and> chunking_of [1, 2, 3, 4, 5] cs"
  using content_defined_chunks_tile [of "[1, 2, 3, 4, 5]" 2 2 12] by auto

lemma concat_fixed:
  "concat (map (\<lambda>k. slice (k * s) (k * s + s) data) [0..<n]) = take (n * s) data"
proof (induction n)
  case (Suc n)
  have "take (n * s) data @ slice (n * s) (n * s + s) data = take (n * s + s) data"
    by (rule take_slice) simp
  with Suc show ?case by (simp add: add.commute)
qed simp

lemma tiles_fixed:
  "n * s < length data + s \<Longrightarrow> 0 < s \<Longrightarrow>
   tiles 0 (map (\<lambda>k. mk_chunk (k * s) (slice (k * s) (k * s + s) data)) [0..<n]) (min (n * s) (length data))"
proof (induction n)
  case (Suc n)
  then have lt: "n * s < length data" by simp
  then have "n * s < length data + s" by simp
  with Suc lt show ?case by (auto simp: tiles_append slice_def min_def)
qed simp

text \<open>
  The fixed-size chunker raises exactly for a non-positive size; otherwise its chunks tile the
  input, every one but the last has exactly the given size and the last is not longer.
\<close>

lemma fixed_chunks_tiling:
  "(width \<le> 0 \<longrightarrow> fixed_chunks data width = Inl (ValueError ''chunk size must be positive''))
   \<and> (0 < width \<longrightarrow> (\<exists>cs. fixed_chunks data width = Inr cs \<and> chunking_of data cs
        \<and> (\<forall>c \<in> set (butlast cs). int (length (ck_data c)) = width)
        \<and> (\<forall>c \<in> set cs. int (length (ck_data c)) \<le> width)))"
proof (intro conjI impI)
  assume pos: "0 < width"
  define s where "s = nat width"
  define n where "n = (length data + s - 1) div s"
  let ?cs = "map (\<lambda>k. mk_chunk (k * s) (slice (k * s) (k * s + s) data)) [0..<n]"
  have s: "0 < s" "int s = width" using pos by (simp_all add: s_def)
  have res: "fixed_chunks data width = Inr ?cs"
    using pos by (simp add: fixed_chunks_def py_range_def n_def s_def comp_def)
  have upper: "length data \<le> n * s"
    using s dividend_less_div_times [of s "length data + s - 1"] unfolding n_def by linarith
  have lower: "n * s < length data + s"
    using s div_times_less_eq_dividend [of "length data + s - 1" s] unfolding n_def by linarith
  have before: "k * s < length data" if "k < n" for k
    using lower that s by (metis Suc_leI add.commute add_le_cancel_left le_less_trans less_add_same_cancel2
        linorder_not_less mult_Suc mult_le_mono1 nat_add_left_cancel_less)
  have before2: "k * s + s \<le> length data" if "Suc k < n" for k
    using before [OF that] by (simp add: add.commute)
  have "chunking_of data ?cs"
    using concat_fixed [of s data n] tiles_fixed [OF lower s(1)] upper before s
    by (auto simp: chunking_of_def comp_def list_all_iff chunk_ok_def slice_def linorder_not_less [symmetric])
  moreover have "\<forall>c \<in> set (butlast ?cs). int (length (ck_data c)) = width"
  proof -
    have "Suc k < n \<and> k * s + s \<le> length data" if "k \<in> set (butlast [0..<n])" for k
      using that before2 [of k] by (cases n) auto
    then show ?thesis using s by (fastforce simp: map_butlast [symmetric] slice_def)
  qed
  moreover have "\<forall>c \<in> set ?cs. int (length (ck_data c)) \<le> width"
    using s by (auto simp: slice_def)
  ultimately show "\<exists>cs. fixed_chunks data width = Inr cs \<and> chunking_of data cs
        \<and> (\<forall>c \<in> set (butlast cs). int (length (ck_data c)) = width)
        \<and> (\<forall>c \<in> set cs. int (length (ck_data c)) \<le> width)"
    using res by blast
qed (simp add: fixed_chunks_def)

lemma cdc_chunking: "content_defined_chunks data mn bits mx = Inr cs \<Longrightarrow> chunking_of data cs"
  using cdc_result [of data mn bits mx cs]
  by (cases "data = []") (auto simp: content_defined_chunks_def chunking_of_def)

lemma fixed_chunking: "fixed_chunks data width = Inr cs \<Longrightarrow> chunking_of data cs"
  using fixed_chunks_tiling [of width data] by (cases "0 < width") auto

end
