(* ===== verification/ChunkStore.thy ===== *)
theory ChunkStore
  imports Chunking
begin

text \<open>
  \<open>python/urp/chunk_store.py\<close> with the compression plugin of \<open>python/urp/transforms.py\<close>:
  the deduplicating chunk store. Its files are a map from resolved paths to bytes and its
  index a dictionary of the stored rows. The compressors (\<open>zlib\<close>, the optional
  \<open>zstandard\<close> package) are parameters; the properties assume that decompressing what
  was compressed gives the data back.
\<close>

subsection \<open>The compression plugin\<close>

record compressor =
  has_zstd :: bool
  zstd_compress :: "bytes \<Rightarrow> bytes"
  zstd_decompress :: "bytes \<Rightarrow> bytes option"
  zlib_compress :: "bytes \<Rightarrow> bytes"
  zlib_decompress :: "bytes \<Rightarrow> bytes option"

definition new_plugin :: "compressor \<Rightarrow> string option \<Rightarrow> string option res" where
  "new_plugin zc codec =
     (if codec \<notin> {None, Some ''zstd'', Some ''zlib''}
      then Inl (ValueError (''unsupported compression codec: '' @ the codec))
      else if codec = Some ''zstd'' \<and> \<not> has_zstd zc
      then Inl (RuntimeError ''zstd-compressed data requires the optional zstandard dependency'')
      else Inr codec)"

definition plugin_codec :: "compressor \<Rightarrow> string option \<Rightarrow> string" where
  "plugin_codec zc requested = (case requested of Some c \<Rightarrow> c
     | None \<Rightarrow> if has_zstd zc then ''zstd'' else ''zlib'')"

definition plugin_compress :: "compressor \<Rightarrow> string option \<Rightarrow> bytes \<Rightarrow> bytes" where
  "plugin_compress zc requested data =
     (if plugin_codec zc requested = ''zstd'' then zstd_compress zc data else zlib_compress zc data)"

definition plugin_decompress :: "compressor \<Rightarrow> string option \<Rightarrow> bytes \<Rightarrow> bytes res" where
  "plugin_decompress zc requested data =
     (if plugin_codec zc requested = ''zstd''
      then (case zstd_decompress zc data of Some b \<Rightarrow> Inr b | None \<Rightarrow> Inl (OtherError ''zstandard.ZstdError''))
      else (case zlib_decompress zc data of Some b \<Rightarrow> Inr b | None \<Rightarrow> Inl (OtherError ''zlib.error'')))"

record compression_result =
  cr_transform :: string
  cr_codec :: string
  cr_original_size :: nat
  cr_stored_size :: nat
  cr_data :: bytes

definition useful :: "compression_result \<Rightarrow> bool" where
  "useful r = (cr_stored_size r < cr_original_size r)"

definition try_compress :: "compressor \<Rightarrow> string option \<Rightarrow> bytes \<Rightarrow> compression_result" where
  "try_compress zc requested data =
     (let encoded = plugin_compress zc requested data in
      \<lparr>cr_transform = ''zstd'', cr_codec = plugin_codec zc requested, cr_original_size = length data,
       cr_stored_size = length encoded, cr_data = encoded\<rparr>)"

definition lossless :: "compressor \<Rightarrow> bool" where
  "lossless zc = ((\<forall>b. zlib_decompress zc (zlib_compress zc b) = Some b)
     \<and> (has_zstd zc \<longrightarrow> (\<forall>b. zstd_decompress zc (zstd_compress zc b) = Some b)))"

lemma plugin_lossless:
  assumes "lossless zc"
  shows "new_plugin zc (Some (plugin_codec zc None)) = Inr (Some (plugin_codec zc None))"
    and "plugin_decompress zc (Some (plugin_codec zc None)) (plugin_compress zc None b) = Inr b"
    and "plugin_codec zc None \<in> {''zstd'', ''zlib''}"
  using assms by (auto simp: lossless_def new_plugin_def plugin_decompress_def plugin_compress_def plugin_codec_def)

subsection \<open>Rows and state\<close>

record stored_chunk =
  sc_digest :: string
  sc_tenant :: string
  sc_namespace :: string
  sc_ref :: string
  sc_transform_stack :: "pyval list"
  sc_codec :: pyval
  sc_logical_size :: int
  sc_stored_size :: int
  sc_dedupe_hit :: bool

definition stored_to_dict :: "stored_chunk \<Rightarrow> pydict" where
  "stored_to_dict sc = [
     (''digest'', PStr (sc_digest sc)),
     (''tenant'', PStr (sc_tenant sc)),
     (''namespace'', PStr (sc_namespace sc)),
     (''ref'', PStr (sc_ref sc)),
     (''transform_stack'', PList (sc_transform_stack sc)),
     (''codec'', sc_codec sc),
     (''logical_size'', PInt (sc_logical_size sc)),
     (''stored_size'', PInt (sc_stored_size sc)),
     (''dedupe_hit'', PBool (sc_dedupe_hit sc))]"

record chunk_store =
  cs_root :: "string list"
  cs_files :: "(string list \<times> bytes) list"
  cs_index :: "(string \<times> pydict) list"

definition new_chunk_store :: "string list \<Rightarrow> chunk_store" where
  "new_chunk_store root = \<lparr>cs_root = root, cs_files = [], cs_index = []\<rparr>"

definition hash_text :: "string \<Rightarrow> string" where
  "hash_text s = sha256_hex (utf8 s)"

definition NUL :: char where
  "NUL = CHR 0x00"

definition domain_text :: "string \<Rightarrow> string \<Rightarrow> string" where
  "domain_text tenant ns = tenant @ [NUL] @ ns"

definition domain_dir :: "string \<Rightarrow> string \<Rightarrow> string" where
  "domain_dir tenant ns = ''domain-'' @ take 32 (hash_text (domain_text tenant ns))"

definition key_text :: "string \<Rightarrow> string \<Rightarrow> string \<Rightarrow> string" where
  "key_text tenant ns digest = tenant @ [NUL] @ ns @ [NUL] @ digest"

definition chunk_key :: "string \<Rightarrow> string \<Rightarrow> string \<Rightarrow> string" where
  "chunk_key tenant ns digest = hash_text (key_text tenant ns digest)"

definition chunk_path :: "chunk_store \<Rightarrow> string \<Rightarrow> string \<Rightarrow> string \<Rightarrow> string list" where
  "chunk_path s tenant ns digest = resolve_path (cs_root s @ [domain_dir tenant ns, digest])"

definition chunk_ref :: "string \<Rightarrow> string \<Rightarrow> string \<Rightarrow> string" where
  "chunk_ref tenant ns digest = domain_dir tenant ns @ ''/'' @ digest"

subsection \<open>Operations\<close>

definition read_stored :: "compressor \<Rightarrow> chunk_store \<Rightarrow> pydict \<Rightarrow> bytes res" where
  "read_stored zc s stored =
     bindR (item stored ''ref'') (\<lambda>ref.
     bindR (resolve_under (cs_root s) (py_str ref)) (\<lambda>path.
     bindR (case map_of (cs_files s) path of Some b \<Rightarrow> Inr b
              | None \<Rightarrow> Inl (FileNotFoundError (join ''/'' path))) (\<lambda>payload.
     bindR (list_or_empty (get_value stored ''transform_stack'')) (\<lambda>stack.
     bindR (if PStr ''zstd'' \<in> set stack then
              (let codec = (if truthy (get_value stored ''codec'') then py_str (get_value stored ''codec'') else []) in
               if codec \<notin> {''zstd'', ''zlib''}
               then Inl (ValueError ''compressed chunk manifest is missing a supported codec'')
               else bindR (new_plugin zc (Some codec)) (\<lambda>p. plugin_decompress zc p payload))
            else Inr payload) (\<lambda>payload.
     (let digest = get_value stored ''digest''; sha = get_value stored ''sha256'';
          expected = (if truthy digest then py_str digest else if truthy sha then py_str sha else [])
      in if expected \<noteq> [] \<and> sha256_bytes payload \<noteq> expected
         then Inl (ValueError ''chunk checksum verification failed'') else Inr payload))))))"

definition rehydrate :: "compressor \<Rightarrow> chunk_store \<Rightarrow> pydict list \<Rightarrow> bytes res" where
  "rehydrate zc s segments = map_res concat (seq_res (map (read_stored zc s) segments))"

text \<open>The row of an index hit: the recorded fields under the caller's tenant and namespace.\<close>

definition existing_chunk :: "string \<Rightarrow> string \<Rightarrow> pydict \<Rightarrow> stored_chunk res" where
  "existing_chunk tenant ns existing =
     bindR (item existing ''digest'') (\<lambda>digest.
     bindR (item existing ''ref'') (\<lambda>ref.
     bindR (list_or_empty (get_value existing ''transform_stack'')) (\<lambda>stack.
     bindR (bindR (item existing ''logical_size'') py_int) (\<lambda>logical.
     bindR (bindR (item existing ''stored_size'') py_int) (\<lambda>stored.
     Inr \<lparr>sc_digest = py_str digest, sc_tenant = tenant, sc_namespace = ns, sc_ref = py_str ref,
       sc_transform_stack = stack,
       sc_codec = (if truthy (get_value existing ''codec'') then get_value existing ''codec'' else PNone),
       sc_logical_size = logical, sc_stored_size = stored, sc_dedupe_hit = True\<rparr>)))))"

definition put_chunk :: "compressor \<Rightarrow> string \<Rightarrow> string \<Rightarrow> bool \<Rightarrow> chunk \<Rightarrow> (stored_chunk, chunk_store) sres" where
  "put_chunk zc tenant ns compress c s =
     (let path = chunk_path s tenant ns (ck_sha256 c);
          key = chunk_key tenant ns (ck_sha256 c)
      in case (map_of (cs_files s) path, dget (cs_index s) key) of
        (Some _, Some existing) \<Rightarrow>
          (bindR (existing_chunk tenant ns existing) (\<lambda>candidate.
             map_res (\<lambda>_. candidate) (read_stored zc s (stored_to_dict candidate))), s)
      | _ \<Rightarrow>
          (let result = try_compress zc None (ck_data c);
               shrink = (compress \<and> useful result);
               payload = (if shrink then cr_data result else ck_data c);
               stored = \<lparr>sc_digest = ck_sha256 c, sc_tenant = tenant, sc_namespace = ns,
                 sc_ref = chunk_ref tenant ns (ck_sha256 c),
                 sc_transform_stack = (if shrink then [PStr (cr_transform result)] else []),
                 sc_codec = (if shrink then PStr (cr_codec result) else PNone),
                 sc_logical_size = int (length (ck_data c)), sc_stored_size = int (length payload),
                 sc_dedupe_hit = False\<rparr>
           in (Inr stored, s\<lparr>cs_files := AList.update path payload (cs_files s),
                 cs_index := dset key (stored_to_dict stored) (cs_index s)\<rparr>)))"

definition put_chunks :: "compressor \<Rightarrow> string \<Rightarrow> string \<Rightarrow> bool \<Rightarrow> chunk list \<Rightarrow> (stored_chunk list, chunk_store) sres" where
  "put_chunks zc tenant ns compress chunks = mapS (put_chunk zc tenant ns compress) chunks"

subsection \<open>The contract of a segment store\<close>

text \<open>
  What the executor relies on: writing a chunk succeeds and leaves a row that holds its
  content, later writes keep what earlier rows hold, and reading a row that holds some content
  returns it.
\<close>

locale segment_store =
  fixes inv :: "'s \<Rightarrow> bool"
    and ok :: "'c \<Rightarrow> bool"
    and put :: "'c \<Rightarrow> ('r, 's) sres"
    and seg :: "'r \<Rightarrow> 'd"
    and held :: "'s \<Rightarrow> 'd \<Rightarrow> bytes \<Rightarrow> bool"
    and read :: "'s \<Rightarrow> 'd \<Rightarrow> bytes res"
    and content :: "'c \<Rightarrow> bytes"
  assumes put_ok: "inv s \<Longrightarrow> ok c \<Longrightarrow> \<exists>r s'. put c s = (Inr r, s') \<and> inv s' \<and> held s' (seg r) (content c)"
    and put_keeps: "inv s \<Longrightarrow> ok c \<Longrightarrow> put c s = (Inr r, s') \<Longrightarrow> held s d b \<Longrightarrow> held s' d b"
    and read_held: "inv s \<Longrightarrow> held s d b \<Longrightarrow> read s d = Inr b"
begin

lemma put_all:
  "inv s \<Longrightarrow> \<forall>c \<in> set cs. ok c \<Longrightarrow>
   \<exists>rs s'. mapS put cs s = (Inr rs, s') \<and> inv s' \<and> list_all2 (\<lambda>r c. held s' (seg r) (content c)) rs cs
     \<and> (\<forall>d b. held s d b \<longrightarrow> held s' d b)"
proof (induction cs arbitrary: s)
  case Nil
  then show ?case by (simp add: retS_def)
next
  case (Cons c cs)
  obtain r s1 where s1: "put c s = (Inr r, s1)" "inv s1" "held s1 (seg r) (content c)"
    using put_ok Cons.prems by (metis list.set_intros(1))
  obtain rs s2 where s2: "mapS put cs s1 = (Inr rs, s2)" "inv s2"
      "list_all2 (\<lambda>r c. held s2 (seg r) (content c)) rs cs" "\<forall>d b. held s1 d b \<longrightarrow> held s2 d b"
    using Cons.IH [OF s1(2)] Cons.prems by auto
  have "\<forall>d b. held s d b \<longrightarrow> held s1 d b" using put_keeps Cons.prems s1(1) by (metis list.set_intros(1))
  then show ?case using s1 s2 by (auto simp: retS_def)
qed

lemma read_all:
  "inv s \<Longrightarrow> list_all2 (held s) ds bs \<Longrightarrow> seq_res (map (read s) ds) = Inr bs"
  by (induction ds arbitrary: bs) (auto simp: list_all2_Cons1 read_held)

end

subsection \<open>Hash collisions\<close>

text \<open>
  \<open>U\<close> is the set of all (tenant, namespace, data) triples a run stores. The properties below
  assume that the texts and data hashed for them do not collide and that tenant names contain
  no NUL character, the separator of the hashed texts.
\<close>

type_synonym stored_item = "string \<times> string \<times> bytes"

definition collision_free :: "stored_item set \<Rightarrow> bool" where
  "collision_free U =
     ((\<forall>(t, n, b) \<in> U. NUL \<notin> set t \<and> NUL \<notin> set n)
      \<and> inj_on sha256_hex ((\<lambda>(t, n, b). b) ` U)
      \<and> inj_on (\<lambda>x. take 32 (hash_text x)) ((\<lambda>(t, n, b). domain_text t n) ` U)
      \<and> inj_on hash_text ((\<lambda>(t, n, b). key_text t n (sha256_bytes b)) ` U))"

lemma NUL_split:
  assumes "NUL \<notin> set t" "NUL \<notin> set t'" "t @ [NUL] @ x = t' @ [NUL] @ x'"
  shows "t = t' \<and> x = x'"
  using assms by (induction t arbitrary: t') (auto simp: Cons_eq_append_conv append_eq_Cons_conv)

lemma collision_free_NUL:
  assumes "collision_free U" "(t, n, b) \<in> U"
  shows "NUL \<notin> set t" "NUL \<notin> set n"
proof -
  have "\<forall>(t, n, b) \<in> U. NUL \<notin> set t \<and> NUL \<notin> set n"
    using assms(1) unfolding collision_free_def by (rule conjunct1)
  from bspec [OF this assms(2)] show "NUL \<notin> set t" "NUL \<notin> set n" by simp_all
qed

lemma collision_free_digest:
  assumes "collision_free U" "(t, n, b) \<in> U" "(t', n', b') \<in> U"
  shows "(sha256_bytes b = sha256_bytes b') = (b = b')"
proof -
  have "inj_on sha256_hex ((\<lambda>(t, n, b). b) ` U)" using assms(1) by (simp add: collision_free_def)
  from inj_onD [OF this] have "b = b'" if "sha256_hex b = sha256_hex b'"
    using that assms(2,3) by force
  then show ?thesis by (auto simp: sha256_bytes_def)
qed

lemma collision_free_domain:
  assumes "collision_free U" "(t, n, b) \<in> U" "(t', n', b') \<in> U" "domain_dir t n = domain_dir t' n'"
  shows "t = t' \<and> n = n'"
proof -
  have inj: "inj_on (\<lambda>x. take 32 (hash_text x)) ((\<lambda>(t, n, b). domain_text t n) ` U)"
    using assms(1) by (simp add: collision_free_def)
  have mem: "domain_text t n \<in> (\<lambda>(t, n, b). domain_text t n) ` U" "domain_text t' n' \<in> (\<lambda>(t, n, b). domain_text t n) ` U"
    using assms(2,3) by force+
  have "take 32 (hash_text (domain_text t n)) = take 32 (hash_text (domain_text t' n'))"
    using assms(4) by (simp add: domain_dir_def)
  from inj_onD [OF inj this mem] have "domain_text t n = domain_text t' n'" .
  then show ?thesis
    using NUL_split [OF collision_free_NUL(1) [OF assms(1,2)] collision_free_NUL(1) [OF assms(1,3)]]
    by (simp add: domain_text_def)
qed

lemma collision_free_key:
  assumes "collision_free U" "(t, n, b) \<in> U" "(t', n', b') \<in> U"
    "chunk_key t n (sha256_bytes b) = chunk_key t' n' (sha256_bytes b')"
  shows "t = t' \<and> n = n' \<and> b = b'"
proof -
  let ?f = "\<lambda>(t, n, b). key_text t n (sha256_bytes b)"
  have inj: "inj_on hash_text (?f ` U)" using assms(1) by (simp add: collision_free_def)
  have mem: "key_text t n (sha256_bytes b) \<in> ?f ` U" "key_text t' n' (sha256_bytes b') \<in> ?f ` U"
    using assms(2,3) by force+
  from inj_onD [OF inj assms(4) [unfolded chunk_key_def] mem]
  have eq: "key_text t n (sha256_bytes b) = key_text t' n' (sha256_bytes b')" .
  have nul: "NUL \<notin> set t" "NUL \<notin> set t'" "NUL \<notin> set n" "NUL \<notin> set n'"
    by (rule collision_free_NUL [OF assms(1) assms(2)] collision_free_NUL [OF assms(1) assms(3)])+
  have "t = t'" "n @ [NUL] @ sha256_bytes b = n' @ [NUL] @ sha256_bytes b'"
    using NUL_split [OF nul(1,2)] eq by (auto simp: key_text_def)
  moreover from this(2) have "n = n'" "sha256_bytes b = sha256_bytes b'"
    using NUL_split [OF nul(3,4)] by auto
  ultimately show ?thesis using collision_free_digest [OF assms(1-3)] by simp
qed

text \<open>The separator is ambiguous for names that contain it: two tenants share a domain.\<close>

lemma NUL_names_share_domain:
  "domain_dir (a @ [NUL] @ b) c = domain_dir a (b @ [NUL] @ c)
   \<and> chunk_key (a @ [NUL] @ b) c d = chunk_key a (b @ [NUL] @ c) d"
  by (simp add: domain_dir_def domain_text_def chunk_key_def key_text_def)

subsection \<open>The invariant\<close>

text \<open>How a row says the file's bytes encode the data, and what the index promises.\<close>

definition encodes :: "compressor \<Rightarrow> pydict \<Rightarrow> bytes \<Rightarrow> bytes \<Rightarrow> bool" where
  "encodes zc e payload b =
     ((dget e ''transform_stack'' = Some (PList []) \<and> dget e ''codec'' = Some PNone \<and> payload = b)
      \<or> (dget e ''transform_stack'' = Some (PList [PStr ''zstd''])
         \<and> dget e ''codec'' = Some (PStr (plugin_codec zc None)) \<and> payload = plugin_compress zc None b))"

definition entry_ok :: "compressor \<Rightarrow> chunk_store \<Rightarrow> string \<Rightarrow> string \<Rightarrow> bytes \<Rightarrow> pydict \<Rightarrow> bool" where
  "entry_ok zc s t n b e =
     (dget e ''digest'' = Some (PStr (sha256_bytes b))
      \<and> dget e ''ref'' = Some (PStr (chunk_ref t n (sha256_bytes b)))
      \<and> (\<exists>i. dget e ''logical_size'' = Some (PInt i)) \<and> (\<exists>i. dget e ''stored_size'' = Some (PInt i))
      \<and> (\<exists>payload. map_of (cs_files s) (chunk_path s t n (sha256_bytes b)) = Some payload \<and> encodes zc e payload b))"

definition store_inv :: "compressor \<Rightarrow> stored_item set \<Rightarrow> chunk_store \<Rightarrow> bool" where
  "store_inv zc U s = (lossless zc \<and> collision_free U \<and> (\<forall>k e. dget (cs_index s) k = Some e \<longrightarrow>
     (\<exists>t n b. (t, n, b) \<in> U \<and> k = chunk_key t n (sha256_bytes b) \<and> entry_ok zc s t n b e)))"

text \<open>A row holds data when its reading fields are those of the index entry for that data.\<close>

definition seg_agrees :: "pydict \<Rightarrow> pydict \<Rightarrow> bool" where
  "seg_agrees d e = list_all (\<lambda>k. dget d k = dget e k) [''digest'', ''ref'', ''transform_stack'', ''codec'']"

definition held :: "compressor \<Rightarrow> stored_item set \<Rightarrow> chunk_store \<Rightarrow> pydict \<Rightarrow> bytes \<Rightarrow> bool" where
  "held zc U s d b = (\<exists>t n e. (t, n, b) \<in> U \<and> dget (cs_index s) (chunk_key t n (sha256_bytes b)) = Some e
     \<and> seg_agrees d e)"

lemma seg_agrees_refl [simp]: "seg_agrees d d"
  by (simp add: seg_agrees_def)

lemma domain_dir_no_slash: "CHR ''/'' \<notin> set (domain_dir t n)"
  using sha256_hex_chars [of "CHR ''/''" "utf8 (domain_text t n)"]
  by (auto simp: domain_dir_def hash_text_def hex_chars_def dest: in_set_takeD)

lemma digest_no_slash: "CHR ''/'' \<notin> set (sha256_bytes b)"
  using sha256_hex_chars [of "CHR ''/''" b] by (auto simp: sha256_bytes_def hex_chars_def)

lemma digest_clean: "sha256_bytes b \<noteq> []" "sha256_bytes b \<noteq> ''.''" "sha256_bytes b \<noteq> ''..''"
proof -
  have len: "length (sha256_bytes b) = 64" by (simp add: sha256_bytes_def)
  show "sha256_bytes b \<noteq> []" "sha256_bytes b \<noteq> ''.''" "sha256_bytes b \<noteq> ''..''"
    using len by (metis list.size(3) zero_neq_numeral) (use len in auto)
qed

lemma split_on_app: "sep \<notin> set u \<Longrightarrow> split_on sep (u @ sep # v) = u # split_on sep v"
  by (induction u) (auto split: list.splits)

lemma resolve_acc_app: "resolve_acc acc (ps @ qs) = resolve_acc (rev (resolve_acc acc ps)) qs"
  by (induction acc ps rule: resolve_acc.induct) auto

lemma resolve_chunk_ref:
  "resolve_under (cs_root s) (chunk_ref t n (sha256_bytes b)) = Inr (chunk_path s t n (sha256_bytes b))"
proof -
  have rel: "\<not> prefix ''/'' (chunk_ref t n (sha256_bytes b))"
    by (simp add: chunk_ref_def domain_dir_def)
  have parts: "split_on (CHR ''/'') (chunk_ref t n (sha256_bytes b)) = [domain_dir t n, sha256_bytes b]"
    by (simp add: chunk_ref_def split_on_app domain_dir_no_slash split_on_no_sep digest_no_slash)
  have dom: "domain_dir t n \<noteq> []" "domain_dir t n \<noteq> ''.''" "domain_dir t n \<noteq> ''..''"
    by (simp_all add: domain_dir_def)
  have "chunk_path s t n (sha256_bytes b) = resolve_path (cs_root s) @ [domain_dir t n, sha256_bytes b]"
    using dom digest_clean [of b] by (simp add: chunk_path_def resolve_path_def resolve_acc_app)
  then show ?thesis
    using rel parts dom digest_clean [of b] by (simp add: resolve_under_def Let_def resolve_path_base)
qed

lemma chunk_path_inject:
  assumes "collision_free U" "(t, n, b) \<in> U" "(t', n', b') \<in> U"
    "chunk_path s t n (sha256_bytes b) = chunk_path s t' n' (sha256_bytes b')"
  shows "t = t' \<and> n = n' \<and> b = b'"
proof -
  have path: "chunk_path s t n (sha256_bytes b) = resolve_path (cs_root s) @ [domain_dir t n, sha256_bytes b]" for t n b
    using digest_clean [of b] by (simp add: chunk_path_def resolve_path_def resolve_acc_app domain_dir_def)
  have "domain_dir t n = domain_dir t' n'" "sha256_bytes b = sha256_bytes b'"
    using assms(4) by (simp_all add: path)
  then show ?thesis
    using collision_free_domain [OF assms(1-3)] collision_free_digest [OF assms(1-3)] by simp
qed

text \<open>Reading depends on the four fields, and an index entry's row reads as its data.\<close>

lemma read_entry:
  assumes "lossless zc" "entry_ok zc s t n b e" "seg_agrees d e"
  shows "read_stored zc s d = Inr b"
proof -
  have d: "dget d ''digest'' = Some (PStr (sha256_bytes b))"
      "dget d ''ref'' = Some (PStr (chunk_ref t n (sha256_bytes b)))"
    using assms(2,3) by (simp_all add: entry_ok_def seg_agrees_def)
  obtain payload where fil: "map_of (cs_files s) (chunk_path s t n (sha256_bytes b)) = Some payload"
    and enc: "encodes zc d payload b"
    using assms(2,3) by (auto simp: entry_ok_def seg_agrees_def encodes_def)
  have head: "item d ''ref'' = Inr (PStr (chunk_ref t n (sha256_bytes b)))"
    using d by (simp add: item_def)
  have final: "(let digest = get_value d ''digest''; sha = get_value d ''sha256'';
      expected = (if truthy digest then py_str digest else if truthy sha then py_str sha else [])
      in if expected \<noteq> [] \<and> sha256_bytes b \<noteq> expected
         then Inl (ValueError ''chunk checksum verification failed'') else Inr b) = Inr b"
    using d digest_clean [of b] by (simp add: get_value_def)
  from enc consider
      (raw) "get_value d ''transform_stack'' = PList []" "payload = b"
    | (packed) "get_value d ''transform_stack'' = PList [PStr ''zstd'']"
        "get_value d ''codec'' = PStr (plugin_codec zc None)" "payload = plugin_compress zc None b"
    by (auto simp: encodes_def get_value_def)
  then show ?thesis
  proof cases
    case raw
    then show ?thesis using final by (simp add: read_stored_def head resolve_chunk_ref fil list_or_empty_def)
  next
    case packed
    have "plugin_codec zc None \<noteq> []" using plugin_lossless(3) [OF assms(1)] by auto
    then show ?thesis using final packed plugin_lossless [OF assms(1)]
      by (simp add: read_stored_def head resolve_chunk_ref fil list_or_empty_def Let_def)
  qed
qed

subsection \<open>Writing\<close>

definition digest_ok :: "chunk \<Rightarrow> bool" where
  "digest_ok c = (ck_sha256 c = sha256_bytes (ck_data c))"

definition storable :: "stored_item set \<Rightarrow> string \<Rightarrow> string \<Rightarrow> chunk \<Rightarrow> bool" where
  "storable U t n c = (digest_ok c \<and> (t, n, ck_data c) \<in> U)"

lemma store_inv_entry:
  assumes "store_inv zc U s" "dget (cs_index s) (chunk_key t n (sha256_bytes b)) = Some e" "(t, n, b) \<in> U"
  shows "entry_ok zc s t n b e"
proof -
  obtain t' n' b' where e: "(t', n', b') \<in> U" "chunk_key t n (sha256_bytes b) = chunk_key t' n' (sha256_bytes b')"
      "entry_ok zc s t' n' b' e"
    using assms(1,2) unfolding store_inv_def by blast
  with collision_free_key [OF _ assms(3) e(1)] assms(1) show ?thesis by (auto simp: store_inv_def)
qed

lemma held_read:
  assumes "store_inv zc U s" "held zc U s d b"
  shows "read_stored zc s d = Inr b"
proof -
  obtain t n e where e: "(t, n, b) \<in> U" "dget (cs_index s) (chunk_key t n (sha256_bytes b)) = Some e" "seg_agrees d e"
    using assms(2) by (auto simp: held_def)
  show ?thesis
    using read_entry [OF _ store_inv_entry [OF assms(1) e(2,1)] e(3)] assms(1) by (simp add: store_inv_def)
qed

lemma put_hit:
  assumes inv: "store_inv zc U s" and ok: "storable U t n c"
    and old: "dget (cs_index s) (chunk_key t n (ck_sha256 c)) = Some e"
  shows "\<exists>r. put_chunk zc t n z c s = (Inr r, s) \<and> sc_dedupe_hit r \<and> seg_agrees (stored_to_dict r) e"
proof -
  have dig: "ck_sha256 c = sha256_bytes (ck_data c)" and mem: "(t, n, ck_data c) \<in> U"
    using ok by (auto simp: storable_def digest_ok_def)
  have entry: "entry_ok zc s t n (ck_data c) e"
    using store_inv_entry [OF inv _ mem] old dig by simp
  obtain i j payload where e: "dget e ''digest'' = Some (PStr (ck_sha256 c))"
      "dget e ''ref'' = Some (PStr (chunk_ref t n (ck_sha256 c)))"
      "dget e ''logical_size'' = Some (PInt i)" "dget e ''stored_size'' = Some (PInt j)"
      "map_of (cs_files s) (chunk_path s t n (ck_sha256 c)) = Some payload" "encodes zc e payload (ck_data c)"
    using entry unfolding entry_ok_def dig by blast
  obtain stack codec where sc: "dget e ''transform_stack'' = Some (PList stack)" "dget e ''codec'' = Some codec"
      "truthy codec \<or> codec = PNone"
    using e(6) plugin_lossless(3) [of zc] inv by (fastforce simp: encodes_def store_inv_def)
  let ?r = "\<lparr>sc_digest = ck_sha256 c, sc_tenant = t, sc_namespace = n, sc_ref = chunk_ref t n (ck_sha256 c),
     sc_transform_stack = stack, sc_codec = codec, sc_logical_size = i, sc_stored_size = j, sc_dedupe_hit = True\<rparr>"
  have cand: "existing_chunk t n e = Inr ?r"
    using e(1-4) sc by (auto simp: existing_chunk_def item_def get_value_def list_or_empty_def)
  have agrees: "seg_agrees (stored_to_dict ?r) e"
    using e(1-4) sc by (simp add: seg_agrees_def stored_to_dict_def)
  have "read_stored zc s (stored_to_dict ?r) = Inr (ck_data c)"
    using read_entry [OF _ entry agrees] inv by (simp add: store_inv_def)
  then have "put_chunk zc t n z c s = (Inr ?r, s)"
    by (simp add: put_chunk_def e(5) old cand)
  with agrees show ?thesis by auto
qed

lemma put_miss:
  assumes inv: "store_inv zc U s" and ok: "storable U t n c"
    and new: "dget (cs_index s) (chunk_key t n (ck_sha256 c)) = None"
  shows "\<exists>r s'. put_chunk zc t n z c s = (Inr r, s') \<and> \<not> sc_dedupe_hit r \<and> store_inv zc U s'
    \<and> cs_index s' = dset (chunk_key t n (ck_sha256 c)) (stored_to_dict r) (cs_index s)"
proof -
  have dig: "ck_sha256 c = sha256_bytes (ck_data c)" and mem: "(t, n, ck_data c) \<in> U"
    using ok by (auto simp: storable_def digest_ok_def)
  let ?b = "ck_data c"
  let ?key = "chunk_key t n (sha256_bytes ?b)"
  obtain r s' where put: "put_chunk zc t n z c s = (Inr r, s')"
    and r: "\<not> sc_dedupe_hit r"
    and ix: "cs_index s' = dset ?key (stored_to_dict r) (cs_index s)"
    and root: "cs_root s' = cs_root s"
    and body: "\<exists>payload. cs_files s' = AList.update (chunk_path s t n (sha256_bytes ?b)) payload (cs_files s)
        \<and> encodes zc (stored_to_dict r) payload ?b"
    and dict: "dget (stored_to_dict r) ''digest'' = Some (PStr (sha256_bytes ?b))"
      "dget (stored_to_dict r) ''ref'' = Some (PStr (chunk_ref t n (sha256_bytes ?b)))"
    using new unfolding put_chunk_def dig
    by (cases "map_of (cs_files s) (chunk_path s t n (sha256_bytes ?b))")
       (auto simp: Let_def stored_to_dict_def try_compress_def encodes_def)
  have path: "chunk_path s' t n d = chunk_path s t n d" for t n d
    by (simp add: chunk_path_def root)
  have here: "entry_ok zc s' t n ?b (stored_to_dict r)"
    using body dict by (auto simp: entry_ok_def path update_conv' stored_to_dict_def)
  have there: "entry_ok zc s' t' n' b' e" if "entry_ok zc s t' n' b' e" "(t', n', b') \<in> U" "(t', n', b') \<noteq> (t, n, ?b)"
    for t' n' b' e
  proof -
    have "chunk_path s t' n' (sha256_bytes b') \<noteq> chunk_path s t n (sha256_bytes ?b)"
      using chunk_path_inject [OF _ that(2) mem] that(3) inv by (auto simp: store_inv_def)
    then show ?thesis using that(1) body by (auto simp: entry_ok_def path update_conv')
  qed
  have "store_inv zc U s'"
    unfolding store_inv_def
  proof (intro conjI allI impI)
    show "lossless zc" "collision_free U" using inv by (auto simp: store_inv_def)
    fix k e assume k: "dget (cs_index s') k = Some e"
    show "\<exists>t n b. (t, n, b) \<in> U \<and> k = chunk_key t n (sha256_bytes b) \<and> entry_ok zc s' t n b e"
    proof (cases "k = ?key")
      case True
      with k here mem show ?thesis by (auto simp: ix)
    next
      case False
      with k have "dget (cs_index s) k = Some e" by (simp add: ix)
      then obtain t' n' b' where e: "(t', n', b') \<in> U" "k = chunk_key t' n' (sha256_bytes b')" "entry_ok zc s t' n' b' e"
        using inv unfolding store_inv_def by blast
      moreover have "(t', n', b') \<noteq> (t, n, ?b)" using e(2) False by auto
      ultimately show ?thesis using there by blast
    qed
  qed
  with put r ix dig show ?thesis by auto
qed

interpretation chunks: segment_store "store_inv zc U" "storable U t n" "put_chunk zc t n z"
  stored_to_dict "held zc U" "read_stored zc" ck_data
  for zc U t n z
proof
  fix s c assume inv: "store_inv zc U s" and ok: "storable U t n c"
  then have dig: "ck_sha256 c = sha256_bytes (ck_data c)" and mem: "(t, n, ck_data c) \<in> U"
    by (auto simp: storable_def digest_ok_def)
  show "\<exists>r s'. put_chunk zc t n z c s = (Inr r, s') \<and> store_inv zc U s' \<and> held zc U s' (stored_to_dict r) (ck_data c)"
  proof (cases "dget (cs_index s) (chunk_key t n (ck_sha256 c))")
    case None
    then show ?thesis using put_miss [OF inv ok None] mem dig by (force simp: held_def)
  next
    case (Some e)
    then show ?thesis using put_hit [OF inv ok Some] mem dig inv by (force simp: held_def)
  qed
next
  fix s c r s' d b
  assume inv: "store_inv zc U s" and ok: "storable U t n c" and put: "put_chunk zc t n z c s = (Inr r, s')"
    and h: "held zc U s d b"
  show "held zc U s' d b"
  proof (cases "dget (cs_index s) (chunk_key t n (ck_sha256 c))")
    case None
    from h obtain t' n' e where e: "(t', n', b) \<in> U" "dget (cs_index s) (chunk_key t' n' (sha256_bytes b)) = Some e"
        "seg_agrees d e"
      by (auto simp: held_def)
    with None have "chunk_key t' n' (sha256_bytes b) \<noteq> chunk_key t n (ck_sha256 c)" by auto
    with e show ?thesis using put_miss [OF inv ok None, of z] put by (force simp: held_def)
  next
    case (Some e)
    then show ?thesis using put_hit [OF inv ok Some, of z] put h by auto
  qed
qed (rule held_read)

lemma chunking_storable:
  assumes "chunking_of data cs" "\<forall>c \<in> set cs. (t, n, ck_data c) \<in> U"
  shows "\<forall>c \<in> set cs. storable U t n c"
  using assms by (auto simp: chunking_of_def list_all_iff chunk_ok_def storable_def digest_ok_def)

lemma list_all2_held:
  "list_all2 (\<lambda>r c. held zc U s (stored_to_dict r) (ck_data c)) rs cs \<Longrightarrow>
   list_all2 (held zc U s) (map stored_to_dict rs) (map ck_data cs)"
  by (simp add: list_all2_map1 list_all2_map2)

lemma put_chunks_roundtrip:
  assumes "store_inv zc U s" "chunking_of data cs" "\<forall>c \<in> set cs. (t, n, ck_data c) \<in> U"
  shows "\<exists>rs s'. put_chunks zc t n z cs s = (Inr rs, s') \<and> store_inv zc U s'
    \<and> list_all2 (\<lambda>r c. held zc U s' (stored_to_dict r) (ck_data c)) rs cs
    \<and> rehydrate zc s' (map stored_to_dict rs) = Inr data
    \<and> (\<forall>d b. held zc U s d b \<longrightarrow> held zc U s' d b)"
proof -
  obtain rs s' where put: "put_chunks zc t n z cs s = (Inr rs, s')" "store_inv zc U s'"
      "list_all2 (\<lambda>r c. held zc U s' (stored_to_dict r) (ck_data c)) rs cs"
      "\<forall>d b. held zc U s d b \<longrightarrow> held zc U s' d b"
    using chunks.put_all [OF assms(1) chunking_storable [OF assms(2,3)], of z] unfolding put_chunks_def by blast
  have "rehydrate zc s' (map stored_to_dict rs) = Inr data"
    using chunks.read_all [OF put(2) list_all2_held [OF put(3)]] assms(2)
    by (simp add: rehydrate_def chunking_of_def)
  with put show ?thesis by blast
qed

subsection \<open>A concrete compressor\<close>

text \<open>For examples: a leading run of four zero bytes is replaced by one marker byte.\<close>

fun zeros_compress :: "bytes \<Rightarrow> bytes" where
  "zeros_compress (a # b # c # d # bs) =
     (if a = 0 \<and> b = 0 \<and> c = 0 \<and> d = 0 then 1 # bs else 0 # a # b # c # d # bs)"
| "zeros_compress bs = 0 # bs"

fun zeros_decompress :: "bytes \<Rightarrow> bytes option" where
  "zeros_decompress [] = None"
| "zeros_decompress (m # bs) = Some (if m = 1 then 0 # 0 # 0 # 0 # bs else bs)"

definition zeros_zip :: compressor where
  "zeros_zip = \<lparr>has_zstd = False, zstd_compress = zeros_compress, zstd_decompress = zeros_decompress,
     zlib_compress = zeros_compress, zlib_decompress = zeros_decompress\<rparr>"

lemma zeros_zip_lossless [simp]: "lossless zeros_zip"
proof -
  have "zeros_decompress (zeros_compress bs) = Some bs" for bs
    by (cases bs rule: zeros_compress.cases) auto
  then show ?thesis by (simp add: lossless_def zeros_zip_def)
qed

lemma collision_free_single [simp]: "collision_free {(t, n, b)} = (NUL \<notin> set t \<and> NUL \<notin> set n)"
  by (simp add: collision_free_def)

lemma store_inv_new [simp]: "store_inv zc U (new_chunk_store root) = (lossless zc \<and> collision_free U)"
  by (simp add: store_inv_def new_chunk_store_def)

subsection \<open>Properties\<close>

text \<open>
  C9 (round trip). Whatever is chunked and stored is restored byte for byte, compressed or
  not, deduplicated or not: on a store that satisfies its invariant every write of a chunking
  of the data succeeds, reading the returned rows gives the data, the invariant is kept, and
  every row that held data before still reads as that data.
\<close>

theorem chunk_store_roundtrip:
  assumes "store_inv zc U s" "chunking_of data cs" "\<forall>c \<in> set cs. (t, n, ck_data c) \<in> U"
  shows "\<exists>rs s'. put_chunks zc t n z cs s = (Inr rs, s') \<and> store_inv zc U s'
    \<and> rehydrate zc s' (map stored_to_dict rs) = Inr data
    \<and> (\<forall>d b. held zc U s d b \<longrightarrow> read_stored zc s' d = Inr b)"
proof -
  from put_chunks_roundtrip [OF assms, of z] obtain rs s' where "put_chunks zc t n z cs s = (Inr rs, s')"
      "store_inv zc U s'" "rehydrate zc s' (map stored_to_dict rs) = Inr data"
      "\<forall>d b. held zc U s d b \<longrightarrow> held zc U s' d b"
    by blast
  then show ?thesis using held_read by (intro exI conjI) auto
qed

theorem chunk_store_roundtrip_witness:
  "\<exists>rs s'. put_chunks zeros_zip ''acme'' ''default'' True [mk_chunk 0 [0, 0, 0, 0, 7], mk_chunk 5 [0, 0, 0, 0, 7]]
       (new_chunk_store [''chunks'']) = (Inr rs, s')
     \<and> rehydrate zeros_zip s' (map stored_to_dict rs) = Inr [0, 0, 0, 0, 7, 0, 0, 0, 0, 7]"
proof -
  let ?U = "{(''acme'', ''default'', [0, 0, 0, 0, 7])} :: stored_item set"
  have "store_inv zeros_zip ?U (new_chunk_store [''chunks''])" by (simp add: NUL_def)
  moreover have "chunking_of [0, 0, 0, 0, 7, 0, 0, 0, 0, 7] [mk_chunk 0 [0, 0, 0, 0, 7], mk_chunk 5 [0, 0, 0, 0, 7]]"
    by (simp add: chunking_of_def chunk_ok_def)
  ultimately show ?thesis
    using chunk_store_roundtrip [of zeros_zip ?U "new_chunk_store [''chunks'']" "[0, 0, 0, 0, 7, 0, 0, 0, 0, 7]"
        "[mk_chunk 0 [0, 0, 0, 0, 7], mk_chunk 5 [0, 0, 0, 0, 7]]" "''acme''" "''default''" True]
    by auto
qed

text \<open>The runs of a store: chunks put one after another for any tenants and namespaces, with the
  history of what was stored.\<close>

inductive store_run :: "compressor \<Rightarrow> string list \<Rightarrow> stored_item list \<Rightarrow> chunk_store \<Rightarrow> bool"
  for zc root where
  run_new: "store_run zc root [] (new_chunk_store root)"
| run_put: "store_run zc root h s \<Longrightarrow> digest_ok c \<Longrightarrow> put_chunk zc t n z c s = (r, s') \<Longrightarrow>
     store_run zc root ((t, n, ck_data c) # h) s'"

lemma store_run_inv:
  "store_run zc root h s \<Longrightarrow> lossless zc \<Longrightarrow> collision_free U \<Longrightarrow> set h \<subseteq> U \<Longrightarrow>
   store_inv zc U s \<and> (\<forall>t n b. (t, n, b) \<in> U \<longrightarrow>
     (dget (cs_index s) (chunk_key t n (sha256_bytes b)) \<noteq> None) = ((t, n, b) \<in> set h))"
proof (induction rule: store_run.induct)
  case run_new
  then show ?case by simp (simp add: new_chunk_store_def)
next
  case (run_put h s c t n z r s')
  then have inv: "store_inv zc U s" and ok: "storable U t n c"
    and hist: "\<And>t n b. (t, n, b) \<in> U \<Longrightarrow> (dget (cs_index s) (chunk_key t n (sha256_bytes b)) \<noteq> None) = ((t, n, b) \<in> set h)"
    by (auto simp: storable_def)
  have dig: "ck_sha256 c = sha256_bytes (ck_data c)" and mem: "(t, n, ck_data c) \<in> U"
    using ok by (auto simp: storable_def digest_ok_def)
  show ?case
  proof (cases "dget (cs_index s) (chunk_key t n (ck_sha256 c))")
    case None
    have s': "store_inv zc U s'" "\<exists>v. cs_index s' = dset (chunk_key t n (ck_sha256 c)) v (cs_index s)"
      using put_miss [OF inv ok None, of z] run_put.hyps(3) by auto
    have key: "(chunk_key t' n' (sha256_bytes b) = chunk_key t n (sha256_bytes (ck_data c))) = ((t', n', b) = (t, n, ck_data c))"
      if "(t', n', b) \<in> U" for t' n' b
      using collision_free_key [OF run_put.prems(2) that mem] by auto
    have "(dget (cs_index s') (chunk_key t' n' (sha256_bytes b)) \<noteq> None) = ((t', n', b) \<in> set ((t, n, ck_data c) # h))"
      if "(t', n', b) \<in> U" for t' n' b
      using s'(2) hist [OF that] key [OF that] by (auto simp: dig simp del: not_None_eq)
    with s'(1) show ?thesis by blast
  next
    case (Some e)
    then have "s' = s" using put_hit [OF inv ok Some, of z] run_put.hyps(3) by auto
    moreover have "(t, n, ck_data c) \<in> set h" using hist [OF mem] Some dig by simp
    ultimately show ?thesis using inv hist by auto
  qed
qed

text \<open>
  C20 (functional). Deduplication happens exactly for repeats inside one tenant and namespace:
  after any run, writing a chunk is reported as a deduplication hit if and only if the same
  tenant stored the same bytes in the same namespace before, and in both cases the row reads
  back as the chunk's bytes.
\<close>

theorem dedupe_exactly_repeats:
  assumes "store_run zc root h s" "lossless zc" "collision_free (insert (t, n, ck_data c) (set h))" "digest_ok c"
  shows "\<exists>r s'. put_chunk zc t n z c s = (Inr r, s')
    \<and> (sc_dedupe_hit r = ((t, n, ck_data c) \<in> set h)) \<and> read_stored zc s' (stored_to_dict r) = Inr (ck_data c)"
proof -
  let ?U = "insert (t, n, ck_data c) (set h)"
  have inv: "store_inv zc ?U s"
    and hist: "(dget (cs_index s) (chunk_key t n (ck_sha256 c)) \<noteq> None) = ((t, n, ck_data c) \<in> set h)"
    using store_run_inv [OF assms(1-3)] assms(4) by (auto simp: digest_ok_def)
  have ok: "storable ?U t n c" using assms(4) by (simp add: storable_def)
  obtain r s' where r: "put_chunk zc t n z c s = (Inr r, s')" "store_inv zc ?U s'"
      "held zc ?U s' (stored_to_dict r) (ck_data c)"
    using chunks.put_ok [OF inv ok] by blast
  moreover have "sc_dedupe_hit r = ((t, n, ck_data c) \<in> set h)"
    using put_hit [OF inv ok, of _ z] put_miss [OF inv ok, of z] r(1) hist
    by (cases "dget (cs_index s) (chunk_key t n (ck_sha256 c))") auto
  ultimately show ?thesis using held_read by blast
qed

theorem dedupe_exactly_repeats_witness:
  "\<exists>r s'. put_chunk zeros_zip ''acme'' ''default'' True (mk_chunk 0 [0, 0, 0, 0, 7])
       (snd (put_chunk zeros_zip ''acme'' ''default'' True (mk_chunk 9 [0, 0, 0, 0, 7]) (new_chunk_store [''chunks''])))
     = (Inr r, s') \<and> sc_dedupe_hit r"
proof -
  let ?c = "mk_chunk 9 [0, 0, 0, 0, 7]"
  let ?s = "snd (put_chunk zeros_zip ''acme'' ''default'' True ?c (new_chunk_store [''chunks'']))"
  have "store_run zeros_zip [''chunks''] [(''acme'', ''default'', ck_data ?c)] ?s"
    by (rule run_put [OF run_new, where t = "''acme''" and n = "''default''" and z = True]) (simp_all add: digest_ok_def prod_eq_iff)
  from dedupe_exactly_repeats [OF this, where c = "mk_chunk 0 [0, 0, 0, 0, 7]" and t = "''acme''" and n = "''default''" and z = True]
  show ?thesis by (auto simp: digest_ok_def NUL_def)
qed

text \<open>
  C21 (error). Tampered storage is never served: whatever the store's files hold, a row that
  names a digest either fails to read or yields bytes with exactly that digest, and only a
  file below the store's root is opened for it.
\<close>

theorem read_stored_checked:
  assumes "read_stored zc s d = Inr b" "dget d ''digest'' = Some (PStr digest)" "digest \<noteq> []"
  shows "sha256_bytes b = digest
    \<and> (\<exists>r p payload. dget d ''ref'' = Some r \<and> resolve_under (cs_root s) (py_str r) = Inr p
        \<and> prefix (resolve_path (cs_root s)) p \<and> map_of (cs_files s) p = Some payload)"
proof
  show "sha256_bytes b = digest"
    using assms by (auto simp: read_stored_def Let_def get_value_def effect_simps split: if_splits option.splits)
  obtain r p payload where r: "dget d ''ref'' = Some r" "resolve_under (cs_root s) (py_str r) = Inr p"
      "map_of (cs_files s) p = Some payload"
    using assms(1) by (auto simp: read_stored_def item_def effect_simps split: option.splits)
  moreover from r(2) have "prefix (resolve_path (cs_root s)) p"
    unfolding resolve_under_def Let_def by (simp split: if_splits)
  ultimately show "\<exists>r p payload. dget d ''ref'' = Some r \<and> resolve_under (cs_root s) (py_str r) = Inr p
        \<and> prefix (resolve_path (cs_root s)) p \<and> map_of (cs_files s) p = Some payload"
    by blast
qed

theorem read_stored_checked_witness:
  "\<exists>r s'. put_chunk zeros_zip ''acme'' ''default'' True (mk_chunk 0 [5]) (new_chunk_store [''chunks'']) = (Inr r, s')
     \<and> sha256_bytes [5] = sc_digest r"
proof -
  let ?U = "{(''acme'', ''default'', [5])} :: stored_item set"
  have "store_inv zeros_zip ?U (new_chunk_store [''chunks''])" "storable ?U ''acme'' ''default'' (mk_chunk 0 [5])"
    by (simp_all add: NUL_def storable_def digest_ok_def)
  from chunks.put_ok [OF this, of True] obtain r s' where
      put: "put_chunk zeros_zip ''acme'' ''default'' True (mk_chunk 0 [5]) (new_chunk_store [''chunks'']) = (Inr r, s')"
    and inv: "store_inv zeros_zip ?U s'" and h: "held zeros_zip ?U s' (stored_to_dict r) [5]"
    by auto
  have "sc_digest r = sha256_bytes [5]"
    using put by (auto simp: put_chunk_def new_chunk_store_def Let_def)
  moreover have "dget (stored_to_dict r) ''digest'' = Some (PStr (sc_digest r))" by (simp add: stored_to_dict_def)
  ultimately show ?thesis
    using put read_stored_checked [OF held_read [OF inv h], of "sc_digest r"] digest_clean(1) by metis
qed

end
