(* ===== verification/JsonText.thy ===== *)
theory JsonText
  imports PyText
begin

text \<open>
  What a value becomes when it is written as JSON text and read back: tuples turn into lists
  and, with \<open>sort_keys\<close>, dictionaries come back in key order. The canonical text, and so
  every hash taken of it, does not depend on that; and JSON text is printable ASCII, so that
  a line-oriented file never breaks inside a row.
\<close>

fun json_ok :: "pyval \<Rightarrow> bool" where
  "json_ok (PBytes b) = False"
| "json_ok (PList xs) = list_all json_ok xs"
| "json_ok (PTuple xs) = list_all json_ok xs"
| "json_ok (PDict d) = list_all (\<lambda>kv. json_ok (snd kv)) d"
| "json_ok v = True"

fun jnorm :: "pyval \<Rightarrow> pyval" where
  "jnorm (PList xs) = PList (map jnorm xs)"
| "jnorm (PTuple xs) = PList (map jnorm xs)"
| "jnorm (PDict d) = PDict (sort_key fst (map (\<lambda>kv. (fst kv, jnorm (snd kv))) d))"
| "jnorm v = v"

definition jnorm_dict :: "pydict \<Rightarrow> pydict" where
  "jnorm_dict d = sort_key fst (map (\<lambda>kv. (fst kv, jnorm (snd kv))) d)"

text \<open>\<open>json.dumps\<close> without a \<open>default\<close> raises for bytes; what is read back is the normal form.\<close>

definition json_write :: "pydict \<Rightarrow> pydict res" where
  "json_write d = (if json_ok (PDict d) then Inr (jnorm_dict d)
     else Inl (TypeError ''Object of type bytes is not JSON serializable''))"

lemma insort_key_map: "map g (insort_key (\<lambda>x. f (g x)) x xs) = insort_key f (g x) (map g xs)"
  by (induction xs) auto

lemma sort_key_map: "sort_key f (map g xs) = map g (sort_key (\<lambda>x. f (g x)) xs)"
  by (induction xs) (simp_all add: insort_key_map)

lemma sort_key_idem: "sort_key f (sort_key f xs) = sort_key f xs"
  by (simp add: sort_key_id_if_sorted)

lemma dumps_jnorm [simp]: "dumps isep ksep (jnorm v) = dumps isep ksep v"
proof (induction v rule: jnorm.induct)
  case (1 xs)
  then show ?case by (simp add: comp_def cong: map_cong)
next
  case (2 xs)
  then show ?case by (simp add: comp_def cong: map_cong)
next
  case (3 d)
  have eq: "map (\<lambda>x. json_str (fst x) @ ksep @ dumps isep ksep (jnorm (snd x))) (sort_key fst d)
      = map (\<lambda>x. json_str (fst x) @ ksep @ dumps isep ksep (snd x)) (sort_key fst d)"
    using 3 by (intro map_cong) auto
  show ?case by (simp add: sort_key_map comp_def sort_key_idem) (simp only: eq)
qed simp_all

lemma jnorm_PDict: "jnorm (PDict d) = PDict (jnorm_dict d)"
  by (simp add: jnorm_dict_def)

lemma stable_json_jnorm [simp]: "stable_json (PDict (jnorm_dict d)) = stable_json (PDict d)"
  using dumps_jnorm [of "'',''" "'':''" "PDict d"] by (simp only: stable_json_def jnorm_PDict)

lemma stable_json_hash_jnorm [simp]: "stable_json_hash (PDict (jnorm_dict d)) = stable_json_hash (PDict d)"
  by (simp add: stable_json_hash_def)

subsection \<open>Dictionaries after a round trip\<close>

lemma set_jnorm_dict: "set (jnorm_dict d) = (\<lambda>kv. (fst kv, jnorm (snd kv))) ` set d"
  by (simp add: jnorm_dict_def)

lemma map_of_insort_key: "map_of (insort_key fst kv xs) = map_of (kv # xs)"
  by (induction xs) (auto simp: fun_eq_iff)

lemma map_of_sort_key: "map_of (sort_key fst xs) = map_of xs"
  by (induction xs) (simp_all add: map_of_insort_key)

lemma dget_jnorm_dict [simp]: "dget (jnorm_dict d) k = map_option jnorm (dget d k)"
proof -
  have "map_of (map (\<lambda>kv. (fst kv, jnorm (snd kv))) d) k = map_option jnorm (map_of d k)"
    by (induction d) auto
  then show ?thesis by (simp add: dget_def jnorm_dict_def map_of_sort_key)
qed

text \<open>The files written with \<open>default=str\<close> hold the text of bytes instead.\<close>

fun jfile :: "pyval \<Rightarrow> pyval" where
  "jfile (PBytes b) = PStr (repr_bytes b)"
| "jfile (PList xs) = PList (map jfile xs)"
| "jfile (PTuple xs) = PList (map jfile xs)"
| "jfile (PDict d) = PDict (sort_key fst (map (\<lambda>kv. (fst kv, jfile (snd kv))) d))"
| "jfile v = v"

definition jfile_dict :: "pydict \<Rightarrow> pydict" where
  "jfile_dict d = sort_key fst (map (\<lambda>kv. (fst kv, jfile (snd kv))) d)"

lemma jfile_PDict: "jfile (PDict d) = PDict (jfile_dict d)"
  by (simp add: jfile_dict_def)

lemma dget_jfile_dict [simp]: "dget (jfile_dict d) k = map_option jfile (dget d k)"
proof -
  have "map_of (map (\<lambda>kv. (fst kv, jfile (snd kv))) d) k = map_option jfile (map_of d k)"
    by (induction d) auto
  then show ?thesis by (simp add: dget_def jfile_dict_def map_of_sort_key)
qed

lemma jfile_jnorm: "json_ok v \<Longrightarrow> jfile v = jnorm v"
proof (induction v rule: jnorm.induct)
  case (3 d)
  then have eq: "map (\<lambda>kv. (fst kv, jfile (snd kv))) d = map (\<lambda>kv. (fst kv, jnorm (snd kv))) d"
    by (intro map_cong) (auto simp: list_all_iff)
  show ?case by (simp only: jfile.simps jnorm.simps eq)
qed (auto simp: list_all_iff)

lemma dumps_jfile [simp]: "dumps isep ksep (jfile v) = dumps isep ksep v"
proof (induction v rule: jfile.induct)
  case (2 xs)
  then show ?case by (simp add: comp_def cong: map_cong)
next
  case (3 xs)
  then show ?case by (simp add: comp_def cong: map_cong)
next
  case (4 d)
  have eq: "map (\<lambda>x. json_str (fst x) @ ksep @ dumps isep ksep (jfile (snd x))) (sort_key fst d)
      = map (\<lambda>x. json_str (fst x) @ ksep @ dumps isep ksep (snd x)) (sort_key fst d)"
    using 4 by (intro map_cong) auto
  show ?case by (simp add: sort_key_map comp_def sort_key_idem) (simp only: eq)
qed simp_all

lemma stable_json_hash_jfile [simp]: "stable_json_hash (jfile v) = stable_json_hash v"
  by (simp add: stable_json_hash_def stable_json_def)

lemma jfile_opt_value [simp]: "jfile (opt_value x) = opt_value x"
  by (simp add: opt_value_def split: option.splits)

subsection \<open>JSON text is printable\<close>

definition printable :: "char \<Rightarrow> bool" where
  "printable c = (32 \<le> (of_char c :: nat) \<and> (of_char c :: nat) < 127)"

lemma show_nat_printable: "c \<in> set (show_nat n) \<Longrightarrow> printable c"
proof (induction n rule: show_nat.induct)
  case (1 n)
  have digit: "printable (char_of (48 + m))" if "m < 10" for m :: nat
    using that by (simp add: printable_def of_char_of)
  show ?case
    using "1.prems" "1.IH" digit [of "n mod 10"] digit [of n]
    by (cases "n < 10") (auto simp: show_nat.simps [of n])
qed

lemma printable_lit: "printable (CHR ''-'')" "printable (CHR ''.'')" "printable (CHR ''0'')"
  "printable (CHR ''['')" "printable (CHR '']'')" "printable (CHR ''{'')" "printable (CHR ''}'')"
  "printable (CHR ''n'')" "printable (CHR ''u'')" "printable (CHR ''r'')" "printable (CHR ''t'')"
  "printable (CHR ''f'')" "printable (CHR ''b'')" "printable (CHR 0x5C)" "printable (CHR 0x22)"
  "printable (CHR ''l'')" "printable (CHR ''e'')" "printable (CHR ''a'')" "printable (CHR ''s'')"
  by (simp_all add: printable_def)

lemma show_int_printable: "c \<in> set (show_int i) \<Longrightarrow> printable c"
  by (auto simp: show_int_def printable_lit show_nat_printable split: if_splits)

lemma show_float_printable: "c \<in> set (show_float m e) \<Longrightarrow> printable c"
proof -
  have pad: "printable c" if "c \<in> set (pad_zeros n (show_nat k))" for c n k
    using that show_nat_printable by (auto simp: pad_zeros_def printable_lit split: if_splits)
  have parts: "printable c" if "\<forall>c \<in> set ds. printable c" "c \<in> set (sg @ take k ds @ ''.'' @ z)"
    "sg = ''-'' \<or> sg = []" "z = ''0'' \<or> z = drop k ds" for ds sg k z
    using that by (auto simp: printable_lit dest: in_set_takeD in_set_dropD)
  assume "c \<in> set (show_float m e)"
  then show "printable c"
    unfolding show_float_def Let_def by (rule parts [rotated]) (use pad in auto)
qed

lemma json_str_printable: "c \<in> set (json_str s) \<Longrightarrow> printable c"
proof -
  have hex: "printable (hex_digit n)" if "n < 16" for n
    using hex_digit_chars [OF that] by (auto simp: hex_chars_def printable_def)
  have "printable c" if "c \<in> set (json_char d)" for d
  proof -
    have plain: "printable d" if "32 \<le> (of_char d :: nat)" "(of_char d :: nat) \<le> 126"
      using that by (simp add: printable_def)
    have "(of_char d :: nat) < 256" by simp
    then have "(of_char d :: nat) div 16 < 16" "(of_char d :: nat) mod 16 < 16"
      by (simp_all add: less_mult_imp_div_less)
    then show ?thesis
      using that plain by (auto simp: json_char_def Let_def hex_escape_def printable_lit hex split: if_splits)
  qed
  then show "c \<in> set (json_str s) \<Longrightarrow> printable c"
    by (auto simp: json_str_def printable_lit)
qed

lemma join_chars: "c \<in> set (join sep xs) \<Longrightarrow> c \<in> set sep \<or> (\<exists>x \<in> set xs. c \<in> set x)"
  by (induction sep xs rule: join.induct) auto

lemma dumps_printable:
  "\<forall>c \<in> set isep \<union> set ksep. printable c \<Longrightarrow> c \<in> set (dumps isep ksep v) \<Longrightarrow> printable c"
proof (induction v arbitrary: c rule: jnorm.induct)
  case (1 xs)
  then show ?case by (auto simp: printable_lit dest!: join_chars)
next
  case (2 xs)
  then show ?case by (auto simp: printable_lit dest!: join_chars)
next
  case (3 d)
  then show ?case by (auto simp: printable_lit dest!: join_chars json_str_printable)
qed (auto simp: printable_lit show_int_printable show_float_printable json_str_printable split: if_splits)

end
