(* ===== verification/Ledger.thy ===== *)
theory Ledger
  imports Auth JsonText
begin

text \<open>
  \<open>python/urp/ledger.py\<close>: the append-only ledger whose events are chained by hashes. The
  file is the list of its rows as JSON objects; its text, and the backward block reader that
  finds the last row without reading the whole file, are modelled on bytes and proved to
  agree with the rows. Schema validation (the \<open>jsonschema\<close> package) is a parameter.
\<close>

type_synonym schemas = "string \<Rightarrow> pydict \<Rightarrow> unit res"
type_synonym ledger_rows = "pydict list"

subsection \<open>Operations\<close>

definition read_event :: "pydict \<Rightarrow> ledger_event res" where
  "read_event row = event_from_dict [] [] row"

definition read_unlocked :: "ledger_rows \<Rightarrow> ledger_event list res" where
  "read_unlocked rows = seq_res (map read_event rows)"

definition last_event :: "ledger_rows \<Rightarrow> ledger_event option res" where
  "last_event rows = (if rows = [] then Inr None else map_res Some (read_event (last rows)))"

definition event_hash_of :: "ledger_event option \<Rightarrow> string option" where
  "event_hash_of prev = (case prev of None \<Rightarrow> None | Some e \<Rightarrow> ev_event_hash e)"

definition ledger_append :: "schemas \<Rightarrow> ctx \<Rightarrow> ledger_event \<Rightarrow> (ledger_event, ledger_rows) sres" where
  "ledger_append sch c event =
     thenS (liftR (enforce_tenant c (ev_tenant event)))
       (\<lambda>rows. bindS (liftR (last_event rows)) (\<lambda>previous.
         (let chained = with_chain_hash event (event_hash_of previous);
              data = event_to_dict chained
          in thenS (liftR (sch ''ledger_event'' data))
               (bindS (liftR (json_write data)) (\<lambda>row.
                 (\<lambda>rows. (Inr chained, rows @ [row])))))) rows)"

definition ledger_read :: "ctx \<Rightarrow> ledger_rows \<Rightarrow> ledger_event list res" where
  "ledger_read c rows = map_res (filter (\<lambda>e. visible c (ev_tenant e))) (read_unlocked rows)"

definition given :: "string option \<Rightarrow> string option" where
  "given x = (case x of Some s \<Rightarrow> if s = [] then None else Some s | None \<Rightarrow> None)"

definition wants :: "string option \<Rightarrow> string option \<Rightarrow> bool" where
  "wants w v = (case given w of None \<Rightarrow> True | Some s \<Rightarrow> v = Some s)"

definition ledger_query :: "ctx \<Rightarrow> string option \<Rightarrow> string option \<Rightarrow> string option \<Rightarrow> string list \<Rightarrow> int option
    \<Rightarrow> ledger_rows \<Rightarrow> ledger_event list res" where
  "ledger_query c tn work_unit_id manifest_id event_types limit rows =
     (let tn' = (if given tn = None then current_tenant c else tn) in
      map_res (\<lambda>es. last_rows limit (filter (\<lambda>e.
          wants tn' (Some (ev_tenant e)) \<and> wants work_unit_id (ev_work_unit_id e)
          \<and> wants manifest_id (ev_manifest_id e)
          \<and> (event_types = [] \<or> ev_event_type e \<in> set event_types)) es))
        (ledger_read c rows))"

definition last_hash :: "ledger_rows \<Rightarrow> string option res" where
  "last_hash rows = map_res event_hash_of (last_event rows)"

fun chain_from :: "string option \<Rightarrow> ledger_event list \<Rightarrow> bool" where
  "chain_from prev [] = True"
| "chain_from prev (e # es) =
     (if ev_prev_hash e \<noteq> prev then False
      else if ev_event_hash e \<noteq> ev_event_hash (with_chain_hash e (ev_prev_hash e)) then False
      else chain_from (ev_event_hash e) es)"

definition verify_chain :: "ledger_rows \<Rightarrow> bool res" where
  "verify_chain rows = map_res (chain_from None) (read_unlocked rows)"

subsection \<open>Reading back what was appended\<close>

lemma jnorm_opt_value [simp]: "jnorm (opt_value x) = opt_value x"
  by (simp add: opt_value_def split: option.splits)

definition settled :: "ledger_event \<Rightarrow> ledger_event" where
  "settled e = e\<lparr>ev_details := jnorm_dict (ev_details e)\<rparr>"

lemma read_written:
  assumes "json_write (event_to_dict e) = Inr row" "ev_event_id e \<noteq> []" "ev_created_at e \<noteq> []"
  shows "read_event row = Inr (settled e)"
proof -
  have "row = jnorm_dict (event_to_dict e)" using assms(1) by (simp add: json_write_def split: if_splits)
  then show ?thesis using assms(2,3)
    by (simp add: read_event_def event_from_dict_def item_def get_value_def event_to_dict_def jnorm_PDict settled_def
        del: jnorm.simps(3))
qed

lemma stable_json_hash_cong:
  "map (\<lambda>kv. (fst kv, stable_json (snd kv))) d = map (\<lambda>kv. (fst kv, stable_json (snd kv))) d' \<Longrightarrow>
   stable_json_hash (PDict d) = stable_json_hash (PDict d')"
  by (simp add: stable_json_hash_def stable_json_def)

lemma settled_hash [simp]:
  "ev_event_hash (with_chain_hash (settled e) p) = ev_event_hash (with_chain_hash e p)"
proof -
  have "stable_json_hash (PDict (event_to_dict (settled f))) = stable_json_hash (PDict (event_to_dict f))" for f
    by (rule stable_json_hash_cong) (simp add: event_to_dict_def settled_def)
  moreover have "(settled e)\<lparr>ev_prev_hash := p, ev_event_hash := None\<rparr> = settled (e\<lparr>ev_prev_hash := p, ev_event_hash := None\<rparr>)"
    by (simp add: settled_def)
  ultimately show ?thesis by (simp add: with_chain_hash_def chain_payload_event)
qed

lemma chain_from_append:
  "chain_from p (es @ [e]) = (chain_from p es \<and> ev_prev_hash e = (if es = [] then p else ev_event_hash (last es))
     \<and> ev_event_hash e = ev_event_hash (with_chain_hash e (ev_prev_hash e)))"
  by (induction es arbitrary: p) auto

lemma seq_res_append:
  "seq_res (xs @ ys) = bindR (seq_res xs) (\<lambda>as. map_res (\<lambda>bs. as @ bs) (seq_res ys))"
proof (induction xs)
  case Nil
  then show ?case by (cases "seq_res ys") auto
next
  case (Cons r xs)
  then show ?case by (cases r; cases "seq_res xs"; cases "seq_res ys") auto
qed

lemma seq_res_length: "seq_res rs = Inr xs \<Longrightarrow> length xs = length rs"
  by (induction rs arbitrary: xs rule: seq_res.induct) (auto simp: effect_simps)

lemma seq_res_last: "seq_res rs = Inr xs \<Longrightarrow> rs \<noteq> [] \<Longrightarrow> last rs = Inr (last xs)"
proof (induction rs arbitrary: xs rule: rev_induct)
  case (snoc r rs)
  then show ?case by (cases r) (auto simp: seq_res_append effect_simps)
qed simp

lemma last_event_read:
  assumes "read_unlocked rows = Inr es"
  shows "last_event rows = Inr (if es = [] then None else Some (last es))"
proof (cases "rows = []")
  case True
  then show ?thesis using assms by (simp add: last_event_def read_unlocked_def)
next
  case False
  then have "last (map read_event rows) = Inr (last es)" "es \<noteq> []"
    using assms seq_res_last [of "map read_event rows" es] seq_res_length [of "map read_event rows" es]
    by (auto simp: read_unlocked_def)
  then show ?thesis using False by (simp add: last_event_def last_map)
qed

lemma append_cases:
  assumes "ledger_append sch c e rows = (r, rows')"
  shows "(\<exists>err. r = Inl err \<and> rows' = rows) \<or>
    (\<exists>previous row. r = Inr (with_chain_hash e (event_hash_of previous)) \<and> last_event rows = Inr previous
       \<and> json_write (event_to_dict (with_chain_hash e (event_hash_of previous))) = Inr row
       \<and> rows' = rows @ [row] \<and> visible c (ev_tenant e))"
  using assms
  by (auto simp: ledger_append_def thenS_def bindS_def liftR_def Let_def visible_def
      split: prod.splits sum.splits)

lemma append_success:
  assumes "ledger_append sch c e rows = (Inr e', rows')" "read_unlocked rows = Inr es"
    "ev_event_id e \<noteq> []" "ev_created_at e \<noteq> []"
  shows "e' = with_chain_hash e (if es = [] then None else ev_event_hash (last es))
    \<and> read_unlocked rows' = Inr (es @ [settled e']) \<and> visible c (ev_tenant e)
    \<and> (\<exists>row. rows' = rows @ [row] \<and> read_event row = Inr (settled e'))"
proof -
  obtain previous row where *: "e' = with_chain_hash e (event_hash_of previous)" "last_event rows = Inr previous"
      "json_write (event_to_dict e') = Inr row" "rows' = rows @ [row]" "visible c (ev_tenant e)"
    using append_cases [OF assms(1)] by auto
  have row: "read_event row = Inr (settled e')"
    by (rule read_written [OF *(3)]) (use *(1) assms(3,4) in \<open>simp_all add: with_chain_hash_def\<close>)
  have "previous = (if es = [] then None else Some (last es))"
    using last_event_read [OF assms(2)] *(2) by simp
  then show ?thesis
    using * row assms(2) by (auto simp: event_hash_of_def read_unlocked_def seq_res_append)
qed

lemma append_chain:
  assumes "verify_chain rows = Inr True" "ev_event_id e \<noteq> []" "ev_created_at e \<noteq> []"
  shows "case ledger_append sch c e rows of
      (Inl err, rows') \<Rightarrow> rows' = rows
    | (Inr e', rows') \<Rightarrow> (\<exists>row. rows' = rows @ [row]) \<and> visible c (ev_tenant e)
        \<and> last_hash rows = Inr (ev_prev_hash e') \<and> last_hash rows' = Inr (ev_event_hash e')
        \<and> verify_chain rows' = Inr True"
proof -
  obtain es where es: "read_unlocked rows = Inr es" "chain_from None es"
    using assms(1) by (auto simp: verify_chain_def effect_simps)
  obtain r rows' where step: "ledger_append sch c e rows = (r, rows')" by fastforce
  show ?thesis
  proof (cases r)
    case (Inl err)
    then show ?thesis using append_cases [OF step] step by auto
  next
    case (Inr e')
    let ?p = "if es = [] then None else ev_event_hash (last es)"
    have s: "e' = with_chain_hash e ?p" "read_unlocked rows' = Inr (es @ [settled e'])" "visible c (ev_tenant e)"
        "\<exists>row. rows' = rows @ [row]"
      using append_success [OF step [unfolded Inr] es(1) assms(2,3)] by auto
    have hash: "ev_event_hash (settled e') = ev_event_hash e'" "ev_prev_hash (settled e') = ?p"
      using s(1) by (simp_all add: settled_def with_chain_hash_def)
    have "ev_event_hash e' = ev_event_hash (with_chain_hash e' ?p)"
      using s(1) by simp
    then have "chain_from None (es @ [settled e'])"
      using es(2) hash by (simp add: chain_from_append)
    then have "verify_chain rows' = Inr True" by (simp add: verify_chain_def s(2))
    moreover have "last_hash rows' = Inr (ev_event_hash e')"
      using last_event_read [OF s(2)] hash by (simp add: last_hash_def event_hash_of_def)
    moreover have "last_hash rows = Inr (ev_prev_hash e')"
      using last_event_read [OF es(1)] s(1) by (simp add: last_hash_def event_hash_of_def with_chain_hash_def)
    ultimately show ?thesis using s step Inr by simp
  qed
qed

text \<open>
  Appending keeps the ledger verifiable: on a ledger whose chain verifies, an
  append either fails and changes nothing, or adds exactly one row for a tenant the caller may
  write, whose predecessor hash is the previous last hash, after which the chain verifies again
  and the last hash is that of the returned event.
\<close>

theorem append_keeps_chain:
  assumes "verify_chain rows = Inr True" "ev_event_id e \<noteq> []" "ev_created_at e \<noteq> []"
  shows "case ledger_append sch c e rows of
      (Inl err, rows') \<Rightarrow> rows' = rows
    | (Inr e', rows') \<Rightarrow> (\<exists>row. rows' = rows @ [row]) \<and> visible c (ev_tenant e)
        \<and> last_hash rows = Inr (ev_prev_hash e') \<and> last_hash rows' = Inr (ev_event_hash e')
        \<and> verify_chain rows' = Inr True"
  by (rule append_chain [OF assms])

theorem append_keeps_chain_witness:
  "verify_chain (snd (ledger_append (\<lambda>_ _. Inr ()) None sample_event [])) = Inr True"
proof -
  have "ledger_append (\<lambda>_ _. Inr ()) None sample_event []
      = (Inr (with_chain_hash sample_event None), [jnorm_dict (event_to_dict (with_chain_hash sample_event None))])"
    by (simp add: ledger_append_def thenS_def bindS_def liftR_def enforce_tenant_def bound_tenant_def current_tenant_def
        last_event_def event_hash_of_def json_write_def event_to_dict_def with_chain_hash_def sample_event_def opt_value_def)
  then show ?thesis
    using append_keeps_chain [of "[]" sample_event None "\<lambda>_ _. Inr ()"]
    by (simp add: sample_event_def verify_chain_def read_unlocked_def)
qed

text \<open>
  A ledger query never shows another tenant's events: every event it returns is
  in the ledger, visible to the caller, and matches every given filter; without a limit it
  returns all such events in ledger order, and with a positive limit the last so many.
\<close>

theorem query_only_visible:
  assumes "ledger_query c tn wu mf types limit rows = Inr es"
  shows "\<exists>all. read_unlocked rows = Inr all
    \<and> es = last_rows limit (filter (\<lambda>e. visible c (ev_tenant e) \<and> wants tn (Some (ev_tenant e))
          \<and> wants wu (ev_work_unit_id e) \<and> wants mf (ev_manifest_id e)
          \<and> (types = [] \<or> ev_event_type e \<in> set types)) all)
    \<and> (\<forall>e \<in> set es. e \<in> set all \<and> visible c (ev_tenant e))
    \<and> (\<forall>l. limit = Some l \<and> 0 < l \<longrightarrow> int (length es) \<le> l)"
proof -
  obtain all where all: "read_unlocked rows = Inr all"
    using assms by (auto simp: ledger_query_def ledger_read_def Let_def effect_simps)
  let ?P = "\<lambda>e. visible c (ev_tenant e) \<and> wants tn (Some (ev_tenant e))
          \<and> wants wu (ev_work_unit_id e) \<and> wants mf (ev_manifest_id e)
          \<and> (types = [] \<or> ev_event_type e \<in> set types)"
  have tn: "(visible c (ev_tenant e) \<and> wants (if given tn = None then current_tenant c else tn) (Some (ev_tenant e)))
      = (visible c (ev_tenant e) \<and> wants tn (Some (ev_tenant e)))" for e
    by (auto simp: visible_iff wants_def given_def bound_tenant_def split: option.splits if_splits)
  have filt: "filter (\<lambda>e. wants (if given tn = None then current_tenant c else tn) (Some (ev_tenant e))
          \<and> wants wu (ev_work_unit_id e) \<and> wants mf (ev_manifest_id e)
          \<and> (types = [] \<or> ev_event_type e \<in> set types)) (filter (\<lambda>e. visible c (ev_tenant e)) all) = filter ?P all"
    unfolding filter_filter by (rule filter_cong [OF refl]) (use tn in blast)
  have es: "es = last_rows limit (filter ?P all)"
    using assms all filt by (simp add: ledger_query_def ledger_read_def Let_def)
  have "\<forall>e \<in> set es. e \<in> set all \<and> visible c (ev_tenant e)"
    using es last_rows_subset by fastforce
  moreover have "int (length es) \<le> l" if "limit = Some l" "0 < l" for l
    using that es by (simp add: last_rows_def)
  ultimately show ?thesis using all es by blast
qed

theorem query_only_visible_witness:
  "\<exists>all. read_unlocked [event_to_dict sample_event] = Inr all \<and> (\<forall>e \<in> {sample_event}. e \<in> set all)"
proof -
  have "ledger_query None None None None [] None [event_to_dict sample_event] = Inr [sample_event]"
  proof -
    have "read_event (event_to_dict sample_event) = Inr sample_event"
      unfolding read_event_def by (rule event_roundtrip) (simp_all add: sample_event_def)
    then show ?thesis
      by (simp add: ledger_query_def ledger_read_def read_unlocked_def
          given_def wants_def current_tenant_def last_rows_def visible_iff bound_tenant_def)
  qed
  from query_only_visible [OF this] obtain all where "read_unlocked [event_to_dict sample_event] = Inr all"
      "\<forall>e \<in> set [sample_event]. e \<in> set all \<and> visible None (ev_tenant e)"
    by (elim exE conjE) (rule that)
  then show ?thesis by (intro exI [of _ all]) simp
qed

subsection \<open>Finding the last row in the file\<close>

definition rstrip_nl :: "bytes \<Rightarrow> bytes" where
  "rstrip_nl bs = rev (dropWhile (\<lambda>b. b = 10 \<or> b = 13) (rev bs))"

definition after_last_nl :: "bytes \<Rightarrow> bytes" where
  "after_last_nl bs = rev (takeWhile (\<lambda>b. b \<noteq> 10) (rev bs))"

text \<open>The loop of \<open>_last_event_unlocked\<close>: blocks of \<open>k\<close> bytes from the end, until the text read
  so far contains a line break before its trailing ones or the file is exhausted.\<close>

function block_scan :: "nat \<Rightarrow> bytes \<Rightarrow> nat \<Rightarrow> bytes \<Rightarrow> bytes option" where
  "block_scan k content position buffer =
     (if position = 0 \<or> k = 0 then None
      else (let sz = min k position;
                pos = position - sz;
                buf = take sz (drop pos content) @ buffer;
                stripped = rstrip_nl buf
            in if pos = 0 \<or> 10 \<in> set stripped
               then (if stripped = [] then None else Some (after_last_nl stripped))
               else block_scan k content pos buf))"
  by pat_completeness auto
termination by (relation "measure (\<lambda>(k, content, position, buffer). position)") auto

declare block_scan.simps [simp del]

definition last_line :: "bytes \<Rightarrow> bytes option" where
  "last_line content = block_scan 8192 content (length content) []"

definition last_line_reference :: "bytes \<Rightarrow> bytes option" where
  "last_line_reference content = (let s = rstrip_nl content in if s = [] then None else Some (after_last_nl s))"

lemma rstrip_nl_append: "rstrip_nl y \<noteq> [] \<Longrightarrow> rstrip_nl (x @ y) = x @ rstrip_nl y"
  by (auto simp: rstrip_nl_def dropWhile_append dropWhile_eq_Nil_conv)

lemma after_last_nl_append: "10 \<in> set y \<Longrightarrow> after_last_nl (x @ y) = after_last_nl y"
  by (auto simp: after_last_nl_def takeWhile_append1)

lemma reference_suffix:
  assumes "10 \<in> set (rstrip_nl y)"
  shows "last_line_reference (x @ y) = Some (after_last_nl (rstrip_nl y))"
proof -
  from assms have "rstrip_nl y \<noteq> []" by auto
  then show ?thesis
    using after_last_nl_append [OF assms] by (simp add: last_line_reference_def Let_def rstrip_nl_append)
qed

lemma block_scan_correct:
  "0 < k \<Longrightarrow> position \<le> length content \<Longrightarrow> 0 < position \<Longrightarrow>
   block_scan k content position (drop position content) = last_line_reference content"
proof (induction position rule: less_induct)
  case (less position)
  define pos where "pos = position - min k position"
  have pos: "pos < position" using less.prems by (simp add: pos_def)
  have "take (min k position) (drop pos content) @ drop (min k position) (drop pos content) = drop pos content"
    by (rule append_take_drop_id)
  moreover have "min k position + pos = position" using less.prems by (simp add: pos_def)
  ultimately have buf: "take (min k position) (drop pos content) @ drop position content = drop pos content"
    by (simp add: add.commute)
  have step: "block_scan k content position (drop position content) =
      (let stripped = rstrip_nl (drop pos content) in
       if pos = 0 \<or> 10 \<in> set stripped then (if stripped = [] then None else Some (after_last_nl stripped))
       else block_scan k content pos (drop pos content))"
    using less.prems(1,3) unfolding block_scan.simps [of k content position] Let_def pos_def [symmetric] buf by simp
  show ?case
  proof (cases "pos = 0")
    case True
    then show ?thesis unfolding step by (simp add: last_line_reference_def Let_def)
  next
    case False
    note nz = this
    show ?thesis
    proof (cases "10 \<in> set (rstrip_nl (drop pos content))")
      case True
      then have "last_line_reference content = Some (after_last_nl (rstrip_nl (drop pos content)))"
        using reference_suffix [OF True, of "take pos content"] by simp
      moreover have "rstrip_nl (drop pos content) \<noteq> []" using True by auto
      ultimately show ?thesis unfolding step using True by simp
    next
      case False
      with nz show ?thesis unfolding step using less.IH [OF pos] less.prems pos by simp
    qed
  qed
qed

lemma last_line_correct: "last_line content = last_line_reference content"
proof (cases "content = []")
  case True
  then show ?thesis
    by (simp add: last_line_def block_scan.simps last_line_reference_def rstrip_nl_def)
next
  case False
  then show ?thesis using block_scan_correct [of 8192 "length content" content] by (simp add: last_line_def)
qed

text \<open>The text of the file: one line of JSON for each row.\<close>

definition row_text :: "pydict \<Rightarrow> bytes" where
  "row_text row = utf8 (dumps '', '' '': '' (PDict row))"

definition file_text :: "ledger_rows \<Rightarrow> bytes" where
  "file_text rows = concat (map (\<lambda>row. row_text row @ [10]) rows)"

lemma row_text_bytes: "b \<in> set (row_text row) \<Longrightarrow> b \<noteq> 10 \<and> b \<noteq> 13"
proof -
  have byte: "b = of_nat (of_char c) \<and> 32 \<le> (of_char c :: nat) \<and> (of_char c :: nat) < 127"
    if "b \<in> set (utf8_char c)" "printable c" for b c
    using that by (simp add: utf8_char_def printable_def)
  have seps: "\<forall>c \<in> set '', '' \<union> set '': ''. printable c" by (simp add: printable_def)
  assume "b \<in> set (row_text row)"
  then obtain c where "c \<in> set (dumps '', '' '': '' (PDict row))" "b \<in> set (utf8_char c)"
    by (auto simp: row_text_def utf8_def)
  then have c: "b = of_nat (of_char c)" "32 \<le> (of_char c :: nat)" "(of_char c :: nat) < 127"
    using byte dumps_printable [OF seps] by blast+
  have "(of_nat n :: byte) \<noteq> 10 \<and> (of_nat n :: byte) \<noteq> 13" if "32 \<le> n" "n < 127" for n :: nat
  proof -
    have n: "unat (of_nat n :: byte) = n" using that by (simp add: unat_of_nat)
    have "unat (10 :: byte) = 10" "unat (13 :: byte) = 13" by simp_all
    then have "(of_nat n :: byte) = 10 \<Longrightarrow> n = 10" "(of_nat n :: byte) = 13 \<Longrightarrow> n = 13"
      using n by simp_all
    then show ?thesis using that by linarith
  qed
  from this [OF c(2,3)] show "b \<noteq> 10 \<and> b \<noteq> 13" unfolding c(1) .
qed

lemma row_text_nonempty: "row_text row \<noteq> []"
  by (simp add: row_text_def utf8_def utf8_char_def)

lemma takeWhile_no_nl:
  assumes "10 \<notin> set y" "x = [] \<or> last x = 10"
  shows "after_last_nl (x @ y) = y"
proof -
  have "takeWhile (\<lambda>b. b \<noteq> 10) (rev y @ zs) = rev y @ takeWhile (\<lambda>b. b \<noteq> 10) zs" for zs
    by (rule takeWhile_append2) (use assms(1) in auto)
  moreover have "takeWhile (\<lambda>b. b \<noteq> 10) (rev x) = []"
    using assms(2) by (cases x rule: rev_cases) auto
  ultimately show ?thesis by (simp only: after_last_nl_def rev_append append_Nil2 rev_rev_ident)
qed

text \<open>
  C25 (equivalence). The backward block reader is correct: on every file it returns what
  splitting the whole file at its line breaks gives as the last line, and on the text of a
  ledger it returns exactly the line of the last row, whatever the length of the rows.
\<close>

theorem last_row_found:
  "last_line content = last_line_reference content
   \<and> last_line (file_text rows) = (if rows = [] then None else Some (row_text (last rows)))"
proof
  show "last_line content = last_line_reference content" by (rule last_line_correct)
  show "last_line (file_text rows) = (if rows = [] then None else Some (row_text (last rows)))"
  proof (cases rows rule: rev_cases)
    case Nil
    then show ?thesis by (simp add: last_line_correct last_line_reference_def file_text_def rstrip_nl_def)
  next
    case (snoc init row)
    have line: "rstrip_nl (row_text row @ [10]) = row_text row"
    proof -
      have "\<not> (last (row_text row) = 10 \<or> last (row_text row) = 13)"
        using row_text_bytes row_text_nonempty last_in_set by blast
      then show ?thesis
        by (cases "row_text row" rule: rev_cases) (simp_all add: rstrip_nl_def row_text_nonempty)
    qed
    have head: "file_text init = [] \<or> last (file_text init) = 10"
      by (cases init rule: rev_cases) (simp_all add: file_text_def)
    have "rstrip_nl (file_text rows) = file_text init @ row_text row"
      using rstrip_nl_append [of "row_text row @ [10]" "file_text init"] line row_text_nonempty [of row]
      by (simp add: snoc file_text_def)
    then have "last_line_reference (file_text rows) = Some (row_text row)"
      using takeWhile_no_nl [OF _ head, of "row_text row"] row_text_bytes row_text_nonempty [of row]
      by (auto simp: last_line_reference_def Let_def)
    then show ?thesis by (simp add: snoc last_line_correct)
  qed
qed

end
