(* ===== verification/EdgeSync.thy ===== *)
theory EdgeSync
  imports Ledger
begin

text \<open>
  \<open>python/urp/edge_sync.py\<close>: a site's ledger is shipped in batches to a sink; the cursor
  file remembers the last event the sink acknowledged. Fresh identifiers and times of the
  sink's events come from \<open>mint\<close>, applied to the number of rows the sink holds. The HTTP
  sink is not modelled: a sink is any state transformer that answers with a receipt.
\<close>

record sync_batch =
  sb_site :: string
  sb_events :: "ledger_event list"

definition batch_to_dict :: "sync_batch \<Rightarrow> pydict" where
  "batch_to_dict b = [
     (''site_id'', PStr (sb_site b)),
     (''first_prev_hash'', if sb_events b = [] then PNone else opt_value (ev_prev_hash (hd (sb_events b)))),
     (''last_event_hash'', if sb_events b = [] then PNone else opt_value (ev_event_hash (last (sb_events b)))),
     (''events'', PList (map (\<lambda>e. PDict (event_to_dict e)) (sb_events b)))]"

record sync_state =
  sy_site :: string
  sy_rows :: ledger_rows
  sy_cursor :: "(string \<times> string \<times> string option) option"

definition new_sync :: "string \<Rightarrow> ledger_rows \<Rightarrow> sync_state res" where
  "new_sync site rows = (if py_strip site = [] then Inl (ValueError ''site_id is required'')
     else Inr \<lparr>sy_site = site, sy_rows = rows, sy_cursor = None\<rparr>)"

definition cursor_id :: "sync_state \<Rightarrow> string option res" where
  "cursor_id st = (case sy_cursor st of None \<Rightarrow> Inr None
     | Some (site, ident, h) \<Rightarrow> if site \<noteq> sy_site st then Inl (ValueError ''edge sync cursor belongs to another site'')
         else Inr (Some ident))"

text \<open>The events after the last one with the cursor's identifier.\<close>

definition after_cursor :: "string \<Rightarrow> ledger_event list \<Rightarrow> ledger_event list res" where
  "after_cursor ident es = (if ident \<notin> set (map ev_event_id es)
     then Inl (ValueError ''edge sync cursor does not exist in the local ledger'')
     else Inr (rev (takeWhile (\<lambda>e. ev_event_id e \<noteq> ident) (rev es))))"

definition sync_pending :: "ctx \<Rightarrow> int \<Rightarrow> sync_state \<Rightarrow> sync_batch res" where
  "sync_pending c limit st =
     (if limit \<le> 0 \<or> 10000 < limit then Inl (ValueError ''sync limit must be between 1 and 10000'')
      else bindR (verify_chain (sy_rows st)) (\<lambda>ok.
        if \<not> ok then Inl (ValueError ''local ledger chain verification failed'')
        else bindR (ledger_read c (sy_rows st)) (\<lambda>es.
          bindR (cursor_id st) (\<lambda>cur.
          bindR (case given cur of None \<Rightarrow> Inr es | Some ident \<Rightarrow> after_cursor ident es) (\<lambda>todo.
          Inr \<lparr>sb_site = sy_site st, sb_events = take (nat limit) todo\<rparr>)))))"

definition sync :: "ctx \<Rightarrow> int \<Rightarrow> (sync_batch \<Rightarrow> (pydict, 's) sres) \<Rightarrow> (pydict, sync_state \<times> 's) sres" where
  "sync c limit sink = (\<lambda>(st, k).
     case sync_pending c limit st of Inl e \<Rightarrow> (Inl e, (st, k))
     | Inr batch \<Rightarrow>
         (if sb_events batch = [] then
            (map_res (\<lambda>cur. [(''accepted'', PBool True), (''events'', PInt 0), (''cursor'', opt_value cur)])
               (cursor_id st), (st, k))
          else (case sink batch k of (Inl e, k') \<Rightarrow> (Inl e, (st, k'))
            | (Inr receipt, k') \<Rightarrow>
               (let final = last (sb_events batch) in
                if dget receipt ''accepted'' \<noteq> Some (PBool True)
                   \<or> get_value receipt ''last_event_hash'' \<noteq> opt_value (ev_event_hash final)
                then (Inl (ValueError ''ledger sink did not acknowledge the complete verified batch''), (st, k'))
                else (Inr [(''accepted'', PBool True), (''events'', PInt (int (length (sb_events batch)))),
                           (''cursor'', PStr (ev_event_id final))],
                      (st\<lparr>sy_cursor := Some (sy_site st, ev_event_id final, ev_event_hash final)\<rparr>, k'))))))"

subsection \<open>The local sink\<close>

definition edge_event :: "string \<Rightarrow> string \<times> string \<Rightarrow> ledger_event \<Rightarrow> ledger_event" where
  "edge_event site fresh e = \<lparr>ev_event_type = ''edge.sync.'' @ ev_event_type e, ev_tenant = ev_tenant e,
     ev_work_unit_id = ev_work_unit_id e, ev_manifest_id = ev_manifest_id e,
     ev_policy_bundle_id = ev_policy_bundle_id e, ev_actor = Some (''edge:'' @ site),
     ev_decision = ev_decision e,
     ev_details = [(''source_event_id'', PStr (ev_event_id e)),
       (''source_event_hash'', opt_value (ev_event_hash e)), (''source_details'', PDict (ev_details e))],
     ev_trace_id = ev_trace_id e, ev_prev_hash = None, ev_event_id = fst fresh,
     ev_created_at = snd fresh, ev_event_hash = None\<rparr>"

fun accept_loop :: "schemas \<Rightarrow> ctx \<Rightarrow> (nat \<Rightarrow> string \<times> string) \<Rightarrow> string \<Rightarrow> string option \<Rightarrow> ledger_event list
    \<Rightarrow> (unit, ledger_rows) sres" where
  "accept_loop sch c mint site previous [] rows = (Inr (), rows)"
| "accept_loop sch c mint site previous (e # es) rows =
     (if ev_prev_hash e \<noteq> previous \<or> ev_event_hash (with_chain_hash e (ev_prev_hash e)) \<noteq> ev_event_hash e
      then (Inl (ValueError ''edge ledger batch chain verification failed''), rows)
      else (case ledger_append sch c (edge_event site (mint (length rows)) e) rows of
          (Inl err, rows') \<Rightarrow> (Inl err, rows')
        | (Inr _, rows') \<Rightarrow> accept_loop sch c mint site (ev_event_hash e) es rows'))"

definition sink_accept :: "schemas \<Rightarrow> ctx \<Rightarrow> (nat \<Rightarrow> string \<times> string) \<Rightarrow> sync_batch \<Rightarrow> (pydict, ledger_rows) sres" where
  "sink_accept sch c mint batch =
     thenS (accept_loop sch c mint (sb_site batch)
              (if sb_events batch = [] then None else ev_prev_hash (hd (sb_events batch))) (sb_events batch))
       (retS [(''accepted'', PBool True), (''events'', PInt (int (length (sb_events batch)))),
          (''last_event_hash'', if sb_events batch = [] then PNone
             else opt_value (ev_event_hash (last (sb_events batch))))])"

subsection \<open>Delivery\<close>

lemma chain_from_app:
  "chain_from p (es @ fs) = (chain_from p es \<and> chain_from (if es = [] then p else ev_event_hash (last es)) fs)"
  by (induction es arbitrary: p) auto

lemma chain_from_slice: "chain_from p es \<Longrightarrow> \<exists>q. chain_from q (take m (drop k es))"
proof -
  assume "chain_from p es"
  then have "chain_from p (take k es @ take m (drop k es) @ drop m (drop k es))"
    by (simp only: append_take_drop_id)
  then show ?thesis unfolding chain_from_app by blast
qed

lemma chain_from_head: "chain_from q es \<Longrightarrow> es \<noteq> [] \<Longrightarrow> q = ev_prev_hash (hd es)"
  by (cases es) (auto split: if_splits)

text \<open>What the sink records of a source event.\<close>

definition source_of :: "ledger_event \<Rightarrow> pyval \<times> pyval" where
  "source_of d = (get_value (ev_details d) ''source_event_id'', get_value (ev_details d) ''source_event_hash'')"

definition source_row :: "ledger_event \<Rightarrow> pyval \<times> pyval" where
  "source_row e = (PStr (ev_event_id e), opt_value (ev_event_hash e))"

definition open_sink :: "schemas \<Rightarrow> (nat \<Rightarrow> string \<times> string) \<Rightarrow> bool" where
  "open_sink sch mint = ((\<forall>n d. sch n d = Inr ()) \<and> (\<forall>k. fst (mint k) \<noteq> [] \<and> snd (mint k) \<noteq> []))"

lemma json_ok_opt [simp]: "json_ok (opt_value x)"
  by (simp add: opt_value_def split: option.splits)

lemma accept_one:
  assumes "open_sink sch mint" "json_ok (PDict (ev_details e))" "read_unlocked rows = Inr ss"
  shows "\<exists>e' rows' d. ledger_append sch None (edge_event site (mint n) e) rows = (Inr e', rows')
    \<and> read_unlocked rows' = Inr (ss @ [d]) \<and> source_of d = source_row e"
proof -
  let ?e = "edge_event site (mint n) e"
  let ?c = "with_chain_hash ?e (event_hash_of (if ss = [] then None else Some (last ss)))"
  have "json_ok (PDict (event_to_dict ?c))"
    using assms(2) by (simp add: event_to_dict_def with_chain_hash_def edge_event_def)
  then have app: "ledger_append sch None ?e rows = (Inr ?c, rows @ [jnorm_dict (event_to_dict ?c)])"
    using assms(1) last_event_read [OF assms(3)]
    by (simp add: ledger_append_def thenS_def bindS_def liftR_def enforce_tenant_def bound_tenant_def
        current_tenant_def open_sink_def json_write_def Let_def del: json_ok.simps)
  have "ev_event_id ?e \<noteq> []" "ev_created_at ?e \<noteq> []"
    using assms(1) by (simp_all add: open_sink_def edge_event_def)
  from append_success [OF app assms(3) this]
  have "read_unlocked (rows @ [jnorm_dict (event_to_dict ?c)]) = Inr (ss @ [settled ?c])" by blast
  moreover have "source_of (settled ?c) = source_row e"
    by (simp add: source_of_def source_row_def settled_def with_chain_hash_def edge_event_def get_value_def)
  ultimately show ?thesis using app by blast
qed

lemma accept_loop_ok:
  assumes "open_sink sch mint"
  shows "chain_from p es \<Longrightarrow> \<forall>e \<in> set es. json_ok (PDict (ev_details e)) \<Longrightarrow> read_unlocked rows = Inr ss \<Longrightarrow>
    \<exists>rows' ds. accept_loop sch None mint site p es rows = (Inr (), rows')
      \<and> read_unlocked rows' = Inr (ss @ ds) \<and> map source_of ds = map source_row es"
proof (induction es arbitrary: p rows ss)
  case (Cons e es)
  obtain e' rows1 d where one: "ledger_append sch None (edge_event site (mint (length rows)) e) rows = (Inr e', rows1)"
      "read_unlocked rows1 = Inr (ss @ [d])" "source_of d = source_row e"
    using accept_one [OF assms _ Cons.prems(3)] Cons.prems(2) by (meson list.set_intros(1))
  have chain: "ev_prev_hash e = p" "ev_event_hash (with_chain_hash e (ev_prev_hash e)) = ev_event_hash e"
      "chain_from (ev_event_hash e) es"
    using Cons.prems(1) by (auto split: if_splits)
  obtain rows' ds where rest: "accept_loop sch None mint site (ev_event_hash e) es rows1 = (Inr (), rows')"
      "read_unlocked rows' = Inr ((ss @ [d]) @ ds)" "map source_of ds = map source_row es"
    using Cons.IH [OF chain(3) _ one(2)] Cons.prems(2) by (meson list.set_intros(2))
  then show ?case using one chain by (intro exI [of _ rows'] exI [of _ "d # ds"]) simp
qed simp

text \<open>The cursor stands after the first \<open>k\<close> events.\<close>

definition cursor_at :: "sync_state \<Rightarrow> ledger_event list \<Rightarrow> nat \<Rightarrow> bool" where
  "cursor_at st es k = (k \<le> length es \<and>
     (if k = 0 then sy_cursor st = None
      else \<exists>h. sy_cursor st = Some (sy_site st, ev_event_id (es ! (k - 1)), h)))"

definition site_ledger :: "sync_state \<Rightarrow> ledger_event list \<Rightarrow> bool" where
  "site_ledger st es = (read_unlocked (sy_rows st) = Inr es \<and> chain_from None es
     \<and> distinct (map ev_event_id es) \<and> [] \<notin> set (map ev_event_id es)
     \<and> (\<forall>e \<in> set es. json_ok (PDict (ev_details e))))"

lemma after_cursor_at:
  assumes "distinct (map ev_event_id es)" "0 < k" "k \<le> length es"
  shows "after_cursor (ev_event_id (es ! (k - 1))) es = Inr (drop k es)"
proof -
  let ?i = "ev_event_id (es ! (k - 1))"
  have split: "es = take (k - 1) es @ es ! (k - 1) # drop k es"
    using assms(2,3) id_take_nth_drop [of "k - 1" es] by simp
  then have "distinct (map ev_event_id (take (k - 1) es @ es ! (k - 1) # drop k es))" using assms(1) by simp
  then have "?i \<notin> ev_event_id ` set (drop k es)" by simp
  then have "\<forall>e \<in> set (rev (drop k es)). ev_event_id e \<noteq> ?i" by (metis image_eqI set_rev)
  then have "takeWhile (\<lambda>e. ev_event_id e \<noteq> ?i) (rev (drop k es) @ es ! (k - 1) # rev (take (k - 1) es)) = rev (drop k es)"
    by (subst takeWhile_append2) auto
  moreover have "rev es = rev (drop k es) @ es ! (k - 1) # rev (take (k - 1) es)"
    by (subst split) simp
  moreover have "?i \<in> set (map ev_event_id es)" using assms(2,3) by simp
  ultimately show ?thesis by (simp add: after_cursor_def)
qed

lemma pending_at:
  assumes "site_ledger st es" "cursor_at st es k" "0 < limit" "limit \<le> 10000"
  shows "sync_pending None limit st = Inr \<lparr>sb_site = sy_site st, sb_events = take (nat limit) (drop k es)\<rparr>"
proof -
  have "verify_chain (sy_rows st) = Inr True" "ledger_read None (sy_rows st) = Inr es"
    using assms(1) by (simp_all add: site_ledger_def verify_chain_def ledger_read_def visible_iff bound_tenant_def current_tenant_def)
  moreover have "\<exists>cur. cursor_id st = Inr cur \<and> (case given cur of None \<Rightarrow> Inr es | Some i \<Rightarrow> after_cursor i es) = Inr (drop k es)"
  proof (cases "k = 0")
    case True
    then show ?thesis using assms(2) by (simp add: cursor_at_def cursor_id_def given_def)
  next
    case False
    then have k: "0 < k" "k \<le> length es" using assms(2) by (simp_all add: cursor_at_def)
    then have "ev_event_id (es ! (k - 1)) \<in> set (map ev_event_id es)" by simp
    then have "ev_event_id (es ! (k - 1)) \<noteq> []" using assms(1) by (auto simp: site_ledger_def)
    then show ?thesis
      using False k assms(1,2) after_cursor_at [of es k] by (auto simp: cursor_at_def cursor_id_def given_def site_ledger_def)
  qed
  ultimately show ?thesis using assms(3,4) by (auto simp: sync_pending_def)
qed


definition sample_site :: sync_state where
  "sample_site = \<lparr>sy_site = ''plant-1'', sy_rows = [jnorm_dict (event_to_dict (with_chain_hash sample_event None))],
     sy_cursor = None\<rparr>"


text \<open>A caller bound to one tenant reads only that tenant's events, so its batch has gaps: an
  event of another tenant between two of its own breaks the batch's chain, and the sink
  refuses it after the first event was already appended.\<close>

lemma tenant_batch_refused:
  assumes "chain_from p [a, b, d]" "ev_event_hash a \<noteq> ev_event_hash b"
  shows "fst (accept_loop sch c mint site p [a, d] rows) \<noteq> Inr ()"
proof -
  have "ev_prev_hash b = ev_event_hash a" "ev_prev_hash d = ev_event_hash b"
    using assms(1) by (auto split: if_splits)
  with assms(2) have "ev_prev_hash d \<noteq> ev_event_hash a" by simp
  then show ?thesis by (auto split: prod.splits sum.splits)
qed

end
