(* ===== verification/Observability.thy ===== *)
theory Observability
  imports Ledger
begin

text \<open>
  \<open>python/urp/structured_logs.py\<close>, \<open>python/urp/tracing.py\<close> and \<open>python/urp/metrics.py\<close>:
  the redacting log, the trace spans and the counters. The log and trace files are the lists of
  their rows as JSON objects. Counters are integers: every increment of the modelled code is
  one, and the code's floats are exact on them.
\<close>

subsection \<open>Redaction\<close>

definition SENSITIVE_KEY_PARTS :: "string list" where
  "SENSITIVE_KEY_PARTS = [''authorization'', ''api_key'', ''api-key'', ''body'', ''content'', ''input'',
     ''message'', ''messages'', ''payload'', ''prompt'', ''secret'', ''token'']"

definition SENSITIVE_MESSAGE_MARKERS :: "string list" where
  "SENSITIVE_MESSAGE_MARKERS = [''api_key'', ''authorization:'', ''body:'', ''content:'', ''messages:'',
     ''payload:'', ''prompt:'', ''secret'', ''token:'']"

definition sensitive_key :: "string \<Rightarrow> bool" where
  "sensitive_key k = list_ex (\<lambda>part. contains part (py_lower k)) SENSITIVE_KEY_PARTS"

definition REDACTED :: string where
  "REDACTED = ''[redacted]''"

text \<open>A value under a sensitive key is replaced whole; otherwise its parts are redacted.\<close>

fun redact_value :: "pyval \<Rightarrow> pyval" where
  "redact_value (PDict d) =
     PDict (map (\<lambda>kv. (fst kv, if sensitive_key (fst kv) then PStr REDACTED else redact_value (snd kv))) d)"
| "redact_value (PList xs) = PList (map redact_value xs)"
| "redact_value (PTuple xs) = PList (map redact_value xs)"
| "redact_value v = v"

definition redact_details :: "pydict \<Rightarrow> pydict" where
  "redact_details d =
     map (\<lambda>kv. (fst kv, if sensitive_key (fst kv) then PStr REDACTED else redact_value (snd kv))) d"

definition redact_message :: "string \<Rightarrow> string" where
  "redact_message message =
     (let cleaned = squeeze message; lowered = py_lower cleaned in
      if list_ex (\<lambda>marker. contains marker lowered) SENSITIVE_MESSAGE_MARKERS then REDACTED
      else take 512 cleaned)"

subsection \<open>The log\<close>

record log_entry =
  le_severity :: string
  le_event_type :: string
  le_message :: string
  le_tenant :: "string option"
  le_work_unit_id :: "string option"
  le_manifest_id :: "string option"
  le_policy_bundle_id :: "string option"
  le_trace_id :: "string option"
  le_error_code :: "string option"
  le_details :: pydict
  le_log_id :: string
  le_created_at :: string

definition log_to_dict :: "log_entry \<Rightarrow> pydict" where
  "log_to_dict e = [
     (''log_id'', PStr (le_log_id e)),
     (''created_at'', PStr (le_created_at e)),
     (''severity'', PStr (le_severity e)),
     (''event_type'', PStr (le_event_type e)),
     (''tenant'', opt_value (le_tenant e)),
     (''work_unit_id'', opt_value (le_work_unit_id e)),
     (''manifest_id'', opt_value (le_manifest_id e)),
     (''policy_bundle_id'', opt_value (le_policy_bundle_id e)),
     (''trace_id'', opt_value (le_trace_id e)),
     (''error_code'', opt_value (le_error_code e)),
     (''message'', PStr (le_message e)),
     (''details'', PDict (le_details e))]"

definition log_from_dict :: "string \<Rightarrow> string \<Rightarrow> pydict \<Rightarrow> log_entry res" where
  "log_from_dict fresh_log now d =
     bindR (item d ''severity'') (\<lambda>v. bindR (as_str v) (\<lambda>severity.
     bindR (item d ''event_type'') (\<lambda>v. bindR (as_str v) (\<lambda>ty.
     bindR (as_str (get_default d ''message'' (PStr []))) (\<lambda>message.
     bindR (as_opt_str (get_value d ''tenant'')) (\<lambda>tn.
     bindR (as_opt_str (get_value d ''work_unit_id'')) (\<lambda>wu.
     bindR (as_opt_str (get_value d ''manifest_id'')) (\<lambda>mf.
     bindR (as_opt_str (get_value d ''policy_bundle_id'')) (\<lambda>pb.
     bindR (as_opt_str (get_value d ''trace_id'')) (\<lambda>tr.
     bindR (as_opt_str (get_value d ''error_code'')) (\<lambda>code.
     bindR (dict_or_empty (get_value d ''details'')) (\<lambda>details.
     bindR (str_or (get_value d ''log_id'') fresh_log) (\<lambda>ident.
     bindR (str_or (get_value d ''created_at'') now) (\<lambda>created.
     Inr \<lparr>le_severity = severity, le_event_type = ty, le_message = message, le_tenant = tn,
       le_work_unit_id = wu, le_manifest_id = mf, le_policy_bundle_id = pb, le_trace_id = tr,
       le_error_code = code, le_details = details, le_log_id = ident, le_created_at = created\<rparr>))))))))))))))"

type_synonym log_rows = "pydict list"

definition redact_entry :: "log_entry \<Rightarrow> log_entry" where
  "redact_entry e = e\<lparr>le_severity := py_lower (le_severity e), le_message := redact_message (le_message e),
     le_details := redact_details (le_details e)\<rparr>"

definition log_append :: "ctx \<Rightarrow> log_entry \<Rightarrow> (log_entry, log_rows) sres" where
  "log_append c e rows =
     (case bound_tenant c of
        Some t \<Rightarrow> if le_tenant e \<notin> {None, Some t}
          then (Inl (tenant_mismatch t (py_str (opt_value (le_tenant e)))), rows)
          else (Inr (redact_entry e), rows @ [jfile_dict (log_to_dict (redact_entry e))])
      | None \<Rightarrow> (Inr (redact_entry e), rows @ [jfile_dict (log_to_dict (redact_entry e))]))"

definition log_visible :: "ctx \<Rightarrow> log_entry \<Rightarrow> bool" where
  "log_visible c e = (case bound_tenant c of None \<Rightarrow> True | Some t \<Rightarrow> le_tenant e = Some t)"

definition log_read :: "ctx \<Rightarrow> log_rows \<Rightarrow> log_entry list res" where
  "log_read c rows = map_res (filter (log_visible c)) (seq_res (map (log_from_dict [] []) rows))"

definition log_query :: "ctx \<Rightarrow> string option \<Rightarrow> string option \<Rightarrow> string option \<Rightarrow> string list \<Rightarrow> string option
    \<Rightarrow> string option \<Rightarrow> string option \<Rightarrow> int option \<Rightarrow> log_rows \<Rightarrow> log_entry list res" where
  "log_query c tn work_unit_id manifest_id event_types trace_id severity error_code' limit rows =
     (let tn' = (if given tn = None then current_tenant c else tn) in
      map_res (\<lambda>es. last_rows limit (filter (\<lambda>e.
          wants tn' (le_tenant e) \<and> wants work_unit_id (le_work_unit_id e)
          \<and> wants manifest_id (le_manifest_id e)
          \<and> (event_types = [] \<or> le_event_type e \<in> set event_types)
          \<and> wants trace_id (le_trace_id e)
          \<and> wants (map_option py_lower severity) (Some (le_severity e))
          \<and> wants error_code' (le_error_code e)) es))
        (log_read c rows))"

subsection \<open>Trace spans\<close>

record trace_span =
  ts_name :: string
  ts_trace_id :: string
  ts_span_id :: string
  ts_parent :: "string option"
  ts_attributes :: pydict
  ts_started_at :: string
  ts_ended_at :: string

definition span_to_dict :: "trace_span \<Rightarrow> pydict" where
  "span_to_dict s = [
     (''name'', PStr (ts_name s)), (''trace_id'', PStr (ts_trace_id s)), (''span_id'', PStr (ts_span_id s)),
     (''parent_span_id'', opt_value (ts_parent s)), (''attributes'', PDict (ts_attributes s)),
     (''started_at'', PStr (ts_started_at s)), (''ended_at'', PStr (ts_ended_at s))]"

type_synonym trace_rows = "pydict list"

definition trace_append :: "ctx \<Rightarrow> trace_span \<Rightarrow> (trace_span, trace_rows) sres" where
  "trace_append c span rows =
     (let st = get_value (ts_attributes span) ''tenant'' in
      case bound_tenant c of
        Some t \<Rightarrow>
          (if st \<notin> {PNone, PStr t} then (Inl (tenant_mismatch t (py_str st)), rows)
           else (let s = (if st = PNone then span\<lparr>ts_attributes := dset ''tenant'' (PStr t) (ts_attributes span)\<rparr> else span)
                 in (Inr s, rows @ [jfile_dict (span_to_dict s)])))
      | None \<Rightarrow> (Inr span, rows @ [jfile_dict (span_to_dict span)]))"

definition trace_matches :: "ctx \<Rightarrow> string option \<Rightarrow> string option \<Rightarrow> pydict \<Rightarrow> bool" where
  "trace_matches c trace_id nm row =
     ((case given trace_id of None \<Rightarrow> True | Some t \<Rightarrow> get_value row ''trace_id'' = PStr t)
      \<and> (case given nm of None \<Rightarrow> True | Some n \<Rightarrow> get_value row ''name'' = PStr n)
      \<and> (case bound_tenant c of None \<Rightarrow> True
         | Some t \<Rightarrow> (case get_default row ''attributes'' (PDict []) of PDict a \<Rightarrow> get_value a ''tenant'' = PStr t
             | _ \<Rightarrow> False)))"

definition trace_query :: "ctx \<Rightarrow> string option \<Rightarrow> string option \<Rightarrow> trace_rows \<Rightarrow> pydict list" where
  "trace_query c trace_id nm rows = filter (trace_matches c trace_id nm) rows"

subsection \<open>Metrics\<close>

record metrics =
  mt_counters :: "(string \<times> int) list"
  mt_gauges :: "(string \<times> int) list"

definition metric_name_ok :: "string \<Rightarrow> bool" where
  "metric_name_ok nm = (case nm of [] \<Rightarrow> False
     | c # cs \<Rightarrow> (is_alnum c \<and> \<not> (CHR ''0'' \<le> c \<and> c \<le> CHR ''9'') \<or> c = CHR ''_'' \<or> c = CHR '':'')
         \<and> list_all (\<lambda>d. is_alnum d \<or> d = CHR ''_'' \<or> d = CHR '':'') cs)"

definition validate_metric :: "string \<Rightarrow> unit res" where
  "validate_metric nm = (if metric_name_ok nm then Inr ()
     else Inl (ValueError (''invalid Prometheus metric name: '' @ nm)))"

definition metric_inc :: "string \<Rightarrow> int \<Rightarrow> (unit, metrics) sres" where
  "metric_inc nm v = thenS (liftR (validate_metric nm)) (\<lambda>m. (Inr (),
     m\<lparr>mt_counters := dset nm ((case dget (mt_counters m) nm of Some x \<Rightarrow> x | None \<Rightarrow> 0) + v) (mt_counters m)\<rparr>))"

definition metric_set :: "string \<Rightarrow> int \<Rightarrow> (unit, metrics) sres" where
  "metric_set nm v = thenS (liftR (validate_metric nm)) (\<lambda>m. (Inr (),
     m\<lparr>mt_gauges := dset nm v (mt_gauges m)\<rparr>))"

subsection \<open>Properties\<close>

text \<open>No value under a sensitive key survives.\<close>

fun redacted :: "pyval \<Rightarrow> bool" where
  "redacted (PDict d) = (\<forall>kv \<in> set d. if sensitive_key (fst kv) then snd kv = PStr REDACTED else redacted (snd kv))"
| "redacted (PList xs) = (\<forall>x \<in> set xs. redacted x)"
| "redacted (PTuple xs) = (\<forall>x \<in> set xs. redacted x)"
| "redacted v = True"

lemma redact_value_redacted: "redacted (redact_value v)"
  by (induction v rule: redact_value.induct) auto

lemma redact_details_value: "redacted (PDict (redact_details d))"
  using redact_value_redacted [of "PDict d"] by (simp add: redact_details_def)

lemma redacted_jfile: "redacted v \<Longrightarrow> redacted (jfile v)"
  by (induction v rule: redacted.induct) (auto split: if_splits)

lemma contains_append: "contains p s \<Longrightarrow> contains p (s @ t)"
proof (induction s)
  case Nil
  then show ?case by (cases t) auto
next
  case (Cons c s)
  have "prefix p (c # s) \<Longrightarrow> prefix p ((c # s) @ t)" by (rule prefix_prefix)
  with Cons show ?case by auto
qed

lemma contains_lower_take: "contains p (py_lower (take n s)) \<Longrightarrow> contains p (py_lower s)"
  using contains_append [of p "py_lower (take n s)" "py_lower (drop n s)"]
  by (simp add: py_lower_def flip: map_append)

lemma redact_message_safe:
  "redact_message m = REDACTED \<or> (length (redact_message m) \<le> 512
     \<and> (\<forall>marker \<in> set SENSITIVE_MESSAGE_MARKERS. \<not> contains marker (py_lower (redact_message m))))"
proof (cases "list_ex (\<lambda>marker. contains marker (py_lower (squeeze m))) SENSITIVE_MESSAGE_MARKERS")
  case True
  then show ?thesis by (simp add: redact_message_def)
next
  case False
  then have "redact_message m = take 512 (squeeze m)" by (simp add: redact_message_def)
  moreover have "\<not> contains marker (py_lower (take 512 (squeeze m)))" if "marker \<in> set SENSITIVE_MESSAGE_MARKERS" for marker
  proof
    assume "contains marker (py_lower (take 512 (squeeze m)))"
    from contains_lower_take [OF this] that False show False unfolding list_ex_iff by blast
  qed
  ultimately show ?thesis by simp
qed

text \<open>
  Logs never leak: whatever is logged, the row written holds no value under a
  sensitive key, at any depth, and a message that is either the redaction mark or at most 512
  characters free of every sensitive marker; a caller bound to a tenant can only write rows of
  that tenant or of none, and only ever reads rows of that tenant.
\<close>

theorem logs_never_leak:
  assumes "log_append c e rows = (Inr e', rows')" "log_read c rows' = Inr es"
  shows "\<exists>row. rows' = rows @ [row] \<and> redacted (get_value row ''details'')
    \<and> (\<exists>m. get_value row ''message'' = PStr m \<and> (m = REDACTED \<or> length m \<le> 512
        \<and> (\<forall>marker \<in> set SENSITIVE_MESSAGE_MARKERS. \<not> contains marker (py_lower m))))
    \<and> (\<forall>t. bound_tenant c = Some t \<longrightarrow> le_tenant e \<in> {None, Some t} \<and> (\<forall>x \<in> set es. le_tenant x = Some t))"
proof (intro exI conjI)
  let ?row = "jfile_dict (log_to_dict (redact_entry e))"
  show "rows' = rows @ [?row]"
    using assms(1) by (auto simp: log_append_def split: option.splits if_splits)
  have "get_value ?row ''details'' = jfile (PDict (redact_details (le_details e)))"
    by (simp add: get_value_def log_to_dict_def redact_entry_def del: jfile.simps)
  then show "redacted (get_value ?row ''details'')"
    by (simp only: redacted_jfile [OF redact_details_value])
  show "get_value ?row ''message'' = PStr (redact_message (le_message e))"
    by (simp add: get_value_def log_to_dict_def redact_entry_def)
  show "redact_message (le_message e) = REDACTED \<or> length (redact_message (le_message e)) \<le> 512
        \<and> (\<forall>marker \<in> set SENSITIVE_MESSAGE_MARKERS. \<not> contains marker (py_lower (redact_message (le_message e))))"
    by (rule redact_message_safe)
  show "\<forall>t. bound_tenant c = Some t \<longrightarrow> le_tenant e \<in> {None, Some t} \<and> (\<forall>x \<in> set es. le_tenant x = Some t)"
    using assms by (auto simp: log_append_def log_read_def log_visible_def effect_simps split: if_splits)
qed

definition sample_log :: log_entry where
  "sample_log = \<lparr>le_severity = ''Info'', le_event_type = ''work_unit.received'', le_message = ''token: abc'',
     le_tenant = Some ''acme'', le_work_unit_id = None, le_manifest_id = None, le_policy_bundle_id = None,
     le_trace_id = None, le_error_code = None, le_details = [(''api_key'', PStr ''k''), (''n'', PInt 1)],
     le_log_id = ''log_1'', le_created_at = ''now''\<rparr>"

theorem logs_never_leak_witness:
  "\<exists>e' row. log_append None sample_log [] = (Inr e', [row]) \<and> redacted (get_value row ''details'')"
proof -
  let ?row = "jfile_dict (log_to_dict (redact_entry sample_log))"
  have app: "log_append None sample_log [] = (Inr (redact_entry sample_log), [?row])"
    by (simp add: log_append_def bound_tenant_def current_tenant_def)
  have "\<exists>e. log_from_dict [] [] ?row = Inr e"
    by (simp add: log_from_dict_def item_def get_value_def get_default_def log_to_dict_def redact_entry_def
        sample_log_def dict_or_empty_def jfile_PDict str_or_def del: jfile.simps(4))
  then obtain e where "log_read None [?row] = Inr [e]"
    by (auto simp: log_read_def log_visible_def bound_tenant_def current_tenant_def)
  from logs_never_leak [OF app this] app show ?thesis by auto
qed

end
