(* ===== verification/Policy.thy ===== *)
theory Policy
  imports Ledger
begin

text \<open>
  \<open>python/urp/policy.py\<close>: the policy evaluator. A policy bundle is the dynamic dictionary the
  code reads (its schema is checked elsewhere); reading a field of another type than the code
  expects is the exception Python raises there.
\<close>

record policy_decision =
  pd_contract :: contract
  pd_allowed :: "string list"
  pd_denied :: "string list"
  pd_bundle_id :: string
  pd_reasons :: "string list"
  pd_cache_domain :: string
  pd_dedupe_domain :: string
  pd_matched_rules :: "string list"
  pd_required :: "string list"
  pd_models :: "string list"
  pd_require_approval :: bool

definition strs :: "string list \<Rightarrow> pyval" where
  "strs xs = PList (map PStr xs)"

definition decision_to_dict :: "policy_decision \<Rightarrow> pydict" where
  "decision_to_dict d = [
     (''contract'', PStr (contract_value (pd_contract d))),
     (''allowed_actions'', strs (pd_allowed d)),
     (''denied_actions'', strs (pd_denied d)),
     (''policy_bundle_id'', PStr (pd_bundle_id d)),
     (''reasons'', strs (pd_reasons d)),
     (''cache_domain'', PStr (pd_cache_domain d)),
     (''dedupe_domain'', PStr (pd_dedupe_domain d)),
     (''matched_rules'', strs (pd_matched_rules d)),
     (''required_verifiers'', strs (pd_required d)),
     (''model_allowlist'', strs (pd_models d)),
     (''require_approval'', PBool (pd_require_approval d))]"

definition DEFAULT_MODELS :: "string list" where
  "DEFAULT_MODELS = [''tiny'', ''small'', ''medium'', ''frontier'']"

text \<open>The dataclass defaults under the fields the evaluator gives.\<close>

definition simple_decision :: "contract \<Rightarrow> string list \<Rightarrow> string list \<Rightarrow> string list \<Rightarrow> string list \<Rightarrow> string list \<Rightarrow> policy_decision" where
  "simple_decision c allow deny reasons rules required =
     \<lparr>pd_contract = c, pd_allowed = allow, pd_denied = deny, pd_bundle_id = ''default'', pd_reasons = reasons,
      pd_cache_domain = ''tenant_namespace'', pd_dedupe_domain = ''tenant'', pd_matched_rules = rules,
      pd_required = required, pd_models = DEFAULT_MODELS, pd_require_approval = False\<rparr>"

subsection \<open>Reading a bundle\<close>

fun as_dict :: "pyval \<Rightarrow> pydict res" where
  "as_dict (PDict d) = Inr d"
| "as_dict v = Inl (OtherError ''AttributeError'')"

fun py_iter :: "pyval \<Rightarrow> pyval list res" where
  "py_iter (PList xs) = Inr xs"
| "py_iter (PTuple xs) = Inr xs"
| "py_iter (PStr s) = Inr (map (\<lambda>c. PStr [c]) s)"
| "py_iter (PDict d) = Inr (map PStr (dkeys d))"
| "py_iter (PBytes b) = Inr (map (\<lambda>x. PInt (uint x)) b)"
| "py_iter v = Inl (TypeError ''object is not iterable'')"

definition dict_field :: "pydict \<Rightarrow> string \<Rightarrow> pydict res" where
  "dict_field d k = as_dict (get_default d k (PDict []))"

definition list_field :: "pydict \<Rightarrow> string \<Rightarrow> pyval list res" where
  "list_field d k = py_iter (get_default d k (PList []))"

definition str_list :: "pyval list \<Rightarrow> string list res" where
  "str_list xs = seq_res (map as_str xs)"

subsection \<open>Matching\<close>

definition tags_match :: "work_unit \<Rightarrow> pyval \<Rightarrow> bool res" where
  "tags_match wu v =
     bindR (as_dict v) (\<lambda>want. if want = [] then Inr True else
     map_res (\<lambda>tags. list_all (\<lambda>kv. py_eq (get_value tags (fst kv)) (snd kv)) want)
       (as_dict (get_default (wu_metadata wu) ''tags'' (PDict (wu_metadata wu)))))"

fun matches :: "work_unit \<Rightarrow> pydict \<Rightarrow> bool res" where
  "matches wu [] = Inr True"
| "matches wu ((k, v) # ms) =
     (if k = ''kind'' \<and> PStr (kind_value (wu_kind wu)) \<noteq> v then Inr False
      else if k = ''namespace'' \<and> PStr (wu_namespace wu) \<noteq> v then Inr False
      else if k = ''tenant'' \<and> PStr (wu_tenant wu) \<noteq> v then Inr False
      else if k = ''tags'' then bindR (tags_match wu v) (\<lambda>ok. if ok then matches wu ms else Inr False)
      else matches wu ms)"

fun rank :: "contract \<Rightarrow> nat" where
  "rank EXACT_BYTES = 0"
| "rank EXACT_LOGICAL = 1"
| "rank BOUNDED_APPROX = 2"
| "rank SEMANTIC = 3"
| "rank DERIVED = 4"
| "rank TOMBSTONE = 5"

definition stricter :: "contract \<Rightarrow> contract \<Rightarrow> contract" where
  "stricter l r = (if rank l \<le> rank r then l else r)"

definition canonical_actions :: "string \<Rightarrow> string list" where
  "canonical_actions name =
     (if name = ''exact_cache'' then [''exact_cache_lookup'', ''cache_store'']
      else if name = ''context_dedupe'' then [''context_compile'']
      else if name = ''semantic_cache_enforce'' then [''semantic_cache_lookup'']
      else if name = ''distillation_enforce'' then [''distillation'']
      else [name])"

subsection \<open>Evaluation\<close>

definition text_kind :: "work_unit_kind \<Rightarrow> bool" where
  "text_kind k = (k = PROMPT_REQUEST \<or> k = COMPLETION_RESPONSE)"

definition ai_kind :: "work_unit_kind \<Rightarrow> bool" where
  "ai_kind k = (text_kind k \<or> k = EMBEDDING_REQUEST)"

definition baseline_denied :: "string list" where
  "baseline_denied = [''cross_tenant_cache'', ''cross_tenant_dedupe'', ''semantic_summary'', ''lossy_transcode'', ''delete'']"

definition baseline_policy_controls :: "work_unit \<Rightarrow> string list \<times> string list \<times> string list" where
  "baseline_policy_controls wu =
     (if wu_kind wu = EMBEDDING_REQUEST
      then ([''normalize_prompt'', ''verify'', ''compute_manifest''], baseline_denied @ [''semantic_cache_lookup''], [''embedding_shape''])
      else if text_kind (wu_kind wu)
      then ([''normalize_prompt'', ''verify'', ''compute_manifest''], baseline_denied, [''non_empty_text''])
      else ([''hash'', ''content_defined_chunk'', ''fixed_chunk'', ''dedupe_same_tenant'', ''zstd'', ''manifest'', ''verify_restore''],
            baseline_denied @ [''semantic_cache_lookup''], [''sha256_restore'']))"

record bundle_acc =
  ba_allowed :: "string list"
  ba_denied :: "string list"
  ba_required :: "string list"
  ba_names :: "string list"
  ba_explicit :: "string list"
  ba_approval :: bool

definition apply_rule :: "pydict \<Rightarrow> bundle_acc \<Rightarrow> bundle_acc res" where
  "apply_rule rule a =
     bindR (as_str (get_default rule ''name'' (PStr ''unnamed''))) (\<lambda>nm.
     bindR (dict_field rule ''allow'') (\<lambda>allow.
     bindR (dict_field rule ''deny'') (\<lambda>deny.
     bindR (dict_field rule ''require'') (\<lambda>required.
     bindR (list_field allow ''transforms'') (\<lambda>allows.
     bindR (list_field deny ''transforms'') (\<lambda>denies.
     bindR (bindR (list_field required ''verifiers'') str_list) (\<lambda>verifiers.
     (let explicit = concat (map (\<lambda>v. canonical_actions (py_str v)) allows) in
      Inr \<lparr>ba_allowed = ba_allowed a @ explicit,
        ba_denied = ba_denied a @ concat (map (\<lambda>v. canonical_actions (py_str v)) denies),
        ba_required = ba_required a @ verifiers,
        ba_names = ba_names a @ [nm],
        ba_explicit = ba_explicit a @ explicit,
        ba_approval = (ba_approval a \<or> truthy (get_value rule ''requires_approval''))\<rparr>))))))))"

fun apply_rules :: "pydict list \<Rightarrow> bundle_acc \<Rightarrow> bundle_acc res" where
  "apply_rules [] a = Inr a"
| "apply_rules (r # rs) a = bindR (apply_rule r a) (apply_rules rs)"

fun select_rules :: "work_unit \<Rightarrow> pydict list \<Rightarrow> pydict list res" where
  "select_rules wu [] = Inr []"
| "select_rules wu (r # rs) =
     bindR (bindR (dict_field r ''match'') (matches wu)) (\<lambda>ok.
       map_res (\<lambda>ms. if ok then r # ms else ms) (select_rules wu rs))"

definition contract_at :: "pydict \<Rightarrow> contract res" where
  "contract_at rule = bindR (as_str (get_value rule ''contract'')) contract_of"

definition rule_contracts :: "pydict list \<Rightarrow> contract list res" where
  "rule_contracts matched = seq_res (map contract_at (filter (\<lambda>r. truthy (get_value r ''contract'')) matched))"

text \<open>The denials the defaults add after the rules.\<close>

definition default_denials :: "pydict \<Rightarrow> contract \<Rightarrow> string list \<Rightarrow> string list" where
  "default_denials defaults strict explicit =
     (let denies = (\<lambda>k. get_value defaults k = PStr ''deny'') in
      (if denies ''semanticReduction'' \<and> (strict \<noteq> SEMANTIC \<or> ''semantic_cache_lookup'' \<notin> set explicit)
       then [''semantic_cache_lookup'', ''semantic_summary''] else [])
      @ (if denies ''approximateReduction'' \<and> strict \<noteq> BOUNDED_APPROX then [''approximate_quantization''] else [])
      @ (if denies ''crossTenantDedupe'' then [''cross_tenant_dedupe''] else [])
      @ (if denies ''crossTenantCache'' then [''cross_tenant_cache''] else []))"

definition truthy_iter :: "pyval \<Rightarrow> pyval list res" where
  "truthy_iter v = (if truthy v then py_iter v else Inr [])"

definition bundle_models :: "pydict \<Rightarrow> pydict list \<Rightarrow> string list res" where
  "bundle_models defaults matched =
     bindR (bindR (truthy_iter (get_value defaults ''modelAllowlist'')) str_list) (\<lambda>ms.
     foldl (\<lambda>acc rule. bindR acc (\<lambda>cur.
         if truthy (get_value rule ''modelAllowlist'')
         then map_res (map py_str) (py_iter (get_value rule ''modelAllowlist'')) else Inr cur))
       (Inr (if ms = [] then DEFAULT_MODELS else ms)) matched)"

definition bundle_result :: "contract \<Rightarrow> pydict \<Rightarrow> bundle_acc \<Rightarrow> string list \<Rightarrow> string \<Rightarrow> policy_decision" where
  "bundle_result strict defaults a models nm =
     (let denied = ba_denied a @ default_denials defaults strict (ba_explicit a) in
      \<lparr>pd_contract = strict,
       pd_allowed = sort (remdups (filter (\<lambda>x. x \<notin> set denied) (ba_allowed a))),
       pd_denied = sort (remdups denied),
       pd_bundle_id = nm,
       pd_reasons = [''policy_bundle_evaluated''],
       pd_cache_domain = py_str (get_default defaults ''cacheDomain'' (PStr ''tenant_namespace'')),
       pd_dedupe_domain = py_str (get_default defaults ''dedupeDomain'' (PStr ''tenant'')),
       pd_matched_rules = ba_names a,
       pd_required = sort (remdups (ba_required a)),
       pd_models = models,
       pd_require_approval = ba_approval a\<rparr>)"

definition base_acc :: "work_unit \<Rightarrow> pydict \<Rightarrow> bundle_acc" where
  "base_acc wu defaults = (case baseline_policy_controls wu of (allowed0, denied0, required0) \<Rightarrow>
     \<lparr>ba_allowed = allowed0, ba_denied = denied0, ba_required = required0,
      ba_names = (if defaults \<noteq> [] then [''defaults''] else []), ba_explicit = [], ba_approval = False\<rparr>)"

definition strict_contract :: "contract \<Rightarrow> pydict \<Rightarrow> contract list \<Rightarrow> contract res" where
  "strict_contract requested defaults cs = (case cs of
     c # rest \<Rightarrow> Inr (foldl stricter c rest)
   | [] \<Rightarrow> bindR (as_str (get_default defaults ''contract'' (PStr (contract_value requested)))) contract_of)"

definition bundle_decision :: "work_unit \<Rightarrow> contract \<Rightarrow> pydict \<Rightarrow> pydict \<Rightarrow> pydict list \<Rightarrow> policy_decision res" where
  "bundle_decision wu requested bundle defaults matched =
     bindR (rule_contracts matched) (\<lambda>cs.
     bindR (strict_contract requested defaults cs) (\<lambda>strict.
     bindR (apply_rules matched (base_acc wu defaults)) (\<lambda>a.
     bindR (bundle_models defaults matched) (\<lambda>models.
     bindR (guardR (models \<noteq> []) (ValueError ''policy modelAllowlist cannot be empty'')) (\<lambda>_.
     bindR (bindR (dict_field bundle ''metadata'') (\<lambda>m. as_str (get_default m ''name'' (PStr ''policy_bundle'')))) (\<lambda>nm.
     Inr (bundle_result strict defaults a models nm)))))))"

definition evaluate_bundle :: "work_unit \<Rightarrow> contract \<Rightarrow> pydict \<Rightarrow> policy_decision option res" where
  "evaluate_bundle wu requested bundle =
     (if bundle = [] then Inr None else
      bindR (dict_field bundle ''spec'') (\<lambda>spec.
      bindR (dict_field spec ''defaults'') (\<lambda>defaults.
      bindR (bindR (list_field spec ''rules'') (\<lambda>rs. seq_res (map as_dict rs))) (\<lambda>rules.
      bindR (select_rules wu rules) (\<lambda>matched.
      if matched = [] \<and> defaults = [] then Inr None
      else map_res Some (bundle_decision wu requested bundle defaults matched))))))"

definition legal_hold :: "work_unit \<Rightarrow> bool" where
  "legal_hold wu = (dget (wu_policy_context wu) ''legal_hold'' = Some (PBool True))"

definition legal_hold_decision :: policy_decision where
  "legal_hold_decision = simple_decision EXACT_BYTES
     [''hash'', ''content_defined_chunk'', ''dedupe_same_tenant'', ''zstd'', ''manifest'', ''verify_restore'']
     [''semantic_cache'', ''semantic_cache_lookup'', ''semantic_summary'', ''lossy_transcode'', ''delete'', ''tombstone'']
     [''legal_hold_forces_exact_bytes''] [''legal_hold''] [''sha256_restore'']"

definition requested_contract :: "work_unit \<Rightarrow> contract" where
  "requested_contract wu = (case wu_requested_contract wu of Some c \<Rightarrow> c
     | None \<Rightarrow> if ai_kind (wu_kind wu) then SEMANTIC else EXACT_BYTES)"

definition ai_decision :: "bool \<Rightarrow> bool \<Rightarrow> bool \<Rightarrow> policy_decision" where
  "ai_decision text lookup embedding = simple_decision SEMANTIC
     ([''normalize_prompt'', ''exact_cache_lookup'', ''model_route'', ''verify'', ''cache_store'', ''compute_manifest'']
        @ (if text then [''context_compile''] else [])
        @ (if lookup then [''semantic_cache_lookup''] else []))
     ([''cross_tenant_cache'', ''semantic_summary'', ''lossy_transcode'', ''delete'']
        @ (if lookup then [] else [''semantic_cache_lookup'']))
     [''ai_contract_with_semantic_reducers_disabled_by_default''] [''ai_request_default'']
     [if embedding then ''embedding_shape'' else ''non_empty_text'']"

definition ai_default_decision :: "work_unit \<Rightarrow> policy_decision" where
  "ai_default_decision wu = ai_decision (text_kind (wu_kind wu))
     (dget (wu_policy_context wu) ''allow_semantic_cache'' = Some (PBool True) \<and> text_kind (wu_kind wu))
     (wu_kind wu = EMBEDDING_REQUEST)"

definition global_default_decision :: "contract \<Rightarrow> policy_decision" where
  "global_default_decision requested = simple_decision requested
     [''hash'', ''content_defined_chunk'', ''fixed_chunk'', ''dedupe_same_tenant'', ''zstd'', ''manifest'', ''verify_restore'']
     [''semantic_cache'', ''semantic_cache_lookup'', ''semantic_summary'', ''lossy_transcode'', ''cross_tenant_dedupe'', ''delete'']
     [''safe_default_exact_or_requested_contract''] [''global_default''] [''sha256_restore'']"

definition evaluate_policy :: "work_unit \<Rightarrow> pydict \<Rightarrow> policy_decision res" where
  "evaluate_policy wu bundle =
     (if legal_hold wu then Inr legal_hold_decision
      else (let requested = requested_contract wu in
        bindR (evaluate_bundle wu requested bundle) (\<lambda>found.
        Inr (case found of Some d \<Rightarrow> d
          | None \<Rightarrow> if requested = SEMANTIC \<and> ai_kind (wu_kind wu) then ai_default_decision wu
              else global_default_decision requested))))"

text \<open>\<open>fresh\<close> is the identifier and time of the new event.\<close>

definition audit_policy_override :: "schemas \<Rightarrow> ctx \<Rightarrow> string \<times> string \<Rightarrow> work_unit \<Rightarrow> contract \<Rightarrow> string \<Rightarrow> string
    \<Rightarrow> bool \<Rightarrow> (ledger_event, ledger_rows) sres" where
  "audit_policy_override sch c fresh wu requested who why approved =
     ledger_append sch c
       \<lparr>ev_event_type = (if approved then ''policy.override.approved'' else ''policy.override.requested''),
        ev_tenant = wu_tenant wu, ev_work_unit_id = Some (wu_id wu), ev_manifest_id = None,
        ev_policy_bundle_id = Some ''override'', ev_actor = Some who,
        ev_decision = Some (contract_value requested),
        ev_details = [(''reason'', PStr why), (''approved'', PBool approved),
          (''requested_contract'', PStr (contract_value requested))],
        ev_trace_id = Some (wu_trace_id wu), ev_prev_hash = None, ev_event_id = fst fresh,
        ev_created_at = snd fresh, ev_event_hash = None\<rparr>"

subsection \<open>What every decision guarantees\<close>

lemma apply_rule_grows:
  "apply_rule r a = Inr a' \<Longrightarrow> set (ba_denied a) \<subseteq> set (ba_denied a') \<and> set (ba_required a) \<subseteq> set (ba_required a')
    \<and> (ba_approval a' = (ba_approval a \<or> truthy (get_value r ''requires_approval'')))"
  by (auto simp: apply_rule_def Let_def effect_simps)

lemma apply_rules_grows:
  "apply_rules rs a = Inr a' \<Longrightarrow> set (ba_denied a) \<subseteq> set (ba_denied a') \<and> set (ba_required a) \<subseteq> set (ba_required a')
    \<and> (ba_approval a' = (ba_approval a \<or> (\<exists>r \<in> set rs. truthy (get_value r ''requires_approval''))))"
proof (induction rs arbitrary: a)
  case (Cons r rs)
  then obtain a1 where "apply_rule r a = Inr a1" "apply_rules rs a1 = Inr a'" by (auto simp: effect_simps)
  with Cons.IH [of a1] apply_rule_grows [of r a a1] show ?case by auto
qed simp

lemma foldl_stricter:
  "foldl stricter c cs \<in> set (c # cs) \<and> (\<forall>d \<in> set (c # cs). rank (foldl stricter c cs) \<le> rank d)"
proof (induction cs arbitrary: c)
  case (Cons d cs)
  have "stricter c d \<in> {c, d}" "rank (stricter c d) \<le> rank c" "rank (stricter c d) \<le> rank d"
    by (auto simp: stricter_def)
  with Cons.IH [of "stricter c d"] show ?case by fastforce
qed simp

text \<open>The parts of a bundle evaluation that gave a decision.\<close>

lemma evaluate_bundle_Some:
  assumes "evaluate_bundle wu requested bundle = Inr (Some d)"
  shows "\<exists>defaults rules matched. select_rules wu rules = Inr matched
    \<and> bundle_decision wu requested bundle defaults matched = Inr d"
  using assms by (auto simp: evaluate_bundle_def effect_simps split: if_splits)

lemma bundle_decision_Inr:
  assumes "bundle_decision wu requested bundle defaults matched = Inr d"
  shows "\<exists>cs strict a models nm. rule_contracts matched = Inr cs \<and> strict_contract requested defaults cs = Inr strict
    \<and> apply_rules matched (base_acc wu defaults) = Inr a \<and> models \<noteq> []
    \<and> d = bundle_result strict defaults a models nm"
  using assms unfolding bundle_decision_def effect_simps by blast

lemma bundle_decision_lists:
  assumes "bundle_decision wu requested bundle defaults matched = Inr d"
  shows "set baseline_denied \<subseteq> set (pd_denied d)" "set (pd_allowed d) \<inter> set (pd_denied d) = {}"
    "set (snd (snd (baseline_policy_controls wu))) \<subseteq> set (pd_required d)"
    "pd_models d \<noteq> []" "pd_require_approval d = (\<exists>r \<in> set matched. truthy (get_value r ''requires_approval''))"
proof -
  obtain strict a models nm where a: "apply_rules matched (base_acc wu defaults) = Inr a" "models \<noteq> []"
      "d = bundle_result strict defaults a models nm"
    using bundle_decision_Inr [OF assms] by blast
  have base: "set baseline_denied \<subseteq> set (ba_denied (base_acc wu defaults))"
      "ba_required (base_acc wu defaults) = snd (snd (baseline_policy_controls wu))"
      "\<not> ba_approval (base_acc wu defaults)"
    by (auto simp: base_acc_def baseline_policy_controls_def)
  note grows = apply_rules_grows [OF a(1)]
  show "set baseline_denied \<subseteq> set (pd_denied d)" "set (snd (snd (baseline_policy_controls wu))) \<subseteq> set (pd_required d)"
    using base(1,2) grows a(3) by (auto simp: bundle_result_def Let_def)
  show "set (pd_allowed d) \<inter> set (pd_denied d) = {}" "pd_models d \<noteq> []"
    using a(2,3) by (auto simp: bundle_result_def Let_def)
  show "pd_require_approval d = (\<exists>r \<in> set matched. truthy (get_value r ''requires_approval''))"
    using grows base(3) a(3) by (simp add: bundle_result_def Let_def)
qed

text \<open>
  C28 (safety). The guardrails no policy can switch off: every decision the evaluator makes,
  for any work unit and any bundle, denies deletion, semantic summaries and lossy transcoding,
  allows no action it denies, never allows one of these or sharing data across tenants, and
  never has an empty model allowlist.
\<close>

theorem policy_guardrails:
  assumes "evaluate_policy wu bundle = Inr d"
  shows "set (pd_allowed d) \<inter> set (pd_denied d) = {}
    \<and> {''delete'', ''semantic_summary'', ''lossy_transcode''} \<subseteq> set (pd_denied d)
    \<and> set baseline_denied \<inter> set (pd_allowed d) = {}
    \<and> pd_models d \<noteq> []"
proof -
  consider (found) requested where "evaluate_bundle wu requested bundle = Inr (Some d)"
    | (hold) "d = legal_hold_decision" | (ai) "d = ai_default_decision wu"
    | (default) c where "d = global_default_decision c"
    using assms by (auto simp: evaluate_policy_def Let_def effect_simps split: if_splits option.splits)
  then show ?thesis
  proof cases
    case found
    then obtain defaults matched where "bundle_decision wu requested bundle defaults matched = Inr d"
      using evaluate_bundle_Some by blast
    from bundle_decision_lists [OF this] show ?thesis by (auto simp: baseline_denied_def)
  next
    case hold
    then show ?thesis by (simp add: legal_hold_decision_def simple_decision_def baseline_denied_def DEFAULT_MODELS_def)
  next
    case ai
    then show ?thesis
      by (simp add: ai_default_decision_def ai_decision_def simple_decision_def baseline_denied_def DEFAULT_MODELS_def)
  next
    case default
    then show ?thesis by (simp add: global_default_decision_def simple_decision_def baseline_denied_def DEFAULT_MODELS_def)
  qed
qed

definition sample_bundle :: pydict where
  "sample_bundle = [(''metadata'', PDict [(''name'', PStr ''gold'')]),
     (''spec'', PDict [(''defaults'', PDict [(''contract'', PStr ''semantic'')]),
       (''rules'', PList [PDict [(''name'', PStr ''bytes''), (''match'', PDict [(''kind'', PStr ''byte_object'')]),
          (''contract'', PStr ''exact_logical''), (''allow'', PDict [(''transforms'', PList [PStr ''delete''])]),
          (''requires_approval'', PBool True)]])])]"

theorem policy_guardrails_witness:
  "''delete'' \<in> set (pd_denied (global_default_decision EXACT_BYTES))"
proof -
  have "evaluate_policy sample_work_unit [] = Inr (global_default_decision EXACT_BYTES)"
    by (simp add: evaluate_policy_def evaluate_bundle_def legal_hold_def requested_contract_def sample_work_unit_def
        ai_kind_def text_kind_def)
  from policy_guardrails [OF this] show ?thesis by simp
qed

text \<open>The contracts of the rules that match a work unit.\<close>

definition matched_contracts :: "work_unit \<Rightarrow> pydict \<Rightarrow> contract list res" where
  "matched_contracts wu bundle =
     bindR (dict_field bundle ''spec'') (\<lambda>spec.
     bindR (bindR (list_field spec ''rules'') (\<lambda>rs. seq_res (map as_dict rs))) (\<lambda>rules.
     bindR (select_rules wu rules) rule_contracts))"

text \<open>
  The strictest matching rule wins, and a legal hold overrides everything:
  under a legal hold the decision is the exact-bytes one whatever the bundle and the request;
  otherwise, when some matching rules name contracts, the decision's contract is one of them
  and none of them is stricter.
\<close>

theorem strictest_rule_wins:
  assumes "evaluate_policy wu bundle = Inr d" "matched_contracts wu bundle = Inr cs" "cs \<noteq> []" "bundle \<noteq> []"
  shows "if legal_hold wu then d = legal_hold_decision \<and> pd_contract d = EXACT_BYTES
    else pd_contract d \<in> set cs \<and> (\<forall>c \<in> set cs. rank (pd_contract d) \<le> rank c)"
proof (cases "legal_hold wu")
  case True
  then show ?thesis using assms(1) by (auto simp: evaluate_policy_def legal_hold_decision_def simple_decision_def)
next
  case False
  obtain spec rs rules matched where m: "dict_field bundle ''spec'' = Inr spec" "list_field spec ''rules'' = Inr rs"
      "seq_res (map as_dict rs) = Inr rules" "select_rules wu rules = Inr matched" "rule_contracts matched = Inr cs"
    using assms(2) by (auto simp: matched_contracts_def effect_simps)
  have "matched \<noteq> []" using m(5) assms(3) by (auto simp: rule_contracts_def)
  then obtain defaults where "bundle_decision wu (requested_contract wu) bundle defaults matched = Inr d"
    using assms(1,4) False m by (auto simp: evaluate_policy_def Let_def evaluate_bundle_def effect_simps)
  then obtain strict a models nm where d: "strict_contract (requested_contract wu) defaults cs = Inr strict"
      "d = bundle_result strict defaults a models nm"
    using bundle_decision_Inr m(5) by fastforce
  have "pd_contract d = foldl stricter (hd cs) (tl cs)"
    using d assms(3) by (cases cs) (simp_all add: strict_contract_def bundle_result_def Let_def)
  then show ?thesis using False foldl_stricter [of "hd cs" "tl cs"] assms(3) by simp
qed

theorem strictest_rule_wins_witness:
  "\<exists>d. evaluate_policy sample_work_unit sample_bundle = Inr d \<and> pd_contract d = EXACT_LOGICAL"
proof -
  have m: "matched_contracts sample_work_unit sample_bundle = Inr [EXACT_LOGICAL]"
    by code_simp
  have "case evaluate_policy sample_work_unit sample_bundle of Inr d \<Rightarrow> True | Inl e \<Rightarrow> False"
    by code_simp
  then obtain d where d: "evaluate_policy sample_work_unit sample_bundle = Inr d"
    by (auto split: sum.splits)
  have "\<not> legal_hold sample_work_unit" by (simp add: legal_hold_def sample_work_unit_def)
  with strictest_rule_wins [OF d m] d show ?thesis by (simp add: sample_bundle_def)
qed

text \<open>The request itself takes no part: a bundle whose default contract is weaker relaxes an
  explicit request for exact bytes.\<close>

lemma bundle_relaxes_request:
  "map_res pd_contract (evaluate_policy (sample_work_unit\<lparr>wu_requested_contract := Some EXACT_BYTES\<rparr>)
     [(''spec'', PDict [(''defaults'', PDict [(''contract'', PStr ''semantic'')]), (''rules'', PList [])])])
   = Inr SEMANTIC"
  by code_simp

end
