(* ===== verification/Classifier.thy ===== *)
theory Classifier
  imports Contracts PyText Complex_Main
begin

text \<open>
  \<open>python/urp/entropy.py\<close> and \<open>python/urp/classifier.py\<close>: byte entropy as a real number
  (the code computes it in floating point) and the classification of a work unit. The regular
  expressions of the prompt hints are alternatives of a word start and a word end, as their
  operator precedence has it.
\<close>

subsection \<open>Entropy\<close>

definition byte_count :: "bytes \<Rightarrow> byte \<Rightarrow> nat" where
  "byte_count data b = count_list data b"

definition byte_entropy :: "bytes \<Rightarrow> real" where
  "byte_entropy data = (if data = [] then 0
     else - (\<Sum>b \<in> set data. (real (byte_count data b) / real (length data))
              * log 2 (real (byte_count data b) / real (length data))))"

definition looks_random_or_encrypted :: "bytes \<Rightarrow> bool" where
  "looks_random_or_encrypted data =
     (if length data < 256 then False else byte_entropy (take 65536 data) \<ge> 7.85)"

subsection \<open>Prompt hints\<close>

text \<open>Text read from payload bytes with \<open>errors="ignore"\<close>; characters above U+00FF are outside
  the model and dropped.\<close>

fun utf8_ignore :: "bytes \<Rightarrow> string" where
  "utf8_ignore [] = []"
| "utf8_ignore [b] = (if b < 128 then [char_of (unat b)] else [])"
| "utf8_ignore (b # c # bs) =
     (if b < 128 then char_of (unat b) # utf8_ignore (c # bs)
      else if (b = 194 \<or> b = 195) \<and> 128 \<le> c \<and> c < 192
      then char_of ((unat b - 192) * 64 + (unat c - 128)) # utf8_ignore bs
      else utf8_ignore (c # bs))"

definition is_word_char :: "char \<Rightarrow> bool" where
  "is_word_char c = (let n = (of_char c :: nat) in
     is_alnum c \<or> c = CHR ''_'' \<or> n = 170 \<or> n = 178 \<or> n = 179 \<or> n = 181 \<or> n = 185 \<or> n = 186
     \<or> (188 \<le> n \<and> n \<le> 190) \<or> (192 \<le> n \<and> n \<noteq> 215 \<and> n \<noteq> 247))"

text \<open>Search for a word with a boundary before it, or after it; \<open>prev\<close> is the character before.\<close>

fun word_start :: "string \<Rightarrow> char option \<Rightarrow> string \<Rightarrow> bool" where
  "word_start w prev [] = False"
| "word_start w prev (c # cs) =
     ((prefix w (c # cs) \<and> (case prev of None \<Rightarrow> True | Some p \<Rightarrow> \<not> is_word_char p))
      \<or> word_start w (Some c) cs)"

fun word_end :: "string \<Rightarrow> string \<Rightarrow> bool" where
  "word_end w [] = False"
| "word_end w (c # cs) =
     ((prefix w (c # cs) \<and> (case drop (length w) (c # cs) of [] \<Rightarrow> True | d # _ \<Rightarrow> \<not> is_word_char d))
      \<or> word_end w cs)"

definition prompt_hint :: "string \<Rightarrow> string" where
  "prompt_hint text = (let t = py_lower text in
     if word_start ''summarize'' None t \<or> word_end ''summary'' t then ''summarization''
     else if word_start ''classify'' None t \<or> word_end ''label'' t then ''classification''
     else if word_start ''sql'' None t \<or> contains ''query'' t \<or> word_end ''database'' t then ''tool_or_sql''
     else ''general'')"

subsection \<open>Classification\<close>

record classification =
  cl_detected_kind :: work_unit_kind
  cl_entropy :: "real option"
  cl_likely_compressed :: bool
  cl_likely_encrypted :: bool
  cl_schema_hint :: "string option"
  cl_ai_task_hint :: "string option"
  cl_confidence :: pyval
  cl_notes :: "string list"

definition COMPRESSED_MAGIC :: "bytes list" where
  "COMPRESSED_MAGIC = [[0x1f, 0x8b], [0x28, 0xb5, 0x2f, 0xfd], [0x50, 0x4b, 0x03, 0x04],
     [0x89, 0x50, 0x4e, 0x47], [0xff, 0xd8, 0xff]]"

fun payload_bytes :: "pyval \<Rightarrow> bytes" where
  "payload_bytes PNone = []"
| "payload_bytes (PBytes b) = b"
| "payload_bytes (PStr s) = utf8 s"
| "payload_bytes v = utf8 (py_repr v)"

definition byte_space :: "byte \<Rightarrow> bool" where
  "byte_space b = (b = 32 \<or> (9 \<le> b \<and> b \<le> 13))"

definition schema_hint :: "bytes \<Rightarrow> string option" where
  "schema_hint data = (case dropWhile byte_space data of
       b # _ \<Rightarrow> if b = 0x7b \<or> b = 0x5b then Some ''json''
         else if 0x2c \<in> set (take 1024 data) \<and> 0x0a \<in> set (take 4096 data) then Some ''delimited_text'' else None
     | [] \<Rightarrow> None)"

definition classify :: "work_unit \<Rightarrow> classification" where
  "classify wu =
     (let data = payload_bytes (wu_payload wu);
          compressed = list_ex (\<lambda>m. prefix m data) COMPRESSED_MAGIC;
          encrypted = (looks_random_or_encrypted data \<and> \<not> compressed);
          prompt = (wu_kind wu = PROMPT_REQUEST)
      in \<lparr>cl_detected_kind = wu_kind wu,
          cl_entropy = (if data = [] then None else Some (byte_entropy (take 65536 data))),
          cl_likely_compressed = compressed,
          cl_likely_encrypted = encrypted,
          cl_schema_hint = schema_hint data,
          cl_ai_task_hint = (if prompt then Some (prompt_hint (utf8_ignore data)) else None),
          cl_confidence = (if data = [] then PFloat 4 1 else PFloat 7 1),
          cl_notes = (if prompt then [''prompt_request_classified_for_routing''] else [])
            @ (if compressed then [''payload_has_compressed_magic''] else [])
            @ (if encrypted then [''payload_high_entropy''] else [])\<rparr>)"

subsection \<open>Bounds\<close>

lemma count_list_pos: "b \<in> set data \<Longrightarrow> 0 < count_list data b"
  by (induction data) auto

lemma sum_count_list: "(\<Sum>b \<in> set data. count_list data b) = length data"
  by (simp add: sum_count_set)

lemma entropy_bounds:
  assumes "data \<noteq> []"
  shows "0 \<le> byte_entropy data" "byte_entropy data \<le> log 2 (real (card (set data)))"
proof -
  define p where "p b = real (byte_count data b) / real (length data)" for b
  define n where "n = real (card (set data))"
  have n: "0 < n" using assms by (simp add: n_def card_gt_0_iff)
  have pos: "0 < p b" if "b \<in> set data" for b
    using count_list_pos [OF that] assms by (simp add: p_def byte_count_def)
  have total: "(\<Sum>b \<in> set data. p b) = 1"
  proof -
    have "(\<Sum>b \<in> set data. real (byte_count data b)) = real (length data)"
      using sum_count_list [of data] by (simp add: byte_count_def flip: of_nat_sum)
    then show ?thesis using assms by (simp add: p_def flip: sum_divide_distrib)
  qed
  have le1: "p b \<le> 1" if "b \<in> set data" for b
    using total member_le_sum [of b "set data" p] that pos by (force intro: less_imp_le)
  have ent: "byte_entropy data = (\<Sum>b \<in> set data. - (p b * log 2 (p b)))"
    using assms by (simp add: byte_entropy_def p_def sum_negf)
  show "0 \<le> byte_entropy data"
    unfolding ent
  proof (rule sum_nonneg)
    fix b assume b: "b \<in> set data"
    then have "log 2 (p b) \<le> 0" using pos le1 by simp
    then show "0 \<le> - (p b * log 2 (p b))" using pos [OF b] by (simp add: mult_nonneg_nonpos)
  qed
  have step: "- (p b * log 2 (p b)) \<le> p b * log 2 n + (1 / n - p b) / ln 2" if b: "b \<in> set data" for b
  proof -
    have "ln (1 / (p b * n)) \<le> 1 / (p b * n) - 1"
      using pos [OF b] n by (intro ln_le_minus_one) simp
    then have "- ln (p b) - ln n \<le> 1 / (p b * n) - 1"
      using pos [OF b] n by (simp add: ln_div ln_mult)
    then have "p b * (- ln (p b) - ln n) \<le> p b * (1 / (p b * n) - 1)"
      using pos [OF b] by (simp add: mult_left_mono)
    also have "\<dots> = 1 / n - p b" using pos [OF b] n by (simp add: field_simps)
    finally have "- (p b * ln (p b)) \<le> p b * ln n + (1 / n - p b)" by (simp add: algebra_simps)
    then have "- (p b * ln (p b)) / ln 2 \<le> (p b * ln n + (1 / n - p b)) / ln 2"
      by (intro divide_right_mono) auto
    then show ?thesis by (simp add: log_def add_divide_distrib)
  qed
  have "byte_entropy data \<le> (\<Sum>b \<in> set data. p b * log 2 n + (1 / n - p b) / ln 2)"
    unfolding ent by (rule sum_mono) (rule step)
  also have "\<dots> = (\<Sum>b \<in> set data. p b) * log 2 n + (n * (1 / n) - (\<Sum>b \<in> set data. p b)) / ln 2"
  proof -
    have "(\<Sum>b \<in> set data. (1 / n - p b) / ln 2) = (\<Sum>b \<in> set data. 1 / n - p b) / ln 2"
      by (simp only: sum_divide_distrib)
    also have "(\<Sum>b \<in> set data. 1 / n - p b) = n * (1 / n) - (\<Sum>b \<in> set data. p b)"
      by (simp only: sum_subtractf sum_constant n_def)
    finally show ?thesis by (simp only: sum.distrib sum_distrib_right)
  qed
  also have "\<dots> = log 2 n" using total n by simp
  finally show "byte_entropy data \<le> log 2 (real (card (set data)))" by (simp add: n_def)
qed

lemma card_bytes: "card (set data) \<le> 256" for data :: bytes
proof -
  have "card (set data) \<le> card (UNIV :: byte set)" by (rule card_mono) auto
  then show ?thesis by (simp add: card_word)
qed

text \<open>
  Entropy is a number of bits per byte: it lies between 0 and 8 and is at most
  the logarithm of the number of distinct byte values, so that data flagged as random has at
  least 256 bytes and at least \<open>2 powr 7.85\<close> distinct values; data with a compression magic is never
  flagged as encrypted.
\<close>

theorem entropy_bits:
  "0 \<le> byte_entropy data \<and> byte_entropy data \<le> 8
   \<and> (looks_random_or_encrypted data \<longrightarrow> 256 \<le> length data \<and> 7.85 \<le> log 2 (real (card (set data))))
   \<and> (cl_likely_encrypted (classify wu) \<longrightarrow> \<not> cl_likely_compressed (classify wu)
        \<and> 256 \<le> length (payload_bytes (wu_payload wu)))"
proof (intro conjI impI)
  have "log 2 (real (card (set data))) \<le> 8" if "data \<noteq> []"
  proof -
    have "log 2 (real (card (set data))) \<le> log 2 256"
      using card_bytes [of data] that by (subst log_le_cancel_iff) (auto simp: card_gt_0_iff)
    also have "log 2 (256 :: real) = log 2 (2 ^ 8)" by simp
    finally show ?thesis by (simp only: log_nat_power) simp
  qed
  then show "byte_entropy data \<le> 8" using entropy_bounds(2) [of data]
    by (cases "data = []") (auto simp: byte_entropy_def)
  show "0 \<le> byte_entropy data"
    using entropy_bounds(1) [of data] by (cases "data = []") (auto simp: byte_entropy_def)
  assume r: "looks_random_or_encrypted data"
  then show "256 \<le> length data" by (simp add: looks_random_or_encrypted_def split: if_splits)
  have ne: "take 65536 data \<noteq> []" "data \<noteq> []"
    using r by (auto simp: looks_random_or_encrypted_def split: if_splits)
  have "7.85 \<le> log 2 (real (card (set (take 65536 data))))"
    using r entropy_bounds(2) [OF ne(1)] by (simp add: looks_random_or_encrypted_def split: if_splits)
  also have "\<dots> \<le> log 2 (real (card (set data)))"
    using ne set_take_subset [of 65536 data]
    by (subst log_le_cancel_iff) (auto simp: card_gt_0_iff intro!: card_mono)
  finally show "7.85 \<le> log 2 (real (card (set data)))" .
qed (auto simp: classify_def Let_def looks_random_or_encrypted_def split: if_splits)

theorem entropy_bits_witness:
  "byte_entropy [0, 1] \<le> 8 \<and> 0 \<le> byte_entropy [0, 1]"
  using entropy_bits [of "[0, 1]"] by blast

end
