(* ===== verification/Planner.thy ===== *)
theory Planner
  imports Policy Classifier
begin

text \<open>
  \<open>python/urp/action_registry.py\<close> and \<open>python/urp/planner.py\<close>: which actions exist for which
  contracts, and the planner that turns a classified work unit and a policy decision into a
  list of actions with a score. Every score component is a multiple of one thousandth, so the
  rounded floats of the code are exact integers here, in thousandths.
\<close>

subsection \<open>The action registry\<close>

record action_spec =
  as_name :: string
  as_contracts :: "contract list"
  as_risk :: string
  as_verifiers :: "string list"

type_synonym registry = "(string \<times> action_spec) list"

definition register :: "registry \<Rightarrow> action_spec \<Rightarrow> registry" where
  "register reg spec = dset (as_name spec) spec reg"

definition registry_get :: "registry \<Rightarrow> string \<Rightarrow> action_spec res" where
  "registry_get reg nm = (case dget reg nm of Some s \<Rightarrow> Inr s | None \<Rightarrow> Inl (KeyError nm))"

definition registry_names :: "registry \<Rightarrow> string list" where
  "registry_names reg = sort (dkeys reg)"

definition allowed_for_contract :: "registry \<Rightarrow> contract \<Rightarrow> string list" where
  "allowed_for_contract reg c = map fst (filter (\<lambda>ns. c \<in> set (as_contracts (snd ns))) reg)"

fun validate_plan_actions :: "registry \<Rightarrow> contract \<Rightarrow> string list \<Rightarrow> plan_action list \<Rightarrow> unit res" where
  "validate_plan_actions reg c denied [] = Inr ()"
| "validate_plan_actions reg c denied (a # as) =
     (if pa_type a \<in> set denied then Inl (ValueError (''action denied by policy: '' @ pa_type a))
      else (case dget reg (pa_type a) of
          None \<Rightarrow> Inl (ValueError (''unknown action: '' @ pa_type a))
        | Some spec \<Rightarrow> if c \<notin> set (as_contracts spec)
            then Inl (ValueError (''action '' @ pa_type a @ '' does not support contract '' @ contract_value c))
            else validate_plan_actions reg c denied as))"

definition exact_contracts :: "contract list" where
  "exact_contracts = [EXACT_BYTES, EXACT_LOGICAL, BOUNDED_APPROX, SEMANTIC]"

definition ai_contracts :: "contract list" where
  "ai_contracts = [SEMANTIC, EXACT_BYTES, EXACT_LOGICAL]"

definition exact_actions :: "string list" where
  "exact_actions = [''hash'', ''content_defined_chunk'', ''fixed_chunk'', ''dedupe_same_tenant'', ''zstd'',
     ''dedupe_only_or_exact_store'', ''store_exact_ciphertext'', ''store_exact_bytes'', ''manifest'',
     ''verify_restore'', ''rehydrate'']"

definition ai_actions :: "string list" where
  "ai_actions = [''normalize_prompt'', ''exact_cache_lookup'', ''context_compile'', ''tool_first_attempt'',
     ''model_route'', ''verify'', ''cache_store'', ''compute_manifest'']"

definition default_action_registry :: registry where
  "default_action_registry = foldl register []
     (map (\<lambda>n. \<lparr>as_name = n, as_contracts = exact_contracts, as_risk = ''low'', as_verifiers = []\<rparr>) exact_actions
      @ map (\<lambda>n. \<lparr>as_name = n, as_contracts = ai_contracts, as_risk = ''medium'', as_verifiers = []\<rparr>) ai_actions
      @ [\<lparr>as_name = ''semantic_cache_lookup'', as_contracts = [SEMANTIC], as_risk = ''high'',
           as_verifiers = [''source_consistency'', ''freshness_check'']\<rparr>,
         \<lparr>as_name = ''semantic_summary'', as_contracts = [SEMANTIC], as_risk = ''high'',
           as_verifiers = [''source_consistency'']\<rparr>,
         \<lparr>as_name = ''approximate_quantization'', as_contracts = [BOUNDED_APPROX], as_risk = ''high'',
           as_verifiers = [''error_bound'']\<rparr>,
         \<lparr>as_name = ''delete'', as_contracts = [TOMBSTONE], as_risk = ''high'',
           as_verifiers = [''retention_policy'']\<rparr>])"

subsection \<open>Filtering by policy\<close>

definition plan_step :: "string \<Rightarrow> bool \<Rightarrow> string \<Rightarrow> string \<Rightarrow> plan_action" where
  "plan_step ty required risk why =
     \<lparr>pa_type = ty, pa_required = required, pa_risk = risk, pa_params = [], pa_reason = why\<rparr>"

definition framework :: "string list" where
  "framework = [''hash'', ''manifest'', ''verify'', ''verify_restore'', ''compute_manifest'']"

definition permitted :: "policy_decision \<Rightarrow> string \<Rightarrow> string \<Rightarrow> bool" where
  "permitted d mode ty = (ty \<in> set framework \<or> ty \<in> set (pd_allowed d)
     \<or> (mode = ''shadow'' \<and> ty @ ''_shadow'' \<in> set (pd_allowed d)))"

fun filter_actions :: "policy_decision \<Rightarrow> string \<Rightarrow> plan_action list \<Rightarrow> plan_action list res" where
  "filter_actions d mode [] = Inr []"
| "filter_actions d mode (a # as) =
     (if pa_type a \<in> set (pd_denied d)
      then (if pa_type a \<in> set framework
            then Inl (ValueError (''policy cannot deny mandatory safety action: '' @ pa_type a))
            else filter_actions d mode as)
      else if permitted d mode (pa_type a) then map_res (Cons a) (filter_actions d mode as)
      else filter_actions d mode as)"

subsection \<open>Scores\<close>

text \<open>A number of thousandths as the float Python prints.\<close>

definition milli :: "int \<Rightarrow> pyval" where
  "milli k = (if k mod 100 = 0 then PFloat (k div 100) 1 else if k mod 10 = 0 then PFloat (k div 10) 2 else PFloat k 3)"

definition savings_value :: "work_unit \<Rightarrow> string list \<Rightarrow> classification \<Rightarrow> int" where
  "savings_value wu names cl =
     (if wu_kind wu = EMBEDDING_REQUEST then (if ''exact_cache_lookup'' \<in> set names then 520 else 250)
      else if wu_kind wu = PROMPT_REQUEST
      then min 750 ((if ''exact_cache_lookup'' \<in> set names then 450 else 200)
             + (if ''context_compile'' \<in> set names then 120 else 0)
             + (if ''semantic_cache_lookup'' \<in> set names then 80 else 0))
      else if cl_likely_encrypted cl then 180
      else if ''zstd'' \<in> set names then 780
      else if ''content_defined_chunk'' \<in> set names then 550 else 250)"

definition policy_bonus :: "policy_decision \<Rightarrow> int" where
  "policy_bonus d = min 120 ((if pd_required d \<noteq> [] then 40 else 0)
     + (if pd_contract d = EXACT_BYTES \<or> pd_contract d = EXACT_LOGICAL then 40 else 0)
     + (if pd_denied d \<noteq> [] then 20 else 0))"

definition risk_cost :: "string \<Rightarrow> int" where
  "risk_cost r = (if r = ''low'' then 10 else if r = ''medium'' then 40 else if r = ''high'' then 120 else 40)"

record score_parts =
  sp_savings :: int
  sp_latency :: int
  sp_risk :: int
  sp_cpu :: int
  sp_rehydration :: int
  sp_metadata :: int
  sp_verifier :: int
  sp_bonus :: int

definition score_components :: "work_unit \<Rightarrow> plan_action list \<Rightarrow> classification \<Rightarrow> policy_decision \<Rightarrow> score_parts" where
  "score_components wu as cl d =
     (let names = map pa_type as; has = (\<lambda>n. n \<in> set names) in
      \<lparr>sp_savings = savings_value wu names cl,
       sp_latency = (if list_ex (\<lambda>a. pa_required a \<and> pa_risk a = ''medium'') as then 30 else 10),
       sp_risk = sum_list (map (\<lambda>a. risk_cost (pa_risk a)) as),
       sp_cpu = (if has ''content_defined_chunk'' then 30 else 0) + (if has ''zstd'' then 40 else 0)
         + (if has ''context_compile'' then 20 else 0) + (if has ''model_route'' then 10 else 0),
       sp_rehydration = (if has ''content_defined_chunk'' \<or> has ''zstd'' then 50 else 10),
       sp_metadata = min 80 (int (length as) * 8),
       sp_verifier = min 80 (max 1 (int (length (pd_required d))) * 20),
       sp_bonus = policy_bonus d\<rparr>)"

definition plan_score :: "score_parts \<Rightarrow> int" where
  "plan_score s = max 0 (min 1000 (sp_savings s - sp_latency s - sp_risk s - sp_cpu s - sp_rehydration s
     - sp_metadata s - sp_verifier s + sp_bonus s))"

definition score_plan :: "work_unit \<Rightarrow> plan_action list \<Rightarrow> classification \<Rightarrow> policy_decision \<Rightarrow> pydict" where
  "score_plan wu as cl d =
     (let s = score_components wu as cl d in
      [(''score'', milli (plan_score s)),
       (''score_components'', PDict [
          (''savings_value'', milli (sp_savings s)), (''latency_penalty'', milli (sp_latency s)),
          (''risk_penalty'', milli (sp_risk s)), (''cpu_overhead'', milli (sp_cpu s)),
          (''rehydration_penalty'', milli (sp_rehydration s)), (''metadata_overhead'', milli (sp_metadata s)),
          (''verifier_cost'', milli (sp_verifier s)), (''policy_bonus'', milli (sp_bonus s))]),
       (''score_formula'', PStr ''savings_value - latency_penalty - risk_penalty - cpu_overhead - rehydration_penalty - metadata_overhead - verifier_cost + policy_bonus'')])"

definition make_plan_id :: "work_unit \<Rightarrow> plan_action list \<Rightarrow> string \<Rightarrow> string" where
  "make_plan_id wu as mode = ''pl_'' @ take 24 (stable_json_hash (PDict [
     (''work_unit_id'', PStr (wu_id wu)), (''kind'', PStr (kind_value (wu_kind wu))),
     (''actions'', strs (map pa_type as)), (''mode'', PStr mode)]))"

subsection \<open>The planner\<close>

definition embedding_steps :: "plan_action list" where
  "embedding_steps = [
     plan_step ''normalize_prompt'' True ''low'' ''stable embedding cache key'',
     plan_step ''exact_cache_lookup'' False ''low'' ''avoid repeated identical embedding computation'',
     plan_step ''model_route'' True ''medium'' ''choose embedding model path'',
     plan_step ''verify'' True ''medium'' ''embedding vector shape before acceptance'',
     plan_step ''cache_store'' False ''low'' ''reuse verified embedding vector'',
     plan_step ''compute_manifest'' True ''low'' ''record AI compute path'']"

definition prompt_steps :: "plan_action list" where
  "prompt_steps = [
     plan_step ''normalize_prompt'' True ''low'' ''stable cache key and context separation'',
     plan_step ''exact_cache_lookup'' False ''low'' ''avoid repeated identical model calls'',
     plan_step ''semantic_cache_lookup'' False ''medium'' ''policy-gated meaning reuse'',
     plan_step ''context_compile'' False ''medium'' ''remove duplicate or irrelevant context'',
     plan_step ''tool_first_attempt'' False ''low'' ''deterministic tools are cheaper and verifiable'',
     plan_step ''model_route'' True ''medium'' ''choose smallest verified model path'',
     plan_step ''verify'' True ''medium'' ''contract satisfaction before acceptance'',
     plan_step ''cache_store'' False ''low'' ''reuse verified answer'',
     plan_step ''compute_manifest'' True ''low'' ''record AI compute path'']"

definition object_steps :: "classification \<Rightarrow> plan_action list" where
  "object_steps cl = [
     plan_step ''hash'' True ''low'' ''identity and exact duplicate detection'',
     (if \<not> cl_likely_encrypted cl
      then plan_step ''content_defined_chunk'' True ''low'' ''partial duplicate detection''
      else plan_step ''store_exact_ciphertext'' True ''low'' ''payload high entropy; exact fallback''),
     (if (case cl_entropy cl of None \<Rightarrow> False | Some e \<Rightarrow> e < 7.85) \<and> \<not> cl_likely_compressed cl
      then plan_step ''zstd'' False ''low'' ''sample entropy suggests compressibility''
      else plan_step ''dedupe_only_or_exact_store'' True ''low'' ''compression unlikely or unsafe''),
     plan_step ''manifest'' True ''low'' ''record restoration and audit path'',
     plan_step ''verify_restore'' True ''low'' ''exact contract requires restore proof'']"

definition store_actions :: "string list" where
  "store_actions = [''content_defined_chunk'', ''fixed_chunk'', ''store_exact_ciphertext'', ''store_exact_bytes'']"

definition with_store :: "plan_action list \<Rightarrow> plan_action list" where
  "with_store as = (if list_ex (\<lambda>a. pa_type a \<in> set store_actions) as then as
     else take 1 as @ plan_step ''store_exact_bytes'' True ''low'' ''policy-safe exact fallback'' # drop 1 as)"

definition finish_plan :: "work_unit \<Rightarrow> string \<Rightarrow> policy_decision \<Rightarrow> classification \<Rightarrow> plan_action list \<Rightarrow> string
    \<Rightarrow> pydict \<Rightarrow> string \<Rightarrow> plan" where
  "finish_plan wu mode d cl as risk expected fallback =
     \<lparr>pl_work_unit_id = wu_id wu, pl_contract = pd_contract d, pl_actions = as, pl_tenant = Some (wu_tenant wu),
      pl_plan_id = make_plan_id wu as mode, pl_trace_id = Some (wu_trace_id wu), pl_mode = mode,
      pl_policy_bundle_id = pd_bundle_id d, pl_risk = risk,
      pl_expected = expected @ [(''denied_actions'', strs (pd_denied d)), (''matched_rules'', strs (pd_matched_rules d)),
        (''required_verifiers'', strs (pd_required d))] @ score_plan wu as cl d,
      pl_fallback = fallback\<rparr>"

definition ai_plan :: "work_unit \<Rightarrow> string \<Rightarrow> policy_decision \<Rightarrow> classification \<Rightarrow> plan_action list \<Rightarrow> pydict
    \<Rightarrow> string \<Rightarrow> plan res" where
  "ai_plan wu mode d cl steps expected fallback =
     bindR (filter_actions d mode steps) (\<lambda>filtered.
     bindR (validate_plan_actions default_action_registry (pd_contract d)
              (filter (\<lambda>x. x \<in> set (map pa_type filtered)) (pd_denied d)) filtered) (\<lambda>_.
     Inr (finish_plan wu mode d cl filtered ''medium'' expected fallback)))"

definition object_plan :: "work_unit \<Rightarrow> string \<Rightarrow> policy_decision \<Rightarrow> classification \<Rightarrow> plan res" where
  "object_plan wu mode d cl =
     bindR (filter_actions d mode (object_steps cl)) (\<lambda>filtered.
     bindR (validate_plan_actions default_action_registry (pd_contract d) [] (with_store filtered)) (\<lambda>_.
     Inr (finish_plan wu mode d cl (with_store filtered) ''low''
       [(''stored_bytes_reduction_possible'', PBool (\<not> cl_likely_encrypted cl))] ''store_exact_bytes'')))"

definition modes :: "string list" where
  "modes = [''observe'', ''shadow'', ''enforce'']"

definition plan_work_unit :: "work_unit \<Rightarrow> string \<Rightarrow> pydict \<Rightarrow> policy_decision option \<Rightarrow> plan res" where
  "plan_work_unit wu mode bundle decision =
     (if mode \<notin> set modes then Inl (ValueError ''mode must be observe, shadow, or enforce'')
      else bindR (case decision of Some d \<Rightarrow> Inr d | None \<Rightarrow> evaluate_policy wu bundle) (\<lambda>d.
        (let cl = classify wu in
         if wu_kind wu = EMBEDDING_REQUEST
         then ai_plan wu mode d cl embedding_steps [(''embedding_recompute_avoided_possible'', PBool True)]
                ''call_baseline_embedding_provider''
         else if wu_kind wu = PROMPT_REQUEST
         then ai_plan wu mode d cl prompt_steps
                [(''tokens_avoided_possible'', PBool True), (''large_model_calls_avoided_possible'', PBool True)]
                ''call_baseline_model_provider''
         else object_plan wu mode d cl)))"

subsection \<open>What a plan guarantees\<close>

definition supports :: "registry \<Rightarrow> contract \<Rightarrow> string \<Rightarrow> bool" where
  "supports reg c ty = (case dget reg ty of None \<Rightarrow> False | Some spec \<Rightarrow> c \<in> set (as_contracts spec))"

lemma validate_iff:
  "(validate_plan_actions reg c denied as = Inr u) =
     (\<forall>a \<in> set as. pa_type a \<notin> set denied \<and> supports reg c (pa_type a))"
  by (induction as) (auto simp: supports_def split: option.splits)

lemma filter_actions_iff:
  "(filter_actions d mode as = Inr fs) =
     ((\<forall>a \<in> set as. pa_type a \<in> set framework \<longrightarrow> pa_type a \<notin> set (pd_denied d))
      \<and> fs = filter (\<lambda>a. pa_type a \<notin> set (pd_denied d) \<and> permitted d mode (pa_type a)) as)"
  by (induction as arbitrary: fs) (auto simp: effect_simps)

lemma supports_exact: "ty \<in> set exact_actions \<Longrightarrow> supports default_action_registry c ty = (c \<in> set exact_contracts)"
proof -
  have "list_all (\<lambda>ty. list_all (\<lambda>c. supports default_action_registry c ty = (c \<in> set exact_contracts)) contracts) exact_actions"
    by code_simp
  moreover have "c \<in> set contracts" by (cases c) (simp_all add: contracts_def)
  ultimately show "ty \<in> set exact_actions \<Longrightarrow> ?thesis" by (auto simp: list_all_iff)
qed

lemma supports_ai: "ty \<in> set ai_actions \<Longrightarrow> supports default_action_registry c ty = (c \<in> set ai_contracts)"
proof -
  have "list_all (\<lambda>ty. list_all (\<lambda>c. supports default_action_registry c ty = (c \<in> set ai_contracts)) contracts) ai_actions"
    by code_simp
  moreover have "c \<in> set contracts" by (cases c) (simp_all add: contracts_def)
  ultimately show "ty \<in> set ai_actions \<Longrightarrow> ?thesis" by (auto simp: list_all_iff)
qed

definition compute_kind :: "work_unit_kind \<Rightarrow> bool" where
  "compute_kind k = (k = PROMPT_REQUEST \<or> k = EMBEDDING_REQUEST)"

definition kind_contracts :: "work_unit_kind \<Rightarrow> contract list" where
  "kind_contracts k = (if compute_kind k then ai_contracts else exact_contracts)"

definition kind_steps :: "work_unit \<Rightarrow> plan_action list" where
  "kind_steps wu = (if wu_kind wu = EMBEDDING_REQUEST then embedding_steps
     else if wu_kind wu = PROMPT_REQUEST then prompt_steps else object_steps (classify wu))"

definition kept_steps :: "work_unit \<Rightarrow> string \<Rightarrow> policy_decision \<Rightarrow> plan_action list" where
  "kept_steps wu mode d = filter (\<lambda>a. pa_type a \<notin> set (pd_denied d) \<and> permitted d mode (pa_type a)) (kind_steps wu)"

definition planned_steps :: "work_unit \<Rightarrow> string \<Rightarrow> policy_decision \<Rightarrow> plan_action list" where
  "planned_steps wu mode d = (if compute_kind (wu_kind wu) then kept_steps wu mode d else with_store (kept_steps wu mode d))"

text \<open>A plan succeeds exactly when no mandatory step is denied and every kept step supports the
  contract; its actions are then the kept ones.\<close>

lemma plan_iff:
  assumes "mode \<in> set modes"
  shows "(\<exists>p. plan_work_unit wu mode bundle (Some d) = Inr p) =
      ((\<forall>a \<in> set (kind_steps wu). pa_type a \<in> set framework \<longrightarrow> pa_type a \<notin> set (pd_denied d))
       \<and> (\<forall>a \<in> set (planned_steps wu mode d). supports default_action_registry (pd_contract d) (pa_type a)))"
    and "plan_work_unit wu mode bundle (Some d) = Inr p \<Longrightarrow>
      pl_actions p = planned_steps wu mode d \<and> pl_contract p = pd_contract d \<and> pl_tenant p = Some (wu_tenant wu)
      \<and> pl_mode p = mode"
proof -
  have ai: "(ai_plan wu mode d (classify wu) (kind_steps wu) ex fb = Inr p) =
      ((\<forall>a \<in> set (kind_steps wu). pa_type a \<in> set framework \<longrightarrow> pa_type a \<notin> set (pd_denied d))
       \<and> (\<forall>a \<in> set (kept_steps wu mode d). supports default_action_registry (pd_contract d) (pa_type a))
       \<and> p = finish_plan wu mode d (classify wu) (kept_steps wu mode d) ''medium'' ex fb)" for p ex fb
    by (auto simp: ai_plan_def effect_simps filter_actions_iff validate_iff kept_steps_def)
  have obj: "(object_plan wu mode d (classify wu) = Inr p) =
      ((\<forall>a \<in> set (kind_steps wu). pa_type a \<in> set framework \<longrightarrow> pa_type a \<notin> set (pd_denied d))
       \<and> (\<forall>a \<in> set (with_store (kept_steps wu mode d)). supports default_action_registry (pd_contract d) (pa_type a))
       \<and> p = finish_plan wu mode d (classify wu) (with_store (kept_steps wu mode d)) ''low''
           [(''stored_bytes_reduction_possible'', PBool (\<not> cl_likely_encrypted (classify wu)))] ''store_exact_bytes'')"
    if "\<not> compute_kind (wu_kind wu)" for p
    using that
    by (auto simp: object_plan_def effect_simps filter_actions_iff validate_iff kept_steps_def kind_steps_def compute_kind_def)
  consider (emb) "wu_kind wu = EMBEDDING_REQUEST" | (pro) "wu_kind wu = PROMPT_REQUEST" | (other) "\<not> compute_kind (wu_kind wu)"
    by (auto simp: compute_kind_def)
  then have both: "(\<exists>p. plan_work_unit wu mode bundle (Some d) = Inr p) =
      ((\<forall>a \<in> set (kind_steps wu). pa_type a \<in> set framework \<longrightarrow> pa_type a \<notin> set (pd_denied d))
       \<and> (\<forall>a \<in> set (planned_steps wu mode d). supports default_action_registry (pd_contract d) (pa_type a)))
    \<and> (plan_work_unit wu mode bundle (Some d) = Inr p \<longrightarrow>
      pl_actions p = planned_steps wu mode d \<and> pl_contract p = pd_contract d \<and> pl_tenant p = Some (wu_tenant wu)
      \<and> pl_mode p = mode)"
  proof cases
    case emb
    then have "kind_steps wu = embedding_steps" "planned_steps wu mode d = kept_steps wu mode d"
      by (simp_all add: kind_steps_def planned_steps_def compute_kind_def)
    then show ?thesis using assms emb ai [unfolded \<open>kind_steps wu = embedding_steps\<close>]
      by (simp add: plan_work_unit_def Let_def) (simp add: finish_plan_def)
  next
    case pro
    then have "kind_steps wu = prompt_steps" "planned_steps wu mode d = kept_steps wu mode d"
      by (simp_all add: kind_steps_def planned_steps_def compute_kind_def)
    then show ?thesis using assms pro ai [unfolded \<open>kind_steps wu = prompt_steps\<close>]
      by (simp add: plan_work_unit_def Let_def) (simp add: finish_plan_def)
  next
    case other
    then have "planned_steps wu mode d = with_store (kept_steps wu mode d)" by (simp add: planned_steps_def)
    then show ?thesis using assms other obj [OF other]
      by (simp add: plan_work_unit_def Let_def compute_kind_def) (simp add: finish_plan_def)
  qed
  then show "(\<exists>p. plan_work_unit wu mode bundle (Some d) = Inr p) =
      ((\<forall>a \<in> set (kind_steps wu). pa_type a \<in> set framework \<longrightarrow> pa_type a \<notin> set (pd_denied d))
       \<and> (\<forall>a \<in> set (planned_steps wu mode d). supports default_action_registry (pd_contract d) (pa_type a)))"
    by (rule conjunct1)
  from both show "plan_work_unit wu mode bundle (Some d) = Inr p \<Longrightarrow>
      pl_actions p = planned_steps wu mode d \<and> pl_contract p = pd_contract d \<and> pl_tenant p = Some (wu_tenant wu)
      \<and> pl_mode p = mode"
    by blast
qed

lemma plan_mode: "plan_work_unit wu mode bundle (Some d) = Inr p \<Longrightarrow> mode \<in> set modes"
  by (auto simp: plan_work_unit_def split: if_splits)

lemma with_store_set:
  "set (with_store as) \<subseteq> insert (plan_step ''store_exact_bytes'' True ''low'' ''policy-safe exact fallback'') (set as)
   \<and> set as \<subseteq> set (with_store as) \<and> (\<exists>a \<in> set (with_store as). pa_type a \<in> set store_actions)"
proof (cases "list_ex (\<lambda>a. pa_type a \<in> set store_actions) as")
  case False
  have "set (take 1 as) \<union> set (drop 1 as) = set as" by (metis append_take_drop_id set_append)
  then show ?thesis using False
    by (auto simp: with_store_def plan_step_def store_actions_def)
qed (auto simp: with_store_def list_ex_iff)

lemma kind_steps_types:
  "pa_type ` set (kind_steps wu) \<subseteq> (if compute_kind (wu_kind wu) then set ai_actions \<union> {''semantic_cache_lookup''}
     else set exact_actions)"
  by (auto simp: kind_steps_def compute_kind_def embedding_steps_def prompt_steps_def object_steps_def plan_step_def
      ai_actions_def exact_actions_def)

definition mandatory_types :: "work_unit_kind \<Rightarrow> string list" where
  "mandatory_types k = (if compute_kind k then [''verify'', ''compute_manifest'']
     else [''hash'', ''manifest'', ''verify_restore''])"

lemma mandatory_steps:
  "set (mandatory_types (wu_kind wu)) \<subseteq> pa_type ` set (kind_steps wu) \<inter> set framework"
  by (auto simp: mandatory_types_def kind_steps_def compute_kind_def embedding_steps_def prompt_steps_def
      object_steps_def plan_step_def framework_def)

lemma mandatory_kept:
  assumes "\<forall>a \<in> set (kind_steps wu). pa_type a \<in> set framework \<longrightarrow> pa_type a \<notin> set (pd_denied d)"
  shows "set (mandatory_types (wu_kind wu)) \<subseteq> pa_type ` set (kept_steps wu mode d)"
  using mandatory_steps [of wu] assms by (fastforce simp: kept_steps_def permitted_def)

lemma kept_planned: "set (kept_steps wu mode d) \<subseteq> set (planned_steps wu mode d)"
  using with_store_set by (auto simp: planned_steps_def)

lemma mandatory_support:
  assumes "ty \<in> set (mandatory_types k)" "supports default_action_registry c ty"
  shows "c \<in> set (kind_contracts k)"
proof (cases "compute_kind k")
  case True
  have "\<forall>x \<in> set [''verify'', ''compute_manifest'']. x \<in> set ai_actions" unfolding list_all_iff [symmetric] by code_simp
  then have "ty \<in> set ai_actions" using assms(1) True by (simp only: mandatory_types_def if_True)
  then show ?thesis using assms(2) supports_ai True by (simp add: kind_contracts_def)
next
  case False
  have "\<forall>x \<in> set [''hash'', ''manifest'', ''verify_restore'']. x \<in> set exact_actions"
    unfolding list_all_iff [symmetric] by code_simp
  then have "ty \<in> set exact_actions" using assms(1) False by (simp only: mandatory_types_def if_False)
  then show ?thesis using assms(2) supports_exact False by (simp add: kind_contracts_def)
qed


lemma supported_plan:
  assumes "mode \<in> set modes" "\<forall>x \<in> set framework. x \<notin> set (pd_denied d)"
    "pd_contract d \<in> set (kind_contracts (wu_kind wu))"
    "''semantic_cache_lookup'' \<in> set (pd_allowed d) \<Longrightarrow> pd_contract d = SEMANTIC"
    "''semantic_cache_lookup_shadow'' \<notin> set (pd_allowed d)"
  shows "\<exists>p. plan_work_unit wu mode bundle (Some d) = Inr p"
proof -
  have kept: "supports default_action_registry (pd_contract d) (pa_type a)" if "a \<in> set (kept_steps wu mode d)" for a
  proof -
    have a: "a \<in> set (kind_steps wu)" "permitted d mode (pa_type a)" using that by (auto simp: kept_steps_def)
    show ?thesis
    proof (cases "pa_type a = ''semantic_cache_lookup''")
      case True
      with a(2) assms(4,5) have "pd_contract d = SEMANTIC" by (auto simp: permitted_def framework_def)
      moreover have "supports default_action_registry SEMANTIC ''semantic_cache_lookup''" by code_simp
      ultimately show ?thesis using True by simp
    next
      case False
      then show ?thesis using a(1) kind_steps_types [of wu] supports_ai supports_exact assms(3)
        by (fastforce simp: kind_contracts_def split: if_splits)
    qed
  qed
  have "supports default_action_registry (pd_contract d) (pa_type a)" if "a \<in> set (planned_steps wu mode d)" for a
  proof (cases "compute_kind (wu_kind wu)")
    case True
    then show ?thesis using that kept by (simp add: planned_steps_def)
  next
    case False
    then have "pd_contract d \<in> set exact_contracts" using assms(3) by (simp add: kind_contracts_def)
    then have "supports default_action_registry (pd_contract d) ''store_exact_bytes''"
      using supports_exact by (simp add: exact_actions_def)
    then show ?thesis using that kept False with_store_set [of "kept_steps wu mode d"]
      by (auto simp: planned_steps_def plan_step_def)
  qed
  then show ?thesis using plan_iff(1) [OF assms(1), of wu "bundle" d] assms(2) by blast
qed

text \<open>Every decision the evaluator makes without a bundle can be planned.\<close>

definition plannable :: "policy_decision \<Rightarrow> bool" where
  "plannable d = (list_all (\<lambda>x. x \<notin> set (pd_denied d)) framework
     \<and> (''semantic_cache_lookup'' \<in> set (pd_allowed d) \<longrightarrow> pd_contract d = SEMANTIC)
     \<and> ''semantic_cache_lookup_shadow'' \<notin> set (pd_allowed d))"

lemma plannable_defaults:
  "plannable legal_hold_decision" "plannable (ai_decision tx lk em)" "plannable (global_default_decision c)"
proof -
  show "plannable legal_hold_decision" by code_simp
  have "\<forall>t l e. plannable (ai_decision t l e)" unfolding all_bool_eq by code_simp
  then show "plannable (ai_decision tx lk em)" by blast
  have "list_all (\<lambda>c. plannable (global_default_decision c)) contracts" by code_simp
  moreover have "c \<in> set contracts" by (cases c) (simp_all add: contracts_def)
  ultimately show "plannable (global_default_decision c)" by (auto simp: list_all_iff)
qed

text \<open>
  Without a policy bundle planning always succeeds for a contract the kind of
  work supports, and for no other: the planner returns a plan exactly when the decided contract
  is an exact, logical, approximate or semantic one for objects, and not an approximate one for
  prompts and embeddings.
\<close>

theorem default_plan_exists:
  assumes "mode \<in> set modes" "evaluate_policy wu [] = Inr d"
  shows "(\<exists>p. plan_work_unit wu mode [] None = Inr p) = (pd_contract d \<in> set (kind_contracts (wu_kind wu)))"
proof
  have same: "plan_work_unit wu mode [] None = plan_work_unit wu mode [] (Some d)"
    using assms(2) by (simp add: plan_work_unit_def)
  show "\<exists>p. plan_work_unit wu mode [] None = Inr p \<Longrightarrow> pd_contract d \<in> set (kind_contracts (wu_kind wu))"
  proof -
    assume "\<exists>p. plan_work_unit wu mode [] None = Inr p"
    then have "\<exists>p. plan_work_unit wu mode [] (Some d) = Inr p" by (simp add: same)
    then have ok: "\<forall>a \<in> set (kind_steps wu). pa_type a \<in> set framework \<longrightarrow> pa_type a \<notin> set (pd_denied d)"
      "\<forall>a \<in> set (planned_steps wu mode d). supports default_action_registry (pd_contract d) (pa_type a)"
      using plan_iff(1) [OF assms(1), of wu "[]" d] by blast+
    have "mandatory_types (wu_kind wu) \<noteq> []" by (simp add: mandatory_types_def)
    then obtain ty where ty: "ty \<in> set (mandatory_types (wu_kind wu))" by (meson list.set_sel(1))
    then have "ty \<in> pa_type ` set (planned_steps wu mode d)"
      using mandatory_kept [OF ok(1), of mode] kept_planned [of wu mode d] by blast
    with ok(2) have "supports default_action_registry (pd_contract d) ty" by auto
    with ty show ?thesis by (rule mandatory_support)
  qed
  have cases: "d = legal_hold_decision \<or> d = ai_default_decision wu \<or> (\<exists>c. d = global_default_decision c)"
    using assms(2) by (auto simp: evaluate_policy_def evaluate_bundle_def Let_def effect_simps split: if_splits)
  have "plannable d" using cases plannable_defaults by (auto simp: ai_default_decision_def)
  then have "\<forall>x \<in> set framework. x \<notin> set (pd_denied d)"
      "''semantic_cache_lookup'' \<in> set (pd_allowed d) \<Longrightarrow> pd_contract d = SEMANTIC"
      "''semantic_cache_lookup_shadow'' \<notin> set (pd_allowed d)"
    unfolding plannable_def list_all_iff by blast+
  then show "pd_contract d \<in> set (kind_contracts (wu_kind wu)) \<Longrightarrow> \<exists>p. plan_work_unit wu mode [] None = Inr p"
    unfolding same using supported_plan [OF assms(1)] by blast
qed

theorem default_plan_exists_witness:
  "\<exists>p. plan_work_unit sample_work_unit ''enforce'' [] None = Inr p"
proof -
  have "evaluate_policy sample_work_unit [] = Inr (global_default_decision EXACT_BYTES)"
    by (simp add: evaluate_policy_def evaluate_bundle_def legal_hold_def requested_contract_def sample_work_unit_def
        ai_kind_def text_kind_def)
  from default_plan_exists [OF _ this, of "''enforce''"] show ?thesis
    by (simp add: modes_def global_default_decision_def simple_decision_def kind_contracts_def compute_kind_def
        sample_work_unit_def exact_contracts_def)
qed


text \<open>The fallback step ignores the policy: an object whose decision allows no storing action gets
  it even when the decision denies exact storage.\<close>

lemma denied_fallback_planned:
  assumes "plan_work_unit wu mode bundle (Some d) = Inr p" "\<not> compute_kind (wu_kind wu)" "mode \<noteq> ''shadow''"
    "\<forall>ty \<in> set store_actions. ty \<notin> set (pd_allowed d)" "''store_exact_bytes'' \<in> set (pd_denied d)"
  shows "\<exists>a \<in> set (pl_actions p). pa_type a \<in> set (pd_denied d)"
proof -
  have as: "pl_actions p = with_store (kept_steps wu mode d)"
    using plan_iff(2) [OF plan_mode [OF assms(1)] assms(1)] assms(2) by (simp add: planned_steps_def)
  have "\<forall>ty \<in> set store_actions. ty \<notin> set framework" unfolding list_all_iff [symmetric] by code_simp
  then have "\<not> list_ex (\<lambda>a. pa_type a \<in> set store_actions) (kept_steps wu mode d)"
    using assms(3,4) by (auto simp: list_ex_iff kept_steps_def permitted_def)
  then show ?thesis using as assms(5) by (auto simp: with_store_def plan_step_def)
qed

end
