(* ===== verification/Stores.thy ===== *)
theory Stores
  imports Observability Planner
begin

text \<open>
  The record stores: \<open>python/urp/manifest_store.py\<close> (in memory, files, SQLite),
  \<open>python/urp/plan_store.py\<close> and \<open>python/urp/work_unit_store.py\<close>. All of them guard rows by
  the tenant of the current principal; the contract they share is the locale
  \<open>tenant_store\<close>. A file store maps identifiers to the JSON object of the file; the SQLite
  store is the list of its rows in \<open>rowid\<close> order.
\<close>

subsection \<open>The contract\<close>

definition sees :: "ctx \<Rightarrow> string option \<Rightarrow> bool" where
  "sees c owner = (\<forall>t. bound_tenant c = Some t \<longrightarrow> owner = Some t)"

definition enforce_owner :: "ctx \<Rightarrow> string option \<Rightarrow> unit res" where
  "enforce_owner c owner = (case bound_tenant c of
     Some t \<Rightarrow> if owner \<noteq> Some t then Inl (tenant_mismatch t (py_str (opt_value owner))) else Inr ()
   | None \<Rightarrow> Inr ())"

lemma enforce_owner_Inr [effect_simps]: "(enforce_owner c owner = Inr u) = sees c owner"
  by (auto simp: enforce_owner_def sees_def split: option.splits)

lemma enforce_tenant_sees [effect_simps]: "(enforce_tenant c t = Inr u) = sees c (Some t)"
  by (auto simp: enforce_tenant_Inr visible_iff sees_def)

locale tenant_store =
  fixes put :: "ctx \<Rightarrow> 'r \<Rightarrow> (unit, 's) sres"
    and get :: "ctx \<Rightarrow> string \<Rightarrow> 's \<Rightarrow> 'r res"
    and view :: "'s \<Rightarrow> string \<Rightarrow> 'r option"
    and ident :: "'r \<Rightarrow> string"
    and owner :: "'r \<Rightarrow> string option"
    and kept :: "'r \<Rightarrow> 'r"
    and fine :: "'r \<Rightarrow> bool"
  assumes put_done: "put c r s = (Inr u, s') \<Longrightarrow> fine r \<Longrightarrow> view s' = (view s)(ident r \<mapsto> kept r)"
    and put_sees: "put c r s = (Inr u, s') \<Longrightarrow> sees c (owner r)"
    and put_refused: "put c r s = (Inl e, s') \<Longrightarrow> s' = s"
    and get_iff: "(get c i s = Inr r) = (view s i = Some r \<and> sees c (owner r))"
    and kept_owner: "owner (kept r) = owner r"
begin

lemma get_after_put: "put c r s = (Inr u, s') \<Longrightarrow> fine r \<Longrightarrow> get c (ident r) s' = Inr (kept r)"
  by (simp add: get_iff put_done kept_owner) (rule put_sees)

lemma get_other: "put c r s = (Inr u, s') \<Longrightarrow> fine r \<Longrightarrow> i \<noteq> ident r \<Longrightarrow> (get c' i s' = Inr x) = (get c' i s = Inr x)"
  by (simp add: get_iff put_done)

lemma isolation: "bound_tenant c = Some t \<Longrightarrow> get c i s = Inr r \<Longrightarrow> owner r = Some t"
  by (simp add: get_iff sees_def)

lemma write_isolation: "bound_tenant c = Some t \<Longrightarrow> put c r s = (Inr u, s') \<Longrightarrow> owner r = Some t"
  using put_sees by (auto simp: sees_def)

lemma store_law:
  "put c r s = (res, s') \<Longrightarrow> fine r \<Longrightarrow>
   (case res of Inl e \<Rightarrow> s' = s
    | Inr u \<Rightarrow> get c (ident r) s' = Inr (kept r)
        \<and> (\<forall>c' i x. i \<noteq> ident r \<longrightarrow> (get c' i s' = Inr x) = (get c' i s = Inr x))
        \<and> (\<forall>t. bound_tenant c = Some t \<longrightarrow> owner r = Some t))"
  using get_after_put get_other write_isolation put_refused by (auto split: sum.splits)

end

subsection \<open>Manifests\<close>

definition validate_manifest :: "schemas \<Rightarrow> manifest \<Rightarrow> pydict res" where
  "validate_manifest sch m =
     (let data = manifest_to_dict m in
      bindR (sch ''manifest'' data) (\<lambda>_.
      (case get_value (mf_physical m) ''compute_manifest'' of
         PNone \<Rightarrow> Inr data
       | PDict cm \<Rightarrow> bindR (sch ''compute_manifest'' cm) (\<lambda>_. Inr data)
       | _ \<Rightarrow> Inl (ValueError ''$: is not of type object''))))"

lemma validate_manifest_Inr: "validate_manifest sch m = Inr d \<Longrightarrow> d = manifest_to_dict m"
  by (auto simp: validate_manifest_def Let_def effect_simps split: pyval.splits)

definition require_manifest_tenant :: "manifest \<Rightarrow> string \<Rightarrow> unit res" where
  "require_manifest_tenant m t = (if mf_tenant m \<noteq> t then Inl (tenant_mismatch t (mf_tenant m)) else Inr ())"

definition manifest_id_ok :: "string \<Rightarrow> string res" where
  "manifest_id_ok i = validate_identifier i ''manifest id'' (Some ''mf_'')"

text \<open>The in-memory store: manifests by identifier, and the latest identifier of a work unit.\<close>

record memory_manifests =
  mm_by_id :: "(string \<times> manifest) list"
  mm_by_work_unit :: "(string \<times> string) list"

definition memory_put :: "schemas \<Rightarrow> ctx \<Rightarrow> manifest \<Rightarrow> (unit, memory_manifests) sres" where
  "memory_put sch c m = thenS (liftR (enforce_tenant c (mf_tenant m)))
     (bindS (liftR (validate_manifest sch m)) (\<lambda>_ s. (Inr (),
        s\<lparr>mm_by_id := dset (mf_manifest_id m) m (mm_by_id s),
          mm_by_work_unit := dset (mf_work_unit_id m) (mf_manifest_id m) (mm_by_work_unit s)\<rparr>)))"

definition memory_get :: "ctx \<Rightarrow> string \<Rightarrow> memory_manifests \<Rightarrow> manifest res" where
  "memory_get c i s = (case dget (mm_by_id s) i of None \<Rightarrow> Inl (KeyError i)
     | Some m \<Rightarrow> bindR (enforce_tenant c (mf_tenant m)) (\<lambda>_. Inr m))"

definition memory_get_for_tenant :: "ctx \<Rightarrow> string \<Rightarrow> string \<Rightarrow> memory_manifests \<Rightarrow> manifest res" where
  "memory_get_for_tenant c i t s = bindR (memory_get c i s) (\<lambda>m. bindR (require_manifest_tenant m t) (\<lambda>_. Inr m))"

definition memory_get_by_work_unit :: "ctx \<Rightarrow> string \<Rightarrow> memory_manifests \<Rightarrow> manifest res" where
  "memory_get_by_work_unit c w s = (case dget (mm_by_work_unit s) w of None \<Rightarrow> Inl (KeyError w)
     | Some i \<Rightarrow> memory_get c i s)"

definition chosen_tenant :: "ctx \<Rightarrow> string option \<Rightarrow> string option" where
  "chosen_tenant c tn = (if given tn = None then current_tenant c else tn)"

definition memory_list :: "ctx \<Rightarrow> string option \<Rightarrow> memory_manifests \<Rightarrow> manifest list" where
  "memory_list c tn s = filter (\<lambda>m. wants (chosen_tenant c tn) (Some (mf_tenant m))) (map snd (mm_by_id s))"

definition memory_find_by_logical_ref :: "ctx \<Rightarrow> string \<Rightarrow> memory_manifests \<Rightarrow> manifest list" where
  "memory_find_by_logical_ref c ref s = filter (\<lambda>m. mf_logical_ref m = ref) (memory_list c None s)"

text \<open>The file store.\<close>

type_synonym json_files = "(string \<times> pydict) list"

definition file_put :: "schemas \<Rightarrow> ctx \<Rightarrow> manifest \<Rightarrow> (unit, json_files) sres" where
  "file_put sch c m = thenS (liftR (enforce_tenant c (mf_tenant m)))
     (bindS (liftR (validate_manifest sch m)) (\<lambda>data.
      thenS (liftR (manifest_id_ok (mf_manifest_id m)))
        (\<lambda>s. (Inr (), dset (mf_manifest_id m) (jfile_dict data) s))))"

definition read_manifest :: "pydict \<Rightarrow> manifest res" where
  "read_manifest row = manifest_from_dict [] [] row"

definition file_get :: "ctx \<Rightarrow> string \<Rightarrow> json_files \<Rightarrow> manifest res" where
  "file_get c i s = bindR (manifest_id_ok i) (\<lambda>_.
     case dget s i of None \<Rightarrow> Inl (FileNotFoundError (i @ ''.json''))
     | Some row \<Rightarrow> bindR (read_manifest row) (\<lambda>m. bindR (enforce_tenant c (mf_tenant m)) (\<lambda>_. Inr m)))"

definition file_get_for_tenant :: "ctx \<Rightarrow> string \<Rightarrow> string \<Rightarrow> json_files \<Rightarrow> manifest res" where
  "file_get_for_tenant c i t s = bindR (file_get c i s) (\<lambda>m. bindR (require_manifest_tenant m t) (\<lambda>_. Inr m))"

text \<open>The files of a directory that match a prefix, in the order of their names.\<close>

definition sorted_files :: "string \<Rightarrow> json_files \<Rightarrow> json_files" where
  "sorted_files p s = sort_key (\<lambda>kv. fst kv @ ''.json'') (filter (\<lambda>kv. prefix p (fst kv)) s)"

definition file_list :: "ctx \<Rightarrow> string option \<Rightarrow> json_files \<Rightarrow> manifest list res" where
  "file_list c tn s = map_res (filter (\<lambda>m. case chosen_tenant c tn of None \<Rightarrow> True | Some t \<Rightarrow> mf_tenant m = t))
     (seq_res (map (\<lambda>kv. read_manifest (snd kv)) (sorted_files ''mf_'' s)))"

definition file_get_by_work_unit :: "ctx \<Rightarrow> string \<Rightarrow> json_files \<Rightarrow> manifest res" where
  "file_get_by_work_unit c w s = bindR (file_list c None s) (\<lambda>ms.
     case find (\<lambda>m. mf_work_unit_id m = w) ms of Some m \<Rightarrow> Inr m | None \<Rightarrow> Inl (KeyError w))"

definition file_find_by_logical_ref :: "ctx \<Rightarrow> string \<Rightarrow> json_files \<Rightarrow> manifest list res" where
  "file_find_by_logical_ref c ref s = map_res (filter (\<lambda>m. mf_logical_ref m = ref)) (file_list c None s)"

text \<open>The SQLite store: \<open>insert or replace\<close> deletes the old row and appends the new one.\<close>

record sql_row =
  sr_id :: string
  sr_work_unit_id :: string
  sr_logical_ref :: string
  sr_tenant :: string
  sr_created_at :: string
  sr_payload :: pydict

definition sql_put :: "schemas \<Rightarrow> ctx \<Rightarrow> manifest \<Rightarrow> (unit, sql_row list) sres" where
  "sql_put sch c m = thenS (liftR (enforce_tenant c (mf_tenant m)))
     (thenS (liftR (manifest_id_ok (mf_manifest_id m)))
     (bindS (liftR (validate_manifest sch m)) (\<lambda>data.
      bindS (liftR (json_write data)) (\<lambda>row s. (Inr (),
        filter (\<lambda>r. sr_id r \<noteq> mf_manifest_id m) s @
          [\<lparr>sr_id = mf_manifest_id m, sr_work_unit_id = mf_work_unit_id m, sr_logical_ref = mf_logical_ref m,
            sr_tenant = mf_tenant m, sr_created_at = mf_created_at m, sr_payload = row\<rparr>])))))"

definition sql_get :: "ctx \<Rightarrow> string \<Rightarrow> sql_row list \<Rightarrow> manifest res" where
  "sql_get c i s = bindR (manifest_id_ok i) (\<lambda>_.
     case find (\<lambda>r. sr_id r = i) s of None \<Rightarrow> Inl (KeyError i)
     | Some r \<Rightarrow> bindR (read_manifest (sr_payload r)) (\<lambda>m. bindR (enforce_tenant c (mf_tenant m)) (\<lambda>_. Inr m)))"

definition sql_get_for_tenant :: "ctx \<Rightarrow> string \<Rightarrow> string \<Rightarrow> sql_row list \<Rightarrow> manifest res" where
  "sql_get_for_tenant c i t s = bindR (sql_get c i s) (\<lambda>m. bindR (require_manifest_tenant m t) (\<lambda>_. Inr m))"

definition by_created :: "sql_row list \<Rightarrow> sql_row list" where
  "by_created s = sort_key sr_created_at s"

definition sql_rows_for :: "ctx \<Rightarrow> string option \<Rightarrow> sql_row list \<Rightarrow> sql_row list" where
  "sql_rows_for c tn s = filter (\<lambda>r. wants (chosen_tenant c tn) (Some (sr_tenant r))) s"

definition sql_get_by_work_unit :: "ctx \<Rightarrow> string \<Rightarrow> sql_row list \<Rightarrow> manifest res" where
  "sql_get_by_work_unit c w s =
     (let rs = by_created (filter (\<lambda>r. sr_work_unit_id r = w) (sql_rows_for c None s)) in
      if rs = [] then Inl (KeyError w) else read_manifest (sr_payload (last rs)))"

definition sql_list :: "ctx \<Rightarrow> string option \<Rightarrow> sql_row list \<Rightarrow> manifest list res" where
  "sql_list c tn s = seq_res (map (\<lambda>r. read_manifest (sr_payload r)) (by_created (sql_rows_for c tn s)))"

definition sql_find_by_logical_ref :: "ctx \<Rightarrow> string \<Rightarrow> sql_row list \<Rightarrow> manifest list res" where
  "sql_find_by_logical_ref c ref s = seq_res (map (\<lambda>r. read_manifest (sr_payload r))
     (sort_key sr_id (filter (\<lambda>r. sr_logical_ref r = ref) (sql_rows_for c None s))))"

definition redact_segment :: "pyval \<Rightarrow> pyval" where
  "redact_segment v = (case v of PDict d \<Rightarrow> PDict (dpop ''ref'' d) | _ \<Rightarrow> v)"

definition redact_manifest :: "manifest \<Rightarrow> pydict" where
  "redact_manifest m =
     (let data = dset ''logical_ref'' (PStr REDACTED) (redact_details (manifest_to_dict m)) in
      case get_value data ''physical'' of
        PDict p \<Rightarrow> (let p1 = dpop ''cache_key'' p in
          dset ''physical'' (PDict (case get_value p1 ''segments'' of
              PList xs \<Rightarrow> dset ''segments'' (PList (map redact_segment xs)) p1
            | _ \<Rightarrow> p1)) data)
      | _ \<Rightarrow> data)"

subsection \<open>Plans\<close>

definition memory_plan_put :: "ctx \<Rightarrow> plan \<Rightarrow> (unit, (string \<times> plan) list) sres" where
  "memory_plan_put c p = thenS (liftR (enforce_owner c (pl_tenant p))) (\<lambda>s. (Inr (), dset (pl_plan_id p) p s))"

definition memory_plan_get :: "ctx \<Rightarrow> string \<Rightarrow> (string \<times> plan) list \<Rightarrow> plan res" where
  "memory_plan_get c i s = (case dget s i of None \<Rightarrow> Inl (KeyError i)
     | Some p \<Rightarrow> bindR (enforce_owner c (pl_tenant p)) (\<lambda>_. Inr p))"

definition memory_plan_list :: "ctx \<Rightarrow> string option \<Rightarrow> (string \<times> plan) list \<Rightarrow> plan list" where
  "memory_plan_list c w s = filter (\<lambda>p. sees c (pl_tenant p) \<and> wants w (Some (pl_work_unit_id p))) (map snd s)"

definition plan_id_ok :: "string \<Rightarrow> string res" where
  "plan_id_ok i = validate_identifier i ''plan id'' (Some ''pl_'')"

definition read_plan :: "pydict \<Rightarrow> plan res" where
  "read_plan row = plan_from_dict [] row"

definition plan_put :: "ctx \<Rightarrow> plan \<Rightarrow> (unit, json_files) sres" where
  "plan_put c p = thenS (liftR (enforce_owner c (pl_tenant p)))
     (thenS (liftR (plan_id_ok (pl_plan_id p)))
        (\<lambda>s. (Inr (), dset (pl_plan_id p) (jfile_dict (plan_to_dict p)) s)))"

definition plan_get :: "ctx \<Rightarrow> string \<Rightarrow> json_files \<Rightarrow> plan res" where
  "plan_get c i s = bindR (plan_id_ok i) (\<lambda>_.
     case dget s i of None \<Rightarrow> Inl (FileNotFoundError (i @ ''.json''))
     | Some row \<Rightarrow> bindR (read_plan row) (\<lambda>p. bindR (enforce_owner c (pl_tenant p)) (\<lambda>_. Inr p)))"

definition plan_list :: "ctx \<Rightarrow> string option \<Rightarrow> json_files \<Rightarrow> plan list res" where
  "plan_list c w s = map_res (filter (\<lambda>p. sees c (pl_tenant p)
       \<and> (case w of None \<Rightarrow> True | Some x \<Rightarrow> pl_work_unit_id p = x)))
     (seq_res (map (\<lambda>kv. read_plan (snd kv)) (sorted_files ''pl_'' s)))"

text \<open>The plan file and the ledger; \<open>fresh\<close> is the event's identifier and time.\<close>

definition plan_event :: "string \<times> string \<Rightarrow> plan \<Rightarrow> work_unit \<Rightarrow> string option \<Rightarrow> pydict \<Rightarrow> ledger_event" where
  "plan_event fresh p wu who extra =
     \<lparr>ev_event_type = ''plan.created'', ev_tenant = wu_tenant wu, ev_work_unit_id = Some (wu_id wu),
      ev_manifest_id = None, ev_policy_bundle_id = Some (pl_policy_bundle_id p), ev_actor = who,
      ev_decision = None, ev_details = foldl (\<lambda>d kv. dset (fst kv) (snd kv) d) [(''plan'', PDict (plan_to_dict p))] extra,
      ev_trace_id = Some (case given (pl_trace_id p) of Some t \<Rightarrow> t | None \<Rightarrow> wu_trace_id wu),
      ev_prev_hash = None, ev_event_id = fst fresh, ev_created_at = snd fresh, ev_event_hash = None\<rparr>"

definition store_plan_with_audit :: "schemas \<Rightarrow> ctx \<Rightarrow> string \<times> string \<Rightarrow> plan \<Rightarrow> work_unit \<Rightarrow> string option \<Rightarrow> pydict
    \<Rightarrow> (plan, json_files \<times> ledger_rows) sres" where
  "store_plan_with_audit sch c fresh p wu who extra = (\<lambda>(files, rows).
     case plan_put c p files of (Inl e, files') \<Rightarrow> (Inl e, (files', rows))
     | (Inr _, files') \<Rightarrow>
         (case ledger_append sch c (plan_event fresh p wu who extra) rows of
            (Inl e, rows') \<Rightarrow> (Inl e, (files', rows'))
          | (Inr _, rows') \<Rightarrow> (Inr p, (files', rows'))))"

subsection \<open>Work units\<close>

definition memory_unit_put :: "schemas \<Rightarrow> ctx \<Rightarrow> work_unit \<Rightarrow> (unit, (string \<times> work_unit) list) sres" where
  "memory_unit_put sch c wu = thenS (liftR (enforce_tenant c (wu_tenant wu)))
     (thenS (liftR (sch ''work_unit'' (json_safe_work_unit wu))) (\<lambda>s. (Inr (), dset (wu_id wu) wu s)))"

definition memory_unit_get :: "ctx \<Rightarrow> string \<Rightarrow> (string \<times> work_unit) list \<Rightarrow> work_unit res" where
  "memory_unit_get c i s = (case dget s i of None \<Rightarrow> Inl (KeyError i)
     | Some wu \<Rightarrow> bindR (enforce_tenant c (wu_tenant wu)) (\<lambda>_. Inr wu))"

definition memory_unit_list :: "ctx \<Rightarrow> string option \<Rightarrow> (string \<times> work_unit) list \<Rightarrow> work_unit list" where
  "memory_unit_list c tn s = filter (\<lambda>wu. wants (chosen_tenant c tn) (Some (wu_tenant wu))) (map snd s)"

definition unit_id_ok :: "string \<Rightarrow> string res" where
  "unit_id_ok i = validate_identifier i ''work unit id'' (Some ''wu_'')"

definition read_unit :: "pydict \<Rightarrow> work_unit res" where
  "read_unit row = work_unit_from_json_safe [] [] [] row"

definition unit_put :: "schemas \<Rightarrow> ctx \<Rightarrow> work_unit \<Rightarrow> (unit, json_files) sres" where
  "unit_put sch c wu = thenS (liftR (enforce_tenant c (wu_tenant wu)))
     (let data = json_safe_work_unit wu in
      thenS (liftR (sch ''work_unit'' data))
        (thenS (liftR (unit_id_ok (wu_id wu))) (\<lambda>s. (Inr (), dset (wu_id wu) (jfile_dict data) s))))"

definition unit_get :: "ctx \<Rightarrow> string \<Rightarrow> json_files \<Rightarrow> work_unit res" where
  "unit_get c i s = bindR (unit_id_ok i) (\<lambda>_.
     case dget s i of None \<Rightarrow> Inl (FileNotFoundError (i @ ''.json''))
     | Some row \<Rightarrow> bindR (read_unit row) (\<lambda>wu. bindR (enforce_tenant c (wu_tenant wu)) (\<lambda>_. Inr wu)))"

definition unit_list :: "ctx \<Rightarrow> string option \<Rightarrow> json_files \<Rightarrow> work_unit list res" where
  "unit_list c tn s = map_res (filter (\<lambda>wu. case chosen_tenant c tn of None \<Rightarrow> True | Some t \<Rightarrow> wu_tenant wu = t))
     (seq_res (map (\<lambda>kv. read_unit (snd kv)) (sorted_files ''wu_'' s)))"

subsection \<open>What comes back from a file\<close>

definition filed_manifest :: "manifest \<Rightarrow> manifest" where
  "filed_manifest m = m\<lparr>mf_namespace := (if mf_namespace m = [] then ''default'' else mf_namespace m),
     mf_policy := jfile_dict (mf_policy m), mf_classification := jfile_dict (mf_classification m),
     mf_physical := jfile_dict (mf_physical m), mf_plan := jfile_dict (mf_plan m),
     mf_verification := jfile_dict (mf_verification m), mf_lineage := jfile_dict (mf_lineage m),
     mf_telemetry := jfile_dict (mf_telemetry m), mf_signatures := map jfile (mf_signatures m)\<rparr>"

definition filed_action :: "plan_action \<Rightarrow> plan_action" where
  "filed_action a = a\<lparr>pa_params := jfile_dict (pa_params a)\<rparr>"

definition filed_plan :: "plan \<Rightarrow> plan" where
  "filed_plan p = p\<lparr>pl_actions := map filed_action (pl_actions p), pl_expected := jfile_dict (pl_expected p)\<rparr>"

definition filed_unit :: "work_unit \<Rightarrow> work_unit" where
  "filed_unit wu = wu\<lparr>wu_payload := jnorm (wu_payload wu), wu_metadata := jfile_dict (wu_metadata wu),
     wu_policy_context := jfile_dict (wu_policy_context wu), wu_payload_ref := jfile (wu_payload_ref wu),
     wu_quality_target := jfile_dict (wu_quality_target wu)\<rparr>"

lemma str_or_Nil [simp]: "str_or (PStr s) [] = Inr s"
  by (simp add: str_or_def)

lemma str_or_ns [simp]: "str_or (PStr s) t = Inr (if s = [] then t else s)"
  by (simp add: str_or_def)

lemma read_filed_manifest: "read_manifest (jfile_dict (manifest_to_dict m)) = Inr (filed_manifest m)"
  by (simp add: read_manifest_def manifest_from_dict_def item_def get_value_def get_default_def manifest_to_dict_def
      jfile_PDict filed_manifest_def del: jfile.simps(4))

lemma read_filed_action: "plan_action_from_dict (PDict (jfile_dict (plan_action_to_dict a))) = Inr (filed_action a)"
  by (simp add: plan_action_from_dict_def plan_action_to_dict_def item_def get_value_def get_default_def
      jfile_PDict filed_action_def del: jfile.simps(4))

lemma read_filed_plan: "read_plan (jfile_dict (plan_to_dict p)) = Inr (filed_plan p)"
proof -
  have "seq_res (map (plan_action_from_dict \<circ> (jfile \<circ> (\<lambda>a. PDict (plan_action_to_dict a)))) (pl_actions p))
      = Inr (map filed_action (pl_actions p))"
    by (rule seq_res_map_Inr) (simp add: jfile_PDict read_filed_action del: jfile.simps(4))
  then show ?thesis
    by (simp add: read_plan_def plan_from_dict_def item_def get_value_def get_default_def plan_to_dict_def
        jfile_PDict filed_plan_def del: jfile.simps(4))
qed

lemma set_dkeys_jfile_dict [simp]: "set (dkeys (jfile_dict d)) = set (dkeys d)"
  by (simp add: dkeys_def jfile_dict_def image_image)

lemma decode_filed: "envelope_free v \<Longrightarrow> decode_json_value (jfile (encode_json_value v)) = Inr (jnorm v)"
proof (induction v rule: encode_json_value.induct)
  case (1 b)
  let ?d = "[(ENCODING_KEY, PStr ''base64''), (''data'', PStr (b64encode b))]"
  have "is_envelope (jfile_dict ?d)" by (simp add: is_envelope_def) (simp add: dkeys_def)
  moreover have "ENCODING_KEY \<noteq> ''data''" by (simp add: ENCODING_KEY_def)
  ultimately show ?case by (simp add: jfile_PDict b64_roundtrip del: jfile.simps(4))
next
  case (2 d)
  let ?e = "map (\<lambda>kv. (fst kv, encode_json_value (snd kv))) d"
  let ?S = "sort_key fst d"
  have "set (dkeys ?e) = set (dkeys d)" by (auto simp: dkeys_def)
  then have no: "\<not> is_envelope (jfile_dict ?e)" using "2.prems" by (simp add: is_envelope_def)
  have e: "jfile_dict ?e = map (\<lambda>kv. (fst kv, jfile (encode_json_value (snd kv)))) ?S"
    by (simp add: jfile_dict_def comp_def sort_key_map)
  have vals: "seq_res (map (\<lambda>kv. decode_json_value (snd kv)) (jfile_dict ?e)) = Inr (map (\<lambda>kv. jnorm (snd kv)) ?S)"
    unfolding e map_map comp_def snd_conv using 2 by (intro seq_res_map_Inr) auto
  have "zip (dkeys (jfile_dict ?e)) (map (\<lambda>kv. jnorm (snd kv)) ?S) = map (\<lambda>kv. (fst kv, jnorm (snd kv))) ?S"
    by (simp add: e dkeys_def zip_map_map zip_same_conv_map comp_def)
  then show ?case using no vals
    by (simp add: jfile_PDict del: jfile.simps(4)) (simp add: sort_key_map comp_def)
next
  case (3 xs)
  then show ?case by (simp add: comp_def seq_res_map_Inr [where g = jnorm])
next
  case (4 xs)
  then show ?case by (simp add: comp_def seq_res_map_Inr [where g = jnorm])
qed auto

lemma jfile_opts [simp]: "jfile (opt_contract c) = opt_contract c" "jfile (opt_int i) = opt_int i"
  by (simp_all add: opt_contract_def opt_int_def split: option.splits)

lemma read_filed_unit:
  assumes "envelope_free (wu_payload wu)"
  shows "read_unit (jfile_dict (json_safe_work_unit wu)) = Inr (filed_unit wu)"
proof -
  let ?d = "jfile_dict (json_safe_work_unit wu)"
  have payload: "get_value ?d ''payload'' = jfile (encode_json_value (wu_payload wu))"
    by (simp add: get_value_def json_safe_work_unit_def Let_def work_unit_to_dict_def)
  show ?thesis
    unfolding read_unit_def work_unit_from_json_safe_def payload decode_filed [OF assms] bindR.simps
    by (simp add: work_unit_from_dict_def item_def get_value_def get_default_def json_safe_work_unit_def Let_def
        work_unit_to_dict_def jfile_PDict filed_unit_def del: jfile.simps(4))
qed

subsection \<open>The stores meet the contract\<close>

definition manifest_owner :: "manifest \<Rightarrow> string option" where
  "manifest_owner m = Some (mf_tenant m)"

definition unit_owner :: "work_unit \<Rightarrow> string option" where
  "unit_owner wu = Some (wu_tenant wu)"

definition unit_fine :: "work_unit \<Rightarrow> bool" where
  "unit_fine wu = envelope_free (wu_payload wu)"

abbreviation any_record :: "'r \<Rightarrow> bool" where
  "any_record r \<equiv> True"

text \<open>What a store of JSON rows holds under an identifier that it accepts.\<close>

definition row_view :: "string res \<Rightarrow> (pydict \<Rightarrow> 'r res) \<Rightarrow> pydict option \<Rightarrow> 'r option" where
  "row_view ok read_row row = (if isl ok then None
     else case row of None \<Rightarrow> None | Some d \<Rightarrow> (case read_row d of Inl e \<Rightarrow> None | Inr r \<Rightarrow> Some r))"

lemma row_view_simps [simp]:
  "ok = Inr x \<Longrightarrow> read_row d = Inr r \<Longrightarrow> row_view ok read_row (Some d) = Some r"
  by (simp add: row_view_def)

definition file_view :: "json_files \<Rightarrow> string \<Rightarrow> manifest option" where
  "file_view s i = row_view (manifest_id_ok i) read_manifest (dget s i)"

definition sql_view :: "sql_row list \<Rightarrow> string \<Rightarrow> manifest option" where
  "sql_view s i = row_view (manifest_id_ok i) read_manifest (map_option sr_payload (find (\<lambda>r. sr_id r = i) s))"

definition plan_view :: "json_files \<Rightarrow> string \<Rightarrow> plan option" where
  "plan_view s i = row_view (plan_id_ok i) read_plan (dget s i)"

definition unit_view :: "json_files \<Rightarrow> string \<Rightarrow> work_unit option" where
  "unit_view s i = row_view (unit_id_ok i) read_unit (dget s i)"

lemma row_get_iff:
  "(bindR ok (\<lambda>_. case row of None \<Rightarrow> Inl e
       | Some d \<Rightarrow> bindR (read_row d) (\<lambda>r. bindR (check r) (\<lambda>_. Inr r))) = Inr r)
   = (row_view ok read_row row = Some r \<and> check r = Inr ())"
  by (cases ok) (auto simp: row_view_def effect_simps split: option.splits sum.splits)

lemma find_filter_not: "find P (filter (\<lambda>x. \<not> P x) xs) = None"
  by (induction xs) auto

lemma find_filter_other: "(\<And>x. P x \<Longrightarrow> Q x) \<Longrightarrow> find P (filter Q xs) = find P xs"
  by (induction xs) auto

lemma find_append: "find P (xs @ ys) = (case find P xs of None \<Rightarrow> find P ys | Some x \<Rightarrow> Some x)"
  by (induction xs) auto

lemma json_write_filed: "json_write d = Inr row \<Longrightarrow> row = jfile_dict d"
  using jfile_jnorm [of "PDict d"] by (simp add: json_write_def jnorm_dict_def jfile_PDict del: jfile.simps(4) split: if_splits)

interpretation memory_manifest: tenant_store "memory_put sch" memory_get "\<lambda>s. dget (mm_by_id s)"
  mf_manifest_id manifest_owner "\<lambda>m. m" any_record for sch
  by unfold_locales (auto simp: memory_put_def memory_get_def manifest_owner_def effect_simps fun_eq_iff thenS_def bindS_def
      liftR_def split: option.splits sum.splits prod.splits)

interpretation file_manifests: tenant_store "file_put sch" file_get file_view
  mf_manifest_id manifest_owner filed_manifest any_record for sch
proof unfold_locales
  fix c m s u s'
  assume "file_put sch c m s = (Inr u, s')"
  then have ok: "sees c (manifest_owner m)" "\<exists>x. manifest_id_ok (mf_manifest_id m) = Inr x"
    and s': "s' = dset (mf_manifest_id m) (jfile_dict (manifest_to_dict m)) s"
    by (auto simp: file_put_def effect_simps manifest_owner_def dest!: validate_manifest_Inr)
  show "sees c (manifest_owner m)" by (rule ok)
  show "file_view s' = (file_view s)(mf_manifest_id m \<mapsto> filed_manifest m)"
    using ok(2) by (auto simp: fun_eq_iff file_view_def s' read_filed_manifest)
next
  fix c m s e s'
  show "file_put sch c m s = (Inl e, s') \<Longrightarrow> s' = s"
    by (auto simp: file_put_def thenS_def bindS_def liftR_def split: sum.splits prod.splits)
next
  fix c i s r
  show "(file_get c i s = Inr r) = (file_view s i = Some r \<and> sees c (manifest_owner r))"
    unfolding file_get_def row_get_iff file_view_def manifest_owner_def enforce_tenant_sees ..
qed (simp_all add: manifest_owner_def filed_manifest_def)

interpretation sql_manifests: tenant_store "sql_put sch" sql_get sql_view
  mf_manifest_id manifest_owner filed_manifest any_record for sch
proof unfold_locales
  fix c m s u s'
  assume "sql_put sch c m s = (Inr u, s')"
  then obtain row where ok: "sees c (manifest_owner m)" "\<exists>x. manifest_id_ok (mf_manifest_id m) = Inr x"
    and row: "row = jfile_dict (manifest_to_dict m)"
    and s': "s' = filter (\<lambda>r. sr_id r \<noteq> mf_manifest_id m) s @
          [\<lparr>sr_id = mf_manifest_id m, sr_work_unit_id = mf_work_unit_id m, sr_logical_ref = mf_logical_ref m,
            sr_tenant = mf_tenant m, sr_created_at = mf_created_at m, sr_payload = row\<rparr>]"
    by (auto simp: sql_put_def effect_simps manifest_owner_def dest!: validate_manifest_Inr json_write_filed)
  show "sees c (manifest_owner m)" by (rule ok)
  show "sql_view s' = (sql_view s)(mf_manifest_id m \<mapsto> filed_manifest m)"
  proof
    fix i
    have "find (\<lambda>r. sr_id r = i) (filter (\<lambda>r. sr_id r \<noteq> mf_manifest_id m) s) = find (\<lambda>r. sr_id r = i) s"
      if "i \<noteq> mf_manifest_id m" using that by (intro find_filter_other) simp
    then show "sql_view s' i = ((sql_view s)(mf_manifest_id m \<mapsto> filed_manifest m)) i"
      using ok(2) by (auto simp: sql_view_def s' row read_filed_manifest find_filter_not find_append split: option.splits)
  qed
next
  fix c m s e s'
  show "sql_put sch c m s = (Inl e, s') \<Longrightarrow> s' = s"
    by (auto simp: sql_put_def thenS_def bindS_def liftR_def split: sum.splits prod.splits)
next
  fix c i s r
  have "sql_get c i s = bindR (manifest_id_ok i) (\<lambda>_. case map_option sr_payload (find (\<lambda>r. sr_id r = i) s) of
      None \<Rightarrow> Inl (KeyError i) | Some d \<Rightarrow> bindR (read_manifest d) (\<lambda>m. bindR (enforce_tenant c (mf_tenant m)) (\<lambda>_. Inr m)))"
    by (simp add: sql_get_def option.case_eq_if option.map_sel)
  then show "(sql_get c i s = Inr r) = (sql_view s i = Some r \<and> sees c (manifest_owner r))"
    by (simp only: row_get_iff sql_view_def manifest_owner_def enforce_tenant_sees)
qed (simp_all add: manifest_owner_def filed_manifest_def)

interpretation memory_plans: tenant_store memory_plan_put memory_plan_get dget
  pl_plan_id pl_tenant "\<lambda>p. p" any_record
  by unfold_locales (auto simp: memory_plan_put_def memory_plan_get_def effect_simps fun_eq_iff thenS_def bindS_def
      liftR_def split: option.splits sum.splits prod.splits)

interpretation file_plans: tenant_store plan_put plan_get plan_view
  pl_plan_id pl_tenant filed_plan any_record
proof unfold_locales
  fix c p s u s'
  assume "plan_put c p s = (Inr u, s')"
  then have ok: "sees c (pl_tenant p)" "\<exists>x. plan_id_ok (pl_plan_id p) = Inr x"
    and s': "s' = dset (pl_plan_id p) (jfile_dict (plan_to_dict p)) s"
    by (auto simp: plan_put_def effect_simps)
  show "sees c (pl_tenant p)" by (rule ok)
  show "plan_view s' = (plan_view s)(pl_plan_id p \<mapsto> filed_plan p)"
    using ok(2) by (auto simp: fun_eq_iff plan_view_def s' read_filed_plan)
next
  fix c p s e s'
  show "plan_put c p s = (Inl e, s') \<Longrightarrow> s' = s"
    by (auto simp: plan_put_def thenS_def bindS_def liftR_def split: sum.splits prod.splits)
next
  fix c i s r
  show "(plan_get c i s = Inr r) = (plan_view s i = Some r \<and> sees c (pl_tenant r))"
    unfolding plan_get_def row_get_iff plan_view_def enforce_owner_Inr ..
qed (simp_all add: filed_plan_def)

interpretation memory_units: tenant_store "memory_unit_put sch" memory_unit_get dget
  wu_id unit_owner "\<lambda>wu. wu" any_record for sch
  by unfold_locales (auto simp: memory_unit_put_def memory_unit_get_def unit_owner_def effect_simps fun_eq_iff thenS_def
      bindS_def liftR_def split: option.splits sum.splits prod.splits)

interpretation file_units: tenant_store "unit_put sch" unit_get unit_view
  wu_id unit_owner filed_unit unit_fine for sch
proof unfold_locales
  fix c wu s u s'
  assume "unit_put sch c wu s = (Inr u, s')"
  then have ok: "sees c (unit_owner wu)" "\<exists>x. unit_id_ok (wu_id wu) = Inr x"
    and s': "s' = dset (wu_id wu) (jfile_dict (json_safe_work_unit wu)) s"
    by (auto simp: unit_put_def Let_def effect_simps unit_owner_def)
  show "sees c (unit_owner wu)" by (rule ok)
  assume "unit_fine wu"
  then show "unit_view s' = (unit_view s)(wu_id wu \<mapsto> filed_unit wu)"
    using ok(2) by (auto simp: fun_eq_iff unit_view_def s' read_filed_unit unit_fine_def)
next
  fix c wu s e s'
  show "unit_put sch c wu s = (Inl e, s') \<Longrightarrow> s' = s"
    by (auto simp: unit_put_def Let_def thenS_def bindS_def liftR_def split: sum.splits prod.splits)
next
  fix c i s r
  show "(unit_get c i s = Inr r) = (unit_view s i = Some r \<and> sees c (unit_owner r))"
    unfolding unit_get_def row_get_iff unit_view_def unit_owner_def enforce_tenant_sees ..
qed (simp_all add: unit_owner_def filed_unit_def)

subsection \<open>One backend for another\<close>

definition put_all :: "(ctx \<Rightarrow> 'r \<Rightarrow> (unit, 's) sres) \<Rightarrow> (ctx \<times> 'r) list \<Rightarrow> 's \<Rightarrow> 's" where
  "put_all put ops s = foldl (\<lambda>s op. snd (put (fst op) (snd op) s)) s ops"

locale store_refinement =
  simple: tenant_store aput aget aview ident owner "\<lambda>r. r" any_record +
  concrete: tenant_store cput cget cview ident owner ckept any_record
  for aput :: "ctx \<Rightarrow> 'r \<Rightarrow> (unit, 'a) sres" and aget aview
    and cput :: "ctx \<Rightarrow> 'r \<Rightarrow> (unit, 'c) sres" and cget cview ident owner ckept +
  fixes storable :: "'r \<Rightarrow> bool"
  assumes same_outcome: "storable r \<Longrightarrow> isl (fst (cput c r t)) = isl (fst (aput c r s))"
begin

lemma put_step:
  assumes "cview t = map_option ckept \<circ> aview s" "storable r"
  shows "cview (snd (cput c r t)) = map_option ckept \<circ> aview (snd (aput c r s))"
proof -
  obtain ra s' where a: "aput c r s = (ra, s')" by fastforce
  obtain rc t' where c: "cput c r t = (rc, t')" by fastforce
  have same: "isl rc = isl ra" using same_outcome [OF assms(2), of c t s] by (simp add: a c)
  show ?thesis
  proof (cases ra)
    case (Inl e)
    then obtain e' where "rc = Inl e'" using same by (cases rc) auto
    then show ?thesis using simple.put_refused [of c r s e s'] concrete.put_refused [of c r t e' t'] Inl a c assms(1) by simp
  next
    case (Inr u)
    then obtain u' where "rc = Inr u'" using same by (cases rc) auto
    then have "aview s' = (aview s)(ident r \<mapsto> r)" "cview t' = (cview t)(ident r \<mapsto> ckept r)"
      using simple.put_done [of c r s u s'] concrete.put_done [of c r t u' t'] Inr a c by simp_all
    then show ?thesis using assms(1) by (simp add: a c fun_eq_iff)
  qed
qed

lemma puts_agree:
  "cview t = map_option ckept \<circ> aview s \<Longrightarrow> \<forall>op \<in> set ops. storable (snd op) \<Longrightarrow>
   cview (put_all cput ops t) = map_option ckept \<circ> aview (put_all aput ops s)"
  by (induction ops arbitrary: s t) (simp_all add: put_all_def put_step)

lemma refines:
  "cview t = map_option ckept \<circ> aview s \<Longrightarrow> \<forall>op \<in> set ops. storable (snd op) \<Longrightarrow>
   (cget c i (put_all cput ops t) = Inr x)
   = (\<exists>r. aget c i (put_all aput ops s) = Inr r \<and> x = ckept r)"
  using puts_agree concrete.kept_owner by (auto simp: simple.get_iff concrete.get_iff)

end

definition storable_manifest :: "manifest \<Rightarrow> bool" where
  "storable_manifest m = (\<not> isl (manifest_id_ok (mf_manifest_id m)) \<and> json_ok (PDict (manifest_to_dict m)))"

text \<open>A write of a storable manifest fails in the guards that the backends share, or not at all.\<close>

definition guards_pass :: "schemas \<Rightarrow> ctx \<Rightarrow> manifest \<Rightarrow> bool" where
  "guards_pass sch c m = (\<not> isl (enforce_tenant c (mf_tenant m)) \<and> \<not> isl (validate_manifest sch m))"

lemma isl_bindS: "isl (fst (bindS (liftR r) f s)) = (case r of Inl e \<Rightarrow> True | Inr x \<Rightarrow> isl (fst (f x s)))"
  by (simp add: bindS_def liftR_def split: sum.splits)

lemma isl_thenS: "isl (fst (thenS (liftR r) f s)) = (case r of Inl e \<Rightarrow> True | Inr x \<Rightarrow> isl (fst (f s)))"
  by (simp add: thenS_def isl_bindS)

lemma not_islE: "\<not> isl r \<Longrightarrow> (\<And>x. r = Inr x \<Longrightarrow> P) \<Longrightarrow> P"
  by (cases r) auto

lemma memory_put_outcome: "isl (fst (memory_put sch c m s)) = (\<not> guards_pass sch c m)"
  by (simp add: memory_put_def isl_bindS isl_thenS guards_pass_def split: sum.splits)

lemma file_put_outcome: "storable_manifest m \<Longrightarrow> isl (fst (file_put sch c m s)) = (\<not> guards_pass sch c m)"
  by (auto simp: file_put_def isl_bindS isl_thenS guards_pass_def storable_manifest_def split: sum.splits)

lemma sql_put_outcome: "storable_manifest m \<Longrightarrow> isl (fst (sql_put sch c m s)) = (\<not> guards_pass sch c m)"
  by (cases "manifest_id_ok (mf_manifest_id m)"; cases "validate_manifest sch m"; cases "enforce_tenant c (mf_tenant m)")
    (auto simp: sql_put_def isl_bindS isl_thenS guards_pass_def storable_manifest_def json_write_def
      split: sum.splits dest!: validate_manifest_Inr)

interpretation file_for_memory: store_refinement "memory_put sch" memory_get "\<lambda>s. dget (mm_by_id s)"
  "file_put sch" file_get file_view mf_manifest_id manifest_owner filed_manifest storable_manifest for sch
  by unfold_locales (simp add: memory_put_outcome file_put_outcome)

interpretation sql_for_memory: store_refinement "memory_put sch" memory_get "\<lambda>s. dget (mm_by_id s)"
  "sql_put sch" sql_get sql_view mf_manifest_id manifest_owner filed_manifest storable_manifest for sch
  by unfold_locales (simp add: memory_put_outcome sql_put_outcome)

definition no_manifests :: memory_manifests where
  "no_manifests = \<lparr>mm_by_id = [], mm_by_work_unit = []\<rparr>"

lemma empty_views:
  "file_view [] = map_option filed_manifest \<circ> (\<lambda>i. dget (mm_by_id no_manifests) i)"
  "sql_view [] = map_option filed_manifest \<circ> (\<lambda>i. dget (mm_by_id no_manifests) i)"
  by (simp_all add: fun_eq_iff no_manifests_def file_view_def sql_view_def row_view_def)

text \<open>C26 (refinement)
  The file store and the SQLite store refine the in-memory manifest store: after the same
  sequence of writes by the same principals, refused writes included, to stores that start
  empty, each returns a manifest to a principal exactly when the in-memory store does, and it
  is the in-memory manifest as it comes back from JSON. Manifests must have an identifier
  that is a file name and JSON-serializable fields.\<close>

theorem backends_agree:
  assumes "\<forall>op \<in> set ops. storable_manifest (snd op)"
  shows "(file_get c i (put_all (file_put sch) ops []) = Inr x)
        = (\<exists>m. memory_get c i (put_all (memory_put sch) ops no_manifests) = Inr m \<and> x = filed_manifest m)
      \<and> (sql_get c i (put_all (sql_put sch) ops []) = Inr x)
        = (\<exists>m. memory_get c i (put_all (memory_put sch) ops no_manifests) = Inr m \<and> x = filed_manifest m)"
  by (intro conjI file_for_memory.refines sql_for_memory.refines assms empty_views)

text \<open>
  A write to the file store of manifests is refused and changes nothing, or it is owned by
  the principal's tenant, the writer reads the manifest back as it comes back from JSON, and
  every other identifier reads as before for every principal.\<close>

theorem file_store_law:
  assumes "file_put sch c m s = (res, s')"
  shows "case res of Inl e \<Rightarrow> s' = s
    | Inr u \<Rightarrow> file_get c (mf_manifest_id m) s' = Inr (filed_manifest m)
        \<and> (\<forall>c' i x. i \<noteq> mf_manifest_id m \<longrightarrow> (file_get c' i s' = Inr x) = (file_get c' i s = Inr x))
        \<and> (\<forall>t. bound_tenant c = Some t \<longrightarrow> manifest_owner m = Some t)"
  by (rule file_manifests.store_law [OF assms]) simp

text \<open>
  A stored work unit whose payload holds no reserved object reads back with its payload,
  byte strings included; no other work unit is touched and no principal writes for a tenant
  that is not its own.\<close>

theorem unit_store_law:
  assumes "unit_put sch c wu s = (res, s')" "unit_fine wu"
  shows "case res of Inl e \<Rightarrow> s' = s
    | Inr u \<Rightarrow> unit_get c (wu_id wu) s' = Inr (filed_unit wu)
        \<and> (\<forall>c' i x. i \<noteq> wu_id wu \<longrightarrow> (unit_get c' i s' = Inr x) = (unit_get c' i s = Inr x))
        \<and> (\<forall>t. bound_tenant c = Some t \<longrightarrow> unit_owner wu = Some t)"
  by (rule file_units.store_law [OF assms])

text \<open>Samples: a permissive schema validator and the sample records.\<close>

definition any_schema :: schemas where
  "any_schema n d = Inr ()"

lemma sample_manifest_id: "manifest_id_ok ''mf_1'' = Inr ''mf_1''"
  by code_simp

lemma sample_validates: "validate_manifest any_schema sample_manifest = Inr (manifest_to_dict sample_manifest)"
  by (simp add: validate_manifest_def any_schema_def Let_def sample_manifest_def get_value_def)

lemma sample_storable: "storable_manifest sample_manifest"
  by code_simp

theorem backends_agree_witness:
  "(file_get None ''mf_1'' (put_all (file_put any_schema) [(None, sample_manifest)] []) = Inr (filed_manifest sample_manifest))
   = (\<exists>m. memory_get None ''mf_1'' (put_all (memory_put any_schema) [(None, sample_manifest)] no_manifests) = Inr m
        \<and> filed_manifest sample_manifest = filed_manifest m)"
  using backends_agree [of "[(None, sample_manifest)]"] sample_storable by simp

lemma file_put_sample:
  "file_put any_schema None sample_manifest [] = (Inr (), [(''mf_1'', jfile_dict (manifest_to_dict sample_manifest))])"
  by (simp add: file_put_def thenS_def bindS_def liftR_def sample_validates enforce_tenant_def bound_tenant_def
      current_tenant_def) (simp add: sample_manifest_def sample_manifest_id dset_def)

theorem file_store_law_witness:
  "file_get None (mf_manifest_id sample_manifest) [(''mf_1'', jfile_dict (manifest_to_dict sample_manifest))]
   = Inr (filed_manifest sample_manifest)"
  using file_store_law [OF file_put_sample] by simp

lemma unit_put_sample:
  "unit_put any_schema None sample_work_unit [] = (Inr (), [(''wu_1'', jfile_dict (json_safe_work_unit sample_work_unit))])"
proof -
  have "unit_id_ok ''wu_1'' = Inr ''wu_1''" by code_simp
  then show ?thesis
    by (simp add: unit_put_def thenS_def bindS_def liftR_def enforce_tenant_def bound_tenant_def
        current_tenant_def any_schema_def Let_def) (simp add: sample_work_unit_def dset_def)
qed

theorem unit_store_law_witness:
  "unit_get None (wu_id sample_work_unit) [(''wu_1'', jfile_dict (json_safe_work_unit sample_work_unit))]
   = Inr (filed_unit sample_work_unit)"
  using unit_store_law [OF unit_put_sample] by (simp add: unit_fine_def sample_work_unit_def)

text \<open>
  A write only checks the tenant of the new record: a principal of another tenant that uses the
  same identifier replaces the stored record, and the owner can no longer read its own.
\<close>

lemma put_overwrites_other_tenant:
  assumes "plan_put (Some p) r s = (Inr u, s')" "pr_tenant p = ''globex''"
    and "plan_get (Some q) (pl_plan_id r) s = Inr old" "pr_tenant q = ''acme''"
  shows "plan_get (Some q) (pl_plan_id r) s' \<noteq> Inr x"
proof
  assume "plan_get (Some q) (pl_plan_id r) s' = Inr x"
  moreover have "plan_get (Some p) (pl_plan_id r) s' = Inr (filed_plan r)"
    by (rule file_plans.get_after_put [OF assms(1)]) simp
  ultimately have "x = filed_plan r" by (simp add: file_plans.get_iff)
  moreover have "pl_tenant x = Some ''acme''"
    using \<open>plan_get (Some q) (pl_plan_id r) s' = Inr x\<close> assms(4)
    by (intro file_plans.isolation [of "Some q"]) (auto simp: bound_tenant_def current_tenant_def)
  moreover have "pl_tenant r = Some ''globex''"
    using assms(1,2) by (intro file_plans.write_isolation [of "Some p"]) (auto simp: bound_tenant_def current_tenant_def)
  ultimately show False by (simp add: filed_plan_def)
qed

end
