(* ===== verification/PolicyStore.thy ===== *)
theory PolicyStore
  imports Stores
begin

text \<open>
  Versioned policy bundles: \<open>python/urp/policy_store.py\<close>. The directory is the JSON object of
  every version file by policy name and version, the file of active versions and the ledger.
  Publishing from a path, which reads a YAML file, is not modelled; the environment variable
  \<open>URP_ACTIVE_POLICY\<close> is an argument.
\<close>

subsection \<open>Operations\<close>

record policy_state =
  ps_records :: "((string \<times> string) \<times> pydict) list"
  ps_active :: "(string \<times> string) list option"
  ps_ledger :: ledger_rows

definition policy_name_ok :: "string \<Rightarrow> string res" where
  "policy_name_ok n = validate_identifier n ''policy name'' None"

definition policy_version_ok :: "string \<Rightarrow> string res" where
  "policy_version_ok v = validate_identifier v ''policy version'' None"

definition bundle_metadata :: "pydict \<Rightarrow> string \<Rightarrow> pyval \<Rightarrow> pyval res" where
  "bundle_metadata b k v0 = (case get_default b ''metadata'' (PDict []) of
     PDict m \<Rightarrow> Inr (get_default m k v0) | _ \<Rightarrow> Inl (OtherError ''AttributeError''))"

definition bundle_name :: "pydict \<Rightarrow> string res" where
  "bundle_name b = bindR (bundle_metadata b ''name'' (PStr ''default'')) (\<lambda>v. policy_name_ok (py_str v))"

definition bundle_version :: "pydict \<Rightarrow> string res" where
  "bundle_version b = bindR (bundle_metadata b ''version'' PNone) (\<lambda>v.
     policy_version_ok (if truthy v then py_str v else take 16 (stable_json_hash (PDict b))))"

definition bundle_tenant :: "pydict \<Rightarrow> string res" where
  "bundle_tenant b = bindR (bundle_metadata b ''tenant'' (PStr ''system'')) as_str"

definition bundle_of :: "pydict \<Rightarrow> pydict res" where
  "bundle_of row = bindR (item row ''bundle'') (\<lambda>v. case v of PDict b \<Rightarrow> Inr b | _ \<Rightarrow> Inl (OtherError ''AttributeError''))"

definition write_active :: "string \<Rightarrow> string \<Rightarrow> (unit, policy_state) sres" where
  "write_active name version =
     thenS (liftR (policy_name_ok name)) (thenS (liftR (policy_version_ok version))
       (\<lambda>st. (Inr (), st\<lparr>ps_active := Some (sort_key fst (dset name version
          (case ps_active st of None \<Rightarrow> [] | Some a \<Rightarrow> a)))\<rparr>)))"

definition read_active :: "policy_state \<Rightarrow> (string \<times> string) list" where
  "read_active st = (case ps_active st of None \<Rightarrow> [] | Some a \<Rightarrow> a)"

text \<open>One ledger event; \<open>fresh\<close> is its identifier and time.\<close>

definition policy_event :: "string \<times> string \<Rightarrow> string \<Rightarrow> string \<Rightarrow> string \<Rightarrow> string \<Rightarrow> string \<Rightarrow> pydict \<Rightarrow> ledger_event" where
  "policy_event fresh ty tn name actor decision details =
     \<lparr>ev_event_type = ty, ev_tenant = tn, ev_work_unit_id = None, ev_manifest_id = None,
      ev_policy_bundle_id = Some name, ev_actor = Some actor, ev_decision = Some decision, ev_details = details,
      ev_trace_id = None, ev_prev_hash = None, ev_event_id = fst fresh, ev_created_at = snd fresh, ev_event_hash = None\<rparr>"

definition policy_audit :: "schemas \<Rightarrow> ctx \<Rightarrow> ledger_event \<Rightarrow> (ledger_event, policy_state) sres" where
  "policy_audit sch c e = (\<lambda>st. case ledger_append sch c e (ps_ledger st) of (r, rows) \<Rightarrow> (r, st\<lparr>ps_ledger := rows\<rparr>))"

definition policy_record :: "string \<Rightarrow> string \<Rightarrow> string \<Rightarrow> pydict \<Rightarrow> pydict" where
  "policy_record now name version b = [(''name'', PStr name), (''version'', PStr version), (''published_at'', PStr now),
     (''bundle'', PDict b), (''bundle_hash'', PStr (stable_json_hash (PDict b)))]"

definition write_record :: "string \<Rightarrow> string \<Rightarrow> pydict \<Rightarrow> (unit, policy_state) sres" where
  "write_record name version row = (\<lambda>st. (Inr (), st\<lparr>ps_records := AList.update (name, version) (jfile_dict row) (ps_records st)\<rparr>))"

definition policy_publish :: "schemas \<Rightarrow> ctx \<Rightarrow> string \<times> string \<Rightarrow> string \<Rightarrow> pydict \<Rightarrow> string \<Rightarrow> (pydict, policy_state) sres" where
  "policy_publish sch c fresh now b actor =
     thenS (liftR (sch ''policy'' b))
     (bindS (liftR (bundle_name b)) (\<lambda>name. bindS (liftR (bundle_version b)) (\<lambda>version.
      (let row = policy_record now name version b in
       thenS (write_record name version row)
       (thenS (write_active name version)
       (bindS (liftR (bundle_tenant b)) (\<lambda>tn.
        thenS (policy_audit sch c (policy_event fresh ''policy.bundle.published'' tn name actor version
            [(''bundle_hash'', PStr (stable_json_hash (PDict b)))]))
          (retS row))))))))"

definition intact :: "pydict \<Rightarrow> bool" where
  "intact row = py_eq (PStr (stable_json_hash (get_default row ''bundle'' (PDict [])))) (get_value row ''bundle_hash'')"

definition policy_get :: "string \<Rightarrow> string \<Rightarrow> policy_state \<Rightarrow> pydict res" where
  "policy_get name version st = bindR (policy_name_ok name) (\<lambda>_. bindR (policy_version_ok version) (\<lambda>_.
     case map_of (ps_records st) (name, version) of None \<Rightarrow> Inl (FileNotFoundError (name @ ''/'' @ version @ ''.json''))
     | Some row \<Rightarrow> if intact row then Inr row
         else Inl (ValueError (''policy bundle integrity check failed: '' @ name @ ''@'' @ version))))"

definition policy_active :: "string \<Rightarrow> policy_state \<Rightarrow> pydict res" where
  "policy_active name st = bindR (policy_name_ok name) (\<lambda>_.
     case dget (read_active st) name of None \<Rightarrow> Inl (KeyError name) | Some version \<Rightarrow> policy_get name version st)"

definition active_for_work_unit :: "string option \<Rightarrow> string option \<Rightarrow> policy_state \<Rightarrow> pydict option res" where
  "active_for_work_unit env wanted st =
     (let active = read_active st in
      case given (if given wanted = None then env else wanted) of
        Some n \<Rightarrow> (if dget active n \<noteq> None then map_res Some (bindR (policy_name_ok n) (\<lambda>n. policy_active n st)) else Inr None)
      | None \<Rightarrow> (if dget active ''default-safe'' \<noteq> None then map_res Some (policy_active ''default-safe'' st)
          else case active of [(n, v)] \<Rightarrow> map_res Some (policy_active n st) | _ \<Rightarrow> Inr None))"

definition resolve_active_policy_bundle :: "string option \<Rightarrow> string option \<Rightarrow> policy_state \<Rightarrow> pydict option res" where
  "resolve_active_policy_bundle env wanted st = bindR (active_for_work_unit env wanted st) (\<lambda>r.
     case r of None \<Rightarrow> Inr None
     | Some row \<Rightarrow> if row = [] then Inr None else map_res Some (bindR (item row ''bundle'') (\<lambda>v. case v of
         PDict b \<Rightarrow> Inr b | _ \<Rightarrow> Inl (TypeError ''cannot convert to dict''))))"

definition policy_list :: "policy_state \<Rightarrow> pydict list res" where
  "policy_list st =
     seq_res (map (\<lambda>kv. if intact (snd kv) then Inr (snd kv)
         else Inl (ValueError ''policy bundle integrity check failed''))
       (filter (\<lambda>kv. snd (fst kv) \<noteq> ''active'')
         (sort_key (fst \<circ> fst) (sort_key (\<lambda>kv. snd (fst kv) @ ''.json'') (ps_records st)))))"

definition policy_rollback :: "schemas \<Rightarrow> ctx \<Rightarrow> string \<times> string \<Rightarrow> string \<Rightarrow> string \<Rightarrow> string \<Rightarrow> (pydict, policy_state) sres" where
  "policy_rollback sch c fresh name version actor = (\<lambda>st.
     bindS (liftR (policy_get name version st)) (\<lambda>row.
     (let previous = dget (read_active st) name in
      thenS (write_active name version)
      (bindS (liftR (bindR (bundle_of row) bundle_tenant)) (\<lambda>tn.
       thenS (policy_audit sch c (policy_event fresh ''policy.bundle.rolled_back'' tn name actor version
           [(''previous_version'', opt_value previous)]))
         (retS row))))) st)"

definition policy_reload :: "schemas \<Rightarrow> ctx \<Rightarrow> string \<times> string \<Rightarrow> string \<Rightarrow> string \<Rightarrow> string \<Rightarrow> (pydict, policy_state) sres" where
  "policy_reload sch c fresh now name actor = (\<lambda>st.
     bindS (liftR (policy_active name st)) (\<lambda>row.
     bindS (liftR (bundle_of row)) (\<lambda>b.
     thenS (liftR (sch ''policy'' b))
     (bindS (liftR (bundle_tenant b)) (\<lambda>tn.
      bindS (liftR (bindR (item row ''version'') as_str)) (\<lambda>version.
      (let same = py_eq (PStr (stable_json_hash (PDict b))) (get_value row ''bundle_hash'') in
       thenS (policy_audit sch c (policy_event fresh ''policy.bundle.reloaded'' tn name actor version
           [(''version'', PStr version), (''bundle_hash'', PStr (stable_json_hash (PDict b))),
            (''record_hash_matches'', PBool same)]))
         (retS (dset ''record_hash_matches'' (PBool same) (dset ''reloaded_at'' (PStr now) row)))))))))  st)"

subsection \<open>Publishing and rolling back\<close>

lemma policy_record_intact: "intact (jfile_dict (policy_record now n v b))"
  by (simp add: intact_def get_default_def get_value_def)
    (simp add: policy_record_def jfile_PDict [symmetric] del: jfile.simps(4))


lemma dget_sort_key [simp]: "dget (sort_key fst d) k = dget d k"
  by (simp add: dget_def map_of_sort_key)

definition activated :: "string \<Rightarrow> string \<Rightarrow> policy_state \<Rightarrow> policy_state" where
  "activated name version st = st\<lparr>ps_active := Some (sort_key fst (dset name version (read_active st)))\<rparr>"

definition recorded :: "string \<Rightarrow> string \<Rightarrow> pydict \<Rightarrow> policy_state \<Rightarrow> policy_state" where
  "recorded name version row st =
     st\<lparr>ps_records := AList.update (name, version) (jfile_dict row) (ps_records st)\<rparr>"

lemma read_activated [simp]: "dget (read_active (activated name version st)) n
    = (if n = name then Some version else dget (read_active st) n)"
  by (simp add: activated_def read_active_def)

lemma activated_records [simp]: "ps_records (activated n v st) = ps_records st"
    "ps_ledger (activated n v st) = ps_ledger st"
  by (simp_all add: activated_def)

lemma recorded_simps [simp]: "map_of (ps_records (recorded name version row st))
    = (map_of (ps_records st))((name, version) \<mapsto> jfile_dict row)"
    "ps_ledger (recorded name version row st) = ps_ledger st" "read_active (recorded name version row st) = read_active st"
  by (simp_all add: recorded_def update_conv' read_active_def)

lemma with_ledger_simps [simp]: "ps_records (st\<lparr>ps_ledger := l\<rparr>) = ps_records st"
    "read_active (st\<lparr>ps_ledger := l\<rparr>) = read_active st"
  by (simp_all add: read_active_def)

lemma write_active_Inr [effect_simps]: "(write_active name version st = (Inr u, st')) =
    ((\<exists>n. policy_name_ok name = Inr n) \<and> (\<exists>v. policy_version_ok version = Inr v) \<and> st' = activated name version st)"
  by (auto simp: write_active_def effect_simps activated_def read_active_def)

lemma write_record_eq [effect_simps]: "(write_record name version row st = (r, st')) = (r = Inr () \<and> st' = recorded name version row st)"
  by (auto simp: write_record_def recorded_def)

lemma policy_audit_Inr [effect_simps]: "(policy_audit sch c e st = (r, st')) =
    (\<exists>rows. ledger_append sch c e (ps_ledger st) = (r, rows) \<and> st' = st\<lparr>ps_ledger := rows\<rparr>)"
  by (auto simp: policy_audit_def split: prod.splits)

lemmas name_ok_defs = policy_name_ok_def policy_version_ok_def

lemma ok_name [simp]: "policy_name_ok n = Inr m \<Longrightarrow> m = n" "policy_version_ok n = Inr m \<Longrightarrow> m = n"
  by (auto simp: name_ok_defs dest: validate_identifier_Inr)

lemma bundle_name_ok: "bundle_name b = Inr n \<Longrightarrow> policy_name_ok n = Inr n"
  by (auto simp: bundle_name_def effect_simps dest: ok_name)

lemma bundle_version_ok: "bundle_version b = Inr v \<Longrightarrow> policy_version_ok v = Inr v"
  by (auto simp: bundle_version_def effect_simps dest: ok_name)

lemma policy_get_found:
  "policy_name_ok n = Inr n \<Longrightarrow> policy_version_ok v = Inr v \<Longrightarrow> map_of (ps_records st) (n, v) = Some row \<Longrightarrow> intact row
   \<Longrightarrow> policy_get n v st = Inr row"
  by (simp add: policy_get_def)

lemma policy_get_cong: "map_of (ps_records st') (n, v) = map_of (ps_records st) (n, v) \<Longrightarrow> policy_get n v st' = policy_get n v st"
  by (simp add: policy_get_def)

lemma policy_active_cong:
  assumes "dget (read_active st') n = dget (read_active st) n" "\<And>v. policy_get n v st' = policy_get n v st"
  shows "policy_active n st' = policy_active n st"
  unfolding policy_active_def assms ..

lemma published_active:
  assumes "bundle_name b = Inr name" "bundle_version b = Inr version"
    and "map_of (ps_records st') (name, version) = Some (jfile_dict (policy_record now name version b))"
    and "dget (read_active st') name = Some version"
  shows "policy_active name st' = Inr (jfile_dict (policy_record now name version b))"
  using assms(3,4) bundle_name_ok [OF assms(1)] bundle_version_ok [OF assms(2)]
  by (simp add: policy_active_def policy_get_found policy_record_intact)

lemma publish_parts:
  assumes "policy_publish sch c fresh now b actor st = (Inr row, st')"
  obtains name version rows where "bundle_name b = Inr name" "bundle_version b = Inr version"
    "row = policy_record now name version b"
    "st' = (activated name version (recorded name version row st))\<lparr>ps_ledger := rows\<rparr>"
    "\<exists>e tn. ledger_append sch c (policy_event fresh ''policy.bundle.published'' tn name actor version
         [(''bundle_hash'', PStr (stable_json_hash (PDict b)))]) (ps_ledger st) = (Inr e, rows) \<and> bundle_tenant b = Inr tn"
  using assms unfolding policy_publish_def Let_def effect_simps
  by (elim exE conjE) (rule that, assumption+, auto)

text \<open>
  Publishing activates: after a bundle is published, its record is the active
  one of its name and passes the integrity check, execution resolves the name to the bundle,
  every other name stays on its version and no other version's record changes.
\<close>

theorem publish_activates:
  assumes "policy_publish sch c fresh now b actor st = (Inr row, st')"
  shows "\<exists>name version. bundle_name b = Inr name \<and> bundle_version b = Inr version
    \<and> policy_active name st' = Inr (jfile_dict row)
    \<and> resolve_active_policy_bundle env (Some name) st' = Inr (Some (jfile_dict b))
    \<and> (\<forall>n. n \<noteq> name \<longrightarrow> policy_active n st' = policy_active n st)
    \<and> (\<forall>n v. (n, v) \<noteq> (name, version) \<longrightarrow> policy_get n v st' = policy_get n v st)"
proof -
  obtain name version rows where nv: "bundle_name b = Inr name" "bundle_version b = Inr version"
    and row: "row = policy_record now name version b"
    and st': "st' = (activated name version (recorded name version row st))\<lparr>ps_ledger := rows\<rparr>"
    by (rule publish_parts [OF assms])
  have active: "policy_active name st' = Inr (jfile_dict row)"
    unfolding row by (rule published_active [OF nv]) (simp_all add: st' row)
  have other: "policy_get n v st' = policy_get n v st" if "(n, v) \<noteq> (name, version)" for n v
    by (rule policy_get_cong) (use that in \<open>auto simp: st'\<close>)
  have names: "policy_active n st' = policy_active n st" if "n \<noteq> name" for n
    by (rule policy_active_cong, simp add: st' that, rule other, simp add: that)
  have ne: "given (Some name) = Some name"
    using bundle_name_ok [OF nv(1)] by (auto simp: given_def name_ok_defs validate_identifier_def)
  have filled: "jfile_dict row \<noteq> []"
  proof -
    have "length (jfile_dict row) = length row" by (simp add: jfile_dict_def)
    then show ?thesis by (auto simp: row policy_record_def)
  qed
  have "resolve_active_policy_bundle env (Some name) st' = Inr (Some (jfile_dict b))"
  proof -
    have "dget (read_active st') name = Some version" by (simp add: st')
    then have "active_for_work_unit env (Some name) st' = Inr (Some (jfile_dict row))"
      using active bundle_name_ok [OF nv(1)] by (simp add: active_for_work_unit_def ne)
    moreover have "item (jfile_dict row) ''bundle'' = Inr (PDict (jfile_dict b))"
      by (simp add: row policy_record_def item_def jfile_PDict del: jfile.simps(4))
    ultimately show ?thesis using filled by (simp add: resolve_active_policy_bundle_def)
  qed
  then show ?thesis using nv active other names by blast
qed

text \<open>
  Rolling back restores: a rollback succeeds only to a stored version whose
  record is intact; that record is then the active one of the name, no record changes and no
  other name is affected.
\<close>

theorem rollback_restores:
  assumes "policy_rollback sch c fresh name version actor st = (Inr row, st')"
  shows "policy_get name version st = Inr row \<and> intact row \<and> policy_active name st' = Inr row
    \<and> ps_records st' = ps_records st \<and> (\<forall>n. n \<noteq> name \<longrightarrow> policy_active n st' = policy_active n st)"
proof -
  obtain rows where got: "policy_get name version st = Inr row" and st': "st' = (activated name version st)\<lparr>ps_ledger := rows\<rparr>"
    using assms by (auto simp: policy_rollback_def Let_def effect_simps)
  have same: "policy_get n v st' = policy_get n v st" for n v
    by (rule policy_get_cong) (simp add: st')
  have ok: "intact row" "policy_name_ok name = Inr name"
    using got by (auto simp: policy_get_def effect_simps dest: ok_name split: option.splits if_splits)
  have "policy_active name st' = Inr row" using ok same got by (simp add: policy_active_def st')
  moreover have "policy_active n st' = policy_active n st" if "n \<noteq> name" for n
    by (rule policy_active_cong [OF _ same]) (use that in \<open>simp add: st'\<close>)
  ultimately show ?thesis using got ok by (simp add: st')
qed

text \<open>
  The record is written and activated before the ledger event is appended, and the ledger
  refuses events of another tenant: a principal bound to a tenant that publishes a bundle of
  another tenant, or of none, gets an error, but the bundle is active and no event tells of it.
\<close>

lemma unaudited_publish:
  assumes "sch ''policy'' b = Inr ()" "bundle_name b = Inr name" "bundle_version b = Inr version"
    and "bundle_tenant b = Inr tn" "bound_tenant c = Some t" "t \<noteq> tn"
  shows "\<exists>e st'. policy_publish sch c fresh now b actor st = (Inl e, st') \<and> ps_ledger st' = ps_ledger st
    \<and> policy_active name st' = Inr (jfile_dict (policy_record now name version b))"
proof -
  let ?row = "policy_record now name version b"
  let ?st = "activated name version (recorded name version ?row st)"
  have w: "write_active name version (recorded name version ?row st) = (Inr (), ?st)"
    using bundle_name_ok [OF assms(2)] bundle_version_ok [OF assms(3)] by (simp add: write_active_Inr)
  have "policy_audit sch c (policy_event fresh ty tn name actor version d) ?st = (Inl (tenant_mismatch t tn), ?st)" for ty d
    using assms(5,6)
    by (simp add: policy_audit_def ledger_append_def thenS_def bindS_def liftR_def enforce_tenant_def policy_event_def)
  then have "policy_publish sch c fresh now b actor st = (Inl (tenant_mismatch t tn), ?st)"
    using assms(1-4) w
    by (simp add: policy_publish_def Let_def thenS_def bindS_def liftR_def write_record_def recorded_def)
  moreover have "policy_active name ?st = Inr (jfile_dict ?row)"
    by (rule published_active [OF assms(2,3)]) simp_all
  ultimately show ?thesis by auto
qed

subsection \<open>Samples\<close>

definition no_policies :: policy_state where
  "no_policies = \<lparr>ps_records = [], ps_active = None, ps_ledger = []\<rparr>"

definition base_bundle :: pydict where
  "base_bundle = [(''metadata'', PDict [(''name'', PStr ''base''), (''version'', PStr ''v1''), (''tenant'', PStr ''acme'')])]"

lemma base_bundle_parts: "bundle_name base_bundle = Inr ''base''" "bundle_version base_bundle = Inr ''v1''"
    "bundle_tenant base_bundle = Inr ''acme''"
  by code_simp+

lemma first_event: "json_ok (PDict (ev_details e)) \<Longrightarrow> \<exists>e' row. ledger_append any_schema None e [] = (Inr e', [row])"
  by (simp add: ledger_append_def thenS_def bindS_def liftR_def enforce_tenant_def bound_tenant_def current_tenant_def
      last_event_def event_hash_of_def json_write_def event_to_dict_def with_chain_hash_def any_schema_def opt_value_def
      split: option.splits)

lemma sample_publish: "\<exists>row st. policy_publish any_schema None (''evt_1'', ''t'') ''t'' base_bundle ''alice'' no_policies = (Inr row, st)"
proof -
  let ?e = "policy_event (''evt_1'', ''t'') ''policy.bundle.published'' ''acme'' ''base'' ''alice'' ''v1''
      [(''bundle_hash'', PStr (stable_json_hash (PDict base_bundle)))]"
  obtain e' r where "ledger_append any_schema None ?e [] = (Inr e', [r])"
    using first_event [of ?e] by (auto simp: policy_event_def)
  moreover have "policy_name_ok ''base'' = Inr ''base''" "policy_version_ok ''v1'' = Inr ''v1''" by code_simp+
  ultimately show ?thesis
    by (simp add: policy_publish_def Let_def thenS_def bindS_def liftR_def base_bundle_parts write_record_def
        write_active_def policy_audit_def any_schema_def no_policies_def retS_def)
qed

theorem publish_activates_witness:
  "\<exists>st. resolve_active_policy_bundle None (Some ''base'') st = Inr (Some (jfile_dict base_bundle))"
proof -
  obtain row st where "policy_publish any_schema None (''evt_1'', ''t'') ''t'' base_bundle ''alice'' no_policies = (Inr row, st)"
    using sample_publish by blast
  from publish_activates [OF this, of None] show ?thesis by (auto simp: base_bundle_parts)
qed

text \<open>A state with two intact versions, the second of them active.\<close>

definition two_versions :: policy_state where
  "two_versions = (let row = (\<lambda>v. jfile_dict (policy_record ''t'' ''base'' v base_bundle)) in
     \<lparr>ps_records = [((''base'', ''v1''), row ''v1''), ((''base'', ''v2''), row ''v2'')],
      ps_active = Some [(''base'', ''v2'')], ps_ledger = []\<rparr>)"

theorem rollback_restores_witness:
  "\<exists>st. policy_active ''base'' st = Inr (jfile_dict (policy_record ''t'' ''base'' ''v1'' base_bundle))"
proof -
  let ?row = "jfile_dict (policy_record ''t'' ''base'' ''v1'' base_bundle)"
  let ?e = "policy_event (''evt_1'', ''t'') ''policy.bundle.rolled_back'' ''acme'' ''base'' ''alice'' ''v1''
      [(''previous_version'', opt_value (Some ''v2''))]"
  have ok: "policy_name_ok ''base'' = Inr ''base''" "policy_version_ok ''v1'' = Inr ''v1''" by code_simp+
  have got: "policy_get ''base'' ''v1'' two_versions = Inr ?row"
    by (rule policy_get_found [OF ok _ policy_record_intact]) (simp add: two_versions_def Let_def)
  have tn: "bindR (bundle_of ?row) bundle_tenant = Inr ''acme''"
    by (simp add: bundle_of_def item_def)
      (simp add: policy_record_def jfile_PDict base_bundle_def bundle_tenant_def bundle_metadata_def get_default_def del: jfile.simps(4))
  obtain e' r where "ledger_append any_schema None ?e [] = (Inr e', [r])"
    using first_event [of ?e] by (auto simp: policy_event_def opt_value_def)
  then have "\<exists>st. policy_rollback any_schema None (''evt_1'', ''t'') ''base'' ''v1'' ''alice'' two_versions = (Inr ?row, st)"
    using ok got tn
    by (simp add: policy_rollback_def Let_def thenS_def bindS_def liftR_def write_active_def policy_audit_def retS_def
        read_active_def) (simp add: two_versions_def Let_def)
  then show ?thesis using rollback_restores by blast
qed

end
