(* ===== verification/PyTime.thy ===== *)
theory PyTime
  imports PyText
begin

text \<open>
  The aware UTC times of \<open>datetime\<close>, as microseconds since the start of year 1, with the text
  \<open>isoformat\<close> gives them and what \<open>fromisoformat\<close> reads from such a text. Records hold times as
  text, so that comparing them goes through both.
\<close>

definition leap :: "nat \<Rightarrow> bool" where
  "leap y = (y mod 4 = 0 \<and> (y mod 100 \<noteq> 0 \<or> y mod 400 = 0))"

definition year_len :: "nat \<Rightarrow> nat" where
  "year_len y = (if leap y then 366 else 365)"

definition days_before :: "nat \<Rightarrow> nat" where
  "days_before y = 365 * (y - 1) + (y - 1) div 4 + (y - 1) div 400 - (y - 1) div 100"

definition month_lens :: "nat \<Rightarrow> nat list" where
  "month_lens y = [31, if leap y then 29 else 28, 31, 30, 31, 30, 31, 31, 30, 31, 30, 31]"

function year_from :: "nat \<Rightarrow> nat \<Rightarrow> nat \<times> nat" where
  "year_from y n = (if n < year_len y then (y, n) else year_from (Suc y) (n - year_len y))"
  by pat_completeness auto

termination by (relation "measure snd") (auto simp: year_len_def)

declare year_from.simps [simp del]

fun month_from :: "nat list \<Rightarrow> nat \<Rightarrow> nat \<Rightarrow> nat \<times> nat" where
  "month_from (l # ls) m n = (if n < l then (m, n) else month_from ls (Suc m) (n - l))"
| "month_from [] m n = (m, n)"

fun digits :: "nat \<Rightarrow> nat \<Rightarrow> string" where
  "digits 0 n = []"
| "digits (Suc w) n = digits w (n div 10) @ [char_of (48 + n mod 10)]"

fun read_digits :: "nat \<Rightarrow> string \<Rightarrow> nat option" where
  "read_digits a [] = Some a"
| "read_digits a (c # cs) = (let d = of_char c :: nat in
     if 48 \<le> d \<and> d < 58 then read_digits (10 * a + (d - 48)) cs else None)"

definition DAY :: nat where "DAY = 86400000000"

definition MAX_TIME :: nat where "MAX_TIME = 3652059 * DAY"

definition iso_date :: "nat \<Rightarrow> string" where
  "iso_date days = (case year_from 1 days of (y, r) \<Rightarrow>
     (case month_from (month_lens y) 1 r of (m, d) \<Rightarrow>
       digits 4 y @ ''-'' @ digits 2 m @ ''-'' @ digits 2 (Suc d)))"

definition iso_clock :: "nat \<Rightarrow> string" where
  "iso_clock us = (let s = us div 1000000 in
     digits 2 (s div 3600) @ '':'' @ digits 2 (s div 60 mod 60) @ '':'' @ digits 2 (s mod 60)
       @ (if us mod 1000000 = 0 then [] else ''.'' @ digits 6 (us mod 1000000)))"

definition isoformat :: "nat \<Rightarrow> string" where
  "isoformat t = iso_date (t div DAY) @ ''T'' @ iso_clock (t mod DAY) @ ''+00:00''"

definition cut :: "nat \<Rightarrow> nat \<Rightarrow> string \<Rightarrow> nat option" where
  "cut i n s = read_digits 0 (take n (drop i s))"

definition opts :: "nat option list \<Rightarrow> nat list option" where
  "opts xs = (if None \<in> set xs then None else Some (map the xs))"

definition date_of :: "string \<Rightarrow> nat option" where
  "date_of s = (case opts [cut 0 4 s, cut 5 2 s, cut 8 2 s] of
     Some [y, m, d] \<Rightarrow>
       (if s ! 4 = CHR ''-'' \<and> s ! 7 = CHR ''-'' \<and> 1 \<le> y \<and> 1 \<le> m \<and> m \<le> 12 \<and> 1 \<le> d \<and> d \<le> month_lens y ! (m - 1)
        then Some (days_before y + sum_list (take (m - 1) (month_lens y)) + (d - 1)) else None)
   | _ \<Rightarrow> None)"

definition clock_of :: "string \<Rightarrow> nat option" where
  "clock_of s = (case opts [cut 0 2 s, cut 3 2 s, cut 6 2 s, if length s = 8 then Some 0 else cut 9 6 s] of
     Some [h, m, x, us] \<Rightarrow>
       (if s ! 2 = CHR '':'' \<and> s ! 5 = CHR '':'' \<and> h < 24 \<and> m < 60 \<and> x < 60
          \<and> (length s = 8 \<or> length s = 15 \<and> s ! 8 = CHR ''.'')
        then Some (((h * 60 + m) * 60 + x) * 1000000 + us) else None)
   | _ \<Rightarrow> None)"

text \<open>The library reads further forms of time; the ones written here are these.\<close>

definition fromisoformat :: "string \<Rightarrow> nat res" where
  "fromisoformat s = (let n = length s - 6 in
     case (date_of (take 10 s), clock_of (drop 11 (take n s))) of
       (Some d, Some c) \<Rightarrow> if 17 < length s \<and> s ! 10 = CHR ''T'' \<and> drop n s = ''+00:00'' then Inr (d * DAY + c)
         else Inl (ValueError ''Invalid isoformat string'')
     | _ \<Rightarrow> Inl (ValueError ''Invalid isoformat string''))"

definition plus_seconds :: "nat \<Rightarrow> nat \<Rightarrow> nat res" where
  "plus_seconds t s = (if t + s * 1000000 < MAX_TIME then Inr (t + s * 1000000)
     else Inl (OtherError ''OverflowError''))"

subsection \<open>Reading back\<close>

lemma length_digits [simp]: "length (digits w n) = w"
  by (induction w arbitrary: n) auto

lemma read_digits_append: "read_digits a (xs @ ys) = (case read_digits a xs of None \<Rightarrow> None | Some b \<Rightarrow> read_digits b ys)"
  by (induction xs arbitrary: a) (auto simp: Let_def)

lemma read_digits_digits: "n < 10 ^ w \<Longrightarrow> read_digits 0 (digits w n) = Some n"
  by (induction w arbitrary: n) (auto simp: read_digits_append of_char_of Let_def less_mult_imp_div_less)

lemma days_before_Suc: "1 \<le> y \<Longrightarrow> days_before (Suc y) = days_before y + year_len y"
proof -
  assume "1 \<le> y"
  then obtain k where y: "y = Suc k" by (cases y) auto
  have le: "k div 100 \<le> k" by simp
  have d: "Suc k mod 400 = 0 \<Longrightarrow> Suc k mod 100 = 0" "Suc k mod 100 = 0 \<Longrightarrow> Suc k mod 4 = 0"
    by presburger+
  show ?thesis
    unfolding y days_before_def year_len_def leap_def diff_Suc_1 div_Suc
    by (use le d in \<open>simp add: ac_simps split: if_split\<close>)
qed

lemma year_from_days:
  "1 \<le> y \<Longrightarrow> year_from y n = (y', r) \<Longrightarrow> days_before y' + r = days_before y + n \<and> r < year_len y' \<and> y \<le> y'"
proof (induction y n rule: year_from.induct)
  case (1 y n)
  show ?case
  proof (cases "n < year_len y")
    case True
    then show ?thesis using "1.prems" by (simp add: year_from.simps [of y n])
  next
    case False
    then have "year_from (Suc y) (n - year_len y) = (y', r)"
      using "1.prems"(2) by (simp add: year_from.simps [of y n])
    with "1.IH" [OF False] show ?thesis using False "1.prems"(1) by (simp add: days_before_Suc)
  qed
qed

lemma days_before_mono: "1 \<le> y \<Longrightarrow> y \<le> y' \<Longrightarrow> days_before y \<le> days_before y'"
  by (induction y') (auto simp: days_before_Suc le_Suc_eq)

lemma month_from_sum:
  "n < sum_list ls \<Longrightarrow> month_from ls m n = (m', r) \<Longrightarrow>
   m \<le> m' \<and> m' < m + length ls \<and> r < ls ! (m' - m) \<and> sum_list (take (m' - m) ls) + r = n"
proof (induction ls m n rule: month_from.induct)
  case (1 l ls m n)
  show ?case
  proof (cases "n < l")
    case False
    with "1.prems" "1.IH" have "Suc m \<le> m' \<and> m' < Suc m + length ls \<and> r < ls ! (m' - Suc m)
        \<and> sum_list (take (m' - Suc m) ls) + r = n - l" by simp
    moreover from this have "m' - m = Suc (m' - Suc m)" by arith
    ultimately show ?thesis using False by (auto simp: Suc_diff_le)
  qed (use "1.prems" in simp)
qed simp

lemma sum_month_lens: "sum_list (month_lens y) = year_len y"
  by (simp add: month_lens_def year_len_def)

lemma length_month_lens [simp]: "length (month_lens y) = 12"
  by (simp add: month_lens_def)

lemma month_len_bound: "i < 12 \<Longrightarrow> month_lens y ! i \<le> 31"
proof -
  have "\<forall>l \<in> set (month_lens y). l \<le> 31" by (simp add: month_lens_def)
  moreover assume "i < 12"
  ultimately show ?thesis by simp
qed

lemma cut_digits: "n < 10 ^ w \<Longrightarrow> length xs = i \<Longrightarrow> cut i w (xs @ digits w n @ ys) = Some n"
  by (simp add: cut_def read_digits_digits)


lemma date_roundtrip:
  assumes "n < 3652059"
  shows "length (iso_date n) = 10" and "date_of (iso_date n) = Some n"
proof -
  obtain y r where yr: "year_from 1 n = (y, r)" by fastforce
  obtain m d where md: "month_from (month_lens y) 1 r = (m, d)" by fastforce
  have y: "days_before y + r = n" "r < year_len y" "1 \<le> y"
    using year_from_days [OF _ yr] by (simp_all add: days_before_def)
  have m: "1 \<le> m" "m < 13" "d < month_lens y ! (m - 1)" "sum_list (take (m - 1) (month_lens y)) + d = r"
    using month_from_sum [OF _ md] y(2) by (simp_all add: sum_month_lens)
  have "days_before 10000 = 3652059" by (simp add: days_before_def)
  then have "y < 10000" using days_before_mono [of 10000 y] y(1) assms by (cases "y < 10000") auto
  moreover have "Suc d \<le> 31" proof -
    have "m - 1 < 12" using m by arith
    then show ?thesis using month_len_bound [of "m - 1" y] m by simp
  qed
  ultimately have range: "y < 10 ^ 4" "m < 10 ^ 2" "Suc d < 10 ^ 2" using m(2) by simp_all
  let ?s = "digits 4 y @ ''-'' @ digits 2 m @ ''-'' @ digits 2 (Suc d)"
  have s: "iso_date n = ?s" by (simp only: iso_date_def yr md prod.case)
  then show "length (iso_date n) = 10" by simp
  have "cut 0 4 ?s = Some y" "cut 5 2 ?s = Some m" "cut 8 2 ?s = Some (Suc d)"
    using cut_digits [OF range(1), of "[]" 0] cut_digits [OF range(2), of "digits 4 y @ ''-''" 5]
      cut_digits [OF range(3), of "digits 4 y @ ''-'' @ digits 2 m @ ''-''" 8 "[]"] by simp_all
  then show "date_of (iso_date n) = Some n"
    using y m by (simp add: s date_of_def opts_def nth_append)
qed

lemma clock_roundtrip:
  assumes "n < DAY"
  shows "length (iso_clock n) = 8 \<or> length (iso_clock n) = 15" and "clock_of (iso_clock n) = Some n"
proof -
  define s h m x us where defs: "s = n div 1000000" "h = s div 3600" "m = s div 60 mod 60" "x = s mod 60" "us = n mod 1000000"
  have "s < 86400" using assms by (simp add: defs DAY_def less_mult_imp_div_less)
  then have range: "h < 24" "m < 60" "x < 60" "us < 1000000" by (simp_all add: defs(2-5) less_mult_imp_div_less)
  then have cuts: "cut 0 2 (digits 2 h @ ys) = Some h" "cut 3 2 (digits 2 h @ '':'' @ digits 2 m @ ys) = Some m"
    "cut 6 2 (digits 2 h @ '':'' @ digits 2 m @ '':'' @ digits 2 x @ ys) = Some x"
    "cut 9 6 (digits 2 h @ '':'' @ digits 2 m @ '':'' @ digits 2 x @ ''.'' @ digits 6 us) = Some us" for ys
    using cut_digits [of h 2 "[]" 0] cut_digits [of m 2 "digits 2 h @ '':''" 3]
      cut_digits [of x 2 "digits 2 h @ '':'' @ digits 2 m @ '':''" 6]
      cut_digits [of us 6 "digits 2 h @ '':'' @ digits 2 m @ '':'' @ digits 2 x @ ''.''" 9 "[]"] by simp_all
  have "s div 3600 = s div 60 div 60" by (simp add: div_mult2_eq)
  then have "(h * 60 + m) * 60 + x = s" by (simp add: defs(2-4))
  then have n: "((h * 60 + m) * 60 + x) * 1000000 + us = n" by (simp add: defs(1,5))
  let ?u = "if us = 0 then [] else ''.'' @ digits 6 us"
  have s: "iso_clock n = digits 2 h @ '':'' @ digits 2 m @ '':'' @ digits 2 x @ ?u"
    by (simp add: iso_clock_def Let_def defs)
  then show "length (iso_clock n) = 8 \<or> length (iso_clock n) = 15" by simp
  show "clock_of (iso_clock n) = Some n"
    using range n cuts(1) [of "'':'' @ digits 2 m @ '':'' @ digits 2 x @ ?u"]
      cuts(2) [of "'':'' @ digits 2 x @ ?u"] cuts(3) [of ?u] cuts(4)
    by (simp add: s clock_of_def opts_def nth_append)
qed

lemma time_roundtrip: "t < MAX_TIME \<Longrightarrow> fromisoformat (isoformat t) = Inr t"
proof -
  assume "t < MAX_TIME"
  then have day: "t div DAY < 3652059" by (simp add: MAX_TIME_def DAY_def less_mult_imp_div_less)
  have clock: "t mod DAY < DAY" by (simp add: DAY_def)
  note d = date_roundtrip [OF day] and c = clock_roundtrip [OF clock]
  have l: "length (iso_date (t div DAY)) = 10" by (rule d)
  show ?thesis
    using c(1) by (auto simp: fromisoformat_def isoformat_def Let_def l d(2) c(2) nth_append)
qed

end
