(* ===== verification/Approvals.thy ===== *)
theory Approvals
  imports Stores PyTime
begin

text \<open>
  Signed approvals: \<open>python/urp/approval_store.py\<close>. A store is its signing-key file and the
  JSON object of each approval file. The time of the call, the new identifier and the random
  key are arguments; \<open>env\<close> is the environment variable \<open>URP_APPROVAL_SIGNING_KEY\<close>. \<open>hmac\<close> is
  the standard construction over SHA-256.
\<close>

subsection \<open>Records\<close>

record approval =
  ap_approval_id :: string
  ap_tenant :: string
  ap_actor :: string
  ap_contract :: string
  ap_policy_bundle_id :: string
  ap_created_at :: string
  ap_expires_at :: string
  ap_work_unit_id :: "string option"
  ap_reason :: string
  ap_signature :: string

definition approval_payload :: "approval \<Rightarrow> pydict" where
  "approval_payload a = [
     (''approval_id'', PStr (ap_approval_id a)), (''tenant'', PStr (ap_tenant a)),
     (''actor'', PStr (ap_actor a)), (''contract'', PStr (ap_contract a)),
     (''policy_bundle_id'', PStr (ap_policy_bundle_id a)), (''created_at'', PStr (ap_created_at a)),
     (''expires_at'', PStr (ap_expires_at a)), (''work_unit_id'', opt_value (ap_work_unit_id a)),
     (''reason'', PStr (ap_reason a))]"

definition approval_to_dict :: "approval \<Rightarrow> pydict" where
  "approval_to_dict a = approval_payload a @ [(''signature'', PStr (ap_signature a))]"

definition approval_fields :: "string list" where
  "approval_fields = [''approval_id'', ''tenant'', ''actor'', ''contract'', ''policy_bundle_id'', ''created_at'',
     ''expires_at'', ''work_unit_id'', ''reason'', ''signature'']"

text \<open>\<open>ApprovalRecord(**data)\<close>: unknown and missing keywords are a \<open>TypeError\<close>.\<close>

definition keyword :: "pydict \<Rightarrow> string \<Rightarrow> string res" where
  "keyword d k = (case dget d k of None \<Rightarrow> Inl (TypeError (''missing argument '' @ k)) | Some v \<Rightarrow> as_str v)"

definition approval_from_dict :: "pydict \<Rightarrow> approval res" where
  "approval_from_dict d =
     bindR (guardR (set (dkeys d) \<subseteq> set approval_fields) (TypeError ''unexpected keyword argument'')) (\<lambda>_.
     bindR (keyword d ''approval_id'') (\<lambda>ident. bindR (keyword d ''tenant'') (\<lambda>tn.
     bindR (keyword d ''actor'') (\<lambda>actor. bindR (keyword d ''contract'') (\<lambda>contract.
     bindR (keyword d ''policy_bundle_id'') (\<lambda>pb. bindR (keyword d ''created_at'') (\<lambda>created.
     bindR (keyword d ''expires_at'') (\<lambda>expires. bindR (as_opt_str (get_value d ''work_unit_id'')) (\<lambda>wu.
     bindR (as_str (get_default d ''reason'' (PStr []))) (\<lambda>reason.
     bindR (as_str (get_default d ''signature'' (PStr []))) (\<lambda>sig.
     Inr \<lparr>ap_approval_id = ident, ap_tenant = tn, ap_actor = actor, ap_contract = contract,
       ap_policy_bundle_id = pb, ap_created_at = created, ap_expires_at = expires, ap_work_unit_id = wu,
       ap_reason = reason, ap_signature = sig\<rparr>)))))))))))"

subsection \<open>The signing key\<close>

record approval_state =
  as_key_file :: "string option"
  as_files :: json_files

definition ascii_space :: "char \<Rightarrow> bool" where
  "ascii_space c = (of_char c \<in> {9, 10, 11, 12, 13, 32 :: nat})"

definition bytes_strip :: "string \<Rightarrow> string" where
  "bytes_strip s = rev (dropWhile ascii_space (rev (dropWhile ascii_space s)))"

definition decode_key :: "string \<Rightarrow> (bytes \<Rightarrow> bool) \<Rightarrow> string \<Rightarrow> bytes res" where
  "decode_key s ok msg = (case b64decode s of None \<Rightarrow> Inl (ValueError ''Non-base64 digit found'')
     | Some k \<Rightarrow> if ok k then Inr k else Inl (ValueError msg))"

definition signing_key :: "string option \<Rightarrow> bytes \<Rightarrow> (bytes, approval_state) sres" where
  "signing_key env random = (\<lambda>st. case given env of
     Some s \<Rightarrow> (decode_key s (\<lambda>k. 32 \<le> length k) ''URP_APPROVAL_SIGNING_KEY must decode to at least 32 bytes'', st)
   | None \<Rightarrow>
       (let text = (case as_key_file st of None \<Rightarrow> b64encode random @ [char_of (10::nat)] | Some s \<Rightarrow> s)
        in (decode_key (bytes_strip text) (\<lambda>k. length k = 32) ''local approval signing key is invalid'', st\<lparr>as_key_file := Some text\<rparr>)))"

definition hmac_sha256 :: "bytes \<Rightarrow> bytes \<Rightarrow> bytes" where
  "hmac_sha256 key msg =
     (let k = (if 64 < length key then sha256 key else key); block = k @ replicate (64 - length k) 0
      in sha256 (map (\<lambda>b. b XOR 0x5c) block @ sha256 (map (\<lambda>b. b XOR 0x36) block @ msg)))"

definition sign_with :: "bytes \<Rightarrow> pydict \<Rightarrow> string" where
  "sign_with key payload = hex_bytes (hmac_sha256 key (utf8 (stable_json_hash (PDict payload))))"

definition compare_digest :: "string \<Rightarrow> string \<Rightarrow> bool res" where
  "compare_digest a b = (if list_all (\<lambda>c. of_char c < (128::nat)) (a @ b) then Inr (a = b)
     else Inl (TypeError ''comparing strings with non-ASCII characters is not supported''))"

subsection \<open>Operations\<close>

definition approval_id_ok :: "string \<Rightarrow> string res" where
  "approval_id_ok i = validate_identifier i ''approval id'' (Some ''appr_'')"

definition check_request :: "ctx \<Rightarrow> string \<Rightarrow> string \<Rightarrow> string \<Rightarrow> string \<Rightarrow> string option \<Rightarrow> int \<Rightarrow> unit res" where
  "check_request c tn actor pb reason wu ttl =
     bindR (guardR (0 < ttl \<and> ttl \<le> 86400) (ValueError ''approval ttl_seconds must be between 1 and 86400'')) (\<lambda>_.
     bindR (guardR (py_strip tn \<noteq> [] \<and> py_strip actor \<noteq> [] \<and> py_strip reason \<noteq> [])
       (ValueError ''approval tenant, actor, and reason are required'')) (\<lambda>_.
     bindR (guardR (length reason \<le> 2048) (ValueError ''approval reason must be at most 2048 characters'')) (\<lambda>_.
     bindR (validate_identifier pb ''policy bundle id'' None) (\<lambda>_.
     bindR (case given wu of None \<Rightarrow> Inr [] | Some w \<Rightarrow> validate_identifier w ''work unit id'' (Some ''wu_'')) (\<lambda>_.
     enforce_tenant c tn)))))"

definition signed :: "bytes \<Rightarrow> approval \<Rightarrow> approval" where
  "signed key a = a\<lparr>ap_signature := sign_with key (approval_payload a)\<rparr>"

definition approval_issue :: "ctx \<Rightarrow> string option \<Rightarrow> bytes \<Rightarrow> string \<Rightarrow> nat \<Rightarrow> string \<Rightarrow> string \<Rightarrow> string \<Rightarrow> string \<Rightarrow> string
    \<Rightarrow> string option \<Rightarrow> int \<Rightarrow> (approval, approval_state) sres" where
  "approval_issue c env random fresh now tn actor contract pb reason wu ttl =
     thenS (liftR (check_request c tn actor pb reason wu ttl))
     (bindS (liftR (contract_of contract)) (\<lambda>ct.
      bindS (liftR (plus_seconds now (nat ttl))) (\<lambda>expires.
      (let unsigned = \<lparr>ap_approval_id = fresh, ap_tenant = tn, ap_actor = actor, ap_contract = contract_value ct,
             ap_policy_bundle_id = pb, ap_created_at = isoformat now, ap_expires_at = isoformat expires,
             ap_work_unit_id = wu, ap_reason = reason, ap_signature = []\<rparr>
       in bindS (signing_key env random) (\<lambda>key.
          (let record = signed key unsigned
           in thenS (liftR (approval_id_ok fresh))
             (\<lambda>st. (Inr record, st\<lparr>as_files := dset fresh (jfile_dict (approval_to_dict record)) (as_files st)\<rparr>))))))))"

definition check_signature :: "string option \<Rightarrow> bytes \<Rightarrow> approval \<Rightarrow> (approval, approval_state) sres" where
  "check_signature env random r = bindS (signing_key env random) (\<lambda>key.
     liftR (bindR (compare_digest (ap_signature r) (sign_with key (approval_payload r))) (\<lambda>same.
       if same then Inr r else Inl (ValueError ''approval signature verification failed''))))"

definition approval_get :: "string option \<Rightarrow> bytes \<Rightarrow> string \<Rightarrow> (approval, approval_state) sres" where
  "approval_get env random i = thenS (liftR (approval_id_ok i)) (\<lambda>st. case dget (as_files st) i of
     None \<Rightarrow> (Inl (FileNotFoundError (i @ ''.json'')), st)
   | Some d \<Rightarrow> bindS (liftR (approval_from_dict d)) (check_signature env random) st)"

definition approval_list :: "ctx \<Rightarrow> string option \<Rightarrow> bytes \<Rightarrow> string option \<Rightarrow> (approval list, approval_state) sres" where
  "approval_list c env random tn = (\<lambda>st.
     bindS (mapS (\<lambda>kv. bindS (liftR (approval_from_dict (snd kv))) (check_signature env random))
       (sorted_files ''appr_'' (as_files st)))
     (\<lambda>rs. retS (filter (\<lambda>r. case chosen_tenant c tn of None \<Rightarrow> True | Some t \<Rightarrow> ap_tenant r = t) rs)) st)"

definition approval_fits :: "nat \<Rightarrow> work_unit \<Rightarrow> contract \<Rightarrow> string \<Rightarrow> approval \<Rightarrow> approval res" where
  "approval_fits now wu ct pb r =
     bindR (fromisoformat (ap_expires_at r)) (\<lambda>expires.
     bindR (guardR (now < expires) (ValueError ''approval has expired'')) (\<lambda>_.
     bindR (guardR (ap_tenant r = wu_tenant wu) (ValueError ''approval tenant does not match work unit'')) (\<lambda>_.
     bindR (guardR (wants (ap_work_unit_id r) (Some (wu_id wu))) (ValueError ''approval is bound to another work unit'')) (\<lambda>_.
     bindR (guardR (ap_contract r = contract_value ct) (ValueError ''approval contract does not match policy decision'')) (\<lambda>_.
     bindR (guardR (ap_policy_bundle_id r = pb) (ValueError ''approval policy bundle does not match policy decision'')) (\<lambda>_.
     Inr r))))))"

definition approval_verify :: "string option \<Rightarrow> bytes \<Rightarrow> nat \<Rightarrow> string \<Rightarrow> work_unit \<Rightarrow> contract \<Rightarrow> string
    \<Rightarrow> (approval, approval_state) sres" where
  "approval_verify env random now i wu ct pb =
     bindS (approval_get env random i) (\<lambda>r. liftR (approval_fits now wu ct pb r))"

subsection \<open>What a signature and an approval are worth\<close>

lemma signing_key_stable:
  "signing_key env r st = (Inr k, st') \<Longrightarrow> signing_key env r' (st'\<lparr>as_files := fs\<rparr>) = (Inr k, st'\<lparr>as_files := fs\<rparr>)"
  by (auto simp: signing_key_def Let_def split: option.splits)

lemma signing_key_files: "signing_key env r st = (res, st') \<Longrightarrow> as_files st' = as_files st"
  by (auto simp: signing_key_def Let_def split: option.splits)

lemma sign_with_hex: "\<exists>bs. sign_with k d = sha256_hex bs"
  by (auto simp: sign_with_def hmac_sha256_def sha256_hex_def Let_def)

lemma hex_ascii: "c \<in> set (sha256_hex bs) \<Longrightarrow> of_char c < (128::nat)"
proof -
  have "\<forall>c \<in> set ''0123456789abcdef''. of_char c < (128::nat)" by simp
  then show "c \<in> set (sha256_hex bs) \<Longrightarrow> of_char c < (128::nat)"
    using sha256_hex_chars unfolding hex_chars_def by blast
qed

lemma compare_own [simp]: "compare_digest (sign_with k d) (sign_with k d) = Inr True"
proof -
  obtain bs where "sign_with k d = sha256_hex bs" using sign_with_hex by blast
  then show ?thesis using hex_ascii by (simp add: compare_digest_def list_all_iff)
qed

lemma compare_true: "compare_digest a b = Inr True \<Longrightarrow> a = b"
  by (simp add: compare_digest_def split: if_splits)

lemma approval_payload_signature [simp]: "approval_payload (a\<lparr>ap_signature := s\<rparr>) = approval_payload a"
  by (simp add: approval_payload_def)

lemma signed_fields [simp]:
  "ap_signature (signed k a) = sign_with k (approval_payload (signed k a))"
  "ap_approval_id (signed k a) = ap_approval_id a" "ap_tenant (signed k a) = ap_tenant a"
  "ap_contract (signed k a) = ap_contract a" "ap_policy_bundle_id (signed k a) = ap_policy_bundle_id a"
  "ap_expires_at (signed k a) = ap_expires_at a" "ap_work_unit_id (signed k a) = ap_work_unit_id a"
  by (simp_all add: signed_def)

lemma approval_reads_back: "approval_from_dict (jfile_dict (approval_to_dict a)) = Inr a"
proof -
  have "set (dkeys (approval_to_dict a)) = set approval_fields"
    by (simp add: dkeys_def approval_to_dict_def approval_payload_def approval_fields_def)
  then show ?thesis
    by (simp add: approval_from_dict_def keyword_def get_value_def get_default_def)
      (simp add: approval_to_dict_def approval_payload_def)
qed

lemma approval_get_Inr:
  "approval_get env r i st = (Inr a, st') \<Longrightarrow> \<exists>d key. dget (as_files st) i = Some d \<and> approval_from_dict d = Inr a
     \<and> signing_key env r st = (Inr key, st') \<and> ap_signature a = sign_with key (approval_payload a)"
  by (auto simp: approval_get_def check_signature_def effect_simps split: option.splits bool.splits if_splits
      dest!: compare_true)

lemma issued_reads_back:
  assumes "approval_issue c env r fresh now tn actor contract pb reason wu ttl st = (Inr a, st')"
  shows "approval_get env r' (ap_approval_id a) st' = (Inr a, st')"
proof -
  obtain key st1 where key: "signing_key env r st = (Inr key, st1)"
    and a: "ap_signature a = sign_with key (approval_payload a)" "ap_approval_id a = fresh"
    and ok: "\<exists>x. approval_id_ok fresh = Inr x"
    and st': "st' = st1\<lparr>as_files := dset fresh (jfile_dict (approval_to_dict a)) (as_files st1)\<rparr>"
    using assms by (auto simp: approval_issue_def Let_def effect_simps)
  have "signing_key env r' st' = (Inr key, st')"
    unfolding st' by (rule signing_key_stable [OF key])
  then have "check_signature env r' a st' = (Inr a, st')"
    by (simp add: check_signature_def a(1) liftR_def)
  then show ?thesis
    using ok by (auto simp: approval_get_def thenS_def bindS_def liftR_def a(2) st' approval_reads_back)
qed

lemma approval_verify_iff:
  assumes "approval_issue c env r fresh now tn actor contract pb reason wu ttl st = (Inr a, st')"
  shows "(fst (approval_verify env r' now' (ap_approval_id a) work ct pb' st') = Inr x)
    = (x = a \<and> now' < now + nat ttl * 1000000 \<and> wu_tenant work = tn \<and> wants wu (Some (wu_id work))
       \<and> contract = contract_value ct \<and> pb' = pb)"
proof -
  obtain ct' expires where ct: "contract_of contract = Inr ct'" and ex: "plus_seconds now (nat ttl) = Inr expires"
    and a: "ap_contract a = contract_value ct'" "ap_expires_at a = isoformat expires" "ap_tenant a = tn"
      "ap_work_unit_id a = wu" "ap_policy_bundle_id a = pb"
    using assms by (auto simp: approval_issue_def Let_def effect_simps)
  have e: "expires = now + nat ttl * 1000000" "expires < MAX_TIME"
    using ex by (auto simp: plus_seconds_def split: if_splits)
  have "contract_value ct' = contract"
    using ct by (auto simp: contract_of_def find_Some_iff split: option.splits)
  then show ?thesis
    by (auto simp: approval_verify_def bindS_def issued_reads_back [OF assms] liftR_def approval_fits_def
        effect_simps a time_roundtrip e(1) time_roundtrip [OF e(2), unfolded e(1)])
qed

text \<open>
  C18 (functional). An approval is worth exactly what it was issued for: an issued approval
  verifies, with the record unchanged, exactly before \<open>ttl\<close> seconds have passed, for a work
  unit of its tenant (the one it names, if it names one), for its contract and its policy
  bundle; in every other case verification raises. Whatever key setting is in force, the key
  created when the approval was issued is the one it is checked with.
\<close>

theorem approval_verifies_exactly:
  assumes "approval_issue c env r fresh now tn actor contract pb reason wu ttl st = (Inr a, st')"
  shows "(fst (approval_verify env r' now' (ap_approval_id a) work ct pb' st') = Inr x)
    = (x = a \<and> now' < now + nat ttl * 1000000 \<and> wu_tenant work = tn \<and> wants wu (Some (wu_id work))
       \<and> contract = contract_value ct \<and> pb' = pb)"
  by (rule approval_verify_iff [OF assms])

text \<open>
  Only signed approvals verify: whatever the files hold, a record that verifies
  is one whose stored signature is the HMAC of its other fields under the key in force, that
  has not expired, and that names the work unit's tenant, the contract and the bundle.
\<close>

theorem approvals_are_signed:
  assumes "approval_verify env r now i work ct pb st = (Inr a, st')"
  shows "\<exists>key st1 expires. signing_key env r st = (Inr key, st1)
    \<and> ap_signature a = sign_with key (approval_payload a)
    \<and> fromisoformat (ap_expires_at a) = Inr expires \<and> now < expires
    \<and> ap_tenant a = wu_tenant work \<and> ap_contract a = contract_value ct \<and> ap_policy_bundle_id a = pb
    \<and> (\<forall>w. given (ap_work_unit_id a) = Some w \<longrightarrow> w = wu_id work)"
  using assms
  by (auto simp: approval_verify_def approval_fits_def effect_simps wants_def dest!: approval_get_Inr split: option.splits)

subsection \<open>Samples\<close>

definition no_approvals :: approval_state where
  "no_approvals = \<lparr>as_key_file = None, as_files = []\<rparr>"

lemma b64_no_space: "c \<in> set (b64encode bs) \<Longrightarrow> \<not> ascii_space c"
proof -
  have "\<not> ascii_space (b64_char n)" for n
    by (auto simp: b64_char_def ascii_space_def of_char_of)
  moreover have "\<not> ascii_space (CHR ''='')" by (simp add: ascii_space_def)
  ultimately show "c \<in> set (b64encode bs) \<Longrightarrow> \<not> ascii_space c"
    by (induction bs rule: b64encode.induct) (auto simp: Let_def)
qed

lemma strip_key: "bytes_strip (b64encode bs @ [char_of (10::nat)]) = b64encode bs"
proof -
  have drop: "dropWhile ascii_space xs = xs" if "\<forall>c \<in> set xs. \<not> ascii_space c" for xs
    using that by (cases xs) auto
  have nl: "ascii_space (char_of (10::nat))" by (simp add: ascii_space_def)
  show ?thesis
  proof (cases "b64encode bs")
    case Nil
    then show ?thesis by (simp add: bytes_strip_def nl)
  next
    case (Cons x xs)
    then have "\<not> ascii_space x" using b64_no_space [of x bs] by simp
    then show ?thesis using b64_no_space [of _ bs] by (simp add: bytes_strip_def Cons nl) (subst drop; simp add: Cons [symmetric])
  qed
qed

lemma sample_key: "\<exists>st. signing_key None (replicate 32 0) no_approvals = (Inr (replicate 32 0), st)"
proof -
  have "decode_key (bytes_strip (b64encode (replicate 32 0) @ [char_of (10::nat)])) (\<lambda>k. length k = 32) m
      = Inr (replicate 32 0)" for m
    by (simp add: strip_key decode_key_def b64_roundtrip)
  then show ?thesis by (simp add: signing_key_def given_def no_approvals_def Let_def)
qed

lemma sample_request: "check_request None ''acme'' ''alice'' ''default'' ''quarterly review'' None 900 = Inr ()"
  by code_simp

lemma sample_id: "approval_id_ok ''appr_1'' = Inr ''appr_1''"
  by code_simp

lemma sample_issue: "\<exists>a st. approval_issue None None (replicate 32 0) ''appr_1'' 0 ''acme'' ''alice'' ''exact_bytes'' ''default''
    ''quarterly review'' None 900 no_approvals = (Inr a, st)"
proof -
  obtain st where k: "signing_key None (replicate 32 0) no_approvals = (Inr (replicate 32 0), st)"
    using sample_key by blast
  have ct: "contract_of ''exact_bytes'' = Inr EXACT_BYTES" by code_simp
  have t: "plus_seconds 0 900 = Inr 900000000" by (simp add: plus_seconds_def MAX_TIME_def DAY_def)
  show ?thesis
    by (intro exI) (simp add: approval_issue_def thenS_def bindS_def liftR_def sample_request ct t k sample_id Let_def)
qed

theorem approval_verifies_exactly_witness:
  "\<exists>a st. fst (approval_verify None [] 899999999 (ap_approval_id a) sample_work_unit EXACT_BYTES ''default'' st) = Inr a
    \<and> fst (approval_verify None [] 900000000 (ap_approval_id a) sample_work_unit EXACT_BYTES ''default'' st) \<noteq> Inr a"
proof -
  obtain a st where "approval_issue None None (replicate 32 0) ''appr_1'' 0 ''acme'' ''alice'' ''exact_bytes'' ''default''
    ''quarterly review'' None 900 no_approvals = (Inr a, st)"
    using sample_issue by blast
  then show ?thesis
    by (intro exI [of _ a] exI [of _ st])
      (simp add: approval_verifies_exactly wants_def given_def, simp add: sample_work_unit_def)
qed

theorem approvals_are_signed_witness: "\<exists>a key. ap_signature a = sign_with key (approval_payload a) \<and> ap_tenant a = ''acme''"
proof -
  obtain a st where "approval_issue None None (replicate 32 0) ''appr_1'' 0 ''acme'' ''alice'' ''exact_bytes'' ''default''
    ''quarterly review'' None 900 no_approvals = (Inr a, st)"
    using sample_issue by blast
  then have "fst (approval_verify None [] 0 (ap_approval_id a) sample_work_unit EXACT_BYTES ''default'' st) = Inr a"
    by (simp add: approval_verify_iff wants_def given_def) (simp add: sample_work_unit_def)
  then obtain st' where "approval_verify None [] 0 (ap_approval_id a) sample_work_unit EXACT_BYTES ''default'' st = (Inr a, st')"
    by (metis prod.collapse)
  from approvals_are_signed [OF this] show ?thesis by (auto simp: sample_work_unit_def)
qed

end
