(* ===== verification/Runtime.thy ===== *)
theory Runtime
  imports ChunkStore PolicyStore Approvals
begin

text \<open>
  What the operations of the service share: the state directory with all its stores
  (\<open>world\<close>), the surroundings of a call (\<open>env\<close>: principal, environment variables, fresh
  identifiers, clock, and the parameters of the model), \<open>python/urp/config.py\<close>, and the calls
  that leave a trace in the ledger, the log, the spans and the counters.
\<close>

subsection \<open>State and surroundings\<close>

text \<open>\<open>w_policies\<close> holds the ledger of the state directory; \<open>w_drawn\<close> counts the identifiers drawn.\<close>

record world =
  w_chunks :: chunk_store
  w_manifests :: json_files
  w_plans :: json_files
  w_policies :: policy_state
  w_approvals :: approval_state
  w_logs :: log_rows
  w_traces :: trace_rows
  w_metrics :: metrics
  w_drawn :: nat

text \<open>\<open>e_float\<close> is the float a real number rounds to.\<close>

record env =
  e_ctx :: ctx
  e_vars :: "string \<Rightarrow> string option"
  e_ids :: "string \<Rightarrow> nat \<Rightarrow> string"
  e_clock :: "nat \<Rightarrow> string"
  e_now :: nat
  e_random :: bytes
  e_schemas :: schemas
  e_zip :: compressor
  e_float :: "real \<Rightarrow> pyval"

type_synonym 'a io = "('a, world) sres"

text \<open>An operation on a part of the state.\<close>

definition zoom :: "('w \<Rightarrow> 's) \<Rightarrow> ('s \<Rightarrow> 'w \<Rightarrow> 'w) \<Rightarrow> ('a, 's) sres \<Rightarrow> ('a, 'w) sres" where
  "zoom get put m = (\<lambda>w. case m (get w) of (r, s) \<Rightarrow> (r, put s w))"

definition w_ledger :: "world \<Rightarrow> ledger_rows" where
  "w_ledger w = ps_ledger (w_policies w)"

definition on_ledger :: "('a, ledger_rows) sres \<Rightarrow> 'a io" where
  "on_ledger = zoom w_ledger (\<lambda>l w. w\<lparr>w_policies := (w_policies w)\<lparr>ps_ledger := l\<rparr>\<rparr>)"

definition on_chunks :: "('a, chunk_store) sres \<Rightarrow> 'a io" where
  "on_chunks = zoom w_chunks (\<lambda>s w. w\<lparr>w_chunks := s\<rparr>)"

definition on_manifests :: "('a, json_files) sres \<Rightarrow> 'a io" where
  "on_manifests = zoom w_manifests (\<lambda>s w. w\<lparr>w_manifests := s\<rparr>)"

definition on_approvals :: "('a, approval_state) sres \<Rightarrow> 'a io" where
  "on_approvals = zoom w_approvals (\<lambda>s w. w\<lparr>w_approvals := s\<rparr>)"

definition draw :: "nat io" where
  "draw = (\<lambda>w. (Inr (w_drawn w), w\<lparr>w_drawn := Suc (w_drawn w)\<rparr>))"

definition inspect :: "(world \<Rightarrow> 'a res) \<Rightarrow> 'a io" where
  "inspect f = (\<lambda>w. (f w, w))"

subsection \<open>Configuration\<close>

definition execution_mode :: "env \<Rightarrow> string option \<Rightarrow> string res" where
  "execution_mode en requested =
     (let mode = py_lower (py_strip (case given requested of Some s \<Rightarrow> s
        | None \<Rightarrow> (case e_vars en ''URP_MODE'' of Some s \<Rightarrow> s | None \<Rightarrow> ''enforce'')))
      in if mode \<in> set modes then Inr mode else Inl (ValueError ''mode must be observe, shadow, or enforce''))"

definition require_execution_enabled :: "env \<Rightarrow> string option \<Rightarrow> unit res" where
  "require_execution_enabled en wu =
     (if py_lower (py_strip (case e_vars en ''URP_EXECUTION_DISABLED'' of Some s \<Rightarrow> s | None \<Rightarrow> []))
         \<in> {''1'', ''true'', ''yes'', ''on''}
      then Inl (policy_denied ''execution is disabled for this control-plane deployment'' wu None) else Inr ())"

subsection \<open>Leaving traces\<close>

text \<open>\<open>default_ledger(state).append(LedgerEvent(...))\<close> for an event with fresh identifier and time.\<close>

definition event_draft :: "string \<Rightarrow> string \<Rightarrow> string option \<Rightarrow> ledger_event" where
  "event_draft ty tn wu = \<lparr>ev_event_type = ty, ev_tenant = tn, ev_work_unit_id = wu, ev_manifest_id = None,
     ev_policy_bundle_id = None, ev_actor = None, ev_decision = None, ev_details = [], ev_trace_id = None,
     ev_prev_hash = None, ev_event_id = [], ev_created_at = [], ev_event_hash = None\<rparr>"

definition append_event :: "env \<Rightarrow> ledger_event \<Rightarrow> ledger_event io" where
  "append_event en e = bindS draw (\<lambda>n. on_ledger (ledger_append (e_schemas en) (e_ctx en)
     (e\<lparr>ev_event_id := e_ids en ''evt'' n, ev_created_at := e_clock en n\<rparr>)))"

definition log_draft :: "string \<Rightarrow> string \<Rightarrow> log_entry" where
  "log_draft ty message = \<lparr>le_severity = ''info'', le_event_type = ty, le_message = message, le_tenant = None,
     le_work_unit_id = None, le_manifest_id = None, le_policy_bundle_id = None, le_trace_id = None,
     le_error_code = None, le_details = [], le_log_id = [], le_created_at = []\<rparr>"

definition emit_log :: "env \<Rightarrow> log_entry \<Rightarrow> log_entry io" where
  "emit_log en e = bindS draw (\<lambda>n. zoom w_logs (\<lambda>l w. w\<lparr>w_logs := l\<rparr>)
     (log_append (e_ctx en) (e\<lparr>le_log_id := e_ids en ''log'' n, le_created_at := e_clock en n\<rparr>)))"

definition emit_span :: "env \<Rightarrow> string \<Rightarrow> string \<Rightarrow> pydict \<Rightarrow> trace_span io" where
  "emit_span en nm trace attributes = bindS draw (\<lambda>n. zoom w_traces (\<lambda>l w. w\<lparr>w_traces := l\<rparr>)
     (trace_append (e_ctx en) \<lparr>ts_name = nm, ts_trace_id = trace, ts_span_id = e_ids en ''sp'' n, ts_parent = None,
        ts_attributes = attributes, ts_started_at = e_clock en n, ts_ended_at = e_clock en n\<rparr>))"

definition count :: "string \<Rightarrow> int \<Rightarrow> unit io" where
  "count nm v = zoom w_metrics (\<lambda>m w. w\<lparr>w_metrics := m\<rparr>) (metric_inc nm v)"

text \<open>\<open>store_plan_with_audit\<close> on the state directory.\<close>

definition store_plan :: "env \<Rightarrow> plan \<Rightarrow> work_unit \<Rightarrow> string option \<Rightarrow> pydict \<Rightarrow> plan io" where
  "store_plan en p wu who extra = (\<lambda>w. bindS draw (\<lambda>n. zoom (\<lambda>w. (w_plans w, w_ledger w))
       (\<lambda>s w. w\<lparr>w_plans := fst s, w_policies := (w_policies w)\<lparr>ps_ledger := snd s\<rparr>\<rparr>)
       (store_plan_with_audit (e_schemas en) (e_ctx en) (e_ids en ''evt'' n, e_clock en n) p wu who extra)) w)"

subsection \<open>What an operation keeps\<close>

text \<open>\<open>keeps I m\<close>: the operation keeps \<open>I\<close>, whether it succeeds or raises.\<close>

definition keeps :: "('s \<Rightarrow> bool) \<Rightarrow> ('a, 's) sres \<Rightarrow> bool" where
  "keeps I m = (\<forall>s. I s \<longrightarrow> I (snd (m s)))"

lemma keepsD: "keeps I m \<Longrightarrow> I s \<Longrightarrow> m s = (r, s') \<Longrightarrow> I s'"
  by (force simp: keeps_def)

lemma keepsI: "(\<And>s r s'. I s \<Longrightarrow> m s = (r, s') \<Longrightarrow> I s') \<Longrightarrow> keeps I m"
  by (metis keeps_def prod.collapse)

lemma keeps_liftR [keeps_rules]: "keeps I (liftR r)"
  by (simp add: keeps_def liftR_def)

lemma keeps_retS [keeps_rules]: "keeps I (retS x)"
  by (simp add: keeps_def retS_def)

lemma keeps_raiseS [keeps_rules]: "keeps I (raiseS e)"
  by (simp add: keeps_def raiseS_def)

lemma keeps_inspect [keeps_rules]: "keeps I (inspect f)"
  by (simp add: keeps_def inspect_def)

lemma keeps_bindS [keeps_rules]: "keeps I m \<Longrightarrow> (\<And>x. keeps I (f x)) \<Longrightarrow> keeps I (bindS m f)"
  by (force simp: keeps_def bindS_def split: prod.splits sum.splits)

lemma keeps_thenS [keeps_rules]: "keeps I m \<Longrightarrow> keeps I n \<Longrightarrow> keeps I (thenS m n)"
  by (simp add: thenS_def keeps_bindS)

lemma keeps_mapS [keeps_rules]: "(\<And>x. keeps I (f x)) \<Longrightarrow> keeps I (mapS f xs)"
  by (induction xs) (auto intro!: keeps_rules)

lemma keeps_if [keeps_rules]: "(b \<Longrightarrow> keeps I m) \<Longrightarrow> (\<not> b \<Longrightarrow> keeps I n) \<Longrightarrow> keeps I (if b then m else n)"
  by simp

lemma keeps_let [keeps_rules]: "(\<And>x. keeps I (f x)) \<Longrightarrow> keeps I (let x = v in f x)"
  by simp

lemma keeps_option [keeps_rules]:
  "keeps I m \<Longrightarrow> (\<And>x. keeps I (f x)) \<Longrightarrow> keeps I (case v of None \<Rightarrow> m | Some x \<Rightarrow> f x)"
  by (cases v) auto

lemma keeps_zoom: "keeps J m \<Longrightarrow> (\<And>w. I w \<Longrightarrow> J (get w)) \<Longrightarrow> (\<And>s w. I w \<Longrightarrow> J s \<Longrightarrow> I (put s w)) \<Longrightarrow> keeps I (zoom get put m)"
  by (force simp: keeps_def zoom_def split: prod.splits)

lemma zoom_eq [effect_simps]: "(zoom get put m w = (r, w')) = (\<exists>s. m (get w) = (r, s) \<and> w' = put s w)"
  by (auto simp: zoom_def split: prod.splits)

lemma draw_eq [effect_simps]: "(draw w = (r, w')) = (r = Inr (w_drawn w) \<and> w' = w\<lparr>w_drawn := Suc (w_drawn w)\<rparr>)"
  by (auto simp: draw_def)

lemma inspect_eq [effect_simps]: "(inspect f w = (r, w')) = (f w = r \<and> w' = w)"
  by (auto simp: inspect_def)

end
