(* ===== verification/Executor.thy ===== *)
theory Executor
  imports Runtime
begin

text \<open>
  \<open>python/urp/executor.py\<close>: exact execution of a work unit. The payload is chunked as the
  plan says, stored, read back and compared with the payload's digest; only then the manifest
  is written. Execution in \<open>observe\<close> mode stores no byte. Prompt requests go to the gateway.
\<close>

subsection \<open>Results and payloads\<close>

record execution_result =
  er_work_unit_id :: string
  er_manifest_id :: string
  er_accepted :: bool
  er_mode :: string
  er_output :: pyval
  er_details :: pydict

definition result_to_dict :: "execution_result \<Rightarrow> pydict" where
  "result_to_dict r = [(''work_unit_id'', PStr (er_work_unit_id r)), (''manifest_id'', PStr (er_manifest_id r)),
     (''accepted'', PBool (er_accepted r)), (''mode'', PStr (er_mode r)), (''output'', er_output r),
     (''details'', PDict (er_details r))]"

definition payload_to_bytes :: "pyval \<Rightarrow> bytes res" where
  "payload_to_bytes v = bindR (decode_json_value v) (\<lambda>p. Inr (case p of PNone \<Rightarrow> [] | PBytes b \<Rightarrow> b
     | PStr s \<Rightarrow> utf8 s | _ \<Rightarrow> utf8 (dumps '', '' '': '' p)))"

subsection \<open>Gates\<close>

fun exc_text :: "py_exc \<Rightarrow> string" where
  "exc_text (ValueError m) = m"
| "exc_text (KeyError k) = repr_str k"
| "exc_text (FileNotFoundError p) = ''[Errno 2] No such file or directory: '' @ repr_str p"
| "exc_text (TypeError m) = m"
| "exc_text (RuntimeError m) = m"
| "exc_text e = []"

fun lookup_failure :: "py_exc \<Rightarrow> bool" where
  "lookup_failure (ValueError m) = True"
| "lookup_failure (KeyError k) = True"
| "lookup_failure (FileNotFoundError p) = True"
| "lookup_failure e = False"

text \<open>\<open>try: m except (...) as exc: raise f(exc)\<close>.\<close>

definition rethrow :: "(py_exc \<Rightarrow> bool) \<Rightarrow> (py_exc \<Rightarrow> py_exc) \<Rightarrow> 'a res \<Rightarrow> 'a res" where
  "rethrow caught f r = (case r of Inl e \<Rightarrow> Inl (if caught e then f e else e) | Inr x \<Rightarrow> Inr x)"

definition rethrowS :: "(py_exc \<Rightarrow> bool) \<Rightarrow> (py_exc \<Rightarrow> py_exc) \<Rightarrow> ('a, 's) sres \<Rightarrow> ('a, 's) sres" where
  "rethrowS caught f m = (\<lambda>s. case m s of (r, s') \<Rightarrow> (rethrow caught f r, s'))"

definition unit_event :: "work_unit \<Rightarrow> policy_decision \<Rightarrow> string \<Rightarrow> string option \<Rightarrow> pydict \<Rightarrow> ledger_event" where
  "unit_event wu d ty decision details = (event_draft ty (wu_tenant wu) (Some (wu_id wu)))
     \<lparr>ev_policy_bundle_id := Some (pd_bundle_id d), ev_decision := decision, ev_details := details,
      ev_trace_id := Some (wu_trace_id wu)\<rparr>"

definition unit_log :: "work_unit \<Rightarrow> policy_decision \<Rightarrow> string \<Rightarrow> string \<Rightarrow> pydict \<Rightarrow> log_entry" where
  "unit_log wu d ty message details = (log_draft ty message)\<lparr>le_tenant := Some (wu_tenant wu),
     le_work_unit_id := Some (wu_id wu), le_policy_bundle_id := Some (pd_bundle_id d),
     le_trace_id := Some (wu_trace_id wu), le_details := details\<rparr>"

definition require_policy_approval :: "env \<Rightarrow> work_unit \<Rightarrow> policy_decision \<Rightarrow> unit io" where
  "require_policy_approval en wu d =
     (if \<not> pd_require_approval d then retS ()
      else let approval = get_value (wu_policy_context wu) ''approval_id'' in
        if \<not> truthy approval
        then thenS (append_event en (unit_event wu d ''policy.denied'' (Some ''approval_required'') []))
          (raiseS (policy_denied ''policy requires an approved approval_id'' (Some (wu_id wu)) (Some (pd_bundle_id d))))
        else thenS (rethrowS lookup_failure (\<lambda>e. policy_denied (''approval verification failed: '' @ exc_text e)
               (Some (wu_id wu)) (Some (pd_bundle_id d)))
             (on_approvals (approval_verify (e_vars en ''URP_APPROVAL_SIGNING_KEY'') (e_random en) (e_now en)
               (py_str approval) wu (pd_contract d) (pd_bundle_id d))))
          (retS ()))"

definition require_exact_verifiers :: "string list \<Rightarrow> bool \<Rightarrow> string \<Rightarrow> unit res" where
  "require_exact_verifiers required accepted wu =
     (let unsupported = filter (\<lambda>n. n \<notin> {''sha256_restore'', ''sha256_restore@0''}) required in
      if unsupported \<noteq> [] then Inl (verifier_failed ''required verifier is not implemented for exact execution'' (Some wu)
        [(''unsupported'', strs unsupported)])
      else if required \<noteq> [] \<and> \<not> accepted then Inl (verifier_failed ''required exact verifier failed'' (Some wu) [])
      else Inr ())"

subsection \<open>Intake, policy and plan\<close>

definition announce :: "env \<Rightarrow> work_unit \<Rightarrow> policy_decision \<Rightarrow> plan \<Rightarrow> bytes \<Rightarrow> unit io" where
  "announce en wu d p payload =
     thenS (append_event en (unit_event wu d ''work_unit.received'' None []))
     (thenS (emit_log en (unit_log wu d ''work_unit.received'' ''work unit received''
        [(''kind'', PStr (kind_value (wu_kind wu))), (''namespace'', PStr (wu_namespace wu)),
         (''logical_bytes'', PInt (int (length payload)))]))
     (thenS (emit_span en ''urp.intake'' (wu_trace_id wu) [(''work_unit_id'', PStr (wu_id wu)),
        (''tenant'', PStr (wu_tenant wu)), (''kind'', PStr (kind_value (wu_kind wu)))])
     (thenS (append_event en (unit_event wu d ''policy.evaluated'' (Some (contract_value (pd_contract d))) (decision_to_dict d)))
     (thenS (emit_log en (unit_log wu d ''policy.evaluated'' ''policy evaluated''
        [(''contract'', PStr (contract_value (pd_contract d))), (''denied_actions'', strs (pd_denied d))]))
     (thenS (emit_span en ''urp.policy.evaluate'' (wu_trace_id wu) [(''work_unit_id'', PStr (wu_id wu)),
        (''policy_bundle_id'', PStr (pd_bundle_id d)), (''contract'', PStr (contract_value (pd_contract d)))])
     (thenS (store_plan en p wu None [])
     (thenS (emit_log en (unit_log wu d ''plan.created'' ''plan created''
        [(''plan_id'', PStr (pl_plan_id p)), (''action_count'', PInt (int (length (pl_actions p)))),
         (''mode'', PStr (pl_mode p))]))
     (thenS (emit_span en ''urp.plan'' (wu_trace_id wu) [(''work_unit_id'', PStr (wu_id wu)),
        (''plan_id'', PStr (pl_plan_id p)), (''action_count'', PInt (int (length (pl_actions p))))])
     (retS ())))))))))"

subsection \<open>Chunks\<close>

definition plan_chunks :: "plan \<Rightarrow> bytes \<Rightarrow> chunk list res" where
  "plan_chunks p payload =
     (let names = map pa_type (pl_actions p) in
      if ''content_defined_chunk'' \<in> set names then content_defined_chunks payload 2048 12 8192
      else if ''fixed_chunk'' \<in> set names then fixed_chunks payload (1024 * 1024)
      else fixed_chunks payload (max 1 (int (length payload))))"

definition storage_namespace :: "work_unit \<Rightarrow> string \<Rightarrow> string" where
  "storage_namespace wu mode = (if mode = ''enforce'' then wu_namespace wu else ''shadow-'' @ wu_namespace wu)"

definition segment_row :: "chunk \<Rightarrow> stored_chunk \<Rightarrow> pydict" where
  "segment_row c sc = dset ''sha256'' (PStr (ck_sha256 c)) (dset ''logical_end'' (PInt (int (chunk_end c)))
     (dset ''logical_start'' (PInt (int (chunk_start c))) (stored_to_dict sc)))"

definition record_segment :: "env \<Rightarrow> work_unit \<Rightarrow> policy_decision \<Rightarrow> chunk \<times> stored_chunk \<Rightarrow> pydict io" where
  "record_segment en wu d cs = (case cs of (c, sc) \<Rightarrow>
     thenS (append_event en (unit_event wu d ''action.executed'' None
       [(''action'', PStr ''store_chunk''), (''digest'', PStr (ck_sha256 c)), (''dedupe_hit'', PBool (sc_dedupe_hit sc))]))
       (retS (segment_row c sc)))"

definition store_segments :: "env \<Rightarrow> work_unit \<Rightarrow> policy_decision \<Rightarrow> string \<Rightarrow> plan \<Rightarrow> chunk list \<Rightarrow> pydict list io" where
  "store_segments en wu d ns p chunks =
     bindS (on_chunks (put_chunks (e_zip en) (wu_tenant wu) ns (''zstd'' \<in> set (map pa_type (pl_actions p))) chunks)) (\<lambda>stored.
       mapS (record_segment en wu d) (zip chunks stored))"

text \<open>Reading back before anything refers to the new segments.\<close>

definition verify_restore :: "env \<Rightarrow> work_unit \<Rightarrow> policy_decision \<Rightarrow> string \<Rightarrow> pydict list \<Rightarrow> verification_result io" where
  "verify_restore en wu d whole segments =
     bindS (inspect (\<lambda>w. rehydrate (e_zip en) (w_chunks w) segments)) (\<lambda>restored.
     thenS (emit_span en ''urp.rehydrate'' (wu_trace_id wu) [(''work_unit_id'', PStr (wu_id wu)),
        (''bytes'', PInt (int (length restored)))])
     (let v = verify_sha256 restored whole in
      if \<not> vr_accepted v then
        thenS (append_event en (unit_event wu d ''verifier.failed'' None (verification_to_dict v)))
        (thenS (emit_log en ((unit_log wu d ''verifier.failed'' ''verifier failed'' (verification_to_dict v))
             \<lparr>le_severity := ''error'', le_error_code := Some ''verifier_failed''\<rparr>))
        (thenS (count ''urp_verifier_failures_total'' 1)
          (raiseS (verifier_failed ''exact rehydration verifier failed'' (Some (wu_id wu)) (verification_to_dict v)))))
      else thenS (liftR (require_exact_verifiers (pd_required d) (vr_accepted v) (wu_id wu))) (retS v)))"

subsection \<open>Manifests\<close>

definition classification_dict :: "env \<Rightarrow> classification \<Rightarrow> pydict" where
  "classification_dict en cl = [
     (''entropy_bits_per_byte'', case cl_entropy cl of None \<Rightarrow> PNone | Some r \<Rightarrow> e_float en r),
     (''likely_compressed'', PBool (cl_likely_compressed cl)), (''likely_encrypted'', PBool (cl_likely_encrypted cl)),
     (''schema_hint'', opt_value (cl_schema_hint cl)), (''notes'', strs (cl_notes cl))]"

definition base_manifest :: "env \<Rightarrow> work_unit \<Rightarrow> policy_decision \<Rightarrow> plan \<Rightarrow> classification \<Rightarrow> nat \<Rightarrow> manifest" where
  "base_manifest en wu d p cl n = \<lparr>mf_work_unit_id = wu_id wu, mf_tenant = wu_tenant wu, mf_kind = wu_kind wu,
     mf_contract = pd_contract d, mf_logical_ref = wu_logical_ref wu, mf_state = ''active'',
     mf_namespace = wu_namespace wu, mf_trace_id = Some (wu_trace_id wu), mf_policy = decision_to_dict d,
     mf_classification = classification_dict en cl, mf_physical = [], mf_plan = plan_to_dict p, mf_verification = [],
     mf_lineage = [], mf_telemetry = [], mf_signatures = [], mf_manifest_version = ''urp.manifest.v1'',
     mf_manifest_id = e_ids en ''mf'' n, mf_created_at = e_clock en n\<rparr>"

fun stored_size :: "pydict list \<Rightarrow> int res" where
  "stored_size [] = Inr 0"
| "stored_size (s # ss) = bindR (bindR (item s ''stored_size'') py_int) (\<lambda>n. map_res (\<lambda>m. n + m) (stored_size ss))"

definition dedupe_hits :: "pydict list \<Rightarrow> int" where
  "dedupe_hits segments = int (length (filter (\<lambda>s. truthy (get_value s ''dedupe_hit'')) segments))"

definition adapter_fields :: "string option \<Rightarrow> pydict \<Rightarrow> pydict" where
  "adapter_fields adapter extra = (case given adapter of None \<Rightarrow> [] | Some a \<Rightarrow> (''adapter'', PStr a) # extra)"

definition exec_manifest :: "env \<Rightarrow> work_unit \<Rightarrow> policy_decision \<Rightarrow> plan \<Rightarrow> string \<Rightarrow> string option \<Rightarrow> bytes
    \<Rightarrow> pydict list \<Rightarrow> int \<Rightarrow> verification_result \<Rightarrow> nat \<Rightarrow> manifest" where
  "exec_manifest en wu d p mode adapter payload segments physical v n =
     (base_manifest en wu d p (classify wu) n)\<lparr>
       mf_physical := adapter_fields adapter [(''external_integrations_required'', PBool False)] @
         [(''whole_sha256'', PStr (sha256_bytes payload)), (''logical_size'', PInt (int (length payload))),
          (''stored_size'', PInt physical), (''segments'', PList (map PDict segments))],
       mf_verification := verification_to_dict v,
       mf_lineage := [(''work_unit_metadata'', PDict (wu_metadata wu)), (''policy_context'', PDict (wu_policy_context wu))],
       mf_state := (if mode = ''enforce'' then ''active'' else ''superseded''),
       mf_telemetry := [(''mode'', PStr mode), (''bytes_in'', PInt (int (length payload))),
         (''bytes_stored'', PInt physical), (''bytes_avoided'', PInt (max 0 (int (length payload) - physical))),
         (''chunk_count'', PInt (int (length segments))), (''dedupe_hits'', PInt (dedupe_hits segments))]\<rparr>"

definition observed_manifest :: "env \<Rightarrow> work_unit \<Rightarrow> policy_decision \<Rightarrow> plan \<Rightarrow> string option \<Rightarrow> bytes \<Rightarrow> nat \<Rightarrow> manifest" where
  "observed_manifest en wu d p adapter payload n =
     (base_manifest en wu d p (classify wu) n)\<lparr>mf_state := ''planned'',
       mf_physical := [(''mode'', PStr ''observe''), (''whole_sha256'', PStr (sha256_bytes payload)),
         (''logical_size'', PInt (int (length payload))), (''stored_size'', PInt 0), (''segments'', PList []),
         (''rehydratable'', PBool False)] @ adapter_fields adapter [],
       mf_verification := [(''accepted'', PBool True), (''verifier_id'', PStr ''observe_only@1''),
         (''reason'', PStr ''no_transform_executed''), (''details'', PDict [])],
       mf_telemetry := [(''mode'', PStr ''observe''), (''bytes_in'', PInt (int (length payload))), (''bytes_stored'', PInt 0),
         (''bytes_avoided'', PInt 0), (''chunk_count'', PInt 0), (''dedupe_hits'', PInt 0)]\<rparr>"

definition put_manifest :: "env \<Rightarrow> manifest \<Rightarrow> unit io" where
  "put_manifest en m = on_manifests (file_put (e_schemas en) (e_ctx en) m)"

definition manifest_event :: "work_unit \<Rightarrow> policy_decision \<Rightarrow> manifest \<Rightarrow> string \<Rightarrow> pydict \<Rightarrow> ledger_event" where
  "manifest_event wu d m ty details = (unit_event wu d ty None details)\<lparr>ev_manifest_id := Some (mf_manifest_id m)\<rparr>"

definition record_observation :: "env \<Rightarrow> work_unit \<Rightarrow> policy_decision \<Rightarrow> plan \<Rightarrow> bytes \<Rightarrow> string option \<Rightarrow> execution_result io" where
  "record_observation en wu d p payload adapter =
     bindS draw (\<lambda>n. (let m = observed_manifest en wu d p adapter payload n in
       thenS (put_manifest en m)
       (thenS (append_event en (manifest_event wu d m ''manifest.written''
           [(''logical_ref'', PStr (wu_logical_ref wu)), (''mode'', PStr ''observe'')]))
       (retS \<lparr>er_work_unit_id = wu_id wu, er_manifest_id = mf_manifest_id m, er_accepted = True, er_mode = ''observe'',
          er_output = PDict [(''sha256'', PStr (sha256_bytes payload)), (''passthrough'', PBool True), (''rehydratable'', PBool False)],
          er_details = [(''bytes_in'', PInt (int (length payload))), (''bytes_stored'', PInt 0)]\<rparr>))))"

definition count_execution :: "bytes \<Rightarrow> pydict list \<Rightarrow> int \<Rightarrow> unit io" where
  "count_execution payload segments physical =
     thenS (count ''urp_work_units_total'' 1)
     (thenS (count ''urp_work_unit_bytes_in_total'' (int (length payload)))
     (thenS (count ''urp_work_unit_bytes_stored_total'' physical)
     (thenS (count ''urp_bytes_avoided_total'' (max 0 (int (length payload) - physical)))
     (thenS (count ''urp_chunks_total'' (int (length segments)))
     (thenS (count ''urp_chunk_dedupe_hits_total'' (dedupe_hits segments))
     (count ''urp_ledger_events_total'' (int (length segments) + 4)))))))"

text \<open>What follows the manifest's write.\<close>

definition announce_manifest :: "env \<Rightarrow> work_unit \<Rightarrow> policy_decision \<Rightarrow> string \<Rightarrow> string option \<Rightarrow> bytes
    \<Rightarrow> pydict list \<Rightarrow> int \<Rightarrow> manifest \<Rightarrow> execution_result io" where
  "announce_manifest en wu d mode adapter payload segments physical m =
     thenS (append_event en (manifest_event wu d m ''manifest.written'' [(''logical_ref'', PStr (wu_logical_ref wu))]))
     (thenS (case given adapter of None \<Rightarrow> retS () | Some a \<Rightarrow>
         thenS (append_event en (manifest_event wu d m ''adapter.mock.executed''
           [(''kind'', PStr (kind_value (wu_kind wu))), (''adapter'', PStr a)])) (retS ()))
     (thenS (emit_log en ((unit_log wu d ''manifest.written'' ''manifest written''
          [(''kind'', PStr (kind_value (wu_kind wu))), (''logical_size'', PInt (int (length payload))),
           (''stored_size'', PInt physical), (''chunk_count'', PInt (int (length segments)))])
          \<lparr>le_manifest_id := Some (mf_manifest_id m)\<rparr>))
     (thenS (emit_span en ''urp.manifest.write'' (wu_trace_id wu)
          [(''work_unit_id'', PStr (wu_id wu)), (''manifest_id'', PStr (mf_manifest_id m))])
     (thenS (count_execution payload segments physical)
     (retS \<lparr>er_work_unit_id = wu_id wu, er_manifest_id = mf_manifest_id m, er_accepted = True, er_mode = mode,
        er_output = PDict [(''sha256'', PStr (sha256_bytes payload))],
        er_details = [(''bytes_in'', PInt (int (length payload))), (''bytes_stored'', PInt physical)]\<rparr>)))))"

definition write_manifest :: "env \<Rightarrow> work_unit \<Rightarrow> policy_decision \<Rightarrow> plan \<Rightarrow> string \<Rightarrow> string option \<Rightarrow> bytes
    \<Rightarrow> pydict list \<Rightarrow> verification_result \<Rightarrow> execution_result io" where
  "write_manifest en wu d p mode adapter payload segments v =
     bindS (liftR (stored_size segments)) (\<lambda>physical. bindS draw (\<lambda>n.
     (let m = exec_manifest en wu d p mode adapter payload segments physical v n in
      thenS (put_manifest en m) (announce_manifest en wu d mode adapter payload segments physical m))))"

subsection \<open>Execution\<close>

definition store_and_verify :: "env \<Rightarrow> work_unit \<Rightarrow> policy_decision \<Rightarrow> plan \<Rightarrow> string \<Rightarrow> string option \<Rightarrow> bytes \<Rightarrow> execution_result io" where
  "store_and_verify en wu d p mode adapter payload =
     bindS (liftR (plan_chunks p payload)) (\<lambda>chunks.
     bindS (store_segments en wu d (storage_namespace wu mode) p chunks) (\<lambda>segments.
     bindS (verify_restore en wu d (sha256_bytes payload) segments) (\<lambda>v.
     write_manifest en wu d p mode adapter payload segments v)))"

definition execute_exact_object :: "env \<Rightarrow> work_unit \<Rightarrow> string option \<Rightarrow> pydict \<Rightarrow> string option \<Rightarrow> execution_result io" where
  "execute_exact_object en wu mode pb adapter =
     bindS (liftR (execution_mode en mode)) (\<lambda>mode.
     bindS (liftR (payload_to_bytes (wu_payload wu))) (\<lambda>payload.
     bindS (liftR (evaluate_policy wu pb)) (\<lambda>d.
     bindS (liftR (plan_work_unit wu mode pb (Some d))) (\<lambda>p.
     thenS (require_policy_approval en wu d)
     (thenS (announce en wu d p payload)
     (if mode = ''observe'' then record_observation en wu d p payload adapter
      else store_and_verify en wu d p mode adapter payload))))))"

definition execute_mock_adapter :: "env \<Rightarrow> work_unit \<Rightarrow> string option \<Rightarrow> pydict \<Rightarrow> execution_result io" where
  "execute_mock_adapter en wu mode pb =
     execute_exact_object en wu mode pb (Some (let a = get_value (wu_metadata wu) ''adapter''
       in if truthy a then py_str a else ''local_mock''))"

subsection \<open>Rehydration\<close>

fun dict_rows :: "pyval \<Rightarrow> pydict list res" where
  "dict_rows (PList vs) = seq_res (map (\<lambda>v. case v of PDict d \<Rightarrow> Inr d | _ \<Rightarrow> Inl (TypeError ''segment is not a dict'')) vs)"
| "dict_rows v = Inl (TypeError ''segments are not a list'')"

definition rehydrate_manifest :: "env \<Rightarrow> string \<Rightarrow> world \<Rightarrow> bytes res" where
  "rehydrate_manifest en i w =
     bindR (file_get (e_ctx en) i (w_manifests w)) (\<lambda>m.
     bindR (dict_rows (get_default (mf_physical m) ''segments'' (PList []))) (\<lambda>segments.
     bindR (rethrow lookup_failure (\<lambda>e. rehydration_failed ''rehydration failed segment verification''
         (Some (mf_work_unit_id m)) [(''reason'', PStr (exc_text e))])
       (rehydrate (e_zip en) (w_chunks w) segments)) (\<lambda>data.
     (let v = verify_sha256 data (py_str (get_default (mf_physical m) ''whole_sha256'' (PStr []))) in
      if vr_accepted v then Inr data
      else Inl (rehydration_failed ''rehydration failed checksum verification'' (Some (mf_work_unit_id m))
        (verification_to_dict v))))))"

text \<open>\<open>data[i:j]\<close> of the part of a segment inside the range, and the loop over the segments.\<close>

definition segment_bounds :: "pydict \<Rightarrow> (int \<times> int) res" where
  "segment_bounds s = bindR (bindR (item s ''logical_start'') py_int) (\<lambda>a.
     map_res (Pair a) (bindR (item s ''logical_end'') py_int))"

definition range_piece :: "compressor \<Rightarrow> chunk_store \<Rightarrow> int \<Rightarrow> int \<Rightarrow> pydict \<Rightarrow> bytes res" where
  "range_piece zc s start stop seg = bindR (segment_bounds seg) (\<lambda>(a, b).
     if b \<le> start \<or> stop \<le> a then Inr []
     else bindR (read_stored zc s seg) (\<lambda>data.
       if int (length data) \<noteq> b - a then Inl (ValueError ''segment logical size does not match restored bytes'')
       else Inr (slice (nat (max start a - a)) (nat (min stop b - a)) data)))"

definition sorted_segments :: "pydict list \<Rightarrow> pydict list res" where
  "sorted_segments rows = map_res (\<lambda>keys. map snd (sort_key fst (zip keys rows)))
     (seq_res (map (\<lambda>s. bindR (item s ''logical_start'') py_int) rows))"

definition range_bytes :: "compressor \<Rightarrow> chunk_store \<Rightarrow> int \<Rightarrow> int \<Rightarrow> pydict list \<Rightarrow> bytes res" where
  "range_bytes zc s start stop rows = bindR (sorted_segments rows) (\<lambda>segs.
     map_res concat (seq_res (map (range_piece zc s start stop) segs)))"

definition rehydrate_manifest_range :: "env \<Rightarrow> string \<Rightarrow> int \<Rightarrow> int \<Rightarrow> bytes io" where
  "rehydrate_manifest_range en i start stop =
     thenS (liftR (guardR (0 \<le> start \<and> start \<le> stop) (ValueError ''invalid range'')))
     (bindS (inspect (\<lambda>w. file_get (e_ctx en) i (w_manifests w))) (\<lambda>m.
      bindS (liftR (py_int (get_default (mf_physical m) ''logical_size'' (PInt 0)))) (\<lambda>total.
      (let effective = min stop total; fail = (\<lambda>msg d. rehydration_failed msg (Some (mf_work_unit_id m)) d) in
       if effective \<le> start then retS []
       else bindS (liftR (dict_rows (get_default (mf_physical m) ''segments'' (PList [])))) (\<lambda>rows.
         bindS (inspect (\<lambda>w. rethrow lookup_failure
             (\<lambda>e. fail ''range rehydration failed segment verification'' [(''reason'', PStr (exc_text e))])
             (range_bytes (e_zip en) (w_chunks w) start effective rows))) (\<lambda>data.
         if int (length data) \<noteq> effective - start
         then raiseS (fail ''range rehydration encountered a segment gap''
           [(''expected_bytes'', PInt (effective - start)), (''actual_bytes'', PInt (int (length data))),
            (''start'', PInt start), (''end'', PInt effective)])
         else thenS (emit_span en ''urp.rehydrate.range'' (case given (mf_trace_id m) of Some t \<Rightarrow> t | None \<Rightarrow> ''tr_unknown'')
             [(''work_unit_id'', PStr (mf_work_unit_id m)), (''manifest_id'', PStr i), (''start'', PInt start),
              (''end'', PInt stop), (''bytes'', PInt (int (length data)))])
           (retS data)))))))"

subsection \<open>Frames\<close>

lemma keeps_zoom_field: "(\<And>s w. f (put s w) = f w) \<Longrightarrow> keeps (\<lambda>w. f w = x) (zoom get put m)"
  by (force simp: keeps_def zoom_def split: prod.splits)

lemma keeps_draw_field: "(\<And>n w. f (w\<lparr>w_drawn := n\<rparr>) = f w) \<Longrightarrow> keeps (\<lambda>w. f w = x) draw"
  by (simp add: keeps_def draw_def)

lemma keeps_rethrowS [keeps_rules]: "keeps I m \<Longrightarrow> keeps I (rethrowS c f m)"
  by (force simp: keeps_def rethrowS_def split: prod.splits)

text \<open>What the tracing calls, the plan store and the approvals leave alone.\<close>

lemma traces_keep_chunks [keeps_rules]:
  "keeps (\<lambda>w. w_chunks w = s) (append_event en e)" "keeps (\<lambda>w. w_chunks w = s) (emit_log en l)"
  "keeps (\<lambda>w. w_chunks w = s) (emit_span en nm tr a)" "keeps (\<lambda>w. w_chunks w = s) (count nm v)"
  "keeps (\<lambda>w. w_chunks w = s) (store_plan en p wu who extra)" "keeps (\<lambda>w. w_chunks w = s) (on_approvals ap)"
  "keeps (\<lambda>w. w_chunks w = s) draw" "keeps (\<lambda>w. w_chunks w = s) (put_manifest en m)"
  unfolding append_event_def emit_log_def emit_span_def count_def store_plan_def on_ledger_def on_approvals_def
    put_manifest_def on_manifests_def
  by (intro keeps_bindS keeps_zoom_field keeps_draw_field; simp)+

lemma traces_keep_manifests [keeps_rules]:
  "keeps (\<lambda>w. w_manifests w = s) (append_event en e)" "keeps (\<lambda>w. w_manifests w = s) (emit_log en l)"
  "keeps (\<lambda>w. w_manifests w = s) (emit_span en nm tr a)" "keeps (\<lambda>w. w_manifests w = s) (count nm v)"
  "keeps (\<lambda>w. w_manifests w = s) (store_plan en p wu who extra)" "keeps (\<lambda>w. w_manifests w = s) (on_approvals ap)"
  "keeps (\<lambda>w. w_manifests w = s) draw" "keeps (\<lambda>w. w_manifests w = s) (on_chunks m)"
  unfolding append_event_def emit_log_def emit_span_def count_def store_plan_def on_ledger_def on_approvals_def on_chunks_def
  by (intro keeps_bindS keeps_zoom_field keeps_draw_field; simp)+

lemma announce_keeps [keeps_rules]:
  "keeps (\<lambda>w. w_chunks w = s) (announce en wu d p payload)"
  "keeps (\<lambda>w. w_manifests w = mf) (announce en wu d p payload)"
  unfolding announce_def by (intro keeps_rules)+

lemma approval_keeps [keeps_rules]:
  "keeps (\<lambda>w. w_chunks w = s) (require_policy_approval en wu d)"
  "keeps (\<lambda>w. w_manifests w = mf) (require_policy_approval en wu d)"
  unfolding require_policy_approval_def by (intro keeps_rules)+

lemma verify_restore_keeps [keeps_rules]:
  "keeps (\<lambda>w. w_chunks w = s) (verify_restore en wu d whole segs)"
  "keeps (\<lambda>w. w_manifests w = mf) (verify_restore en wu d whole segs)"
  unfolding verify_restore_def by (intro keeps_rules)+

lemma count_execution_keeps [keeps_rules]:
  "keeps (\<lambda>w. w_chunks w = s) (count_execution payload segs n)"
  "keeps (\<lambda>w. w_manifests w = mf) (count_execution payload segs n)"
  unfolding count_execution_def by (intro keeps_rules)+

lemma announce_manifest_keeps [keeps_rules]:
  "keeps (\<lambda>w. w_chunks w = s) (announce_manifest en wu d mode adapter payload segs n m)"
  "keeps (\<lambda>w. w_manifests w = mf) (announce_manifest en wu d mode adapter payload segs n m)"
  unfolding announce_manifest_def by (intro keeps_rules)+

lemma write_manifest_keeps [keeps_rules]:
  "keeps (\<lambda>w. w_chunks w = s) (write_manifest en wu d p mode adapter payload segs v)"
  unfolding write_manifest_def by (intro keeps_rules)+

lemma store_segments_keeps [keeps_rules]:
  "keeps (\<lambda>w. w_manifests w = mf) (store_segments en wu d ns p cs)"
  unfolding store_segments_def record_segment_def by (intro keeps_rules) (auto intro!: keeps_rules split: prod.splits)

subsection \<open>What is served\<close>

text \<open>Segment rows that lie one after another from \<open>o\<close> on.\<close>

fun laid :: "int \<Rightarrow> pydict list \<Rightarrow> bytes list \<Rightarrow> bool" where
  "laid o1 [] [] = True"
| "laid o1 (r # rs) (b # bs) = (dget r ''logical_start'' = Some (PInt o1)
     \<and> dget r ''logical_end'' = Some (PInt (o1 + int (length b))) \<and> laid (o1 + int (length b)) rs bs)"
| "laid o1 rs bs = False"

text \<open>A manifest serves data when its segments are held by the chunk store, lie one after another,
  make up the data, and the recorded size and digest are the data's.\<close>

definition describes :: "compressor \<Rightarrow> stored_item set \<Rightarrow> chunk_store \<Rightarrow> pydict \<Rightarrow> bytes \<Rightarrow> bool" where
  "describes zc U s physical data = (\<exists>rows bs. dget physical ''segments'' = Some (PList (map PDict rows))
     \<and> list_all2 (held zc U s) rows bs \<and> laid 0 rows bs \<and> concat bs = data
     \<and> dget physical ''whole_sha256'' = Some (PStr (sha256_bytes data))
     \<and> dget physical ''logical_size'' = Some (PInt (int (length data))))"

definition served :: "env \<Rightarrow> stored_item set \<Rightarrow> world \<Rightarrow> string \<Rightarrow> bytes \<Rightarrow> bool" where
  "served en U w i data = (\<exists>m. file_get (e_ctx en) i (w_manifests w) = Inr m
     \<and> describes (e_zip en) U (w_chunks w) (mf_physical m) data)"

lemma plan_chunks_chunking: "plan_chunks p payload = Inr cs \<Longrightarrow> chunking_of payload cs"
  by (auto simp: plan_chunks_def Let_def dest: cdc_chunking fixed_chunking split: if_splits)

lemma chunks_held:
  assumes "store_inv zc U s" "list_all2 (held zc U s) rows bs"
  shows "seq_res (map (read_stored zc s) rows) = Inr bs"
  by (rule chunks.read_all [OF assms])

lemma dict_rows_map [simp]: "dict_rows (PList (map PDict rows)) = Inr rows"
  by (simp add: comp_def seq_res_map_Inr [where g = "\<lambda>x. x"])

lemma rehydrate_served:
  assumes "store_inv (e_zip en) U (w_chunks w)" "served en U w i data"
  shows "rehydrate_manifest en i w = Inr data"
proof -
  obtain m rows bs where m: "file_get (e_ctx en) i (w_manifests w) = Inr m"
    and seg: "dget (mf_physical m) ''segments'' = Some (PList (map PDict rows))"
      "dget (mf_physical m) ''whole_sha256'' = Some (PStr (sha256_bytes data))"
    and bs: "list_all2 (held (e_zip en) U (w_chunks w)) rows bs" "concat bs = data"
    using assms(2) by (auto simp: served_def describes_def)
  have "rehydrate (e_zip en) (w_chunks w) rows = Inr data"
    using chunks_held [OF assms(1) bs(1)] bs(2) by (simp add: rehydrate_def)
  then show ?thesis
    using m seg by (simp add: rehydrate_manifest_def get_default_def rethrow_def verify_sha256_def sha256_bytes_def Let_def
        del: dict_rows.simps)
qed

text \<open>A row from the chunk store still reads after it has gone through a JSON file.\<close>

lemma held_jfile:
  assumes "store_inv zc U s" "held zc U s d b"
  shows "held zc U s (jfile_dict d) b"
proof -
  obtain t n e where e: "(t, n, b) \<in> U" "dget (cs_index s) (chunk_key t n (sha256_bytes b)) = Some e" "seg_agrees d e"
    using assms(2) by (auto simp: held_def)
  have "entry_ok zc s t n b e" by (rule store_inv_entry [OF assms(1) e(2,1)])
  then have "\<exists>x y z v. dget e ''digest'' = Some (PStr x) \<and> dget e ''ref'' = Some (PStr y)
      \<and> dget e ''transform_stack'' = Some (PList z) \<and> (z = [] \<or> z = [PStr ''zstd'']) \<and> dget e ''codec'' = Some v
      \<and> (v = PNone \<or> (\<exists>c. v = PStr c))"
    by (auto simp: entry_ok_def encodes_def)
  then have "seg_agrees (jfile_dict d) e" using e(3) by (auto simp: seg_agrees_def)
  then show ?thesis using e by (auto simp: held_def)
qed

lemma laid_jfile: "laid o1 rows bs \<Longrightarrow> laid o1 (map jfile_dict rows) bs"
  by (induction o1 rows bs rule: laid.induct) auto

lemma describes_jfile:
  assumes "store_inv zc U s" "describes zc U s ph data"
  shows "describes zc U s (jfile_dict ph) data"
proof -
  obtain rows bs where rows: "dget ph ''segments'' = Some (PList (map PDict rows))" "list_all2 (held zc U s) rows bs"
      "laid 0 rows bs" "concat bs = data" "dget ph ''whole_sha256'' = Some (PStr (sha256_bytes data))"
      "dget ph ''logical_size'' = Some (PInt (int (length data)))"
    using assms(2) by (auto simp: describes_def)
  have "list_all2 (held zc U s) (map jfile_dict rows) bs"
    using rows(2) held_jfile [OF assms(1)] by (auto simp: list_all2_map1 elim: list_all2_mono)
  moreover have "dget (jfile_dict ph) ''segments'' = Some (PList (map PDict (map jfile_dict rows)))"
    using rows(1) by (simp add: jfile_PDict comp_def del: jfile.simps(4))
  ultimately show ?thesis using rows(4-6) laid_jfile [OF rows(3)] unfolding describes_def
    by (intro exI [of _ "map jfile_dict rows"] exI [of _ bs]) simp
qed

subsection \<open>Storing\<close>

lemma mapS_pure:
  assumes "\<And>x w y w'. f x w = (Inr y, w') \<Longrightarrow> y = g x"
  shows "mapS f xs w = (Inr ys, w') \<Longrightarrow> ys = map g xs"
  by (induction xs arbitrary: w ys) (auto simp: effect_simps dest: assms)

lemma record_segment_keeps [keeps_rules]: "keeps (\<lambda>w. w_chunks w = s) (record_segment en wu d x)"
  unfolding record_segment_def by (cases x) (auto intro!: keeps_rules)

lemma record_segments:
  assumes "mapS (record_segment en wu d) xs w = (Inr rows, w')"
  shows "rows = map (\<lambda>(c, sc). segment_row c sc) xs \<and> w_chunks w' = w_chunks w"
proof
  show "rows = map (\<lambda>(c, sc). segment_row c sc) xs"
    by (rule mapS_pure [OF _ assms]) (auto simp: record_segment_def effect_simps)
  have "keeps (\<lambda>u. w_chunks u = w_chunks w) (mapS (record_segment en wu d) xs)" by (intro keeps_rules)
  from keepsD [OF this _ assms] show "w_chunks w' = w_chunks w" by simp
qed

lemma segment_rows_held:
  assumes "list_all2 (\<lambda>r c. held zc U s (stored_to_dict r) (ck_data c)) stored cs"
  shows "list_all2 (held zc U s) (map (\<lambda>(c, sc). segment_row c sc) (zip cs stored)) (map ck_data cs)"
  using assms
proof (induction stored cs rule: list_all2_induct)
  case (Cons r rs c cs)
  then show ?case by (auto simp: held_def seg_agrees_def segment_row_def)
qed simp

lemma segment_rows_laid:
  "tiles o1 cs e \<Longrightarrow> length stored = length cs \<Longrightarrow>
   laid (int o1) (map (\<lambda>(c, sc). segment_row c sc) (zip cs stored)) (map ck_data cs)"
proof (induction cs arbitrary: o1 stored)
  case (Cons c cs)
  obtain sc st where st: "stored = sc # st" using Cons.prems(2) by (cases stored) auto
  have "laid (int (o1 + length (ck_data c))) (map (\<lambda>(c, sc). segment_row c sc) (zip cs st)) (map ck_data cs)"
    by (rule Cons.IH) (use Cons.prems st in auto)
  then show ?case
    using Cons.prems(1) by (simp add: st segment_row_def chunk_start_def chunk_end_def)
qed simp

lemma store_segments_spec:
  assumes "store_segments en wu d ns p cs w = (Inr rows, w')" "store_inv (e_zip en) U (w_chunks w)"
    and "chunking_of data cs" "\<forall>c \<in> set cs. (wu_tenant wu, ns, ck_data c) \<in> U"
  shows "store_inv (e_zip en) U (w_chunks w') \<and> list_all2 (held (e_zip en) U (w_chunks w')) rows (map ck_data cs)
    \<and> laid 0 rows (map ck_data cs)
    \<and> (\<forall>d b. held (e_zip en) U (w_chunks w) d b \<longrightarrow> held (e_zip en) U (w_chunks w') d b)"
proof -
  let ?z = "''zstd'' \<in> set (map pa_type (pl_actions p))"
  obtain stored s' where put: "put_chunks (e_zip en) (wu_tenant wu) ns ?z cs (w_chunks w) = (Inr stored, s')"
    and inv: "store_inv (e_zip en) U s'"
    and h: "list_all2 (\<lambda>r c. held (e_zip en) U s' (stored_to_dict r) (ck_data c)) stored cs"
    and old: "\<forall>d b. held (e_zip en) U (w_chunks w) d b \<longrightarrow> held (e_zip en) U s' d b"
    using put_chunks_roundtrip [OF assms(2-4), of ?z] by blast
  have "mapS (record_segment en wu d) (zip cs stored) (w\<lparr>w_chunks := s'\<rparr>) = (Inr rows, w')"
    using assms(1) put by (simp add: store_segments_def on_chunks_def zoom_def bindS_def)
  then have rows: "rows = map (\<lambda>(c, sc). segment_row c sc) (zip cs stored)" "w_chunks w' = s'"
    using record_segments by fastforce+
  have "laid (int 0) rows (map ck_data cs)"
    unfolding rows(1) by (rule segment_rows_laid)
      (use assms(3) h in \<open>auto simp: chunking_of_def dest: list_all2_lengthD\<close>)
  then show ?thesis using inv old segment_rows_held [OF h] by (simp add: rows)
qed

lemma exec_manifest_describes:
  assumes "list_all2 (held zc U s) segs bs" "laid 0 segs bs" "concat bs = payload"
  shows "describes zc U s (mf_physical (exec_manifest en wu d p mode adapter payload segs n v k)) payload"
proof -
  have "dget (adapter_fields adapter [(''external_integrations_required'', PBool False)] @ d) k = dget d k"
    if "k \<noteq> ''adapter''" "k \<noteq> ''external_integrations_required''" for d k
    using that by (auto simp: adapter_fields_def split: option.splits)
  then show ?thesis
    unfolding describes_def by (intro exI [of _ segs] exI [of _ bs]) (use assms in \<open>simp add: exec_manifest_def\<close>)
qed

lemma announce_manifest_id: "announce_manifest en wu d mode adapter payload segs n m w = (Inr r, w') \<Longrightarrow>
    er_manifest_id r = mf_manifest_id m"
  unfolding announce_manifest_def effect_simps by (elim exE conjE) auto

lemma write_manifest_serves:
  assumes "write_manifest en wu d p mode adapter payload segs v w = (Inr r, w')"
    and inv: "store_inv (e_zip en) U (w_chunks w)"
    and segs: "list_all2 (held (e_zip en) U (w_chunks w)) segs bs" "laid 0 segs bs" "concat bs = payload"
  shows "served en U w' (er_manifest_id r) payload
    \<and> (\<forall>i b. i \<noteq> er_manifest_id r \<longrightarrow> served en U w i b \<longrightarrow> served en U w' i b)"
proof -
  obtain n mfs where put0: "file_put (e_schemas en) (e_ctx en) (exec_manifest en wu d p mode adapter payload segs n v (w_drawn w))
        (w_manifests w) = (Inr (), mfs)"
    and rest0: "announce_manifest en wu d mode adapter payload segs n (exec_manifest en wu d p mode adapter payload segs n v (w_drawn w))
        (w\<lparr>w_drawn := Suc (w_drawn w), w_manifests := mfs\<rparr>) = (Inr r, w')"
    using assms(1) by (auto simp: write_manifest_def put_manifest_def on_manifests_def Let_def effect_simps)
  define m where m: "m = exec_manifest en wu d p mode adapter payload segs n v (w_drawn w)"
  note put = put0 [folded m] and rest = rest0 [folded m]
  have ident: "er_manifest_id r = mf_manifest_id m" by (rule announce_manifest_id [OF rest])
  have frame: "w_chunks w' = w_chunks w" "w_manifests w' = mfs"
    using keepsD [OF announce_manifest_keeps(1) _ rest, of "w_chunks w"]
      keepsD [OF announce_manifest_keeps(2) _ rest, of mfs] by simp_all
  have "describes (e_zip en) U (w_chunks w) (jfile_dict (mf_physical m)) payload"
    unfolding m by (rule describes_jfile [OF inv exec_manifest_describes [OF segs]])
  moreover have "file_get (e_ctx en) (mf_manifest_id m) mfs = Inr (filed_manifest m)"
    by (rule file_manifests.get_after_put [OF put]) simp
  moreover have "mf_physical (filed_manifest m) = jfile_dict (mf_physical m)" by (simp add: filed_manifest_def)
  ultimately have "served en U w' (er_manifest_id r) payload" by (auto simp: served_def frame ident)
  moreover have "(file_get (e_ctx en) i mfs = Inr x) = (file_get (e_ctx en) i (w_manifests w) = Inr x)"
    if "i \<noteq> mf_manifest_id m" for i x
    by (rule file_manifests.get_other [OF put _ that]) simp
  ultimately show ?thesis by (auto simp: served_def frame ident)
qed

lemma served_mono:
  assumes "served en U w i b" "w_manifests w' = w_manifests w"
    and keep: "\<forall>d b. held (e_zip en) U (w_chunks w) d b \<longrightarrow> held (e_zip en) U (w_chunks w') d b"
  shows "served en U w' i b"
proof -
  obtain m rows bs where m: "file_get (e_ctx en) i (w_manifests w) = Inr m"
    and ph: "dget (mf_physical m) ''segments'' = Some (PList (map PDict rows))" "laid 0 rows bs" "concat bs = b"
      "dget (mf_physical m) ''whole_sha256'' = Some (PStr (sha256_bytes b))"
      "dget (mf_physical m) ''logical_size'' = Some (PInt (int (length b)))"
    and h: "list_all2 (held (e_zip en) U (w_chunks w)) rows bs"
    using assms(1) unfolding served_def describes_def by blast
  have "list_all2 (held (e_zip en) U (w_chunks w')) rows bs"
    by (rule list_all2_mono [OF h]) (use keep in blast)
  then show ?thesis using m ph assms(2) unfolding served_def describes_def by (intro exI conjI) auto
qed

text \<open>What a successful execution did: the gates passed, then the mode decided.\<close>

lemma execution_parts:
  assumes "execute_exact_object en wu mode pb adapter w = (Inr r, w')"
  obtains md payload d p w1 where "execution_mode en mode = Inr md" "payload_to_bytes (wu_payload wu) = Inr payload"
    "evaluate_policy wu pb = Inr d" "plan_work_unit wu md pb (Some d) = Inr p"
    "w_chunks w1 = w_chunks w" "w_manifests w1 = w_manifests w"
    "(if md = ''observe'' then record_observation en wu d p payload adapter
      else store_and_verify en wu d p md adapter payload) w1 = (Inr r, w')"
proof -
  obtain md payload d p u1 u2 wa w1 where *: "execution_mode en mode = Inr md" "payload_to_bytes (wu_payload wu) = Inr payload"
      "evaluate_policy wu pb = Inr d" "plan_work_unit wu md pb (Some d) = Inr p"
      "require_policy_approval en wu d w = (Inr u1, wa)" "announce en wu d p payload wa = (Inr u2, w1)"
      "(if md = ''observe'' then record_observation en wu d p payload adapter
        else store_and_verify en wu d p md adapter payload) w1 = (Inr r, w')"
    using assms unfolding execute_exact_object_def effect_simps by (elim exE conjE) (rule that, auto)
  have "w_chunks wa = w_chunks w" "w_manifests wa = w_manifests w"
    using keepsD [OF approval_keeps(1) _ *(5), of "w_chunks w"] keepsD [OF approval_keeps(2) _ *(5), of "w_manifests w"] by simp_all
  then have "w_chunks w1 = w_chunks w" "w_manifests w1 = w_manifests w"
    using keepsD [OF announce_keeps(1) _ *(6), of "w_chunks w"] keepsD [OF announce_keeps(2) _ *(6), of "w_manifests w"] by simp_all
  with * show thesis using that by blast
qed

text \<open>The chunks of a payload that a run may store.\<close>

definition covers :: "stored_item set \<Rightarrow> string \<Rightarrow> string \<Rightarrow> bytes \<Rightarrow> bool" where
  "covers U t n payload = (\<forall>cs. chunking_of payload cs \<longrightarrow> (\<forall>c \<in> set cs. (t, n, ck_data c) \<in> U))"

lemma execution_serves:
  assumes run: "execute_exact_object en wu mode pb adapter w = (Inr r, w')"
    and inv: "store_inv (e_zip en) U (w_chunks w)"
    and mode: "execution_mode en mode = Inr md" "md \<noteq> ''observe''"
    and payload: "payload_to_bytes (wu_payload wu) = Inr payload"
    and U: "covers U (wu_tenant wu) (storage_namespace wu md) payload"
  shows "store_inv (e_zip en) U (w_chunks w') \<and> served en U w' (er_manifest_id r) payload
    \<and> (\<forall>i b. i \<noteq> er_manifest_id r \<longrightarrow> served en U w i b \<longrightarrow> served en U w' i b)"
proof -
  obtain d p w1 where w1: "w_chunks w1 = w_chunks w" "w_manifests w1 = w_manifests w"
    and body: "store_and_verify en wu d p md adapter payload w1 = (Inr r, w')"
    by (rule execution_parts [OF run]) (use mode payload in auto)
  obtain cs segs v w2 w3 where cs: "plan_chunks p payload = Inr cs"
    and st: "store_segments en wu d (storage_namespace wu md) p cs w1 = (Inr segs, w2)"
    and ver: "verify_restore en wu d (sha256_bytes payload) segs w2 = (Inr v, w3)"
    and wr: "write_manifest en wu d p md adapter payload segs v w3 = (Inr r, w')"
    using body by (auto simp: store_and_verify_def effect_simps)
  have ch: "chunking_of payload cs" by (rule plan_chunks_chunking [OF cs])
  have stored: "store_inv (e_zip en) U (w_chunks w2)" "list_all2 (held (e_zip en) U (w_chunks w2)) segs (map ck_data cs)"
      "laid 0 segs (map ck_data cs)"
      "\<forall>d b. held (e_zip en) U (w_chunks w1) d b \<longrightarrow> held (e_zip en) U (w_chunks w2) d b"
    using store_segments_spec [OF st _ ch] inv U ch by (auto simp: w1 covers_def)
  have w3: "w_chunks w3 = w_chunks w2" "w_manifests w3 = w_manifests w1"
    using keepsD [OF verify_restore_keeps(1) _ ver, of "w_chunks w2"] keepsD [OF verify_restore_keeps(2) _ ver, of "w_manifests w2"]
      keepsD [OF store_segments_keeps _ st, of "w_manifests w1"] by simp_all
  have cat: "concat (map ck_data cs) = payload" using ch by (simp add: chunking_of_def)
  note wrote = write_manifest_serves [OF wr _ _ stored(3) cat, of U, unfolded w3(1), OF stored(1,2)]
  have "w_chunks w' = w_chunks w2" using keepsD [OF write_manifest_keeps _ wr, of "w_chunks w3"] w3 by simp
  moreover have "served en U w3 i b" if "served en U w i b" for i b
    by (rule served_mono [OF that]) (use stored(4) in \<open>simp_all add: w3 w1\<close>)
  ultimately show ?thesis using wrote stored(1) by auto
qed

text \<open>
  C1 (functional). What is executed can be had back: after a successful execution in enforce
  or shadow mode, on a chunk store that satisfies its invariant, rehydrating the returned
  manifest gives the payload byte for byte, the invariant is kept, and every other manifest
  that served some data still serves it.
\<close>

theorem execute_then_rehydrate:
  assumes "execute_exact_object en wu mode pb adapter w = (Inr r, w')"
    and "store_inv (e_zip en) U (w_chunks w)"
    and "execution_mode en mode = Inr md" "md \<noteq> ''observe''"
    and "payload_to_bytes (wu_payload wu) = Inr payload"
    and "covers U (wu_tenant wu) (storage_namespace wu md) payload"
  shows "rehydrate_manifest en (er_manifest_id r) w' = Inr payload \<and> store_inv (e_zip en) U (w_chunks w')
    \<and> (\<forall>i b. i \<noteq> er_manifest_id r \<longrightarrow> served en U w i b \<longrightarrow> rehydrate_manifest en i w' = Inr b)"
  using execution_serves [OF assms] rehydrate_served by blast

end
