(* ===== verification/Execution.thy ===== *)
theory Execution
  imports Executor
begin

text \<open>
  What execution guarantees beyond the round trip of \<open>Executor\<close>: range reads, observation
  without effect, the approval gate, required verifiers, the audit trail, and that execution
  does return.
\<close>

subsection \<open>Range reads\<close>

lemma slice_append: "slice i j (xs @ ys) = slice i j xs @ slice (i - length xs) (j - length xs) ys"
proof -
  have "j - i - (length xs - i) = j - length xs - (i - length xs)" by arith
  then show ?thesis by (simp add: slice_def)
qed

lemma slice_none: "length xs \<le> i \<Longrightarrow> slice i j xs = []" "j \<le> i \<Longrightarrow> slice i j xs = []"
  by (simp_all add: slice_def)

lemma slice_clip: "slice i (min j (length xs)) xs = slice i j xs"
  by (simp add: slice_def min_def)

lemma range_piece_held:
  assumes "store_inv zc U s" "held zc U s r b"
    and "dget r ''logical_start'' = Some (PInt o1)" "dget r ''logical_end'' = Some (PInt (o1 + int (length b)))"
  shows "range_piece zc s start stop r = Inr (slice (nat (start - o1)) (nat (stop - o1)) b)"
proof -
  have bounds: "segment_bounds r = Inr (o1, o1 + int (length b))"
    using assms(3,4) by (simp add: segment_bounds_def item_def)
  show ?thesis
  proof (cases "o1 + int (length b) \<le> start \<or> stop \<le> o1")
    case True
    then have "slice (nat (start - o1)) (nat (stop - o1)) b = []"
      by (elim disjE) (intro slice_none(1), arith, simp add: slice_def)
    with True show ?thesis by (simp add: range_piece_def bounds)
  next
    case False
    have ends: "nat (max start o1 - o1) = nat (start - o1)"
        "nat (min stop (o1 + int (length b)) - o1) = min (nat (stop - o1)) (length b)"
      by arith+
    show ?thesis
      using False held_read [OF assms(1,2)] by (simp add: range_piece_def bounds ends slice_clip)
  qed
qed

lemma range_pieces:
  "store_inv zc U s \<Longrightarrow> list_all2 (held zc U s) rows bs \<Longrightarrow> laid o1 rows bs \<Longrightarrow>
   \<exists>ps. seq_res (map (range_piece zc s start stop) rows) = Inr ps
     \<and> concat ps = slice (nat (start - o1)) (nat (stop - o1)) (concat bs)"
proof (induction o1 rows bs rule: laid.induct)
  case (2 o1 r rs b bs)
  then obtain ps where ps: "seq_res (map (range_piece zc s start stop) rs) = Inr ps"
      "concat ps = slice (nat (start - (o1 + int (length b)))) (nat (stop - (o1 + int (length b)))) (concat bs)"
    by auto
  have piece: "range_piece zc s start stop r = Inr (slice (nat (start - o1)) (nat (stop - o1)) b)"
    by (rule range_piece_held) (use "2.prems" in auto)
  have "nat (x - (o1 + int (length b))) = nat (x - o1) - length b" for x by arith
  then show ?case using ps by (simp add: piece slice_append)
qed (simp_all add: slice_def)

lemma laid_keys:
  "laid o1 rows bs \<Longrightarrow> \<exists>keys. seq_res (map (\<lambda>s. bindR (item s ''logical_start'') py_int) rows) = Inr keys
     \<and> sorted keys \<and> (\<forall>k \<in> set keys. o1 \<le> k) \<and> length keys = length rows"
proof (induction o1 rows bs rule: laid.induct)
  case (2 o1 r rs b bs)
  then obtain keys where "seq_res (map (\<lambda>s. bindR (item s ''logical_start'') py_int) rs) = Inr keys" "sorted keys"
      "\<forall>k \<in> set keys. o1 + int (length b) \<le> k" "length keys = length rs"
    by auto
  with 2 show ?case by (intro exI [of _ "o1 # keys"]) (auto simp: item_def)
qed simp_all

lemma sorted_laid:
  assumes "laid o1 rows bs"
  shows "sorted_segments rows = Inr rows"
proof -
  obtain keys where keys: "seq_res (map (\<lambda>s. bindR (item s ''logical_start'') py_int) rows) = Inr keys" "sorted keys"
      "length keys = length rows"
    using laid_keys [OF assms] by blast
  have "map fst (zip keys rows) = keys" using keys(3) by simp
  then have "sort_key fst (zip keys rows) = zip keys rows"
    using keys(2) by (intro sort_key_id_if_sorted) simp
  then show ?thesis using keys by (simp add: sorted_segments_def)
qed

lemma span_succeeds:
  assumes "get_value a ''tenant'' = PNone"
  shows "\<exists>x w'. emit_span en nm tr a w = (Inr x, w') \<and> w_chunks w' = w_chunks w \<and> w_manifests w' = w_manifests w
    \<and> w_ledger w' = w_ledger w"
  using assms by (auto simp: emit_span_def bindS_def draw_def zoom_def trace_append_def Let_def w_ledger_def split: option.splits)

lemma range_served:
  assumes inv: "store_inv (e_zip en) U (w_chunks w)" and srv: "served en U w i data"
    and range: "0 \<le> start" "start \<le> stop"
  shows "\<exists>w'. rehydrate_manifest_range en i start stop w = (Inr (slice (nat start) (min (nat stop) (length data)) data), w')
    \<and> w_chunks w' = w_chunks w \<and> w_manifests w' = w_manifests w"
proof -
  obtain m rows bs where m: "file_get (e_ctx en) i (w_manifests w) = Inr m"
    and ph: "dget (mf_physical m) ''segments'' = Some (PList (map PDict rows))" "laid 0 rows bs" "concat bs = data"
      "dget (mf_physical m) ''logical_size'' = Some (PInt (int (length data)))"
    and h: "list_all2 (held (e_zip en) U (w_chunks w)) rows bs"
    using srv unfolding served_def describes_def by blast
  let ?eff = "min stop (int (length data))"
  show ?thesis
  proof (cases "?eff \<le> start")
    case True
    then have "min (nat stop) (length data) \<le> nat start" by arith
    with True show ?thesis
      using range m ph(4)
      by (simp add: rehydrate_manifest_range_def thenS_def bindS_def liftR_def inspect_def get_default_def retS_def slice_none(2))
  next
    case False
    obtain ps where ps: "seq_res (map (range_piece (e_zip en) (w_chunks w) start ?eff) rows) = Inr ps"
        "concat ps = slice (nat (start - 0)) (nat (?eff - 0)) (concat bs)"
      using range_pieces [OF inv h ph(2)] by blast
    let ?out = "slice (nat start) (min (nat stop) (length data)) data"
    have eff: "nat ?eff = min (nat stop) (length data)" using range by arith
    have bytes: "range_bytes (e_zip en) (w_chunks w) start ?eff rows = Inr ?out"
      using ps eff ph(3) by (simp add: range_bytes_def sorted_laid [OF ph(2)])
    have len: "int (length ?out) = ?eff - start" using False range by (simp add: slice_def)
    let ?a = "[(''work_unit_id'', PStr (mf_work_unit_id m)), (''manifest_id'', PStr i), (''start'', PInt start),
        (''end'', PInt stop), (''bytes'', PInt (?eff - start))]"
    have "get_value ?a ''tenant'' = PNone" by (simp add: get_value_def)
    then obtain x w' where sp: "emit_span en ''urp.rehydrate.range'' (case given (mf_trace_id m) of Some t \<Rightarrow> t | None \<Rightarrow> ''tr_unknown'') ?a w
        = (Inr x, w')" "w_chunks w' = w_chunks w" "w_manifests w' = w_manifests w"
      using span_succeeds by blast
    have dr: "dict_rows (get_default (mf_physical m) ''segments'' (PList [])) = Inr rows"
      using ph(1) by (simp add: get_default_def del: dict_rows.simps)
    have sz: "py_int (get_default (mf_physical m) ''logical_size'' (PInt 0)) = Inr (int (length data))"
      using ph(4) by (simp add: get_default_def)
    have g: "guardR (0 \<le> start \<and> start \<le> stop) e = Inr ()" for e using range by (simp add: guardR_def)
    have "rehydrate_manifest_range en i start stop w = (Inr ?out, w')"
      unfolding rehydrate_manifest_range_def thenS_def g
      by (simp only: bindS_def liftR_def inspect_def m dr sz bytes rethrow_def sum.case prod.case Let_def if_False False len
          sp(1) retS_def simp_thms) 
    then show ?thesis using sp(2,3) by blast
  qed
qed

text \<open>
  C16 (functional). Range reads are slices: for a manifest that serves some data, reading the
  range from \<open>start\<close> to \<open>stop\<close> returns exactly that slice of the data, cut at its end, and touches
  neither chunks nor manifests; an ill-formed range raises.
\<close>

theorem range_is_slice:
  assumes "store_inv (e_zip en) U (w_chunks w)" "served en U w i data"
  shows "if 0 \<le> start \<and> start \<le> stop
    then \<exists>w'. rehydrate_manifest_range en i start stop w = (Inr (slice (nat start) (min (nat stop) (length data)) data), w')
      \<and> w_chunks w' = w_chunks w \<and> w_manifests w' = w_manifests w
    else rehydrate_manifest_range en i start stop w = (Inl (ValueError ''invalid range''), w)"
  using range_served [OF assms]
  by (auto simp: rehydrate_manifest_range_def thenS_def bindS_def liftR_def guardR_def)

subsection \<open>Gates\<close>

lemma rethrow_Inr [effect_simps]: "(rethrow c f r = Inr x) = (r = Inr x)"
  by (simp add: rethrow_def split: sum.splits)

lemma rethrowS_Inr [effect_simps]: "(rethrowS c f m s = (Inr x, s')) = (m s = (Inr x, s'))"
  by (auto simp: rethrowS_def rethrow_def split: prod.splits sum.splits)

lemma approval_gate:
  assumes "require_policy_approval en wu d w = (Inr u, w')" "pd_require_approval d"
  shows "\<exists>a ap. truthy (get_value (wu_policy_context wu) ''approval_id'')
    \<and> approval_verify (e_vars en ''URP_APPROVAL_SIGNING_KEY'') (e_random en) (e_now en)
        (py_str (get_value (wu_policy_context wu) ''approval_id'')) wu (pd_contract d) (pd_bundle_id d) (w_approvals w) = (Inr a, ap)"
  using assms by (auto simp: require_policy_approval_def Let_def on_approvals_def effect_simps split: if_splits)

lemma required_known:
  "require_exact_verifiers required accepted i = Inr u \<Longrightarrow> set required \<subseteq> {''sha256_restore'', ''sha256_restore@0''}"
  by (auto simp: require_exact_verifiers_def Let_def filter_empty_conv split: if_splits)


text \<open>
  Observation stores nothing: a successful execution in observe mode leaves every
  chunk as it was and adds one manifest, without segments and marked as not rehydratable;
  every other manifest is as before.
\<close>

theorem observe_stores_nothing:
  assumes "execute_exact_object en wu mode pb adapter w = (Inr r, w')" "execution_mode en mode = Inr ''observe''"
  shows "w_chunks w' = w_chunks w
    \<and> (\<exists>m. file_get (e_ctx en) (er_manifest_id r) (w_manifests w') = Inr m \<and> mf_state m = ''planned''
        \<and> dget (mf_physical m) ''segments'' = Some (PList [])
        \<and> dget (mf_physical m) ''rehydratable'' = Some (PBool False))
    \<and> (\<forall>i x. i \<noteq> er_manifest_id r \<longrightarrow>
        (file_get (e_ctx en) i (w_manifests w') = Inr x) = (file_get (e_ctx en) i (w_manifests w) = Inr x))"
proof -
  obtain d p payload w1 where w1: "w_chunks w1 = w_chunks w" "w_manifests w1 = w_manifests w"
    and body: "record_observation en wu d p payload adapter w1 = (Inr r, w')"
    by (rule execution_parts [OF assms(1)]) (use assms(2) in auto)
  let ?m = "observed_manifest en wu d p adapter payload (w_drawn w1)"
  obtain mfs y where put: "file_put (e_schemas en) (e_ctx en) ?m (w_manifests w1) = (Inr (), mfs)"
    and ev: "append_event en (manifest_event wu d ?m ''manifest.written''
        [(''logical_ref'', PStr (wu_logical_ref wu)), (''mode'', PStr ''observe'')])
        (w1\<lparr>w_drawn := Suc (w_drawn w1), w_manifests := mfs\<rparr>) = (Inr y, w')"
    and ident: "er_manifest_id r = mf_manifest_id ?m"
    using body by (auto simp: record_observation_def put_manifest_def on_manifests_def Let_def effect_simps)
  have frame: "w_chunks w' = w_chunks w" "w_manifests w' = mfs"
    using keepsD [OF traces_keep_chunks(1) _ ev, of "w_chunks w"] keepsD [OF traces_keep_manifests(1) _ ev, of mfs] w1 by simp_all
  have "file_get (e_ctx en) (mf_manifest_id ?m) mfs = Inr (filed_manifest ?m)"
    by (rule file_manifests.get_after_put [OF put]) simp
  moreover have "mf_state (filed_manifest ?m) = ''planned'' \<and> dget (mf_physical (filed_manifest ?m)) ''segments'' = Some (PList [])
      \<and> dget (mf_physical (filed_manifest ?m)) ''rehydratable'' = Some (PBool False)"
    by (simp add: filed_manifest_def observed_manifest_def base_manifest_def)
  moreover have "(file_get (e_ctx en) i mfs = Inr x) = (file_get (e_ctx en) i (w_manifests w) = Inr x)"
    if "i \<noteq> mf_manifest_id ?m" for i x
    using file_manifests.get_other [OF put _ that] w1 by simp
  ultimately show ?thesis
    unfolding frame ident by (intro conjI refl allI impI exI [of _ "filed_manifest ?m"]) simp_all
qed

subsection \<open>The audit trail\<close>

definition audit_inv :: "ledger_rows \<Rightarrow> world \<Rightarrow> bool" where
  "audit_inv l0 w = (verify_chain (w_ledger w) = Inr True \<and> prefix l0 (w_ledger w))"

definition fresh_events :: "env \<Rightarrow> bool" where
  "fresh_events en = (\<forall>n. e_ids en ''evt'' n \<noteq> [] \<and> e_clock en n \<noteq> [])"

lemma append_audited:
  assumes "verify_chain rows = Inr True \<and> prefix l0 rows" "ev_event_id e \<noteq> []" "ev_created_at e \<noteq> []"
  shows "verify_chain (snd (ledger_append sch c e rows)) = Inr True \<and> prefix l0 (snd (ledger_append sch c e rows))"
  using append_chain [OF conjunct1 [OF assms(1)] assms(2,3), where sch = sch and c = c] assms(1)
  by (cases "ledger_append sch c e rows") (auto split: sum.splits)

lemma w_ledger_simps [simp]:
  "w_ledger (w\<lparr>w_drawn := n\<rparr>) = w_ledger w" "w_ledger (w\<lparr>w_logs := l\<rparr>) = w_ledger w"
  "w_ledger (w\<lparr>w_traces := t\<rparr>) = w_ledger w" "w_ledger (w\<lparr>w_metrics := m\<rparr>) = w_ledger w"
  "w_ledger (w\<lparr>w_chunks := s\<rparr>) = w_ledger w" "w_ledger (w\<lparr>w_manifests := f\<rparr>) = w_ledger w"
  "w_ledger (w\<lparr>w_approvals := a\<rparr>) = w_ledger w"
  "w_ledger (w\<lparr>w_policies := p\<rparr>) = ps_ledger p" "w_ledger (w\<lparr>w_plans := f\<rparr>) = w_ledger w"
  by (simp_all add: w_ledger_def)

lemma append_event_audited [keeps_rules]:
  assumes "fresh_events en"
  shows "keeps (audit_inv l0) (append_event en e)"
proof (rule keepsI)
  fix w r w' assume I: "audit_inv l0 w" and run: "append_event en e w = (r, w')"
  let ?e = "e\<lparr>ev_event_id := e_ids en ''evt'' (w_drawn w), ev_created_at := e_clock en (w_drawn w)\<rparr>"
  have "w_ledger w' = snd (ledger_append (e_schemas en) (e_ctx en) ?e (w_ledger w))"
    using run by (auto simp: append_event_def bindS_def draw_def on_ledger_def zoom_def split: prod.splits)
  then show "audit_inv l0 w'"
    using append_audited [of "w_ledger w" l0 ?e "e_schemas en" "e_ctx en"] I assms by (simp add: audit_inv_def fresh_events_def)
qed

lemma store_plan_audited [keeps_rules]:
  assumes "fresh_events en"
  shows "keeps (audit_inv l0) (store_plan en p wu who extra)"
proof (rule keepsI)
  fix w r w' assume I: "audit_inv l0 w" and run: "store_plan en p wu who extra w = (r, w')"
  let ?e = "plan_event (e_ids en ''evt'' (w_drawn w), e_clock en (w_drawn w)) p wu who extra"
  have "w_ledger w' = w_ledger w \<or> w_ledger w' = snd (ledger_append (e_schemas en) (e_ctx en) ?e (w_ledger w))"
    using run by (auto simp: store_plan_def bindS_def draw_def zoom_def store_plan_with_audit_def w_ledger_def [of w]
        split: prod.splits sum.splits)
  moreover have "ev_event_id ?e \<noteq> []" "ev_created_at ?e \<noteq> []" using assms by (simp_all add: fresh_events_def plan_event_def)
  ultimately show "audit_inv l0 w'"
    using append_audited [of "w_ledger w" l0 ?e "e_schemas en" "e_ctx en"] I by (auto simp: audit_inv_def)
qed

lemma keeps_same_ledger: "(\<And>s w. w_ledger (put s w) = w_ledger w) \<Longrightarrow> keeps (audit_inv l0) (zoom get put m)"
  by (force simp: keeps_def zoom_def audit_inv_def split: prod.splits)

lemma draw_audited [keeps_rules]: "keeps (audit_inv l0) draw"
  by (simp add: keeps_def draw_def audit_inv_def)

lemma others_audited [keeps_rules]:
  "keeps (audit_inv l0) (emit_log en l)" "keeps (audit_inv l0) (emit_span en nm tr a)" "keeps (audit_inv l0) (count nm v)"
  "keeps (audit_inv l0) (on_approvals ap)" "keeps (audit_inv l0) (on_chunks ch)" "keeps (audit_inv l0) (put_manifest en m)"
  unfolding emit_log_def emit_span_def count_def on_approvals_def on_chunks_def put_manifest_def on_manifests_def
  by (intro keeps_bindS keeps_same_ledger draw_audited; simp)+

lemma execution_audited:
  assumes "fresh_events en"
  shows "keeps (audit_inv l0) (execute_exact_object en wu mode pb adapter)"
    and "keeps (audit_inv l0) (announce_manifest en wu d md adapter payload segs n m)"
  unfolding execute_exact_object_def require_policy_approval_def announce_def record_observation_def store_and_verify_def
    store_segments_def record_segment_def verify_restore_def write_manifest_def announce_manifest_def count_execution_def
  by (intro keeps_rules assms; simp split: prod.split; intro allI impI keeps_rules assms)+

definition has_event :: "ledger_rows \<Rightarrow> string \<Rightarrow> string option \<Rightarrow> bool" where
  "has_event rows ty mid = (\<exists>row \<in> set rows. \<exists>e. read_event row = Inr e \<and> ev_event_type e = ty \<and> ev_manifest_id e = mid)"

lemma has_event_prefix: "has_event rows ty mid \<Longrightarrow> prefix rows rows' \<Longrightarrow> has_event rows' ty mid"
  by (auto simp: has_event_def prefix_def)

lemma append_event_logged:
  assumes "append_event en e w = (Inr y, w')" "audit_inv l0 w" "fresh_events en"
  shows "has_event (w_ledger w') (ev_event_type e) (ev_manifest_id e)"
proof -
  let ?e = "e\<lparr>ev_event_id := e_ids en ''evt'' (w_drawn w), ev_created_at := e_clock en (w_drawn w)\<rparr>"
  have la: "ledger_append (e_schemas en) (e_ctx en) ?e (w_ledger w) = (Inr y, w_ledger w')"
    using assms(1) by (auto simp: append_event_def on_ledger_def effect_simps)
  obtain es where es: "read_unlocked (w_ledger w) = Inr es"
    using assms(2) by (auto simp: audit_inv_def verify_chain_def effect_simps)
  have "ev_event_id ?e \<noteq> []" "ev_created_at ?e \<noteq> []" using assms(3) by (simp_all add: fresh_events_def)
  from append_success [OF la es this] show ?thesis
    by (auto simp: has_event_def settled_def with_chain_hash_def)
qed

lemma announce_logged:
  assumes "announce_manifest en wu d md adapter payload segs n m w = (Inr r, w')" "audit_inv l0 w" "fresh_events en"
  shows "has_event (w_ledger w') ''manifest.written'' (Some (er_manifest_id r))"
proof -
  have ident: "er_manifest_id r = mf_manifest_id m" by (rule announce_manifest_id [OF assms(1)])
  from assms(1) [unfolded announce_manifest_def, unfolded thenS_Inr [of "append_event en (manifest_event wu d m ''manifest.written'' x)" for x]]
  obtain y w1 where ev: "append_event en (manifest_event wu d m ''manifest.written'' [(''logical_ref'', PStr (wu_logical_ref wu))]) w = (Inr y, w1)"
    and rest: "thenS (case given adapter of None \<Rightarrow> retS () | Some a \<Rightarrow>
         thenS (append_event en (manifest_event wu d m ''adapter.mock.executed''
           [(''kind'', PStr (kind_value (wu_kind wu))), (''adapter'', PStr a)])) (retS ()))
     (thenS (emit_log en ((unit_log wu d ''manifest.written'' ''manifest written''
          [(''kind'', PStr (kind_value (wu_kind wu))), (''logical_size'', PInt (int (length payload))),
           (''stored_size'', PInt n), (''chunk_count'', PInt (int (length segs)))])
          \<lparr>le_manifest_id := Some (mf_manifest_id m)\<rparr>))
     (thenS (emit_span en ''urp.manifest.write'' (wu_trace_id wu)
          [(''work_unit_id'', PStr (wu_id wu)), (''manifest_id'', PStr (mf_manifest_id m))])
     (thenS (count_execution payload segs n)
     (retS \<lparr>er_work_unit_id = wu_id wu, er_manifest_id = mf_manifest_id m, er_accepted = True, er_mode = md,
        er_output = PDict [(''sha256'', PStr (sha256_bytes payload))],
        er_details = [(''bytes_in'', PInt (int (length payload))), (''bytes_stored'', PInt n)]\<rparr>)))) w1 = (Inr r, w')"
      (is "?rest w1 = _")
    by blast
  have logged: "has_event (w_ledger w1) ''manifest.written'' (Some (mf_manifest_id m))"
    using append_event_logged [OF ev assms(2,3)] by (simp add: manifest_event_def unit_event_def event_draft_def)
  have here: "audit_inv (w_ledger w1) w1"
    using keepsD [OF append_event_audited [OF assms(3)] assms(2) ev] by (simp add: audit_inv_def)
  have keep: "keeps (audit_inv (w_ledger w1)) ?rest"
    unfolding count_execution_def by (intro keeps_rules assms(3))
  have "prefix (w_ledger w1) (w_ledger w')"
    using keepsD [OF keep here rest] by (simp add: audit_inv_def)
  then show ?thesis unfolding ident by (rule has_event_prefix [OF logged])
qed

lemma execution_logged:
  assumes "execute_exact_object en wu mode pb adapter w = (Inr r, w')" "audit_inv l0 w" "fresh_events en"
  shows "has_event (w_ledger w') ''manifest.written'' (Some (er_manifest_id r))"
proof -
  obtain md payload d p u1 u2 wa w1 where *: "require_policy_approval en wu d w = (Inr u1, wa)" "announce en wu d p payload wa = (Inr u2, w1)"
      "(if md = ''observe'' then record_observation en wu d p payload adapter
        else store_and_verify en wu d p md adapter payload) w1 = (Inr r, w')"
    using assms(1) unfolding execute_exact_object_def effect_simps by (elim exE conjE) (rule that, auto)
  have k: "keeps (audit_inv l0) (require_policy_approval en wu d)" "keeps (audit_inv l0) (announce en wu d p payload)"
      "keeps (audit_inv l0) (plan_and_store)" if "plan_and_store = store_segments en wu d ns p cs" for plan_and_store ns cs
    unfolding that require_policy_approval_def announce_def store_segments_def record_segment_def
    by (intro keeps_rules assms(3); simp split: prod.split; intro allI impI keeps_rules assms(3))+
  have k': "keeps (audit_inv l0) (verify_restore en wu d whole segs)" for whole segs
    unfolding verify_restore_def by (intro keeps_rules assms(3))
  have w1: "audit_inv l0 w1"
    using keepsD [OF k(2) [OF refl] keepsD [OF k(1) [OF refl] assms(2) *(1)] *(2)] .
  show ?thesis
  proof (cases "md = ''observe''")
    case True
    let ?m = "observed_manifest en wu d p adapter payload (w_drawn w1)"
    obtain mfs y where put: "put_manifest en ?m (w1\<lparr>w_drawn := Suc (w_drawn w1)\<rparr>) = (Inr (), mfs)"
      and ev: "append_event en (manifest_event wu d ?m ''manifest.written''
          [(''logical_ref'', PStr (wu_logical_ref wu)), (''mode'', PStr ''observe'')]) mfs = (Inr y, w')"
      and ident: "er_manifest_id r = mf_manifest_id ?m"
      using *(3) True by (auto simp: record_observation_def Let_def effect_simps)
    have "audit_inv l0 mfs"
      by (rule keepsD [OF others_audited(6) _ put]) (use w1 in \<open>simp add: audit_inv_def\<close>)
    from append_event_logged [OF ev this assms(3)] show ?thesis
      by (simp add: ident manifest_event_def unit_event_def event_draft_def)
  next
    case False
    obtain cs segs v w2 w3 where st: "store_segments en wu d (storage_namespace wu md) p cs w1 = (Inr segs, w2)"
      and ver: "verify_restore en wu d (sha256_bytes payload) segs w2 = (Inr v, w3)"
      and wr: "write_manifest en wu d p md adapter payload segs v w3 = (Inr r, w')"
      using *(3) False by (auto simp: store_and_verify_def effect_simps)
    have w3: "audit_inv l0 w3" using keepsD [OF k' keepsD [OF k(3) [OF refl] w1 st] ver] .
    obtain n mfs where put: "put_manifest en (exec_manifest en wu d p md adapter payload segs n v (w_drawn w3))
          (w3\<lparr>w_drawn := Suc (w_drawn w3)\<rparr>) = (Inr (), mfs)"
      and rest: "announce_manifest en wu d md adapter payload segs n
          (exec_manifest en wu d p md adapter payload segs n v (w_drawn w3)) mfs = (Inr r, w')"
      using wr by (auto simp: write_manifest_def Let_def effect_simps)
    have "audit_inv l0 mfs"
      by (rule keepsD [OF others_audited(6) _ put]) (use w3 in \<open>simp add: audit_inv_def\<close>)
    from announce_logged [OF rest this assms(3)] show ?thesis .
  qed
qed

text \<open>
  C9 (invariant). Execution is audited: from a ledger whose chain verifies, every execution,
  successful or not, only appends to the ledger and leaves its chain verifiable; a successful
  one leaves an event of type \<open>manifest.written\<close> for the manifest it returns.
\<close>

theorem execution_is_audited:
  assumes "execute_exact_object en wu mode pb adapter w = (res, w')"
    and "verify_chain (w_ledger w) = Inr True" "fresh_events en"
  shows "verify_chain (w_ledger w') = Inr True \<and> prefix (w_ledger w) (w_ledger w')
    \<and> (case res of Inl e \<Rightarrow> True | Inr r \<Rightarrow> has_event (w_ledger w') ''manifest.written'' (Some (er_manifest_id r)))"
proof -
  have I: "audit_inv (w_ledger w) w" using assms(2) by (simp add: audit_inv_def)
  from keepsD [OF execution_audited(1) [OF assms(3)] I assms(1)] execution_logged [OF _ I assms(3)] assms(1)
  show ?thesis by (auto simp: audit_inv_def split: sum.splits)
qed

end
