(* ===== verification/Liveness.thy ===== *)
theory Liveness
  imports Execution
begin

text \<open>
  Execution returns: for an open environment (a permissive schema validator, a principal that
  may act for the work unit's tenant, well-formed fresh identifiers), a readable ledger and a
  decision that asks for nothing the executor does not do, every step succeeds.
\<close>

definition open_env :: "env \<Rightarrow> string \<Rightarrow> bool" where
  "open_env en t = (sees (e_ctx en) (Some t) \<and> (\<forall>n d. e_schemas en n d = Inr ()) \<and> fresh_events en
     \<and> (\<forall>n. \<not> isl (manifest_id_ok (e_ids en ''mf'' n))))"

definition readable :: "world \<Rightarrow> bool" where
  "readable w = (\<not> isl (read_unlocked (w_ledger w)))"

text \<open>\<open>succeeds I m\<close>: from a state with \<open>I\<close> the operation returns, to a state with \<open>I\<close>.\<close>

definition succeeds :: "('s \<Rightarrow> bool) \<Rightarrow> ('a, 's) sres \<Rightarrow> bool" where
  "succeeds I m = (\<forall>s. I s \<longrightarrow> (\<exists>x s'. m s = (Inr x, s') \<and> I s'))"

abbreviation runs :: "'a io \<Rightarrow> bool" where
  "runs \<equiv> succeeds readable"

lemmas runs_def = succeeds_def [where I = readable]

named_theorems runs_rules \<open>what succeeds from good states\<close>

lemma runsD: "succeeds I m \<Longrightarrow> I s \<Longrightarrow> \<exists>x s'. m s = (Inr x, s') \<and> I s'"
  by (simp add: succeeds_def)

lemma runs_retS [runs_rules]: "succeeds I (retS x)"
  by (simp add: succeeds_def retS_def)

lemma runs_bindS [runs_rules]: "succeeds I m \<Longrightarrow> (\<And>x. succeeds I (f x)) \<Longrightarrow> succeeds I (bindS m f)"
  unfolding succeeds_def by (metis bindS_step)

lemma runs_thenS [runs_rules]: "succeeds I m \<Longrightarrow> succeeds I n \<Longrightarrow> succeeds I (thenS m n)"
  by (simp add: thenS_def runs_bindS)

lemma runs_mapS [runs_rules]: "(\<And>x. succeeds I (f x)) \<Longrightarrow> succeeds I (mapS f xs)"
  by (induction xs) (auto intro!: runs_rules)

lemma runs_option [runs_rules]: "succeeds I m \<Longrightarrow> (\<And>x. succeeds I (f x)) \<Longrightarrow> succeeds I (case v of None \<Rightarrow> m | Some x \<Rightarrow> f x)"
  by (cases v) auto

lemma runs_if [runs_rules]: "(b \<Longrightarrow> succeeds I m) \<Longrightarrow> (\<not> b \<Longrightarrow> succeeds I n) \<Longrightarrow> succeeds I (if b then m else n)"
  by simp

lemma runs_liftR: "v = Inr x \<Longrightarrow> succeeds I (liftR v)"
  by (simp add: succeeds_def liftR_def)

text \<open>A condition on the results of the first operation.\<close>

lemma runs_bind_if:
  assumes "succeeds I m" "\<And>s x s'. I s \<Longrightarrow> m s = (Inr x, s') \<Longrightarrow> P x" "\<And>x. P x \<Longrightarrow> succeeds I (f x)"
  shows "succeeds I (bindS m f)"
  unfolding succeeds_def
proof (intro allI impI)
  fix s assume s: "I s"
  obtain x s1 where m: "m s = (Inr x, s1)" "I s1" using runsD [OF assms(1) s] by blast
  obtain y s2 where "f x s1 = (Inr y, s2)" "I s2" using runsD [OF assms(3) [OF assms(2) [OF s m(1)]] m(2)] by blast
  then show "\<exists>x s'. bindS m f s = (Inr x, s') \<and> I s'" using m by (simp add: bindS_def)
qed

lemma runs_draw [runs_rules]: "runs draw"
  by (simp add: runs_def draw_def readable_def)

text \<open>An operation on a part of the state other than the ledger.\<close>

lemma runs_zoom:
  assumes "\<And>s. \<exists>x s'. m s = (Inr x, s')" "\<And>s w. w_ledger (put s w) = w_ledger w"
  shows "runs (zoom get put m)"
  unfolding runs_def
proof (intro allI impI)
  fix w assume "readable w"
  moreover obtain x s' where "m (get w) = (Inr x, s')" using assms(1) by blast
  ultimately show "\<exists>x w'. zoom get put m w = (Inr x, w') \<and> readable w'"
    using assms(2) by (simp add: zoom_def readable_def)
qed

lemma ledger_append_ok:
  assumes "sees c (Some (ev_tenant e))" "\<forall>n d. sch n d = Inr ()" "json_ok (PDict (ev_details e))"
    and "ev_event_id e \<noteq> []" "ev_created_at e \<noteq> []" "\<not> isl (read_unlocked rows)"
  shows "\<exists>e' rows'. ledger_append sch c e rows = (Inr e', rows') \<and> \<not> isl (read_unlocked rows')"
proof -
  obtain es where es: "read_unlocked rows = Inr es" using assms(6) by (cases "read_unlocked rows") auto
  let ?prev = "if es = [] then None else Some (last es)"
  let ?e = "with_chain_hash e (event_hash_of ?prev)"
  have "json_ok (PDict (event_to_dict ?e))"
    using assms(3) by (simp add: event_to_dict_def with_chain_hash_def opt_value_def split: option.splits)
  then have "json_write (event_to_dict ?e) = Inr (jnorm_dict (event_to_dict ?e))" by (simp add: json_write_def)
  moreover have "enforce_tenant c (ev_tenant e) = Inr ()" using assms(1) by (simp add: enforce_tenant_sees)
  ultimately have la: "ledger_append sch c e rows = (Inr ?e, rows @ [jnorm_dict (event_to_dict ?e)])"
    by (simp add: ledger_append_def thenS_def bindS_def liftR_def last_event_read [OF es] Let_def assms(2))
  from append_success [OF la es assms(4,5)] show ?thesis using la by auto
qed

lemma append_event_runs:
  assumes "open_env en t" "ev_tenant e = t" "json_ok (PDict (ev_details e))"
  shows "runs (append_event en e)"
  unfolding runs_def
proof (intro allI impI)
  fix w assume r: "readable w"
  let ?e = "e\<lparr>ev_event_id := e_ids en ''evt'' (w_drawn w), ev_created_at := e_clock en (w_drawn w)\<rparr>"
  have "\<exists>e' rows'. ledger_append (e_schemas en) (e_ctx en) ?e (w_ledger w) = (Inr e', rows') \<and> \<not> isl (read_unlocked rows')"
    by (rule ledger_append_ok) (use assms r in \<open>simp_all add: open_env_def readable_def fresh_events_def\<close>)
  then show "\<exists>x w'. append_event en e w = (Inr x, w') \<and> readable w'"
    by (auto simp: append_event_def bindS_def draw_def on_ledger_def zoom_def readable_def)
qed

lemma emit_log_runs: "open_env en t \<Longrightarrow> le_tenant e = Some t \<Longrightarrow> runs (emit_log en e)"
  unfolding emit_log_def
  by (intro runs_bindS runs_draw runs_zoom)
    (auto simp: log_append_def open_env_def sees_def split: option.splits)

lemma emit_span_runs: "open_env en t \<Longrightarrow> get_value a ''tenant'' \<in> {PNone, PStr t} \<Longrightarrow> runs (emit_span en nm tr a)"
  unfolding emit_span_def
  by (intro runs_bindS runs_draw runs_zoom)
    (auto simp: trace_append_def Let_def open_env_def sees_def split: option.splits)

lemma count_runs: "metric_name_ok nm \<Longrightarrow> runs (count nm v)"
  unfolding count_def by (intro runs_zoom) (auto simp: metric_inc_def thenS_def bindS_def liftR_def validate_metric_def)

lemma store_plan_runs:
  assumes "open_env en t" "wu_tenant wu = t" "pl_tenant p = Some t" "\<not> isl (plan_id_ok (pl_plan_id p))"
    and "json_ok (PDict (plan_to_dict p))"
  shows "runs (store_plan en p wu who [])"
  unfolding runs_def
proof (intro allI impI)
  fix w assume r: "readable w"
  let ?e = "plan_event (e_ids en ''evt'' (w_drawn w), e_clock en (w_drawn w)) p wu who []"
  have "\<exists>e' rows'. ledger_append (e_schemas en) (e_ctx en) ?e (w_ledger w) = (Inr e', rows') \<and> \<not> isl (read_unlocked rows')"
    by (rule ledger_append_ok)
      (use assms r in \<open>simp_all add: open_env_def readable_def fresh_events_def plan_event_def\<close>)
  then obtain e' rows' where la: "ledger_append (e_schemas en) (e_ctx en) ?e (w_ledger w) = (Inr e', rows')"
      "\<not> isl (read_unlocked rows')" by blast
  have "enforce_owner (e_ctx en) (pl_tenant p) = Inr ()" using assms(1,3) by (simp add: enforce_owner_Inr open_env_def)
  then have "\<exists>f. plan_put (e_ctx en) p (w_plans w) = (Inr (), f)"
    using assms(4) by (auto simp: plan_put_def thenS_def bindS_def liftR_def split: sum.splits)
  then obtain f where "plan_put (e_ctx en) p (w_plans w) = (Inr (), f)" by blast
  then show "\<exists>x w'. store_plan en p wu who [] w = (Inr x, w') \<and> readable w'"
    using la by (simp add: store_plan_def bindS_def draw_def zoom_def store_plan_with_audit_def readable_def w_ledger_def)
qed

lemma put_manifest_runs:
  assumes "open_env en t" "mf_tenant m = t" "\<not> isl (manifest_id_ok (mf_manifest_id m))"
    and "get_value (mf_physical m) ''compute_manifest'' = PNone"
  shows "runs (put_manifest en m)"
proof -
  have "validate_manifest (e_schemas en) m = Inr (manifest_to_dict m)"
    using assms(1,4) by (simp add: validate_manifest_def Let_def open_env_def)
  moreover have "enforce_tenant (e_ctx en) (mf_tenant m) = Inr ()"
    using assms(1,2) by (simp add: enforce_tenant_sees open_env_def)
  moreover obtain x where "manifest_id_ok (mf_manifest_id m) = Inr x"
    using assms(3) by (cases "manifest_id_ok (mf_manifest_id m)") auto
  ultimately show ?thesis
    unfolding put_manifest_def on_manifests_def by (intro runs_zoom) (simp_all add: file_put_def thenS_def bindS_def liftR_def)
qed

subsection \<open>Plans and decisions are JSON\<close>

lemma json_ok_strs [simp]: "json_ok (strs xs)"
  by (simp add: strs_def list_all_iff)

lemma json_ok_opt_value [simp]: "json_ok (opt_value v)"
  by (simp add: opt_value_def split: option.splits)

lemma json_ok_milli [simp]: "json_ok (milli k)"
  by (simp add: milli_def)

lemma json_ok_decision: "json_ok (PDict (decision_to_dict d))"
  by (simp add: decision_to_dict_def)

lemma steps_plain: "a \<in> set (kind_steps wu) \<Longrightarrow> pa_params a = []"
proof -
  have "list_all (\<lambda>a. pa_params a = []) embedding_steps" "list_all (\<lambda>a. pa_params a = []) prompt_steps"
    by code_simp+
  moreover have "list_all (\<lambda>a. pa_params a = []) (object_steps cl)" for cl
    by (simp add: object_steps_def plan_step_def)
  ultimately show "a \<in> set (kind_steps wu) \<Longrightarrow> pa_params a = []"
    by (auto simp: kind_steps_def list_all_iff split: if_splits)
qed

lemma planned_plain: "a \<in> set (planned_steps wu mode d) \<Longrightarrow> pa_params a = []"
  using with_store_set [of "kept_steps wu mode d"] steps_plain [of a wu]
  by (auto simp: planned_steps_def kept_steps_def plan_step_def split: if_splits)

definition finished :: "work_unit \<Rightarrow> string \<Rightarrow> policy_decision \<Rightarrow> plan \<Rightarrow> bool" where
  "finished wu mode d p = (\<exists>as risk ex fb. p = finish_plan wu mode d (classify wu) as risk ex fb \<and> json_ok (PDict ex))"

lemma finishedI: "json_ok (PDict ex) \<Longrightarrow> finished wu mode d (finish_plan wu mode d (classify wu) as risk ex fb)"
  by (auto simp: finished_def)

lemma plan_finished: "plan_work_unit wu mode pb (Some d) = Inr p \<Longrightarrow> finished wu mode d p"
  by (auto simp: plan_work_unit_def Let_def ai_plan_def object_plan_def effect_simps split: if_splits intro!: finishedI)

lemma plan_json: "plan_work_unit wu mode pb (Some d) = Inr p \<Longrightarrow> json_ok (PDict (plan_to_dict p))"
proof -
  assume p: "plan_work_unit wu mode pb (Some d) = Inr p"
  obtain as risk ex fb where fin: "p = finish_plan wu mode d (classify wu) as risk ex fb" "json_ok (PDict ex)"
    using plan_finished [OF p] unfolding finished_def by blast
  have "pl_actions p = planned_steps wu mode d" using plan_iff(2) [OF plan_mode [OF p] p] by simp
  then have "\<forall>a \<in> set as. pa_params a = []" using planned_plain by (simp add: fin(1) finish_plan_def)
  then have "list_all json_ok (map (\<lambda>a. PDict (plan_action_to_dict a)) as)"
    by (simp add: list_all_iff plan_action_to_dict_def)
  then show ?thesis
    using fin(2) by (simp add: fin(1) finish_plan_def plan_to_dict_def score_plan_def Let_def list_all_iff)
qed

lemma hex_ident: "c \<in> hex_chars \<Longrightarrow> is_ident_char c"
proof -
  have "list_all is_ident_char ''0123456789abcdef''" by code_simp
  then show "c \<in> hex_chars \<Longrightarrow> is_ident_char c" by (auto simp: hex_chars_def list_all_iff)
qed

lemma plan_id_fine: "plan_work_unit wu mode pb (Some d) = Inr p \<Longrightarrow> \<not> isl (plan_id_ok (pl_plan_id p))"
proof -
  assume "plan_work_unit wu mode pb (Some d) = Inr p"
  then obtain as where i: "pl_plan_id p = make_plan_id wu as mode"
    using plan_finished [of wu mode pb d p] by (auto simp: finished_def finish_plan_def)
  let ?h = "take 24 (stable_json_hash (PDict [(''work_unit_id'', PStr (wu_id wu)),
      (''kind'', PStr (kind_value (wu_kind wu))), (''actions'', strs (map pa_type as)), (''mode'', PStr mode)]))"
  have "list_all is_ident_char ?h" "length ?h \<le> 24"
    using hex_ident sha256_hex_chars by (auto simp: list_all_iff stable_json_hash_def dest!: in_set_takeD)
  then have "identifier_re (''pl_'' @ ?h)" by (simp add: is_alnum_def is_ident_char_def)
  then show ?thesis by (simp add: i make_plan_id_def plan_id_ok_def validate_identifier_def)
qed

lemma plan_tenant: "plan_work_unit wu mode pb (Some d) = Inr p \<Longrightarrow> pl_tenant p = Some (wu_tenant wu)"
  using plan_iff(2) [OF plan_mode] by blast

subsection \<open>The steps of execution\<close>

lemma unit_event_simps [simp]: "ev_tenant (unit_event wu d ty dec det) = wu_tenant wu" "ev_details (unit_event wu d ty dec det) = det"
    "ev_tenant (manifest_event wu d m ty det) = wu_tenant wu" "ev_details (manifest_event wu d m ty det) = det"
  by (simp_all add: unit_event_def manifest_event_def event_draft_def)

lemma unit_log_tenant [simp]: "le_tenant (unit_log wu d ty msg det) = Some (wu_tenant wu)"
  by (simp add: unit_log_def)

lemma announce_runs:
  assumes "open_env en (wu_tenant wu)" "plan_work_unit wu mode pb (Some d) = Inr p"
  shows "runs (announce en wu d p payload)"
proof -
  note e = append_event_runs [OF assms(1)] and l = emit_log_runs [OF assms(1)] and s = emit_span_runs [OF assms(1)]
    and p = store_plan_runs [OF assms(1) refl plan_tenant [OF assms(2)] plan_id_fine [OF assms(2)] plan_json [OF assms(2)]]
  show ?thesis
    unfolding announce_def
    by (intro runs_thenS runs_retS e l s p) (simp_all add: json_ok_decision [simplified] get_value_def)
qed

lemma plan_chunks_ok: "\<not> isl (plan_chunks p payload)"
  by (auto simp: plan_chunks_def Let_def content_defined_chunks_def fixed_chunks_def split: prod.splits)

lemma store_segments_ok:
  assumes "open_env en (wu_tenant wu)" "readable w" "store_inv (e_zip en) U (w_chunks w)"
    and "chunking_of data cs" "\<forall>c \<in> set cs. (wu_tenant wu, ns, ck_data c) \<in> U"
  shows "\<exists>rows w'. store_segments en wu d ns p cs w = (Inr rows, w') \<and> readable w'"
proof -
  let ?z = "''zstd'' \<in> set (map pa_type (pl_actions p))"
  obtain stored s' where put: "put_chunks (e_zip en) (wu_tenant wu) ns ?z cs (w_chunks w) = (Inr stored, s')"
    using put_chunks_roundtrip [OF assms(3-5), of ?z] by blast
  have "runs (mapS (record_segment en wu d) (zip cs stored))"
  proof (intro runs_mapS)
    fix x :: "chunk \<times> stored_chunk"
    show "runs (record_segment en wu d x)"
      by (cases x) (auto simp: record_segment_def intro!: runs_thenS runs_retS append_event_runs [OF assms(1)])
  qed
  moreover have "readable (w\<lparr>w_chunks := s'\<rparr>)" using assms(2) by (simp add: readable_def)
  ultimately show ?thesis
    using put by (simp add: store_segments_def on_chunks_def zoom_def bindS_def runsD)
qed

lemma verify_restore_ok:
  assumes "open_env en (wu_tenant wu)" "readable w" "rehydrate (e_zip en) (w_chunks w) segs = Inr payload"
    and "set (pd_required d) \<subseteq> {''sha256_restore'', ''sha256_restore@0''}"
  shows "\<exists>v w'. verify_restore en wu d (sha256_bytes payload) segs w = (Inr v, w') \<and> readable w'"
proof -
  let ?a = "[(''work_unit_id'', PStr (wu_id wu)), (''bytes'', PInt (int (length payload)))]"
  have run: "runs (emit_span en ''urp.rehydrate'' (wu_trace_id wu) ?a)"
    by (rule emit_span_runs [OF assms(1)]) (simp add: get_value_def)
  obtain x w' where sp: "emit_span en ''urp.rehydrate'' (wu_trace_id wu) ?a w = (Inr x, w')" "readable w'"
    using runsD [OF run assms(2)] by blast
  have "filter (\<lambda>n. n \<notin> {''sha256_restore'', ''sha256_restore@0''}) (pd_required d) = []"
    using assms(4) by (auto simp: filter_empty_conv)
  then have "require_exact_verifiers (pd_required d) True (wu_id wu) = Inr ()"
    by (simp add: require_exact_verifiers_def Let_def)
  then show ?thesis
    using sp by (simp add: verify_restore_def inspect_def bindS_def assms(3) thenS_def verify_sha256_def sha256_bytes_def
        liftR_def retS_def Let_def)
qed

lemma stored_size_ok: "\<forall>r \<in> set rows. \<exists>n. dget r ''stored_size'' = Some (PInt n) \<Longrightarrow> \<not> isl (stored_size rows)"
proof (induction rows)
  case (Cons r rows)
  then obtain n m where "dget r ''stored_size'' = Some (PInt n)" "stored_size rows = Inr m"
    by (cases "stored_size rows") auto
  then show ?case by (simp add: item_def)
qed simp

lemma segment_sizes:
  assumes "store_segments en wu d ns p cs w = (Inr rows, w')"
  shows "\<forall>r \<in> set rows. \<exists>n. dget r ''stored_size'' = Some (PInt n)"
proof -
  obtain stored w1 where "mapS (record_segment en wu d) (zip cs stored) w1 = (Inr rows, w')"
    using assms by (auto simp: store_segments_def effect_simps)
  then have "rows = map (\<lambda>(c, sc). segment_row c sc) (zip cs stored)" using record_segments by blast
  then show ?thesis by (auto simp: segment_row_def stored_to_dict_def)
qed

lemma metric_names_ok:
  "metric_name_ok ''urp_work_units_total''" "metric_name_ok ''urp_work_unit_bytes_in_total''"
  "metric_name_ok ''urp_work_unit_bytes_stored_total''" "metric_name_ok ''urp_bytes_avoided_total''"
  "metric_name_ok ''urp_chunks_total''" "metric_name_ok ''urp_chunk_dedupe_hits_total''"
  "metric_name_ok ''urp_ledger_events_total''"
  by code_simp+

lemma announce_manifest_runs:
  assumes "open_env en (wu_tenant wu)"
  shows "runs (announce_manifest en wu d md adapter payload segs n m)"
  unfolding announce_manifest_def count_execution_def
  by (intro runs_thenS runs_retS runs_option append_event_runs [OF assms] emit_log_runs [OF assms] emit_span_runs [OF assms]
      count_runs metric_names_ok) (simp_all add: get_value_def)

lemma exec_manifest_put_runs:
  assumes "open_env en (wu_tenant wu)"
  shows "runs (put_manifest en (exec_manifest en wu d p md adapter payload segs n v k))"
    and "runs (put_manifest en (observed_manifest en wu d p adapter payload k))"
  by (rule put_manifest_runs [OF assms];
      use assms in \<open>auto simp: exec_manifest_def observed_manifest_def base_manifest_def open_env_def get_value_def
        adapter_fields_def split: option.splits\<close>)+

lemma write_manifest_ok:
  assumes "open_env en (wu_tenant wu)" "readable w" "\<not> isl (stored_size segs)"
  shows "\<exists>r w'. write_manifest en wu d p md adapter payload segs v w = (Inr r, w')"
proof -
  obtain n where n: "stored_size segs = Inr n" using assms(3) by (cases "stored_size segs") auto
  have "runs (bindS draw (\<lambda>k. let m = exec_manifest en wu d p md adapter payload segs n v k in
      thenS (put_manifest en m) (announce_manifest en wu d md adapter payload segs n m)))"
    unfolding Let_def by (intro runs_bindS runs_thenS runs_draw exec_manifest_put_runs announce_manifest_runs assms(1))
  from runsD [OF this assms(2)] show ?thesis by (auto simp: write_manifest_def n bindS_def [of "liftR _"] liftR_def)
qed

lemma record_observation_ok:
  assumes "open_env en (wu_tenant wu)" "readable w"
  shows "\<exists>r w'. record_observation en wu d p payload adapter w = (Inr r, w')"
proof -
  have "runs (record_observation en wu d p payload adapter)"
    unfolding record_observation_def Let_def
    by (intro runs_bindS runs_thenS runs_draw runs_retS exec_manifest_put_runs append_event_runs [OF assms(1)] assms(1)) simp_all
  from runsD [OF this assms(2)] show ?thesis by blast
qed

lemma execution_ok:
  assumes "open_env en (wu_tenant wu)" "readable w" "store_inv (e_zip en) U (w_chunks w)"
    and "execution_mode en mode = Inr md" "payload_to_bytes (wu_payload wu) = Inr payload"
    and "covers U (wu_tenant wu) (storage_namespace wu md) payload"
    and "evaluate_policy wu pb = Inr d" "plan_work_unit wu md pb (Some d) = Inr p"
    and "\<not> pd_require_approval d" "set (pd_required d) \<subseteq> {''sha256_restore'', ''sha256_restore@0''}"
  shows "\<exists>r w'. execute_exact_object en wu mode pb adapter w = (Inr r, w')"
proof -
  obtain u w1 where an: "announce en wu d p payload w = (Inr u, w1)" "readable w1"
    using runsD [OF announce_runs [OF assms(1,8)] assms(2)] by blast
  have ch1: "w_chunks w1 = w_chunks w" using keepsD [OF announce_keeps(1) _ an(1), of "w_chunks w"] by simp
  have gate: "require_policy_approval en wu d w = (Inr (), w)"
    using assms(9) by (simp add: require_policy_approval_def retS_def)
  have "\<exists>r w'. (if md = ''observe'' then record_observation en wu d p payload adapter
      else store_and_verify en wu d p md adapter payload) w1 = (Inr r, w')"
  proof (cases "md = ''observe''")
    case True
    then show ?thesis using record_observation_ok [OF assms(1) an(2)] by simp
  next
    case False
    obtain cs where cs: "plan_chunks p payload = Inr cs" using plan_chunks_ok [of p payload] by (cases "plan_chunks p payload") auto
    have ch: "chunking_of payload cs" by (rule plan_chunks_chunking [OF cs])
    then have U: "\<forall>c \<in> set cs. (wu_tenant wu, storage_namespace wu md, ck_data c) \<in> U" using assms(6) by (simp add: covers_def)
    have inv1: "store_inv (e_zip en) U (w_chunks w1)" using assms(3) by (simp add: ch1)
    obtain rows w2 where st: "store_segments en wu d (storage_namespace wu md) p cs w1 = (Inr rows, w2)" "readable w2"
      using store_segments_ok [OF assms(1) an(2) inv1 ch U] by blast
    have stored: "store_inv (e_zip en) U (w_chunks w2)" "list_all2 (held (e_zip en) U (w_chunks w2)) rows (map ck_data cs)"
      using store_segments_spec [OF st(1) inv1 ch U] by simp_all
    have "rehydrate (e_zip en) (w_chunks w2) rows = Inr payload"
      using chunks_held [OF stored] ch by (simp add: rehydrate_def chunking_of_def)
    then obtain v w3 where ver: "verify_restore en wu d (sha256_bytes payload) rows w2 = (Inr v, w3)" "readable w3"
      using verify_restore_ok [OF assms(1) st(2) _ assms(10)] by blast
    obtain r w' where "write_manifest en wu d p md adapter payload rows v w3 = (Inr r, w')"
      using write_manifest_ok [OF assms(1) ver(2) stored_size_ok [OF segment_sizes [OF st(1)]]] by blast
    then show ?thesis using False cs st(1) ver(1) by (simp add: store_and_verify_def bindS_def liftR_def)
  qed
  then show ?thesis
    using assms(4,5,7,8) gate an(1) by (simp add: execute_exact_object_def bindS_def thenS_def liftR_def)
qed


subsection \<open>Samples\<close>

definition sample_env :: env where
  "sample_env = \<lparr>e_ctx = None, e_vars = (\<lambda>v. None), e_ids = (\<lambda>p n. p @ ''_1''), e_clock = (\<lambda>n. ''2026-01-01T00:00:00+00:00''),
     e_now = 0, e_random = [], e_schemas = any_schema, e_zip = zeros_zip, e_float = (\<lambda>r. PFloat 0 1)\<rparr>"

definition empty_world :: world where
  "empty_world = \<lparr>w_chunks = new_chunk_store [''chunks''], w_manifests = [], w_plans = [], w_policies = no_policies,
     w_approvals = no_approvals, w_logs = [], w_traces = [], w_metrics = \<lparr>mt_counters = [], mt_gauges = []\<rparr>, w_drawn = 0\<rparr>"

definition small_unit :: work_unit where
  "small_unit = sample_work_unit\<lparr>wu_payload := PBytes [5]\<rparr>"

definition small_items :: "string \<Rightarrow> stored_item set" where
  "small_items ns = {(''acme'', ns, [5])}"

lemma sample_open: "open_env sample_env ''acme''"
  by (simp add: open_env_def sample_env_def sees_def bound_tenant_def current_tenant_def any_schema_def fresh_events_def) code_simp

lemma empty_readable: "readable empty_world" "verify_chain (w_ledger empty_world) = Inr True"
  by (simp_all add: readable_def w_ledger_def empty_world_def no_policies_def read_unlocked_def verify_chain_def)

lemma small_store: "NUL \<notin> set ns \<Longrightarrow> store_inv (e_zip sample_env) (small_items ns) (w_chunks empty_world)"
  by (simp add: sample_env_def empty_world_def small_items_def NUL_def)

lemma small_covers: "covers (small_items ns) ''acme'' ns [5]"
proof -
  have "concat bs = [5] \<Longrightarrow> b \<in> set bs \<Longrightarrow> b \<noteq> [] \<Longrightarrow> b = [5]" for bs and b :: bytes
    by (induction bs) (auto simp: append_eq_Cons_conv)
  then show ?thesis by (fastforce simp: covers_def small_items_def chunking_of_def list_all_iff chunk_ok_def)
qed

lemma small_decision: "evaluate_policy small_unit [] = Inr (global_default_decision EXACT_BYTES)"
  by (simp add: evaluate_policy_def evaluate_bundle_def legal_hold_def requested_contract_def small_unit_def
      sample_work_unit_def ai_kind_def text_kind_def)

lemma small_plan: "mode \<in> set modes \<Longrightarrow> \<exists>p. plan_work_unit small_unit mode [] (Some (global_default_decision EXACT_BYTES)) = Inr p"
  by (rule supported_plan)
    (simp_all add: framework_def global_default_decision_def simple_decision_def kind_contracts_def
         compute_kind_def small_unit_def sample_work_unit_def exact_contracts_def)

lemma small_modes: "execution_mode sample_env (Some ''enforce'') = Inr ''enforce''"
    "execution_mode sample_env (Some ''observe'') = Inr ''observe''"
  by code_simp+

lemma small_parts: "wu_tenant small_unit = ''acme''" "payload_to_bytes (wu_payload small_unit) = Inr [5]"
    "storage_namespace small_unit ''enforce'' = ''default''" "storage_namespace small_unit ''observe'' = ''shadow-default''"
  by (simp_all add: small_unit_def sample_work_unit_def payload_to_bytes_def storage_namespace_def)

lemma small_needs: "\<not> pd_require_approval (global_default_decision EXACT_BYTES)"
    "set (pd_required (global_default_decision EXACT_BYTES)) \<subseteq> {''sha256_restore'', ''sha256_restore@0''}"
  by (simp_all add: global_default_decision_def simple_decision_def)

lemma small_execution:
  assumes "mode \<in> {''enforce'', ''observe''}"
  shows "\<exists>r w'. execute_exact_object sample_env small_unit (Some mode) [] None empty_world = (Inr r, w')"
proof -
  have "mode \<in> set modes" using assms by (auto simp: modes_def)
  then obtain p where p: "plan_work_unit small_unit mode [] (Some (global_default_decision EXACT_BYTES)) = Inr p"
    using small_plan by blast
  let ?ns = "storage_namespace small_unit mode"
  have ns: "NUL \<notin> set ?ns" using assms by (auto simp: small_parts NUL_def)
  show ?thesis
    by (rule execution_ok [where U = "small_items ?ns" and payload = "[5]", OF _ empty_readable(1) small_store [OF ns] _ small_parts(2) _ small_decision p small_needs])
      (use assms small_modes sample_open small_covers in \<open>auto simp: small_parts\<close>)
qed


theorem execute_then_rehydrate_witness:
  "\<exists>r w'. execute_exact_object sample_env small_unit (Some ''enforce'') [] None empty_world = (Inr r, w')
     \<and> rehydrate_manifest sample_env (er_manifest_id r) w' = Inr [5]"
proof -
  obtain r w' where run: "execute_exact_object sample_env small_unit (Some ''enforce'') [] None empty_world = (Inr r, w')"
    using small_execution by blast
  have inv: "store_inv (e_zip sample_env) (small_items ''default'') (w_chunks empty_world)"
    by (rule small_store) (simp add: NUL_def)
  have "covers (small_items ''default'') (wu_tenant small_unit) (storage_namespace small_unit ''enforce'') [5]"
    using small_covers by (simp add: small_parts)
  from execute_then_rehydrate [OF run inv small_modes(1) _ small_parts(2) this] run show ?thesis by auto
qed

theorem range_is_slice_witness:
  "\<exists>w i. fst (rehydrate_manifest_range sample_env i 0 9 w) = Inr [5]"
proof -
  obtain r w' where run: "execute_exact_object sample_env small_unit (Some ''enforce'') [] None empty_world = (Inr r, w')"
    using small_execution by blast
  have inv: "store_inv (e_zip sample_env) (small_items ''default'') (w_chunks empty_world)"
    by (rule small_store) (simp add: NUL_def)
  have "covers (small_items ''default'') (wu_tenant small_unit) (storage_namespace small_unit ''enforce'') [5]"
    using small_covers by (simp add: small_parts)
  from execution_serves [OF run inv small_modes(1) _ small_parts(2) this]
  have "store_inv (e_zip sample_env) (small_items ''default'') (w_chunks w')"
      "served sample_env (small_items ''default'') w' (er_manifest_id r) [5]" by simp_all
  from range_is_slice [OF this, of 0 9] have "fst (rehydrate_manifest_range sample_env (er_manifest_id r) 0 9 w') = Inr [5]"
    by (auto simp: slice_def)
  then show ?thesis by (intro exI)
qed


theorem observe_stores_nothing_witness:
  "\<exists>r w'. execute_exact_object sample_env small_unit (Some ''observe'') [] None empty_world = (Inr r, w')
     \<and> w_chunks w' = new_chunk_store [''chunks'']"
proof -
  obtain r w' where run: "execute_exact_object sample_env small_unit (Some ''observe'') [] None empty_world = (Inr r, w')"
    using small_execution by blast
  from observe_stores_nothing [OF run small_modes(2)] run show ?thesis by (auto simp: empty_world_def)
qed

theorem execution_is_audited_witness:
  "\<exists>r w'. execute_exact_object sample_env small_unit (Some ''enforce'') [] None empty_world = (Inr r, w')
     \<and> verify_chain (w_ledger w') = Inr True"
proof -
  obtain r w' where run: "execute_exact_object sample_env small_unit (Some ''enforce'') [] None empty_world = (Inr r, w')"
    using small_execution by blast
  have "fresh_events sample_env" by (simp add: fresh_events_def sample_env_def)
  from execution_is_audited [OF run empty_readable(2) this] run show ?thesis by auto
qed

text \<open>Work whose decision requires another verifier than the restore check is never executed
  outside observe mode: by default that holds for every embedding request.\<close>

lemma default_embedding_fails:
  assumes "wu_kind wu = EMBEDDING_REQUEST" "wu_requested_contract wu = None" "\<not> legal_hold wu"
    and "execution_mode en mode \<noteq> Inr ''observe''"
  shows "fst (execute_exact_object en wu mode [] adapter w) \<noteq> Inr r"
proof
  assume "fst (execute_exact_object en wu mode [] adapter w) = Inr r"
  then obtain w' where run: "execute_exact_object en wu mode [] adapter w = (Inr r, w')" by (metis prod.collapse)
  have d: "evaluate_policy wu [] = Inr (ai_default_decision wu)"
    using assms(1-3) by (simp add: evaluate_policy_def evaluate_bundle_def requested_contract_def ai_kind_def)
  obtain md payload p u1 u2 wa w1 where *: "execution_mode en mode = Inr md"
      "(if md = ''observe'' then record_observation en wu (ai_default_decision wu) p payload adapter
        else store_and_verify en wu (ai_default_decision wu) p md adapter payload) w1 = (Inr r, w')"
    using run d unfolding execute_exact_object_def effect_simps by (elim exE conjE) (rule that, auto)
  then obtain segs v w2 w3 where "verify_restore en wu (ai_default_decision wu) (sha256_bytes payload) segs w2 = (Inr v, w3)"
    using assms(4) by (auto simp: store_and_verify_def effect_simps split: if_splits)
  then have "set (pd_required (ai_default_decision wu)) \<subseteq> {''sha256_restore'', ''sha256_restore@0''}"
    using required_known by (fastforce simp: verify_restore_def Let_def effect_simps split: if_splits)
  then show False
    using assms(1) by (simp add: ai_default_decision_def ai_decision_def simple_decision_def text_kind_def)
qed

end
