(* ===== verification/Checkpoints.thy ===== *)
theory Checkpoints
  imports ChunkStore Stores
begin

text \<open>
  \<open>python/urp/checkpoints.py\<close>: model checkpoints stored as a base or as the blocks that differ
  from another checkpoint. The files are a map from resolved paths to bytes, the manifests the
  JSON objects of their files. \<open>read\<close> calls itself for the base of a delta; the first argument
  of the model is the recursion depth Python allows, at which it raises \<open>RecursionError\<close>.
\<close>

subsection \<open>Operations\<close>

record checkpoint_store =
  cp_root :: "string list"
  cp_width :: int
  cp_files :: "(string list \<times> bytes) list"
  cp_manifests :: json_files

definition new_checkpoint_store :: "string list \<Rightarrow> int \<Rightarrow> checkpoint_store res" where
  "new_checkpoint_store dir width = (if width \<le> 0 then Inl (ValueError ''block_size must be positive'')
     else Inr \<lparr>cp_root = dir, cp_width = width, cp_files = [], cp_manifests = []\<rparr>)"

definition checkpoint_id_ok :: "string \<Rightarrow> string res" where
  "checkpoint_id_ok i = validate_identifier i ''checkpoint id'' None"

definition cp_path :: "checkpoint_store \<Rightarrow> string \<Rightarrow> string list" where
  "cp_path st name = resolve_path (cp_root st) @ [name]"

definition base_name :: "string \<Rightarrow> string" where
  "base_name i = i @ ''.base''"

definition block_name :: "string \<Rightarrow> nat \<Rightarrow> string" where
  "block_name i k = i @ ''.block.'' @ show_nat k"

definition write_file :: "string \<Rightarrow> bytes \<Rightarrow> checkpoint_store \<Rightarrow> checkpoint_store" where
  "write_file name data st = st\<lparr>cp_files := AList.update (cp_path st name) data (cp_files st)\<rparr>"

definition read_file :: "checkpoint_store \<Rightarrow> string list \<Rightarrow> bytes res" where
  "read_file st p = (case map_of (cp_files st) p of None \<Rightarrow> Inl (FileNotFoundError (join ''/'' p)) | Some b \<Rightarrow> Inr b)"

definition write_checkpoint_manifest :: "string \<Rightarrow> pydict \<Rightarrow> checkpoint_store \<Rightarrow> checkpoint_store" where
  "write_checkpoint_manifest i m st = st\<lparr>cp_manifests := dset i (jfile_dict m) (cp_manifests st)\<rparr>"

definition get_checkpoint_manifest :: "string \<Rightarrow> checkpoint_store \<Rightarrow> pydict res" where
  "get_checkpoint_manifest i st = bindR (checkpoint_id_ok i) (\<lambda>_.
     case dget (cp_manifests st) i of None \<Rightarrow> Inl (FileNotFoundError (i @ ''.json'')) | Some m \<Rightarrow> Inr m)"

definition base_checkpoint :: "string \<Rightarrow> string \<Rightarrow> bytes \<Rightarrow> pydict" where
  "base_checkpoint now i data = [(''checkpoint_id'', PStr i), (''kind'', PStr ''base''), (''sha256'', PStr (sha256_bytes data)),
     (''size'', PInt (int (length data))), (''created_at'', PStr now)]"

definition put_base :: "string \<Rightarrow> string \<Rightarrow> bytes \<Rightarrow> (pydict, checkpoint_store) sres" where
  "put_base now i data = thenS (liftR (checkpoint_id_ok i)) (\<lambda>st.
     let m = base_checkpoint now i data in (Inr m, write_checkpoint_manifest i m (write_file (base_name i) data st)))"

text \<open>\<open>blocks[i] = b\<close> and \<open>data[:n]\<close>, with Python's negative indices.\<close>

definition set_item :: "int \<Rightarrow> 'a \<Rightarrow> 'a list \<Rightarrow> 'a list res" where
  "set_item i b xs = (let n = int (length xs); j = (if i < 0 then n + i else i) in
     if 0 \<le> j \<and> j < n then Inr (xs[nat j := b]) else Inl IndexError)"

definition take_py :: "int \<Rightarrow> 'a list \<Rightarrow> 'a list" where
  "take_py n xs = take (nat (if n < 0 then int (length xs) + n else n)) xs"

fun apply_blocks :: "checkpoint_store \<Rightarrow> pydict list \<Rightarrow> bytes list \<Rightarrow> bytes list res" where
  "apply_blocks st [] blocks = Inr blocks"
| "apply_blocks st (c # cs) blocks =
     bindR (item c ''ref'') (\<lambda>ref. bindR (resolve_under (cp_root st) (py_str ref)) (\<lambda>p. bindR (read_file st p) (\<lambda>b.
     bindR (item c ''sha256'') (\<lambda>h.
     if PStr (sha256_bytes b) \<noteq> h then Inl (ValueError ''checkpoint delta block checksum mismatch'')
     else bindR (bindR (item c ''index'') py_int) (\<lambda>i. bindR (set_item i b blocks) (apply_blocks st cs))))))"

definition pad_blocks :: "int \<Rightarrow> bytes list \<Rightarrow> bytes list" where
  "pad_blocks n blocks = blocks @ replicate (nat (n - int (length blocks))) []"

definition rebuild :: "checkpoint_store \<Rightarrow> pydict \<Rightarrow> bytes \<Rightarrow> bytes res" where
  "rebuild st m base =
     bindR (bindR (item m ''block_size'') py_int) (\<lambda>width. bindR (fixed_chunks base width) (\<lambda>cs.
     bindR (bindR (item m ''target_block_count'') py_int) (\<lambda>n.
     bindR (bindR (item m ''changed_blocks'') (\<lambda>v. case v of
         PList vs \<Rightarrow> seq_res (map (\<lambda>v. case v of PDict d \<Rightarrow> Inr d | _ \<Rightarrow> Inl (TypeError ''block is not a dict'')) vs)
       | _ \<Rightarrow> Inl (TypeError ''changed_blocks is not a list''))) (\<lambda>changed.
     bindR (apply_blocks st changed (pad_blocks n (map ck_data cs))) (\<lambda>blocks.
     bindR (bindR (item m ''size'') py_int) (\<lambda>size.
     bindR (item m ''sha256'') (\<lambda>h.
     (let data = take_py size (concat blocks) in
      if PStr (sha256_bytes data) \<noteq> h then Inl (ValueError ''checkpoint delta reconstruction checksum mismatch'')
      else Inr data))))))))"

fun read_checkpoint :: "nat \<Rightarrow> string \<Rightarrow> checkpoint_store \<Rightarrow> bytes res" where
  "read_checkpoint 0 i st = Inl RecursionError"
| "read_checkpoint (Suc depth) i st =
     bindR (checkpoint_id_ok i) (\<lambda>_. bindR (get_checkpoint_manifest i st) (\<lambda>m.
     bindR (item m ''kind'') (\<lambda>kind.
     if kind = PStr ''base'' then
       bindR (read_file st (cp_path st (base_name i))) (\<lambda>data. bindR (item m ''sha256'') (\<lambda>h.
       if PStr (sha256_bytes data) \<noteq> h then Inl (ValueError ''checkpoint base checksum mismatch'') else Inr data))
     else bindR (item m ''base_id'') (\<lambda>b. bindR (read_checkpoint depth (py_str b) st) (rebuild st m)))))"

text \<open>The blocks of the target that differ from the base's at the same index.\<close>

definition changed_blocks :: "chunk list \<Rightarrow> chunk list \<Rightarrow> (nat \<times> chunk) list" where
  "changed_blocks base target = filter (\<lambda>(i, c). length base \<le> i \<or> ck_data (base ! i) \<noteq> ck_data c)
     (zip [0..<length target] target)"

definition block_row :: "string \<Rightarrow> nat \<times> chunk \<Rightarrow> pydict" where
  "block_row i ic = (case ic of (k, c) \<Rightarrow> [(''index'', PInt (int k)), (''ref'', PStr (block_name i k)),
     (''size'', PInt (int (length (ck_data c)))), (''sha256'', PStr (ck_sha256 c))])"

definition delta_checkpoint :: "string \<Rightarrow> string \<Rightarrow> string \<Rightarrow> int \<Rightarrow> bytes \<Rightarrow> chunk list \<Rightarrow> chunk list \<Rightarrow> pydict" where
  "delta_checkpoint now b i width data bs ts =
     (let changed = changed_blocks bs ts in
      [(''checkpoint_id'', PStr i), (''kind'', PStr ''delta''), (''base_id'', PStr b), (''sha256'', PStr (sha256_bytes data)),
       (''size'', PInt (int (length data))), (''block_size'', PInt width),
       (''changed_blocks'', PList (map (\<lambda>c. PDict (block_row i c)) changed)),
       (''base_block_count'', PInt (int (length bs))), (''target_block_count'', PInt (int (length ts))),
       (''created_at'', PStr now),
       (''bytes_avoided'', PInt (max 0 (int (length data) - int (sum_list (map (\<lambda>(k, c). length (ck_data c)) changed)))))])"

definition write_blocks :: "string \<Rightarrow> (nat \<times> chunk) list \<Rightarrow> checkpoint_store \<Rightarrow> checkpoint_store" where
  "write_blocks i changed st = foldl (\<lambda>st (k, c). write_file (block_name i k) (ck_data c) st) st changed"

definition put_delta :: "nat \<Rightarrow> string \<Rightarrow> string \<Rightarrow> string \<Rightarrow> bytes \<Rightarrow> (pydict, checkpoint_store) sres" where
  "put_delta depth now b i data = (\<lambda>st.
     thenS (liftR (validate_identifier b ''base checkpoint id'' None)) (thenS (liftR (checkpoint_id_ok i))
     (bindS (liftR (read_checkpoint depth b st)) (\<lambda>base.
      bindS (liftR (fixed_chunks base (cp_width st))) (\<lambda>bs. bindS (liftR (fixed_chunks data (cp_width st))) (\<lambda>ts st.
      (let m = delta_checkpoint now b i (cp_width st) data bs ts in
       (Inr m, write_checkpoint_manifest i m (write_blocks i (changed_blocks bs ts) st)))))))) st)"

subsection \<open>Reading what was written\<close>

text \<open>\<open>extends st st'\<close>: nothing that was there has changed.\<close>

definition extends :: "checkpoint_store \<Rightarrow> checkpoint_store \<Rightarrow> bool" where
  "extends st st' = (cp_root st' = cp_root st \<and> cp_width st' = cp_width st
     \<and> (\<forall>p b. map_of (cp_files st) p = Some b \<longrightarrow> map_of (cp_files st') p = Some b)
     \<and> (\<forall>i m. dget (cp_manifests st) i = Some m \<longrightarrow> dget (cp_manifests st') i = Some m))"

lemma read_file_extends: "extends st st' \<Longrightarrow> read_file st p = Inr b \<Longrightarrow> read_file st' p = Inr b"
  by (auto simp: extends_def read_file_def split: option.splits)

lemma manifest_extends: "extends st st' \<Longrightarrow> get_checkpoint_manifest i st = Inr m \<Longrightarrow> get_checkpoint_manifest i st' = Inr m"
  by (auto simp: extends_def get_checkpoint_manifest_def effect_simps split: option.splits)

lemma cp_path_extends: "extends st st' \<Longrightarrow> cp_path st' n = cp_path st n"
  by (simp add: extends_def cp_path_def)

lemma apply_blocks_extends: "extends st st' \<Longrightarrow> apply_blocks st cs bs = Inr r \<Longrightarrow> apply_blocks st' cs bs = Inr r"
proof (induction cs arbitrary: bs)
  case (Cons c cs)
  then show ?case
    using Cons.prems(1) by (auto simp: effect_simps extends_def [of st st'] split: if_splits dest!: read_file_extends [OF Cons.prems(1)])
qed simp

lemma rebuild_extends: "extends st st' \<Longrightarrow> rebuild st m b = Inr r \<Longrightarrow> rebuild st' m b = Inr r"
  unfolding rebuild_def effect_simps using apply_blocks_extends by (elim exE conjE) (intro exI conjI; assumption?; blast)

lemma read_extends: "extends st st' \<Longrightarrow> read_checkpoint n i st = Inr d \<Longrightarrow> read_checkpoint n i st' = Inr d"
proof (induction n arbitrary: i d)
  case (Suc n)
  have p: "cp_path st' (base_name i) = cp_path st (base_name i)" by (rule cp_path_extends [OF Suc.prems(1)])
  show ?case
    using Suc.prems Suc.IH [OF Suc.prems(1)] manifest_extends [OF Suc.prems(1)] read_file_extends [OF Suc.prems(1)]
      rebuild_extends [OF Suc.prems(1)]
    by (auto simp: effect_simps p split: if_splits)
qed simp

lemma validate_identifier_iff: "validate_identifier i l None = Inr v \<longleftrightarrow> identifier_re i \<and> v = i"
  by (cases i) (auto simp: validate_identifier_def is_alnum_def)

lemma checkpoint_id_ok_iff: "checkpoint_id_ok i = Inr v \<longleftrightarrow> identifier_re i \<and> v = i"
  by (simp add: checkpoint_id_ok_def validate_identifier_iff)

lemma checkpoint_id_ok [simp]: "identifier_re i \<Longrightarrow> checkpoint_id_ok i = Inr i"
  by (simp add: checkpoint_id_ok_iff)

text \<open>A block's row leads to the block: its reference is one clean component.\<close>

lemma show_nat_no_slash: "CHR ''/'' \<notin> set (show_nat n)"
proof (induction n rule: show_nat.induct)
  case (1 n)
  have digit: "CHR ''/'' \<noteq> char_of (48 + k)" if "k < 10" for k :: nat
  proof
    assume "CHR ''/'' = char_of (48 + k)"
    then have "(of_char (CHR ''/'') :: nat) = of_char (char_of (48 + k) :: char)" by simp
    then show False using that by simp
  qed
  show ?case
  proof (cases "n < 10")
    case True
    then show ?thesis using digit [of n] by (simp add: show_nat.simps [of n])
  next
    case False
    then show ?thesis using 1 digit [of "n mod 10"] by (simp add: show_nat.simps [of n])
  qed
qed

lemma block_name_clean:
  assumes "identifier_re i"
  shows "CHR ''/'' \<notin> set (block_name i k)" "block_name i k \<notin> {[], ''.'', ''..''}"
proof -
  show "CHR ''/'' \<notin> set (block_name i k)"
    using identifier_no_slash [OF assms] show_nat_no_slash [of k] by (auto simp: block_name_def)
  show "block_name i k \<notin> {[], ''.'', ''..''}"
    using assms by (cases i) (auto simp: block_name_def)
qed

lemma resolve_name:
  assumes "CHR ''/'' \<notin> set n" "n \<notin> {[], ''.'', ''..''}"
  shows "resolve_under dir n = Inr (resolve_path dir @ [n])"
proof -
  have "\<not> prefix ''/'' n" using assms(1) by (auto simp: prefix_def)
  then show ?thesis
    using assms by (simp add: resolve_under_def Let_def resolve_path_base split_on_no_sep)
qed

lemma block_path: "identifier_re i \<Longrightarrow> resolve_under (cp_root st) (block_name i k) = Inr (cp_path st (block_name i k))"
  using block_name_clean [of i k] by (simp add: resolve_name cp_path_def del: insert_iff)

text \<open>Applying the blocks is a sequence of list updates.\<close>

definition patched :: "(nat \<times> chunk) list \<Rightarrow> bytes list \<Rightarrow> bytes list" where
  "patched changed blocks = foldl (\<lambda>bs (k, c). bs[k := ck_data c]) blocks changed"

lemma patched_nth:
  assumes "distinct (map fst changed)" "j < length blocks"
  shows "patched changed blocks ! j = (case map_of changed j of None \<Rightarrow> blocks ! j | Some c \<Rightarrow> ck_data c)"
  using assms
proof (induction changed arbitrary: blocks)
  case (Cons kc changed)
  have "map_of changed (fst kc) = None"
    using Cons.prems(1) by (simp add: map_of_eq_None_iff)
  then show ?case
    using Cons.IH [of "blocks[fst kc := ck_data (snd kc)]"] Cons.prems
    by (cases kc) (auto simp: patched_def nth_list_update split: option.splits)
qed (simp add: patched_def)

lemma patched_length [simp]: "length (patched changed blocks) = length blocks"
  by (induction changed arbitrary: blocks) (auto simp: patched_def)

lemma apply_rows:
  assumes "identifier_re i"
    and "\<forall>(k, c) \<in> set changed. k < length blocks \<and> chunk_ok c \<and> read_file st (cp_path st (block_name i k)) = Inr (ck_data c)"
  shows "apply_blocks st (map (\<lambda>c. jfile_dict (block_row i c)) changed) blocks = Inr (patched changed blocks)"
  using assms(2)
proof (induction changed arbitrary: blocks)
  case (Cons kc changed)
  obtain k c where kc: "kc = (k, c)" by (cases kc)
  have "set_item (int k) (ck_data c) blocks = Inr (blocks[k := ck_data c])"
    using Cons.prems by (simp add: kc set_item_def)
  then show ?case
    using Cons assms(1) by (simp add: kc block_row_def item_def block_path chunk_ok_def patched_def)
qed (simp add: patched_def)

text \<open>Different blocks of a checkpoint have different files.\<close>

lemma block_path_inject: "cp_path st (block_name i k) = cp_path st (block_name i l) \<longleftrightarrow> k = l"
  by (simp add: cp_path_def block_name_def)

lemma cp_path_write [simp]: "cp_path (write_file n d st) n' = cp_path st n'"
  by (simp add: write_file_def cp_path_def)

lemma write_file_files [simp]: "map_of (cp_files (write_file n d st)) p = (if p = cp_path st n then Some d else map_of (cp_files st) p)"
  by (simp add: write_file_def update_conv')

lemma write_blocks_frame [simp]:
  "cp_root (write_blocks i changed st) = cp_root st" "cp_width (write_blocks i changed st) = cp_width st"
  "cp_manifests (write_blocks i changed st) = cp_manifests st"
  by (induction changed arbitrary: st) (auto simp: write_blocks_def write_file_def)

lemma write_blocks_files:
  assumes "distinct (map fst changed)"
  shows "map_of (cp_files (write_blocks i changed st)) (cp_path st (block_name i k))
    = (case map_of changed k of Some c \<Rightarrow> Some (ck_data c) | None \<Rightarrow> map_of (cp_files st) (cp_path st (block_name i k)))"
  using assms
proof (induction changed arbitrary: st)
  case (Cons kc changed)
  let ?st = "write_file (block_name i (fst kc)) (ck_data (snd kc)) st"
  have "map_of changed (fst kc) = None"
    using Cons.prems by (simp add: map_of_eq_None_iff)
  moreover have "write_blocks i (kc # changed) st = write_blocks i changed ?st"
    by (simp add: write_blocks_def split_def)
  ultimately show ?case
    using Cons.IH [of ?st] Cons.prems
    by (cases kc) (auto simp: block_path_inject split: option.splits)
qed (simp add: write_blocks_def)

lemma write_blocks_others:
  "(\<And>k. p \<noteq> cp_path st (block_name i k)) \<Longrightarrow> map_of (cp_files (write_blocks i changed st)) p = map_of (cp_files st) p"
proof (induction changed arbitrary: st)
  case (Cons kc changed)
  let ?st = "write_file (block_name i (fst kc)) (ck_data (snd kc)) st"
  have "write_blocks i (kc # changed) st = write_blocks i changed ?st"
    by (simp add: write_blocks_def split_def)
  then show ?case
    using Cons.IH [of ?st] Cons.prems by simp
qed (simp add: write_blocks_def)

text \<open>The changed blocks, and what patching the base's blocks with them gives.\<close>

lemma changed_blocks_set:
  "(k, c) \<in> set (changed_blocks bs ts) \<longleftrightarrow>
     k < length ts \<and> c = ts ! k \<and> (length bs \<le> k \<or> ck_data (bs ! k) \<noteq> ck_data (ts ! k))"
  by (auto simp: changed_blocks_def set_zip intro!: exI [of _ k])

lemma changed_blocks_distinct: "distinct (map fst (changed_blocks bs ts))"
  by (simp add: changed_blocks_def distinct_map_filter)

lemma changed_blocks_map: "map_of (changed_blocks bs ts) k =
    (if k < length ts \<and> (length bs \<le> k \<or> ck_data (bs ! k) \<noteq> ck_data (ts ! k)) then Some (ts ! k) else None)"
proof -
  have "map_of (changed_blocks bs ts) k = Some c \<longleftrightarrow> (k, c) \<in> set (changed_blocks bs ts)" for c
    by (rule map_of_eq_Some_iff [OF changed_blocks_distinct])
  then show ?thesis
    by (cases "map_of (changed_blocks bs ts) k") (auto simp: changed_blocks_set)
qed

lemma pad_blocks_length [simp]: "length (pad_blocks (int n) blocks) = max n (length blocks)"
  by (simp add: pad_blocks_def)

lemma patched_target:
  assumes "chunking_of data ts"
  shows "take (length data) (concat (patched (changed_blocks bs ts) (pad_blocks (int (length ts)) (map ck_data bs)))) = data"
proof -
  let ?ps = "pad_blocks (int (length ts)) (map ck_data bs)" let ?r = "patched (changed_blocks bs ts) ?ps"
  have "take (length ts) ?r = map ck_data ts"
  proof (rule nth_equalityI)
    fix k assume "k < length (take (length ts) ?r)"
    then have k: "k < length ts" by simp
    then show "take (length ts) ?r ! k = map ck_data ts ! k"
      by (auto simp: patched_nth [OF changed_blocks_distinct] changed_blocks_map pad_blocks_def nth_append)
  qed simp
  then have "concat ?r = data @ concat (drop (length ts) ?r)"
    using assms by (metis append_take_drop_id chunking_of_def concat_append)
  then show ?thesis by simp
qed

lemma block_rows_read:
  "seq_res (map (\<lambda>v. case v of PDict d \<Rightarrow> Inr d | _ \<Rightarrow> Inl (TypeError ''block is not a dict''))
     (map (jfile \<circ> (\<lambda>c. PDict (block_row i c))) changed)) = Inr (map (\<lambda>c. jfile_dict (block_row i c)) changed)"
  by (induction changed) (simp_all add: jfile_PDict del: jfile.simps(4))

lemma take_py_length: "take_py (int n) xs = take n xs"
  by (simp add: take_py_def)

lemma delta_written:
  assumes "identifier_re i" "0 < cp_width st" "fixed_chunks base (cp_width st) = Inr bs" "fixed_chunks data (cp_width st) = Inr ts"
  defines "st' \<equiv> write_blocks i (changed_blocks bs ts) st"
  shows "rebuild (st'\<lparr>cp_manifests := ms\<rparr>) (jfile_dict (delta_checkpoint now b i (cp_width st) data bs ts)) base = Inr data"
proof -
  let ?cs = "changed_blocks bs ts" let ?s = "st'\<lparr>cp_manifests := ms\<rparr>"
  let ?ps = "pad_blocks (int (length ts)) (map ck_data bs)"
  have tiled: "chunking_of data ts" by (rule fixed_chunking [OF assms(4)])
  have held: "\<forall>(k, c) \<in> set ?cs. k < length ?ps \<and> chunk_ok c \<and> read_file ?s (cp_path ?s (block_name i k)) = Inr (ck_data c)"
  proof (clarify)
    fix k c assume k: "(k, c) \<in> set ?cs"
    have "map_of (cp_files st') (cp_path st (block_name i k)) = Some (ck_data c)"
      using map_of_is_SomeI [OF changed_blocks_distinct k]
      by (simp add: st'_def write_blocks_files [OF changed_blocks_distinct])
    moreover have "cp_path ?s n = cp_path st n" for n by (simp add: cp_path_def st'_def)
    ultimately show "k < length ?ps \<and> chunk_ok c \<and> read_file ?s (cp_path ?s (block_name i k)) = Inr (ck_data c)"
      using k tiled by (auto simp: changed_blocks_set read_file_def chunking_of_def list_all_length)
  qed
  show ?thesis
    using assms(3) apply_rows [OF assms(1) held] patched_target [OF tiled, of bs] 
    by (simp add: rebuild_def item_def delta_checkpoint_def Let_def block_rows_read [unfolded list.map_comp] take_py_length del: jfile.simps(4))
qed

definition fresh_id :: "checkpoint_store \<Rightarrow> string \<Rightarrow> bool" where
  "fresh_id st i = (dget (cp_manifests st) i = None \<and> map_of (cp_files st) (cp_path st (base_name i)) = None
     \<and> (\<forall>k. map_of (cp_files st) (cp_path st (block_name i k)) = None))"

lemma fresh_extends: "fresh_id st i \<Longrightarrow> extends st (write_checkpoint_manifest i m (write_blocks i changed st))"
proof -
  assume fresh: "fresh_id st i"
  have "map_of (cp_files (write_blocks i changed st)) p = Some d" if "map_of (cp_files st) p = Some d" for p d
    using write_blocks_others [of p st i changed] that fresh by (cases "\<exists>k. p = cp_path st (block_name i k)") (auto simp: fresh_id_def)
  then show ?thesis
    using fresh by (auto simp: extends_def write_checkpoint_manifest_def fresh_id_def)
qed

lemma read_delta:
  assumes "identifier_re i" "dget (cp_manifests st) i = Some (jfile_dict (delta_checkpoint now b i w data bs ts))"
  shows "read_checkpoint (Suc n) i st
    = bindR (read_checkpoint n b st) (rebuild st (jfile_dict (delta_checkpoint now b i w data bs ts)))"
proof -
  let ?m = "jfile_dict (delta_checkpoint now b i w data bs ts)"
  have "item ?m ''kind'' = Inr (PStr ''delta'')" "item ?m ''base_id'' = Inr (PStr b)"
    by (simp_all add: item_def delta_checkpoint_def Let_def)
  then show ?thesis
    using assms by (simp add: checkpoint_id_ok_iff get_checkpoint_manifest_def)
qed

lemma put_delta_result:
  assumes "identifier_re b" "identifier_re i" "0 < cp_width st" "read_checkpoint n b st = Inr base"
    and cs: "fixed_chunks base (cp_width st) = Inr bs" "fixed_chunks data (cp_width st) = Inr ts"
  shows "put_delta n now b i data st = (Inr (delta_checkpoint now b i (cp_width st) data bs ts),
    write_checkpoint_manifest i (delta_checkpoint now b i (cp_width st) data bs ts) (write_blocks i (changed_blocks bs ts) st))"
  using assms by (simp add: put_delta_def effect_simps checkpoint_id_ok_iff validate_identifier_iff Let_def)

lemma put_base_reads:
  assumes "identifier_re i"
  shows "\<exists>m st'. put_base now i data st = (Inr m, st') \<and> cp_width st' = cp_width st \<and> cp_root st' = cp_root st
    \<and> (\<forall>n. read_checkpoint (Suc n) i st' = Inr data)"
proof -
  let ?m = "base_checkpoint now i data" let ?st = "write_checkpoint_manifest i ?m (write_file (base_name i) data st)"
  have "item (jfile_dict ?m) ''kind'' = Inr (PStr ''base'')" "item (jfile_dict ?m) ''sha256'' = Inr (PStr (sha256_bytes data))"
    by (simp_all add: item_def base_checkpoint_def)
  moreover have "get_checkpoint_manifest i ?st = Inr (jfile_dict ?m)"
    using assms by (simp add: get_checkpoint_manifest_def checkpoint_id_ok_iff write_checkpoint_manifest_def)
  moreover have "read_file ?st (cp_path ?st (base_name i)) = Inr data"
    by (simp add: read_file_def write_checkpoint_manifest_def cp_path_def write_file_def update_conv')
  ultimately have "read_checkpoint (Suc n) i ?st = Inr data" for n
    using assms by (simp add: checkpoint_id_ok_iff)
  moreover have "put_base now i data st = (Inr ?m, ?st)"
    using assms by (simp add: put_base_def effect_simps checkpoint_id_ok_iff Let_def)
  ultimately show ?thesis
    by (simp add: write_checkpoint_manifest_def write_file_def)
qed

text \<open>A delta stored under the id of its own base: the id can no longer be read, whatever the depth.\<close>

lemma self_delta_unreadable:
  assumes "identifier_re b" "0 < cp_width st" "read_checkpoint n b st = Inr base"
  shows "\<exists>m st'. put_delta n now b b data st = (Inr m, st') \<and> (\<forall>k. read_checkpoint k b st' = Inl RecursionError)"
proof -
  obtain bs ts where cs: "fixed_chunks base (cp_width st) = Inr bs" "fixed_chunks data (cp_width st) = Inr ts"
    using fixed_chunks_tiling [of "cp_width st"] assms(2) by blast
  define st' where "st' = snd (put_delta n now b b data st)"
  note put = put_delta_result [OF assms(1,1,2,3) cs]
  have "dget (cp_manifests st') b = Some (jfile_dict (delta_checkpoint now b b (cp_width st) data bs ts))"
    by (simp add: st'_def put write_checkpoint_manifest_def)
  then have "read_checkpoint k b st' = Inl RecursionError" for k
    by (induction k) (simp_all only: read_delta [OF assms(1)] bindR.simps read_checkpoint.simps(1))
  then show ?thesis
    using put by (auto simp: st'_def)
qed

text \<open>
  C31 (roundtrip). A checkpoint stored as a delta under an unused id, from any base the store can
  still read (itself a base or a chain of deltas), is accepted and reads back exactly, one call
  deeper than its base; nothing that could be read before changes.
\<close>

theorem checkpoint_delta_roundtrip:
  assumes "identifier_re b" "identifier_re i" "fresh_id st i" "0 < cp_width st" "read_checkpoint n b st = Inr base"
  shows "\<exists>m st'. put_delta n now b i data st = (Inr m, st') \<and> read_checkpoint (Suc n) i st' = Inr data
    \<and> (\<forall>k j d. read_checkpoint k j st = Inr d \<longrightarrow> read_checkpoint k j st' = Inr d)"
proof -
  obtain bs ts where cs: "fixed_chunks base (cp_width st) = Inr bs" "fixed_chunks data (cp_width st) = Inr ts"
    using fixed_chunks_tiling [of "cp_width st"] assms(4) by blast
  define m where "m = delta_checkpoint now b i (cp_width st) data bs ts"
  define st' where "st' = write_checkpoint_manifest i m (write_blocks i (changed_blocks bs ts) st)"
  have ext: "extends st st'"
    unfolding st'_def by (rule fresh_extends [OF assms(3)])
  have put: "put_delta n now b i data st = (Inr m, st')"
    unfolding m_def st'_def by (rule put_delta_result [OF assms(1,2,4,5) cs])
  have "rebuild st' (jfile_dict m) base = Inr data"
    using delta_written [OF assms(2,4) cs] by (simp add: st'_def m_def write_checkpoint_manifest_def)
  moreover have "dget (cp_manifests st') i = Some (jfile_dict m)"
    by (simp add: st'_def write_checkpoint_manifest_def)
  ultimately have "read_checkpoint (Suc n) i st' = Inr data"
    using read_delta [OF assms(2)] read_extends [OF ext assms(5)] by (simp add: m_def)
  then show ?thesis
    using put read_extends [OF ext] by blast
qed

text \<open>A base \<open>a\<close>, then a delta \<open>b\<close> of it.\<close>

theorem checkpoint_delta_roundtrip_witness:
  "\<exists>st m st'. put_delta 1 ''now'' ''a'' ''b'' [1, 3, 4] st = (Inr m, st') \<and> read_checkpoint 2 ''b'' st' = Inr [1, 3, 4]
    \<and> read_checkpoint 1 ''a'' st' = Inr [1, 2]"
proof -
  let ?empty = "\<lparr>cp_root = [''state''], cp_width = 1, cp_files = [], cp_manifests = []\<rparr>"
  let ?st = "snd (put_base ''now'' ''a'' [1, 2] ?empty)"
  have ids: "identifier_re ''a''" "identifier_re ''b''" by (simp_all add: is_alnum_def)
  have base: "read_checkpoint (Suc 0) ''a'' ?st = Inr [1, 2]" "0 < cp_width ?st"
    using put_base_reads [OF ids(1), of "''now''" "[1, 2]" ?empty] by force+
  have "fresh_id ?st ''b''"
    using ids by (simp add: put_base_def effect_simps thenS_def bindS_def liftR_def checkpoint_id_ok_def validate_identifier_def Let_def
        fresh_id_def write_checkpoint_manifest_def write_file_def cp_path_def base_name_def block_name_def dget_def dset_def)
  from checkpoint_delta_roundtrip [OF ids this base(2,1), of "''now''" "[1, 3, 4]"] base(1)
  show ?thesis unfolding numeral_2_eq_2 One_nat_def by blast
qed

end
