(* ===== verification/Training.thy ===== *)
theory Training
  imports PyText
begin

text \<open>
  \<open>python/urp/training.py\<close>: training samples that equal an earlier one up to white space and
  carry the same metadata are left out and recorded in a map from their id to the id kept.
\<close>

subsection \<open>The reduction\<close>

record sample =
  sm_id :: string
  sm_text :: string
  sm_metadata :: pydict

definition fingerprint :: "sample \<Rightarrow> string" where
  "fingerprint s = stable_json_hash (PDict [(''text'', PStr (squeeze (sm_text s))), (''metadata'', PDict (sm_metadata s))])"

definition sample_to_dict :: "sample \<Rightarrow> pydict" where
  "sample_to_dict s = [(''sample_id'', PStr (sm_id s)), (''text'', PStr (sm_text s)), (''metadata'', PDict (sm_metadata s))]"

record training_reduction =
  tr_accepted :: bool
  tr_unique :: "sample list"
  tr_duplicates :: "(string \<times> string) list"
  tr_bytes_avoided :: nat
  tr_verifier :: string
  tr_rollback :: string

definition training_to_dict :: "training_reduction \<Rightarrow> pydict" where
  "training_to_dict r = [(''accepted'', PBool (tr_accepted r)),
     (''unique_samples'', PList (map (\<lambda>s. PDict (sample_to_dict s)) (tr_unique r))),
     (''duplicate_map'', PDict (map (\<lambda>(k, v). (k, PStr v)) (tr_duplicates r))),
     (''bytes_avoided'', PInt (int (tr_bytes_avoided r))), (''verifier'', PStr (tr_verifier r)),
     (''rollback'', PStr (tr_rollback r))]"

text \<open>The loop: the samples seen, by fingerprint, the ones kept, the map and the bytes avoided.\<close>

fun dedupe_loop :: "(string \<times> sample) list \<Rightarrow> sample list \<Rightarrow> (string \<times> string) list \<Rightarrow> nat \<Rightarrow> sample list
    \<Rightarrow> sample list \<times> (string \<times> string) list \<times> nat" where
  "dedupe_loop seen unique dups avoided [] = (unique, dups, avoided)"
| "dedupe_loop seen unique dups avoided (s # ss) =
     (case dget seen (fingerprint s) of
        Some first \<Rightarrow> dedupe_loop seen unique (dset (sm_id s) (sm_id first) dups) (avoided + length (utf8 (sm_text s))) ss
      | None \<Rightarrow> dedupe_loop (dset (fingerprint s) s seen) (unique @ [s]) dups avoided ss)"

definition dedupe_training_samples :: "sample list \<Rightarrow> training_reduction" where
  "dedupe_training_samples samples = (case dedupe_loop [] [] [] 0 samples of (unique, dups, avoided) \<Rightarrow>
     \<lparr>tr_accepted = (dups \<noteq> []), tr_unique = unique, tr_duplicates = dups, tr_bytes_avoided = avoided,
      tr_verifier = ''dataset_lineage'', tr_rollback = ''reconstruct original sample order from duplicate map''\<rparr>)"

subsection \<open>What is kept\<close>

definition text_bytes :: "sample list \<Rightarrow> nat" where
  "text_bytes ss = sum_list (map (\<lambda>s. length (utf8 (sm_text s))) ss)"

definition stands_for :: "sample list \<Rightarrow> (string \<times> string) list \<Rightarrow> sample \<Rightarrow> bool" where
  "stands_for unique dups s = (\<exists>u \<in> set unique. fingerprint u = fingerprint s
     \<and> (if s = u then dget dups (sm_id s) = None else dget dups (sm_id s) = Some (sm_id u)))"

definition deduped :: "sample list \<Rightarrow> (string \<times> sample) list \<Rightarrow> sample list \<Rightarrow> (string \<times> string) list \<Rightarrow> nat \<Rightarrow> bool" where
  "deduped past seen unique dups avoided =
     ((\<forall>f s. dget seen f = Some s \<longleftrightarrow> s \<in> set unique \<and> fingerprint s = f) \<and> subseq unique past
      \<and> distinct (map fingerprint unique) \<and> set (dkeys dups) \<subseteq> sm_id ` set past \<and> (\<forall>s \<in> set past. stands_for unique dups s)
      \<and> text_bytes unique + avoided = text_bytes past \<and> (dups = [] \<longleftrightarrow> length unique = length past))"

lemma dget_None_dkeys: "dget d k = None \<longleftrightarrow> k \<notin> set (dkeys d)"
  by (simp add: dget_def dkeys_def map_of_eq_None_iff)

lemma dset_nonempty [simp]: "dset k v d \<noteq> []"
  by (cases d) (auto simp: dset_def)

lemma subseq_members: "subseq xs ys \<Longrightarrow> x \<in> set xs \<Longrightarrow> x \<in> set ys"
  by (induction rule: list_emb.induct) auto

lemma stands_for_cong: "dget d (sm_id t) = dget d' (sm_id t) \<Longrightarrow> stands_for us d t = stands_for us d' t"
  by (simp only: stands_for_def)

lemma deduped_repeat:
  assumes inv: "deduped past seen unique dups avoided" and u: "dget seen (fingerprint s) = Some u"
    and new: "sm_id s \<notin> sm_id ` set past"
  shows "deduped (past @ [s]) seen unique (dset (sm_id s) (sm_id u) dups) (avoided + length (utf8 (sm_text s)))"
proof -
  let ?dups = "dset (sm_id s) (sm_id u) dups"
  have sub: "subseq unique past" using inv by (simp add: deduped_def)
  have held: "u \<in> set unique" "fingerprint u = fingerprint s" "s \<noteq> u"
    using inv u new subseq_members [OF sub] by (auto simp: deduped_def)
  have "stands_for unique ?dups t" if "t \<in> set past" for t
  proof -
    have "sm_id t \<noteq> sm_id s" using new that by (metis image_eqI)
    then have "stands_for unique ?dups t = stands_for unique dups t" by (intro stands_for_cong) simp
    then show ?thesis using inv that by (simp add: deduped_def)
  qed
  moreover have "stands_for unique ?dups s"
    unfolding stands_for_def by (rule bexI [OF _ held(1)]) (use held in simp)
  moreover have "length unique < length (past @ [s])"
    using list_emb_length [OF sub] by simp
  ultimately show ?thesis
    using inv by (auto simp: deduped_def text_bytes_def dkeys_dset)
qed

lemma deduped_new:
  assumes inv: "deduped past seen unique dups avoided" and none: "dget seen (fingerprint s) = None"
    and new: "sm_id s \<notin> sm_id ` set past"
  shows "deduped (past @ [s]) (dset (fingerprint s) s seen) (unique @ [s]) dups avoided"
proof -
  have sub: "subseq unique past" using inv by (simp add: deduped_def)
  have fresh: "fingerprint s \<notin> fingerprint ` set unique"
  proof
    assume "fingerprint s \<in> fingerprint ` set unique"
    then obtain t where "t \<in> set unique" "fingerprint t = fingerprint s" by auto
    then have "dget seen (fingerprint s) = Some t" using inv unfolding deduped_def by blast
    then show False using none by simp
  qed
  have "stands_for (unique @ [s]) dups t" if "t \<in> set past" for t
    using inv that by (auto simp: deduped_def stands_for_def)
  moreover have "dget dups (sm_id s) = None"
    using inv new by (auto simp: deduped_def dget_None_dkeys)
  then have "stands_for (unique @ [s]) dups s"
    by (simp add: stands_for_def)
  ultimately show ?thesis
    using inv fresh by (auto simp: deduped_def text_bytes_def list_emb_append_mono image_iff)
qed

lemma dedupe_loop_deduped:
  assumes "deduped past seen unique dups avoided" "distinct (map sm_id (past @ ss))"
    and "dedupe_loop seen unique dups avoided ss = (unique', dups', avoided')"
  shows "\<exists>seen'. deduped (past @ ss) seen' unique' dups' avoided'"
  using assms
proof (induction ss arbitrary: past seen unique dups avoided)
  case (Cons s ss)
  have new: "sm_id s \<notin> sm_id ` set past" using Cons.prems(2) by auto
  show ?case
    using Cons.IH [OF deduped_repeat [OF Cons.prems(1) _ new]] Cons.IH [OF deduped_new [OF Cons.prems(1) _ new]] Cons.prems(2,3)
    by (auto split: option.splits)
qed auto

text \<open>
  For samples with distinct ids the reduction keeps a subsequence with pairwise
  distinct fingerprints; every sample is either kept and has no entry in the map, or is mapped to
  the id of a kept sample with its fingerprint; the bytes avoided are exactly the text bytes left
  out, and the result is accepted exactly when something was left out.
\<close>

theorem training_dedupe_sound:
  assumes "distinct (map sm_id ss)"
  shows "let r = dedupe_training_samples ss in
    subseq (tr_unique r) ss \<and> distinct (map fingerprint (tr_unique r))
    \<and> (\<forall>s \<in> set ss. stands_for (tr_unique r) (tr_duplicates r) s)
    \<and> text_bytes (tr_unique r) + tr_bytes_avoided r = text_bytes ss
    \<and> (tr_accepted r \<longleftrightarrow> length (tr_unique r) < length ss)"
proof -
  obtain unique dups avoided where loop: "dedupe_loop [] [] [] 0 ss = (unique, dups, avoided)"
    by (metis prod_cases3)
  have "deduped [] [] [] [] 0" by (simp add: deduped_def dkeys_def text_bytes_def)
  from dedupe_loop_deduped [OF this _ loop] assms obtain seen where inv: "deduped ss seen unique dups avoided" by auto
  then have "length unique \<le> length ss" by (auto simp: deduped_def list_emb_length)
  then show ?thesis
    using inv loop by (auto simp: dedupe_training_samples_def deduped_def)
qed

theorem training_dedupe_sound_witness:
  "text_bytes (tr_unique (dedupe_training_samples [\<lparr>sm_id = ''a'', sm_text = ''x  y'', sm_metadata = []\<rparr>,
      \<lparr>sm_id = ''b'', sm_text = ''x y'', sm_metadata = []\<rparr>]))
    + tr_bytes_avoided (dedupe_training_samples [\<lparr>sm_id = ''a'', sm_text = ''x  y'', sm_metadata = []\<rparr>,
      \<lparr>sm_id = ''b'', sm_text = ''x y'', sm_metadata = []\<rparr>]) = 7"
  using training_dedupe_sound [of "[\<lparr>sm_id = ''a'', sm_text = ''x  y'', sm_metadata = []\<rparr>,
      \<lparr>sm_id = ''b'', sm_text = ''x y'', sm_metadata = []\<rparr>]"]
  by (simp add: Let_def text_bytes_def utf8_def utf8_char_def)

text \<open>
  The map does not say where a sample stood, nor what its white space was: samples that stand in
  another order, or differ in white space, give the same result, so the rollback the result
  names (\<open>reconstruct original sample order\<close>) is not possible from it.
\<close>

lemma order_not_kept:
  assumes "fingerprint c = fingerprint a" "fingerprint b \<noteq> fingerprint a"
  shows "dedupe_training_samples [a, b, c] = dedupe_training_samples [a, c, b]"
  using assms by (simp add: dedupe_training_samples_def)

end
