(* ===== verification/Lakehouse.thy ===== *)
theory Lakehouse
  imports PyText JsonText
begin

text \<open>
  \<open>python/urp/lakehouse.py\<close>: which small files of a table can be merged, partition by partition.
\<close>

subsection \<open>The recommendation\<close>

record lake_file =
  lf_path :: string
  lf_partition :: string
  lf_bytes :: int
  lf_rows :: int
  lf_fingerprint :: string

definition lake_file_to_dict :: "lake_file \<Rightarrow> pydict" where
  "lake_file_to_dict f = [(''path'', PStr (lf_path f)), (''partition'', PStr (lf_partition f)),
     (''size_bytes'', PInt (lf_bytes f)), (''row_count'', PInt (lf_rows f)), (''fingerprint'', PStr (lf_fingerprint f))]"

record compaction_group =
  cg_partition :: string
  cg_paths :: "string list"
  cg_output :: string
  cg_bytes :: int
  cg_rows :: int
  cg_avoided :: int
  cg_verifier :: string
  cg_rollback :: string

definition compaction_group_to_dict :: "compaction_group \<Rightarrow> pydict" where
  "compaction_group_to_dict g = [(''partition'', PStr (cg_partition g)), (''input_paths'', PList (map PStr (cg_paths g))),
     (''output_ref'', PStr (cg_output g)), (''total_bytes'', PInt (cg_bytes g)), (''total_rows'', PInt (cg_rows g)),
     (''files_avoided'', PInt (cg_avoided g)), (''verifier'', PStr (cg_verifier g)), (''rollback'', PStr (cg_rollback g))]"

record lakehouse_plan =
  lp_accepted :: bool
  lp_groups :: "compaction_group list"
  lp_reason :: string

definition lakehouse_plan_to_dict :: "lakehouse_plan \<Rightarrow> pydict" where
  "lakehouse_plan_to_dict p = [(''accepted'', PBool (lp_accepted p)), (''reason'', PStr (lp_reason p)),
     (''groups'', PList (map (\<lambda>g. PDict (compaction_group_to_dict g)) (lp_groups p)))]"

text \<open>The loop that collects the small files of each partition.\<close>

fun collect :: "int \<Rightarrow> (string \<times> lake_file list) list \<Rightarrow> lake_file list \<Rightarrow> (string \<times> lake_file list) list" where
  "collect target parts [] = parts"
| "collect target parts (f # fs) =
     (if lf_bytes f \<le> 0 then collect target parts fs
      else if lf_bytes f < target then
        collect target (dset (lf_partition f)
          ((case dget parts (lf_partition f) of None \<Rightarrow> [] | Some gs \<Rightarrow> gs) @ [f]) parts) fs
      else collect target parts fs)"

definition compaction_group_of :: "string \<Rightarrow> lake_file list \<Rightarrow> compaction_group" where
  "compaction_group_of p fs =
     (let total = sum_list (map lf_bytes fs);
          digest = take 16 (stable_json_hash (PDict [(''partition'', PStr p), (''paths'', PList (map (\<lambda>f. PStr (lf_path f)) fs)),
            (''bytes'', PInt total)]))
      in \<lparr>cg_partition = p, cg_paths = map lf_path fs, cg_output = ''compact://'' @ p @ ''/'' @ digest,
          cg_bytes = total, cg_rows = sum_list (map lf_rows fs), cg_avoided = max 0 (int (length fs) - 1),
          cg_verifier = ''snapshot_equivalence'', cg_rollback = ''restore previous table snapshot pointer''\<rparr>)"

definition recommend_compaction :: "lake_file list \<Rightarrow> int \<Rightarrow> int \<Rightarrow> lakehouse_plan" where
  "recommend_compaction files target minimum =
     (let parts = sort_key fst (collect target [] files);
          groups = map (\<lambda>(p, fs). compaction_group_of p fs) (filter (\<lambda>(p, fs). \<not> int (length fs) < minimum) parts)
      in \<lparr>lp_accepted = (groups \<noteq> []), lp_groups = groups,
          lp_reason = (if groups \<noteq> [] then ''small_file_groups_found'' else ''no_small_file_groups'')\<rparr>)"

subsection \<open>What is recommended\<close>

definition small :: "int \<Rightarrow> lake_file \<Rightarrow> bool" where
  "small target f = (0 < lf_bytes f \<and> lf_bytes f < target)"

definition small_of :: "int \<Rightarrow> lake_file list \<Rightarrow> string \<Rightarrow> lake_file list" where
  "small_of target files p = filter (\<lambda>f. small target f \<and> lf_partition f = p) files"

definition partitions :: "int \<Rightarrow> lake_file list \<Rightarrow> string list" where
  "partitions target files = sort (remdups (map lf_partition (filter (small target) files)))"

text \<open>The recommendation as it would be specified: one group for each partition with enough
  small files, in the order of the partitions.\<close>

definition compaction_spec :: "lake_file list \<Rightarrow> int \<Rightarrow> int \<Rightarrow> compaction_group list" where
  "compaction_spec files target minimum =
     map (\<lambda>p. compaction_group_of p (small_of target files p))
       (filter (\<lambda>p. minimum \<le> int (length (small_of target files p))) (partitions target files))"

lemma collect_get:
  "(case dget (collect target parts fs) p of None \<Rightarrow> [] | Some gs \<Rightarrow> gs)
     = (case dget parts p of None \<Rightarrow> [] | Some gs \<Rightarrow> gs) @ small_of target fs p"
  by (induction fs arbitrary: parts) (auto simp: small_of_def small_def split: option.splits)

lemma collect_keys: "distinct (map fst parts) \<Longrightarrow> distinct (map fst (collect target parts fs))
    \<and> set (map fst (collect target parts fs)) = set (map fst parts) \<union> lf_partition ` {f \<in> set fs. small target f}"
proof (induction fs arbitrary: parts)
  case (Cons f fs)
  have "distinct (map fst (dset k v parts))" "set (map fst (dset k v parts)) = insert k (set (map fst parts))" for k v
    using Cons.prems by (simp_all add: dset_def distinct_update dom_update)
  then show ?case
    using Cons by (simp add: small_def) auto
qed simp

text \<open>A dictionary sorted by key is the sorted list of its keys with their values.\<close>

lemma sorted_items:
  assumes "distinct (map fst d)"
  shows "sort_key fst d = map (\<lambda>k. (k, the (dget d k))) (sort (map fst d))"
proof -
  let ?d = "sort_key fst d"
  have keys: "sort (map fst d) = map fst ?d"
    by (rule sorted_distinct_set_unique) (use assms in \<open>simp_all add: distinct_map\<close>)
  have "distinct (map fst ?d)"
    using assms by (simp flip: keys)
  then have "map (\<lambda>k. (k, the (map_of ?d k))) (map fst ?d) = ?d"
    unfolding list.map_comp by (intro map_idI) auto
  then show ?thesis
    by (simp add: keys dget_def map_of_sort_key)
qed

lemma filter_map_pair: "map (\<lambda>(p, fs). f p fs) (filter (\<lambda>(p, fs). P fs) (map (\<lambda>k. (k, g k)) ks)) = map (\<lambda>k. f k (g k)) (filter (\<lambda>k. P (g k)) ks)"
  by (induction ks) auto

lemma groups_eq: "lp_groups (recommend_compaction files target minimum) = compaction_spec files target minimum"
proof -
  let ?parts = "collect target [] files"
  have keys: "distinct (map fst ?parts)" "set (map fst ?parts) = lf_partition ` {f \<in> set files. small target f}"
    using collect_keys [of "[]" target files] by auto
  have "dget ?parts k = Some (small_of target files k)" if "k \<in> set (map fst ?parts)" for k
    using that collect_get [of target "[]" files k]
    by (cases "dget ?parts k") (auto simp: dget_def map_of_eq_None_iff)
  then have "sort_key fst ?parts = map (\<lambda>k. (k, small_of target files k)) (sort (map fst ?parts))"
    by (simp add: sorted_items [OF keys(1)])
  moreover have "sort (map fst ?parts) = partitions target files"
    unfolding partitions_def by (rule sorted_distinct_set_unique) (use keys in auto)
  ultimately show ?thesis
    by (simp add: recommend_compaction_def compaction_spec_def Let_def filter_map_pair not_less)
qed

lemma spec_groups:
  assumes "g \<in> set (compaction_spec files target minimum)"
  shows "\<exists>fs. subseq fs files \<and> fs \<noteq> [] \<and> minimum \<le> int (length fs) \<and> cg_paths g = map lf_path fs
    \<and> cg_bytes g = sum_list (map lf_bytes fs) \<and> cg_rows g = sum_list (map lf_rows fs)
    \<and> cg_avoided g = int (length fs) - 1
    \<and> (\<forall>f \<in> set files. f \<in> set fs \<longleftrightarrow> small target f \<and> lf_partition f = cg_partition g)"
proof -
  obtain p where p: "p \<in> set (partitions target files)" "minimum \<le> int (length (small_of target files p))"
      "g = compaction_group_of p (small_of target files p)"
    using assms by (auto simp: compaction_spec_def)
  then have ne: "small_of target files p \<noteq> []"
    by (auto simp: partitions_def small_of_def filter_empty_conv)
  then have "1 \<le> length (small_of target files p)" by (cases "small_of target files p") auto
  then show ?thesis
    using p ne by (intro exI [of _ "small_of target files p"]) (auto simp: compaction_group_of_def Let_def small_of_def)
qed

text \<open>
  The recommendation is the specified one: exactly the partitions with enough
  small files get a group, in strictly ascending order, and each group holds precisely the small
  files of its partition in their order, with their total size and rows; every file it names is
  non-empty and below the target.
\<close>

theorem compaction_meets_spec:
  "let p = recommend_compaction files target minimum in
    lp_groups p = compaction_spec files target minimum \<and> (lp_accepted p \<longleftrightarrow> lp_groups p \<noteq> [])
    \<and> sorted_wrt (<) (map cg_partition (lp_groups p))
    \<and> (\<forall>g \<in> set (lp_groups p). \<exists>fs. subseq fs files \<and> fs \<noteq> [] \<and> minimum \<le> int (length fs)
        \<and> cg_paths g = map lf_path fs \<and> cg_bytes g = sum_list (map lf_bytes fs) \<and> cg_rows g = sum_list (map lf_rows fs)
        \<and> cg_avoided g = int (length fs) - 1
        \<and> (\<forall>f \<in> set files. f \<in> set fs \<longleftrightarrow> small target f \<and> lf_partition f = cg_partition g))"
proof -
  have "map cg_partition (compaction_spec files target minimum)
      = filter (\<lambda>p. minimum \<le> int (length (small_of target files p))) (partitions target files)"
    by (simp add: compaction_spec_def comp_def compaction_group_of_def Let_def)
  then have "sorted_wrt (<) (map cg_partition (compaction_spec files target minimum))"
    by (simp add: strict_sorted_iff partitions_def sorted_wrt_filter)
  moreover have "lp_accepted (recommend_compaction files target minimum) \<longleftrightarrow> lp_groups (recommend_compaction files target minimum) \<noteq> []"
    by (simp add: recommend_compaction_def Let_def)
  ultimately show ?thesis
    using spec_groups by (simp add: Let_def groups_eq)
qed

theorem compaction_meets_spec_witness:
  "map cg_paths (lp_groups (recommend_compaction [\<lparr>lf_path = ''b1'', lf_partition = ''b'', lf_bytes = 5, lf_rows = 1, lf_fingerprint = []\<rparr>,
     \<lparr>lf_path = ''a1'', lf_partition = ''a'', lf_bytes = 5, lf_rows = 1, lf_fingerprint = []\<rparr>,
     \<lparr>lf_path = ''b2'', lf_partition = ''b'', lf_bytes = 6, lf_rows = 1, lf_fingerprint = []\<rparr>] 10 2)) = [[''b1'', ''b2'']]"
  using compaction_meets_spec [of "[\<lparr>lf_path = ''b1'', lf_partition = ''b'', lf_bytes = 5, lf_rows = 1, lf_fingerprint = []\<rparr>,
     \<lparr>lf_path = ''a1'', lf_partition = ''a'', lf_bytes = 5, lf_rows = 1, lf_fingerprint = []\<rparr>,
     \<lparr>lf_path = ''b2'', lf_partition = ''b'', lf_bytes = 6, lf_rows = 1, lf_fingerprint = []\<rparr>]" 10 2]
  by (simp add: Let_def compaction_spec_def partitions_def small_of_def small_def compaction_group_of_def)

end
