(* ===== verification/Scheduler.thy ===== *)
theory Scheduler
  imports Observability
begin

text \<open>
  \<open>python/urp/scheduler.py\<close>: jobs that may run later when the carbon signal is high. A signal is a
  float given by its decimal text, a pair of digits and decimal places; \<open>fresh\<close> and \<open>now\<close> are
  what \<open>new_id\<close> and \<open>utc_now\<close> return. The state is the job file and the counters.
\<close>

subsection \<open>Jobs and decisions\<close>

record job =
  jb_tenant :: string
  jb_kind :: string
  jb_deadline :: "int option"
  jb_runtime :: int
  jb_carbon :: "(int \<times> nat) option"
  jb_region :: string
  jb_policy :: pydict
  jb_id :: string
  jb_created_at :: string

definition new_job :: "job \<Rightarrow> job res" where
  "new_job j =
     (if py_strip (jb_tenant j) = [] \<or> py_strip (jb_kind j) = []
        then Inl (ValueError ''scheduler jobs require tenant and kind'')
      else if (case jb_deadline j of None \<Rightarrow> False | Some d \<Rightarrow> d < 0)
        then Inl (ValueError ''deadline_seconds must be non-negative'')
      else if jb_runtime j < 0 then Inl (ValueError ''estimated_runtime_seconds must be non-negative'')
      else if (case jb_carbon j of None \<Rightarrow> False | Some (m, e) \<Rightarrow> \<not> (0 \<le> m \<and> m \<le> 10 ^ e))
        then Inl (ValueError ''carbon_signal must be between 0 and 1'')
      else if py_strip (jb_region j) = [] then Inl (ValueError ''preferred_region is required'')
      else Inr j)"

definition job_to_dict :: "job \<Rightarrow> pydict" where
  "job_to_dict j = [(''tenant'', PStr (jb_tenant j)), (''kind'', PStr (jb_kind j)), (''deadline_seconds'', opt_int (jb_deadline j)),
     (''estimated_runtime_seconds'', PInt (jb_runtime j)),
     (''carbon_signal'', case jb_carbon j of None \<Rightarrow> PNone | Some (m, e) \<Rightarrow> PFloat m e),
     (''preferred_region'', PStr (jb_region j)), (''policy_context'', PDict (jb_policy j)), (''job_id'', PStr (jb_id j)),
     (''created_at'', PStr (jb_created_at j))]"

record schedule_decision =
  sd_run_now :: bool
  sd_region :: string
  sd_reason :: string
  sd_job_id :: "string option"
  sd_shifted :: int
  sd_deadline :: "int option"
  sd_run_after :: int
  sd_policy :: pydict

definition decision_dict :: "schedule_decision \<Rightarrow> pydict" where
  "decision_dict d = [(''run_now'', PBool (sd_run_now d)), (''region'', PStr (sd_region d)), (''reason'', PStr (sd_reason d)),
     (''job_id'', opt_value (sd_job_id d)), (''shifted_seconds'', PInt (sd_shifted d)), (''deadline_seconds'', opt_int (sd_deadline d)),
     (''run_after_seconds'', PInt (sd_run_after d)), (''policy'', PDict (sd_policy d))]"

definition decide_job :: "job \<Rightarrow> bool \<Rightarrow> string \<Rightarrow> int \<Rightarrow> schedule_decision" where
  "decide_job j now reason shift = \<lparr>sd_run_now = now, sd_region = jb_region j, sd_reason = reason, sd_job_id = Some (jb_id j),
     sd_shifted = shift, sd_deadline = jb_deadline j, sd_run_after = shift, sd_policy = jb_policy j\<rparr>"

definition high_carbon :: "job \<Rightarrow> bool" where
  "high_carbon j = (case jb_carbon j of None \<Rightarrow> False | Some (m, e) \<Rightarrow> 8 * 10 ^ e < m * 10)"

definition schedule_job :: "job \<Rightarrow> (schedule_decision, metrics) sres" where
  "schedule_job j =
     (if get_value (jb_policy j) ''force_run_now'' = PBool True then retS (decide_job j True ''policy_force_run_now'' 0)
      else if (case jb_deadline j of None \<Rightarrow> False | Some d \<Rightarrow> d < 60) then retS (decide_job j True ''interactive_deadline'' 0)
      else if high_carbon j then
        bindS (liftR (py_int (get_default (jb_policy j) ''max_shift_seconds'' (PInt 900)))) (\<lambda>shift.
          if shift < 0 \<or> shift > 86400 then raiseS (ValueError ''max_shift_seconds must be between 0 and 86400'')
          else if (case jb_deadline j of None \<Rightarrow> False | Some d \<Rightarrow> d \<le> max 120 (jb_runtime j + shift))
            then retS (decide_job j True ''deadline_prevents_shift'' 0)
          else bindS (metric_inc ''urp_scheduler_jobs_shifted_total'' 1)
            (\<lambda>_. retS (decide_job j False ''defer_due_to_high_carbon_or_grid_signal'' shift)))
      else retS (decide_job j True ''run_within_policy'' 0))"

definition schedule :: "string \<Rightarrow> string \<Rightarrow> int option \<Rightarrow> (int \<times> nat) option \<Rightarrow> string \<Rightarrow> (schedule_decision, metrics) sres" where
  "schedule fresh now deadline carbon region = bindS (liftR (new_job \<lparr>jb_tenant = ''local'', jb_kind = ''batch_compute_job'',
     jb_deadline = deadline, jb_runtime = 0, jb_carbon = carbon, jb_region = region, jb_policy = [], jb_id = fresh,
     jb_created_at = now\<rparr>)) schedule_job"

subsection \<open>The job store\<close>

type_synonym scheduler_state = "pydict list \<times> metrics"

definition job_row :: "string \<Rightarrow> job \<Rightarrow> schedule_decision \<Rightarrow> pydict" where
  "job_row now j d = [(''job'', PDict (job_to_dict j)), (''decision'', PDict (decision_dict d)), (''created_at'', PStr now)]"

definition scheduler_submit :: "ctx \<Rightarrow> string \<Rightarrow> job \<Rightarrow> (schedule_decision, scheduler_state) sres" where
  "scheduler_submit c now j = (\<lambda>(rows, mt). case schedule_job j mt of
      (Inl e, mt') \<Rightarrow> (Inl e, (rows, mt'))
    | (Inr d, mt') \<Rightarrow> (case enforce_tenant c (jb_tenant j) of
          Inl e \<Rightarrow> (Inl e, (rows, mt'))
        | Inr _ \<Rightarrow> (Inr d, (rows @ [jfile_dict (job_row now j d)], mt'))))"

definition row_tenant :: "pydict \<Rightarrow> pyval res" where
  "row_tenant row = (case get_default row ''job'' (PDict []) of PDict d \<Rightarrow> Inr (get_value d ''tenant'')
     | _ \<Rightarrow> Inl (OtherError ''AttributeError''))"

fun visible_jobs :: "string option \<Rightarrow> pydict list \<Rightarrow> pydict list res" where
  "visible_jobs tn [] = Inr []"
| "visible_jobs None (row # rows) = map_res (Cons row) (visible_jobs None rows)"
| "visible_jobs (Some t) (row # rows) = bindR (row_tenant row) (\<lambda>v.
     map_res (if v = PStr t then Cons row else id) (visible_jobs (Some t) rows))"

definition scheduler_read :: "ctx \<Rightarrow> scheduler_state \<Rightarrow> pydict list res" where
  "scheduler_read c = (\<lambda>(rows, mt). visible_jobs (bound_tenant c) rows)"

subsection \<open>Deferral is safe\<close>

lemma shift_counted: "metric_inc ''urp_scheduler_jobs_shifted_total'' 1 mt
    = (Inr (), mt\<lparr>mt_counters := dset ''urp_scheduler_jobs_shifted_total''
        ((case dget (mt_counters mt) ''urp_scheduler_jobs_shifted_total'' of Some x \<Rightarrow> x | None \<Rightarrow> 0) + 1) (mt_counters mt)\<rparr>)"
proof -
  have "validate_metric ''urp_scheduler_jobs_shifted_total'' = Inr ()" by code_simp
  then show ?thesis by (simp add: metric_inc_def thenS_def bindS_def liftR_def)
qed

text \<open>
  C32 (bounds). A job is deferred only under a high carbon signal, without a policy that forces it
  to run, by at most a day, and never past its deadline: run time and shift together end before
  it. Every other decision runs the job at once, unshifted, and counts nothing; a deferral counts
  one. A job without its own shift limit always gets a decision.
\<close>

theorem deferral_meets_deadline:
  "(\<forall>d mt'. schedule_job j mt = (Inr d, mt') \<longrightarrow> sd_run_after d = sd_shifted d
      \<and> (if sd_run_now d then sd_shifted d = 0 \<and> mt' = mt
         else high_carbon j \<and> get_value (jb_policy j) ''force_run_now'' \<noteq> PBool True
           \<and> 0 \<le> sd_shifted d \<and> sd_shifted d \<le> 86400
           \<and> (\<forall>dl. jb_deadline j = Some dl \<longrightarrow> 120 < dl \<and> jb_runtime j + sd_shifted d < dl)
           \<and> metric_inc ''urp_scheduler_jobs_shifted_total'' 1 mt = (Inr (), mt')))
   \<and> (dget (jb_policy j) ''max_shift_seconds'' = None \<longrightarrow> (\<exists>d mt'. schedule_job j mt = (Inr d, mt')))"
proof (intro conjI allI impI)
  fix d mt' assume run: "schedule_job j mt = (Inr d, mt')"
  then show "sd_run_after d = sd_shifted d"
    by (auto simp: schedule_job_def effect_simps decide_job_def split: if_splits)
  show "if sd_run_now d then sd_shifted d = 0 \<and> mt' = mt
         else high_carbon j \<and> get_value (jb_policy j) ''force_run_now'' \<noteq> PBool True
           \<and> 0 \<le> sd_shifted d \<and> sd_shifted d \<le> 86400
           \<and> (\<forall>dl. jb_deadline j = Some dl \<longrightarrow> 120 < dl \<and> jb_runtime j + sd_shifted d < dl)
           \<and> metric_inc ''urp_scheduler_jobs_shifted_total'' 1 mt = (Inr (), mt')"
    using run by (auto simp: schedule_job_def effect_simps decide_job_def split: if_splits option.splits)
next
  assume "dget (jb_policy j) ''max_shift_seconds'' = None"
  then have "get_default (jb_policy j) ''max_shift_seconds'' (PInt 900) = PInt 900" by (simp add: get_default_def)
  then show "\<exists>d mt'. schedule_job j mt = (Inr d, mt')"
    by (auto simp: schedule_job_def retS_def bindS_def liftR_def shift_counted)
qed

theorem deferral_meets_deadline_witness:
  "\<exists>d mt'. schedule_job \<lparr>jb_tenant = ''acme'', jb_kind = ''batch'', jb_deadline = Some 2000, jb_runtime = 600, jb_carbon = Some (9, 1),
      jb_region = ''local'', jb_policy = [], jb_id = ''job_1'', jb_created_at = ''now''\<rparr> \<lparr>mt_counters = [], mt_gauges = []\<rparr> = (Inr d, mt')
    \<and> \<not> sd_run_now d \<and> 600 + sd_shifted d < 2000"
proof -
  let ?j = "\<lparr>jb_tenant = ''acme'', jb_kind = ''batch'', jb_deadline = Some 2000, jb_runtime = 600, jb_carbon = Some (9, 1),
      jb_region = ''local'', jb_policy = [], jb_id = ''job_1'', jb_created_at = ''now''\<rparr>"
  obtain d mt' where run: "schedule_job ?j \<lparr>mt_counters = [], mt_gauges = []\<rparr> = (Inr d, mt')"
    using deferral_meets_deadline [of ?j] by (metis dget_Nil job.select_convs(7))
  then have "\<not> sd_run_now d"
    by (auto simp: schedule_job_def effect_simps high_carbon_def get_value_def get_default_def decide_job_def split: if_splits)
  then show ?thesis
    using run deferral_meets_deadline [of ?j "\<lparr>mt_counters = [], mt_gauges = []\<rparr>"] by auto
qed

text \<open>A submitted job is appended to what its tenant reads and to what nobody else does.\<close>

lemma visible_jobs_append: "visible_jobs tn (rows @ qs)
    = bindR (visible_jobs tn rows) (\<lambda>vs. map_res (\<lambda>ws. vs @ ws) (visible_jobs tn qs))"
proof (induction rows)
  case Nil
  show ?case by (cases "visible_jobs tn qs") auto
next
  case (Cons r rows)
  then show ?case
    by (cases tn; cases "row_tenant r"; cases "visible_jobs tn rows"; cases "visible_jobs tn qs") auto
qed

lemma job_row_tenant: "row_tenant (jfile_dict (job_row now j d)) = Inr (PStr (jb_tenant j))"
  by (simp add: row_tenant_def get_default_def get_value_def job_row_def jfile_PDict job_to_dict_def del: jfile.simps(4))

lemma submit_reads:
  assumes "scheduler_submit c now j s = (Inr d, s')" "scheduler_read c' s = Inr rows"
  shows "visible c (jb_tenant j)
    \<and> scheduler_read c' s' = Inr (rows @ (if visible c' (jb_tenant j) then [jfile_dict (job_row now j d)] else []))"
proof -
  have vis: "visible c (jb_tenant j)" and s': "fst s' = fst s @ [jfile_dict (job_row now j d)]"
    using assms(1) by (auto simp: scheduler_submit_def visible_def split: prod.splits sum.splits)
  have "visible_jobs (bound_tenant c') [jfile_dict (job_row now j d)]
      = Inr (if visible c' (jb_tenant j) then [jfile_dict (job_row now j d)] else [])"
    by (cases "bound_tenant c'") (auto simp: job_row_tenant visible_iff)
  then show ?thesis
    using assms(2) vis s' by (cases s; cases s') (simp add: scheduler_read_def visible_jobs_append)
qed

end
