(* ===== verification/Verifiers.thy ===== *)
theory Verifiers
  imports Chunking PyText JsonText
begin

text \<open>
  The other verifiers of \<open>python/urp/verifiers.py\<close> and \<open>python/urp/cache_verification.py\<close>,
  which picks one for a value about to be cached. A result without details has the empty
  dictionary, as its dictionary form prints it.
\<close>

subsection \<open>Verifiers\<close>

definition verdict :: "bool \<Rightarrow> string \<Rightarrow> string \<Rightarrow> pydict \<Rightarrow> verification_result" where
  "verdict ok ident reason details = \<lparr>vr_accepted = ok, vr_verifier_id = ident, vr_reason = reason, vr_details = details\<rparr>"

definition verify_non_empty_text :: "string \<Rightarrow> verification_result" where
  "verify_non_empty_text t = verdict (py_strip t \<noteq> []) ''non_empty_text@0'' (if py_strip t \<noteq> [] then ''non_empty'' else ''empty'') []"

fun is_number :: "pyval \<Rightarrow> bool" where
  "is_number (PInt i) = True"
| "is_number (PFloat m e) = True"
| "is_number (PBool b) = True"
| "is_number v = False"

fun is_vector :: "pyval \<Rightarrow> bool" where
  "is_vector (PList xs) = (xs \<noteq> [] \<and> list_all is_number xs)"
| "is_vector v = False"

definition verify_embedding_vector :: "pyval \<Rightarrow> verification_result" where
  "verify_embedding_vector v =
     (let vectors = (case v of PList xs \<Rightarrow> xs | _ \<Rightarrow> []); ok = vectors \<noteq> [] \<and> list_all is_vector vectors
      in verdict ok ''embedding_shape@0'' (if ok then ''vector_shape_ok'' else ''invalid_embedding_shape'')
           [(''vectors'', PInt (int (length vectors)))])"

text \<open>Sets of strings are lists read as sets; \<open>sorted\<close> prints them without repetition.\<close>

definition sorted_set :: "string list \<Rightarrow> pyval" where
  "sorted_set xs = PList (map PStr (sort (remdups xs)))"

definition verify_source_fingerprints :: "string list \<Rightarrow> string list \<Rightarrow> verification_result" where
  "verify_source_fingerprints expected actual =
     (let ok = set expected = set actual
      in verdict ok ''source_fingerprint_match@0'' (if ok then ''match'' else ''mismatch'')
           [(''expected'', sorted_set expected), (''actual'', sorted_set actual)])"

definition verify_json_shape :: "pyval \<Rightarrow> string list \<Rightarrow> verification_result" where
  "verify_json_shape v required =
     (let keys = (case v of PDict d \<Rightarrow> dkeys d | _ \<Rightarrow> []); missing = filter (\<lambda>k. k \<notin> set keys) required
      in verdict (missing = []) ''json_shape@0'' (if missing = [] then ''shape_ok'' else ''missing_keys'')
           [(''missing'', sorted_set missing)])"

subsection \<open>Subscripts and iteration\<close>

text \<open>\<open>v[k]\<close> for a string key and \<open>v[0]\<close>; and the elements a loop over a value visits.\<close>

fun at_key :: "pyval \<Rightarrow> string \<Rightarrow> pyval res" where
  "at_key (PDict d) k = item d k"
| "at_key v k = Inl (TypeError ''indices must be integers'')"

fun at_zero :: "pyval \<Rightarrow> pyval res" where
  "at_zero (PList (x # xs)) = Inr x"
| "at_zero (PTuple (x # xs)) = Inr x"
| "at_zero (PStr (c # s)) = Inr (PStr [c])"
| "at_zero (PBytes (b # bs)) = Inr (PInt (uint b))"
| "at_zero (PDict d) = Inl (KeyError ''0'')"
| "at_zero (PList []) = Inl IndexError"
| "at_zero (PTuple []) = Inl IndexError"
| "at_zero (PStr []) = Inl IndexError"
| "at_zero (PBytes []) = Inl IndexError"
| "at_zero v = Inl (TypeError ''object is not subscriptable'')"

fun iterate :: "pyval \<Rightarrow> pyval list res" where
  "iterate (PList xs) = Inr xs"
| "iterate (PTuple xs) = Inr xs"
| "iterate (PStr s) = Inr (map (\<lambda>c. PStr [c]) s)"
| "iterate (PBytes b) = Inr (map (\<lambda>x. PInt (uint x)) b)"
| "iterate (PDict d) = Inr (map PStr (dkeys d))"
| "iterate v = Inl (TypeError ''object is not iterable'')"

subsection \<open>The verifier of a cache value\<close>

text \<open>\<open>value["choices"][0]["message"]["content"]\<close>; a failing subscript is one of the exceptions
  the callers catch.\<close>

definition chat_content :: "pyval \<Rightarrow> pyval res" where
  "chat_content v = bindR (at_key v ''choices'') (\<lambda>c. bindR (at_zero c) (\<lambda>f. bindR (at_key f ''message'') (\<lambda>m. at_key m ''content'')))"

definition text_value :: "pyval \<Rightarrow> string" where
  "text_value v = (case v of PStr s \<Rightarrow> s
     | PDict d \<Rightarrow> (case chat_content v of Inr t \<Rightarrow> py_str t | Inl _ \<Rightarrow> [])
     | _ \<Rightarrow> [])"

definition embedding_rows :: "pyval \<Rightarrow> pyval res" where
  "embedding_rows v = (case v of
     PDict d \<Rightarrow> map_res (\<lambda>rows. PList (concat (map (\<lambda>r. case r of PDict e \<Rightarrow> [get_value e ''embedding''] | _ \<Rightarrow> []) rows)))
       (iterate (get_default d ''data'' (PList [])))
   | _ \<Rightarrow> Inr v)"

definition sha256_verdict :: "pyval \<Rightarrow> string \<Rightarrow> verification_result" where
  "sha256_verdict decoded expected =
     (case (case decoded of PStr s \<Rightarrow> PBytes (utf8 s) | v \<Rightarrow> v) of
        PBytes b \<Rightarrow> (if length expected \<noteq> 64 then verdict False ''sha256_cache_value@1'' ''bytes_and_expected_digest_required'' []
          else (let actual = sha256_hex b in verdict (actual = expected) ''sha256_cache_value@1''
                 (if actual = expected then ''match'' else ''mismatch'') [(''expected'', PStr expected), (''actual'', PStr actual)]))
      | _ \<Rightarrow> verdict False ''sha256_cache_value@1'' ''bytes_and_expected_digest_required'' [])"

definition text_or_empty :: "pyval \<Rightarrow> string" where
  "text_or_empty v = (if truthy v then py_str v else [])"

definition verify_cache_value :: "pyval \<Rightarrow> pydict option \<Rightarrow> verification_result res" where
  "verify_cache_value v specification =
     (let spec = (case specification of None \<Rightarrow> [] | Some d \<Rightarrow> d); ty = text_or_empty (get_value spec ''type'') in
      if ty = ''non_empty_text'' then Inr (verify_non_empty_text (text_value v))
      else if ty = ''chat_completion'' then
        (case chat_content v of Inl _ \<Rightarrow> Inr (verdict False ''chat_completion_shape@1'' ''missing_assistant_content'' [])
         | Inr t \<Rightarrow> Inr (verify_non_empty_text (py_str t)))
      else if ty = ''embedding_shape'' then map_res verify_embedding_vector (embedding_rows v)
      else if ty = ''json_shape'' then
        bindR (iterate (get_default spec ''required_keys'' (PList []))) (\<lambda>ks.
          if ks = [] then Inr (verdict False ''json_shape@1'' ''required_keys_missing'' [])
          else Inr (verify_json_shape v (map py_str ks)))
      else if ty = ''sha256'' then
        map_res (\<lambda>decoded. sha256_verdict decoded (text_or_empty (get_value spec ''expected''))) (decode_json_value v)
      else Inr (verdict False ''cache_value_verifier@1'' ''supported_verifier_type_required''
        [(''supported'', PList (map PStr [''chat_completion'', ''embedding_shape'', ''json_shape'', ''non_empty_text'', ''sha256'']))]))"

end
