(* ===== verification/Advanced.thy ===== *)
theory Advanced
  imports Verifiers
begin

text \<open>
  \<open>python/urp/advanced.py\<close>: the optional reducers, each tied to a contract, a policy flag and a
  verifier, and the gate that decides whether one may run for a work unit. Verification results
  come as a list, the values of the mapping the code also accepts.
\<close>

subsection \<open>Reducers\<close>

record reducer_spec =
  rs_name :: string
  rs_contract :: contract
  rs_flag :: string
  rs_verifier :: string
  rs_action :: string
  rs_benchmark :: string
  rs_rollback :: string
  rs_kinds :: "work_unit_kind list"
  rs_default :: bool

definition spec_to_dict :: "reducer_spec \<Rightarrow> pydict" where
  "spec_to_dict s = [(''name'', PStr (rs_name s)), (''required_contract'', PStr (contract_value (rs_contract s))),
     (''policy_flag'', PStr (rs_flag s)), (''required_verifier'', PStr (rs_verifier s)), (''action'', PStr (rs_action s)),
     (''benchmark_suite'', PStr (rs_benchmark s)), (''rollback'', PStr (rs_rollback s)),
     (''eligible_kinds'', PList (map (PStr \<circ> kind_value) (rs_kinds s))), (''enabled_by_default'', PBool (rs_default s))]"

record reducer_decision =
  rd_name :: string
  rd_enabled :: bool
  rd_reason :: string
  rd_details :: pydict
  rd_action :: string
  rd_verifier :: string
  rd_benchmark :: string
  rd_rollback :: string

definition reducer_decision_to_dict :: "reducer_decision \<Rightarrow> pydict" where
  "reducer_decision_to_dict d = [(''name'', PStr (rd_name d)), (''enabled'', PBool (rd_enabled d)), (''reason'', PStr (rd_reason d)),
     (''details'', PDict (rd_details d)), (''action'', PStr (rd_action d)), (''required_verifier'', PStr (rd_verifier d)),
     (''benchmark_suite'', PStr (rd_benchmark d)), (''rollback'', PStr (rd_rollback d))]"

definition advanced_reducer_specs :: "(string \<times> reducer_spec) list" where
  "advanced_reducer_specs = [
     (''semantic_cache'', \<lparr>rs_name = ''semantic_cache'', rs_contract = SEMANTIC, rs_flag = ''allow_semantic_cache'',
        rs_verifier = ''source_fingerprint_match'', rs_action = ''semantic_cache_lookup'', rs_benchmark = ''prompt-cache-v1'',
        rs_rollback = ''disable allow_semantic_cache and fall back to exact cache/provider call'',
        rs_kinds = [PROMPT_REQUEST, RAG_CONTEXT_PACK], rs_default = False\<rparr>),
     (''bounded_approximation'', \<lparr>rs_name = ''bounded_approximation'', rs_contract = BOUNDED_APPROX,
        rs_flag = ''allow_bounded_approximation'', rs_verifier = ''error_bound'', rs_action = ''approximate_quantization'',
        rs_benchmark = ''advanced-local-v1'', rs_rollback = ''restore exact source manifest and disable allow_bounded_approximation'',
        rs_kinds = [MEDIA_ASSET, METRIC_SERIES, VECTOR_INDEX_SEGMENT], rs_default = False\<rparr>),
     (''lakehouse_optimizer'', \<lparr>rs_name = ''lakehouse_optimizer'', rs_contract = EXACT_LOGICAL,
        rs_flag = ''allow_lakehouse_optimization'', rs_verifier = ''snapshot_equivalence'', rs_action = ''lakehouse_compaction_plan'',
        rs_benchmark = ''advanced-local-v1'',
        rs_rollback = ''restore previous table snapshot pointer and retain compacted files until audit expiry'',
        rs_kinds = [TABLE_SNAPSHOT, TABLE_ROW_GROUP, STRUCTURED_FILE], rs_default = False\<rparr>),
     (''training_reducer'', \<lparr>rs_name = ''training_reducer'', rs_contract = SEMANTIC, rs_flag = ''allow_training_reducer'',
        rs_verifier = ''dataset_lineage'', rs_action = ''training_dataset_dedupe'', rs_benchmark = ''advanced-local-v1'',
        rs_rollback = ''reconstruct original sample order from duplicate map'',
        rs_kinds = [TRAINING_DATASET, FINE_TUNE_JOB], rs_default = False\<rparr>),
     (''checkpoint_delta'', \<lparr>rs_name = ''checkpoint_delta'', rs_contract = EXACT_BYTES, rs_flag = ''allow_checkpoint_delta'',
        rs_verifier = ''sha256_restore'', rs_action = ''checkpoint_delta_store'', rs_benchmark = ''advanced-local-v1'',
        rs_rollback = ''materialize full checkpoint bytes from base plus delta blocks'',
        rs_kinds = [MODEL_CHECKPOINT, BACKUP_SNAPSHOT], rs_default = False\<rparr>),
     (''distillation'', \<lparr>rs_name = ''distillation'', rs_contract = SEMANTIC, rs_flag = ''allow_distillation'',
        rs_verifier = ''eval_regression_gate'', rs_action = ''distillation_dataset_build'', rs_benchmark = ''advanced-local-v1'',
        rs_rollback = ''route traffic to original model and discard distilled artifact'',
        rs_kinds = [PROMPT_REQUEST, EVALUATION_JOB, SYNTHETIC_DATA_JOB], rs_default = False\<rparr>)]"

subsection \<open>The gate\<close>

definition reducer_contract :: "work_unit \<Rightarrow> contract" where
  "reducer_contract wu = (case wu_requested_contract wu of Some c \<Rightarrow> c
     | None \<Rightarrow> if wu_kind wu \<in> {PROMPT_REQUEST, COMPLETION_RESPONSE, TRAINING_DATASET} then SEMANTIC else EXACT_BYTES)"

definition reducer_decision_of :: "reducer_spec \<Rightarrow> bool \<Rightarrow> string \<Rightarrow> pydict \<Rightarrow> reducer_decision" where
  "reducer_decision_of s enabled reason details = \<lparr>rd_name = rs_name s, rd_enabled = enabled, rd_reason = reason,
     rd_details = details, rd_action = rs_action s, rd_verifier = rs_verifier s, rd_benchmark = rs_benchmark s,
     rd_rollback = rs_rollback s\<rparr>"

definition verification_map :: "verification_result list option \<Rightarrow> (string \<times> verification_result) list" where
  "verification_map results = (case results of None \<Rightarrow> []
     | Some vs \<Rightarrow> foldl (\<lambda>m v. dset (before_at (vr_verifier_id v)) v m) [] vs)"

definition policy_gate :: "work_unit \<Rightarrow> reducer_spec \<Rightarrow> verification_result list option \<Rightarrow> reducer_decision" where
  "policy_gate wu s results =
     (let base = [(''policy_flag'', PStr (rs_flag s)), (''eligible_kinds'', PList (map (PStr \<circ> kind_value) (rs_kinds s))),
                  (''enabled_by_default'', PBool (rs_default s))];
          required = [(''required_verifier'', PStr (rs_verifier s))]
      in if wu_kind wu \<notin> set (rs_kinds s)
           then reducer_decision_of s False ''kind_not_eligible'' (base @ [(''actual_kind'', PStr (kind_value (wu_kind wu)))])
         else if reducer_contract wu \<noteq> rs_contract s
           then reducer_decision_of s False ''contract_not_eligible'' (base @ [(''required_contract'', PStr (contract_value (rs_contract s))),
             (''actual_contract'', PStr (contract_value (reducer_contract wu)))])
         else if get_value (wu_policy_context wu) (rs_flag s) \<noteq> PBool True
           then reducer_decision_of s False ''policy_flag_required'' (base @ [(''required_flag'', PStr (rs_flag s))])
         else (case dget (verification_map results) (rs_verifier s) of
             None \<Rightarrow> reducer_decision_of s False ''accepted_verification_required'' (base @ required)
           | Some v \<Rightarrow> if \<not> vr_accepted v
               then reducer_decision_of s False ''verifier_failed'' (base @ required @ [(''verification'', PDict (verification_to_dict v))])
               else reducer_decision_of s True ''policy_and_verifier_accepted''
                 (base @ [(''verification'', PDict (verification_to_dict v)), (''rollback_required'', PBool True)])))"

definition evaluate_reducer :: "work_unit \<Rightarrow> string \<Rightarrow> verification_result list option \<Rightarrow> reducer_decision res" where
  "evaluate_reducer wu nm results = (case dget advanced_reducer_specs nm of None \<Rightarrow> Inl (KeyError nm)
     | Some s \<Rightarrow> Inr (policy_gate wu s results))"

definition evaluate_advanced_reducers :: "work_unit \<Rightarrow> string list option \<Rightarrow> verification_result list option \<Rightarrow> reducer_decision list res" where
  "evaluate_advanced_reducers wu names results =
     seq_res (map (\<lambda>nm. evaluate_reducer wu nm results) (case names of Some ns \<Rightarrow> ns | None \<Rightarrow> sort (map fst advanced_reducer_specs)))"

definition missing_parts :: "reducer_spec \<Rightarrow> string list" where
  "missing_parts s = (if rs_default s then [''must_be_disabled_by_default''] else []) @
     map fst (filter (\<lambda>(k, v). v = []) [(''policy_flag'', rs_flag s), (''required_verifier'', rs_verifier s),
       (''benchmark_suite'', rs_benchmark s), (''rollback'', rs_rollback s), (''action'', rs_action s)])"

definition reducer_conformance :: "(string \<times> pydict) list" where
  "reducer_conformance = map (\<lambda>(nm, s). (nm, [(''passed'', PBool (missing_parts s = [])),
     (''missing'', PList (map PStr (missing_parts s))), (''spec'', PDict (spec_to_dict s))])) advanced_reducer_specs"

subsection \<open>What the gate admits\<close>

definition last_verdict :: "verification_result list \<Rightarrow> string \<Rightarrow> verification_result option" where
  "last_verdict vs v = find (\<lambda>r. before_at (vr_verifier_id r) = v) (rev vs)"

lemma last_verdict_snoc: "last_verdict (vs @ [r]) v = (if before_at (vr_verifier_id r) = v then Some r else last_verdict vs v)"
  by (simp add: last_verdict_def)

lemma verification_map_last: "dget (verification_map (Some vs)) v = last_verdict vs v"
proof (induction vs rule: rev_induct)
  case Nil
  then show ?case by (simp add: verification_map_def last_verdict_def)
next
  case (snoc r vs)
  then show ?case by (auto simp: verification_map_def last_verdict_snoc)
qed

lemma gate_enabled: "rd_enabled (policy_gate wu s results) \<longleftrightarrow> wu_kind wu \<in> set (rs_kinds s) \<and> reducer_contract wu = rs_contract s
    \<and> get_value (wu_policy_context wu) (rs_flag s) = PBool True
    \<and> (\<exists>vs v. results = Some vs \<and> last_verdict vs (rs_verifier s) = Some v \<and> vr_accepted v)"
proof (cases results)
  case None
  then show ?thesis by (simp add: policy_gate_def Let_def reducer_decision_of_def verification_map_def)
next
  case (Some vs)
  then show ?thesis
    by (auto simp: policy_gate_def Let_def reducer_decision_of_def verification_map_last split: option.splits)
qed

lemma specs_contracts:
  "list_all (\<lambda>(nm, s). rs_name s = nm \<and> \<not> rs_default s \<and> missing_parts s = [] \<and> (rs_contract s = EXACT_BYTES \<longrightarrow> nm = ''checkpoint_delta''))
     advanced_reducer_specs"
  by code_simp

lemma spec_named:
  assumes "dget advanced_reducer_specs nm = Some s"
  shows "rs_name s = nm \<and> (rs_contract s = EXACT_BYTES \<longrightarrow> nm = ''checkpoint_delta'')"
proof -
  have "(nm, s) \<in> set advanced_reducer_specs" using assms by (simp add: dget_def map_of_SomeD)
  then show ?thesis using specs_contracts by (auto simp: list_all_iff)
qed

text \<open>
  No optional reducer runs on its own: one is enabled exactly when the work unit is
  of an eligible kind under exactly the contract of the reducer, the request sets the flag of the
  reducer to true, and the last result of its verifier accepted; without results none is, and
  a work unit that must keep its bytes only ever gets the checkpoint delta reducer.
\<close>

theorem reducers_gated:
  assumes "evaluate_reducer wu nm results = Inr d"
  shows "\<exists>s. dget advanced_reducer_specs nm = Some s \<and> rd_name d = nm
    \<and> (rd_enabled d \<longleftrightarrow> wu_kind wu \<in> set (rs_kinds s) \<and> reducer_contract wu = rs_contract s
        \<and> get_value (wu_policy_context wu) (rs_flag s) = PBool True
        \<and> (\<exists>vs v. results = Some vs \<and> last_verdict vs (rs_verifier s) = Some v \<and> vr_accepted v))
    \<and> (rd_enabled d \<and> reducer_contract wu = EXACT_BYTES \<longrightarrow> nm = ''checkpoint_delta'')"
proof -
  obtain s where s: "dget advanced_reducer_specs nm = Some s" "d = policy_gate wu s results"
    using assms by (auto simp: evaluate_reducer_def split: option.splits)
  have "rd_name d = rs_name s"
    by (auto simp: s(2) policy_gate_def Let_def reducer_decision_of_def split: option.splits)
  then show ?thesis
    using s spec_named [OF s(1)] gate_enabled [of wu s results] by auto
qed

theorem reducers_gated_witness:
  "\<exists>wu d. evaluate_reducer wu ''checkpoint_delta'' (Some [verdict True ''sha256_restore@0'' ''match'' []]) = Inr d \<and> rd_enabled d"
proof -
  define wu :: work_unit where "wu = \<lparr>wu_kind = MODEL_CHECKPOINT, wu_tenant = ''acme'', wu_logical_ref = ''ref'', wu_payload = PNone,
    wu_requested_contract = None, wu_namespace = ''n'', wu_metadata = [], wu_policy_context = [(''allow_checkpoint_delta'', PBool True)],
    wu_trace_id = ''tr_1'', wu_id = ''wu_1'', wu_created_at = ''now'', wu_payload_ref = PNone, wu_effective_contract = None,
    wu_deadline = None, wu_latency_budget_ms = None, wu_quality_target = []\<rparr>"
  let ?vs = "[verdict True ''sha256_restore@0'' ''match'' []]"
  define d where "d = policy_gate wu (the (dget advanced_reducer_specs ''checkpoint_delta'')) (Some ?vs)"
  have run: "evaluate_reducer wu ''checkpoint_delta'' (Some ?vs) = Inr d"
    by (simp add: evaluate_reducer_def advanced_reducer_specs_def d_def)
  have "last_verdict ?vs ''sha256_restore'' = Some (verdict True ''sha256_restore@0'' ''match'' [])"
    by (simp add: last_verdict_def verdict_def before_at_def)
  then have "rd_enabled d"
    using reducers_gated [OF run] by (auto simp: advanced_reducer_specs_def wu_def reducer_contract_def get_value_def verdict_def)
  then show ?thesis using run by blast
qed

end
