(* ===== verification/Context.thy ===== *)
theory Context
  imports PyText
begin

text \<open>
  \<open>python/urp/context.py\<close>: the context compiler, which leaves out repeated and over-budget
  instruction messages of a chat request.
\<close>

subsection \<open>Chunks and their budget\<close>

record context_chunk =
  cc_text :: string
  cc_source :: string
  cc_metadata :: pydict

definition context_fingerprint :: "context_chunk \<Rightarrow> string" where
  "context_fingerprint c = stable_json_hash (PDict [(''text'', PStr (squeeze (cc_text c))), (''role'', get_value (cc_metadata c) ''role'')])"

record compiled_context =
  cx_chunks :: "context_chunk list"
  cx_before :: nat
  cx_after :: nat
  cx_removed :: "string list"

definition compiled_text :: "compiled_context \<Rightarrow> string" where
  "compiled_text c = join [CHR 0x0A, CHR 0x0A] (map cc_text (cx_chunks c))"

definition compiled_to_dict :: "compiled_context \<Rightarrow> pydict" where
  "compiled_to_dict c = [(''tokens_before'', PInt (int (cx_before c))), (''tokens_after'', PInt (int (cx_after c))),
     (''removed_fingerprints'', PList (map PStr (cx_removed c))), (''source_ids'', PList (map (PStr \<circ> cc_source) (cx_chunks c)))]"

definition approximate_tokens :: "string \<Rightarrow> nat" where
  "approximate_tokens s = (if s = [] then 0 else max 1 ((length s + 3) div 4))"

text \<open>The loop, its accumulators in the order the code has them.\<close>

fun compile_loop :: "int \<Rightarrow> string list \<Rightarrow> context_chunk list \<Rightarrow> string list \<Rightarrow> nat \<Rightarrow> nat \<Rightarrow> context_chunk list \<Rightarrow> compiled_context" where
  "compile_loop m seen kept removed before after [] =
     \<lparr>cx_chunks = kept, cx_before = before, cx_after = after, cx_removed = removed\<rparr>"
| "compile_loop m seen kept removed before after (c # cs) =
     (let n = approximate_tokens (cc_text c); fp = context_fingerprint c in
      if fp \<in> set seen then compile_loop m seen kept (removed @ [fp]) (before + n) after cs
      else if m < int (after + n) then compile_loop m seen kept (removed @ [fp]) (before + n) after cs
      else compile_loop m (fp # seen) (kept @ [c]) removed (before + n) (after + n) cs)"

definition compile_context :: "context_chunk list \<Rightarrow> int \<Rightarrow> compiled_context" where
  "compile_context cs m = compile_loop m [] [] [] 0 0 cs"

subsection \<open>Messages\<close>

definition is_instruction :: "pydict \<Rightarrow> bool" where
  "is_instruction message = (get_value message ''role'' \<in> {PStr ''system'', PStr ''developer'', PStr ''tool''})"

definition message_source :: "nat \<Rightarrow> string" where
  "message_source k = ''message:'' @ show_nat k"

definition message_chunk :: "nat \<Rightarrow> pydict \<Rightarrow> context_chunk" where
  "message_chunk k message = \<lparr>cc_text = py_str (get_default message ''content'' (PStr [])), cc_source = message_source k,
     cc_metadata = [(''role'', get_value message ''role'')]\<rparr>"

definition context_chunks_from_openai_messages :: "pydict list \<Rightarrow> context_chunk list" where
  "context_chunks_from_openai_messages ms =
     map (\<lambda>(k, m). message_chunk k m) (filter (\<lambda>(k, m). is_instruction m) (zip [0..<length ms] ms))"

definition compile_openai_messages :: "pydict list \<Rightarrow> int \<Rightarrow> compiled_context \<times> pydict list" where
  "compile_openai_messages ms m =
     (let c = compile_context (context_chunks_from_openai_messages ms) m;
          kept = map cc_source (cx_chunks c)
      in (c, map snd (filter (\<lambda>(k, message). \<not> (is_instruction message \<and> message_source k \<notin> set kept)) (zip [0..<length ms] ms))))"

subsection \<open>What is kept\<close>

definition tokens :: "context_chunk list \<Rightarrow> nat" where
  "tokens cs = sum_list (map (\<lambda>c. approximate_tokens (cc_text c)) cs)"

text \<open>\<open>justified m cs c\<close>: leaving out \<open>c\<close> was due to a repetition or to the budget.\<close>

definition justified :: "int \<Rightarrow> context_chunk list \<Rightarrow> context_chunk \<Rightarrow> bool" where
  "justified m kept c = (context_fingerprint c \<in> context_fingerprint ` set kept
     \<or> m < int (tokens kept + approximate_tokens (cc_text c)))"

definition compiles :: "int \<Rightarrow> context_chunk list \<Rightarrow> context_chunk list \<Rightarrow> string list \<Rightarrow> nat \<Rightarrow> nat \<Rightarrow> bool" where
  "compiles m past kept removed before after =
     (subseq kept past \<and> distinct (map context_fingerprint kept) \<and> before = tokens past \<and> after = tokens kept
      \<and> (kept \<noteq> [] \<longrightarrow> int after \<le> m) \<and> length kept + length removed = length past
      \<and> (\<forall>c \<in> set past. c \<in> set kept \<or> justified m kept c))"

lemma justified_mono: "justified m kept c \<Longrightarrow> justified m (kept @ [d]) c"
  by (auto simp: justified_def tokens_def)

lemma compile_loop_compiles:
  assumes "compiles m past kept removed before after" "set seen = context_fingerprint ` set kept"
    and "compile_loop m seen kept removed before after cs = r"
  shows "compiles m (past @ cs) (cx_chunks r) (cx_removed r) (cx_before r) (cx_after r)"
  using assms
proof (induction cs arbitrary: past seen kept removed before after)
  case Nil
  then show ?case by auto
next
  case (Cons c cs)
  let ?n = "approximate_tokens (cc_text c)" let ?fp = "context_fingerprint c"
  have inv: "subseq kept past" "distinct (map context_fingerprint kept)" "before = tokens past" "after = tokens kept"
      "kept \<noteq> [] \<longrightarrow> int after \<le> m" "length kept + length removed = length past"
      "\<forall>c \<in> set past. c \<in> set kept \<or> justified m kept c"
    using Cons.prems(1) unfolding compiles_def by blast+
  show ?case
  proof (cases "?fp \<in> set seen \<or> m < int (after + ?n)")
    case True
    then have "justified m kept c" using Cons.prems(2) inv(4) by (auto simp: justified_def)
    then have "compiles m (past @ [c]) kept (removed @ [?fp]) (before + ?n) after"
      using inv by (auto simp: compiles_def tokens_def)
    moreover have "compile_loop m seen kept (removed @ [?fp]) (before + ?n) after cs = r"
      using True Cons.prems(3) by (auto simp: Let_def split: if_splits)
    ultimately show ?thesis
      using Cons.IH [of "past @ [c]" kept "removed @ [?fp]" "before + ?n" after seen] Cons.prems(2) by simp
  next
    case False
    have "compiles m (past @ [c]) (kept @ [c]) removed (before + ?n) (after + ?n)"
      using inv False Cons.prems(2) by (auto simp: compiles_def tokens_def list_emb_append_mono justified_mono)
    moreover have "compile_loop m (?fp # seen) (kept @ [c]) removed (before + ?n) (after + ?n) cs = r"
      using False Cons.prems(3) by (auto simp: Let_def)
    moreover have "set (?fp # seen) = context_fingerprint ` set (kept @ [c])"
      using Cons.prems(2) by auto
    ultimately show ?thesis
      using Cons.IH [of "past @ [c]" "kept @ [c]" removed "before + ?n" "after + ?n" "?fp # seen"] by simp
  qed
qed

lemma compile_context_compiles:
  "let r = compile_context cs m in compiles m cs (cx_chunks r) (cx_removed r) (cx_before r) (cx_after r)"
proof -
  have "compiles m [] [] [] 0 0" by (simp add: compiles_def tokens_def)
  from compile_loop_compiles [OF this _ refl, of "[]" cs] show ?thesis
    by (simp add: compile_context_def Let_def)
qed

text \<open>The messages that stay are those whose chunk was kept: sources name positions uniquely.\<close>

lemma chunk_of_message:
  "c \<in> set (context_chunks_from_openai_messages ms)
    \<longleftrightarrow> (\<exists>k < length ms. is_instruction (ms ! k) \<and> c = message_chunk k (ms ! k))"
  by (force simp: context_chunks_from_openai_messages_def set_zip)

lemma subseq_set: "subseq xs ys \<Longrightarrow> set xs \<subseteq> set ys"
  by (induction rule: list_emb.induct) auto

lemma source_kept:
  assumes "subseq ks (context_chunks_from_openai_messages ms)" "k < length ms"
  shows "message_source k \<in> set (map cc_source ks) \<longleftrightarrow> message_chunk k (ms ! k) \<in> set ks"
proof
  assume "message_source k \<in> set (map cc_source ks)"
  then obtain c where c: "c \<in> set ks" "cc_source c = message_source k" by auto
  then have "c \<in> set (context_chunks_from_openai_messages ms)"
    using subseq_set [OF assms(1)] by blast
  then show "message_chunk k (ms ! k) \<in> set ks"
    using c by (auto simp: chunk_of_message message_chunk_def message_source_def)
qed (force simp: message_chunk_def)

lemma tokens_subseq: "subseq ks cs \<Longrightarrow> tokens ks \<le> tokens cs"
  by (induction rule: list_emb.induct) (auto simp: tokens_def)

lemma filter_numbered:
  "filter Q (map snd (filter (\<lambda>(k, x). P k x) (zip [n..<n + length xs] xs))) =
     map snd (filter (\<lambda>(k, x). Q x \<and> P k x) (zip [n..<n + length xs] xs))"
  "subseq (map snd (filter (\<lambda>(k, x). P k x) (zip [n..<n + length xs] xs))) xs"
  "map snd (filter (\<lambda>(k, x). Q x) (zip [n..<n + length xs] xs)) = filter Q xs"
proof -
  show "filter Q (map snd (filter (\<lambda>(k, x). P k x) (zip [n..<n + length xs] xs))) =
      map snd (filter (\<lambda>(k, x). Q x \<and> P k x) (zip [n..<n + length xs] xs))"
    by (simp add: filter_map comp_def split_def conj_commute)
  have "subseq (map snd (filter (\<lambda>(k, x). P k x) (zip [n..<n + length xs] xs))) (map snd (zip [n..<n + length xs] xs))"
    by (intro subseq_map subseq_filter_left)
  then show "subseq (map snd (filter (\<lambda>(k, x). P k x) (zip [n..<n + length xs] xs))) xs"
    by simp
  show "map snd (filter (\<lambda>(k, x). Q x) (zip [n..<n + length xs] xs)) = filter Q xs"
    using filter_map [of Q snd "zip [n..<n + length xs] xs"] by (simp add: comp_def split_def)
qed

lemma compiled_messages:
  assumes "compile_openai_messages ms m = (c, out)"
  shows "out = map snd (filter (\<lambda>(k, message). is_instruction message \<longrightarrow> message_chunk k message \<in> set (cx_chunks c))
           (zip [0..<0 + length ms] ms))"
    and "compiles m (context_chunks_from_openai_messages ms) (cx_chunks c) (cx_removed c) (cx_before c) (cx_after c)"
proof -
  have c: "c = compile_context (context_chunks_from_openai_messages ms) m"
    using assms by (auto simp: compile_openai_messages_def Let_def)
  then show inv: "compiles m (context_chunks_from_openai_messages ms) (cx_chunks c) (cx_removed c) (cx_before c) (cx_after c)"
    using compile_context_compiles [of "context_chunks_from_openai_messages ms" m] by (simp add: Let_def)
  then have sub: "subseq (cx_chunks c) (context_chunks_from_openai_messages ms)" by (simp add: compiles_def)
  show "out = map snd (filter (\<lambda>(k, message). is_instruction message \<longrightarrow> message_chunk k message \<in> set (cx_chunks c))
           (zip [0..<0 + length ms] ms))"
  proof -
    let ?z = "zip [0..<length ms] ms"
    have same: "(\<not> (is_instruction x \<and> message_source k \<notin> set (map cc_source (cx_chunks c))))
        = (is_instruction x \<longrightarrow> message_chunk k x \<in> set (cx_chunks c))" if "(k, x) \<in> set ?z" for k x
      using source_kept [OF sub, of k] that by (auto simp only: set_zip) simp_all
    have "out = map snd (filter (\<lambda>(k, x). \<not> (is_instruction x \<and> message_source k \<notin> set (map cc_source (cx_chunks c)))) ?z)"
      using assms by (simp add: compile_openai_messages_def Let_def c)
    also have "\<dots> = map snd (filter (\<lambda>(k, x). is_instruction x \<longrightarrow> message_chunk k x \<in> set (cx_chunks c)) ?z)"
      by (intro arg_cong [where f = "map snd"] filter_cong refl) (use same in \<open>simp only: split_paired_all prod.case\<close>)
    finally show ?thesis by simp
  qed
qed

text \<open>
  C34 (bounds). Compiling the messages of a request leaves every user and assistant message in
  its place; of the instruction messages it keeps a subsequence without repetition that fits the
  budget, and each one it leaves out repeats a kept one or would have exceeded the budget. The
  token counts are those of the instruction messages before and after.
\<close>

theorem context_budget:
  assumes "compile_openai_messages ms m = (c, out)"
  shows "subseq out ms
    \<and> filter (\<lambda>x. \<not> is_instruction x) out = filter (\<lambda>x. \<not> is_instruction x) ms
    \<and> out = map snd (filter (\<lambda>(k, x). is_instruction x \<longrightarrow> message_chunk k x \<in> set (cx_chunks c)) (zip [0..<length ms] ms))
    \<and> distinct (map context_fingerprint (cx_chunks c))
    \<and> cx_before c = tokens (context_chunks_from_openai_messages ms) \<and> cx_after c = tokens (cx_chunks c)
    \<and> cx_after c \<le> cx_before c \<and> (0 \<le> m \<longrightarrow> int (cx_after c) \<le> m)
    \<and> (\<forall>k < length ms. is_instruction (ms ! k) \<and> message_chunk k (ms ! k) \<notin> set (cx_chunks c)
        \<longrightarrow> justified m (cx_chunks c) (message_chunk k (ms ! k)))"
proof -
  note out = compiled_messages(1) [OF assms]
  have inv: "subseq (cx_chunks c) (context_chunks_from_openai_messages ms)" "distinct (map context_fingerprint (cx_chunks c))"
      "cx_before c = tokens (context_chunks_from_openai_messages ms)" "cx_after c = tokens (cx_chunks c)"
      "cx_chunks c \<noteq> [] \<longrightarrow> int (cx_after c) \<le> m"
      "\<forall>x \<in> set (context_chunks_from_openai_messages ms). x \<in> set (cx_chunks c) \<or> justified m (cx_chunks c) x"
    using compiled_messages(2) [OF assms] unfolding compiles_def by blast+
  have "subseq out ms" unfolding out by (rule filter_numbered(2))
  moreover have "filter (\<lambda>x. \<not> is_instruction x) out = filter (\<lambda>x. \<not> is_instruction x) ms"
  proof -
    have "filter (\<lambda>x. \<not> is_instruction x) out
        = map snd (filter (\<lambda>(k, x). \<not> is_instruction x) (zip [0..<0 + length ms] ms))"
      unfolding out filter_numbered(1) by (intro arg_cong [where f = "map snd"] filter_cong) auto
    then show ?thesis by (simp only: filter_numbered(3))
  qed
  moreover have "0 \<le> m \<longrightarrow> int (cx_after c) \<le> m"
    using inv(4,5) by (cases "cx_chunks c = []") (auto simp: tokens_def)
  moreover have "cx_after c \<le> cx_before c"
    using inv(3,4) tokens_subseq [OF inv(1)] by simp
  moreover have "\<forall>k < length ms. is_instruction (ms ! k) \<and> message_chunk k (ms ! k) \<notin> set (cx_chunks c)
        \<longrightarrow> justified m (cx_chunks c) (message_chunk k (ms ! k))"
    using inv(6) chunk_of_message [of _ ms] by blast
  ultimately show ?thesis
    using inv(2-4) out by simp
qed

theorem context_budget_witness:
  "\<exists>c out. compile_openai_messages [[(''role'', PStr ''system''), (''content'', PStr ''be kind'')],
     [(''role'', PStr ''user''), (''content'', PStr ''hi'')]] 1 = (c, out) \<and> cx_before c = 2 \<and> cx_after c \<le> 1
     \<and> filter (\<lambda>x. \<not> is_instruction x) out = [[(''role'', PStr ''user''), (''content'', PStr ''hi'')]]"
proof -
  define ms where "ms = [[(''role'', PStr ''system''), (''content'', PStr ''be kind'')], [(''role'', PStr ''user''), (''content'', PStr ''hi'')]]"
  obtain c out where run: "compile_openai_messages ms 1 = (c, out)" by fastforce
  have "tokens (context_chunks_from_openai_messages ms) = 2"
    by (simp add: ms_def context_chunks_from_openai_messages_def is_instruction_def get_value_def get_default_def message_chunk_def
        tokens_def approximate_tokens_def upt_rec)
  then have "cx_before c = 2 \<and> cx_after c \<le> 1 \<and> filter (\<lambda>x. \<not> is_instruction x) out = filter (\<lambda>x. \<not> is_instruction x) ms"
    using context_budget [OF run] by (elim conjE, intro conjI) (assumption | simp only: zero_le_one simp_thms | linarith)+
  moreover have "filter (\<lambda>x. \<not> is_instruction x) ms = [[(''role'', PStr ''user''), (''content'', PStr ''hi'')]]"
    by (simp add: ms_def is_instruction_def get_value_def)
  ultimately have facts: "cx_before c = 2 \<and> cx_after c \<le> 1
      \<and> filter (\<lambda>x. \<not> is_instruction x) out = [[(''role'', PStr ''user''), (''content'', PStr ''hi'')]]" by (simp only:)
  show ?thesis
    unfolding ms_def [symmetric] by (rule exI, rule exI, rule conjI [OF run facts])
qed

text \<open>An instruction that does not fit is dropped without a trace in the request.\<close>

lemma safety_instruction_dropped:
  "snd (compile_openai_messages [[(''role'', PStr ''system''), (''content'', PStr ''Never give medical advice.'')],
     [(''role'', PStr ''user''), (''content'', PStr ''hi'')]] 6) = [[(''role'', PStr ''user''), (''content'', PStr ''hi'')]]"
proof -
  have "approximate_tokens ''Never give medical advice.'' = 7" by code_simp
  then show ?thesis
    by (simp add: compile_openai_messages_def context_chunks_from_openai_messages_def compile_context_def is_instruction_def
        get_value_def get_default_def message_chunk_def Let_def upt_rec)
qed

end
