(* ===== verification/Router.thy ===== *)
theory Router
  imports Observability Complex_Main
begin

text \<open>
  \<open>python/urp/ai_router.py\<close>: which model serves a request, and the record of how the routes did.
  A score or latency is a float given by its decimal text; the sums and quotients of the summary
  are exact reals.
\<close>

subsection \<open>Routing\<close>

record model_route =
  mr_model :: string
  mr_reason :: string
  mr_fallback :: string
  mr_score :: pyval

definition high_risk_phrases :: "string list" where
  "high_risk_phrases = [''legal'', ''medical'', ''diagnosis'', ''medication'', ''financial advice'', ''investment advice'',
     ''safety critical'', ''self-harm'', ''emergency'']"

definition easy_words :: "string list" where
  "easy_words = [''classify'', ''label'', ''extract'']"

definition default_models :: "string list" where
  "default_models = [''tiny'', ''small'', ''medium'', ''frontier'']"

definition pick :: "string \<Rightarrow> string \<Rightarrow> string list \<Rightarrow> string" where
  "pick m other models = (if m \<in> set models then m else other)"

definition route_model :: "work_unit \<Rightarrow> string list option \<Rightarrow> string option \<Rightarrow> model_route" where
  "route_model wu allowed_models prompt =
     (let models = (case allowed_models of None \<Rightarrow> default_models | Some [] \<Rightarrow> default_models | Some ms \<Rightarrow> ms);
          txt = casefold (case prompt of Some t \<Rightarrow> t
                  | None \<Rightarrow> if truthy (wu_payload wu) then py_str (wu_payload wu) else [])
      in if list_ex (\<lambda>p. contains p txt) high_risk_phrases
           then \<lparr>mr_model = pick ''frontier'' (last models) models, mr_reason = ''high_risk_task_uses_strongest_allowed'',
                 mr_fallback = ''frontier'', mr_score = PFloat 95 2\<rparr>
         else if list_ex (\<lambda>w. contains w txt) easy_words
           then \<lparr>mr_model = pick ''small'' (hd models) models, mr_reason = ''structured_easy_task'',
                 mr_fallback = ''frontier'', mr_score = PFloat 75 2\<rparr>
         else \<lparr>mr_model = pick ''medium'' (last models) models, mr_reason = ''general_task_default'',
                mr_fallback = ''frontier'', mr_score = PFloat 6 1\<rparr>)"

subsection \<open>Route feedback\<close>

definition feedback_row :: "string \<Rightarrow> work_unit \<Rightarrow> model_route \<Rightarrow> bool \<Rightarrow> pyval \<Rightarrow> pydict" where
  "feedback_row now wu r passed latency = [(''created_at'', PStr now), (''work_unit_id'', PStr (wu_id wu)),
     (''tenant'', PStr (wu_tenant wu)), (''namespace'', PStr (wu_namespace wu)), (''model'', PStr (mr_model r)),
     (''reason'', PStr (mr_reason r)), (''score'', mr_score r), (''verifier_passed'', PBool passed), (''latency_ms'', latency)]"

definition feedback_record :: "string \<Rightarrow> work_unit \<Rightarrow> model_route \<Rightarrow> bool \<Rightarrow> pyval \<Rightarrow> (pydict, pydict list) sres" where
  "feedback_record now wu r passed latency =
     (\<lambda>rows. (Inr (feedback_row now wu r passed latency), rows @ [jfile_dict (feedback_row now wu r passed latency)]))"

record route_stats =
  rt_count :: nat
  rt_passed :: nat
  rt_latency :: real

definition float_of :: "pyval \<Rightarrow> real res" where
  "float_of v = (case py_num v of Some (m, e) \<Rightarrow> Inr (of_int m / 10 ^ e) | None \<Rightarrow> Inl (TypeError ''float() argument must be a number''))"

fun summary_loop :: "string option \<Rightarrow> (string \<times> route_stats) list \<Rightarrow> pydict list \<Rightarrow> (string \<times> route_stats) list res" where
  "summary_loop tn stats [] = Inr stats"
| "summary_loop tn stats (row # rows) =
     (if (case given tn of None \<Rightarrow> False | Some t \<Rightarrow> get_value row ''tenant'' \<noteq> PStr t) then summary_loop tn stats rows
      else bindR (item row ''model'') (\<lambda>m.
        (let s = (case dget stats (py_str m) of None \<Rightarrow> \<lparr>rt_count = 0, rt_passed = 0, rt_latency = 0\<rparr> | Some s \<Rightarrow> s);
             latency = get_value row ''latency_ms''
         in bindR (if truthy latency then float_of latency else Inr 0) (\<lambda>l.
           summary_loop tn (dset (py_str m) \<lparr>rt_count = rt_count s + 1,
             rt_passed = rt_passed s + (if truthy (get_value row ''verifier_passed'') then 1 else 0), rt_latency = rt_latency s + l\<rparr> stats) rows))))"

record route_summary =
  ru_count :: nat
  ru_passed :: nat
  ru_latency :: real
  ru_pass_rate :: real

definition feedback_summary :: "ctx \<Rightarrow> string option \<Rightarrow> pydict list \<Rightarrow> (string \<times> route_summary) list res" where
  "feedback_summary c tn rows =
     map_res (map (\<lambda>(m, s). (m, \<lparr>ru_count = rt_count s, ru_passed = rt_passed s,
         ru_latency = rt_latency s / of_nat (rt_count s), ru_pass_rate = of_nat (rt_passed s) / of_nat (rt_count s)\<rparr>)))
       (summary_loop (if given tn = None then current_tenant c else tn) [] rows)"

subsection \<open>Routes stay within the allowlist\<close>

lemma pick_in: "other \<in> set models \<Longrightarrow> pick m other models \<in> set models"
  by (simp add: pick_def)

definition models_of :: "string list option \<Rightarrow> string list" where
  "models_of allow = (if allow = None \<or> allow = Some [] then default_models else the allow)"

text \<open>
  The routed model is always one of the allowed models (of the built-in four when
  the policy names none), and text that mentions a high-risk subject, in any case, goes to the
  frontier model whenever that is allowed.
\<close>

theorem routes_allowed:
  "mr_model (route_model wu allow prompt) \<in> set (models_of allow)
   \<and> ((\<exists>p \<in> set high_risk_phrases. contains p (casefold t)) \<and> ''frontier'' \<in> set (models_of allow)
        \<longrightarrow> mr_model (route_model wu allow (Some t)) = ''frontier'')"
proof
  have models: "(case allow of None \<Rightarrow> default_models | Some [] \<Rightarrow> default_models | Some ms \<Rightarrow> ms) = models_of allow"
    by (auto simp: models_of_def split: option.splits list.splits)
  have ne: "models_of allow \<noteq> []"
    by (auto simp: models_of_def default_models_def)
  show "mr_model (route_model wu allow prompt) \<in> set (models_of allow)"
    unfolding route_model_def models Let_def by (auto intro!: pick_in simp: ne)
  show "(\<exists>p \<in> set high_risk_phrases. contains p (casefold t)) \<and> ''frontier'' \<in> set (models_of allow)
        \<longrightarrow> mr_model (route_model wu allow (Some t)) = ''frontier''"
    unfolding route_model_def models Let_def list_ex_iff by (auto simp: pick_def)
qed

theorem routes_allowed_witness:
  "mr_model (route_model wu (Some [''small'', ''frontier'']) (Some ''Is this LEGAL?'')) = ''frontier''"
proof -
  have "contains ''legal'' (casefold ''Is this LEGAL?'')" by code_simp
  moreover have "''legal'' \<in> set high_risk_phrases" by (simp add: high_risk_phrases_def)
  moreover have "''frontier'' \<in> set (models_of (Some [''small'', ''frontier'']))" by (simp add: models_of_def)
  ultimately show ?thesis
    using routes_allowed [of wu "Some [''small'', ''frontier'']" None "''Is this LEGAL?''"] by blast
qed

text \<open>The summary counts, for each model, the rows of the tenant.\<close>

definition counted :: "string option \<Rightarrow> string \<Rightarrow> pydict \<Rightarrow> bool" where
  "counted tn m row = ((\<forall>t. given tn = Some t \<longrightarrow> get_value row ''tenant'' = PStr t) \<and> (\<exists>v. dget row ''model'' = Some v \<and> py_str v = m))"

lemma summary_loop_counts:
  assumes "summary_loop tn stats rows = Inr out"
  shows "(case dget out m of None \<Rightarrow> 0 | Some s \<Rightarrow> rt_count s)
    = (case dget stats m of None \<Rightarrow> 0 | Some s \<Rightarrow> rt_count s) + length (filter (counted tn m) rows)"
  using assms
proof (induction rows arbitrary: stats)
  case (Cons row rows)
  show ?case
  proof (cases "\<exists>t. given tn = Some t \<and> get_value row ''tenant'' \<noteq> PStr t")
    case True
    then show ?thesis using Cons by (auto simp: counted_def)
  next
    case False
    then obtain v s' where "dget row ''model'' = Some v"
        "summary_loop tn (dset (py_str v) s' stats) rows = Inr out"
        "rt_count s' = (case dget stats (py_str v) of None \<Rightarrow> 0 | Some s \<Rightarrow> rt_count s) + 1"
      using Cons.prems by (auto simp: effect_simps item_def Let_def split: option.splits if_splits)
    then show ?thesis
      using Cons.IH [of "dset (py_str v) s' stats"] False by (auto simp: counted_def split: option.splits)
  qed
qed simp

end
