(* ===== verification/Caches.thy ===== *)
theory Caches
  imports Stores
begin

text \<open>
  \<open>python/urp/cache.py\<close>: the exact cache, in memory and on SQLite. Both keep entries under a
  key; the contract they share is the locale \<open>exact_cache\<close>. Times are real numbers, \<open>now\<close> is
  \<open>time.time()\<close> at the call. A set of source fingerprints is a list read as a set. The file
  privileges, the table and its indexes are created outside the model; the lock is the
  atomicity of an operation.
\<close>

subsection \<open>Entries\<close>

record cache_entry =
  ce_key :: string
  ce_tenant :: string
  ce_namespace :: string
  ce_value :: pyval
  ce_sources :: "string list"
  ce_verified :: bool
  ce_expires :: "real option"

definition exact_key :: "string \<Rightarrow> string \<Rightarrow> pyval \<Rightarrow> string list option \<Rightarrow> string" where
  "exact_key tenant ns payload sources = stable_json_hash (PDict [(''tenant'', PStr tenant), (''namespace'', PStr ns),
     (''payload'', encode_json_value payload),
     (''source_fingerprints'', PList (map PStr (sort (remdups (case sources of None \<Rightarrow> [] | Some xs \<Rightarrow> xs)))))])"

definition expired :: "real \<Rightarrow> cache_entry \<Rightarrow> bool" where
  "expired now e = (case ce_expires e of None \<Rightarrow> False | Some t \<Rightarrow> t \<le> now)"

definition check_entry :: "real \<Rightarrow> cache_entry \<Rightarrow> unit res" where
  "check_entry now e =
     (if \<not> ce_verified e then Inl (ValueError ''cache entries must have verifier_passed=True'')
      else if ce_tenant e = [] \<or> ce_namespace e = [] then Inl (ValueError ''cache entries require tenant and namespace'')
      else if expired now e then Inl (ValueError ''cache entry is already expired'') else Inr ())"

text \<open>What \<open>get\<close> answers for the entry found: whether it is handed out, and whether it is deleted.\<close>

definition scope_ok :: "string \<Rightarrow> string \<Rightarrow> string list option \<Rightarrow> cache_entry \<Rightarrow> bool" where
  "scope_ok t n sources e = (ce_tenant e = t \<and> ce_namespace e = n
     \<and> (case sources of None \<Rightarrow> True | Some xs \<Rightarrow> set (ce_sources e) = set xs) \<and> ce_verified e)"

subsection \<open>The cache in memory\<close>

type_synonym memory_cache = "(string \<times> cache_entry) list"

definition mem_put :: "real \<Rightarrow> cache_entry \<Rightarrow> (unit, memory_cache) sres" where
  "mem_put now e = thenS (liftR (check_entry now e)) (\<lambda>s. (Inr (), dset (ce_key e) e s))"

definition mem_delete :: "string \<Rightarrow> memory_cache \<Rightarrow> memory_cache" where
  "mem_delete k s = dpop k s"

definition mem_get :: "real \<Rightarrow> string \<Rightarrow> string \<Rightarrow> string \<Rightarrow> string list option \<Rightarrow> (pyval option, memory_cache) sres" where
  "mem_get now k t n sources = (\<lambda>s. case dget s k of
      None \<Rightarrow> (Inr None, s)
    | Some e \<Rightarrow> if \<not> scope_ok t n sources e then (Inr None, s)
        else if expired now e then (Inr None, mem_delete k s)
        else (Inr (Some (ce_value e)), s))"

definition mem_purge :: "real \<Rightarrow> (nat, memory_cache) sres" where
  "mem_purge now = (\<lambda>s. (Inr (length (filter (\<lambda>(k, e). expired now e) s)), filter (\<lambda>(k, e). \<not> expired now e) s))"

subsection \<open>The cache on SQLite\<close>

text \<open>The columns of a row; the value column holds JSON text, given by the value it parses to.\<close>

record cache_row =
  cr_tenant :: string
  cr_namespace :: string
  cr_value :: pyval
  cr_sources :: "string list"
  cr_verified :: int
  cr_expires :: "real option"
  cr_created :: real

type_synonym sql_cache = "(string \<times> cache_row) list"

definition cache_row_of :: "real \<Rightarrow> cache_entry \<Rightarrow> cache_row" where
  "cache_row_of now e = \<lparr>cr_tenant = ce_tenant e, cr_namespace = ce_namespace e,
     cr_value = jfile (encode_json_value (ce_value e)), cr_sources = sort (remdups (ce_sources e)), cr_verified = 1,
     cr_expires = ce_expires e, cr_created = now\<rparr>"

definition entry_of_row :: "string \<Rightarrow> cache_row \<Rightarrow> cache_entry res" where
  "entry_of_row k r = map_res (\<lambda>v. \<lparr>ce_key = k, ce_tenant = cr_tenant r, ce_namespace = cr_namespace r, ce_value = v,
     ce_sources = cr_sources r, ce_verified = (cr_verified r \<noteq> 0), ce_expires = cr_expires r\<rparr>) (decode_json_value (cr_value r))"

definition sqlc_put :: "real \<Rightarrow> cache_entry \<Rightarrow> (unit, sql_cache) sres" where
  "sqlc_put now e = thenS (liftR (check_entry now e)) (\<lambda>s. (Inr (), dset (ce_key e) (cache_row_of now e) s))"

definition sqlc_delete :: "string \<Rightarrow> sql_cache \<Rightarrow> sql_cache" where
  "sqlc_delete k s = filter (\<lambda>(k', r). k' \<noteq> k) s"

definition sqlc_find :: "string \<Rightarrow> sql_cache \<Rightarrow> cache_entry option res" where
  "sqlc_find k s = (case dget s k of None \<Rightarrow> Inr None | Some r \<Rightarrow> map_res Some (entry_of_row k r))"

definition sqlc_get :: "real \<Rightarrow> string \<Rightarrow> string \<Rightarrow> string \<Rightarrow> string list option \<Rightarrow> (pyval option, sql_cache) sres" where
  "sqlc_get now k t n sources = (\<lambda>s. case sqlc_find k s of
      Inl x \<Rightarrow> (Inl x, s)
    | Inr None \<Rightarrow> (Inr None, s)
    | Inr (Some e) \<Rightarrow> if \<not> scope_ok t n sources e then (Inr None, s)
        else if expired now e then (Inr None, sqlc_delete k s)
        else (Inr (Some (ce_value e)), s))"

definition row_expired :: "real \<Rightarrow> cache_row \<Rightarrow> bool" where
  "row_expired now r = (case cr_expires r of None \<Rightarrow> False | Some t \<Rightarrow> t \<le> now)"

definition sqlc_purge :: "real \<Rightarrow> (nat, sql_cache) sres" where
  "sqlc_purge now = (\<lambda>s. (Inr (length (filter (\<lambda>(k, r). row_expired now r) s)), filter (\<lambda>(k, r). \<not> row_expired now r) s))"

subsection \<open>Sequences of operations\<close>

datatype cache_op =
    CPut real cache_entry
  | CGet real string string string "string list option"
  | CDelete string
  | CPurge real

fun op_time :: "cache_op \<Rightarrow> real option" where
  "op_time (CPut now e) = Some now"
| "op_time (CGet now k t n src) = Some now"
| "op_time (CDelete k) = None"
| "op_time (CPurge now) = Some now"

definition put_entries :: "cache_op list \<Rightarrow> cache_entry set" where
  "put_entries ops = {e. \<exists>now. CPut now e \<in> set ops}"

text \<open>What the contract accepts, and the entry a key should stand for: the last one accepted that has
  not been deleted since.\<close>

definition alive :: "real \<Rightarrow> cache_entry \<Rightarrow> bool" where
  "alive now e = (\<forall>t. ce_expires e = Some t \<longrightarrow> now < t)"

definition acceptable :: "real \<Rightarrow> cache_entry \<Rightarrow> bool" where
  "acceptable now e = (ce_verified e \<and> ce_tenant e \<noteq> [] \<and> ce_namespace e \<noteq> [] \<and> alive now e)"

fun latest_step :: "string \<Rightarrow> cache_entry option \<Rightarrow> cache_op \<Rightarrow> cache_entry option" where
  "latest_step k x (CPut now e) = (if ce_key e = k \<and> acceptable now e then Some e else x)"
| "latest_step k x (CGet now k' t n src) = x"
| "latest_step k x (CDelete k') = (if k' = k then None else x)"
| "latest_step k x (CPurge now) = x"

definition latest :: "string \<Rightarrow> cache_op list \<Rightarrow> cache_entry option" where
  "latest k ops = foldl (latest_step k) None ops"

definition matches_scope :: "string \<Rightarrow> string \<Rightarrow> string list option \<Rightarrow> cache_entry \<Rightarrow> bool" where
  "matches_scope t n src e = (ce_tenant e = t \<and> ce_namespace e = n \<and> (\<forall>xs. src = Some xs \<longrightarrow> set (ce_sources e) = set xs)
     \<and> ce_verified e)"

definition answer :: "real \<Rightarrow> string \<Rightarrow> string \<Rightarrow> string list option \<Rightarrow> cache_entry option \<Rightarrow> pyval option" where
  "answer now t n src x = (case x of None \<Rightarrow> None
     | Some e \<Rightarrow> if matches_scope t n src e \<and> alive now e then Some (ce_value e) else None)"

definition drops :: "real \<Rightarrow> string \<Rightarrow> string \<Rightarrow> string list option \<Rightarrow> cache_entry option \<Rightarrow> bool" where
  "drops now t n src x = (case x of None \<Rightarrow> False | Some e \<Rightarrow> matches_scope t n src e \<and> \<not> alive now e)"

lemma expired_alive: "expired now e \<longleftrightarrow> \<not> alive now e"
  by (auto simp: expired_def alive_def split: option.splits)

lemma scope_ok_matches: "scope_ok t n src e \<longleftrightarrow> matches_scope t n src e"
  by (auto simp: scope_ok_def matches_scope_def split: option.splits)

lemma check_entry_acceptable: "check_entry now e = Inr () \<longleftrightarrow> acceptable now e"
  by (auto simp: check_entry_def acceptable_def expired_alive)

definition ended :: "cache_op list \<Rightarrow> cache_entry \<Rightarrow> bool" where
  "ended ops e = (\<exists>x \<in> set ops. \<exists>now. op_time x = Some now \<and> \<not> alive now e)"

locale exact_cache =
  fixes put :: "real \<Rightarrow> cache_entry \<Rightarrow> (unit, 's) sres"
    and get :: "real \<Rightarrow> string \<Rightarrow> string \<Rightarrow> string \<Rightarrow> string list option \<Rightarrow> (pyval option, 's) sres"
    and delete :: "string \<Rightarrow> 's \<Rightarrow> 's"
    and purge :: "real \<Rightarrow> (nat, 's) sres"
    and find :: "'s \<Rightarrow> string \<Rightarrow> cache_entry option"
    and good :: "'s \<Rightarrow> bool"
    and held :: "cache_entry \<Rightarrow> cache_entry"
    and storable :: "cache_entry \<Rightarrow> bool"
  assumes put_law: "good s \<Longrightarrow> storable e \<Longrightarrow> \<exists>s'. put now e s = (check_entry now e, s')
      \<and> good s' \<and> find s' = (if acceptable now e then (find s)(ce_key e \<mapsto> held e) else find s)"
    and get_law: "good s \<Longrightarrow> \<exists>s'. get now k t n src s = (Inr (answer now t n src (find s k)), s')
      \<and> good s' \<and> find s' = (if drops now t n src (find s k) then (find s)(k := None) else find s)"
    and delete_law: "good s \<Longrightarrow> good (delete k s) \<and> find (delete k s) = (find s)(k := None)"
    and purge_law: "good s \<Longrightarrow> \<exists>m s'. purge now s = (Inr m, s')
      \<and> good s' \<and> (\<forall>k. find s' k = (case find s k of None \<Rightarrow> None | Some e \<Rightarrow> if alive now e then Some e else None))"
    and held_law: "matches_scope t n src (held e) = matches_scope t n src e" "alive now (held e) = alive now e"
begin

fun step :: "'s \<Rightarrow> cache_op \<Rightarrow> 's" where
  "step s (CPut now e) = snd (put now e s)"
| "step s (CGet now k t n src) = snd (get now k t n src s)"
| "step s (CDelete k) = delete k s"
| "step s (CPurge now) = snd (purge now s)"

text \<open>A key holds its latest entry, or nothing, and then only after a time it had expired at.\<close>

definition tracks_at :: "'s \<Rightarrow> cache_op list \<Rightarrow> string \<Rightarrow> bool" where
  "tracks_at s ops k = ((latest k ops = None \<and> find s k = None)
     \<or> (\<exists>e. latest k ops = Some e \<and> (find s k = Some (held e) \<or> (find s k = None \<and> ended ops e))))"

lemma tracks_step:
  assumes good: "good s" and inv: "\<And>k. tracks_at s ops k" and fine: "\<forall>now e. x = CPut now e \<longrightarrow> storable e"
  shows "good (step s x) \<and> tracks_at (step s x) (ops @ [x]) k"
proof (cases x)
  case (CPut now e)
  obtain s' where put: "put now e s = (check_entry now e, s')" "good s'"
      "find s' = (if acceptable now e then (find s)(ce_key e \<mapsto> held e) else find s)"
    using put_law [OF good] fine CPut by blast
  show ?thesis
    using inv [of k] put CPut by (auto simp: tracks_at_def latest_def ended_def)
next
  case (CGet now k' t n src)
  obtain s' r where get: "get now k' t n src s = (r, s')" "good s'"
      "find s' = (if drops now t n src (find s k') then (find s)(k' := None) else find s)"
    using get_law [OF good] by blast
  show ?thesis
    using inv [of k] get CGet by (auto simp: tracks_at_def latest_def ended_def drops_def held_law)
next
  case (CDelete k')
  show ?thesis
    using inv [of k] delete_law [OF good] CDelete by (auto simp: tracks_at_def latest_def ended_def)
next
  case (CPurge now)
  obtain s' m where purge: "purge now s = (m, s')" "good s'"
      "\<forall>k. find s' k = (case find s k of None \<Rightarrow> None | Some e \<Rightarrow> if alive now e then Some e else None)"
    using purge_law [OF good] by blast
  show ?thesis
    using inv [of k] purge CPurge by (auto simp: tracks_at_def latest_def ended_def held_law split: if_splits)
qed

lemma tracks_run:
  assumes "good s0" "\<And>k. find s0 k = None" "\<forall>e \<in> put_entries ops. storable e"
  shows "good (foldl step s0 ops) \<and> (\<forall>k. tracks_at (foldl step s0 ops) ops k)"
  using assms(3)
proof (induction ops rule: rev_induct)
  case Nil
  then show ?case using assms(1,2) by (simp add: tracks_at_def latest_def)
next
  case (snoc x ops)
  then have "good (foldl step s0 ops) \<and> (\<forall>k. tracks_at (foldl step s0 ops) ops k)"
    and "\<forall>now e. x = CPut now e \<longrightarrow> storable e" by (auto simp: put_entries_def)
  then show ?case using tracks_step [of "foldl step s0 ops" ops x] by simp
qed

text \<open>As long as the clock does not run back, a read answers from the latest entry.\<close>

lemma get_latest:
  assumes "good s0" "\<And>k. find s0 k = None" "\<forall>e \<in> put_entries ops. storable e"
    and clock: "\<forall>x \<in> set ops. \<forall>t'. op_time x = Some t' \<longrightarrow> t' \<le> now"
  shows "fst (get now k t n src (foldl step s0 ops)) = Inr (answer now t n src (map_option held (latest k ops)))"
proof -
  let ?s = "foldl step s0 ops"
  have run: "good ?s" "tracks_at ?s ops k" using tracks_run [OF assms(1-3)] by auto
  have late: "\<not> alive now e" if "ended ops e" for e
    using that clock by (force simp: ended_def alive_def)
  have "answer now t n src (find ?s k) = answer now t n src (map_option held (latest k ops))"
    using run(2) late by (auto simp: tracks_at_def answer_def held_law)
  then show ?thesis
    using get_law [OF run(1), of now k t n src] by auto
qed

end

subsection \<open>Both caches keep the contract\<close>

definition any_entry :: "cache_entry \<Rightarrow> bool" where
  "any_entry e = True"

definition any_cache :: "memory_cache \<Rightarrow> bool" where
  "any_cache s = (distinct (map fst s))"

lemma distinct_dset: "distinct (map fst s) \<Longrightarrow> distinct (map fst (dset k v s))"
  by (simp add: dset_def distinct_update)

lemma distinct_dpop: "distinct (map fst s) \<Longrightarrow> distinct (map fst (dpop k s))"
  by (simp add: dpop_def distinct_delete)

lemma map_of_filter: "distinct (map fst s) \<Longrightarrow> map_of (filter (\<lambda>(k, e). P k e) s) k
    = (case map_of s k of None \<Rightarrow> None | Some e \<Rightarrow> if P k e then Some e else None)"
  by (induction s) (auto split: option.splits simp: map_of_eq_None_iff)

interpretation memory_cache: exact_cache mem_put mem_get mem_delete mem_purge dget any_cache "\<lambda>e. e" any_entry
proof unfold_locales
  fix s :: memory_cache and now e k t n src
  assume good: "any_cache s"
  show "\<exists>s'. mem_put now e s = (check_entry now e, s') \<and> any_cache s'
      \<and> dget s' = (if acceptable now e then (dget s)(ce_key e \<mapsto> e) else dget s)"
    using good check_entry_acceptable [of now e] by (cases "check_entry now e") (auto simp: mem_put_def thenS_def bindS_def liftR_def fun_eq_iff any_cache_def
        distinct_dset)
  show "\<exists>s'. mem_get now k t n src s = (Inr (answer now t n src (dget s k)), s')
      \<and> any_cache s' \<and> dget s' = (if drops now t n src (dget s k) then (dget s)(k := None) else dget s)"
    using good by (auto simp: mem_get_def scope_ok_matches expired_alive answer_def drops_def mem_delete_def any_cache_def distinct_dpop
        fun_eq_iff split: option.splits)
  show "any_cache (mem_delete k s) \<and> dget (mem_delete k s) = (dget s)(k := None)"
    using good by (simp add: mem_delete_def any_cache_def distinct_dpop fun_eq_iff)
  show "\<exists>m s'. mem_purge now s = (Inr m, s') \<and> any_cache s'
      \<and> (\<forall>k. dget s' k = (case dget s k of None \<Rightarrow> None | Some e \<Rightarrow> if alive now e then Some e else None))"
    using good by (auto simp: mem_purge_def expired_alive any_cache_def distinct_map_filter dget_def map_of_filter split: option.splits)
qed auto

text \<open>What SQLite holds of an entry: the JSON form of its value, its fingerprints sorted.\<close>

definition filed_entry :: "cache_entry \<Rightarrow> cache_entry" where
  "filed_entry e = e\<lparr>ce_value := jnorm (ce_value e), ce_sources := sort (remdups (ce_sources e))\<rparr>"

definition storable_entry :: "cache_entry \<Rightarrow> bool" where
  "storable_entry e = envelope_free (ce_value e)"

definition sql_cache_view :: "sql_cache \<Rightarrow> string \<Rightarrow> cache_entry option" where
  "sql_cache_view s k = (case sqlc_find k s of Inr x \<Rightarrow> x | Inl _ \<Rightarrow> None)"

definition readable_cache :: "sql_cache \<Rightarrow> bool" where
  "readable_cache s = (distinct (map fst s) \<and> (\<forall>k r. dget s k = Some r \<longrightarrow> (\<exists>e. entry_of_row k r = Inr e)))"

lemma entry_of_filed: "storable_entry e \<Longrightarrow> check_entry now e = Inr () \<Longrightarrow> entry_of_row (ce_key e) (cache_row_of now' e) = Inr (filed_entry e)"
  by (cases e) (simp add: entry_of_row_def cache_row_of_def storable_entry_def decode_filed filed_entry_def check_entry_def split: if_splits)

lemma readable_find: "readable_cache s \<Longrightarrow> sqlc_find k s = Inr (sql_cache_view s k)"
  by (force simp: readable_cache_def sql_cache_view_def sqlc_find_def split: option.splits)

lemma sql_cache_view_def2: "readable_cache s \<Longrightarrow> sql_cache_view s k
    = (case dget s k of None \<Rightarrow> None | Some r \<Rightarrow> (case entry_of_row k r of Inr e \<Rightarrow> Some e | Inl _ \<Rightarrow> None))"
  by (auto simp: sql_cache_view_def sqlc_find_def split: option.splits sum.splits)

lemma row_expired_entry: "entry_of_row k r = Inr e \<Longrightarrow> row_expired now r \<longleftrightarrow> \<not> alive now e"
  by (auto simp: entry_of_row_def effect_simps row_expired_def alive_def split: option.splits)

lemma readable_filter:
  assumes "readable_cache s"
  shows "readable_cache (filter (\<lambda>(k, r). P k r) s)"
    and "sql_cache_view (filter (\<lambda>(k, r). P k r) s) k
      = (case dget s k of None \<Rightarrow> None | Some r \<Rightarrow> if P k r then sql_cache_view s k else None)"
proof -
  have row: "dget (filter (\<lambda>(k, r). P k r) s) k = (case dget s k of None \<Rightarrow> None | Some r \<Rightarrow> if P k r then Some r else None)" for k
    using assms by (simp add: dget_def map_of_filter readable_cache_def)
  then show "readable_cache (filter (\<lambda>(k, r). P k r) s)"
    using assms by (auto simp: readable_cache_def distinct_map_filter split: option.splits if_splits)
  then show "sql_cache_view (filter (\<lambda>(k, r). P k r) s) k
      = (case dget s k of None \<Rightarrow> None | Some r \<Rightarrow> if P k r then sql_cache_view s k else None)"
    using assms by (auto simp: sql_cache_view_def2 row split: option.splits)
qed

interpretation sql_cache: exact_cache sqlc_put sqlc_get sqlc_delete sqlc_purge sql_cache_view readable_cache filed_entry storable_entry
proof unfold_locales
  fix s :: sql_cache and now e k t n src
  assume good: "readable_cache s"
  have deleted: "readable_cache (sqlc_delete k s) \<and> sql_cache_view (sqlc_delete k s) = (sql_cache_view s)(k := None)" for k
    using readable_filter [OF good, of "\<lambda>k' r. k' \<noteq> k"] good
    by (auto simp: sqlc_delete_def fun_eq_iff sql_cache_view_def2 split: option.splits)
  show "readable_cache (sqlc_delete k s) \<and> sql_cache_view (sqlc_delete k s) = (sql_cache_view s)(k := None)"
    by (rule deleted)
  show "\<exists>s'. sqlc_get now k t n src s = (Inr (answer now t n src (sql_cache_view s k)), s')
      \<and> readable_cache s' \<and> sql_cache_view s' = (if drops now t n src (sql_cache_view s k) then (sql_cache_view s)(k := None)
          else sql_cache_view s)"
    using good deleted by (auto simp: sqlc_get_def scope_ok_matches expired_alive readable_find answer_def drops_def split: option.splits)
  show "\<exists>m s'. sqlc_purge now s = (Inr m, s') \<and> readable_cache s' \<and> (\<forall>k. sql_cache_view s' k
      = (case sql_cache_view s k of None \<Rightarrow> None | Some e \<Rightarrow> if alive now e then Some e else None))"
    using readable_filter [OF good, of "\<lambda>k r. \<not> row_expired now r"] good
    by (auto simp: sqlc_purge_def sql_cache_view_def2 row_expired_entry split: option.splits sum.splits)
  assume fine: "storable_entry e"
  show "\<exists>s'. sqlc_put now e s = (check_entry now e, s') \<and> readable_cache s'
      \<and> sql_cache_view s' = (if acceptable now e then (sql_cache_view s)(ce_key e \<mapsto> filed_entry e) else sql_cache_view s)"
  proof (cases "check_entry now e")
    case (Inl x)
    then show ?thesis using good check_entry_acceptable [of now e] by (simp add: sqlc_put_def thenS_def bindS_def liftR_def)
  next
    case (Inr u)
    let ?s = "dset (ce_key e) (cache_row_of now e) s"
    have row: "entry_of_row (ce_key e) (cache_row_of now e) = Inr (filed_entry e)"
      using entry_of_filed [OF fine] Inr by simp
    have "readable_cache ?s"
      using good row by (auto simp: readable_cache_def distinct_dset)
    moreover from this have "sql_cache_view ?s = (sql_cache_view s)(ce_key e \<mapsto> filed_entry e)"
      using good row by (auto simp: fun_eq_iff sql_cache_view_def2 split: option.splits)
    ultimately show ?thesis
      using Inr check_entry_acceptable [of now e] by (simp add: sqlc_put_def thenS_def bindS_def liftR_def)
  qed
qed (auto simp: filed_entry_def matches_scope_def alive_def)

text \<open>The two caches after a sequence of operations.\<close>

fun mem_step :: "memory_cache \<Rightarrow> cache_op \<Rightarrow> memory_cache" where
  "mem_step s (CPut now e) = snd (mem_put now e s)"
| "mem_step s (CGet now k t n src) = snd (mem_get now k t n src s)"
| "mem_step s (CDelete k) = mem_delete k s"
| "mem_step s (CPurge now) = snd (mem_purge now s)"

fun sqlc_step :: "sql_cache \<Rightarrow> cache_op \<Rightarrow> sql_cache" where
  "sqlc_step s (CPut now e) = snd (sqlc_put now e s)"
| "sqlc_step s (CGet now k t n src) = snd (sqlc_get now k t n src s)"
| "sqlc_step s (CDelete k) = sqlc_delete k s"
| "sqlc_step s (CPurge now) = snd (sqlc_purge now s)"

lemma steps: "mem_step = memory_cache.step" "sqlc_step = sql_cache.step"
proof -
  show "mem_step = memory_cache.step"
    by (intro ext, rename_tac s x, case_tac x) simp_all
  show "sqlc_step = sql_cache.step"
    by (intro ext, rename_tac s x, case_tac x) simp_all
qed

text \<open>
  C30 (equivalence). Both caches are exact: after any sequence of writes, reads, deletions and purges
  during which the clock does not run back, a read answers exactly from the last entry accepted
  under the key and not deleted since, and only when tenant, namespace and (if given)
  fingerprints are that entry's and it has not expired; in memory with its value, on SQLite with
  the JSON form of the value. No read ever returns an entry of another tenant or namespace.
\<close>

theorem caches_exact:
  assumes "\<forall>x \<in> set ops. \<forall>t'. op_time x = Some t' \<longrightarrow> t' \<le> now"
  shows "fst (mem_get now k t n src (foldl mem_step [] ops)) = Inr (answer now t n src (latest k ops))
    \<and> ((\<forall>e \<in> put_entries ops. storable_entry e) \<longrightarrow>
        fst (sqlc_get now k t n src (foldl sqlc_step [] ops)) = Inr (map_option jnorm (answer now t n src (latest k ops))))"
proof (intro conjI impI)
  show "fst (mem_get now k t n src (foldl mem_step [] ops)) = Inr (answer now t n src (latest k ops))"
    using memory_cache.get_latest [of "[]" ops now k t n src] assms by (simp add: steps any_cache_def any_entry_def option.map_id0 [unfolded id_def])
  assume "\<forall>e \<in> put_entries ops. storable_entry e"
  then have "fst (sqlc_get now k t n src (foldl sqlc_step [] ops)) = Inr (answer now t n src (map_option filed_entry (latest k ops)))"
    using sql_cache.get_latest [of "[]" ops now k t n src] assms
    by (simp add: steps readable_cache_def sql_cache_view_def sqlc_find_def)
  then show "fst (sqlc_get now k t n src (foldl sqlc_step [] ops)) = Inr (map_option jnorm (answer now t n src (latest k ops)))"
    by (cases "latest k ops") (auto simp: answer_def sql_cache.held_law, simp add: filed_entry_def)
qed

definition sample_entry :: cache_entry where
  "sample_entry = \<lparr>ce_key = ''k'', ce_tenant = ''acme'', ce_namespace = ''n'', ce_value = PTuple [PInt 1], ce_sources = [''b'', ''a''],
     ce_verified = True, ce_expires = Some 10\<rparr>"

theorem caches_exact_witness:
  "fst (mem_get 5 ''k'' ''acme'' ''n'' None (foldl mem_step [] [CPut 1 sample_entry, CPurge 4])) = Inr (Some (PTuple [PInt 1]))
   \<and> fst (sqlc_get 5 ''k'' ''acme'' ''n'' (Some [''a'', ''b'']) (foldl sqlc_step [] [CPut 1 sample_entry, CPurge 4])) = Inr (Some (PList [PInt 1]))
   \<and> fst (mem_get 5 ''k'' ''other'' ''n'' None (foldl mem_step [] [CPut 1 sample_entry, CPurge 4])) = Inr None"
proof -
  let ?ops = "[CPut 1 sample_entry, CPurge 4]"
  have time: "\<forall>x \<in> set ?ops. \<forall>t'. op_time x = Some t' \<longrightarrow> t' \<le> 5" by simp
  have last: "latest ''k'' ?ops = Some sample_entry"
    by (simp add: latest_def sample_entry_def acceptable_def alive_def)
  have "\<forall>e \<in> put_entries ?ops. storable_entry e"
    by (simp add: put_entries_def storable_entry_def sample_entry_def)
  then show ?thesis
    using caches_exact [OF time, of "''k''" "''acme''" "''n''" None] caches_exact [OF time, of "''k''" "''acme''" "''n''" "Some [''a'', ''b'']"]
      caches_exact [OF time, of "''k''" "''other''" "''n''" None]
    by (simp add: last) (simp add: answer_def matches_scope_def alive_def sample_entry_def insert_commute)
qed

end
