(* ===== verification/SemanticCache.thy ===== *)
theory SemanticCache
  imports Caches Verifiers
begin

text \<open>
  \<open>python/urp/semantic_cache.py\<close>: the cache that answers a request from a similar one, in memory and
  on SQLite. Scores and times are real numbers (the code's floats, without their rounding); sets
  are lists read as sets. The rows of SQLite come in the order they were first written.
\<close>

subsection \<open>Similarity\<close>

definition normalize_semantic_text :: "string \<Rightarrow> string" where
  "normalize_semantic_text t = join '' '' (py_split (py_strip (casefold t)))"

definition set_jaccard :: "string list \<Rightarrow> string list \<Rightarrow> real" where
  "set_jaccard xs ys = (if xs = [] \<and> ys = [] then 1 else if xs = [] \<or> ys = [] then 0
     else real (card (set xs \<inter> set ys)) / real (card (set xs \<union> set ys)))"

definition character_ngrams :: "string \<Rightarrow> nat \<Rightarrow> string list" where
  "character_ngrams v width = (let compact = squeeze v in
     if length compact \<le> width then (if compact = [] then [] else [compact])
     else map (\<lambda>i. slice i (i + width) compact) [0..<length compact - width + 1])"

definition jaccard_similarity :: "string \<Rightarrow> string \<Rightarrow> real" where
  "jaccard_similarity x y = set_jaccard (py_split x) (py_split y)"

definition semantic_similarity :: "string \<Rightarrow> string \<Rightarrow> real" where
  "semantic_similarity x y = 7 / 10 * jaccard_similarity x y + 3 / 10 * set_jaccard (character_ngrams x 3) (character_ngrams y 3)"

subsection \<open>Entries and stores\<close>

record sem_entry =
  se_key :: string
  se_tenant :: string
  se_namespace :: string
  se_text :: string
  se_value :: pyval
  se_sources :: "string list"
  se_verification :: verification_result
  se_task :: string
  se_created :: real
  se_expires :: "real option"

record sem_hit =
  sh_value :: pyval
  sh_key :: string
  sh_score :: real
  sh_verification :: verification_result
  sh_created :: real

type_synonym sem_memory = "(string \<times> sem_entry) list"

record sem_row =
  sq_tenant :: string
  sq_namespace :: string
  sq_text :: string
  sq_value :: pyval
  sq_sources :: "string list"
  sq_verification :: pydict
  sq_task :: string
  sq_created :: real
  sq_expires :: "real option"

type_synonym sem_sql = "(string \<times> sem_row) list"

definition sem_expired :: "real \<Rightarrow> sem_entry \<Rightarrow> bool" where
  "sem_expired now e = (case se_expires e of None \<Rightarrow> False | Some t \<Rightarrow> t \<le> now)"

definition check_sem_entry :: "real \<Rightarrow> sem_entry \<Rightarrow> unit res" where
  "check_sem_entry now e =
     (if \<not> vr_accepted (se_verification e) then Inl (ValueError ''semantic cache entries require an accepted verification result'')
      else if sem_expired now e then Inl (ValueError ''semantic cache entry is already expired'') else Inr ())"

definition sem_row_of :: "sem_entry \<Rightarrow> sem_row" where
  "sem_row_of e = \<lparr>sq_tenant = se_tenant e, sq_namespace = se_namespace e, sq_text = se_text e,
     sq_value = jfile (encode_json_value (se_value e)), sq_sources = sort (remdups (se_sources e)),
     sq_verification = jfile_dict (verification_to_dict (se_verification e)), sq_task = se_task e,
     sq_created = se_created e, sq_expires = se_expires e\<rparr>"

definition sem_entry_of_row :: "string \<Rightarrow> sem_row \<Rightarrow> sem_entry res" where
  "sem_entry_of_row k r =
     bindR (decode_json_value (sq_value r)) (\<lambda>v. bindR (dict_or_empty (get_value (sq_verification r) ''details'')) (\<lambda>details.
     Inr \<lparr>se_key = k, se_tenant = sq_tenant r, se_namespace = sq_namespace r, se_text = sq_text r, se_value = v,
       se_sources = sq_sources r,
       se_verification = \<lparr>vr_accepted = truthy (get_value (sq_verification r) ''accepted''),
         vr_verifier_id = py_str (get_default (sq_verification r) ''verifier_id'' (PStr ''unknown@1'')),
         vr_reason = py_str (get_default (sq_verification r) ''reason'' (PStr ''unknown'')), vr_details = details\<rparr>,
       se_task = sq_task r, se_created = sq_created r, se_expires = sq_expires r\<rparr>))"

definition sem_put :: "real \<Rightarrow> sem_entry \<Rightarrow> (unit, sem_memory) sres" where
  "sem_put now e = thenS (liftR (check_sem_entry now e)) (\<lambda>s. (Inr (), dset (se_key e) e s))"

definition sem_put_sql :: "real \<Rightarrow> sem_entry \<Rightarrow> (unit, sem_sql) sres" where
  "sem_put_sql now e = thenS (liftR (check_sem_entry now e)) (\<lambda>s. (Inr (), dset (se_key e) (sem_row_of e) s))"

definition semantic_key :: "string \<Rightarrow> string \<Rightarrow> string \<Rightarrow> string list \<Rightarrow> string \<Rightarrow> string" where
  "semantic_key t n txt sources task = stable_json_hash (PDict [(''tenant'', PStr t), (''namespace'', PStr n), (''text'', PStr txt),
     (''sources'', sorted_set sources), (''task_type'', PStr task)])"

definition sem_new_entry :: "real \<Rightarrow> string \<Rightarrow> string \<Rightarrow> string \<Rightarrow> pyval \<Rightarrow> string list \<Rightarrow> verification_result \<Rightarrow> string
    \<Rightarrow> real option \<Rightarrow> sem_entry" where
  "sem_new_entry now t n txt v sources ver task ttl =
     (let q = normalize_semantic_text txt in
      \<lparr>se_key = semantic_key t n q sources task, se_tenant = t, se_namespace = n, se_text = q, se_value = v, se_sources = sources,
       se_verification = ver, se_task = task, se_created = now, se_expires = map_option (\<lambda>s. now + s) ttl\<rparr>)"

definition sem_store :: "(real \<Rightarrow> sem_entry \<Rightarrow> (unit, 's) sres) \<Rightarrow> real \<Rightarrow> string \<Rightarrow> string \<Rightarrow> string \<Rightarrow> pyval \<Rightarrow> string list
    \<Rightarrow> verification_result \<Rightarrow> string \<Rightarrow> real option \<Rightarrow> (string, 's) sres" where
  "sem_store put now t n txt v sources ver task ttl =
     (if (case ttl of None \<Rightarrow> False | Some s \<Rightarrow> s \<le> 0) then raiseS (ValueError ''ttl_seconds must be positive'')
      else let e = sem_new_entry now t n txt v sources ver task ttl in thenS (put now e) (retS (se_key e)))"

definition sem_delete :: "string \<Rightarrow> (string \<times> 'e) list \<Rightarrow> (string \<times> 'e) list" where
  "sem_delete k s = dpop k s"

definition sem_iter :: "string \<Rightarrow> string \<Rightarrow> string \<Rightarrow> sem_memory \<Rightarrow> sem_entry list res" where
  "sem_iter t n task s = Inr (filter (\<lambda>e. se_tenant e = t \<and> se_namespace e = n \<and> se_task e = task) (map snd s))"

definition sem_iter_sql :: "string \<Rightarrow> string \<Rightarrow> string \<Rightarrow> sem_sql \<Rightarrow> sem_entry list res" where
  "sem_iter_sql t n task s = seq_res (map (\<lambda>(k, r). sem_entry_of_row k r)
     (filter (\<lambda>(k, r). sq_tenant r = t \<and> sq_namespace r = n \<and> sq_task r = task) s))"

subsection \<open>Lookup\<close>

text \<open>The scan over the entries of the scope: the keys found expired, and the best match so far.\<close>

fun sem_scan :: "real \<Rightarrow> real \<Rightarrow> string list \<Rightarrow> string \<Rightarrow> string list \<Rightarrow> (real \<times> sem_entry) option \<Rightarrow> sem_entry list
    \<Rightarrow> string list \<times> (real \<times> sem_entry) option" where
  "sem_scan now threshold sources q gone best [] = (gone, best)"
| "sem_scan now threshold sources q gone best (e # es) =
     (if sem_expired now e then sem_scan now threshold sources q (gone @ [se_key e]) best es
      else if \<not> vr_accepted (verify_source_fingerprints sources (se_sources e)) \<or> \<not> vr_accepted (se_verification e)
        then sem_scan now threshold sources q gone best es
      else let score = semantic_similarity q (se_text e) in
        if threshold \<le> score \<and> (case best of None \<Rightarrow> True | Some (b, _) \<Rightarrow> b < score)
        then sem_scan now threshold sources q gone (Some (score, e)) es
        else sem_scan now threshold sources q gone best es)"

definition default_value_verifier :: "pyval \<Rightarrow> verification_result" where
  "default_value_verifier v = (case v of
     PDict d \<Rightarrow> (case chat_content v of
         Inl _ \<Rightarrow> verdict False ''semantic_cache_shape@1'' ''missing_chat_completion_content'' []
       | Inr t \<Rightarrow> verify_non_empty_text (py_str t))
   | _ \<Rightarrow> verify_non_empty_text (py_str v))"

definition sem_finish :: "(string \<Rightarrow> 's \<Rightarrow> 's) \<Rightarrow> (pyval \<Rightarrow> verification_result) \<Rightarrow> (real \<times> sem_entry) option \<Rightarrow> (sem_hit option, 's) sres" where
  "sem_finish del verifier best = (\<lambda>s. case best of None \<Rightarrow> (Inr None, s)
     | Some (score, e) \<Rightarrow> let check = verifier (se_value e) in
         if \<not> vr_accepted check then (Inr None, del (se_key e) s)
         else (Inr (Some \<lparr>sh_value = se_value e, sh_key = se_key e, sh_score = score, sh_verification = check,
                  sh_created = se_created e\<rparr>), s))"

definition lookup_hit :: "('s \<Rightarrow> sem_entry list res) \<Rightarrow> (string \<Rightarrow> 's \<Rightarrow> 's) \<Rightarrow> real \<Rightarrow> real \<Rightarrow> string \<Rightarrow> string list
    \<Rightarrow> (pyval \<Rightarrow> verification_result) option \<Rightarrow> (sem_hit option, 's) sres" where
  "lookup_hit entries del now threshold txt sources verifier =
     (if \<not> (0 \<le> threshold \<and> threshold \<le> 1) then raiseS (ValueError ''semantic cache threshold must be between 0 and 1'')
      else (\<lambda>s. case entries s of Inl x \<Rightarrow> (Inl x, s)
        | Inr es \<Rightarrow> (case sem_scan now threshold sources (normalize_semantic_text txt) [] None es of (gone, best) \<Rightarrow>
            sem_finish del (case verifier of None \<Rightarrow> default_value_verifier | Some f \<Rightarrow> f) best (foldl (\<lambda>s k. del k s) s gone))))"

definition sem_lookup_hit :: "real \<Rightarrow> real \<Rightarrow> string \<Rightarrow> string \<Rightarrow> string \<Rightarrow> string list \<Rightarrow> string \<Rightarrow> real option
    \<Rightarrow> (pyval \<Rightarrow> verification_result) option \<Rightarrow> (sem_hit option, sem_memory) sres" where
  "sem_lookup_hit thr now t n txt sources task threshold verifier =
     lookup_hit (sem_iter t n task) sem_delete now (case threshold of None \<Rightarrow> thr | Some x \<Rightarrow> x) txt sources verifier"

definition sem_lookup_hit_sql :: "real \<Rightarrow> real \<Rightarrow> string \<Rightarrow> string \<Rightarrow> string \<Rightarrow> string list \<Rightarrow> string \<Rightarrow> real option
    \<Rightarrow> (pyval \<Rightarrow> verification_result) option \<Rightarrow> (sem_hit option, sem_sql) sres" where
  "sem_lookup_hit_sql thr now t n txt sources task threshold verifier =
     lookup_hit (sem_iter_sql t n task) sem_delete now (case threshold of None \<Rightarrow> thr | Some x \<Rightarrow> x) txt sources verifier"

definition sem_lookup :: "real \<Rightarrow> real \<Rightarrow> string \<Rightarrow> string \<Rightarrow> string \<Rightarrow> string list \<Rightarrow> string \<Rightarrow> real option
    \<Rightarrow> (pyval \<Rightarrow> verification_result) option \<Rightarrow> (pyval option, sem_memory) sres" where
  "sem_lookup thr now t n txt sources task threshold verifier =
     bindS (sem_lookup_hit thr now t n txt sources task threshold verifier) (\<lambda>h. retS (map_option sh_value h))"

definition new_semantic_cache :: "real \<Rightarrow> sem_memory res" where
  "new_semantic_cache threshold = (if \<not> (0 \<le> threshold \<and> threshold \<le> 1)
     then Inl (ValueError ''semantic cache threshold must be between 0 and 1'') else Inr [])"

subsection \<open>Scores\<close>

lemma set_jaccard_bounds: "0 \<le> set_jaccard xs ys" "set_jaccard xs ys \<le> 1"
proof -
  have "card (set xs \<inter> set ys) \<le> card (set xs \<union> set ys)" by (intro card_mono) auto
  then show "0 \<le> set_jaccard xs ys" "set_jaccard xs ys \<le> 1"
    by (auto simp: set_jaccard_def divide_le_eq)
qed

lemma set_jaccard_self: "set_jaccard xs xs = 1"
  by (auto simp: set_jaccard_def)

lemma similarity_bounds: "0 \<le> semantic_similarity x y" "semantic_similarity x y \<le> 1"
  using set_jaccard_bounds [of "py_split x" "py_split y"] set_jaccard_bounds [of "character_ngrams x 3" "character_ngrams y 3"]
  by (simp_all add: semantic_similarity_def jaccard_similarity_def)

lemma similarity_self: "semantic_similarity x x = 1"
  by (simp add: semantic_similarity_def jaccard_similarity_def set_jaccard_self)

subsection \<open>The scan finds the best live entry\<close>

definition sem_live :: "real \<Rightarrow> string list \<Rightarrow> sem_entry \<Rightarrow> bool" where
  "sem_live now sources e = ((\<forall>t. se_expires e = Some t \<longrightarrow> now < t) \<and> set sources = set (se_sources e)
     \<and> vr_accepted (se_verification e))"

definition best_of :: "real \<Rightarrow> real \<Rightarrow> string list \<Rightarrow> string \<Rightarrow> sem_entry list \<Rightarrow> (real \<times> sem_entry) option \<Rightarrow> bool" where
  "best_of now threshold sources q es best = (case best of
     None \<Rightarrow> \<forall>e \<in> set es. sem_live now sources e \<longrightarrow> semantic_similarity q (se_text e) < threshold
   | Some (score, e) \<Rightarrow> e \<in> set es \<and> sem_live now sources e \<and> score = semantic_similarity q (se_text e) \<and> threshold \<le> score
       \<and> (\<forall>e' \<in> set es. sem_live now sources e' \<longrightarrow> semantic_similarity q (se_text e') \<le> score))"

lemma sem_expired_iff: "sem_expired now e \<longleftrightarrow> \<not> (\<forall>t. se_expires e = Some t \<longrightarrow> now < t)"
  by (auto simp: sem_expired_def split: option.splits)

lemma sources_accepted: "vr_accepted (verify_source_fingerprints xs ys) \<longleftrightarrow> set xs = set ys"
  by (simp add: verify_source_fingerprints_def verdict_def Let_def)

lemma sem_scan_best:
  assumes "best_of now threshold sources q past best"
    and "sem_scan now threshold sources q gone best es = (gone', best')"
  shows "best_of now threshold sources q (past @ es) best' \<and> gone' = gone @ map se_key (filter (sem_expired now) es)"
  using assms
proof (induction es arbitrary: past gone best)
  case (Cons e es)
  let ?score = "semantic_similarity q (se_text e)"
  let ?next = "if sem_live now sources e \<and> threshold \<le> ?score \<and> (case best of None \<Rightarrow> True | Some (b, _) \<Rightarrow> b < ?score)
    then Some (?score, e) else best"
  have "best_of now threshold sources q (past @ [e]) ?next"
    using Cons.prems(1) by (cases best) (auto simp: best_of_def)
  moreover have "sem_scan now threshold sources q (if sem_expired now e then gone @ [se_key e] else gone) ?next es = (gone', best')"
    using Cons.prems(2) by (auto simp: Let_def sem_live_def sources_accepted sem_expired_iff split: if_splits)
  ultimately show ?case
    using Cons.IH [of "past @ [e]" ?next "if sem_expired now e then gone @ [se_key e] else gone"] by auto
qed auto

lemma sem_scan_result:
  assumes "sem_scan now threshold sources q [] None es = (gone, best)"
  shows "best_of now threshold sources q es best" "gone = map se_key (filter (sem_expired now) es)"
  using sem_scan_best [of now threshold sources q "[]" None "[]" es gone best] assms by (auto simp: best_of_def)

lemma lookup_hit_found:
  assumes "lookup_hit entries del now threshold txt sources verifier s = (Inr (Some h), s')"
  shows "\<exists>es e. entries s = Inr es \<and> best_of now threshold sources (normalize_semantic_text txt) es (Some (sh_score h, e))
    \<and> sh_value h = se_value e \<and> sh_key h = se_key e \<and> sh_created h = se_created e
    \<and> sh_verification h = (case verifier of None \<Rightarrow> default_value_verifier | Some f \<Rightarrow> f) (se_value e)
    \<and> vr_accepted (sh_verification h)"
proof -
  obtain es gone best where scan: "entries s = Inr es"
      "sem_scan now threshold sources (normalize_semantic_text txt) [] None es = (gone, best)"
      "sem_finish del (case verifier of None \<Rightarrow> default_value_verifier | Some f \<Rightarrow> f) best (foldl (\<lambda>s k. del k s) s gone)
         = (Inr (Some h), s')"
    using assms by (auto simp: lookup_hit_def raiseS_def split: if_splits sum.splits prod.splits)
  obtain score e where best: "best = Some (score, e)"
    using scan(3) by (auto simp: sem_finish_def split: option.splits)
  have "vr_accepted ((case verifier of None \<Rightarrow> default_value_verifier | Some f \<Rightarrow> f) (se_value e)) \<and>
      h = \<lparr>sh_value = se_value e, sh_key = se_key e, sh_score = score,
        sh_verification = (case verifier of None \<Rightarrow> default_value_verifier | Some f \<Rightarrow> f) (se_value e), sh_created = se_created e\<rparr>"
    using scan(3) by (simp add: best sem_finish_def Let_def split: if_splits)
  then show ?thesis
    using scan(1) sem_scan_result(1) [OF scan(2)] by (intro exI [of _ es] exI [of _ e]) (simp add: best)
qed

lemma seq_res_member: "seq_res (map f xs) = Inr ys \<Longrightarrow> y \<in> set ys \<Longrightarrow> \<exists>x \<in> set xs. f x = Inr y"
proof (induction xs arbitrary: ys)
  case (Cons x xs)
  then show ?case by (cases "f x") (auto simp: effect_simps)
qed simp

text \<open>What entitles an entry to answer a request of a tenant, namespace and task.\<close>

definition answers :: "string \<Rightarrow> string \<Rightarrow> string \<Rightarrow> string list \<Rightarrow> real \<Rightarrow> real \<Rightarrow> string \<Rightarrow> (pyval \<Rightarrow> verification_result)
    \<Rightarrow> sem_entry \<Rightarrow> sem_hit \<Rightarrow> bool" where
  "answers t n task sources now threshold txt verifier e h =
     (se_tenant e = t \<and> se_namespace e = n \<and> se_task e = task \<and> sem_live now sources e
      \<and> threshold \<le> sh_score h \<and> sh_score h = semantic_similarity (normalize_semantic_text txt) (se_text e)
      \<and> sh_value h = se_value e \<and> sh_key h = se_key e \<and> sh_verification h = verifier (se_value e) \<and> vr_accepted (sh_verification h))"

lemma memory_hit:
  assumes "sem_lookup_hit thr now t n txt sources task (Some threshold) (Some verifier) s = (Inr (Some h), s')"
  shows "\<exists>e \<in> set (map snd s). answers t n task sources now threshold txt verifier e h
    \<and> (\<forall>e' \<in> set (map snd s). se_tenant e' = t \<and> se_namespace e' = n \<and> se_task e' = task \<and> sem_live now sources e'
        \<longrightarrow> semantic_similarity (normalize_semantic_text txt) (se_text e') \<le> sh_score h)"
proof -
  obtain es e where hit: "sem_iter t n task s = Inr es"
      "best_of now threshold sources (normalize_semantic_text txt) es (Some (sh_score h, e))"
      "sh_value h = se_value e" "sh_key h = se_key e" "sh_verification h = verifier (se_value e)" "vr_accepted (sh_verification h)"
    using lookup_hit_found [OF assms [unfolded sem_lookup_hit_def option.case]] by auto
  have es: "set es = {e \<in> set (map snd s). se_tenant e = t \<and> se_namespace e = n \<and> se_task e = task}"
    using hit(1) by (force simp: sem_iter_def)
  show ?thesis
    using hit(2-) unfolding best_of_def option.case prod.case es by (intro bexI [of _ e]) (auto simp: answers_def)
qed

lemma sql_hit:
  assumes "sem_lookup_hit_sql thr now t n txt sources task (Some threshold) (Some verifier) r = (Inr (Some h), r')"
  shows "\<exists>(k, row) \<in> set r. \<exists>e. sem_entry_of_row k row = Inr e \<and> answers t n task sources now threshold txt verifier e h"
proof -
  obtain es e where hit: "sem_iter_sql t n task r = Inr es"
      "best_of now threshold sources (normalize_semantic_text txt) es (Some (sh_score h, e))"
      "sh_value h = se_value e" "sh_key h = se_key e" "sh_verification h = verifier (se_value e)" "vr_accepted (sh_verification h)"
    using lookup_hit_found [OF assms [unfolded sem_lookup_hit_sql_def option.case]] by auto
  have "e \<in> set es" using hit(2) by (simp add: best_of_def)
  then obtain k row where row: "(k, row) \<in> set r" "sq_tenant row = t" "sq_namespace row = n" "sq_task row = task"
      "sem_entry_of_row k row = Inr e"
    using seq_res_member [OF hit(1) [unfolded sem_iter_sql_def], of e] by auto
  then have "se_tenant e = t" "se_namespace e = n" "se_task e = task"
    by (auto simp: sem_entry_of_row_def effect_simps)
  then have "answers t n task sources now threshold txt verifier e h"
    using hit(2-) by (simp add: best_of_def answers_def)
  then show ?thesis using row by blast
qed


text \<open>What was just stored answers its own text.\<close>

lemma stored_text_hits:
  assumes "sem_store sem_put now t n txt v sources ver task ttl s = (Inr k, s')"
    and "0 \<le> threshold" "threshold \<le> 1" "\<forall>x. ttl = Some x \<longrightarrow> now' < now + x" "\<And>v. vr_accepted (verifier v)"
  shows "\<exists>h s''. sem_lookup_hit thr now' t n txt sources task (Some threshold) (Some verifier) s' = (Inr (Some h), s'')
    \<and> sh_score h = 1"
proof -
  let ?q = "normalize_semantic_text txt" let ?e = "sem_new_entry now t n txt v sources ver task ttl"
  have s': "s' = dset (se_key ?e) ?e s" and acc: "vr_accepted ver"
    using assms(1) by (auto simp: sem_store_def sem_put_def raiseS_def effect_simps thenS_def Let_def check_sem_entry_def
        sem_new_entry_def split: if_splits)
  obtain es where es: "sem_iter t n task s' = Inr es" "set es = {e \<in> set (map snd s'). se_tenant e = t \<and> se_namespace e = n \<and> se_task e = task}"
    by (auto simp: sem_iter_def)
  have "dget s' (se_key ?e) = Some ?e" by (simp add: s')
  then have "?e \<in> set (map snd s')" by (force simp: dget_def dest: map_of_SomeD)
  then have mem: "?e \<in> set es" by (simp add: es(2)) (simp add: sem_new_entry_def Let_def)
  have live: "sem_live now' sources ?e" "se_text ?e = ?q"
    using assms(4) acc by (auto simp: sem_live_def sem_new_entry_def Let_def)
  obtain gone best where scan: "sem_scan now' threshold sources ?q [] None es = (gone, best)" by fastforce
  have best: "best_of now' threshold sources ?q es best" by (rule sem_scan_result(1) [OF scan])
  have "best \<noteq> None"
  proof
    assume "best = None"
    then have "semantic_similarity ?q (se_text ?e) < threshold" using best mem live(1) by (simp add: best_of_def)
    then show False using assms(3) by (simp add: live(2) similarity_self)
  qed
  then obtain score e where some: "best = Some (score, e)" by fastforce
  have "score = 1"
    using best mem live similarity_self [of ?q] similarity_bounds(2) [of ?q "se_text e"] by (fastforce simp: some best_of_def)
  then show ?thesis
    using assms(2,3,5) es(1) scan by (simp add: sem_lookup_hit_def lookup_hit_def some sem_finish_def Let_def)
qed


end
