(* ===== verification/GatewayRequest.thy ===== *)
theory GatewayRequest
  imports Context Router SemanticCache PyTime
begin

text \<open>
  The functions of \<open>python/urp/ai_gateway.py\<close> that read a chat request and judge a response: the
  normal form of a request, its source fingerprints, the text that is routed, the required
  verifiers, the choice of a model outside the router and the lifetime of a cache entry.
\<close>

subsection \<open>Numbers of a request\<close>

text \<open>\<open>float(x)\<close>: numbers, and texts in decimal notation with an optional exponent.\<close>

definition is_digit :: "char \<Rightarrow> bool" where
  "is_digit c = (let n = (of_char c :: nat) in 48 \<le> n \<and> n \<le> 57)"

definition unsigned_decimal :: "string \<Rightarrow> (nat \<times> nat) option" where
  "unsigned_decimal s = (case partition_char (CHR ''.'') s of (whole, dot, decimals) \<Rightarrow>
     if whole @ decimals \<noteq> [] \<and> list_all is_digit (whole @ decimals) then Some (decimal_value (whole @ decimals), length decimals) else None)"

definition split_sign :: "string \<Rightarrow> bool \<times> string" where
  "split_sign s = (case s of [] \<Rightarrow> (False, [])
     | c # cs \<Rightarrow> if c = CHR ''-'' then (True, cs) else if c = CHR ''+'' then (False, cs) else (False, s))"

definition exponent_value :: "string \<Rightarrow> string \<Rightarrow> int option" where
  "exponent_value mark ex = (if mark = [] then Some 0
     else case split_sign ex of (neg, ds) \<Rightarrow> if ds \<noteq> [] \<and> list_all is_digit ds
       then Some (if neg then - int (decimal_value ds) else int (decimal_value ds)) else None)"

definition parse_float :: "string \<Rightarrow> real option" where
  "parse_float s = (case split_sign (py_lower (py_strip s)) of (neg, t) \<Rightarrow>
     (case partition_char (CHR ''e'') t of (mant, mark, ex) \<Rightarrow>
       (case (unsigned_decimal mant, exponent_value mark ex) of
          (Some (m, d), Some x) \<Rightarrow> Some ((if neg then -1 else 1) * real m / 10 ^ d * (10::real) powi x)
        | _ \<Rightarrow> None)))"

definition float_value :: "pyval \<Rightarrow> real res" where
  "float_value v = (case v of PStr s \<Rightarrow> (case parse_float s of Some x \<Rightarrow> Inr x
       | None \<Rightarrow> Inl (ValueError ''could not convert string to float''))
     | _ \<Rightarrow> float_of v)"

definition cache_ttl_seconds :: "pydict \<Rightarrow> real res" where
  "cache_ttl_seconds options =
     (case float_value (get_default options ''cache_ttl_seconds'' (get_default options ''freshness_required_seconds'' (PInt 3600))) of
        Inl e \<Rightarrow> Inl (ValueError ''cache_ttl_seconds must be numeric'')
      | Inr ttl \<Rightarrow> if ttl < 0 \<or> 86400 < ttl then Inl (ValueError ''cache_ttl_seconds must be between 0 and 86400'') else Inr ttl)"

subsection \<open>The normal form of a request\<close>

definition normalize_part :: "pyval \<Rightarrow> pyval" where
  "normalize_part part = (case part of
       PDict d \<Rightarrow> (case get_value d ''text'' of
           PStr t \<Rightarrow> if get_value d ''type'' = PStr ''text'' then PDict (dset ''text'' (PStr (py_strip t)) d) else part
         | _ \<Rightarrow> part)
     | _ \<Rightarrow> part)"

definition normalize_message :: "pyval \<Rightarrow> pydict res" where
  "normalize_message message = (case message of
     PDict m \<Rightarrow> Inr (dset ''content'' (case get_default m ''content'' (PStr []) of
           PStr t \<Rightarrow> PStr (py_strip t)
         | PList parts \<Rightarrow> PList (map normalize_part parts)
         | c \<Rightarrow> PStr (py_str c)) (dset ''role'' (PStr (py_str (get_default m ''role'' (PStr ''user'')))) m))
   | _ \<Rightarrow> Inl (ValueError ''each chat message must be an object''))"

definition set_default :: "string \<Rightarrow> pyval \<Rightarrow> pydict \<Rightarrow> pydict" where
  "set_default k v d = (if dget d k = None then dset k v d else d)"

definition check_chat_request :: "pydict \<Rightarrow> unit res" where
  "check_chat_request request =
     (if get_value request ''stream'' = PBool True
        then Inl (ValueError ''streaming chat completions are not supported by the local gateway'')
      else if \<not> (case get_value request ''messages'' of PList (m # ms) \<Rightarrow> True | _ \<Rightarrow> False)
        then Inl (ValueError ''messages must be a non-empty array'')
      else case get_value request ''urp'' of PNone \<Rightarrow> Inr () | PDict u \<Rightarrow> Inr ()
        | _ \<Rightarrow> Inl (ValueError ''urp options must be an object''))"

definition dict_of :: "pyval \<Rightarrow> pydict" where
  "dict_of v = (case v of PDict d \<Rightarrow> d | _ \<Rightarrow> [])"

definition list_of :: "pyval \<Rightarrow> pyval list" where
  "list_of v = (case v of PList xs \<Rightarrow> xs | _ \<Rightarrow> [])"

definition normalize_openai_request :: "pydict \<Rightarrow> pydict res" where
  "normalize_openai_request request =
     bindR (check_chat_request request) (\<lambda>_.
     bindR (seq_res (map normalize_message (list_of (get_value request ''messages'')))) (\<lambda>messages.
     Inr (dset ''urp'' (PDict (dict_of (get_value request ''urp'')))
       (set_default ''tools'' (PList []) (set_default ''temperature'' (PInt 0)
       (dset ''messages'' (PList (map PDict messages))
       (dset ''model'' (get_default request ''model'' (PStr ''auto'')) (dpop ''stream_options'' request))))))))"

text \<open>What the gateway reads of a normal form: its options and its messages.\<close>

definition urp_options :: "pydict \<Rightarrow> pydict" where
  "urp_options normalized = dict_of (get_value normalized ''urp'')"

definition chat_messages :: "pydict \<Rightarrow> pydict list" where
  "chat_messages normalized = map dict_of (list_of (get_value normalized ''messages''))"

definition chat_fingerprints :: "pydict \<Rightarrow> string list res" where
  "chat_fingerprints normalized =
     (let explicit = get_value (urp_options normalized) ''source_fingerprints'' in
      if truthy explicit then map_res (map py_str) (iterate explicit)
      else Inr (map (\<lambda>m. stable_json_hash (PDict m)) (filter is_instruction (chat_messages normalized))))"

fun part_texts :: "pyval list \<Rightarrow> string list" where
  "part_texts [] = []"
| "part_texts (PDict d # ps) = (if get_value d ''type'' = PStr ''text''
     then py_str (get_default d ''text'' (PStr [])) # part_texts ps else part_texts ps)"
| "part_texts (p # ps) = part_texts ps"

fun user_text_from :: "pydict list \<Rightarrow> string" where
  "user_text_from [] = []"
| "user_text_from (m # ms) = (if get_value m ''role'' = PStr ''user''
     then (case get_default m ''content'' (PStr []) of
        PList parts \<Rightarrow> join [CHR 0x0A] (part_texts parts)
      | c \<Rightarrow> py_str c)
     else user_text_from ms)"

definition last_user_text :: "pydict list \<Rightarrow> string" where
  "last_user_text messages = user_text_from (rev messages)"

subsection \<open>Judging a response\<close>

definition verify_chat_response :: "pyval \<Rightarrow> verification_result" where
  "verify_chat_response response = (case chat_content response of
     Inl _ \<Rightarrow> verdict False ''chat_completion_shape@1'' ''missing_assistant_content'' []
   | Inr t \<Rightarrow> verify_non_empty_text (py_str t))"

definition ai_verifiers :: "string list" where
  "ai_verifiers = [''non_empty_text'', ''fallback_available'', ''source_fingerprint_match'', ''source_consistency'',
     ''freshness_check'', ''answer_citation_check'']"

definition citation_markers :: "string list" where
  "citation_markers = [''[source'', ''[1]'', ''citation'', ''http://'', ''https://'']"

text \<open>\<open>x.get(k, fallback)\<close> on a value that should be a dictionary.\<close>

definition get_from :: "pyval \<Rightarrow> string \<Rightarrow> pyval \<Rightarrow> pyval res" where
  "get_from v k fallback = (case v of PDict d \<Rightarrow> Inr (get_default d k fallback) | _ \<Rightarrow> Inl (OtherError ''AttributeError''))"

definition answer_text :: "pyval \<Rightarrow> string res" where
  "answer_text response = bindR (get_from response ''choices'' (PList [PDict []])) (\<lambda>c. bindR (at_zero c) (\<lambda>f.
     bindR (get_from f ''message'' (PDict [])) (\<lambda>m. map_res (\<lambda>t. casefold (py_str t)) (get_from m ''content'' (PStr [])))))"

definition unsupported_names :: "string list \<Rightarrow> string list \<Rightarrow> string list" where
  "unsupported_names required supported = sort (remdups (filter (\<lambda>n. n \<notin> set supported) (map before_at required)))"

definition verify_required_ai_verifiers :: "string list \<Rightarrow> verification_result \<Rightarrow> pyval \<Rightarrow> string list option \<Rightarrow> string
    \<Rightarrow> string \<Rightarrow> unit res" where
  "verify_required_ai_verifiers required primary response sources cache_result wu =
     (let names = set (map before_at required) in
      if unsupported_names required ai_verifiers \<noteq> []
        then Inl (verifier_failed ''required AI verifier is not implemented'' (Some wu)
          [(''unsupported'', strs (unsupported_names required ai_verifiers))])
      else if ''non_empty_text'' \<in> names \<and> \<not> vr_accepted primary
        then Inl (verifier_failed ''required non-empty text verifier failed'' (Some wu) (verification_to_dict primary))
      else if (''source_fingerprint_match'' \<in> names \<or> ''source_consistency'' \<in> names)
          \<and> (cache_result = ''exact_hit'' \<or> cache_result = ''semantic_hit'') \<and> sources = None
        then Inl (verifier_failed ''source fingerprint verification could not run'' (Some wu) [])
      else if ''answer_citation_check'' \<in> names \<and> sources \<noteq> None \<and> sources \<noteq> Some []
        then bindR (answer_text response) (\<lambda>txt. if list_ex (\<lambda>p. contains p txt) citation_markers then Inr ()
          else Inl (verifier_failed ''required answer citation verifier failed'' (Some wu)
            [(''required'', PStr ''answer_citation_check'')]))
      else Inr ())"

subsection \<open>Models outside the router\<close>

definition strongest_allowed :: "string list \<Rightarrow> string res" where
  "strongest_allowed allowed_models = (if ''frontier'' \<in> set allowed_models then Inr ''frontier''
     else if allowed_models = [] then Inl IndexError else Inr (last allowed_models))"

definition baseline_model :: "pydict \<Rightarrow> string list \<Rightarrow> string res" where
  "baseline_model request allowed_models =
     (let requested = py_str (get_default request ''model'' (PStr ''auto'')) in
      if requested \<noteq> [] \<and> requested \<noteq> ''auto'' then Inr requested else strongest_allowed allowed_models)"

definition fallback_model :: "string \<Rightarrow> string list \<Rightarrow> string res" where
  "fallback_model requested allowed_models =
     (if requested \<in> set allowed_models then Inr requested else strongest_allowed allowed_models)"

subsection \<open>Times of cache entries\<close>

text \<open>\<open>datetime.fromtimestamp(t, timezone.utc).isoformat()\<close>, rounding to microseconds, half to even;
  the epoch is 719162 days after the start of year 1.\<close>

definition round_half_even :: "real \<Rightarrow> int" where
  "round_half_even x = (let f = \<lfloor>x\<rfloor>; d = x - of_int f in
     if d < 1 / 2 \<or> (d = 1 / 2 \<and> even f) then f else f + 1)"

definition utc_text :: "real \<Rightarrow> string" where
  "utc_text t = isoformat (719162 * DAY + nat (round_half_even (t * 1000000)))"

definition cacheable_until :: "real \<Rightarrow> pydict \<Rightarrow> pyval res" where
  "cacheable_until now options = map_res (\<lambda>ttl. if 0 < ttl then PStr (utc_text (now + ttl)) else PNone) (cache_ttl_seconds options)"

subsection \<open>The mock provider\<close>

definition mock_chat :: "pydict \<Rightarrow> string \<Rightarrow> pyval" where
  "mock_chat request route =
     (let content = py_strip (''[mock:'' @ route @ ''] '' @ last_user_text (chat_messages request));
          asked = approximate_tokens (py_str (get_default request ''messages'' (PStr [])))
      in PDict [(''id'', PStr ''chatcmpl_mock''), (''object'', PStr ''chat.completion''), (''model'', PStr route),
         (''choices'', PList [PDict [(''index'', PInt 0),
            (''message'', PDict [(''role'', PStr ''assistant''), (''content'', PStr content)]), (''finish_reason'', PStr ''stop'')]]),
         (''usage'', PDict [(''prompt_tokens'', PInt (int asked)), (''completion_tokens'', PInt (int (approximate_tokens content))),
            (''total_tokens'', PInt (int (asked + approximate_tokens content)))])])"

end
