(* ===== verification/Gateway.thy ===== *)
theory Gateway
  imports Executor GatewayRequest
begin

text \<open>
  \<open>handle_chat_completion\<close> of \<open>python/urp/ai_gateway.py\<close>: a chat request is planned and approved, looked
  up in the exact and the semantic cache, sent to a provider with one fallback, verified, cached and
  recorded in a manifest. The provider is a parameter; \<open>gw_calls\<close> records what it was sent.
  Times are real numbers. Both caches are the ones on SQLite in the state directory.
\<close>

subsection \<open>State and surroundings\<close>

record gateway =
  gw_world :: world
  gw_cache :: sql_cache
  gw_semantic :: sem_sql
  gw_feedback :: "pydict list"
  gw_calls :: "(pydict \<times> string) list"

text \<open>\<open>ge_time\<close> is \<open>time.time()\<close> at each reading, \<open>ge_threshold\<close> the threshold of the semantic cache.\<close>

record gateway_env =
  ge_env :: env
  ge_provider :: "nat \<Rightarrow> pydict \<Rightarrow> string \<Rightarrow> pyval res"
  ge_time :: "nat \<Rightarrow> real"
  ge_threshold :: real

type_synonym 'a gio = "('a, gateway) sres"

definition on_world :: "'a io \<Rightarrow> 'a gio" where
  "on_world = zoom gw_world (\<lambda>w g. g\<lparr>gw_world := w\<rparr>)"

definition on_cache :: "('a, sql_cache) sres \<Rightarrow> 'a gio" where
  "on_cache = zoom gw_cache (\<lambda>c g. g\<lparr>gw_cache := c\<rparr>)"

definition on_semantic :: "('a, sem_sql) sres \<Rightarrow> 'a gio" where
  "on_semantic = zoom gw_semantic (\<lambda>c g. g\<lparr>gw_semantic := c\<rparr>)"

definition on_feedback :: "('a, pydict list) sres \<Rightarrow> 'a gio" where
  "on_feedback = zoom gw_feedback (\<lambda>f g. g\<lparr>gw_feedback := f\<rparr>)"

definition read_clock :: "gateway_env \<Rightarrow> real gio" where
  "read_clock ge = bindS (on_world draw) (\<lambda>n. retS (ge_time ge n))"

definition call_provider :: "gateway_env \<Rightarrow> pydict \<Rightarrow> string \<Rightarrow> pyval gio" where
  "call_provider ge request route = bindS (on_world draw) (\<lambda>n g.
     (ge_provider ge n request route, g\<lparr>gw_calls := gw_calls g @ [(request, route)]\<rparr>))"

subsection \<open>Intake\<close>

record chat_job =
  cj_unit :: work_unit
  cj_decision :: policy_decision
  cj_plan :: plan
  cj_mode :: string
  cj_request :: pydict
  cj_sources :: "string list"
  cj_text :: string
  cj_compiled :: compiled_context
  cj_messages :: "pydict list"
  cj_key :: string
  cj_ttl :: real
  cj_route :: model_route

definition job_options :: "chat_job \<Rightarrow> pydict" where
  "job_options j = urp_options (cj_request j)"

definition planned :: "chat_job \<Rightarrow> string \<Rightarrow> bool" where
  "planned j action = (action \<in> set (map pa_type (pl_actions (cj_plan j))))"

definition request_hash :: "pydict \<Rightarrow> pyval" where
  "request_hash normalized = PStr (stable_json_hash (PDict normalized))"

definition message_count :: "pydict \<Rightarrow> pyval" where
  "message_count normalized = PInt (int (length (chat_messages normalized)))"

definition chat_unit :: "env \<Rightarrow> nat \<Rightarrow> string \<Rightarrow> string \<Rightarrow> pydict \<Rightarrow> string list \<Rightarrow> contract \<Rightarrow> work_unit" where
  "chat_unit en n tenant ns normalized sources requested = \<lparr>wu_kind = PROMPT_REQUEST, wu_tenant = tenant,
     wu_logical_ref = ''openai://chat/completions'',
     wu_payload = PDict [(''request_hash'', request_hash normalized), (''messages_count'', message_count normalized),
       (''routing_text'', PStr (last_user_text (chat_messages normalized)))],
     wu_requested_contract = Some requested, wu_namespace = ns,
     wu_metadata = [(''source_fingerprints'', sorted_set sources)],
     wu_policy_context = (''allow_semantic_cache'', PBool (get_value (urp_options normalized) ''allow_semantic_cache'' = PBool True)) #
       (if truthy (get_value (urp_options normalized) ''approval_id'')
        then [(''approval_id'', get_value (urp_options normalized) ''approval_id'')] else []),
     wu_trace_id = e_ids en ''tr'' n, wu_id = e_ids en ''wu'' n, wu_created_at = e_clock en n, wu_payload_ref = PNone,
     wu_effective_contract = None, wu_deadline = None, wu_latency_budget_ms = None, wu_quality_target = []\<rparr>"

text \<open>The bundle of the call, or the active one: its name is looked up among the active names, so a
  number finds nothing and a list cannot be looked up.\<close>

definition chosen_bundle :: "env \<Rightarrow> pydict option \<Rightarrow> pyval \<Rightarrow> policy_state \<Rightarrow> pydict res" where
  "chosen_bundle en bundle wanted st = (case bundle of Some b \<Rightarrow> Inr b
     | None \<Rightarrow> map_res (\<lambda>b. case b of None \<Rightarrow> [] | Some b \<Rightarrow> b)
         (if \<not> truthy wanted then resolve_active_policy_bundle (e_vars en ''URP_ACTIVE_POLICY'') None st
          else case wanted of
            PStr s \<Rightarrow> resolve_active_policy_bundle (e_vars en ''URP_ACTIVE_POLICY'') (Some s) st
          | PList xs \<Rightarrow> Inl (TypeError ''unhashable type'')
          | PDict d \<Rightarrow> Inl (TypeError ''unhashable type'')
          | _ \<Rightarrow> Inr None))"

text \<open>Unlike the executor, the gateway leaves no event when no approval is named.\<close>

definition require_ai_approval :: "env \<Rightarrow> work_unit \<Rightarrow> policy_decision \<Rightarrow> unit io" where
  "require_ai_approval en wu d =
     (if \<not> pd_require_approval d then retS ()
      else let approval = get_value (wu_policy_context wu) ''approval_id'' in
        if \<not> truthy approval
        then raiseS (policy_denied ''policy requires an approved approval_id'' (Some (wu_id wu)) (Some (pd_bundle_id d)))
        else thenS (rethrowS lookup_failure (\<lambda>e. policy_denied (''approval verification failed: '' @ exc_text e)
               (Some (wu_id wu)) (Some (pd_bundle_id d)))
             (on_approvals (approval_verify (e_vars en ''URP_APPROVAL_SIGNING_KEY'') (e_random en) (e_now en)
               (py_str approval) wu (pd_contract d) (pd_bundle_id d))))
          (retS ()))"

definition announce_chat :: "env \<Rightarrow> work_unit \<Rightarrow> policy_decision \<Rightarrow> plan \<Rightarrow> pydict \<Rightarrow> string list \<Rightarrow> unit io" where
  "announce_chat en wu d p normalized sources =
     thenS (append_event en (unit_event wu d ''work_unit.received'' None []))
     (thenS (append_event en (unit_event wu d ''policy.evaluated'' (Some (contract_value (pd_contract d))) (decision_to_dict d)))
     (thenS (store_plan en p wu None [])
     (thenS (emit_log en (unit_log wu d ''ai.gateway.request'' ''AI gateway request received''
        [(''request_hash'', request_hash normalized), (''message_count'', message_count normalized),
         (''source_fingerprint_count'', PInt (int (card (set sources))))]))
     (thenS (emit_span en ''urp.intake'' (wu_trace_id wu) [(''work_unit_id'', PStr (wu_id wu)),
        (''tenant'', PStr (wu_tenant wu)), (''kind'', PStr ''prompt_request'')])
     (retS ())))))"

definition chat_intake :: "gateway_env \<Rightarrow> pydict \<Rightarrow> string \<Rightarrow> string \<Rightarrow> pydict option \<Rightarrow> string option \<Rightarrow> chat_job gio" where
  "chat_intake ge request tenant ns bundle mode = (let en = ge_env ge in
     bindS (liftR (execution_mode en mode)) (\<lambda>mode.
     thenS (liftR (require_execution_enabled en None))
     (bindS (liftR (normalize_openai_request request)) (\<lambda>normalized. let options = urp_options normalized in
     bindS (liftR (chat_fingerprints normalized)) (\<lambda>sources.
     bindS (liftR (contract_of (py_str (get_default options ''contract'' (PStr ''semantic''))))) (\<lambda>requested.
     bindS (on_world draw) (\<lambda>n. let wu = chat_unit en n tenant ns normalized sources requested in
     bindS (on_world (inspect (\<lambda>w. chosen_bundle en bundle (get_value options ''policy_bundle_id'') (w_policies w)))) (\<lambda>pb.
     bindS (liftR (evaluate_policy wu pb)) (\<lambda>d.
     bindS (liftR (plan_work_unit wu mode pb (Some d))) (\<lambda>p.
     thenS (on_world (require_ai_approval en wu d))
     (thenS (on_world (announce_chat en wu d p normalized sources))
     (bindS (liftR (py_int (get_default options ''max_context_tokens'' (PInt 4000)))) (\<lambda>most.
     bindS (liftR (cache_ttl_seconds options)) (\<lambda>ttl.
     (case compile_openai_messages (chat_messages normalized) most of (compiled, messages) \<Rightarrow>
     retS \<lparr>cj_unit = wu, cj_decision = d, cj_plan = p, cj_mode = mode, cj_request = normalized, cj_sources = sources,
       cj_text = last_user_text (chat_messages normalized), cj_compiled = compiled, cj_messages = messages,
       cj_key = exact_key tenant ns (PDict normalized) (Some sources), cj_ttl = ttl,
       cj_route = route_model wu (Some (pd_models d)) (Some (last_user_text (chat_messages normalized)))\<rparr>)))))))))))))))"

subsection \<open>Lookup\<close>

text \<open>A cached value that does not verify any more is removed.\<close>

definition exact_enabled :: "chat_job \<Rightarrow> bool" where
  "exact_enabled j = (cj_mode j = ''enforce'' \<and> 0 < cj_ttl j \<and> planned j ''exact_cache_lookup'')"

definition exact_lookup :: "gateway_env \<Rightarrow> chat_job \<Rightarrow> pyval option gio" where
  "exact_lookup ge j = (if \<not> exact_enabled j then retS None
     else bindS (read_clock ge) (\<lambda>now.
       bindS (on_cache (sqlc_get now (cj_key j) (wu_tenant (cj_unit j)) (wu_namespace (cj_unit j)) (Some (cj_sources j)))) (\<lambda>found.
       case found of None \<Rightarrow> retS None
       | Some v \<Rightarrow> if vr_accepted (verify_chat_response v) then retS (Some v)
           else thenS (on_cache (\<lambda>c. (Inr (), sqlc_delete (cj_key j) c))) (retS None))))"

definition semantic_enabled :: "chat_job \<Rightarrow> bool" where
  "semantic_enabled j = (cj_mode j = ''enforce'' \<and> get_value (job_options j) ''allow_semantic_cache'' = PBool True \<and> 0 < cj_ttl j
     \<and> pd_contract (cj_decision j) = SEMANTIC \<and> planned j ''semantic_cache_lookup'')"

definition semantic_threshold :: "gateway_env \<Rightarrow> chat_job \<Rightarrow> real res" where
  "semantic_threshold ge j = (case dget (job_options j) ''semantic_cache_threshold'' of
     None \<Rightarrow> Inr (ge_threshold ge) | Some v \<Rightarrow> float_value v)"

definition semantic_lookup :: "gateway_env \<Rightarrow> chat_job \<Rightarrow> sem_hit option gio" where
  "semantic_lookup ge j = (if \<not> semantic_enabled j then retS None
     else bindS (liftR (semantic_threshold ge j)) (\<lambda>threshold. bindS (read_clock ge) (\<lambda>now.
       on_semantic (sem_lookup_hit_sql (ge_threshold ge) now (wu_tenant (cj_unit j)) (wu_namespace (cj_unit j)) (cj_text j)
         (cj_sources j) ''general'' (Some threshold) (Some verify_chat_response)))))"

subsection \<open>Outcomes\<close>

record chat_outcome =
  co_response :: pyval
  co_cache :: string
  co_called :: bool
  co_fallback :: bool
  co_reason :: string
  co_score :: "real option"

definition job_event :: "env \<Rightarrow> chat_job \<Rightarrow> string \<Rightarrow> pydict \<Rightarrow> unit gio" where
  "job_event en j ty details = on_world (thenS (append_event en (unit_event (cj_unit j) (cj_decision j) ty None details)) (retS ()))"

definition job_log :: "env \<Rightarrow> chat_job \<Rightarrow> string \<Rightarrow> string \<Rightarrow> pydict \<Rightarrow> unit gio" where
  "job_log en j ty message details = on_world (thenS (emit_log en (unit_log (cj_unit j) (cj_decision j) ty message details)) (retS ()))"

definition job_failure_log :: "env \<Rightarrow> chat_job \<Rightarrow> string \<Rightarrow> string \<Rightarrow> string \<Rightarrow> pydict \<Rightarrow> unit gio" where
  "job_failure_log en j severity ty message details = on_world (thenS (emit_log en ((unit_log (cj_unit j) (cj_decision j) ty message details)
     \<lparr>le_severity := severity, le_error_code := Some ''verifier_failed''\<rparr>)) (retS ()))"

definition job_span :: "env \<Rightarrow> chat_job \<Rightarrow> string \<Rightarrow> pydict \<Rightarrow> unit gio" where
  "job_span en j nm attributes = on_world (thenS (emit_span en nm (wu_trace_id (cj_unit j)) ((''work_unit_id'', PStr (wu_id (cj_unit j))) # attributes)) (retS ()))"

definition tally :: "string \<Rightarrow> int \<Rightarrow> unit gio" where
  "tally nm v = on_world (count nm v)"

definition exact_hit :: "env \<Rightarrow> chat_job \<Rightarrow> pyval \<Rightarrow> chat_outcome gio" where
  "exact_hit en j v =
     thenS (job_event en j ''cache.exact.hit'' [(''cache_key'', PStr (cj_key j))])
     (thenS (job_log en j ''cache.exact.hit'' ''exact cache hit'' [(''cache_key'', PStr (cj_key j)), (''cache_type'', PStr ''exact'')])
     (thenS (job_span en j ''urp.cache.lookup'' [(''cache_result'', PStr ''exact_hit''), (''cache_type'', PStr ''exact'')])
     (thenS (tally ''urp_cache_hits_total'' 1)
     (thenS (tally ''urp_ai_large_model_calls_avoided_total'' 1)
     (retS \<lparr>co_response = v, co_cache = ''exact_hit'', co_called = False, co_fallback = False, co_reason = [], co_score = None\<rparr>)))))"

definition semantic_hit :: "env \<Rightarrow> chat_job \<Rightarrow> sem_hit \<Rightarrow> chat_outcome gio" where
  "semantic_hit en j h =
     thenS (job_event en j ''ai.semantic_cache.accepted'' [(''source_fingerprints_match'', PBool True),
        (''score'', e_float en (sh_score h)), (''cache_key'', PStr (sh_key h))])
     (thenS (job_log en j ''ai.semantic_cache.accepted'' ''semantic cache accepted'' [(''source_fingerprints_match'', PBool True)])
     (thenS (job_span en j ''urp.cache.lookup'' [(''cache_result'', PStr ''semantic_hit''), (''cache_type'', PStr ''semantic'')])
     (thenS (tally ''urp_cache_hits_total'' 1)
     (thenS (tally ''urp_ai_large_model_calls_avoided_total'' 1)
     (retS \<lparr>co_response = sh_value h, co_cache = ''semantic_hit'', co_called = False, co_fallback = False, co_reason = [],
        co_score = Some (sh_score h)\<rparr>)))))"

subsection \<open>The provider\<close>

definition context_applied :: "chat_job \<Rightarrow> bool" where
  "context_applied j = (cj_mode j = ''enforce'' \<and> planned j ''context_compile'')"

definition provider_request :: "chat_job \<Rightarrow> pydict" where
  "provider_request j = (if context_applied j then dset ''messages'' (PList (map PDict (cj_messages j))) (cj_request j)
     else cj_request j)"

definition selected_route :: "chat_job \<Rightarrow> string res" where
  "selected_route j = (if cj_mode j = ''enforce'' \<and> planned j ''model_route'' then Inr (mr_model (cj_route j))
     else baseline_model (cj_request j) (pd_models (cj_decision j)))"

definition announce_route :: "env \<Rightarrow> chat_job \<Rightarrow> unit gio" where
  "announce_route en j =
     (let r = [(''route'', PStr (mr_model (cj_route j))), (''reason'', PStr (mr_reason (cj_route j)))] in
     thenS (job_span en j ''urp.ai.route'' r) (job_log en j ''ai.model.routed'' ''AI model routed'' r))"

definition announce_fallback :: "env \<Rightarrow> chat_job \<Rightarrow> verification_result \<Rightarrow> unit gio" where
  "announce_fallback en j v =
     thenS (job_event en j ''ai.fallback.invoked'' (verification_to_dict v))
     (thenS (job_failure_log en j ''warning'' ''ai.fallback.invoked'' ''AI fallback invoked'' (verification_to_dict v))
     (tally ''urp_ai_fallbacks_total'' 1))"

text \<open>The answer, and the verdict on the first answer when it was refused.\<close>

definition ask_provider :: "gateway_env \<Rightarrow> chat_job \<Rightarrow> (pyval \<times> verification_result option) gio" where
  "ask_provider ge j =
     bindS (liftR (selected_route j)) (\<lambda>route.
     bindS (call_provider ge (if cj_mode j = ''enforce'' then provider_request j else cj_request j) route) (\<lambda>response.
     (let v = verify_chat_response response in
      if vr_accepted v then retS (response, None)
      else thenS (announce_fallback (ge_env ge) j v)
       (bindS (liftR (fallback_model (mr_fallback (cj_route j)) (pd_models (cj_decision j)))) (\<lambda>route.
        bindS (call_provider ge (cj_request j) route) (\<lambda>response. retS (response, Some v)))))))"

definition keep_response :: "gateway_env \<Rightarrow> chat_job \<Rightarrow> pyval \<Rightarrow> unit gio" where
  "keep_response ge j response =
     thenS (if cj_mode j = ''enforce'' \<and> 0 < cj_ttl j \<and> planned j ''cache_store''
       then bindS (read_clock ge) (\<lambda>now. bindS (read_clock ge) (\<lambda>later. on_cache (sqlc_put later
         \<lparr>ce_key = cj_key j, ce_tenant = wu_tenant (cj_unit j), ce_namespace = wu_namespace (cj_unit j), ce_value = response,
          ce_sources = cj_sources j, ce_verified = True, ce_expires = Some (now + cj_ttl j)\<rparr>)))
       else retS ())
     (if semantic_enabled j
       then bindS (read_clock ge) (\<lambda>now. thenS (on_semantic (sem_store sem_put_sql now (wu_tenant (cj_unit j))
         (wu_namespace (cj_unit j)) (cj_text j) response (cj_sources j) (verify_chat_response response) ''general'' (Some (cj_ttl j))))
         (retS ()))
       else retS ())"

definition refuse_response :: "env \<Rightarrow> chat_job \<Rightarrow> verification_result \<Rightarrow> unit gio" where
  "refuse_response en j v =
     thenS (job_event en j ''verifier.failed'' (verification_to_dict v))
     (thenS (job_failure_log en j ''error'' ''verifier.failed'' ''AI verifier failed after fallback'' (verification_to_dict v))
     (thenS (tally ''urp_verifier_failures_total'' 1)
     (raiseS (verifier_failed ''AI verifier failed after fallback'' (Some (wu_id (cj_unit j))) (verification_to_dict v)))))"

definition required_ok :: "chat_job \<Rightarrow> pyval \<Rightarrow> string \<Rightarrow> unit res" where
  "required_ok j response cache_result = verify_required_ai_verifiers (pd_required (cj_decision j)) (verify_chat_response response)
     response (Some (cj_sources j)) cache_result (wu_id (cj_unit j))"

definition response_model :: "pyval \<Rightarrow> pyval" where
  "response_model response = get_value (dict_of response) ''model''"

definition announce_answer :: "env \<Rightarrow> chat_job \<Rightarrow> pyval \<Rightarrow> bool \<Rightarrow> bool \<Rightarrow> unit gio" where
  "announce_answer en j response fell_back accepted = (let r = cj_route j in
     thenS (job_event en j ''cache.exact.miss'' [(''cache_key'', PStr (cj_key j))])
     (thenS (job_event en j ''ai.model.routed'' [(''route'', PStr (mr_model r)), (''final_model'', response_model response),
        (''fallback_used'', PBool fell_back), (''reason'', PStr (mr_reason r))])
     (thenS (job_log en j ''cache.exact.miss'' ''exact cache miss'' [(''cache_key'', PStr (cj_key j)), (''cache_type'', PStr ''exact'')])
     (thenS (bindS (on_world draw) (\<lambda>n. on_feedback (feedback_record (e_clock en n) (cj_unit j) r accepted (PFloat 0 1))))
     (thenS (tally ''urp_cache_misses_total'' 1)
     (if response_model response = PStr ''frontier'' then tally ''urp_ai_large_model_calls_total'' 1 else retS ()))))))"

text \<open>What follows the answer: it is checked and kept, or the request fails.\<close>

definition settle_answer :: "gateway_env \<Rightarrow> chat_job \<Rightarrow> pyval \<Rightarrow> verification_result option \<Rightarrow> chat_outcome gio" where
  "settle_answer ge j response refused = (let en = ge_env ge; v = verify_chat_response response in
     thenS (if vr_accepted v then thenS (liftR (required_ok j response ''miss'')) (keep_response ge j response)
       else refuse_response en j v)
     (thenS (announce_answer en j response (refused \<noteq> None) (vr_accepted v))
     (retS \<lparr>co_response = response, co_cache = ''miss'', co_called = True, co_fallback = refused \<noteq> None,
        co_reason = (case refused of None \<Rightarrow> [] | Some v \<Rightarrow> vr_reason v), co_score = None\<rparr>)))"

definition provider_answer :: "gateway_env \<Rightarrow> chat_job \<Rightarrow> chat_outcome gio" where
  "provider_answer ge j = thenS (announce_route (ge_env ge) j)
     (bindS (ask_provider ge j) (\<lambda>x. settle_answer ge j (fst x) (snd x)))"

definition chat_answer :: "gateway_env \<Rightarrow> chat_job \<Rightarrow> chat_outcome gio" where
  "chat_answer ge j = bindS (exact_lookup ge j) (\<lambda>cached. case cached of
       Some v \<Rightarrow> exact_hit (ge_env ge) j v
     | None \<Rightarrow> bindS (semantic_lookup ge j) (\<lambda>hit. case hit of
         Some h \<Rightarrow> semantic_hit (ge_env ge) j h
       | None \<Rightarrow> provider_answer ge j))"

subsection \<open>The record of a request\<close>

definition joules_avoided :: "bool \<Rightarrow> pyval" where
  "joules_avoided called = (if called then PFloat 0 1 else PFloat 10 1)"

definition input_tokens :: "pydict \<Rightarrow> int" where
  "input_tokens normalized = int (approximate_tokens (py_str (get_default normalized ''messages'' (PStr []))))"

definition compute_manifest :: "chat_job \<Rightarrow> chat_outcome \<Rightarrow> pyval \<Rightarrow> pydict" where
  "compute_manifest j r until = (let o' = job_options j; m = get_default (dict_of (co_response r)) ''model'' (PStr ''mock'') in [
     (''request'', PDict [(''request_hash'', request_hash (cj_request j)), (''tenant'', PStr (wu_tenant (cj_unit j))),
        (''task_type'', PStr ''prompt_request''),
        (''input_tokens'', PInt (input_tokens (cj_request j)))]),
     (''contract'', PDict [(''quality_required'', get_default o' ''quality'' (PStr ''standard'')),
        (''latency_budget_ms'', get_default o' ''latency_budget_ms'' (PInt 0)),
        (''freshness_required_seconds'', get_default o' ''freshness_required_seconds'' (PInt 0)),
        (''privacy_scope'', PStr ''tenant_namespace'')]),
     (''plan'', PDict [(''cache_checked'', PBool True), (''tools_checked'', PList []),
        (''context_tokens_before'', PInt (int (cx_before (cj_compiled j)))),
        (''context_tokens_after'', PInt (int (cx_after (cj_compiled j)))), (''context_applied'', PBool (context_applied j)),
        (''selected_model'', m), (''fallback_model'', PStr ''frontier''), (''mode'', PStr (cj_mode j))]),
     (''result'', PDict [(''accepted_by_verifier'', PBool (vr_accepted (verify_chat_response (co_response r)))),
        (''fallback_used'', PBool (co_fallback r)), (''fallback_reason'', PStr (co_reason r)),
        (''large_model_called'', PBool (co_called r \<and> response_model (co_response r) = PStr ''frontier'')),
        (''cacheable_until'', until), (''estimated_joules_avoided'', joules_avoided (co_called r))])])"

definition tokens_removable :: "chat_job \<Rightarrow> int" where
  "tokens_removable j = int (cx_before (cj_compiled j)) - int (cx_after (cj_compiled j))"

definition chat_manifest :: "env \<Rightarrow> chat_job \<Rightarrow> chat_outcome \<Rightarrow> pydict \<Rightarrow> nat \<Rightarrow> manifest" where
  "chat_manifest en j r compute n = \<lparr>mf_work_unit_id = wu_id (cj_unit j), mf_tenant = wu_tenant (cj_unit j),
     mf_kind = PROMPT_REQUEST, mf_contract = pd_contract (cj_decision j), mf_logical_ref = wu_logical_ref (cj_unit j),
     mf_state = (if cj_mode j = ''enforce'' then ''active'' else if cj_mode j = ''observe'' then ''planned'' else ''superseded''),
     mf_namespace = wu_namespace (cj_unit j), mf_trace_id = Some (wu_trace_id (cj_unit j)),
     mf_policy = decision_to_dict (cj_decision j),
     mf_classification = [(''ai_task_hint'', PStr ''general''), (''raw_prompt_logged'', PBool False)],
     mf_physical = [(''compute_manifest'', PDict compute), (''request_hash'', request_hash (cj_request j)),
       (''cache_key'', PStr (cj_key j)), (''cache_result'', PStr (co_cache r)),
       (''semantic_hit_score'', case co_score r of None \<Rightarrow> PNone | Some x \<Rightarrow> e_float en x)],
     mf_plan = plan_to_dict (cj_plan j), mf_verification = verification_to_dict (verify_chat_response (co_response r)),
     mf_lineage = [],
     mf_telemetry = [(''mode'', PStr (cj_mode j)),
       (''tokens_removed'', PInt (if context_applied j then tokens_removable j else 0)),
       (''tokens_removable'', PInt (tokens_removable j)), (''provider_called'', PBool (co_called r))],
     mf_signatures = [], mf_manifest_version = ''urp.manifest.v1'', mf_manifest_id = e_ids en ''mf'' n, mf_created_at = e_clock en n\<rparr>"

definition announce_chat_manifest :: "env \<Rightarrow> chat_job \<Rightarrow> chat_outcome \<Rightarrow> manifest \<Rightarrow> unit io" where
  "announce_chat_manifest en j r m = (let wu = cj_unit j; d = cj_decision j in
     thenS (append_event en (manifest_event wu d m ''manifest.written'' []))
     (thenS (emit_log en ((unit_log wu d ''manifest.written'' ''manifest written''
          [(''kind'', PStr ''prompt_request''), (''cache_result'', PStr (co_cache r)), (''provider_called'', PBool (co_called r))])
          \<lparr>le_manifest_id := Some (mf_manifest_id m)\<rparr>))
     (thenS (emit_span en ''urp.manifest.write'' (wu_trace_id wu)
          [(''work_unit_id'', PStr (wu_id wu)), (''manifest_id'', PStr (mf_manifest_id m))])
     (retS ()))))"

definition urp_fields :: "chat_job \<Rightarrow> chat_outcome \<Rightarrow> manifest \<Rightarrow> pydict" where
  "urp_fields j r m = [(''work_unit_id'', PStr (wu_id (cj_unit j))), (''manifest_id'', PStr (mf_manifest_id m)),
     (''cache'', PStr (co_cache r)), (''route'', get_default (dict_of (co_response r)) ''model'' (PStr ''mock'')),
     (''fallback_used'', PBool (co_fallback r)),
     (''verifier'', PStr (vr_verifier_id (verify_chat_response (co_response r)))), (''mode'', PStr (cj_mode j)),
     (''context_applied'', PBool (context_applied j)), (''trace_id'', PStr (wu_trace_id (cj_unit j)))]"

definition write_chat_manifest :: "env \<Rightarrow> chat_job \<Rightarrow> chat_outcome \<Rightarrow> pydict \<Rightarrow> manifest io" where
  "write_chat_manifest en j r compute = bindS draw (\<lambda>n. let m = chat_manifest en j r compute n in
     thenS (put_manifest en m) (thenS (announce_chat_manifest en j r m) (retS m)))"

definition chat_finish :: "gateway_env \<Rightarrow> chat_job \<Rightarrow> chat_outcome \<Rightarrow> pydict gio" where
  "chat_finish ge j r = (let en = ge_env ge in
     thenS (liftR (required_ok j (co_response r) (co_cache r)))
     (bindS (if cj_mode j = ''enforce'' then bindS (read_clock ge) (\<lambda>now. liftR (cacheable_until now (job_options j))) else retS PNone) (\<lambda>until.
     thenS (liftR (e_schemas en ''compute_manifest'' (compute_manifest j r until)))
     (bindS (on_world (write_chat_manifest en j r (compute_manifest j r until))) (\<lambda>m.
     thenS (thenS (tally ''urp_work_units_total'' 1)
       (thenS (tally ''urp_ai_input_tokens_total'' (input_tokens (cj_request j)))
       (tally ''urp_ai_context_tokens_removed_total'' (max 0 (tokens_removable j)))))
     (retS (dset ''urp'' (PDict (urp_fields j r m)) (dict_of (co_response r)))))))))"

definition handle_chat_completion :: "gateway_env \<Rightarrow> pydict \<Rightarrow> string \<Rightarrow> string \<Rightarrow> pydict option \<Rightarrow> string option \<Rightarrow> pydict gio" where
  "handle_chat_completion ge request tenant ns bundle mode =
     bindS (chat_intake ge request tenant ns bundle mode) (\<lambda>j. bindS (chat_answer ge j) (\<lambda>r. chat_finish ge j r))"

subsection \<open>Completions and models\<close>

fun replace_first :: "string \<Rightarrow> string \<Rightarrow> string \<Rightarrow> string" where
  "replace_first old new [] = []"
| "replace_first old new (c # cs) = (if prefix old (c # cs) then new @ drop (length old) (c # cs) else c # replace_first old new cs)"

definition completion_request :: "pydict \<Rightarrow> pydict" where
  "completion_request request = [(''model'', get_default request ''model'' (PStr ''auto'')),
     (''messages'', PList [PDict [(''role'', PStr ''user''), (''content'', PStr (case get_default request ''prompt'' (PStr []) of
        PList xs \<Rightarrow> join [CHR 0x0A] (map py_str xs) | v \<Rightarrow> py_str v))]]),
     (''temperature'', get_default request ''temperature'' (PInt 0)), (''tools'', get_default request ''tools'' (PList [])),
     (''urp'', get_default request ''urp'' (PDict []))]"

definition completion_response :: "pydict \<Rightarrow> pydict \<Rightarrow> pydict res" where
  "completion_response request response =
     bindR (bindR (item response ''choices'') at_zero) (\<lambda>choice.
     bindR (bindR (at_key choice ''message'') (\<lambda>m. at_key m ''content'')) (\<lambda>txt.
     bindR (get_from choice ''index'' (PInt 0)) (\<lambda>index.
     bindR (get_from choice ''finish_reason'' (PStr ''stop'')) (\<lambda>reason.
     bindR (item response ''urp'') (\<lambda>u.
     Inr [(''id'', PStr (replace_first ''chatcmpl'' ''cmpl'' (py_str (get_default response ''id'' (PStr ''chatcmpl_mock''))))),
       (''object'', PStr ''text_completion''),
       (''model'', get_default response ''model'' (get_default request ''model'' (PStr ''auto''))),
       (''choices'', PList [PDict [(''index'', index), (''text'', txt), (''finish_reason'', reason)]]),
       (''usage'', get_default response ''usage'' (PDict [])), (''urp'', u)])))))"

definition handle_completion :: "gateway_env \<Rightarrow> pydict \<Rightarrow> string \<Rightarrow> string \<Rightarrow> pydict option \<Rightarrow> string option \<Rightarrow> pydict gio" where
  "handle_completion ge request tenant ns bundle mode =
     bindS (handle_chat_completion ge (completion_request request) tenant ns bundle mode) (\<lambda>response.
       liftR (completion_response request response))"

definition list_models :: pydict where
  "list_models = [(''object'', PStr ''list''), (''data'', PList (map (\<lambda>m. PDict [(''id'', PStr m), (''object'', PStr ''model''),
     (''owned_by'', PStr ''urp-mock'')]) [''tiny'', ''small'', ''medium'', ''frontier'']))]"

end
