(* ===== verification/Vectors.thy ===== *)
theory Vectors
  imports GatewayRequest "HOL-Library.While_Combinator"
begin

text \<open>
  The functions of \<open>python/urp/ai_gateway.py\<close> behind an embedding request: its normal form, the
  vectors (bytes of a digest that is prolonged until it is long enough), and their two encodings,
  a list of floats and the base64 text of single precision floats.
\<close>

subsection \<open>Floats of bytes\<close>

text \<open>An entry of a vector is the float nearest to \<open>k / 255\<close> for a byte \<open>k\<close>: \<open>byte_double k\<close> divided by
  \<open>2 ^ byte_exponent k\<close>. Its \<open>repr\<close> has the fewest decimals that round to the same float.\<close>

definition rounded_ratio :: "nat \<Rightarrow> nat \<Rightarrow> nat" where
  "rounded_ratio p q = (let f = p div q; r = p mod q in if 2 * r < q \<or> (2 * r = q \<and> even f) then f else f + 1)"

definition byte_exponent :: "nat \<Rightarrow> nat" where
  "byte_exponent k = 52 + length (takeWhile (\<lambda>i. k * 2 ^ i < 255) [0..<8])"

definition byte_double :: "nat \<Rightarrow> nat" where
  "byte_double k = rounded_ratio (k * 2 ^ byte_exponent k) 255"

definition byte_decimal :: "nat \<Rightarrow> nat \<Rightarrow> nat" where
  "byte_decimal k n = rounded_ratio (byte_double k * 10 ^ n) (2 ^ byte_exponent k)"

definition byte_decimals :: "nat \<Rightarrow> nat" where
  "byte_decimals k = 1 + length (takeWhile
     (\<lambda>n. rounded_ratio (byte_decimal k n * 2 ^ byte_exponent k) (10 ^ n) \<noteq> byte_double k) [1..<19])"

definition byte_float :: "nat \<Rightarrow> pyval" where
  "byte_float k = (if k = 0 then PFloat 0 1 else PFloat (int (byte_decimal k (byte_decimals k))) (byte_decimals k))"

text \<open>\<open>struct.pack("<f", k / 255)\<close> as the number its four bytes spell.\<close>

definition byte_single :: "nat \<Rightarrow> nat" where
  "byte_single k = (if k = 0 then 0 else (178 - byte_exponent k) * 2 ^ 23 + rounded_ratio (byte_double k) (2 ^ 29))"

definition le_bytes :: "nat \<Rightarrow> bytes" where
  "le_bytes n = map (\<lambda>i. word_of_nat (n div 256 ^ i)) [0..<4]"

text \<open>The exact decimal of a single precision float. Values have no infinity and no NaN; where the
  code reads one, only whether it is a number matters, and it stands as 0.\<close>

definition single_float :: "nat \<Rightarrow> pyval" where
  "single_float n = (let negative = 2 ^ 31 \<le> n; ex = n div 2 ^ 23 mod 256; f = n mod 2 ^ 23;
       m = (if ex = 0 then f else 2 ^ 23 + f); place = max 1 ex; v = (if negative then - int m else int m) in
     if ex = 255 then PFloat 0 1
     else if 150 \<le> place then PFloat (v * 2 ^ (place - 150) * 10) 1
     else PFloat (v * 5 ^ (150 - place)) (150 - place))"

fun le_singles :: "bytes \<Rightarrow> pyval list" where
  "le_singles (a # b # c # d # bs) = single_float (unat a + 256 * (unat b + 256 * (unat c + 256 * unat d))) # le_singles bs"
| "le_singles bs = []"

subsection \<open>Vectors\<close>

definition embedding_size :: "pyval \<Rightarrow> nat" where
  "embedding_size dimensions = nat (max 1 (min (if truthy dimensions
     then (case py_int dimensions of Inr n \<Rightarrow> n | Inl _ \<Rightarrow> 8) else 8) 4096))"

definition longer_digest :: "string \<Rightarrow> string" where
  "longer_digest digest = digest @ stable_json_hash (PDict [(''seed'', PStr digest)])"

function digest_stream :: "nat \<Rightarrow> string \<Rightarrow> string" where
  "digest_stream n digest = (if length digest < n then digest_stream n (longer_digest digest) else digest)"
  by pat_completeness auto
termination
  by (relation "measure (\<lambda>(n, digest). n - length digest)") (auto simp: longer_digest_def stable_json_hash_def)

declare digest_stream.simps [simp del]

text \<open>\<open>int(digest[i:i + 2], 16)\<close> for lower case digits.\<close>

definition hex_value :: "char \<Rightarrow> nat" where
  "hex_value c = (let n = of_char c in if n < 58 then n - 48 else n - 87)"

fun hex_pairs :: "string \<Rightarrow> nat list" where
  "hex_pairs (a # b # cs) = (16 * hex_value a + hex_value b) # hex_pairs cs"
| "hex_pairs cs = []"

definition embedding_digest :: "string \<Rightarrow> pyval \<Rightarrow> string \<Rightarrow> string" where
  "embedding_digest tenant model txt = stable_json_hash (PDict [(''tenant'', PStr tenant), (''input'', PStr txt), (''model'', model)])"

definition embedding_vector :: "string \<Rightarrow> pyval \<Rightarrow> string \<Rightarrow> pyval \<Rightarrow> nat list" where
  "embedding_vector tenant model txt dimensions =
     (let digits = embedding_size dimensions * 2 in hex_pairs (take digits (digest_stream digits (embedding_digest tenant model txt))))"

definition vector_values :: "nat list \<Rightarrow> pyval" where
  "vector_values v = PList (map byte_float v)"

definition encode_embedding :: "nat list \<Rightarrow> string \<Rightarrow> pyval" where
  "encode_embedding v format = (if format = ''float'' then vector_values v
     else PStr (b64encode (concat (map (le_bytes \<circ> byte_single) v))))"

definition decode_embedding :: "pyval \<Rightarrow> string \<Rightarrow> pyval list" where
  "decode_embedding value format =
     (if format = ''float'' then (case value of PList xs \<Rightarrow> xs | _ \<Rightarrow> [])
      else case value of PStr s \<Rightarrow> (case b64decode s of None \<Rightarrow> []
          | Some raw \<Rightarrow> if length raw mod 4 \<noteq> 0 then [] else le_singles raw)
        | _ \<Rightarrow> [])"

subsection \<open>The normal form of a request\<close>

definition embedding_dimensions :: "pyval \<Rightarrow> pyval res" where
  "embedding_dimensions dimensions = (if dimensions = PNone then Inr PNone
     else bindR (py_int dimensions) (\<lambda>n. if n < 1 \<or> 4096 < n then Inl (ValueError ''dimensions must be between 1 and 4096'')
       else Inr (PInt n)))"

definition normalize_embedding_request :: "pydict \<Rightarrow> pydict res" where
  "normalize_embedding_request request = (let format = py_str (get_default request ''encoding_format'' (PStr ''float'')) in
     if format \<noteq> ''float'' \<and> format \<noteq> ''base64'' then Inl (ValueError ''encoding_format must be float or base64'')
     else bindR (embedding_dimensions (get_value request ''dimensions'')) (\<lambda>dimensions.
       Inr [(''model'', get_default request ''model'' (PStr ''mock-embedding'')),
         (''input'', get_default request ''input'' (PStr [])), (''encoding_format'', PStr format),
         (''dimensions'', dimensions), (''urp'', get_default request ''urp'' (PDict []))]))"

definition embedding_fingerprints :: "pydict \<Rightarrow> string list res" where
  "embedding_fingerprints normalized =
     bindR (get_from (get_value normalized ''urp'') ''source_fingerprints'' PNone) (\<lambda>explicit.
       if truthy explicit then map_res (map py_str) (iterate explicit) else Inr [])"

definition embedding_inputs :: "pyval \<Rightarrow> string list" where
  "embedding_inputs v = (case v of PList xs \<Rightarrow> map py_str xs | _ \<Rightarrow> [py_str v])"

definition embedding_verifiers :: "string list" where
  "embedding_verifiers = [''embedding_shape'', ''fallback_available'', ''freshness_check'', ''source_fingerprint_match'',
     ''source_consistency'']"

definition verify_required_embedding_verifiers :: "string list \<Rightarrow> verification_result \<Rightarrow> string \<Rightarrow> unit res" where
  "verify_required_embedding_verifiers required primary wu =
     (if unsupported_names required embedding_verifiers \<noteq> []
        then Inl (verifier_failed ''required embedding verifier is not implemented'' (Some wu)
          [(''unsupported'', strs (unsupported_names required embedding_verifiers))])
      else if ''embedding_shape'' \<in> set (map before_at required) \<and> \<not> vr_accepted primary
        then Inl (verifier_failed ''required embedding shape verifier failed'' (Some wu) (verification_to_dict primary))
      else Inr ())"

subsection \<open>The digest is prolonged until it is long enough\<close>

lemma longer_digest_length [simp]: "length (longer_digest d) = length d + 64"
  by (simp add: longer_digest_def stable_json_hash_def)

lemma digest_stream_long: "n \<le> length (digest_stream n d)"
  by (induction n d rule: digest_stream.induct) (subst digest_stream.simps, simp)

lemma digest_stream_bound: "length (digest_stream n d) < max (length d + 1) (n + 64)"
proof (induction n d rule: digest_stream.induct)
  case (1 n d)
  then show ?case by (cases "length d < n") (auto simp: digest_stream.simps [of n d])
qed

lemma digest_stream_prefix: "prefix d (digest_stream n d)"
proof (induction n d rule: digest_stream.induct)
  case (1 n d)
  have "prefix d (longer_digest d)" by (simp add: longer_digest_def)
  with 1 show ?case
    by (cases "length d < n") (auto simp: digest_stream.simps [of n d] intro: prefix_order.trans)
qed

text \<open>
  The loop that prolongs the digest of an embedding ends: run as a while loop it
  yields the digest stream, which prolongs the digest it started from, has the digits asked for
  and less than one block more.
\<close>

theorem digest_loop_ends:
  "while_option (\<lambda>d. length d < n) (\<lambda>d. d @ stable_json_hash (PDict [(''seed'', PStr d)])) d = Some (digest_stream n d)
   \<and> prefix d (digest_stream n d) \<and> n \<le> length (digest_stream n d) \<and> length (digest_stream n d) < max (length d + 1) (n + 64)"
proof (intro conjI digest_stream_prefix digest_stream_long digest_stream_bound)
  show "while_option (\<lambda>d. length d < n) (\<lambda>d. d @ stable_json_hash (PDict [(''seed'', PStr d)])) d = Some (digest_stream n d)"
  proof (induction n d rule: digest_stream.induct)
    case (1 n d)
    then show ?case
      by (subst while_option_unfold) (simp add: digest_stream.simps [of n d] longer_digest_def)
  qed
qed

subsection \<open>The shape of a vector\<close>

lemma hash_chars: "c \<in> set (stable_json_hash v) \<Longrightarrow> c \<in> hex_chars"
  by (auto simp: stable_json_hash_def intro: sha256_hex_chars)

lemma digest_stream_chars: "set d \<subseteq> hex_chars \<Longrightarrow> set (digest_stream n d) \<subseteq> hex_chars"
proof (induction n d rule: digest_stream.induct)
  case (1 n d)
  have "set (longer_digest d) \<subseteq> hex_chars" using 1(2) by (auto simp: longer_digest_def hash_chars)
  with 1 show ?case by (cases "length d < n") (auto simp: digest_stream.simps [of n d])
qed

lemma hex_value_less: "c \<in> hex_chars \<Longrightarrow> hex_value c < 16"
  by (auto simp: hex_chars_def hex_value_def)

lemma hex_pairs_length: "length (hex_pairs s) = length s div 2"
  by (induction s rule: hex_pairs.induct) auto

lemma hex_pairs_less: "set s \<subseteq> hex_chars \<Longrightarrow> x \<in> set (hex_pairs s) \<Longrightarrow> x < 256"
proof (induction s rule: hex_pairs.induct)
  case (1 a b cs)
  have "16 * hex_value a + hex_value b < 256" using hex_value_less [of a] hex_value_less [of b] 1(2) by simp
  with 1 show ?case by auto
qed auto

lemma embedding_size_bounds: "1 \<le> embedding_size d" "embedding_size d \<le> 4096"
  by (auto simp: embedding_size_def)

lemma embedding_vector_length: "length (embedding_vector t m x d) = embedding_size d"
  using digest_stream_long [of "embedding_size d * 2" "embedding_digest t m x"]
  by (simp add: embedding_vector_def Let_def hex_pairs_length min_absorb2)

lemma embedding_vector_bytes: "k \<in> set (embedding_vector t m x d) \<Longrightarrow> k < 256"
proof -
  let ?n = "embedding_size d * 2"
  have "set (digest_stream ?n (embedding_digest t m x)) \<subseteq> hex_chars"
    by (rule digest_stream_chars) (auto simp: embedding_digest_def hash_chars)
  then have "set (take ?n (digest_stream ?n (embedding_digest t m x))) \<subseteq> hex_chars" using set_take_subset by fast
  then show "k \<in> set (embedding_vector t m x d) \<Longrightarrow> k < 256"
    by (auto simp: embedding_vector_def Let_def dest: hex_pairs_less)
qed

lemma vector_is_vector: "v \<noteq> [] \<Longrightarrow> is_vector (vector_values v)"
  by (auto simp: vector_values_def byte_float_def list_all_iff)

subsection \<open>The encodings of a vector\<close>

lemma rounded_ratio_near:
  assumes "0 < q"
  shows "\<bar>real (rounded_ratio p q) - real p / real q\<bar> \<le> 1 / 2"
proof -
  have p: "real p / real q = real (p div q) + real (p mod q) / real q"
    using assms by (simp add: field_simps flip: of_nat_mult of_nat_add)
  have "0 \<le> real (p mod q) / real q" "real (p mod q) / real q \<le> 1" using assms by (simp_all add: less_imp_le)
  moreover have "real (p mod q) / real q \<le> 1 / 2" if "2 * (p mod q) \<le> q"
    using that assms by (simp add: divide_le_eq flip: of_nat_mult)
  moreover have "1 / 2 \<le> real (p mod q) / real q" if "q \<le> 2 * (p mod q)"
    using that assms by (simp add: le_divide_eq flip: of_nat_mult)
  ultimately show ?thesis
    unfolding p by (auto simp: rounded_ratio_def Let_def abs_le_iff)
qed

lemma rounded_ratio_bounds:
  assumes "0 < q" "a * q \<le> p" "p \<le> b * q"
  shows "a \<le> rounded_ratio p q \<and> rounded_ratio p q \<le> b"
proof -
  have "a \<le> p div q" using assms(1,2) by (simp add: less_eq_div_iff_mult_less_eq)
  moreover have "p div q \<le> b" using div_le_mono [OF assms(3), of q] assms(1) by simp
  moreover have "p mod q = 0" if "p div q = b"
  proof -
    have "b * q \<le> p" using that div_times_less_eq_dividend [of p q] by simp
    then have "p = b * q" using assms(3) by simp
    then show ?thesis by simp
  qed
  ultimately show ?thesis using assms(1) by (cases "p div q = b") (auto simp: rounded_ratio_def Let_def)
qed

lemma byte_exponent_bounds:
  assumes "0 < k" "k < 256"
  shows "52 \<le> byte_exponent k" "byte_exponent k \<le> 60" "255 * 2 ^ 52 \<le> k * 2 ^ byte_exponent k"
    "k * 2 ^ byte_exponent k \<le> 255 * 2 ^ 53"
proof -
  let ?P = "\<lambda>i. k * 2 ^ i < 255"
  define i where "i = length (takeWhile ?P [0..<8])"
  have e: "byte_exponent k = 52 + i" by (simp add: byte_exponent_def i_def)
  have i: "i \<le> 8" using length_takeWhile_le [of ?P "[0..<8]"] by (simp add: i_def)
  have "255 \<le> k * 2 ^ i"
  proof (cases "i = 8")
    case False
    then have "i < length [0..<8]" using i by simp
    from nth_length_takeWhile [of ?P "[0..<8]", folded i_def, OF this] this show ?thesis by simp
  qed (use assms(1) in simp)
  moreover have "k * 2 ^ i \<le> 255 * 2"
  proof (cases i)
    case (Suc j)
    have "takeWhile ?P [0..<8] ! j = [0..<8] ! j" by (rule takeWhile_nth) (simp add: Suc flip: i_def)
    moreover have "takeWhile ?P [0..<8] ! j \<in> set (takeWhile ?P [0..<8])" by (rule nth_mem) (simp add: Suc flip: i_def)
    ultimately have "?P j" using set_takeWhileD [of "[0..<8] ! j" ?P] i Suc by fastforce
    then show ?thesis by (simp add: Suc)
  qed (use assms(2) in simp)
  ultimately show "52 \<le> byte_exponent k" "byte_exponent k \<le> 60" "255 * 2 ^ 52 \<le> k * 2 ^ byte_exponent k"
    "k * 2 ^ byte_exponent k \<le> 255 * 2 ^ 53" using i by (simp_all add: e power_add)
qed

lemma byte_double_bounds:
  assumes "0 < k" "k < 256"
  shows "2 ^ 52 \<le> byte_double k \<and> byte_double k \<le> 2 ^ 53"
  unfolding byte_double_def using byte_exponent_bounds(3,4) [OF assms]
  by (intro rounded_ratio_bounds) simp_all

text \<open>Dividing by at least \<open>2 ^ 52\<close> makes a rounding error small.\<close>

lemma scaled_error:
  fixes x y :: real
  assumes "\<bar>x - y\<bar> \<le> 2 ^ j" "j \<le> 28" "52 \<le> e"
  shows "\<bar>x / 2 ^ e - y / 2 ^ e\<bar> \<le> 1 / 2 ^ 24"
proof -
  have "\<bar>x / 2 ^ e - y / 2 ^ e\<bar> = \<bar>x - y\<bar> / 2 ^ e" by (simp add: diff_divide_distrib [symmetric] abs_divide)
  also have "\<dots> \<le> 2 ^ j / 2 ^ e" using assms(1) by (simp add: divide_right_mono)
  also have "\<dots> \<le> 2 ^ 28 / 2 ^ 52"
    using power_increasing [OF assms(2), of "2 :: real"] power_increasing [OF assms(3), of "2 :: real"] by (intro frac_le) simp_all
  finally show ?thesis by simp
qed

lemma byte_double_near:
  assumes "0 < k" "k < 256"
  shows "\<bar>real (byte_double k) / 2 ^ byte_exponent k - real k / 255\<bar> \<le> 1 / 2 ^ 24"
proof -
  have "\<bar>real (byte_double k) - real (k * 2 ^ byte_exponent k) / 255\<bar> \<le> 2 ^ 0"
    using rounded_ratio_near [of 255 "k * 2 ^ byte_exponent k"] by (simp add: byte_double_def)
  from scaled_error [OF this _ byte_exponent_bounds(1) [OF assms]] show ?thesis by simp
qed

lemma divided_error:
  fixes x y c :: real
  assumes "\<bar>x - y * c\<bar> \<le> 1" "0 < c"
  shows "\<bar>x / c - y\<bar> \<le> 1 / c"
proof -
  have "x / c - y = (x - y * c) / c" using assms(2) by (simp add: field_simps)
  then show ?thesis using assms by (simp add: abs_divide divide_right_mono)
qed

lemma byte_float_near:
  assumes "0 < k" "k < 256"
  shows "\<bar>real (byte_decimal k (byte_decimals k)) / 10 ^ byte_decimals k - real (byte_double k) / 2 ^ byte_exponent k\<bar> \<le> 1 / 2 ^ 24"
proof -
  let ?e = "byte_exponent k" and ?P = "\<lambda>n. rounded_ratio (byte_decimal k n * 2 ^ byte_exponent k) (10 ^ n) \<noteq> byte_double k"
  define i where "i = length (takeWhile ?P [1..<19])"
  have n: "byte_decimals k = 1 + i" by (simp add: byte_decimals_def i_def)
  have i: "i \<le> 18" using length_takeWhile_le [of ?P "[1..<19]"] by (simp add: i_def)
  show ?thesis
  proof (cases "i = 18")
    case False
    then have "i < length [1..<19]" using i by simp
    from nth_length_takeWhile [of ?P "[1..<19]", folded i_def, OF this] this
    have hit: "rounded_ratio (byte_decimal k (1 + i) * 2 ^ ?e) (10 ^ (1 + i)) = byte_double k" by simp
    have "\<bar>real (byte_double k) - real (byte_decimal k (1 + i) * 2 ^ ?e) / 10 ^ (1 + i)\<bar> \<le> 2 ^ 0"
      using rounded_ratio_near [of "10 ^ (1 + i)" "byte_decimal k (1 + i) * 2 ^ ?e"] unfolding hit by simp
    from scaled_error [OF this _ byte_exponent_bounds(1) [OF assms]] show ?thesis
      by (simp add: n abs_minus_commute)
  next
    case True
    have "\<bar>real (byte_decimal k 19) - real (byte_double k * 10 ^ 19) / 2 ^ ?e\<bar> \<le> 1"
      using rounded_ratio_near [of "2 ^ ?e" "byte_double k * 10 ^ 19"] by (simp add: byte_decimal_def)
    then have "\<bar>real (byte_decimal k 19) / 10 ^ 19 - real (byte_double k) / 2 ^ ?e\<bar> \<le> 1 / 10 ^ 19"
      by (intro divided_error) simp_all
    then show ?thesis by (simp add: n True)
  qed
qed

lemma single_float_value:
  assumes "118 \<le> a" "a \<le> 126" "2 ^ 23 \<le> m" "m \<le> 2 ^ 24"
  shows "\<exists>v t. single_float (a * 2 ^ 23 + m) = PFloat v t \<and> real_of_int v / 10 ^ t = real m / 2 ^ (149 - a)"
proof -
  have ten: "(10::real) ^ t = 5 ^ t * 2 ^ t" for t by (simp flip: power_mult_distrib)
  have sign: "\<not> (2 ^ 31 \<le> a * 2 ^ 23 + m)" using assms by simp
  show ?thesis
  proof (cases "m = 2 ^ 24")
    case True
    have n: "a * 2 ^ 23 + m = (a + 2) * 2 ^ 23" by (simp add: True)
    have "single_float (a * 2 ^ 23 + m) = PFloat (2 ^ 23 * 5 ^ (148 - a)) (148 - a)"
      using sign assms(1,2) unfolding n by (simp add: single_float_def Let_def)
    moreover have "real m / 2 ^ (149 - a) = 2 ^ 23 / 2 ^ (148 - a)"
      using assms(2) by (simp add: True Suc_diff_le [of a 148, simplified])
    ultimately show ?thesis by (simp add: ten)
  next
    case False
    define f where "f = m - 2 ^ 23"
    have f: "m = 2 ^ 23 + f" "f < 2 ^ 23" using assms(3,4) False by (simp_all add: f_def)
    have n: "a * 2 ^ 23 + m = f + (a + 1) * 2 ^ 23" by (simp add: f)
    have parts: "(f + (a + 1) * 2 ^ 23) div 2 ^ 23 = a + 1" "(f + (a + 1) * 2 ^ 23) mod 2 ^ 23 = f"
      unfolding mod_mult_self1 div_mult_self1 [OF power_not_zero [OF zero_neq_numeral [symmetric]]] using f(2) by simp_all
    have "single_float (a * 2 ^ 23 + m) = PFloat (int m * 5 ^ (149 - a)) (149 - a)"
      using sign assms(1,2) parts unfolding n by (simp add: single_float_def Let_def f(1))
    then show ?thesis by (simp add: ten)
  qed
qed

lemma byte_single_value:
  assumes "0 < k" "k < 256"
  shows "\<exists>v t. single_float (byte_single k) = PFloat v t \<and> \<bar>real_of_int v / 10 ^ t - real k / 255\<bar> \<le> 1 / 2 ^ 23"
proof -
  let ?e = "byte_exponent k" and ?m = "rounded_ratio (byte_double k) (2 ^ 29)"
  note e = byte_exponent_bounds(1,2) [OF assms]
  have "2 ^ 23 \<le> ?m \<and> ?m \<le> 2 ^ 24" using byte_double_bounds [OF assms] by (intro rounded_ratio_bounds) simp_all
  then have "\<exists>v t. single_float (byte_single k) = PFloat v t \<and> real_of_int v / 10 ^ t = real ?m / 2 ^ (149 - (178 - ?e))"
    using single_float_value [of "178 - ?e" ?m] e assms(1) by (simp add: byte_single_def)
  then obtain v t where v: "single_float (byte_single k) = PFloat v t" "real_of_int v / 10 ^ t = real ?m / 2 ^ (149 - (178 - ?e))"
    by blast
  have "149 - (178 - ?e) = ?e - 29" using e by simp
  moreover have "real ?m / 2 ^ (?e - 29) = real ?m * 2 ^ 29 / 2 ^ ?e" using e by (simp add: power_diff)
  moreover have "\<bar>real ?m * 2 ^ 29 - real (byte_double k)\<bar> \<le> 2 ^ 28"
    using rounded_ratio_near [of "2 ^ 29" "byte_double k"] by (auto simp: abs_le_iff field_simps)
  ultimately have "\<bar>real_of_int v / 10 ^ t - real (byte_double k) / 2 ^ ?e\<bar> \<le> 1 / 2 ^ 24"
    using scaled_error [of "real ?m * 2 ^ 29" "real (byte_double k)" 28 ?e] e by (simp add: v(2))
  then have "\<bar>real_of_int v / 10 ^ t - real k / 255\<bar> \<le> 1 / 2 ^ 24 + 1 / 2 ^ 24"
    using byte_double_near [OF assms] by linarith
  then show ?thesis using v(1) by auto
qed

lemma byte_float_value:
  assumes "0 < k" "k < 256"
  shows "\<exists>v t. byte_float k = PFloat v t \<and> \<bar>real_of_int v / 10 ^ t - real k / 255\<bar> \<le> 1 / 2 ^ 23"
proof -
  have "\<bar>real (byte_decimal k (byte_decimals k)) / 10 ^ byte_decimals k - real k / 255\<bar> \<le> 1 / 2 ^ 24 + 1 / 2 ^ 24"
    using byte_float_near [OF assms] byte_double_near [OF assms] by linarith
  then show ?thesis using assms(1) by (auto simp: byte_float_def)
qed

lemma unat_byte: "unat (word_of_nat n :: byte) = n mod 256"
  by (simp add: unat_of_nat)

lemma le_singles_bytes:
  assumes "n < 2 ^ 32"
  shows "le_singles (le_bytes n @ bs) = single_float n # le_singles bs"
proof -
  have small: "n div 256 ^ 3 < 256" using assms by (simp add: less_mult_imp_div_less)
  moreover have "n div 256 ^ 2 = n div 256 div 256" "n div 256 ^ 3 = n div 256 div 256 div 256"
    by (simp_all add: div_mult2_eq [symmetric])
  ultimately have "n mod 256 + 256 * (n div 256 mod 256 + 256 * (n div 256 ^ 2 mod 256 + 256 * (n div 256 ^ 3 mod 256))) = n"
    using mult_div_mod_eq [of 256 n] mult_div_mod_eq [of 256 "n div 256"] mult_div_mod_eq [of 256 "n div 256 div 256"]
    by simp
  then show ?thesis using small by (simp add: le_bytes_def upt_rec unat_byte)
qed

lemma byte_single_small:
  assumes "k < 256"
  shows "byte_single k < 2 ^ 32"
proof (cases "k = 0")
  case False
  have "rounded_ratio (byte_double k) (2 ^ 29) \<le> 2 ^ 24"
    using byte_double_bounds [of k] rounded_ratio_bounds [of "2 ^ 29" 0 "byte_double k" "2 ^ 24"] assms False by simp
  then show ?thesis using byte_exponent_bounds(1) [of k] assms False by (simp add: byte_single_def)
qed (simp add: byte_single_def)

lemma le_singles_vector:
  assumes "list_all (\<lambda>k. k < 256) v"
  shows "le_singles (concat (map (le_bytes \<circ> byte_single) v)) = map (single_float \<circ> byte_single) v"
    "length (concat (map (le_bytes \<circ> byte_single) v)) = 4 * length v"
proof -
  show "le_singles (concat (map (le_bytes \<circ> byte_single) v)) = map (single_float \<circ> byte_single) v"
    using assms by (induction v) (simp_all add: le_singles_bytes byte_single_small [simplified])
  show "length (concat (map (le_bytes \<circ> byte_single) v)) = 4 * length v"
    by (induction v) (simp_all add: le_bytes_def)
qed

lemma decode_encode_embedding:
  assumes "list_all (\<lambda>k. k < 256) v"
  shows "decode_embedding (encode_embedding v format) format
    = map (if format = ''float'' then byte_float else single_float \<circ> byte_single) v"
  using le_singles_vector [OF assms]
  by (simp add: decode_embedding_def encode_embedding_def vector_values_def b64_roundtrip)

text \<open>The numbers the entries of a vector stand for.\<close>

definition near_byte :: "nat \<Rightarrow> pyval \<Rightarrow> bool" where
  "near_byte k x = (case x of PFloat v t \<Rightarrow> \<bar>real_of_int v / 10 ^ t - real k / 255\<bar> \<le> 1 / 2 ^ 23 | _ \<Rightarrow> False)"

lemma near_zero: "byte_float 0 = PFloat 0 1" "single_float (byte_single 0) = PFloat 0 149"
  by (simp_all add: byte_float_def byte_single_def single_float_def Let_def)

lemma floats_near: "k < 256 \<Longrightarrow> near_byte k (byte_float k)" "k < 256 \<Longrightarrow> near_byte k (single_float (byte_single k))"
  using byte_float_value [of k] byte_single_value [of k] near_zero by (cases "k = 0"; fastforce simp: near_byte_def)+

text \<open>
  In both encodings the embedding of a text decodes to as many numbers as asked for,
  between 1 and 4096, and each is the byte of the digest over 255 up to an error of 2 to the -23.
\<close>

theorem embedding_decodes:
  "let v = embedding_vector tenant model txt dimensions in
   list_all2 near_byte v (decode_embedding (encode_embedding v format) format)
   \<and> length v = embedding_size dimensions \<and> embedding_size dimensions \<in> {1..4096} \<and> list_all (\<lambda>k. k < 256) v"
proof -
  let ?v = "embedding_vector tenant model txt dimensions"
  have bytes: "list_all (\<lambda>k. k < 256) ?v" by (auto simp: list_all_iff dest: embedding_vector_bytes)
  then have "list_all2 near_byte ?v (decode_embedding (encode_embedding ?v format) format)"
    unfolding decode_encode_embedding [OF bytes] by (auto simp: list_all2_map2 list_all_iff floats_near intro!: list.rel_refl_strong)
  then show ?thesis using bytes embedding_size_bounds [of dimensions] by (simp add: embedding_vector_length)
qed

lemma encoded_is_vector:
  assumes "list_all (\<lambda>k. k < 256) v" "v \<noteq> []"
  shows "is_vector (PList (decode_embedding (encode_embedding v format) format))"
proof -
  have "is_number (single_float n)" for n by (simp add: single_float_def Let_def)
  then show ?thesis using assms(2) by (auto simp: decode_encode_embedding [OF assms(1)] list_all_iff byte_float_def)
qed

end
