(* ===== verification/Embeddings.thy ===== *)
theory Embeddings
  imports Gateway Vectors
begin

text \<open>
  \<open>handle_embeddings\<close> of \<open>python/urp/ai_gateway.py\<close>: an embedding request is planned and approved, looked
  up in the exact cache, computed from digests with one fallback, verified, cached and recorded
  in a manifest. The state is the one of the gateway; no provider is called.
\<close>

subsection \<open>Intake\<close>

record embed_job =
  ej_unit :: work_unit
  ej_decision :: policy_decision
  ej_plan :: plan
  ej_mode :: string
  ej_request :: pydict
  ej_sources :: "string list"
  ej_inputs :: "string list"
  ej_key :: string
  ej_ttl :: real

definition embed_planned :: "embed_job \<Rightarrow> string \<Rightarrow> bool" where
  "embed_planned j action = (action \<in> set (map pa_type (pl_actions (ej_plan j))))"

definition input_hash :: "pydict \<Rightarrow> pyval" where
  "input_hash normalized = PStr (stable_json_hash (PDict [(''input'', get_value normalized ''input''),
     (''model'', get_value normalized ''model'')]))"

definition routing_text :: "string list \<Rightarrow> string" where
  "routing_text inputs = join [CHR 0x0A] inputs"

definition input_count :: "string list \<Rightarrow> pyval" where
  "input_count inputs = PInt (int (length inputs))"

definition token_sum :: "string list \<Rightarrow> int" where
  "token_sum inputs = int (sum_list (map approximate_tokens inputs))"

definition embedding_unit :: "env \<Rightarrow> nat \<Rightarrow> string \<Rightarrow> string \<Rightarrow> pydict \<Rightarrow> string list \<Rightarrow> string list \<Rightarrow> work_unit" where
  "embedding_unit en n tenant ns normalized inputs sources = \<lparr>wu_kind = EMBEDDING_REQUEST, wu_tenant = tenant,
     wu_logical_ref = ''openai://embeddings'',
     wu_payload = PDict [(''request_hash'', request_hash normalized), (''input_hash'', input_hash normalized),
       (''input_count'', input_count inputs), (''routing_text'', PStr (routing_text inputs))],
     wu_requested_contract = Some SEMANTIC, wu_namespace = ns,
     wu_metadata = [(''source_fingerprints'', sorted_set sources), (''model'', get_value normalized ''model'')],
     wu_policy_context = [], wu_trace_id = e_ids en ''tr'' n, wu_id = e_ids en ''wu'' n, wu_created_at = e_clock en n,
     wu_payload_ref = PNone, wu_effective_contract = None, wu_deadline = None, wu_latency_budget_ms = None, wu_quality_target = []\<rparr>"

definition announce_embedding :: "env \<Rightarrow> work_unit \<Rightarrow> policy_decision \<Rightarrow> plan \<Rightarrow> pydict \<Rightarrow> string list \<Rightarrow> string list \<Rightarrow> unit io" where
  "announce_embedding en wu d p normalized inputs sources =
     thenS (append_event en (unit_event wu d ''work_unit.received'' None []))
     (thenS (append_event en (unit_event wu d ''policy.evaluated'' (Some (contract_value (pd_contract d))) (decision_to_dict d)))
     (thenS (store_plan en p wu None [])
     (thenS (emit_log en (unit_log wu d ''ai.gateway.request'' ''AI gateway request received''
        [(''request_hash'', request_hash normalized), (''item_count'', input_count inputs),
         (''source_fingerprint_count'', PInt (int (card (set sources))))]))
     (thenS (emit_span en ''urp.intake'' (wu_trace_id wu) [(''work_unit_id'', PStr (wu_id wu)),
        (''tenant'', PStr (wu_tenant wu)), (''kind'', PStr ''embedding_request'')])
     (retS ())))))"

definition embed_intake :: "gateway_env \<Rightarrow> pydict \<Rightarrow> string \<Rightarrow> string \<Rightarrow> pydict option \<Rightarrow> string option \<Rightarrow> embed_job gio" where
  "embed_intake ge request tenant ns bundle mode = (let en = ge_env ge in
     bindS (liftR (execution_mode en mode)) (\<lambda>mode.
     thenS (liftR (require_execution_enabled en None))
     (bindS (liftR (normalize_embedding_request request)) (\<lambda>normalized.
     bindS (liftR (embedding_fingerprints normalized)) (\<lambda>sources. let inputs = embedding_inputs (get_value normalized ''input'') in
     bindS (on_world draw) (\<lambda>n. let wu = embedding_unit en n tenant ns normalized inputs sources in
     bindS (on_world (inspect (\<lambda>w. chosen_bundle en bundle (get_value (urp_options normalized) ''policy_bundle_id'') (w_policies w)))) (\<lambda>pb.
     bindS (liftR (evaluate_policy wu pb)) (\<lambda>d.
     bindS (liftR (plan_work_unit wu mode pb (Some d))) (\<lambda>p.
     thenS (on_world (require_ai_approval en wu d))
     (thenS (on_world (announce_embedding en wu d p normalized inputs sources))
     (bindS (liftR (cache_ttl_seconds (urp_options normalized))) (\<lambda>ttl.
     retS \<lparr>ej_unit = wu, ej_decision = d, ej_plan = p, ej_mode = mode, ej_request = normalized, ej_sources = sources,
       ej_inputs = inputs, ej_key = exact_key tenant ns (PDict normalized) (Some sources), ej_ttl = ttl\<rparr>))))))))))))"

subsection \<open>Lookup\<close>

definition embed_lookup :: "gateway_env \<Rightarrow> embed_job \<Rightarrow> pyval option gio" where
  "embed_lookup ge j = (if ej_mode j = ''enforce'' \<and> 0 < ej_ttl j \<and> embed_planned j ''exact_cache_lookup''
     then bindS (read_clock ge) (\<lambda>now. on_cache (sqlc_get now (ej_key j) (wu_tenant (ej_unit j)) (wu_namespace (ej_unit j)) (Some (ej_sources j))))
     else retS None)"

subsection \<open>Outcomes\<close>

record embed_outcome =
  eo_response :: pyval
  eo_cache :: string
  eo_called :: bool
  eo_fallback :: bool
  eo_reason :: string

definition embed_event :: "env \<Rightarrow> embed_job \<Rightarrow> string \<Rightarrow> pydict \<Rightarrow> unit gio" where
  "embed_event en j ty details = on_world (thenS (append_event en (unit_event (ej_unit j) (ej_decision j) ty None details)) (retS ()))"

definition embed_log :: "env \<Rightarrow> embed_job \<Rightarrow> string \<Rightarrow> string \<Rightarrow> pydict \<Rightarrow> unit gio" where
  "embed_log en j ty message details = on_world (thenS (emit_log en (unit_log (ej_unit j) (ej_decision j) ty message details)) (retS ()))"

definition embed_failure_log :: "env \<Rightarrow> embed_job \<Rightarrow> string \<Rightarrow> string \<Rightarrow> string \<Rightarrow> pydict \<Rightarrow> unit gio" where
  "embed_failure_log en j severity ty message details = on_world (thenS (emit_log en ((unit_log (ej_unit j) (ej_decision j) ty message details)
     \<lparr>le_severity := severity, le_error_code := Some ''verifier_failed''\<rparr>)) (retS ()))"

definition embed_hit :: "env \<Rightarrow> embed_job \<Rightarrow> pyval \<Rightarrow> embed_outcome gio" where
  "embed_hit en j v =
     thenS (embed_event en j ''cache.exact.hit'' [(''cache_key'', PStr (ej_key j))])
     (thenS (embed_log en j ''cache.exact.hit'' ''exact cache hit'' [(''cache_key'', PStr (ej_key j)), (''cache_type'', PStr ''exact'')])
     (thenS (tally ''urp_cache_hits_total'' 1)
     (retS \<lparr>eo_response = v, eo_cache = ''exact_hit'', eo_called = False, eo_fallback = False, eo_reason = []\<rparr>)))"

definition embed_vectors :: "embed_job \<Rightarrow> pyval \<Rightarrow> nat list list" where
  "embed_vectors j model = map (\<lambda>item. embedding_vector (wu_tenant (ej_unit j)) model item
     (get_value (ej_request j) ''dimensions'')) (ej_inputs j)"

definition embed_format :: "embed_job \<Rightarrow> string" where
  "embed_format j = py_str (get_value (ej_request j) ''encoding_format'')"

definition embed_row :: "string \<Rightarrow> nat \<times> nat list \<Rightarrow> pyval" where
  "embed_row format iv = PDict [(''object'', PStr ''embedding''), (''embedding'', encode_embedding (snd iv) format),
     (''index'', PInt (int (fst iv)))]"

definition embed_data :: "embed_job \<Rightarrow> nat list list \<Rightarrow> pyval" where
  "embed_data j vectors = PList (map (embed_row (embed_format j)) (zip [0..<length vectors] vectors))"

definition embed_response :: "embed_job \<Rightarrow> nat list list \<Rightarrow> pydict" where
  "embed_response j vectors = [(''object'', PStr ''list''), (''data'', embed_data j vectors),
     (''model'', get_value (ej_request j) ''model''),
     (''usage'', PDict [(''prompt_tokens'', PInt (token_sum (ej_inputs j))), (''total_tokens'', PInt (token_sum (ej_inputs j)))])]"

definition verify_vectors :: "nat list list \<Rightarrow> verification_result" where
  "verify_vectors vectors = verify_embedding_vector (PList (map vector_values vectors))"

definition embed_route :: "embed_job \<Rightarrow> model_route" where
  "embed_route j = route_model (ej_unit j) (Some (pd_models (ej_decision j))) (Some (routing_text (ej_inputs j)))"

definition announce_embed_route :: "env \<Rightarrow> embed_job \<Rightarrow> unit gio" where
  "announce_embed_route en j = (let r = [(''route'', PStr (mr_model (embed_route j))), (''reason'', PStr (mr_reason (embed_route j)))] in
     thenS (on_world (thenS (emit_span en ''urp.ai.route'' (wu_trace_id (ej_unit j)) ((''work_unit_id'', PStr (wu_id (ej_unit j))) # r)) (retS ())))
       (embed_log en j ''ai.model.routed'' ''AI model routed'' r))"

text \<open>The response with its verdict, and the verdict on the first vectors when they were refused.\<close>

definition compute_vectors :: "env \<Rightarrow> embed_job \<Rightarrow> (pydict \<times> verification_result \<times> verification_result option) gio" where
  "compute_vectors en j =
     (let vectors = embed_vectors j (get_value (ej_request j) ''model''); v = verify_vectors vectors;
          again = embed_vectors j (PStr ''frontier'') in
      if vr_accepted v then retS (embed_response j vectors, v, None)
      else thenS (embed_event en j ''ai.fallback.invoked'' (verification_to_dict v))
       (thenS (embed_failure_log en j ''warning'' ''ai.fallback.invoked'' ''AI fallback invoked'' (verification_to_dict v))
       (thenS (tally ''urp_ai_fallbacks_total'' 1)
       (retS (dset ''model'' (PStr ''frontier'') (dset ''data'' (embed_data j again) (embed_response j vectors)), verify_vectors again, Some v)))))"

definition keep_embedding :: "gateway_env \<Rightarrow> embed_job \<Rightarrow> pydict \<Rightarrow> unit gio" where
  "keep_embedding ge j response = (if ej_mode j = ''enforce'' \<and> embed_planned j ''cache_store'' \<and> 0 < ej_ttl j
     then bindS (read_clock ge) (\<lambda>now. bindS (read_clock ge) (\<lambda>later. on_cache (sqlc_put later
       \<lparr>ce_key = ej_key j, ce_tenant = wu_tenant (ej_unit j), ce_namespace = wu_namespace (ej_unit j), ce_value = PDict response,
        ce_sources = ej_sources j, ce_verified = True, ce_expires = Some (now + ej_ttl j)\<rparr>)))
     else retS ())"

definition refuse_embedding :: "env \<Rightarrow> embed_job \<Rightarrow> verification_result \<Rightarrow> unit gio" where
  "refuse_embedding en j v =
     thenS (embed_event en j ''verifier.failed'' (verification_to_dict v))
     (thenS (embed_failure_log en j ''error'' ''verifier.failed'' ''AI verifier failed after fallback'' (verification_to_dict v))
     (thenS (tally ''urp_verifier_failures_total'' 1)
     (raiseS (verifier_failed ''embedding verifier failed after fallback'' (Some (wu_id (ej_unit j))) (verification_to_dict v)))))"

definition embedding_ok :: "embed_job \<Rightarrow> verification_result \<Rightarrow> unit res" where
  "embedding_ok j v = verify_required_embedding_verifiers (pd_required (ej_decision j)) v (wu_id (ej_unit j))"

definition announce_embedded :: "env \<Rightarrow> embed_job \<Rightarrow> pydict \<Rightarrow> bool \<Rightarrow> bool \<Rightarrow> unit gio" where
  "announce_embedded en j response fell_back accepted = (let r = embed_route j in
     thenS (embed_event en j ''cache.exact.miss'' [(''cache_key'', PStr (ej_key j))])
     (thenS (embed_event en j ''ai.model.routed'' [(''route'', PStr (mr_model r)), (''final_model'', get_value response ''model''),
        (''fallback_used'', PBool fell_back), (''reason'', PStr (mr_reason r))])
     (thenS (embed_log en j ''cache.exact.miss'' ''exact cache miss'' [(''cache_key'', PStr (ej_key j)), (''cache_type'', PStr ''exact'')])
     (thenS (bindS (on_world draw) (\<lambda>n. on_feedback (feedback_record (e_clock en n) (ej_unit j) r accepted (PFloat 0 1))))
     (thenS (tally ''urp_cache_misses_total'' 1)
     (if get_value response ''model'' = PStr ''frontier'' then tally ''urp_ai_large_model_calls_total'' 1 else retS ()))))))"

definition embed_miss :: "gateway_env \<Rightarrow> embed_job \<Rightarrow> embed_outcome gio" where
  "embed_miss ge j = (let en = ge_env ge in
     thenS (announce_embed_route en j)
     (bindS (compute_vectors en j) (\<lambda>(response, v, refused).
     thenS (if vr_accepted v then thenS (liftR (embedding_ok j v)) (keep_embedding ge j response) else refuse_embedding en j v)
     (thenS (announce_embedded en j response (refused \<noteq> None) (vr_accepted v))
     (retS \<lparr>eo_response = PDict response, eo_cache = ''miss'', eo_called = True, eo_fallback = refused \<noteq> None,
        eo_reason = (case refused of None \<Rightarrow> [] | Some v \<Rightarrow> vr_reason v)\<rparr>)))))"

definition embed_answer :: "gateway_env \<Rightarrow> embed_job \<Rightarrow> embed_outcome gio" where
  "embed_answer ge j = bindS (embed_lookup ge j) (\<lambda>cached. case cached of
     Some v \<Rightarrow> embed_hit (ge_env ge) j v | None \<Rightarrow> embed_miss ge j)"

subsection \<open>The record of a request\<close>

definition response_vectors :: "embed_job \<Rightarrow> pyval \<Rightarrow> pyval list list res" where
  "response_vectors j response = bindR (get_from response ''data'' (PList [])) (\<lambda>data. bindR (iterate data) (\<lambda>rows.
     seq_res (map (\<lambda>row. map_res (\<lambda>v. decode_embedding v (embed_format j)) (at_key row ''embedding'')) rows)))"

definition embed_compute :: "embed_job \<Rightarrow> embed_outcome \<Rightarrow> pyval list list \<Rightarrow> verification_result \<Rightarrow> pyval \<Rightarrow> pydict" where
  "embed_compute j r vectors v until = [
     (''request'', PDict [(''request_hash'', request_hash (ej_request j)), (''input_hash'', input_hash (ej_request j)),
        (''tenant'', PStr (wu_tenant (ej_unit j))), (''task_type'', PStr ''embedding_request''),
        (''input_count'', input_count (ej_inputs j)), (''input_tokens'', PInt (token_sum (ej_inputs j)))]),
     (''contract'', PDict [(''quality_required'', get_default (urp_options (ej_request j)) ''quality'' (PStr ''standard'')),
        (''privacy_scope'', PStr ''tenant_namespace'')]),
     (''plan'', PDict [(''cache_checked'', PBool True),
        (''selected_model'', get_default (dict_of (eo_response r)) ''model'' (get_value (ej_request j) ''model'')),
        (''vector_dimensions'', PInt (int (case vectors of [] \<Rightarrow> 0 | x # xs \<Rightarrow> length x)))]),
     (''result'', PDict [(''accepted_by_verifier'', PBool (vr_accepted v)), (''fallback_used'', PBool (eo_fallback r)),
        (''fallback_reason'', PStr (eo_reason r)),
        (''large_model_called'', PBool (eo_called r \<and> response_model (eo_response r) = PStr ''frontier'')),
        (''cacheable_until'', until), (''estimated_joules_avoided'', if eo_called r then PFloat 0 1 else PFloat 25 2)])]"

definition embed_manifest :: "env \<Rightarrow> embed_job \<Rightarrow> embed_outcome \<Rightarrow> pyval list list \<Rightarrow> verification_result \<Rightarrow> pydict \<Rightarrow> nat \<Rightarrow> manifest" where
  "embed_manifest en j r vectors v compute n = \<lparr>mf_work_unit_id = wu_id (ej_unit j), mf_tenant = wu_tenant (ej_unit j),
     mf_kind = EMBEDDING_REQUEST, mf_contract = pd_contract (ej_decision j), mf_logical_ref = wu_logical_ref (ej_unit j),
     mf_state = (if ej_mode j = ''enforce'' then ''active'' else if ej_mode j = ''observe'' then ''planned'' else ''superseded''),
     mf_namespace = wu_namespace (ej_unit j), mf_trace_id = Some (wu_trace_id (ej_unit j)),
     mf_policy = decision_to_dict (ej_decision j),
     mf_classification = [(''ai_task_hint'', PStr ''embedding''), (''raw_prompt_logged'', PBool False)],
     mf_physical = [(''compute_manifest'', PDict compute), (''request_hash'', request_hash (ej_request j)),
       (''cache_key'', PStr (ej_key j)), (''cache_result'', PStr (eo_cache r))],
     mf_plan = plan_to_dict (ej_plan j), mf_verification = verification_to_dict v, mf_lineage = [],
     mf_telemetry = [(''mode'', PStr (ej_mode j)), (''provider_called'', PBool (eo_called r)),
       (''vector_count'', PInt (int (length vectors))),
       (''vector_dimensions'', PInt (int (case vectors of [] \<Rightarrow> 0 | x # xs \<Rightarrow> length x)))],
     mf_signatures = [], mf_manifest_version = ''urp.manifest.v1'', mf_manifest_id = e_ids en ''mf'' n, mf_created_at = e_clock en n\<rparr>"

definition announce_embed_manifest :: "env \<Rightarrow> embed_job \<Rightarrow> embed_outcome \<Rightarrow> manifest \<Rightarrow> unit io" where
  "announce_embed_manifest en j r m = (let wu = ej_unit j; d = ej_decision j in
     thenS (append_event en (manifest_event wu d m ''manifest.written'' []))
     (thenS (emit_log en ((unit_log wu d ''manifest.written'' ''manifest written''
          [(''kind'', PStr ''embedding_request''), (''cache_result'', PStr (eo_cache r)), (''provider_called'', PBool (eo_called r))])
          \<lparr>le_manifest_id := Some (mf_manifest_id m)\<rparr>))
     (thenS (emit_span en ''urp.manifest.write'' (wu_trace_id wu)
          [(''work_unit_id'', PStr (wu_id wu)), (''manifest_id'', PStr (mf_manifest_id m))])
     (retS ()))))"

definition write_embed_manifest :: "env \<Rightarrow> embed_job \<Rightarrow> embed_outcome \<Rightarrow> pyval list list \<Rightarrow> verification_result \<Rightarrow> pydict \<Rightarrow> manifest io" where
  "write_embed_manifest en j r vectors v compute = bindS draw (\<lambda>n. let m = embed_manifest en j r vectors v compute n in
     thenS (put_manifest en m) (thenS (announce_embed_manifest en j r m) (retS m)))"

definition embed_fields :: "embed_job \<Rightarrow> embed_outcome \<Rightarrow> verification_result \<Rightarrow> manifest \<Rightarrow> pydict" where
  "embed_fields j r v m = [(''work_unit_id'', PStr (wu_id (ej_unit j))), (''manifest_id'', PStr (mf_manifest_id m)),
     (''cache'', PStr (eo_cache r)), (''route'', get_default (dict_of (eo_response r)) ''model'' (get_value (ej_request j) ''model'')),
     (''fallback_used'', PBool (eo_fallback r)), (''verifier'', PStr (vr_verifier_id v)), (''mode'', PStr (ej_mode j)),
     (''trace_id'', PStr (wu_trace_id (ej_unit j)))]"

definition embed_finish :: "gateway_env \<Rightarrow> embed_job \<Rightarrow> embed_outcome \<Rightarrow> pydict gio" where
  "embed_finish ge j r = (let en = ge_env ge in
     bindS (liftR (response_vectors j (eo_response r))) (\<lambda>vectors. let v = verify_embedding_vector (PList (map PList vectors)) in
     thenS (liftR (embedding_ok j v))
     (bindS (if ej_mode j = ''enforce'' then bindS (read_clock ge) (\<lambda>now. liftR (cacheable_until now (urp_options (ej_request j)))) else retS PNone) (\<lambda>until.
     thenS (liftR (e_schemas en ''compute_manifest'' (embed_compute j r vectors v until)))
     (bindS (on_world (write_embed_manifest en j r vectors v (embed_compute j r vectors v until))) (\<lambda>m.
     thenS (thenS (tally ''urp_work_units_total'' 1) (tally ''urp_ai_input_tokens_total'' (token_sum (ej_inputs j))))
     (retS (dset ''urp'' (PDict (embed_fields j r v m)) (dict_of (eo_response r))))))))))"

definition handle_embeddings :: "gateway_env \<Rightarrow> pydict \<Rightarrow> string \<Rightarrow> string \<Rightarrow> pydict option \<Rightarrow> string option \<Rightarrow> pydict gio" where
  "handle_embeddings ge request tenant ns bundle mode =
     bindS (embed_intake ge request tenant ns bundle mode) (\<lambda>j. bindS (embed_answer ge j) (\<lambda>r. embed_finish ge j r))"

end
