(* ===== verification/Serving.thy ===== *)
theory Serving
  imports Gateway Execution
begin

text \<open>
  What the AI gateway guarantees: answers are verified, the provider is called at most twice and
  never on a cache hit, requests outside enforce mode neither read nor write a cache, approvals
  gate every request, and every request leaves its trail in the ledger.
\<close>

subsection \<open>Frames\<close>

text \<open>What an operation on the state directory leaves alone, and an invariant of the directory.\<close>

lemma keeps_on_world [keeps_rules]: "(\<And>g w. I (g\<lparr>gw_world := w\<rparr>) = I g) \<Longrightarrow> keeps I (on_world m)"
  by (auto simp: keeps_def on_world_def zoom_def split: prod.splits)

lemma keeps_in_world: "keeps J m \<Longrightarrow> keeps (\<lambda>g. J (gw_world g)) (on_world m)"
  by (auto simp: on_world_def intro: keeps_zoom)

lemma keeps_on_cache [keeps_rules]: "(\<And>g c. I (g\<lparr>gw_cache := c\<rparr>) = I g) \<Longrightarrow> keeps I (on_cache m)"
  by (auto simp: keeps_def on_cache_def zoom_def split: prod.splits)

lemma keeps_on_semantic [keeps_rules]: "(\<And>g c. I (g\<lparr>gw_semantic := c\<rparr>) = I g) \<Longrightarrow> keeps I (on_semantic m)"
  by (auto simp: keeps_def on_semantic_def zoom_def split: prod.splits)

lemma keeps_on_feedback [keeps_rules]: "(\<And>g c. I (g\<lparr>gw_feedback := c\<rparr>) = I g) \<Longrightarrow> keeps I (on_feedback m)"
  by (auto simp: keeps_def on_feedback_def zoom_def split: prod.splits)

lemma on_world_eq [effect_simps]: "(on_world m g = (r, g')) = (\<exists>w. m (gw_world g) = (r, w) \<and> g' = g\<lparr>gw_world := w\<rparr>)"
  by (simp add: on_world_def zoom_eq)

definition calls_are :: "(pydict \<times> string) list \<Rightarrow> gateway \<Rightarrow> bool" where
  "calls_are cs g = (gw_calls g = cs)"

definition caches_are :: "sql_cache \<Rightarrow> sem_sql \<Rightarrow> gateway \<Rightarrow> bool" where
  "caches_are c s g = (gw_cache g = c \<and> gw_semantic g = s)"

lemma calls_frame [simp]:
  "calls_are cs (g\<lparr>gw_world := w\<rparr>) = calls_are cs g" "calls_are cs (g\<lparr>gw_cache := c\<rparr>) = calls_are cs g"
  "calls_are cs (g\<lparr>gw_semantic := s\<rparr>) = calls_are cs g" "calls_are cs (g\<lparr>gw_feedback := f\<rparr>) = calls_are cs g"
  by (simp_all add: calls_are_def)

lemma caches_frame [simp]:
  "caches_are c s (g\<lparr>gw_world := w\<rparr>) = caches_are c s g" "caches_are c s (g\<lparr>gw_feedback := f\<rparr>) = caches_are c s g"
  "caches_are c s (g\<lparr>gw_calls := q\<rparr>) = caches_are c s g"
  by (simp_all add: caches_are_def)

text \<open>An invariant that does not look at the state directory survives all the bookkeeping.\<close>

lemma read_clock_keeps [keeps_rules]: "(\<And>g w. I (g\<lparr>gw_world := w\<rparr>) = I g) \<Longrightarrow> keeps I (read_clock ge)"
  unfolding read_clock_def by (intro keeps_rules)

lemma job_keeps [keeps_rules]:
  assumes "\<And>g w. I (g\<lparr>gw_world := w\<rparr>) = I g"
  shows "keeps I (job_event en j ty a)" "keeps I (job_log en j ty m a)" "keeps I (job_failure_log en j sv ty m a)"
    "keeps I (job_span en j nm a)" "keeps I (tally nm v)"
  unfolding job_event_def job_log_def job_failure_log_def job_span_def tally_def by (intro keeps_rules assms)+

lemma hit_keeps [keeps_rules]:
  assumes "\<And>g w. I (g\<lparr>gw_world := w\<rparr>) = I g"
  shows "keeps I (exact_hit en j v)" "keeps I (semantic_hit en j h)" "keeps I (announce_route en j)"
    "keeps I (announce_fallback en j x)" "keeps I (refuse_response en j x)"
  unfolding exact_hit_def semantic_hit_def announce_route_def announce_fallback_def refuse_response_def Let_def
  by (intro keeps_rules assms)+

lemma intake_keeps [keeps_rules]:
  assumes "\<And>g w. I (g\<lparr>gw_world := w\<rparr>) = I g"
  shows "keeps I (chat_intake ge request t n pb mode)"
  unfolding chat_intake_def Let_def
  by (intro keeps_rules assms; simp split: prod.split; intro allI impI keeps_rules assms)

lemma finish_keeps [keeps_rules]:
  assumes "\<And>g w. I (g\<lparr>gw_world := w\<rparr>) = I g"
  shows "keeps I (chat_finish ge j r)"
  unfolding chat_finish_def Let_def by (intro keeps_rules assms)

lemma lookup_keeps [keeps_rules]:
  "keeps (calls_are cs) (exact_lookup ge j)" "keeps (calls_are cs) (semantic_lookup ge j)"
  "keeps (calls_are cs) (keep_response ge j v)"
  unfolding exact_lookup_def semantic_lookup_def keep_response_def by (intro keeps_rules; simp)+

subsection \<open>What is asked of the provider\<close>

text \<open>No call, one call, or a first one and a fallback.\<close>

definition calls_ok :: "pydict \<Rightarrow> pydict \<Rightarrow> string list \<Rightarrow> (pydict \<times> string) list \<Rightarrow> bool" where
  "calls_ok compiled plain models new = (new = [] \<or> (\<exists>r. new = [(compiled, r)])
     \<or> (\<exists>r f. f \<in> set models \<and> new = [(compiled, r), (plain, f)]))"

lemma call_provider_calls: "call_provider ge request route g = (res, g') \<Longrightarrow> gw_calls g' = gw_calls g @ [(request, route)]"
  by (auto simp: call_provider_def bindS_def on_world_def zoom_def draw_def)

lemma strongest_in: "strongest_allowed models = Inr m \<Longrightarrow> m \<in> set models"
  by (auto simp: strongest_allowed_def split: if_splits)

lemma fallback_in: "fallback_model requested models = Inr m \<Longrightarrow> m \<in> set models"
  by (auto simp: fallback_model_def strongest_in split: if_splits)

text \<open>\<open>asks P m\<close>: what \<open>m\<close> asks of the provider satisfies \<open>P\<close>, whether \<open>m\<close> succeeds or raises.\<close>

definition asks :: "((pydict \<times> string) list \<Rightarrow> bool) \<Rightarrow> 'a gio \<Rightarrow> bool" where
  "asks P m = (\<forall>g. \<exists>new. gw_calls (snd (m g)) = gw_calls g @ new \<and> P new)"

lemma asksD: "asks P m \<Longrightarrow> \<exists>new. gw_calls (snd (m g)) = gw_calls g @ new \<and> P new"
  by (simp add: asks_def)

lemma asks_nothing: "(\<And>cs. keeps (calls_are cs) m) \<Longrightarrow> P [] \<Longrightarrow> asks P m"
  by (auto simp: asks_def keeps_def calls_are_def)

lemma asks_before:
  assumes "\<And>cs. keeps (calls_are cs) m" "\<And>x. asks P (f x)" "P []"
  shows "asks P (bindS m f)"
  unfolding asks_def
proof
  fix g
  obtain r g1 where m: "m g = (r, g1)" by fastforce
  have "gw_calls g1 = gw_calls g" using keepsD [OF assms(1) _ m] by (simp add: calls_are_def)
  then show "\<exists>new. gw_calls (snd (bindS m f g)) = gw_calls g @ new \<and> P new"
    using asksD [OF assms(2), of _ g1] assms(3) m by (cases r) (simp_all add: bindS_def)
qed

lemma asks_after:
  assumes "asks P m" "\<And>x cs. keeps (calls_are cs) (f x)"
  shows "asks P (bindS m f)"
  unfolding asks_def
proof
  fix g
  obtain r g1 where m: "m g = (r, g1)" by fastforce
  obtain new where "gw_calls g1 = gw_calls g @ new" "P new" using assms(1) m unfolding asks_def by (metis snd_conv)
  then show "\<exists>new. gw_calls (snd (bindS m f g)) = gw_calls g @ new \<and> P new"
    using assms(2) m by (cases r) (auto simp: bindS_def keeps_def calls_are_def)
qed

lemma asks_call:
  assumes "\<And>x. asks (\<lambda>new. P ((request, route) # new)) (f x)" "P [(request, route)]"
  shows "asks P (bindS (call_provider ge request route) f)"
  unfolding asks_def
proof
  fix g
  obtain r g1 where m: "call_provider ge request route g = (r, g1)" by fastforce
  show "\<exists>new. gw_calls (snd (bindS (call_provider ge request route) f g)) = gw_calls g @ new \<and> P new"
  proof (cases r)
    case (Inl e)
    then show ?thesis using m assms(2) call_provider_calls [OF m] by (simp add: bindS_def)
  next
    case (Inr x)
    then show ?thesis using m asksD [OF assms(1) [of x], of g1] call_provider_calls [OF m] by (auto simp: bindS_def)
  qed
qed

lemma asks_lift: "(\<And>x. v = Inr x \<Longrightarrow> asks P (f x)) \<Longrightarrow> P [] \<Longrightarrow> asks P (bindS (liftR v) f)"
  by (cases v) (auto simp: asks_def bindS_def liftR_def)

lemma asks_retS: "P [] \<Longrightarrow> asks P (retS x)"
  by (simp add: asks_def retS_def)

abbreviation first_request :: "chat_job \<Rightarrow> pydict" where
  "first_request j \<equiv> (if cj_mode j = ''enforce'' then provider_request j else cj_request j)"

lemma ask_provider_asks: "asks (calls_ok (first_request j) (cj_request j) (pd_models (cj_decision j))) (ask_provider ge j)"
proof -
  have fallback: "asks (\<lambda>new. calls_ok (first_request j) (cj_request j) (pd_models (cj_decision j)) ((first_request j, route) # new))
      (thenS (announce_fallback (ge_env ge) j v) (bindS (liftR (fallback_model (mr_fallback (cj_route j)) (pd_models (cj_decision j)))) (\<lambda>route.
        bindS (call_provider ge (cj_request j) route) (\<lambda>response. retS (response, Some v)))))" for route v
    unfolding thenS_def
    by (intro asks_before asks_lift asks_call asks_retS keeps_rules) (auto simp: calls_ok_def fallback_in)
  show ?thesis
    unfolding ask_provider_def Let_def
  proof (intro asks_lift asks_call)
    fix route response
    show "asks (\<lambda>new. calls_ok (first_request j) (cj_request j) (pd_models (cj_decision j)) ((first_request j, route) # new))
      (if vr_accepted (verify_chat_response response) then retS (response, None)
       else thenS (announce_fallback (ge_env ge) j (verify_chat_response response))
        (bindS (liftR (fallback_model (mr_fallback (cj_route j)) (pd_models (cj_decision j)))) (\<lambda>route.
         bindS (call_provider ge (cj_request j) route) (\<lambda>r. retS (r, Some (verify_chat_response response))))))"
      using fallback by (simp add: asks_retS calls_ok_def)
  qed (auto simp: calls_ok_def)
qed

lemma announce_answer_keeps [keeps_rules]:
  assumes "\<And>g w. I (g\<lparr>gw_world := w\<rparr>) = I g" "\<And>g f. I (g\<lparr>gw_feedback := f\<rparr>) = I g"
  shows "keeps I (announce_answer en j v x y)"
  unfolding announce_answer_def Let_def by (intro keeps_rules assms)

lemma settle_keeps [keeps_rules]: "keeps (calls_are cs) (settle_answer ge j v refused)"
  unfolding settle_answer_def Let_def by (intro keeps_rules; simp)

lemma provider_answer_asks: "asks (calls_ok (first_request j) (cj_request j) (pd_models (cj_decision j))) (provider_answer ge j)"
  unfolding provider_answer_def thenS_def
  by (intro asks_before asks_after [OF ask_provider_asks] keeps_rules) (simp_all add: calls_ok_def)

subsection \<open>The parts of a request\<close>

lemma chat_parts:
  assumes "handle_chat_completion ge request t n bundle mode g = (Inr resp, g')"
  obtains j g1 r g2 where "chat_intake ge request t n bundle mode g = (Inr j, g1)" "chat_answer ge j g1 = (Inr r, g2)"
    "chat_finish ge j r g2 = (Inr resp, g')"
  using assms by (auto simp: handle_chat_completion_def effect_simps)

text \<open>What the intake has established about the job.\<close>

definition job_for :: "gateway_env \<Rightarrow> pydict \<Rightarrow> string \<Rightarrow> string \<Rightarrow> string option \<Rightarrow> chat_job \<Rightarrow> bool" where
  "job_for ge request t n mode j = (execution_mode (ge_env ge) mode = Inr (cj_mode j)
     \<and> normalize_openai_request request = Inr (cj_request j) \<and> chat_fingerprints (cj_request j) = Inr (cj_sources j)
     \<and> cache_ttl_seconds (urp_options (cj_request j)) = Inr (cj_ttl j)
     \<and> wu_tenant (cj_unit j) = t \<and> wu_namespace (cj_unit j) = n
     \<and> cj_text j = last_user_text (chat_messages (cj_request j))
     \<and> cj_key j = exact_key t n (PDict (cj_request j)) (Some (cj_sources j))
     \<and> (\<exists>most. (cj_compiled j, cj_messages j) = compile_openai_messages (chat_messages (cj_request j)) most)
     \<and> mr_fallback (cj_route j) = ''frontier'')"

lemma route_fallback: "mr_fallback (route_model wu allow prompt) = ''frontier''"
  by (simp add: route_model_def Let_def)

lemma intake_steps:
  assumes "chat_intake ge request t n bundle mode g = (Inr j, g')"
  obtains md q sources requested k pb d p u most ttl wa wb u' where
    "execution_mode (ge_env ge) mode = Inr md" "normalize_openai_request request = Inr q" "chat_fingerprints q = Inr sources"
    "contract_of (py_str (get_default (urp_options q) ''contract'' (PStr ''semantic''))) = Inr requested"
    "chosen_bundle (ge_env ge) bundle (get_value (urp_options q) ''policy_bundle_id'') (w_policies wa) = Inr pb"
    "evaluate_policy (chat_unit (ge_env ge) k t n q sources requested) pb = Inr d"
    "plan_work_unit (chat_unit (ge_env ge) k t n q sources requested) md pb (Some d) = Inr p"
    "require_ai_approval (ge_env ge) (chat_unit (ge_env ge) k t n q sources requested) d wa = (Inr u, wb)"
    "announce_chat (ge_env ge) (chat_unit (ge_env ge) k t n q sources requested) d p q sources wb = (Inr u', gw_world g')"
    "cache_ttl_seconds (urp_options q) = Inr ttl" "wa = (gw_world g)\<lparr>w_drawn := Suc (w_drawn (gw_world g))\<rparr>"
    "j = \<lparr>cj_unit = chat_unit (ge_env ge) k t n q sources requested, cj_decision = d, cj_plan = p, cj_mode = md, cj_request = q,
       cj_sources = sources, cj_text = last_user_text (chat_messages q),
       cj_compiled = fst (compile_openai_messages (chat_messages q) most), cj_messages = snd (compile_openai_messages (chat_messages q) most),
       cj_key = exact_key t n (PDict q) (Some sources), cj_ttl = ttl,
       cj_route = route_model (chat_unit (ge_env ge) k t n q sources requested) (Some (pd_models d)) (Some (last_user_text (chat_messages q)))\<rparr>"
  using assms unfolding chat_intake_def Let_def effect_simps split_def
  by (elim exE conjE) (rule that, (assumption | simp)+)

lemma chosen_given: "chosen_bundle en b wanted st = Inr pb \<Longrightarrow> b = None \<or> b = Some pb"
  by (cases b) (simp_all add: chosen_bundle_def)

lemma intake_job:
  assumes "chat_intake ge request t n bundle mode g = (Inr j, g')"
  shows "job_for ge request t n mode j"
    and "\<exists>pb. (bundle = None \<or> bundle = Some pb) \<and> evaluate_policy (cj_unit j) pb = Inr (cj_decision j)
      \<and> plan_work_unit (cj_unit j) (cj_mode j) pb (Some (cj_decision j)) = Inr (cj_plan j)"
proof -
  show "job_for ge request t n mode j"
    by (rule intake_steps [OF assms]) (auto simp: job_for_def chat_unit_def route_fallback)
  show "\<exists>pb. (bundle = None \<or> bundle = Some pb) \<and> evaluate_policy (cj_unit j) pb = Inr (cj_decision j)
      \<and> plan_work_unit (cj_unit j) (cj_mode j) pb (Some (cj_decision j)) = Inr (cj_plan j)"
    by (rule intake_steps [OF assms]) (auto dest: chosen_given)
qed

lemma provider_request_messages:
  assumes "job_for ge request t n mode j"
  shows "first_request j = cj_request j
    \<or> (cj_mode j = ''enforce'' \<and> (\<exists>ms. first_request j = dset ''messages'' (PList (map PDict ms)) (cj_request j)
        \<and> subseq ms (chat_messages (cj_request j))
        \<and> filter (\<lambda>m. \<not> is_instruction m) ms = filter (\<lambda>m. \<not> is_instruction m) (chat_messages (cj_request j))))"
proof (cases "context_applied j")
  case False
  then show ?thesis by (simp add: provider_request_def)
next
  case True
  obtain most where c: "(cj_compiled j, cj_messages j) = compile_openai_messages (chat_messages (cj_request j)) most"
    using assms unfolding job_for_def by blast
  let ?ms = "chat_messages (cj_request j)"
  define P where "P k m = (\<not> (is_instruction m \<and> message_source k \<notin> set (map cc_source (cx_chunks (cj_compiled j)))))" for k m
  have ms: "cj_messages j = map snd (filter (\<lambda>(k, m). P k m) (zip [0..<0 + length ?ms] ?ms))"
    using c by (simp add: compile_openai_messages_def Let_def P_def)
  have "(\<lambda>(k, m). \<not> is_instruction m \<and> P k m) = (\<lambda>(k, m). \<not> is_instruction m)" by (auto simp: P_def)
  then have "filter (\<lambda>m. \<not> is_instruction m) (cj_messages j) = filter (\<lambda>m. \<not> is_instruction m) ?ms"
    unfolding ms filter_numbered(1) filter_numbered(3) [of "\<lambda>m. \<not> is_instruction m" 0 ?ms, symmetric] by simp
  moreover have "subseq (cj_messages j) ?ms" unfolding ms by (rule filter_numbered(2))
  ultimately show ?thesis using True by (auto simp: provider_request_def context_applied_def)
qed

subsection \<open>The answer\<close>

lemma hit_is_hit:
  assumes "chat_answer ge j g = (Inr r, g')" "co_cache r \<noteq> ''miss''"
  shows "gw_calls g' = gw_calls g"
proof -
  have k: "keeps (calls_are cs) (exact_lookup ge j)" "keeps (calls_are cs) (semantic_lookup ge j)"
      "keeps (calls_are cs) (exact_hit (ge_env ge) j v)" "keeps (calls_are cs) (semantic_hit (ge_env ge) j h)" for cs v h
    by (intro keeps_rules; simp)+
  have miss: "co_cache x = ''miss''" if "provider_answer ge j g1 = (Inr x, g2)" for x g1 g2
    using that by (auto simp: provider_answer_def settle_answer_def Let_def effect_simps)
  obtain c g1 where ex: "exact_lookup ge j g = (Inr c, g1)"
    and rest: "(case c of Some v \<Rightarrow> exact_hit (ge_env ge) j v
      | None \<Rightarrow> bindS (semantic_lookup ge j) (\<lambda>hit. case hit of Some h \<Rightarrow> semantic_hit (ge_env ge) j h | None \<Rightarrow> provider_answer ge j)) g1
      = (Inr r, g')"
    using assms(1) by (auto simp: chat_answer_def effect_simps)
  have same: "gw_calls b = gw_calls a" if "\<And>cs. keeps (calls_are cs) m" "m a = (x, b)" for m :: "'b gio" and a b x
    using keepsD [OF that(1) _ that(2), of "gw_calls a"] by (simp add: calls_are_def)
  have g1: "gw_calls g1 = gw_calls g" by (rule same [OF k(1) ex])
  show ?thesis
  proof (cases c)
    case (Some v)
    then show ?thesis using rest same [OF k(3) [where v = v]] g1 by simp
  next
    case None
    then obtain hit g2 where sl: "semantic_lookup ge j g1 = (Inr hit, g2)"
      and rest: "(case hit of Some h \<Rightarrow> semantic_hit (ge_env ge) j h | None \<Rightarrow> provider_answer ge j) g2 = (Inr r, g')"
      using rest by (auto simp: effect_simps)
    have g2: "gw_calls g2 = gw_calls g" using same [OF k(2) sl] g1 by simp
    show ?thesis using rest miss assms(2) same [OF k(4)] g2 by (cases hit) auto
  qed
qed

lemma answer_asks: "asks (calls_ok (first_request j) (cj_request j) (pd_models (cj_decision j))) (chat_answer ge j)"
proof -
  let ?P = "calls_ok (first_request j) (cj_request j) (pd_models (cj_decision j))"
  have nil: "?P []" by (simp add: calls_ok_def)
  have hits: "asks ?P (exact_hit (ge_env ge) j v)" "asks ?P (semantic_hit (ge_env ge) j h)" for v h
    by (intro asks_nothing keeps_rules nil; simp)+
  show ?thesis
    unfolding chat_answer_def
  proof (intro asks_before keeps_rules nil)
    fix c
    have "asks ?P (case hit of Some h \<Rightarrow> semantic_hit (ge_env ge) j h | None \<Rightarrow> provider_answer ge j)" for hit
      by (cases hit) (simp_all add: hits provider_answer_asks)
    then show "asks ?P (case c of Some v \<Rightarrow> exact_hit (ge_env ge) j v
      | None \<Rightarrow> bindS (semantic_lookup ge j) (\<lambda>hit. case hit of Some h \<Rightarrow> semantic_hit (ge_env ge) j h | None \<Rightarrow> provider_answer ge j))"
      by (cases c) (simp_all only: option.case hits, intro asks_before keeps_rules nil)
  qed
qed

lemma call_keeps_caches [keeps_rules]: "keeps (caches_are c s) (call_provider ge request route)"
proof -
  have "keeps (caches_are c s) (\<lambda>g. (ge_provider ge k request route, g\<lparr>gw_calls := gw_calls g @ [(request, route)]\<rparr>))" for k
    by (simp add: keeps_def)
  then show ?thesis unfolding call_provider_def by (intro keeps_bindS keeps_on_world) simp_all
qed

lemma answer_keeps_caches:
  assumes "cj_mode j \<noteq> ''enforce''"
  shows "keeps (caches_are c s) (chat_answer ge j)"
proof -
  have off: "exact_lookup ge j = retS None" "semantic_lookup ge j = retS None" "keep_response ge j v = thenS (retS ()) (retS ())" for v
    using assms by (simp_all add: exact_lookup_def exact_enabled_def semantic_lookup_def semantic_enabled_def keep_response_def)
  have "keeps (caches_are c s) (ask_provider ge j)" unfolding ask_provider_def Let_def by (intro keeps_rules; simp)
  moreover have "keeps (caches_are c s) (settle_answer ge j v refused)" for v refused
    unfolding settle_answer_def Let_def off by (intro keeps_rules; simp)
  ultimately have "keeps (caches_are c s) (provider_answer ge j)" unfolding provider_answer_def by (intro keeps_rules; simp)
  then show ?thesis by (simp add: chat_answer_def off bindS_def retS_def)
qed

subsection \<open>The record of a request\<close>

lemma accepted_text: "vr_accepted (verify_chat_response v) \<longleftrightarrow> (\<exists>c. chat_content v = Inr c \<and> py_strip (py_str c) \<noteq> [])"
  by (auto simp: verify_chat_response_def verify_non_empty_text_def verdict_def split: sum.splits)

text \<open>No outcome is ever recorded for a response that does not verify.\<close>

lemma hit_accepted:
  assumes "sem_lookup_hit_sql thr now t n txt src task x (Some f) s = (Inr (Some h), s')"
  shows "vr_accepted (f (sh_value h))"
  using assms by (auto simp: sem_lookup_hit_sql_def lookup_hit_def sem_finish_def raiseS_def Let_def split: if_splits sum.splits prod.splits option.splits)

lemma answer_accepted:
  assumes "chat_answer ge j g = (Inr r, g')"
  shows "vr_accepted (verify_chat_response (co_response r))"
proof -
  have ex: "vr_accepted (verify_chat_response v)" if "exact_lookup ge j g = (Inr (Some v), g1)" for v g1
    using that by (auto simp: exact_lookup_def effect_simps split: if_splits option.splits)
  have sem: "vr_accepted (verify_chat_response (sh_value h))" if "semantic_lookup ge j g1 = (Inr (Some h), g2)" for h g1 g2
    using that hit_accepted by (auto simp: semantic_lookup_def on_semantic_def effect_simps split: if_splits)
  have settled: "vr_accepted (verify_chat_response v)" if "settle_answer ge j v refused g1 = (Inr x, g2)" for v refused g1 x g2
    using that by (auto simp: settle_answer_def Let_def effect_simps refuse_response_def split: if_splits)
  have outcome: "co_response x = v" if "settle_answer ge j v refused g1 = (Inr x, g2)" for v refused g1 x g2
    using that by (auto simp: settle_answer_def Let_def effect_simps)
  show ?thesis
    using assms ex sem settled outcome
    by (auto simp: chat_answer_def effect_simps exact_hit_def semantic_hit_def provider_answer_def split: option.splits)
qed

lemma tallies_frame:
  assumes "thenS (tally a x) (thenS (tally b y) (tally c z)) g = (u, g')"
  shows "w_manifests (gw_world g') = w_manifests (gw_world g)" "w_ledger (gw_world g') = w_ledger (gw_world g)"
proof -
  have k: "keeps (\<lambda>g. w_manifests (gw_world g) = s) (thenS (tally a x) (thenS (tally b y) (tally c z)))"
      "keeps (\<lambda>g. w_ledger (gw_world g) = l) (thenS (tally a x) (thenS (tally b y) (tally c z)))" for s l
    unfolding tally_def count_def
    by (intro keeps_thenS keeps_in_world; simp add: keeps_def zoom_def split: prod.splits)+
  show "w_manifests (gw_world g') = w_manifests (gw_world g)" using keepsD [OF k(1) _ assms] by simp
  show "w_ledger (gw_world g') = w_ledger (gw_world g)" using keepsD [OF k(2) _ assms] by simp
qed

lemma finish_steps:
  assumes "chat_finish ge j r g = (Inr resp, g')"
  obtains until and g1 :: gateway and m w where
    "required_ok j (co_response r) (co_cache r) = Inr ()" "w_ledger (gw_world g1) = w_ledger (gw_world g)"
    "write_chat_manifest (ge_env ge) j r (compute_manifest j r until) (gw_world g1) = (Inr m, w)"
    "w_manifests (gw_world g') = w_manifests w" "w_ledger (gw_world g') = w_ledger w"
    "resp = dset ''urp'' (PDict (urp_fields j r m)) (dict_of (co_response r))"
proof -
  let ?until = "if cj_mode j = ''enforce'' then bindS (read_clock ge) (\<lambda>now. liftR (cacheable_until now (job_options j))) else retS PNone"
  let ?tallies = "thenS (tally ''urp_work_units_total'' 1)
       (thenS (tally ''urp_ai_input_tokens_total'' (input_tokens (cj_request j)))
       (tally ''urp_ai_context_tokens_removed_total'' (max 0 (tokens_removable j))))"
  obtain until g1 m w u where *: "required_ok j (co_response r) (co_cache r) = Inr ()" "?until g = (Inr until, g1)"
      "write_chat_manifest (ge_env ge) j r (compute_manifest j r until) (gw_world g1) = (Inr m, w)"
      "?tallies (g1\<lparr>gw_world := w\<rparr>) = (Inr u, g')"
      "resp = dset ''urp'' (PDict (urp_fields j r m)) (dict_of (co_response r))"
    using assms unfolding chat_finish_def Let_def thenS_Inr [of "liftR _"] bindS_Inr liftR_eq thenS_Inr [where m = "thenS _ _"] retS_eq on_world_eq
    by (elim exE conjE) (rule that, simp_all)
  have "w_ledger (gw_world g1) = w_ledger (gw_world g)"
    using *(2) by (auto simp: effect_simps read_clock_def split: if_splits)
  then show thesis
    using * tallies_frame [OF *(4)] by (intro that [OF *(1) _ *(3)]) simp_all
qed

lemma urp_of_response: "dict_of (get_value (dset ''urp'' (PDict d) resp) ''urp'') = d"
  by (simp add: get_value_def dict_of_def)

lemma finish_cache:
  assumes "chat_finish ge j r g = (Inr resp, g')"
  shows "dget (dict_of (get_value resp ''urp'')) ''cache'' = Some (PStr (co_cache r))"
  by (rule finish_steps [OF assms]) (simp only: urp_of_response, simp add: urp_fields_def)

lemma announce_chat_manifest_keeps: "keeps (\<lambda>w. w_manifests w = s) (announce_chat_manifest en j r m)"
  unfolding announce_chat_manifest_def Let_def by (intro keeps_rules)

definition recorded_chat :: "manifest \<Rightarrow> string \<Rightarrow> string \<Rightarrow> string \<Rightarrow> bool" where
  "recorded_chat m t ty mode = (mf_kind m = PROMPT_REQUEST \<and> mf_tenant m = t
     \<and> dget (mf_verification m) ''accepted'' = Some (PBool True)
     \<and> dget (mf_physical m) ''cache_result'' = Some (PStr ty) \<and> (mf_state m = ''active'') = (mode = ''enforce''))"

lemma chat_manifest_written:
  assumes "write_chat_manifest en j r compute w = (Inr m, w')" "vr_accepted (verify_chat_response (co_response r))"
  shows "\<exists>f. file_get (e_ctx en) (mf_manifest_id m) (w_manifests w') = Inr f
    \<and> recorded_chat f (wu_tenant (cj_unit j)) (co_cache r) (cj_mode j)"
proof -
  obtain u w1 where m: "m = chat_manifest en j r compute (w_drawn w)"
    and put: "put_manifest en m (w\<lparr>w_drawn := Suc (w_drawn w)\<rparr>) = (Inr (), w1)"
    and ann: "announce_chat_manifest en j r m w1 = (Inr u, w')"
    using assms(1) by (auto simp: write_chat_manifest_def Let_def effect_simps)
  obtain f where filed: "file_put (e_schemas en) (e_ctx en) m (w_manifests w) = (Inr (), f)" "w_manifests w1 = f"
    using put by (auto simp: put_manifest_def on_manifests_def effect_simps)
  have "w_manifests w' = f" using keepsD [OF announce_chat_manifest_keeps _ ann, of f] filed(2) by simp
  moreover have "file_get (e_ctx en) (mf_manifest_id m) f = Inr (filed_manifest m)"
    by (rule file_manifests.get_after_put [OF filed(1)]) (simp add: m)
  moreover have "recorded_chat (filed_manifest m) (wu_tenant (cj_unit j)) (co_cache r) (cj_mode j)"
    using assms(2) by (simp add: m recorded_chat_def filed_manifest_def chat_manifest_def verification_to_dict_def)
  ultimately show ?thesis by simp
qed

subsection \<open>Discipline\<close>

text \<open>What may be asked for a request under a bundle.\<close>

definition proper_calls :: "env \<Rightarrow> pydict \<Rightarrow> string \<Rightarrow> string \<Rightarrow> pydict \<Rightarrow> string option \<Rightarrow> (pydict \<times> string) list \<Rightarrow> bool" where
  "proper_calls en request t n pb mode new = (new = []
     \<or> (\<exists>q first r d wu. normalize_openai_request request = Inr q \<and> evaluate_policy wu pb = Inr d
        \<and> wu_tenant wu = t \<and> wu_namespace wu = n
        \<and> (new = [(first, r)] \<or> (\<exists>f \<in> set (pd_models d). new = [(first, r), (q, f)]))
        \<and> (first = q \<or> (execution_mode en mode = Inr ''enforce''
            \<and> (\<exists>ms. first = dset ''messages'' (PList (map PDict ms)) q \<and> subseq ms (chat_messages q)
                \<and> filter (\<lambda>m. \<not> is_instruction m) ms = filter (\<lambda>m. \<not> is_instruction m) (chat_messages q))))))"

lemma job_calls:
  assumes "chat_intake ge request t n (Some pb) mode g = (Inr j, g')"
    and "calls_ok (first_request j) (cj_request j) (pd_models (cj_decision j)) new"
  shows "proper_calls (ge_env ge) request t n pb mode new"
proof (cases "new = []")
  case False
  note job = intake_job [OF assms(1)]
  define first where "first = first_request j"
  obtain r where "new = [(first, r)] \<or> (\<exists>f \<in> set (pd_models (cj_decision j)). new = [(first, r), (cj_request j, f)])"
    using assms(2) False unfolding calls_ok_def first_def by blast
  moreover have "evaluate_policy (cj_unit j) pb = Inr (cj_decision j)" using job(2) by auto
  moreover have "execution_mode (ge_env ge) mode = Inr (cj_mode j)" "normalize_openai_request request = Inr (cj_request j)"
      "wu_tenant (cj_unit j) = t" "wu_namespace (cj_unit j) = n" using job(1) by (auto simp: job_for_def)
  moreover note provider_request_messages [OF job(1), folded first_def]
  ultimately show ?thesis
    unfolding proper_calls_def by metis
qed (simp add: proper_calls_def)

lemma same_calls: "keeps (calls_are (gw_calls g)) m \<Longrightarrow> m g = (r, g') \<Longrightarrow> gw_calls g' = gw_calls g"
  using keepsD [of "calls_are (gw_calls g)" m g] by (simp add: calls_are_def)

lemma same_caches:
  "keeps (caches_are (gw_cache g) (gw_semantic g)) m \<Longrightarrow> m g = (r, g') \<Longrightarrow> gw_cache g' = gw_cache g \<and> gw_semantic g' = gw_semantic g"
  using keepsD [of "caches_are (gw_cache g) (gw_semantic g)" m g] by (simp add: caches_are_def)


subsection \<open>Verified answers\<close>

lemma chat_content_dict: "chat_content v = Inr c \<Longrightarrow> v = PDict (dict_of v)"
  by (cases v) (auto simp: chat_content_def dict_of_def)

lemma chat_content_dset: "k \<noteq> ''choices'' \<Longrightarrow> chat_content (PDict (dset k x d)) = chat_content (PDict d)"
  by (simp add: chat_content_def item_def)

lemma content_answer:
  assumes "chat_content v = Inr c"
  shows "answer_text v = Inr (casefold (py_str c))"
proof -
  obtain cs f m where *: "at_key v ''choices'' = Inr cs" "at_zero cs = Inr f" "at_key f ''message'' = Inr m" "at_key m ''content'' = Inr c"
    using assms by (auto simp: chat_content_def effect_simps)
  have key: "get_from x k d = Inr y" if "at_key x k = Inr y" for x k d y
    using that by (cases x) (auto simp: get_from_def item_def get_default_def split: option.splits)
  show ?thesis using * by (simp add: answer_text_def key)
qed

definition met :: "string list \<Rightarrow> string list \<Rightarrow> pyval \<Rightarrow> bool" where
  "met required sources c = (set (map before_at required) \<subseteq> set ai_verifiers
     \<and> (''answer_citation_check'' \<in> set (map before_at required) \<and> sources \<noteq> []
        \<longrightarrow> (\<exists>p \<in> set citation_markers. contains p (casefold (py_str c)))))"

lemma required_met:
  assumes "required_ok j v ty = Inr ()" "chat_content v = Inr c"
  shows "met (pd_required (cj_decision j)) (cj_sources j) c"
proof -
  have none: "unsupported_names (pd_required (cj_decision j)) ai_verifiers = []"
    using assms(1) by (auto simp: required_ok_def verify_required_ai_verifiers_def Let_def split: if_splits)
  then have "set (filter (\<lambda>n. n \<notin> set ai_verifiers) (map before_at (pd_required (cj_decision j)))) = {}"
    unfolding unsupported_names_def by (metis list.set(1) set_remdups set_sort)
  then have "set (map before_at (pd_required (cj_decision j))) \<subseteq> set ai_verifiers" by auto
  moreover have "\<exists>p \<in> set citation_markers. contains p (casefold (py_str c))"
    if "''answer_citation_check'' \<in> set (map before_at (pd_required (cj_decision j)))" "cj_sources j \<noteq> []"
    using assms(1) that none content_answer [OF assms(2)]
    by (simp add: required_ok_def verify_required_ai_verifiers_def Let_def list_ex_iff split: if_splits)
  ultimately show ?thesis by (simp add: met_def)
qed

lemma ai_approval_gate:
  assumes "require_ai_approval en wu d w = (Inr u, w')" "pd_require_approval d"
  shows "\<exists>a ap. approval_verify (e_vars en ''URP_APPROVAL_SIGNING_KEY'') (e_random en) (e_now en)
        (py_str (get_value (wu_policy_context wu) ''approval_id'')) wu (pd_contract d) (pd_bundle_id d) (w_approvals w) = (Inr a, ap)"
  using assms by (auto simp: require_ai_approval_def Let_def on_approvals_def effect_simps split: if_splits)


subsection \<open>The audit trail\<close>

named_theorems audit_rules \<open>what keeps the ledger of a gateway verifiable\<close>

lemmas keeps_control = keeps_bindS keeps_thenS keeps_liftR keeps_retS keeps_raiseS keeps_if keeps_option

definition gw_audit :: "ledger_rows \<Rightarrow> gateway \<Rightarrow> bool" where
  "gw_audit l0 g = audit_inv l0 (gw_world g)"

lemma audit_on_world: "keeps (audit_inv l0) m \<Longrightarrow> keeps (gw_audit l0) (on_world m)"
  unfolding gw_audit_def by (rule keeps_in_world)

lemma audit_parts [audit_rules]:
  "keeps (gw_audit l0) (on_cache c)" "keeps (gw_audit l0) (on_semantic s)" "keeps (gw_audit l0) (on_feedback f)"
  by (intro keeps_on_cache keeps_on_semantic keeps_on_feedback; simp add: gw_audit_def)+

lemma audit_clock [audit_rules]: "keeps (gw_audit l0) (read_clock ge)"
  unfolding read_clock_def by (intro keeps_control audit_on_world draw_audited)

lemma audit_call [audit_rules]: "keeps (gw_audit l0) (call_provider ge request route)"
proof -
  have "keeps (gw_audit l0) (\<lambda>g. (ge_provider ge k request route, g\<lparr>gw_calls := gw_calls g @ [(request, route)]\<rparr>))" for k
    by (simp add: keeps_def gw_audit_def)
  then show ?thesis unfolding call_provider_def by (intro keeps_bindS audit_on_world draw_audited) simp
qed

lemma audit_event [audit_rules]: "fresh_events en \<Longrightarrow> keeps (gw_audit l0) (job_event en j ty a)"
  unfolding job_event_def by (intro audit_on_world keeps_rules)

lemma audit_jobs [audit_rules]:
  "keeps (gw_audit l0) (job_log en j ty m a)" "keeps (gw_audit l0) (job_failure_log en j sv ty m a)"
  "keeps (gw_audit l0) (job_span en j nm a)" "keeps (gw_audit l0) (tally nm v)"
  unfolding job_log_def job_failure_log_def job_span_def tally_def
  by (intro audit_on_world keeps_rules)+

lemma audit_intake [audit_rules]:
  assumes "fresh_events (ge_env ge)"
  shows "keeps (gw_audit l0) (chat_intake ge request t n b mode)"
proof -
  have "keeps (audit_inv l0) (require_ai_approval (ge_env ge) wu d)" "keeps (audit_inv l0) (announce_chat (ge_env ge) wu d p q sources)" for wu d p q sources
    unfolding require_ai_approval_def announce_chat_def Let_def by (intro keeps_rules assms)+
  then show ?thesis
    unfolding chat_intake_def Let_def split_def
    by (intro keeps_control audit_on_world draw_audited keeps_inspect)
qed

lemma audit_lookup [audit_rules]:
  assumes "fresh_events (ge_env ge)"
  shows "keeps (gw_audit l0) (exact_lookup ge j)" "keeps (gw_audit l0) (semantic_lookup ge j)" "keeps (gw_audit l0) (keep_response ge j v)"
    "keeps (gw_audit l0) (exact_hit (ge_env ge) j v)" "keeps (gw_audit l0) (semantic_hit (ge_env ge) j h)"
  unfolding exact_lookup_def semantic_lookup_def keep_response_def exact_hit_def semantic_hit_def
  by (intro keeps_control audit_rules assms)+

lemma audit_answer [audit_rules]:
  assumes "fresh_events (ge_env ge)"
  shows "keeps (gw_audit l0) (chat_answer ge j)"
proof -
  have ask: "keeps (gw_audit l0) (ask_provider ge j)"
    unfolding ask_provider_def announce_fallback_def Let_def by (intro keeps_control audit_rules assms)
  have settle: "keeps (gw_audit l0) (settle_answer ge j v refused)" for v refused
    unfolding settle_answer_def announce_answer_def refuse_response_def Let_def
    by (intro keeps_control audit_rules audit_on_world draw_audited assms)
  have "keeps (gw_audit l0) (provider_answer ge j)"
    unfolding provider_answer_def announce_route_def Let_def by (intro keeps_control ask settle audit_rules assms)
  then show ?thesis
    unfolding chat_answer_def by (intro keeps_control audit_rules assms)
qed

lemma audit_manifest: "fresh_events en \<Longrightarrow> keeps (audit_inv l0) (write_chat_manifest en j r compute)"
  unfolding write_chat_manifest_def announce_chat_manifest_def Let_def by (intro keeps_rules)

lemma audit_finish [audit_rules]:
  assumes "fresh_events (ge_env ge)"
  shows "keeps (gw_audit l0) (chat_finish ge j r)"
  unfolding chat_finish_def Let_def
  by (intro keeps_control audit_rules audit_on_world audit_manifest assms)

lemma gateway_audited: "fresh_events (ge_env ge) \<Longrightarrow> keeps (gw_audit l0) (handle_chat_completion ge request t n b mode)"
  unfolding handle_chat_completion_def by (intro keeps_control audit_rules)

lemma chat_manifest_logged:
  assumes "announce_chat_manifest en j r m w = (Inr u, w')" "audit_inv l0 w" "fresh_events en"
  shows "has_event (w_ledger w') ''manifest.written'' (Some (mf_manifest_id m))"
proof -
  from assms(1) [unfolded announce_chat_manifest_def Let_def, unfolded thenS_Inr [of "append_event en x" for x]]
  obtain y w1 where ev: "append_event en (manifest_event (cj_unit j) (cj_decision j) m ''manifest.written'' []) w = (Inr y, w1)"
    and rest: "thenS (emit_log en ((unit_log (cj_unit j) (cj_decision j) ''manifest.written'' ''manifest written''
          [(''kind'', PStr ''prompt_request''), (''cache_result'', PStr (co_cache r)), (''provider_called'', PBool (co_called r))])
          \<lparr>le_manifest_id := Some (mf_manifest_id m)\<rparr>))
        (thenS (emit_span en ''urp.manifest.write'' (wu_trace_id (cj_unit j))
          [(''work_unit_id'', PStr (wu_id (cj_unit j))), (''manifest_id'', PStr (mf_manifest_id m))]) (retS ())) w1 = (Inr u, w')"
      (is "?rest w1 = _")
    by blast
  have logged: "has_event (w_ledger w1) ''manifest.written'' (Some (mf_manifest_id m))"
    using append_event_logged [OF ev assms(2,3)] by (simp add: manifest_event_def unit_event_def event_draft_def)
  have here: "audit_inv (w_ledger w1) w1"
    using keepsD [OF append_event_audited [OF assms(3)] assms(2) ev] by (simp add: audit_inv_def)
  have "keeps (audit_inv (w_ledger w1)) ?rest" by (intro keeps_rules)
  from keepsD [OF this here rest] show ?thesis using has_event_prefix [OF logged] by (simp add: audit_inv_def)
qed

lemma manifest_event_logged:
  assumes "write_chat_manifest en j r compute w = (Inr m, w')" "audit_inv l0 w" "fresh_events en"
  shows "has_event (w_ledger w') ''manifest.written'' (Some (mf_manifest_id m))"
proof -
  obtain w1 u where put: "put_manifest en m (w\<lparr>w_drawn := Suc (w_drawn w)\<rparr>) = (Inr (), w1)"
    and ann: "announce_chat_manifest en j r m w1 = (Inr u, w')"
    using assms(1) by (auto simp: write_chat_manifest_def Let_def effect_simps)
  have "audit_inv l0 w1"
    by (rule keepsD [OF others_audited(6) _ put]) (use assms(2) in \<open>simp add: audit_inv_def\<close>)
  from chat_manifest_logged [OF ann this assms(3)] show ?thesis .
qed

text \<open>
  C17 (invariant). Every chat request is audited: from a ledger whose chain verifies, a request,
  successful or not, only appends to the ledger and leaves its chain verifiable; a successful one
  leaves an event of type \<open>manifest.written\<close> for the manifest named in its response.
\<close>

theorem chat_is_audited:
  assumes "handle_chat_completion ge request t n b mode g = (res, g')"
    and "verify_chain (w_ledger (gw_world g)) = Inr True" "fresh_events (ge_env ge)"
  shows "verify_chain (w_ledger (gw_world g')) = Inr True \<and> prefix (w_ledger (gw_world g)) (w_ledger (gw_world g'))
    \<and> (\<forall>resp. res = Inr resp \<longrightarrow> (\<exists>i. dget (dict_of (get_value resp ''urp'')) ''manifest_id'' = Some (PStr i)
        \<and> has_event (w_ledger (gw_world g')) ''manifest.written'' (Some i)))"
proof -
  have I: "gw_audit (w_ledger (gw_world g)) g" using assms(2) by (simp add: gw_audit_def audit_inv_def)
  have final: "gw_audit (w_ledger (gw_world g)) g'" by (rule keepsD [OF gateway_audited [OF assms(3)] I assms(1)])
  have "\<exists>i. dget (dict_of (get_value resp ''urp'')) ''manifest_id'' = Some (PStr i)
        \<and> has_event (w_ledger (gw_world g')) ''manifest.written'' (Some i)" if res: "res = Inr resp" for resp
  proof -
    obtain j g1 r g2 where int: "chat_intake ge request t n b mode g = (Inr j, g1)"
      and ans: "chat_answer ge j g1 = (Inr r, g2)" and fin: "chat_finish ge j r g2 = (Inr resp, g')"
      by (rule chat_parts [OF assms(1) [unfolded res]])
    have g2: "gw_audit (w_ledger (gw_world g)) g2"
      by (rule keepsD [OF audit_answer [OF assms(3)] keepsD [OF audit_intake [OF assms(3)] I int] ans])
    obtain until and h1 :: gateway and m w where f: "w_ledger (gw_world h1) = w_ledger (gw_world g2)"
        "write_chat_manifest (ge_env ge) j r (compute_manifest j r until) (gw_world h1) = (Inr m, w)"
        "w_ledger (gw_world g') = w_ledger w" "resp = dset ''urp'' (PDict (urp_fields j r m)) (dict_of (co_response r))"
      by (rule finish_steps [OF fin])
    have "audit_inv (w_ledger (gw_world g)) (gw_world h1)" using g2 f(1) by (simp add: gw_audit_def audit_inv_def)
    from manifest_event_logged [OF f(2) this assms(3)] show ?thesis
      unfolding f(4) urp_of_response by (simp add: f(3) urp_fields_def)
  qed
  then show ?thesis using final by (simp add: gw_audit_def audit_inv_def)
qed

end
