(* ===== verification/Answering.thy ===== *)
theory Answering
  imports Serving Liveness
begin

text \<open>
  The AI gateway answers: with a provider whose answers have text, under the default policy, every
  request in normal form is served, and an identical request after it is served from the exact
  cache with the same text, at no call.
\<close>

subsection \<open>What is asked for\<close>

text \<open>A request that the gateway can read and that does not opt into the semantic cache.\<close>

definition plain_chat :: "env \<Rightarrow> pydict \<Rightarrow> string option \<Rightarrow> string \<Rightarrow> pydict \<Rightarrow> bool" where
  "plain_chat en request mode md q = (execution_mode en mode = Inr md \<and> require_execution_enabled en None = Inr ()
     \<and> normalize_openai_request request = Inr q \<and> \<not> isl (chat_fingerprints q)
     \<and> py_str (get_default (urp_options q) ''contract'' (PStr ''semantic'')) = ''semantic''
     \<and> \<not> isl (cache_ttl_seconds (urp_options q)) \<and> \<not> isl (py_int (get_default (urp_options q) ''max_context_tokens'' (PInt 4000)))
     \<and> get_value (urp_options q) ''allow_semantic_cache'' \<noteq> PBool True)"

definition answering :: "gateway_env \<Rightarrow> bool" where
  "answering ge = (\<forall>k request route. \<exists>v c. ge_provider ge k request route = Inr v \<and> chat_content v = Inr c
     \<and> py_strip (py_str c) \<noteq> [] \<and> envelope_free v \<and> json_ok v)"

text \<open>No two readings of the clock are \<open>ttl\<close> apart.\<close>

definition steady :: "gateway_env \<Rightarrow> real \<Rightarrow> bool" where
  "steady ge ttl = (\<forall>a b. ge_time ge b < ge_time ge a + ttl)"

definition gw_ready :: "gateway \<Rightarrow> bool" where
  "gw_ready g = (readable (gw_world g) \<and> readable_cache (gw_cache g))"

subsection \<open>The default policy and plan\<close>

lemma semantic_contract [simp]: "contract_of ''semantic'' = Inr SEMANTIC"
  using contract_of_value [of SEMANTIC] by simp

lemma chat_unit_simps [simp]:
  "wu_kind (chat_unit en k t n q src c) = PROMPT_REQUEST" "wu_tenant (chat_unit en k t n q src c) = t"
  "wu_namespace (chat_unit en k t n q src c) = n" "wu_requested_contract (chat_unit en k t n q src c) = Some c"
  by (simp_all add: chat_unit_def)

definition chat_decision :: policy_decision where
  "chat_decision = ai_decision True False False"

lemma default_decision:
  assumes "get_value (urp_options q) ''allow_semantic_cache'' \<noteq> PBool True"
  shows "evaluate_policy (chat_unit en k t n q src SEMANTIC) [] = Inr chat_decision"
  using assms
  by (simp add: evaluate_policy_def legal_hold_def chat_unit_def requested_contract_def evaluate_bundle_def ai_kind_def
      ai_default_decision_def text_kind_def chat_decision_def)

lemma chat_decision_simps [simp]:
  "pd_required chat_decision = [''non_empty_text'']" "\<not> pd_require_approval chat_decision" "pd_models chat_decision = DEFAULT_MODELS"
  "pd_contract chat_decision = SEMANTIC"
  by (simp_all add: chat_decision_def ai_decision_def simple_decision_def)

lemma default_plan:
  assumes "md \<in> set modes" "wu_kind wu = PROMPT_REQUEST"
  shows "\<exists>p. plan_work_unit wu md [] (Some chat_decision) = Inr p"
  by (rule supported_plan)
    (use assms in \<open>simp_all add: framework_def chat_decision_def ai_decision_def simple_decision_def kind_contracts_def
        compute_kind_def ai_contracts_def\<close>)

lemma default_actions:
  assumes "plan_work_unit wu ''enforce'' [] (Some chat_decision) = Inr p" "wu_kind wu = PROMPT_REQUEST"
  shows "{''exact_cache_lookup'', ''cache_store''} \<subseteq> set (map pa_type (pl_actions p))"
proof -
  have "pl_actions p = filter (\<lambda>a. pa_type a \<notin> set (pd_denied chat_decision) \<and> permitted chat_decision ''enforce'' (pa_type a)) prompt_steps"
    using plan_iff(2) [OF _ assms(1)] assms(2)
    by (simp add: modes_def planned_steps_def compute_kind_def kept_steps_def kind_steps_def)
  moreover have "{''exact_cache_lookup'', ''cache_store''} \<subseteq> set (map pa_type
      (filter (\<lambda>a. pa_type a \<notin> set (pd_denied chat_decision) \<and> permitted chat_decision ''enforce'' (pa_type a)) prompt_steps))"
    by code_simp
  ultimately show ?thesis by simp
qed

lemma mode_known: "execution_mode en mode = Inr md \<Longrightarrow> md \<in> set modes"
  by (auto simp: execution_mode_def Let_def split: if_splits)

subsection \<open>Every step returns\<close>

lemma on_world_runs: "runs m \<Longrightarrow> succeeds gw_ready (on_world m)"
  unfolding succeeds_def gw_ready_def on_world_def zoom_def
  by (metis (no_types, lifting) gateway.select_convs(1,2) gateway.surjective gateway.update_convs(1) prod.case)

lemma job_runs:
  assumes "open_env en (wu_tenant (cj_unit j))"
  shows "json_ok (PDict a) \<Longrightarrow> succeeds gw_ready (job_event en j ty a)"
    and "succeeds gw_ready (job_log en j ty m a)" "succeeds gw_ready (job_failure_log en j sv ty m a)"
    and "get_value a ''tenant'' = PNone \<Longrightarrow> succeeds gw_ready (job_span en j nm a)"
    and "metric_name_ok nm \<Longrightarrow> succeeds gw_ready (tally nm v)"
  unfolding job_event_def job_log_def job_failure_log_def job_span_def tally_def
  by (intro on_world_runs runs_thenS runs_retS append_event_runs [OF assms] emit_log_runs [OF assms] emit_span_runs [OF assms] count_runs;
      simp add: get_value_def)+

lemma clock_runs: "succeeds gw_ready (read_clock ge)"
  unfolding read_clock_def by (intro runs_bindS on_world_runs runs_draw runs_retS)

lemma metrics_ok:
  "metric_name_ok ''urp_cache_hits_total''" "metric_name_ok ''urp_ai_large_model_calls_avoided_total''"
  "metric_name_ok ''urp_cache_misses_total''" "metric_name_ok ''urp_ai_large_model_calls_total''"
  "metric_name_ok ''urp_work_units_total''" "metric_name_ok ''urp_ai_input_tokens_total''"
  "metric_name_ok ''urp_ai_context_tokens_removed_total''"
  by code_simp+

lemma cache_runs:
  assumes "\<And>c. readable_cache c \<Longrightarrow> \<exists>x c'. m c = (Inr x, c') \<and> readable_cache c'"
  shows "succeeds gw_ready (on_cache m)"
  unfolding succeeds_def gw_ready_def
proof (intro allI impI)
  fix g :: gateway
  assume g: "readable (gw_world g) \<and> readable_cache (gw_cache g)"
  then obtain x c' where "m (gw_cache g) = (Inr x, c')" "readable_cache c'" using assms by blast
  then show "\<exists>x g'. on_cache m g = (Inr x, g') \<and> readable (gw_world g') \<and> readable_cache (gw_cache g')"
    using g by (simp add: on_cache_def zoom_def)
qed

lemma get_runs: "succeeds gw_ready (on_cache (sqlc_get now k t n src))"
  by (rule cache_runs) (use sql_cache.get_law in blast)

lemma exact_lookup_runs: "succeeds gw_ready (exact_lookup ge j)"
proof -
  have del: "succeeds gw_ready (on_cache (\<lambda>c. (Inr (), sqlc_delete k c)))" for k
    by (rule cache_runs) (use sql_cache.delete_law in blast)
  show ?thesis
    unfolding exact_lookup_def
    by (intro runs_if runs_bindS runs_retS clock_runs get_runs runs_option runs_thenS del)
qed

lemma put_runs:
  assumes "storable_entry e" "acceptable now e"
  shows "succeeds gw_ready (on_cache (sqlc_put now e))"
proof (rule cache_runs)
  fix c assume "readable_cache c"
  from sql_cache.put_law [OF this assms(1), of now] check_entry_acceptable [of now e] assms(2)
  show "\<exists>x c'. sqlc_put now e c = (Inr x, c') \<and> readable_cache c'" by auto
qed

definition servable :: "gateway_env \<Rightarrow> chat_job \<Rightarrow> bool" where
  "servable ge j = (open_env (ge_env ge) (wu_tenant (cj_unit j)) \<and> answering ge \<and> wu_tenant (cj_unit j) \<noteq> [] \<and> wu_namespace (cj_unit j) \<noteq> []
     \<and> (0 < cj_ttl j \<longrightarrow> steady ge (cj_ttl j)) \<and> cj_decision j = chat_decision \<and> \<not> semantic_enabled j
     \<and> \<not> isl (cache_ttl_seconds (job_options j)))"

lemma keep_runs:
  assumes "servable ge j" "envelope_free v"
  shows "succeeds gw_ready (keep_response ge j v)"
proof -
  let ?e = "\<lambda>now. \<lparr>ce_key = cj_key j, ce_tenant = wu_tenant (cj_unit j), ce_namespace = wu_namespace (cj_unit j), ce_value = v,
          ce_sources = cj_sources j, ce_verified = True, ce_expires = Some (now + cj_ttl j)\<rparr>"
  have put: "succeeds gw_ready (bindS (read_clock ge) (\<lambda>now. bindS (read_clock ge) (\<lambda>later. on_cache (sqlc_put later (?e now)))))"
    if ttl: "0 < cj_ttl j"
  proof -
    have clock: "\<exists>k. x = ge_time ge k" if "read_clock ge g = (Inr x, g')" for g x g'
      using that by (auto simp: read_clock_def effect_simps)
    have ok: "succeeds gw_ready (on_cache (sqlc_put later (?e now)))" if "\<exists>a. now = ge_time ge a" "\<exists>b. later = ge_time ge b" for now later
      by (rule put_runs) (use assms that ttl in \<open>auto simp: storable_entry_def acceptable_def alive_def servable_def steady_def\<close>)
    show ?thesis
      by (rule runs_bind_if [OF clock_runs clock], assumption, rule runs_bind_if [OF clock_runs clock], assumption, rule ok)
  qed
  have off: "semantic_enabled j = False" using assms(1) by (simp add: servable_def)
  show ?thesis
    unfolding keep_response_def off if_False by (intro runs_thenS runs_if runs_retS put) simp
qed

lemma default_required:
  assumes "cj_decision j = chat_decision" "vr_accepted (verify_chat_response v)"
  shows "required_ok j v ty = Inr ()"
proof -
  have "before_at ''non_empty_text'' = ''non_empty_text''" by code_simp
  then have names: "map before_at (pd_required (cj_decision j)) = [''non_empty_text'']" using assms(1) by simp
  then have none: "unsupported_names (pd_required (cj_decision j)) ai_verifiers = []"
    by (simp add: unsupported_names_def ai_verifiers_def)
  show ?thesis
    unfolding required_ok_def verify_required_ai_verifiers_def Let_def none names using assms(2) by simp
qed

lemma json_ok_item: "json_ok (PDict d) \<Longrightarrow> json_ok (get_value d k)"
  by (fastforce simp: get_value_def dget_def list_all_iff dest: map_of_SomeD split: option.splits)

lemma json_ok_model:
  assumes "json_ok v"
  shows "json_ok (response_model v)"
proof (cases "\<exists>d. v = PDict d")
  case True
  then show ?thesis using json_ok_item assms by (auto simp only: response_model_def dict_of_def pyval.case)
next
  case False
  then show ?thesis by (cases v) (simp_all add: response_model_def dict_of_def get_value_def)
qed

lemma settle_runs:
  assumes "servable ge j" "envelope_free v" "json_ok v" "vr_accepted (verify_chat_response v)"
  shows "succeeds gw_ready (settle_answer ge j v refused)"
proof -
  have en: "open_env (ge_env ge) (wu_tenant (cj_unit j))" using assms(1) by (simp add: servable_def)
  have req: "succeeds gw_ready (liftR (required_ok j v ''miss''))"
    by (rule runs_liftR) (use assms(1,4) in \<open>simp add: servable_def default_required\<close>)
  have fb: "succeeds gw_ready (on_feedback (feedback_record now wu r ok lat))" for now wu r ok lat
    by (simp add: succeeds_def on_feedback_def zoom_def feedback_record_def gw_ready_def)
  have accepted: "(if vr_accepted (verify_chat_response v) then a else b) = a" for a b :: "unit gio"
    using assms(4) by simp
  show ?thesis
    unfolding settle_answer_def announce_answer_def Let_def accepted
    by (intro runs_thenS runs_bindS runs_retS runs_if req keep_runs [OF assms(1,2)] job_runs [OF en] metrics_ok fb on_world_runs runs_draw)
      (simp_all add: json_ok_model [OF assms(3)])
qed

lemma call_runs:
  assumes "answering ge"
  shows "succeeds gw_ready (call_provider ge request route)"
    and "call_provider ge request route g = (Inr v, g') \<Longrightarrow> envelope_free v \<and> json_ok v \<and> vr_accepted (verify_chat_response v)"
proof -
  have "succeeds gw_ready (\<lambda>g. (ge_provider ge k request route, g\<lparr>gw_calls := gw_calls g @ [(request, route)]\<rparr>))" for k
    using assms unfolding answering_def succeeds_def gw_ready_def by fastforce
  then show "succeeds gw_ready (call_provider ge request route)"
    unfolding call_provider_def by (intro runs_bindS on_world_runs runs_draw)
  assume "call_provider ge request route g = (Inr v, g')"
  then obtain k where v: "ge_provider ge k request route = Inr v" by (auto simp: call_provider_def effect_simps)
  obtain v' c where "ge_provider ge k request route = Inr v'" "chat_content v' = Inr c" "py_strip (py_str c) \<noteq> []" "envelope_free v'" "json_ok v'"
    using assms unfolding answering_def by blast
  then show "envelope_free v \<and> json_ok v \<and> vr_accepted (verify_chat_response v)" using v by (simp add: accepted_text)
qed

lemma routes_found:
  assumes "cj_decision j = chat_decision"
  shows "\<exists>r. selected_route j = Inr r" "\<exists>r. fallback_model (mr_fallback (cj_route j)) (pd_models (cj_decision j)) = Inr r"
  using assms by (auto simp: selected_route_def baseline_model_def fallback_model_def strongest_allowed_def Let_def DEFAULT_MODELS_def)

lemma provider_answer_runs:
  assumes "servable ge j"
  shows "succeeds gw_ready (provider_answer ge j)"
proof -
  have en: "open_env (ge_env ge) (wu_tenant (cj_unit j))" and ans: "answering ge" and d: "cj_decision j = chat_decision"
    using assms by (simp_all add: servable_def)
  have announced: "succeeds gw_ready (announce_route (ge_env ge) j)"
    unfolding announce_route_def Let_def by (intro runs_thenS job_runs [OF en]) (simp add: get_value_def)
  let ?P = "\<lambda>v. envelope_free v \<and> json_ok v \<and> vr_accepted (verify_chat_response v)"
  obtain r where r: "selected_route j = Inr r" using routes_found [OF d] by blast
  let ?ask = "bindS (call_provider ge (first_request j) r) (\<lambda>v. retS (v, None :: verification_result option))"
  have ask_eq: "ask_provider ge j g = ?ask g" for g
  proof -
    obtain x g1 where call: "call_provider ge (first_request j) r g = (x, g1)" by fastforce
    then show ?thesis using call_runs(2) [OF ans, of "first_request j" r g]
      by (cases x) (simp_all add: ask_provider_def r bindS_def liftR_def Let_def)
  qed
  have ask: "succeeds gw_ready ?ask" by (intro runs_bindS call_runs [OF ans] runs_retS)
  have good: "?P (fst x)" if run: "?ask g = (Inr x, g')" for g x g'
  proof -
    obtain v where "call_provider ge (first_request j) r g = (Inr v, g')" "x = (v, None)"
      using run by (auto simp only: effect_simps)
    then show ?thesis using call_runs(2) [OF ans] by auto
  qed
  have "succeeds gw_ready (bindS ?ask (\<lambda>x. settle_answer ge j (fst x) (snd x)))"
    by (rule runs_bind_if [OF ask, where P = "\<lambda>x. ?P (fst x)"]) (use good settle_runs [OF assms] in auto)
  moreover have "ask_provider ge j = ?ask" by (rule ext) (rule ask_eq)
  ultimately show ?thesis unfolding provider_answer_def by (intro runs_thenS announced) simp
qed

lemma answer_runs:
  assumes "servable ge j"
  shows "succeeds gw_ready (chat_answer ge j)"
proof -
  have en: "open_env (ge_env ge) (wu_tenant (cj_unit j))" and off: "semantic_lookup ge j = retS None"
    using assms by (simp_all add: servable_def semantic_lookup_def)
  have hit: "succeeds gw_ready (exact_hit (ge_env ge) j v)" for v
    unfolding exact_hit_def by (intro runs_thenS runs_retS job_runs [OF en] metrics_ok) (simp_all add: get_value_def)
  have "succeeds gw_ready (case c of Some v \<Rightarrow> exact_hit (ge_env ge) j v
      | None \<Rightarrow> bindS (retS None) (\<lambda>hit. case hit of Some h \<Rightarrow> semantic_hit (ge_env ge) j h | None \<Rightarrow> provider_answer ge j))" for c
    using hit provider_answer_runs [OF assms] by (cases c) (simp_all add: bindS_def retS_def succeeds_def)
  then show ?thesis unfolding chat_answer_def off by (intro runs_bindS exact_lookup_runs)
qed

lemma put_compute_manifest_runs:
  assumes "open_env en (mf_tenant m)" "get_value (mf_physical m) ''compute_manifest'' = PDict cm" "mf_manifest_id m = e_ids en ''mf'' k"
  shows "runs (put_manifest en m)"
proof -
  have "validate_manifest (e_schemas en) m = Inr (manifest_to_dict m)"
    using assms(1,2) by (simp add: validate_manifest_def Let_def open_env_def)
  moreover have "enforce_tenant (e_ctx en) (mf_tenant m) = Inr ()"
    using assms(1) by (simp add: enforce_tenant_sees open_env_def)
  moreover have "\<exists>i. manifest_id_ok (mf_manifest_id m) = Inr i"
    using assms(1,3) unfolding open_env_def by (metis isl_def sum.exhaust)
  ultimately have "\<exists>x f'. file_put (e_schemas en) (e_ctx en) m f = (Inr x, f')" for f
    by (simp add: file_put_def thenS_def bindS_def liftR_def) (metis (no_types, lifting) sum.case(2))
  then show ?thesis
    unfolding put_manifest_def on_manifests_def by (intro runs_zoom) auto
qed

lemma manifest_runs:
  assumes "open_env en (wu_tenant (cj_unit j))"
  shows "runs (write_chat_manifest en j r compute)"
proof -
  have "runs (put_manifest en (chat_manifest en j r compute k))" for k
    by (rule put_compute_manifest_runs) (use assms in \<open>simp_all add: chat_manifest_def get_value_def\<close>)
  then show ?thesis
    unfolding write_chat_manifest_def announce_chat_manifest_def Let_def
    by (intro runs_bindS runs_thenS runs_draw runs_retS append_event_runs [OF assms] emit_log_runs [OF assms] emit_span_runs [OF assms])
      (simp_all add: get_value_def)
qed

lemma finish_runs:
  assumes "servable ge j" "vr_accepted (verify_chat_response (co_response r))"
  shows "succeeds gw_ready (chat_finish ge j r)"
proof -
  have en: "open_env (ge_env ge) (wu_tenant (cj_unit j))" and d: "cj_decision j = chat_decision"
    and "\<not> isl (cache_ttl_seconds (job_options j))"
    using assms(1) by (simp_all add: servable_def)
  then have until: "\<exists>x. cacheable_until now (job_options j) = Inr x" for now
    by (cases "cache_ttl_seconds (job_options j)") (simp_all add: cacheable_until_def)
  have sch: "e_schemas (ge_env ge) x y = Inr ()" for x y using en by (simp add: open_env_def)
  have timed: "succeeds gw_ready (liftR (cacheable_until now (job_options j)))" for now
    using until [of now] by (auto intro: runs_liftR)
  show ?thesis
    unfolding chat_finish_def Let_def
    by (intro timed clock_runs runs_thenS runs_bindS runs_if runs_retS runs_liftR [OF sch] runs_liftR [OF default_required [OF d assms(2)]]
        on_world_runs manifest_runs [OF en] job_runs [OF en] metrics_ok)
qed

lemma announce_chat_runs:
  assumes "open_env en (wu_tenant wu)" "plan_work_unit wu mode pb (Some d) = Inr p"
  shows "runs (announce_chat en wu d p q src)"
proof -
  note e = append_event_runs [OF assms(1)] and l = emit_log_runs [OF assms(1)] and s = emit_span_runs [OF assms(1)]
    and p = store_plan_runs [OF assms(1) refl plan_tenant [OF assms(2)] plan_id_fine [OF assms(2)] plan_json [OF assms(2)]]
  show ?thesis
    unfolding announce_chat_def
    by (intro runs_thenS runs_retS e l s p) (simp_all add: json_ok_decision [simplified] get_value_def)
qed

lemma intake_ok:
  assumes "plain_chat (ge_env ge) request mode md q" "open_env (ge_env ge) t" "gw_ready g"
  shows "\<exists>j g1. chat_intake ge request t n (Some []) mode g = (Inr j, g1) \<and> gw_ready g1 \<and> cj_decision j = chat_decision
    \<and> cj_request j = q \<and> cj_mode j = md \<and> wu_tenant (cj_unit j) = t \<and> wu_namespace (cj_unit j) = n
    \<and> cache_ttl_seconds (urp_options q) = Inr (cj_ttl j)"
proof -
  obtain sources ttl most where q: "execution_mode (ge_env ge) mode = Inr md" "require_execution_enabled (ge_env ge) None = Inr ()"
      "normalize_openai_request request = Inr q" "chat_fingerprints q = Inr sources"
      "py_str (get_default (urp_options q) ''contract'' (PStr ''semantic'')) = ''semantic''"
      "cache_ttl_seconds (urp_options q) = Inr ttl" "py_int (get_default (urp_options q) ''max_context_tokens'' (PInt 4000)) = Inr most"
      "get_value (urp_options q) ''allow_semantic_cache'' \<noteq> PBool True"
    using assms(1) unfolding plain_chat_def by (metis isl_def sum.exhaust)
  let ?en = "ge_env ge" and ?w = "(gw_world g)\<lparr>w_drawn := Suc (w_drawn (gw_world g))\<rparr>"
  define wu where "wu = chat_unit ?en (w_drawn (gw_world g)) t n q sources SEMANTIC"
  have wu: "wu_tenant wu = t" "wu_kind wu = PROMPT_REQUEST" "wu_namespace wu = n" by (simp_all add: wu_def)
  have d: "evaluate_policy wu [] = Inr chat_decision" using default_decision [OF q(8)] by (simp add: wu_def)
  obtain p where p: "plan_work_unit wu md [] (Some chat_decision) = Inr p" using default_plan [OF mode_known [OF q(1)] wu(2)] by blast
  have gate: "require_ai_approval ?en wu chat_decision w = (Inr (), w)" for w by (simp add: require_ai_approval_def retS_def)
  have "readable ?w" using assms(3) by (simp add: gw_ready_def readable_def)
  then obtain u w' where an: "announce_chat ?en wu chat_decision p q sources ?w = (Inr u, w')" "readable w'"
    using runsD [OF announce_chat_runs [OF _ p]] assms(2) wu(1) by blast
  have pb: "chosen_bundle ?en (Some []) v st = Inr []" for v st by (simp add: chosen_bundle_def)
  show ?thesis
    unfolding chat_intake_def Let_def
    using assms(3) an(2)
    by (simp add: bindS_def thenS_def liftR_def on_world_def zoom_def draw_def inspect_def q pb d [unfolded wu_def] p [unfolded wu_def]
        gate [unfolded wu_def] an(1) [unfolded wu_def] split_def retS_def gw_ready_def)
qed

lemma chat_answered:
  assumes "plain_chat (ge_env ge) request mode md q" "open_env (ge_env ge) t" "gw_ready g" "answering ge" "t \<noteq> []" "n \<noteq> []"
    and "\<forall>ttl. cache_ttl_seconds (urp_options q) = Inr ttl \<and> 0 < ttl \<longrightarrow> steady ge ttl"
  shows "\<exists>resp g'. handle_chat_completion ge request t n (Some []) mode g = (Inr resp, g') \<and> gw_ready g'"
proof -
  obtain j g1 where j: "chat_intake ge request t n (Some []) mode g = (Inr j, g1)" "gw_ready g1" "cj_decision j = chat_decision"
      "cj_request j = q" "cj_mode j = md" "wu_tenant (cj_unit j) = t" "wu_namespace (cj_unit j) = n"
      "cache_ttl_seconds (urp_options q) = Inr (cj_ttl j)"
    using intake_ok [OF assms(1-3)] by blast
  have srv: "servable ge j"
    using assms j by (auto simp: servable_def semantic_enabled_def job_options_def plain_chat_def)
  obtain r g2 where r: "chat_answer ge j g1 = (Inr r, g2)" "gw_ready g2" using runsD [OF answer_runs [OF srv] j(2)] by blast
  obtain resp g' where "chat_finish ge j r g2 = (Inr resp, g')" "gw_ready g'"
    using runsD [OF finish_runs [OF srv answer_accepted [OF r(1)]] r(2)] by blast
  then show ?thesis using j(1) r(1) by (simp add: handle_chat_completion_def bindS_def)
qed


subsection \<open>The same request again\<close>

text \<open>What a served miss in enforce mode leaves in the exact cache.\<close>

definition held_answer :: "sql_cache \<Rightarrow> chat_job \<Rightarrow> real \<Rightarrow> pyval \<Rightarrow> bool" where
  "held_answer c j now v = (\<exists>e. sql_cache_view c (cj_key j) = Some e \<and> ce_value e = jnorm v
     \<and> matches_scope (wu_tenant (cj_unit j)) (wu_namespace (cj_unit j)) (Some (cj_sources j)) e \<and> ce_expires e = Some (now + cj_ttl j))"

lemma keep_holds:
  assumes "keep_response ge j v g = (Inr u, g')" "readable_cache (gw_cache g)" "envelope_free v"
    and "cj_mode j = ''enforce''" "0 < cj_ttl j" "planned j ''cache_store''"
  shows "\<exists>a. held_answer (gw_cache g') j (ge_time ge a) v \<and> readable_cache (gw_cache g')"
proof -
  let ?e = "\<lambda>now. \<lparr>ce_key = cj_key j, ce_tenant = wu_tenant (cj_unit j), ce_namespace = wu_namespace (cj_unit j), ce_value = v,
          ce_sources = cj_sources j, ce_verified = True, ce_expires = Some (now + cj_ttl j)\<rparr>"
  obtain a later where put: "sqlc_put later (?e (ge_time ge a)) (gw_cache g) = (Inr (), gw_cache g')"
    using assms(1,4-6) by (auto simp: keep_response_def effect_simps read_clock_def on_cache_def on_semantic_def split: if_splits)
  obtain c where law: "sqlc_put later (?e (ge_time ge a)) (gw_cache g) = (check_entry later (?e (ge_time ge a)), c)" "readable_cache c"
      "sql_cache_view c = (if acceptable later (?e (ge_time ge a))
        then (sql_cache_view (gw_cache g))(cj_key j \<mapsto> filed_entry (?e (ge_time ge a))) else sql_cache_view (gw_cache g))"
    using sql_cache.put_law [OF assms(2), of "?e (ge_time ge a)" later] assms(3) by (auto simp: storable_entry_def)
  have "check_entry later (?e (ge_time ge a)) = Inr ()" and c: "c = gw_cache g'" using put law(1) by simp_all
  then have "sql_cache_view (gw_cache g') (cj_key j) = Some (filed_entry (?e (ge_time ge a)))"
    using law(3) check_entry_acceptable [of later "?e (ge_time ge a)"] by simp
  then have "held_answer (gw_cache g') j (ge_time ge a) v"
    unfolding held_answer_def by (simp add: filed_entry_def matches_scope_def)
  then show ?thesis using law(2) c by auto
qed

text \<open>The rest of a served request leaves the exact cache alone.\<close>

definition cache_is :: "sql_cache \<Rightarrow> gateway \<Rightarrow> bool" where
  "cache_is c g = (gw_cache g = c)"

lemma cache_frame [simp]:
  "cache_is c (g\<lparr>gw_world := w\<rparr>) = cache_is c g" "cache_is c (g\<lparr>gw_semantic := s\<rparr>) = cache_is c g"
  "cache_is c (g\<lparr>gw_feedback := f\<rparr>) = cache_is c g" "cache_is c (g\<lparr>gw_calls := q\<rparr>) = cache_is c g"
  by (simp_all add: cache_is_def)

lemma same_cache: "keeps (cache_is (gw_cache g)) m \<Longrightarrow> m g = (r, g') \<Longrightarrow> gw_cache g' = gw_cache g"
  using keepsD [of "cache_is (gw_cache g)" m g] by (simp add: cache_is_def)

lemma call_keeps_cache [keeps_rules]: "keeps (cache_is c) (call_provider ge request route)"
proof -
  have "keeps (cache_is c) (\<lambda>g. (ge_provider ge k request route, g\<lparr>gw_calls := gw_calls g @ [(request, route)]\<rparr>))" for k
    by (simp add: keeps_def)
  then show ?thesis unfolding call_provider_def by (intro keeps_bindS keeps_on_world) simp_all
qed

lemma ask_keeps_cache: "keeps (cache_is c) (ask_provider ge j)" "keeps (cache_is c) (semantic_lookup ge j)"
  unfolding ask_provider_def semantic_lookup_def Let_def by (intro keeps_rules; simp)+

lemma ask_envelope_free:
  assumes "answering ge" "ask_provider ge j g = (Inr x, g')"
  shows "envelope_free (fst x)"
  using assms(2) call_runs(2) [OF assms(1)] by (auto simp: ask_provider_def Let_def effect_simps split: if_splits)

lemma get_keeps_readable:
  assumes "exact_lookup ge j g = (r, g')" "readable_cache (gw_cache g)"
  shows "readable_cache (gw_cache g')"
proof -
  have on: "keeps (\<lambda>g. readable_cache (gw_cache g)) (on_cache m)" if "\<And>c. readable_cache c \<Longrightarrow> readable_cache (snd (m c))"
    for m :: "('b, sql_cache) sres"
    using that by (auto simp: keeps_def on_cache_def zoom_def split: prod.splits) (metis snd_conv)
  have get: "readable_cache (snd (sqlc_get now k t n src c))" if "readable_cache c" for now k t n src c
    using sql_cache.get_law [OF that, of now k t n src] by auto
  have del: "readable_cache (snd (Inr (), sqlc_delete k c))" if "readable_cache c" for k c using sql_cache.delete_law [OF that] by simp
  have clock: "keeps (\<lambda>g. readable_cache (gw_cache g)) (read_clock ge)" by (intro keeps_rules) simp
  have "keeps (\<lambda>g. readable_cache (gw_cache g)) (exact_lookup ge j)"
    unfolding exact_lookup_def by (intro keeps_control clock on get del)
  from keepsD [OF this assms(2,1)] show ?thesis .
qed

lemma hit_labels:
  "exact_hit en j v g = (Inr r, g') \<Longrightarrow> co_cache r = ''exact_hit'' \<and> co_response r = v"
  "semantic_hit en j h g = (Inr r, g') \<Longrightarrow> co_cache r = ''semantic_hit''"
  by (auto simp: exact_hit_def semantic_hit_def effect_simps)

lemma miss_steps:
  assumes "chat_answer ge j g = (Inr r, g')" "co_cache r = ''miss''"
  obtains g1 g2 where "exact_lookup ge j g = (Inr None, g1)" "semantic_lookup ge j g1 = (Inr None, g2)"
    "provider_answer ge j g2 = (Inr r, g')"
proof -
  obtain c g1 where ex: "exact_lookup ge j g = (Inr c, g1)"
    and rest: "(case c of Some v \<Rightarrow> exact_hit (ge_env ge) j v
      | None \<Rightarrow> bindS (semantic_lookup ge j) (\<lambda>hit. case hit of Some h \<Rightarrow> semantic_hit (ge_env ge) j h | None \<Rightarrow> provider_answer ge j)) g1
      = (Inr r, g')"
    using assms(1) unfolding chat_answer_def bindS_Inr by blast
  have c: "c = None" using rest assms(2) hit_labels(1) [of "ge_env ge" j _ g1 r g'] by (cases c) auto
  then obtain hit g2 where sl: "semantic_lookup ge j g1 = (Inr hit, g2)"
    and rest: "(case hit of Some h \<Rightarrow> semantic_hit (ge_env ge) j h | None \<Rightarrow> provider_answer ge j) g2 = (Inr r, g')"
    using rest unfolding c option.case bindS_Inr by blast
  have "hit = None" using rest assms(2) hit_labels(2) [of "ge_env ge" j _ g2 r g'] by (cases hit) auto
  then show thesis using that ex c sl rest by simp
qed

lemma settle_steps:
  assumes "settle_answer ge j v refused g = (Inr r, g')"
  obtains g1 where "keep_response ge j v g = (Inr (), g1)" "gw_cache g' = gw_cache g1" "co_response r = v"
proof -
  have k: "keeps (cache_is c) (announce_answer (ge_env ge) j v a b)" for c a b by (intro keeps_rules; simp)
  obtain u g1 where first: "(if vr_accepted (verify_chat_response v) then thenS (liftR (required_ok j v ''miss'')) (keep_response ge j v)
       else refuse_response (ge_env ge) j (verify_chat_response v)) g = (Inr u, g1)"
    and ann: "announce_answer (ge_env ge) j v (refused \<noteq> None) (vr_accepted (verify_chat_response v)) g1 = (Inr (), g')"
    and "co_response r = v"
    using assms unfolding settle_answer_def Let_def thenS_Inr [of "if _ then _ else _"] thenS_Inr [of "announce_answer _ _ _ _ _"] retS_eq by auto
  moreover have "keep_response ge j v g = (Inr (), g1)"
    using first by (auto simp: effect_simps refuse_response_def split: if_splits)
  moreover have "gw_cache g' = gw_cache g1" by (rule same_cache [OF k ann])
  ultimately show thesis using that by blast
qed

lemma miss_is_held:
  assumes "chat_answer ge j g = (Inr r, g')" "co_cache r = ''miss''" "readable_cache (gw_cache g)" "answering ge"
    and "cj_mode j = ''enforce''" "0 < cj_ttl j" "planned j ''cache_store''"
  shows "\<exists>a. held_answer (gw_cache g') j (ge_time ge a) (co_response r) \<and> readable_cache (gw_cache g')"
proof -
  obtain g1 g2 where ex: "exact_lookup ge j g = (Inr None, g1)" and sem: "semantic_lookup ge j g1 = (Inr None, g2)"
    and pro: "provider_answer ge j g2 = (Inr r, g')"
    by (rule miss_steps [OF assms(1,2)])
  obtain u g3 x g4 where an: "announce_route (ge_env ge) j g2 = (Inr u, g3)" and ask: "ask_provider ge j g3 = (Inr x, g4)"
    and settle: "settle_answer ge j (fst x) (snd x) g4 = (Inr r, g')"
    using pro unfolding provider_answer_def thenS_Inr bindS_Inr by blast
  have "keeps (cache_is c) (announce_route (ge_env ge) j)" for c by (intro keeps_rules; simp)
  from same_cache [OF this an] have g4: "gw_cache g4 = gw_cache g1"
    using same_cache [OF ask_keeps_cache(1) ask] same_cache [OF ask_keeps_cache(2) sem] by simp
  have "readable_cache (gw_cache g4)" using get_keeps_readable [OF ex assms(3)] g4 by simp
  moreover obtain g5 where "keep_response ge j (fst x) g4 = (Inr (), g5)" "gw_cache g' = gw_cache g5" "co_response r = fst x"
    by (rule settle_steps [OF settle])
  ultimately show ?thesis
    using keep_holds [OF _ _ ask_envelope_free [OF assms(4) ask] assms(5-7)] by metis
qed

text \<open>Reading the JSON form of an answer.\<close>

lemma jnorm_at_key: "at_key x k = Inr y \<Longrightarrow> at_key (jnorm x) k = Inr (jnorm y)"
  by (cases x) (auto simp: jnorm_PDict item_def split: option.splits simp del: jnorm.simps(3))

lemma jnorm_at_zero: "at_zero x = Inr y \<Longrightarrow> at_zero (jnorm x) = Inr (jnorm y)"
  by (cases x rule: at_zero.cases) (auto simp del: jnorm.simps(3))

lemma jnorm_content: "chat_content v = Inr (PStr s) \<Longrightarrow> chat_content (jnorm v) = Inr (PStr s)"
  unfolding chat_content_def using jnorm_at_key jnorm_at_zero by (fastforce simp: effect_simps)

lemma held_is_hit:
  assumes "held_answer (gw_cache g) j (ge_time ge a) v" "readable_cache (gw_cache g)" "steady ge (cj_ttl j)"
    and "exact_enabled j" "chat_content v = Inr (PStr s)" "py_strip s \<noteq> []" "chat_answer ge j g = (Inr r, g')"
  shows "co_cache r = ''exact_hit'' \<and> co_response r = jnorm v"
proof -
  obtain e where e: "sql_cache_view (gw_cache g) (cj_key j) = Some e" "ce_value e = jnorm v"
      "matches_scope (wu_tenant (cj_unit j)) (wu_namespace (cj_unit j)) (Some (cj_sources j)) e" "ce_expires e = Some (ge_time ge a + cj_ttl j)"
    using assms(1) unfolding held_answer_def by blast
  have alive: "alive (ge_time ge b) e" for b using e(4) assms(3) by (simp add: alive_def steady_def)
  have found: "\<exists>c. sqlc_get (ge_time ge b) (cj_key j) (wu_tenant (cj_unit j)) (wu_namespace (cj_unit j)) (Some (cj_sources j)) (gw_cache g)
      = (Inr (Some (jnorm v)), c)" for b
    using sql_cache.get_law [OF assms(2), of "ge_time ge b" "cj_key j" "wu_tenant (cj_unit j)" "wu_namespace (cj_unit j)" "Some (cj_sources j)"]
      e alive by (auto simp: answer_def)
  have "vr_accepted (verify_chat_response (jnorm v))"
    using jnorm_content [OF assms(5)] assms(6) by (simp add: accepted_text)
  then have "\<exists>g1. exact_lookup ge j g = (Inr (Some (jnorm v)), g1)"
    using found [of "w_drawn (gw_world g)"] assms(4)
    by (auto simp: exact_lookup_def read_clock_def on_world_def on_cache_def zoom_def bindS_def draw_def retS_def)
  then show ?thesis
    using assms(7) hit_labels(1) [of "ge_env ge" j "jnorm v" _ r g'] by (auto simp: chat_answer_def bindS_def)
qed

lemma intake_decision:
  assumes "chat_intake ge request t n (Some []) mode g = (Inr j, g1)" "plain_chat (ge_env ge) request mode ''enforce'' q"
  shows "cj_decision j = chat_decision" "planned j ''exact_cache_lookup''" "planned j ''cache_store''" "cj_mode j = ''enforce''"
proof -
  obtain md q' sources requested k pb d p u most ttl wa wb u' where i: "normalize_openai_request request = Inr q'"
      "execution_mode (ge_env ge) mode = Inr md"
      "evaluate_policy (chat_unit (ge_env ge) k t n q' sources requested) [] = Inr d"
      "plan_work_unit (chat_unit (ge_env ge) k t n q' sources requested) md [] (Some d) = Inr p"
      "requested = SEMANTIC" "cj_decision j = d" "cj_plan j = p" "cj_mode j = md"
    by (rule intake_steps [OF assms(1)]) (use assms(2) in \<open>auto simp: chosen_bundle_def plain_chat_def\<close>)
  have same: "q' = q" "md = ''enforce''" using i(1,2) assms(2) by (simp_all add: plain_chat_def)
  have "d = chat_decision"
    using i(3) default_decision [of q "ge_env ge" k t n sources] assms(2) by (simp add: i(5) same plain_chat_def)
  then show "cj_decision j = chat_decision" "planned j ''exact_cache_lookup''" "planned j ''cache_store''" "cj_mode j = ''enforce''"
    using i default_actions [of "chat_unit (ge_env ge) k t n q' sources requested" p] by (auto simp: same planned_def)
qed


subsection \<open>Samples\<close>

text \<open>The mock provider always answers.\<close>

lemma dropWhile_nonempty: "x \<in> set xs \<Longrightarrow> \<not> P x \<Longrightarrow> dropWhile P xs \<noteq> []"
  by (auto simp: dropWhile_eq_Nil_conv)

lemma strip_nonempty: "x \<in> set s \<Longrightarrow> \<not> is_space x \<Longrightarrow> \<exists>y \<in> set (py_strip s). y = x"
proof -
  have keep: "x \<in> set ys \<Longrightarrow> \<not> is_space x \<Longrightarrow> x \<in> set (dropWhile is_space ys)" for ys
    by (induction ys) auto
  assume "x \<in> set s" "\<not> is_space x"
  then show "\<exists>y \<in> set (py_strip s). y = x" using keep [of s] keep [of "rev (dropWhile is_space s)"] by (simp add: py_strip_def)
qed

definition mock_gateway :: gateway_env where
  "mock_gateway = \<lparr>ge_env = sample_env, ge_provider = (\<lambda>k request route. Inr (mock_chat request route)), ge_time = (\<lambda>k. 0),
     ge_threshold = 82 / 100\<rparr>"

lemma lacks_data: "''data'' \<notin> A \<Longrightarrow> (A = {x, ''data''}) = False"
  by blast

lemma mock_content: "chat_content (mock_chat request route)
    = Inr (PStr (py_strip (''[mock:'' @ route @ ''] '' @ last_user_text (chat_messages request))))"
  by (simp add: mock_chat_def chat_content_def item_def Let_def)

lemma mock_answering: "answering mock_gateway"
proof -
  have "\<exists>c. chat_content (mock_chat request route) = Inr c \<and> py_strip (py_str c) \<noteq> []
      \<and> envelope_free (mock_chat request route) \<and> json_ok (mock_chat request route)" for request route
  proof -
    define c where "c = py_strip (''[mock:'' @ route @ ''] '' @ last_user_text (chat_messages request))"
    have mark: "CHR ''m'' \<in> set (''[mock:'' @ route @ ''] '' @ last_user_text (chat_messages request))" by simp
    have "\<not> is_space CHR ''m''" by code_simp
    then have "CHR ''m'' \<in> set (py_strip c)" using strip_nonempty [of "CHR ''m''"] mark by (auto simp: c_def)
    moreover have "chat_content (mock_chat request route) = Inr (PStr c)"
      by (simp add: mock_content c_def)
    moreover have "envelope_free (mock_chat request route)" "json_ok (mock_chat request route)"
      by (simp_all add: mock_chat_def Let_def dkeys_def lacks_data)
    ultimately show ?thesis by (intro exI [of _ "PStr c"]) auto
  qed
  then show ?thesis unfolding answering_def mock_gateway_def by auto
qed

definition first_gateway :: gateway where
  "first_gateway = \<lparr>gw_world = empty_world, gw_cache = [], gw_semantic = [], gw_feedback = [], gw_calls = []\<rparr>"

lemma first_ready: "gw_ready first_gateway"
  using empty_readable(1) by (simp add: gw_ready_def first_gateway_def readable_cache_def)

definition hello :: pydict where
  "hello = [(''messages'', PList [PDict [(''role'', PStr ''user''), (''content'', PStr ''hi'')]])]"

definition hello_form :: pydict where
  "hello_form = [(''messages'', PList [PDict [(''role'', PStr ''user''), (''content'', PStr ''hi'')]]), (''model'', PStr ''auto''),
     (''temperature'', PInt 0), (''tools'', PList []), (''urp'', PDict [])]"

lemma hello_normal: "normalize_openai_request hello = Inr hello_form"
  by code_simp

lemma hello_ttl: "cache_ttl_seconds (urp_options hello_form) = Inr 3600"
  by (simp add: cache_ttl_seconds_def urp_options_def hello_form_def dict_of_def get_value_def get_default_def float_value_def float_of_def)

lemma hello_plain: "plain_chat (ge_env mock_gateway) hello (Some ''enforce'') ''enforce'' hello_form"
proof -
  have "chat_fingerprints hello_form = Inr []" by code_simp
  moreover have "py_int (get_default (urp_options hello_form) ''max_context_tokens'' (PInt 4000)) = Inr 4000" by code_simp
  moreover have "py_str (get_default (urp_options hello_form) ''contract'' (PStr ''semantic'')) = ''semantic''" by code_simp
  moreover have "get_value (urp_options hello_form) ''allow_semantic_cache'' = PNone" by code_simp
  moreover have "require_execution_enabled sample_env None = Inr ()" by code_simp
  ultimately show ?thesis
    using small_modes(1) hello_normal hello_ttl by (simp add: plain_chat_def mock_gateway_def)
qed

lemma mock_steady: "0 < ttl \<Longrightarrow> steady mock_gateway ttl"
  by (simp add: steady_def mock_gateway_def)

lemma mock_open: "open_env (ge_env mock_gateway) ''acme''"
  using sample_open by (simp add: mock_gateway_def)

lemma hello_answered:
  "gw_ready g \<Longrightarrow> \<exists>resp g'. handle_chat_completion mock_gateway hello ''acme'' ''default'' (Some []) (Some ''enforce'') g = (Inr resp, g') \<and> gw_ready g'"
  by (rule chat_answered [OF hello_plain mock_open _ mock_answering]) (auto simp: mock_steady)




theorem chat_is_audited_witness:
  "\<exists>resp g'. handle_chat_completion mock_gateway hello ''acme'' ''default'' (Some []) (Some ''enforce'') first_gateway = (Inr resp, g')
     \<and> verify_chain (w_ledger (gw_world g')) = Inr True"
proof -
  obtain resp g' where run: "handle_chat_completion mock_gateway hello ''acme'' ''default'' (Some []) (Some ''enforce'') first_gateway = (Inr resp, g')"
    using hello_answered [OF first_ready] by blast
  have "verify_chain (w_ledger (gw_world first_gateway)) = Inr True" "fresh_events (ge_env mock_gateway)"
    using empty_readable(2) by (simp_all add: first_gateway_def fresh_events_def sample_env_def mock_gateway_def)
  from chat_is_audited [OF run this] run show ?thesis by blast
qed

lemma first_is_miss:
  assumes "handle_chat_completion mock_gateway hello ''acme'' ''default'' (Some []) (Some ''enforce'') first_gateway = (Inr r, g)"
  shows "dget (dict_of (get_value r ''urp'')) ''cache'' = Some (PStr ''miss'') \<and> (\<exists>s. chat_content (PDict r) = Inr (PStr s))"
proof -
  obtain j a1 o1 b1 where one: "chat_intake mock_gateway hello ''acme'' ''default'' (Some []) (Some ''enforce'') first_gateway = (Inr j, a1)"
      "chat_answer mock_gateway j a1 = (Inr o1, b1)" "chat_finish mock_gateway j o1 b1 = (Inr r, g)"
    by (rule chat_parts [OF assms])
  have k: "keeps (cache_is c) (chat_intake mock_gateway hello ''acme'' ''default'' (Some []) (Some ''enforce''))" for c by (intro keeps_rules; simp)
  have empty: "gw_cache a1 = []" using same_cache [OF k one(1)] by (simp add: first_gateway_def)
  have off: "get_value (job_options j) ''allow_semantic_cache'' \<noteq> PBool True"
    using intake_job(1) [OF one(1)] hello_plain by (simp add: job_for_def plain_chat_def job_options_def)
  have none: "c = None" if "exact_lookup mock_gateway j a1 = (Inr c, x)" for c x
    using that empty by (auto simp: exact_lookup_def read_clock_def on_cache_def sqlc_get_def sqlc_find_def effect_simps split: if_splits)
  have "\<exists>x y. exact_lookup mock_gateway j a1 = (Inr None, x) \<and> provider_answer mock_gateway j x = (Inr o1, y) \<and> y = b1"
    using one(2) none off unfolding chat_answer_def bindS_Inr
    by (auto simp: semantic_lookup_def semantic_enabled_def retS_eq bindS_Inr)
  then obtain x where pro: "provider_answer mock_gateway j x = (Inr o1, b1)" by blast
  obtain u x1 v x2 where ask: "ask_provider mock_gateway j x1 = (Inr v, x2)" "settle_answer mock_gateway j (fst v) (snd v) x2 = (Inr o1, b1)"
    using pro unfolding provider_answer_def thenS_Inr bindS_Inr by blast
  have miss: "co_cache o1 = ''miss''" using ask(2) by (auto simp: settle_answer_def Let_def effect_simps)
  have "\<exists>request route. fst v = mock_chat request route"
    using ask(1) by (auto simp: ask_provider_def Let_def effect_simps call_provider_def mock_gateway_def split: if_splits) blast+
  moreover have "co_response o1 = fst v" by (rule settle_steps [OF ask(2)])
  ultimately obtain s where "chat_content (co_response o1) = Inr (PStr s)" using mock_content by metis
  then have "\<exists>s. chat_content (PDict r) = Inr (PStr s)"
    by (rule_tac finish_steps [OF one(3)]) (use chat_content_dict [of "co_response o1"] in \<open>auto simp: chat_content_dset\<close>)
  then show ?thesis using finish_cache [OF one(3)] miss by simp
qed


end
