(* ===== verification/Embedded.thy ===== *)
theory Embedded
  imports Embeddings Answering
begin

text \<open>
  What the embeddings of the AI gateway guarantee: an answer that was computed holds the vector of
  every input, in order, from the requested model; a request fails without an input and under a
  policy that requires an approval; every request leaves its trail in the ledger.
\<close>

subsection \<open>The parts of a request\<close>

lemma embed_parts:
  assumes "handle_embeddings ge request t n bundle mode g = (Inr resp, g')"
  obtains j g1 r g2 where "embed_intake ge request t n bundle mode g = (Inr j, g1)" "embed_answer ge j g1 = (Inr r, g2)"
    "embed_finish ge j r g2 = (Inr resp, g')"
  using assms by (auto simp: handle_embeddings_def effect_simps)

lemma embedding_unit_simps [simp]:
  "wu_kind (embedding_unit en k t n q items src) = EMBEDDING_REQUEST" "wu_tenant (embedding_unit en k t n q items src) = t"
  "wu_namespace (embedding_unit en k t n q items src) = n" "wu_policy_context (embedding_unit en k t n q items src) = []"
  "wu_requested_contract (embedding_unit en k t n q items src) = Some SEMANTIC"
  by (simp_all add: embedding_unit_def)

lemma no_approval_named:
  assumes "require_ai_approval en wu d w = (Inr u, w')" "wu_policy_context wu = []"
  shows "\<not> pd_require_approval d"
  using assms by (auto simp: require_ai_approval_def Let_def get_value_def raiseS_def split: if_splits)

text \<open>What the intake has established about the job.\<close>

definition embeds :: "gateway_env \<Rightarrow> pydict \<Rightarrow> string \<Rightarrow> string \<Rightarrow> string option \<Rightarrow> embed_job \<Rightarrow> bool" where
  "embeds ge request t n mode j = (execution_mode (ge_env ge) mode = Inr (ej_mode j)
     \<and> normalize_embedding_request request = Inr (ej_request j) \<and> embedding_fingerprints (ej_request j) = Inr (ej_sources j)
     \<and> ej_inputs j = embedding_inputs (get_value (ej_request j) ''input'')
     \<and> cache_ttl_seconds (urp_options (ej_request j)) = Inr (ej_ttl j)
     \<and> (\<exists>k. ej_unit j = embedding_unit (ge_env ge) k t n (ej_request j) (ej_inputs j) (ej_sources j)))"

lemma embed_intake_job:
  assumes "embed_intake ge request t n bundle mode g = (Inr j, g')"
  shows "embeds ge request t n mode j" "\<not> pd_require_approval (ej_decision j)"
    and "\<exists>pb. (bundle = None \<or> bundle = Some pb) \<and> evaluate_policy (ej_unit j) pb = Inr (ej_decision j)"
proof -
  obtain md q sources k pb d p u wa wb ttl where *:
    "execution_mode (ge_env ge) mode = Inr md" "normalize_embedding_request request = Inr q" "embedding_fingerprints q = Inr sources"
    "chosen_bundle (ge_env ge) bundle (get_value (urp_options q) ''policy_bundle_id'') (w_policies wa) = Inr pb"
    "evaluate_policy (embedding_unit (ge_env ge) k t n q (embedding_inputs (get_value q ''input'')) sources) pb = Inr d"
    "require_ai_approval (ge_env ge) (embedding_unit (ge_env ge) k t n q (embedding_inputs (get_value q ''input'')) sources) d wa = (Inr u, wb)"
    "cache_ttl_seconds (urp_options q) = Inr ttl"
    "j = \<lparr>ej_unit = embedding_unit (ge_env ge) k t n q (embedding_inputs (get_value q ''input'')) sources, ej_decision = d, ej_plan = p,
       ej_mode = md, ej_request = q, ej_sources = sources, ej_inputs = embedding_inputs (get_value q ''input''),
       ej_key = exact_key t n (PDict q) (Some sources), ej_ttl = ttl\<rparr>"
    using assms unfolding embed_intake_def Let_def effect_simps
    by (elim exE conjE) (rule that, (assumption | simp)+)
  show "embeds ge request t n mode j" using * by (auto simp: embeds_def)
  show "\<not> pd_require_approval (ej_decision j)" using no_approval_named [OF *(6)] by (simp add: *(8))
  show "\<exists>pb. (bundle = None \<or> bundle = Some pb) \<and> evaluate_policy (ej_unit j) pb = Inr (ej_decision j)"
    using chosen_given [OF *(4)] *(5,8) by auto
qed

subsection \<open>The answer\<close>

lemma vector_nonempty: "embedding_vector t m x d \<noteq> []"
  using embedding_vector_length [of t m x d] embedding_size_bounds(1) [of d] by auto

lemma vectors_accepted: "vr_accepted (verify_vectors (embed_vectors j model)) = (ej_inputs j \<noteq> [])"
  by (auto simp: verify_vectors_def verify_embedding_vector_def Let_def verdict_def embed_vectors_def list_all_iff
      vector_is_vector vector_nonempty)

text \<open>The fallback model changes nothing: it is asked only when there is no input.\<close>

lemma embed_miss_steps:
  assumes "embed_miss ge j g = (Inr r, g')"
  shows "ej_inputs j \<noteq> []" "eo_response r = PDict (embed_response j (embed_vectors j (get_value (ej_request j) ''model'')))"
    "eo_cache r = ''miss''" "\<not> eo_fallback r"
proof -
  have refused: "refuse_embedding en j v a \<noteq> (Inr u, b)" for en v a u b
    by (auto simp: refuse_embedding_def effect_simps)
  show *: "ej_inputs j \<noteq> []"
    using assms vectors_accepted [of j] refused
    by (auto simp: embed_miss_def compute_vectors_def Let_def effect_simps split: if_splits)
  then show "eo_response r = PDict (embed_response j (embed_vectors j (get_value (ej_request j) ''model'')))" "\<not> eo_fallback r"
    "eo_cache r = ''miss''"
    using assms vectors_accepted [of j] by (auto simp: embed_miss_def compute_vectors_def Let_def effect_simps)
qed

lemma embed_answer_miss:
  assumes "embed_answer ge j g = (Inr r, g')" "eo_cache r = ''miss''"
  shows "\<exists>g1. embed_miss ge j g1 = (Inr r, g')"
proof -
  have "eo_cache r = ''exact_hit''" if "embed_hit en j v a = (Inr r, b)" for en v a b
    using that by (auto simp: embed_hit_def effect_simps)
  then show ?thesis using assms by (auto simp: embed_answer_def effect_simps split: option.splits) blast
qed

lemma embed_finish_steps:
  assumes "embed_finish ge j r g = (Inr resp, g')"
  shows "\<exists>v m. resp = dset ''urp'' (PDict (embed_fields j r v m)) (dict_of (eo_response r))"
  using assms unfolding embed_finish_def Let_def effect_simps by blast

lemma embed_response_fields:
  "get_value (embed_response j vs) ''data'' = embed_data j vs" "get_value (embed_response j vs) ''model'' = get_value (ej_request j) ''model''"
  by (simp_all add: embed_response_def get_value_def)

lemma embed_fields_fields:
  "dget (embed_fields j r v m) ''cache'' = Some (PStr (eo_cache r))" "dget (embed_fields j r v m) ''fallback_used'' = Some (PBool (eo_fallback r))"
  by (simp_all add: embed_fields_def)

text \<open>
  C35 (functional). What an embedding request computes: an answer that is not from the cache has one row
  per input, in the order of the inputs, with the vector of that input for the requested model
  in the requested encoding. There is at least one input, and the fallback model was not used.
\<close>

theorem embeddings_computed:
  assumes "handle_embeddings ge request t n bundle mode g = (Inr resp, g')" "normalize_embedding_request request = Inr q"
    and "dget (dict_of (get_value resp ''urp'')) ''cache'' = Some (PStr ''miss'')"
  shows "let items = embedding_inputs (get_value q ''input'') in items \<noteq> [] \<and> get_value resp ''model'' = get_value q ''model''
    \<and> get_value resp ''data'' = PList (map (\<lambda>(i, item). PDict [(''object'', PStr ''embedding''),
        (''embedding'', encode_embedding (embedding_vector t (get_value q ''model'') item (get_value q ''dimensions''))
           (py_str (get_value q ''encoding_format''))), (''index'', PInt (int i))]) (zip [0..<length items] items))
    \<and> dget (dict_of (get_value resp ''urp'')) ''fallback_used'' = Some (PBool False)"
proof -
  obtain j g1 r g2 where one: "embed_intake ge request t n bundle mode g = (Inr j, g1)" "embed_answer ge j g1 = (Inr r, g2)"
      "embed_finish ge j r g2 = (Inr resp, g')"
    by (rule embed_parts [OF assms(1)])
  obtain v m where resp: "resp = dset ''urp'' (PDict (embed_fields j r v m)) (dict_of (eo_response r))"
    using embed_finish_steps [OF one(3)] by blast
  have urp: "dict_of (get_value resp ''urp'') = embed_fields j r v m" unfolding resp by (rule urp_of_response)
  have "eo_cache r = ''miss''" using assms(3) unfolding urp by (simp add: embed_fields_fields)
  then obtain g3 where "embed_miss ge j g3 = (Inr r, g2)" using embed_answer_miss [OF one(2)] by blast
  note miss = embed_miss_steps [OF this]
  have j: "ej_request j = q" "ej_inputs j = embedding_inputs (get_value q ''input'')" "wu_tenant (ej_unit j) = t"
    using embed_intake_job(1) [OF one(1)] assms(2) by (auto simp: embeds_def)
  have other: "get_value resp k = get_value (embed_response j (embed_vectors j (get_value q ''model''))) k" if "k \<noteq> ''urp''" for k
    using that by (simp add: resp miss(2) dict_of_def get_value_def j(1))
  have "get_value resp ''model'' = get_value q ''model''"
    by (simp only: other [of "''model''", simplified] embed_response_fields j(1))
  moreover have "get_value resp ''data'' = embed_data j (embed_vectors j (get_value q ''model''))"
    by (simp only: other [of "''data''", simplified] embed_response_fields)
  moreover have "embed_data j (embed_vectors j (get_value q ''model'')) = PList (map (\<lambda>(i, item). PDict [(''object'', PStr ''embedding''),
        (''embedding'', encode_embedding (embedding_vector t (get_value q ''model'') item (get_value q ''dimensions''))
           (py_str (get_value q ''encoding_format''))), (''index'', PInt (int i))]) (zip [0..<length (ej_inputs j)] (ej_inputs j)))"
    by (simp add: embed_data_def embed_vectors_def zip_map2 embed_row_def embed_format_def j(1,3) split_def comp_def)
  ultimately show ?thesis
    unfolding Let_def j(2) [symmetric] urp using miss(1,4) by (simp add: embed_fields_fields)
qed

text \<open>
  The gateway gives the work unit of an embedding request no place for an approval: a request
  that is answered was not under a policy that requires one.
\<close>

theorem embedding_never_approved:
  assumes "handle_embeddings ge request t n (Some pb) mode g = (Inr resp, g')"
  shows "\<exists>k q items src d. normalize_embedding_request request = Inr q
    \<and> evaluate_policy (embedding_unit (ge_env ge) k t n q items src) pb = Inr d \<and> \<not> pd_require_approval d"
proof -
  obtain j g1 r g2 where "embed_intake ge request t n (Some pb) mode g = (Inr j, g1)"
    by (rule embed_parts [OF assms])
  from embed_intake_job [OF this] show ?thesis unfolding embeds_def by (metis option.inject option.distinct(1))
qed

subsection \<open>The audit trail\<close>

lemma audit_embed_jobs [audit_rules]:
  "fresh_events en \<Longrightarrow> keeps (gw_audit l0) (embed_event en j ty a)"
  "keeps (gw_audit l0) (embed_log en j ty m a)" "keeps (gw_audit l0) (embed_failure_log en j sv ty m a)"
  unfolding embed_event_def embed_log_def embed_failure_log_def
  by (intro audit_on_world keeps_rules; assumption)+

lemma audit_embed_intake:
  assumes "fresh_events (ge_env ge)"
  shows "keeps (gw_audit l0) (embed_intake ge request t n b mode)"
proof -
  have "keeps (audit_inv l0) (require_ai_approval (ge_env ge) wu d)" "keeps (audit_inv l0) (announce_embedding (ge_env ge) wu d p q items src)"
    for wu d p q items src
    unfolding require_ai_approval_def announce_embedding_def Let_def by (intro keeps_rules assms)+
  then show ?thesis
    unfolding embed_intake_def Let_def by (intro keeps_control audit_on_world draw_audited keeps_inspect)
qed

lemma audit_embed_answer:
  assumes "fresh_events (ge_env ge)"
  shows "keeps (gw_audit l0) (embed_answer ge j)"
proof -
  have refuse: "keeps (gw_audit l0) (refuse_embedding (ge_env ge) j v)" for v
    unfolding refuse_embedding_def by (intro keeps_control audit_rules assms)
  have keep: "keeps (gw_audit l0) (keep_embedding ge j v)" for v
    unfolding keep_embedding_def by (intro keeps_control audit_rules assms)
  have compute: "keeps (gw_audit l0) (compute_vectors (ge_env ge) j)"
    unfolding compute_vectors_def Let_def by (intro keeps_control audit_rules assms)
  have route: "keeps (gw_audit l0) (announce_embed_route (ge_env ge) j)"
    unfolding announce_embed_route_def Let_def by (intro keeps_control audit_rules audit_on_world keeps_rules assms)
  have announced: "keeps (gw_audit l0) (announce_embedded (ge_env ge) j v x y)" for v x y
    unfolding announce_embedded_def Let_def by (intro keeps_control audit_rules audit_on_world draw_audited assms)
  have "keeps (gw_audit l0) (embed_miss ge j)"
    unfolding embed_miss_def Let_def split_def by (intro keeps_control refuse keep compute route announced)
  then show ?thesis
    unfolding embed_answer_def embed_lookup_def embed_hit_def by (intro keeps_control audit_rules assms)
qed

lemma audit_embed_finish:
  assumes "fresh_events (ge_env ge)"
  shows "keeps (gw_audit l0) (embed_finish ge j r)"
proof -
  have "keeps (audit_inv l0) (write_embed_manifest (ge_env ge) j r x v c)" for x v c
    unfolding write_embed_manifest_def announce_embed_manifest_def Let_def by (intro keeps_rules assms)
  then show ?thesis
    unfolding embed_finish_def Let_def by (intro keeps_control audit_rules audit_on_world)
qed

lemma embeddings_audited: "fresh_events (ge_env ge) \<Longrightarrow> keeps (gw_audit l0) (handle_embeddings ge request t n b mode)"
  unfolding handle_embeddings_def by (intro keeps_control audit_embed_intake audit_embed_answer audit_embed_finish)

subsection \<open>Requests that are answered\<close>

definition plain_embedding :: "env \<Rightarrow> pydict \<Rightarrow> string option \<Rightarrow> string \<Rightarrow> pydict \<Rightarrow> bool" where
  "plain_embedding en request mode md q = (execution_mode en mode = Inr md \<and> require_execution_enabled en None = Inr ()
     \<and> normalize_embedding_request request = Inr q \<and> \<not> isl (embedding_fingerprints q) \<and> \<not> isl (cache_ttl_seconds (urp_options q))
     \<and> json_ok (get_value q ''model''))"

definition embed_decision :: policy_decision where
  "embed_decision = ai_decision False False True"

lemma default_embed_decision: "evaluate_policy (embedding_unit en k t n q items src) [] = Inr embed_decision"
  by (simp add: evaluate_policy_def legal_hold_def requested_contract_def evaluate_bundle_def ai_kind_def
      ai_default_decision_def text_kind_def embed_decision_def get_value_def)

lemma embed_decision_simps [simp]:
  "pd_required embed_decision = [''embedding_shape'']" "\<not> pd_require_approval embed_decision" "pd_contract embed_decision = SEMANTIC"
  by (simp_all add: embed_decision_def ai_decision_def simple_decision_def)

lemma default_embed_plan:
  assumes "md \<in> set modes" "wu_kind wu = EMBEDDING_REQUEST"
  shows "\<exists>p. plan_work_unit wu md [] (Some embed_decision) = Inr p"
  by (rule supported_plan)
    (use assms in \<open>simp_all add: framework_def embed_decision_def ai_decision_def simple_decision_def kind_contracts_def
        compute_kind_def ai_contracts_def\<close>)

lemma embed_job_runs:
  assumes "open_env en (wu_tenant (ej_unit j))"
  shows "json_ok (PDict a) \<Longrightarrow> succeeds gw_ready (embed_event en j ty a)" and "succeeds gw_ready (embed_log en j ty m a)"
    and "succeeds gw_ready (announce_embed_route en j)"
  unfolding embed_event_def embed_log_def announce_embed_route_def Let_def
  by (intro on_world_runs runs_thenS runs_retS append_event_runs [OF assms] emit_log_runs [OF assms] emit_span_runs [OF assms];
      simp add: get_value_def)+

lemma tally_runs: "metric_name_ok nm \<Longrightarrow> succeeds gw_ready (tally nm v)"
  unfolding tally_def by (intro on_world_runs count_runs)

lemma embed_verified:
  assumes "pd_required (ej_decision j) = [''embedding_shape'']" "vr_accepted v"
  shows "embedding_ok j v = Inr ()"
proof -
  have "before_at ''embedding_shape'' = ''embedding_shape''" by code_simp
  then have names: "map before_at (pd_required (ej_decision j)) = [''embedding_shape'']" using assms(1) by simp
  then have none: "unsupported_names (pd_required (ej_decision j)) embedding_verifiers = []"
    by (simp add: unsupported_names_def embedding_verifiers_def)
  show ?thesis unfolding embedding_ok_def verify_required_embedding_verifiers_def none names using assms(2) by simp
qed

lemma embed_miss_runs:
  assumes "open_env (ge_env ge) (wu_tenant (ej_unit j))" "ej_mode j \<noteq> ''enforce''" "ej_inputs j \<noteq> []"
    and "pd_required (ej_decision j) = [''embedding_shape'']" "json_ok (get_value (ej_request j) ''model'')"
  shows "succeeds gw_ready (embed_miss ge j)"
proof -
  let ?m = "get_value (ej_request j) ''model''"
  let ?r = "embed_response j (embed_vectors j ?m)"
  have model: "get_value ?r ''model'' = ?m" by (rule embed_response_fields)
  have acc: "vr_accepted (verify_vectors (embed_vectors j ?m))" using vectors_accepted assms(3) by blast
  have compute: "compute_vectors (ge_env ge) j = retS (?r, verify_vectors (embed_vectors j ?m), None)"
    using acc by (simp add: compute_vectors_def Let_def)
  have keep: "keep_embedding ge j v = retS ()" for v using assms(2) by (simp add: keep_embedding_def)
  have fb: "succeeds gw_ready (on_feedback (feedback_record now wu r ok lat))" for now wu r ok lat
    by (simp add: succeeds_def on_feedback_def zoom_def feedback_record_def gw_ready_def)
  have announced: "succeeds gw_ready (announce_embedded (ge_env ge) j ?r False True)"
    unfolding announce_embedded_def Let_def model
    by (intro runs_thenS runs_bindS runs_retS runs_if embed_job_runs [OF assms(1)] tally_runs metrics_ok fb on_world_runs runs_draw)
      (simp_all add: assms(5))
  have ret: "bindS (retS x) f = f x" for x and f :: "'b \<Rightarrow> 'a gio" by (simp add: bindS_def retS_def fun_eq_iff)
  show ?thesis
    unfolding embed_miss_def Let_def compute ret split_conv keep
    using acc announced
    by (intro runs_thenS runs_retS embed_job_runs [OF assms(1)])
      (simp_all add: runs_thenS runs_retS runs_liftR [OF embed_verified [OF assms(4) acc]])
qed

lemma response_vectors_computed:
  "response_vectors j (PDict (embed_response j vs)) = Inr (map (\<lambda>v. decode_embedding (encode_embedding v (embed_format j)) (embed_format j)) vs)"
proof -
  have rows: "seq_res (map (\<lambda>row. map_res f (at_key row ''embedding'')) (map (embed_row fmt) (zip [a..<a + length vs] vs)))
      = Inr (map (\<lambda>v. f (encode_embedding v fmt)) vs)" for f :: "pyval \<Rightarrow> pyval list" and fmt a
  proof (induction vs arbitrary: a)
    case (Cons v vs)
    then show ?case using Cons.IH [of "Suc a"] by (simp add: embed_row_def item_def upt_conv_Cons del: upt_Suc)
  qed simp
  have "get_default (embed_response j vs) ''data'' (PList []) = embed_data j vs" by (simp add: embed_response_def get_default_def)
  then show ?thesis
    using rows [of "\<lambda>v. decode_embedding v (embed_format j)" "embed_format j" 0]
    by (simp add: response_vectors_def get_from_def embed_data_def)
qed

lemma embed_manifest_runs:
  assumes "open_env en (wu_tenant (ej_unit j))"
  shows "runs (write_embed_manifest en j r x v compute)"
proof -
  let ?m = "\<lambda>k. embed_manifest en j r x v compute k"
  have "runs (put_manifest en (?m k))" for k
    by (rule put_compute_manifest_runs) (use assms in \<open>simp_all add: embed_manifest_def get_value_def\<close>)
  then show ?thesis
    unfolding write_embed_manifest_def announce_embed_manifest_def Let_def
    by (intro runs_bindS runs_thenS runs_draw runs_retS append_event_runs [OF assms] emit_log_runs [OF assms] emit_span_runs [OF assms])
      (simp_all add: get_value_def)
qed

lemma embed_finish_runs:
  assumes "open_env (ge_env ge) (wu_tenant (ej_unit j))" "ej_mode j \<noteq> ''enforce''" "ej_inputs j \<noteq> []"
    and "pd_required (ej_decision j) = [''embedding_shape'']"
    and "eo_response r = PDict (embed_response j (embed_vectors j (get_value (ej_request j) ''model'')))"
  shows "succeeds gw_ready (embed_finish ge j r)"
proof -
  let ?vs = "map (\<lambda>v. decode_embedding (encode_embedding v (embed_format j)) (embed_format j)) (embed_vectors j (get_value (ej_request j) ''model''))"
  let ?v = "verify_embedding_vector (PList (map PList ?vs))"
  have "is_vector (PList (decode_embedding (encode_embedding v (embed_format j)) (embed_format j)))"
    if v: "v \<in> set (embed_vectors j (get_value (ej_request j) ''model''))" for v
  proof (rule encoded_is_vector)
    show "list_all (\<lambda>k. k < 256) v" using v by (auto simp: embed_vectors_def list_all_iff dest: embedding_vector_bytes)
    show "v \<noteq> []" using v vector_nonempty by (auto simp: embed_vectors_def)
  qed
  then have "vr_accepted ?v"
    using assms(3) by (auto simp: verify_embedding_vector_def Let_def verdict_def list_all_iff embed_vectors_def)
  then have ok: "embedding_ok j ?v = Inr ()" using embed_verified [OF assms(4)] by blast
  have sch: "e_schemas (ge_env ge) x y = Inr ()" for x y using assms(1) by (simp add: open_env_def)
  have ret: "bindS (liftR (Inr x)) f = f x" for x and f :: "'b \<Rightarrow> 'a gio" by (simp add: bindS_def liftR_def fun_eq_iff)
  show ?thesis
    unfolding embed_finish_def Let_def assms(5) response_vectors_computed ret
    using assms(2)
    by (intro runs_thenS runs_bindS runs_if runs_retS runs_liftR [OF sch] runs_liftR [OF ok] on_world_runs
        embed_manifest_runs [OF assms(1)] tally_runs metrics_ok) simp_all
qed

lemma embed_intake_ok:
  assumes "plain_embedding (ge_env ge) request mode md q" "open_env (ge_env ge) t" "gw_ready g"
  shows "\<exists>j g1. embed_intake ge request t n (Some []) mode g = (Inr j, g1) \<and> gw_ready g1 \<and> ej_decision j = embed_decision"
proof -
  obtain src ttl where q: "execution_mode (ge_env ge) mode = Inr md" "require_execution_enabled (ge_env ge) None = Inr ()"
      "normalize_embedding_request request = Inr q" "embedding_fingerprints q = Inr src" "cache_ttl_seconds (urp_options q) = Inr ttl"
    using assms(1) unfolding plain_embedding_def by (metis isl_def sum.exhaust)
  let ?en = "ge_env ge" and ?w = "(gw_world g)\<lparr>w_drawn := Suc (w_drawn (gw_world g))\<rparr>"
  let ?items = "embedding_inputs (get_value q ''input'')"
  define wu where "wu = embedding_unit ?en (w_drawn (gw_world g)) t n q ?items src"
  have wu: "wu_tenant wu = t" "wu_kind wu = EMBEDDING_REQUEST" by (simp_all add: wu_def)
  have d: "evaluate_policy wu [] = Inr embed_decision" by (simp add: wu_def default_embed_decision)
  obtain p where p: "plan_work_unit wu md [] (Some embed_decision) = Inr p" using default_embed_plan [OF mode_known [OF q(1)] wu(2)] by blast
  have gate: "require_ai_approval ?en wu embed_decision w = (Inr (), w)" for w by (simp add: require_ai_approval_def retS_def)
  have en: "open_env ?en (wu_tenant wu)" using assms(2) wu(1) by simp
  have run: "runs (announce_embedding ?en wu embed_decision p q ?items src)"
    unfolding announce_embedding_def
    by (intro runs_thenS runs_retS append_event_runs [OF en] emit_log_runs [OF en] emit_span_runs [OF en]
        store_plan_runs [OF en refl plan_tenant [OF p] plan_id_fine [OF p] plan_json [OF p]])
      (simp_all add: json_ok_decision [simplified] get_value_def)
  have "readable ?w" using assms(3) by (simp add: gw_ready_def readable_def)
  from runsD [OF run this] obtain u w'
    where an: "announce_embedding ?en wu embed_decision p q ?items src ?w = (Inr u, w')" "readable w'" by blast
  have pb: "chosen_bundle ?en (Some []) v st = Inr []" for v st by (simp add: chosen_bundle_def)
  have ret: "bindS (liftR (Inr x)) f = f x" "thenS (liftR (Inr u)) n = n" for x u and f :: "'x \<Rightarrow> embed_job gio" and n :: "embed_job gio"
    by (simp_all add: bindS_def thenS_def liftR_def fun_eq_iff)
  have drawn: "bindS (on_world draw) f g = f (w_drawn (gw_world g)) (g\<lparr>gw_world := ?w\<rparr>)" for f :: "nat \<Rightarrow> embed_job gio"
    by (simp add: bindS_def on_world_def zoom_def draw_def)
  have looked: "bindS (on_world (inspect (\<lambda>w. Inr x))) f = f x" for x and f :: "pydict \<Rightarrow> embed_job gio"
    by (simp add: bindS_def on_world_def zoom_def inspect_def fun_eq_iff)
  have gated: "thenS (on_world (require_ai_approval ?en wu embed_decision)) n = n" for n :: "embed_job gio"
    by (simp add: thenS_def bindS_def on_world_def zoom_def gate fun_eq_iff)
  have announced: "thenS (on_world (announce_embedding ?en wu embed_decision p q ?items src)) n (g\<lparr>gw_world := ?w\<rparr>) = n (g\<lparr>gw_world := w'\<rparr>)"
    for n :: "embed_job gio"
    by (simp add: thenS_def bindS_def on_world_def zoom_def an(1))
  show ?thesis
    unfolding embed_intake_def Let_def q ret drawn pb looked wu_def [symmetric] d p gated announced retS_def
    using assms(3) an(2) by (simp add: gw_ready_def)
qed

lemma embedding_run:
  assumes "embed_intake ge request t n (Some []) mode g = (Inr j, g1)" "ej_mode j \<noteq> ''enforce''"
  shows "handle_embeddings ge request t n (Some []) mode g = bindS (embed_miss ge j) (embed_finish ge j) g1"
proof -
  have "embed_answer ge j = embed_miss ge j"
    using assms(2) by (simp add: embed_answer_def embed_lookup_def bindS_def retS_def fun_eq_iff)
  then show ?thesis using assms(1) by (simp add: handle_embeddings_def bindS_def)
qed

lemma embedding_served:
  assumes "plain_embedding (ge_env ge) request mode md q" "open_env (ge_env ge) t" "gw_ready g" "md \<noteq> ''enforce''"
    and "embedding_inputs (get_value q ''input'') \<noteq> []"
  shows "\<exists>resp g'. handle_embeddings ge request t n (Some []) mode g = (Inr resp, g')"
proof -
  obtain j g1 where j: "embed_intake ge request t n (Some []) mode g = (Inr j, g1)" "gw_ready g1" "ej_decision j = embed_decision"
    using embed_intake_ok [OF assms(1-3)] by blast
  have job: "ej_request j = q" "ej_mode j \<noteq> ''enforce''" "ej_inputs j \<noteq> []" "wu_tenant (ej_unit j) = t"
    using embed_intake_job(1) [OF j(1)] assms(1,4,5) by (auto simp: embeds_def plain_embedding_def)
  have en: "open_env (ge_env ge) (wu_tenant (ej_unit j))" and req: "pd_required (ej_decision j) = [''embedding_shape'']"
    and js: "json_ok (get_value (ej_request j) ''model'')"
    using assms(1,2) job j(3) by (simp_all add: plain_embedding_def)
  have "succeeds gw_ready (bindS (embed_miss ge j) (embed_finish ge j))"
    by (rule runs_bind_if [OF embed_miss_runs [OF en job(2,3) req js] _ embed_finish_runs [OF en job(2,3) req]])
      (rule embed_miss_steps(2))
  from runsD [OF this j(2)] show ?thesis unfolding embedding_run [OF j(1) job(2)] by blast
qed

text \<open>
  Outside enforce mode and under the default policy, a well-formed embedding request in an open
  environment is answered exactly when it has an input.
\<close>

theorem embedding_answered_iff:
  assumes "plain_embedding (ge_env ge) request mode md q" "open_env (ge_env ge) t" "gw_ready g" "md \<noteq> ''enforce''"
  shows "(\<exists>resp g'. handle_embeddings ge request t n (Some []) mode g = (Inr resp, g')) = (embedding_inputs (get_value q ''input'') \<noteq> [])"
proof
  assume "\<exists>resp g'. handle_embeddings ge request t n (Some []) mode g = (Inr resp, g')"
  then obtain resp g' j g1 where run: "handle_embeddings ge request t n (Some []) mode g = (Inr resp, g')"
      "embed_intake ge request t n (Some []) mode g = (Inr j, g1)"
    using embed_parts by metis
  have job: "ej_inputs j = embedding_inputs (get_value q ''input'')" "ej_mode j \<noteq> ''enforce''"
    using embed_intake_job(1) [OF run(2)] assms(1,4) by (auto simp: embeds_def plain_embedding_def)
  obtain r g2 where "embed_miss ge j g1 = (Inr r, g2)" using run(1) unfolding embedding_run [OF run(2) job(2)] by (auto simp: effect_simps)
  from embed_miss_steps(1) [OF this] show "embedding_inputs (get_value q ''input'') \<noteq> []" by (simp add: job(1))
qed (rule embedding_served [OF assms])

lemma outside_enforce_is_miss:
  assumes "handle_embeddings ge request t n b mode g = (Inr resp, g')" "execution_mode (ge_env ge) mode \<noteq> Inr ''enforce''"
  shows "dget (dict_of (get_value resp ''urp'')) ''cache'' = Some (PStr ''miss'')"
proof -
  obtain j g1 r g2 where one: "embed_intake ge request t n b mode g = (Inr j, g1)" "embed_answer ge j g1 = (Inr r, g2)"
      "embed_finish ge j r g2 = (Inr resp, g')"
    by (rule embed_parts [OF assms(1)])
  have "ej_mode j \<noteq> ''enforce''" using embed_intake_job(1) [OF one(1)] assms(2) by (auto simp: embeds_def)
  then have "embed_miss ge j g1 = (Inr r, g2)" using one(2) by (simp add: embed_answer_def embed_lookup_def bindS_def retS_def)
  then have "eo_cache r = ''miss''" by (rule embed_miss_steps)
  moreover obtain v m where "resp = dset ''urp'' (PDict (embed_fields j r v m)) (dict_of (eo_response r))"
    using embed_finish_steps [OF one(3)] by blast
  ultimately show ?thesis by (simp only: urp_of_response embed_fields_fields)
qed

subsection \<open>A sample\<close>

definition two_texts :: pydict where
  "two_texts = [(''input'', PList [PStr ''one'', PStr ''two'']), (''dimensions'', PInt 2)]"

definition two_texts_form :: pydict where
  "two_texts_form = [(''model'', PStr ''mock-embedding''), (''input'', PList [PStr ''one'', PStr ''two'']),
     (''encoding_format'', PStr ''float''), (''dimensions'', PInt 2), (''urp'', PDict [])]"

lemma two_texts_normal: "normalize_embedding_request two_texts = Inr two_texts_form"
  by code_simp

lemma two_texts_plain: "plain_embedding (ge_env mock_gateway) two_texts (Some ''observe'') ''observe'' two_texts_form"
proof -
  have "embedding_fingerprints two_texts_form = Inr []" by code_simp
  moreover have "require_execution_enabled sample_env None = Inr ()" by code_simp
  moreover have "cache_ttl_seconds (urp_options two_texts_form) = Inr 3600"
    by (simp add: cache_ttl_seconds_def urp_options_def two_texts_form_def dict_of_def get_value_def get_default_def float_value_def float_of_def)
  moreover have "get_value two_texts_form ''model'' = PStr ''mock-embedding''" by code_simp
  ultimately show ?thesis
    using small_modes(2) two_texts_normal by (simp add: plain_embedding_def mock_gateway_def)
qed

lemma two_texts_inputs: "embedding_inputs (get_value two_texts_form ''input'') = [''one'', ''two'']"
  by code_simp

lemma two_texts_answered:
  "\<exists>resp g'. handle_embeddings mock_gateway two_texts ''acme'' ''default'' (Some []) (Some ''observe'') first_gateway = (Inr resp, g')
     \<and> dget (dict_of (get_value resp ''urp'')) ''cache'' = Some (PStr ''miss'')"
proof -
  obtain resp g' where run: "handle_embeddings mock_gateway two_texts ''acme'' ''default'' (Some []) (Some ''observe'') first_gateway = (Inr resp, g')"
    using embedding_served [OF two_texts_plain mock_open first_ready] two_texts_inputs by force
  have "execution_mode (ge_env mock_gateway) (Some ''observe'') \<noteq> Inr ''enforce''"
    using two_texts_plain by (simp add: plain_embedding_def)
  from outside_enforce_is_miss [OF run this] run show ?thesis by blast
qed

theorem embedding_answered_iff_witness:
  "\<exists>resp g'. handle_embeddings mock_gateway two_texts ''acme'' ''default'' (Some []) (Some ''observe'') first_gateway = (Inr resp, g')"
  using embedding_answered_iff [OF two_texts_plain mock_open first_ready, of "''default''"] two_texts_inputs by simp

theorem embeddings_computed_witness:
  "\<exists>resp g'. handle_embeddings mock_gateway two_texts ''acme'' ''default'' (Some []) (Some ''observe'') first_gateway = (Inr resp, g')
     \<and> get_value resp ''model'' = PStr ''mock-embedding''"
proof -
  obtain resp g' where run: "handle_embeddings mock_gateway two_texts ''acme'' ''default'' (Some []) (Some ''observe'') first_gateway = (Inr resp, g')"
      "dget (dict_of (get_value resp ''urp'')) ''cache'' = Some (PStr ''miss'')"
    using two_texts_answered by blast
  have "get_value two_texts_form ''model'' = PStr ''mock-embedding''" by code_simp
  with embeddings_computed [OF run(1) two_texts_normal run(2)] run(1) show ?thesis by (auto simp: Let_def)
qed

theorem embedding_never_approved_witness:
  "\<exists>k q items src d. evaluate_policy (embedding_unit (ge_env mock_gateway) k ''acme'' ''default'' q items src) [] = Inr d
     \<and> \<not> pd_require_approval d"
proof -
  obtain resp g' where "handle_embeddings mock_gateway two_texts ''acme'' ''default'' (Some []) (Some ''observe'') first_gateway = (Inr resp, g')"
    using two_texts_answered by blast
  from embedding_never_approved [OF this] show ?thesis by blast
qed

end
