(* ===== verification/Provider.thy ===== *)
theory Provider
  imports Gateway
begin

text \<open>
  \<open>OpenAICompatibleProvider\<close> of \<open>python/urp/ai_gateway.py\<close>: the request it posts and what it makes of
  the reply. The endpoint is a parameter: it gets the URL, the headers and the JSON payload, and
  replies with a JSON value, an HTTP error or no connection.
\<close>

datatype http_reply = Reply pyval | Http_error int string | Unreachable string

record provider =
  pv_base_url :: string
  pv_api_key :: "string option"
  pv_timeout :: real
  pv_models :: "(string \<times> string) list"
  pv_organization :: "string option"

type_synonym endpoint = "string \<Rightarrow> (string \<times> string) list \<Rightarrow> pydict \<Rightarrow> http_reply"

definition new_provider :: "string \<Rightarrow> string option \<Rightarrow> real \<Rightarrow> (string \<times> string) list \<Rightarrow> string option \<Rightarrow> provider" where
  "new_provider base_url api_key timeout models organization = \<lparr>pv_base_url = rev (dropWhile (\<lambda>c. c = CHR ''/'') (rev base_url)),
     pv_api_key = api_key, pv_timeout = timeout, pv_models = models, pv_organization = organization\<rparr>"

text \<open>\<open>env.get(a) or env.get(b)\<close> and \<open>env.get(a, fallback)\<close>.\<close>

definition first_of :: "(string \<Rightarrow> string option) \<Rightarrow> string \<Rightarrow> string \<Rightarrow> string option" where
  "first_of vars a b = (case given (vars a) of Some s \<Rightarrow> Some s | None \<Rightarrow> vars b)"

definition var_or :: "(string \<Rightarrow> string option) \<Rightarrow> string \<Rightarrow> string \<Rightarrow> string" where
  "var_or vars k fallback = (case vars k of Some s \<Rightarrow> s | None \<Rightarrow> fallback)"

definition provider_from_env :: "(string \<Rightarrow> string option) \<Rightarrow> provider res" where
  "provider_from_env vars = (let key = first_of vars ''OPENAI_API_KEY'' ''URP_OPENAI_API_KEY'';
       base = (case given (first_of vars ''OPENAI_BASE_URL'' ''URP_OPENAI_BASE_URL'') of Some s \<Rightarrow> s | None \<Rightarrow> ''https://api.openai.com'');
       mini = var_or vars ''URP_OPENAI_MODEL'' ''gpt-4o-mini'' in
     if given key = None \<and> vars ''URP_AI_PROVIDER_NO_AUTH'' \<noteq> Some ''1''
       then Inl (ValueError ''OPENAI_API_KEY is required for live OpenAI-compatible provider use'')
     else bindR (float_value (PStr (var_or vars ''URP_OPENAI_TIMEOUT_SECONDS'' ''30''))) (\<lambda>timeout.
       Inr (new_provider base key timeout
         [(''tiny'', var_or vars ''URP_AI_MODEL_TINY'' mini), (''small'', var_or vars ''URP_AI_MODEL_SMALL'' mini),
          (''medium'', var_or vars ''URP_AI_MODEL_MEDIUM'' mini),
          (''frontier'', var_or vars ''URP_AI_MODEL_FRONTIER'' (var_or vars ''URP_OPENAI_FRONTIER_MODEL'' (var_or vars ''URP_OPENAI_MODEL'' ''gpt-4o''))),
          (''auto'', mini)]
         (vars ''OPENAI_ORGANIZATION''))))"

definition chat_url :: "provider \<Rightarrow> string" where
  "chat_url p = pv_base_url p @ (if suffix ''/v1'' (pv_base_url p) then ''/chat/completions'' else ''/v1/chat/completions'')"

definition model_for :: "provider \<Rightarrow> string \<Rightarrow> string \<Rightarrow> string" where
  "model_for p requested route =
     (if requested \<noteq> [] \<and> requested \<notin> {''auto'', ''tiny'', ''small'', ''medium'', ''frontier''} then requested
      else case given (map_of (pv_models p) route) of Some m \<Rightarrow> m
        | None \<Rightarrow> (case given (map_of (pv_models p) requested) of Some m \<Rightarrow> m | None \<Rightarrow> route))"

definition provider_payload :: "provider \<Rightarrow> pydict \<Rightarrow> string \<Rightarrow> pydict" where
  "provider_payload p request route = (let payload = dpop ''urp'' request in
     dset ''model'' (PStr (model_for p (py_str (get_default payload ''model'' (PStr ''auto''))) route)) payload)"

definition provider_headers :: "provider \<Rightarrow> (string \<times> string) list" where
  "provider_headers p = [(''content-type'', ''application/json''), (''accept'', ''application/json'')]
     @ (case given (pv_api_key p) of Some k \<Rightarrow> [(''authorization'', ''Bearer '' @ k)] | None \<Rightarrow> [])
     @ (case given (pv_organization p) of Some x \<Rightarrow> [(''openai-organization'', x)] | None \<Rightarrow> [])"

definition read_reply :: "pydict \<Rightarrow> http_reply \<Rightarrow> pyval res" where
  "read_reply payload reply = (case reply of
     Http_error code detail \<Rightarrow> Inl (RuntimeError (''OpenAI-compatible provider returned HTTP '' @ show_int code @ '': '' @ detail))
   | Unreachable reason \<Rightarrow> Inl (RuntimeError (''OpenAI-compatible provider unavailable: '' @ reason))
   | Reply v \<Rightarrow> (case v of
       PDict d \<Rightarrow> (if dget d ''choices'' = None then Inl (RuntimeError ''OpenAI-compatible provider response missing choices'')
         else Inr (PDict (set_default ''model'' (get_value payload ''model'') (set_default ''object'' (PStr ''chat.completion'') d))))
     | PList xs \<Rightarrow> Inl (if PStr ''choices'' \<in> set xs then OtherError ''AttributeError''
         else RuntimeError ''OpenAI-compatible provider response missing choices'')
     | PStr t \<Rightarrow> Inl (if contains ''choices'' t then OtherError ''AttributeError''
         else RuntimeError ''OpenAI-compatible provider response missing choices'')
     | _ \<Rightarrow> Inl (TypeError ''argument is not iterable'')))"

definition openai_chat :: "endpoint \<Rightarrow> provider \<Rightarrow> pydict \<Rightarrow> string \<Rightarrow> pyval res" where
  "openai_chat post p request route = (let payload = provider_payload p request route in
     if \<not> json_ok (PDict payload) then Inl (TypeError ''Object is not JSON serializable'')
     else read_reply payload (post (chat_url p) (provider_headers p) payload))"

text \<open>The options for the gateway itself are its own business.\<close>

lemma dpop_dset: "dpop k (dset k v d) = dpop k d"
  by (induction d) (auto simp: dpop_def dset_def split: option.splits)

theorem options_stay_private: "openai_chat post p (dset ''urp'' u request) route = openai_chat post p request route"
  by (simp add: openai_chat_def provider_payload_def dpop_dset)

lemma reply_has_choices: "openai_chat post p request route = Inr v \<Longrightarrow> \<exists>d. v = PDict d \<and> dget d ''choices'' \<noteq> None"
  by (auto simp: openai_chat_def read_reply_def set_default_def Let_def split: if_splits http_reply.splits pyval.splits)

end
