(* ===== verification/Dispatch.thy ===== *)
theory Dispatch
  imports Gateway Execution
begin

text \<open>
  \<open>execute_work_unit\<close> of \<open>python/urp/executor.py\<close>: a work unit is validated, its policy bundle is looked
  up, and it goes to the AI gateway (prompts), to exact execution (objects, files, logs) or to the mock
  adapter (every other kind).
\<close>

text \<open>The name of the bundle the work unit asks for.\<close>

definition wanted_bundle :: "work_unit \<Rightarrow> string option" where
  "wanted_bundle wu = (let a = get_value (wu_policy_context wu) ''policy_bundle_id''; b = get_value (wu_policy_context wu) ''policy_bundle'' in
     if truthy a then Some (py_str a) else if truthy b then Some (py_str b) else None)"

definition unit_request :: "work_unit \<Rightarrow> pydict" where
  "unit_request wu = (case wu_payload wu of PDict d \<Rightarrow> d
     | v \<Rightarrow> [(''messages'', PList [PDict [(''role'', PStr ''user''), (''content'', PStr (text_or_empty v))]]), (''model'', PStr ''auto'')])"

definition exact_kind :: "work_unit_kind \<Rightarrow> bool" where
  "exact_kind k = (k \<in> {BYTE_OBJECT, FILE, STRUCTURED_FILE, LOG_BATCH})"

definition execute_prompt :: "gateway_env \<Rightarrow> work_unit \<Rightarrow> string \<Rightarrow> pydict option \<Rightarrow> execution_result gio" where
  "execute_prompt ge wu mode bundle =
     bindS (handle_chat_completion ge (unit_request wu) (wu_tenant wu) (wu_namespace wu) bundle (Some mode)) (\<lambda>response.
     bindS (liftR (bindR (bindR (item response ''urp'') (\<lambda>u. at_key u ''manifest_id'')) (\<lambda>v. Inr (py_str v)))) (\<lambda>i.
     retS \<lparr>er_work_unit_id = wu_id wu, er_manifest_id = i, er_accepted = True, er_mode = mode, er_output = PDict response, er_details = []\<rparr>))"

definition execute_work_unit :: "gateway_env \<Rightarrow> work_unit \<Rightarrow> string option \<Rightarrow> execution_result gio" where
  "execute_work_unit ge wu mode = (let en = ge_env ge in
     bindS (liftR (execution_mode en mode)) (\<lambda>mode.
     thenS (liftR (require_execution_enabled en (Some (wu_id wu))))
     (thenS (liftR (e_schemas en ''work_unit'' (json_safe_work_unit wu)))
     (bindS (on_world (inspect (\<lambda>w. resolve_active_policy_bundle (e_vars en ''URP_ACTIVE_POLICY'') (wanted_bundle wu) (w_policies w)))) (\<lambda>bundle.
     let pb = (case bundle of None \<Rightarrow> [] | Some b \<Rightarrow> b) in
     if wu_kind wu = PROMPT_REQUEST then execute_prompt ge wu mode bundle
     else if \<not> exact_kind (wu_kind wu) then on_world (execute_mock_adapter en wu (Some mode) pb)
     else on_world (execute_exact_object en wu (Some mode) pb None))))))"

lemma executed_exactly:
  assumes "execute_work_unit ge wu mode g = (Inr r, g')" "wu_kind wu \<noteq> PROMPT_REQUEST"
  obtains md pb adapter where "execution_mode (ge_env ge) mode = Inr md"
    "execute_exact_object (ge_env ge) wu (Some md) pb adapter (gw_world g) = (Inr r, gw_world g')"
    "g' = g\<lparr>gw_world := gw_world g'\<rparr>"
  using assms unfolding execute_work_unit_def Let_def effect_simps execute_mock_adapter_def
  by (auto simp: effect_simps on_world_def zoom_def split: if_splits prod.splits)

lemma mode_again: "execution_mode en mode = Inr md \<Longrightarrow> execution_mode en (Some md) = Inr md"
proof -
  assume "execution_mode en mode = Inr md"
  then have "md \<in> set modes" by (auto simp: execution_mode_def Let_def split: if_splits)
  then have "md = ''observe'' \<or> md = ''shadow'' \<or> md = ''enforce''" by (auto simp: modes_def)
  moreover have "py_lower (py_strip s) = s \<and> given (Some s) = Some s \<and> s \<in> set modes" if "s \<in> {''observe'', ''shadow'', ''enforce''}" for s
    using that by (auto simp: modes_def given_def) code_simp+
  ultimately show ?thesis by (auto simp: execution_mode_def Let_def)
qed

end
