(* ===== verification/ObjectStore.thy ===== *)
theory ObjectStore
  imports Dispatch
begin

text \<open>
  \<open>LocalS3Adapter\<close> of \<open>python/urp/adapters.py\<close>: objects are work units executed in enforce mode; an
  object is named by its manifest. A multipart upload is a directory with a meta file and one
  file per part; it is open, or completing while its object is being stored. File locks are
  not modelled: an operation is one step.
\<close>

subsection \<open>State\<close>

datatype upload_status = Open | Completing

record part_record =
  pr_sha256 :: string
  pr_size :: nat
  pr_file :: string

record upload_meta =
  um_tenant :: string
  um_bucket :: string
  um_key :: string
  um_namespace :: string
  um_metadata :: pydict
  um_tags :: pydict
  um_parts :: "(nat \<times> part_record) list"
  um_status :: upload_status

text \<open>A directory of \<open>tmp/multipart\<close>.\<close>

record upload =
  up_meta :: upload_meta
  up_files :: "(string \<times> bytes) list"

record object_store =
  os_gateway :: gateway
  os_uploads :: "(string \<times> upload) list"

type_synonym 'a oio = "('a, object_store) sres"

definition on_gateway :: "'a gio \<Rightarrow> 'a oio" where
  "on_gateway = zoom os_gateway (\<lambda>g s. s\<lparr>os_gateway := g\<rparr>)"

definition in_world :: "'a io \<Rightarrow> 'a oio" where
  "in_world m = on_gateway (on_world m)"

definition set_upload :: "string \<Rightarrow> upload \<Rightarrow> unit oio" where
  "set_upload i u = (\<lambda>s. (Inr (), s\<lparr>os_uploads := AList.update i u (os_uploads s)\<rparr>))"

definition drop_upload :: "string \<Rightarrow> unit oio" where
  "drop_upload i = (\<lambda>s. (Inr (), s\<lparr>os_uploads := AList.delete i (os_uploads s)\<rparr>))"

definition uploads :: "object_store \<Rightarrow> string \<Rightarrow> upload option" where
  "uploads s = map_of (os_uploads s)"

subsection \<open>Objects\<close>

definition truthy_tag :: "pyval \<Rightarrow> bool" where
  "truthy_tag v = (case v of PBool b \<Rightarrow> b | PStr s \<Rightarrow> py_lower (py_strip s) \<in> {''1'', ''true'', ''yes'', ''on''} | _ \<Rightarrow> False)"

definition object_unit :: "env \<Rightarrow> nat \<Rightarrow> string \<Rightarrow> string \<Rightarrow> string \<Rightarrow> bytes \<Rightarrow> string \<Rightarrow> pydict \<Rightarrow> pydict \<Rightarrow> work_unit" where
  "object_unit en n tenant bucket key body ns metadata tags = \<lparr>wu_kind = BYTE_OBJECT, wu_tenant = tenant,
     wu_logical_ref = ''s3://'' @ bucket @ ''/'' @ key, wu_payload = PBytes body, wu_requested_contract = None, wu_namespace = ns,
     wu_metadata = [(''bucket'', PStr bucket), (''key'', PStr key), (''object_metadata'', PDict metadata), (''tags'', PDict tags)],
     wu_policy_context = (''tags'', PDict tags) #
       (if truthy_tag (get_value tags ''legal_hold'') then [(''legal_hold'', PBool True)] else []),
     wu_trace_id = e_ids en ''tr'' n, wu_id = e_ids en ''wu'' n, wu_created_at = e_clock en n, wu_payload_ref = PNone,
     wu_effective_contract = None, wu_deadline = None, wu_latency_budget_ms = None, wu_quality_target = []\<rparr>"

definition put_object :: "gateway_env \<Rightarrow> string \<Rightarrow> string \<Rightarrow> string \<Rightarrow> bytes \<Rightarrow> string \<Rightarrow> pydict \<Rightarrow> pydict \<Rightarrow> pydict oio" where
  "put_object ge tenant bucket key body ns metadata tags =
     bindS (in_world draw) (\<lambda>n.
     bindS (on_gateway (execute_work_unit ge (object_unit (ge_env ge) n tenant bucket key body ns metadata tags) (Some ''enforce''))) (\<lambda>r.
     bindS (liftR (at_key (er_output r) ''sha256'')) (\<lambda>etag.
     retS [(''bucket'', PStr bucket), (''key'', PStr key), (''work_unit_id'', PStr (er_work_unit_id r)),
       (''manifest_id'', PStr (er_manifest_id r)), (''etag'', etag)])))"

definition own_manifest :: "env \<Rightarrow> string \<Rightarrow> string \<Rightarrow> manifest oio" where
  "own_manifest en tenant i = in_world (inspect (\<lambda>w. file_get_for_tenant (e_ctx en) i tenant (w_manifests w)))"

definition get_object :: "gateway_env \<Rightarrow> string \<Rightarrow> string \<Rightarrow> bytes oio" where
  "get_object ge tenant i = thenS (bindS (own_manifest (ge_env ge) tenant i) (\<lambda>_. retS ()))
     (in_world (inspect (rehydrate_manifest (ge_env ge) i)))"

definition range_read :: "gateway_env \<Rightarrow> string \<Rightarrow> string \<Rightarrow> int \<Rightarrow> int \<Rightarrow> bytes oio" where
  "range_read ge tenant i start stop = thenS (bindS (own_manifest (ge_env ge) tenant i) (\<lambda>_. retS ()))
     (in_world (rehydrate_manifest_range (ge_env ge) i start stop))"

text \<open>\<open>manifest.lineage.get(k, {})\<close>, from which the callers read with \<open>get\<close>.\<close>

definition lineage_get :: "manifest \<Rightarrow> string \<Rightarrow> string \<Rightarrow> pyval \<Rightarrow> pyval res" where
  "lineage_get m part k fallback = get_from (get_default (mf_lineage m) part (PDict [])) k fallback"

definition head_object :: "gateway_env \<Rightarrow> string \<Rightarrow> string \<Rightarrow> pydict oio" where
  "head_object ge tenant i = bindS (own_manifest (ge_env ge) tenant i) (\<lambda>m.
     bindS (liftR (lineage_get m ''work_unit_metadata'' ''object_metadata'' (PDict []))) (\<lambda>metadata.
     bindS (liftR (lineage_get m ''work_unit_metadata'' ''tags'' (PDict []))) (\<lambda>tags.
     retS [(''manifest_id'', PStr (mf_manifest_id m)), (''work_unit_id'', PStr (mf_work_unit_id m)),
       (''content_length'', get_default (mf_physical m) ''logical_size'' (PInt 0)),
       (''sha256'', get_value (mf_physical m) ''whole_sha256''), (''metadata'', metadata), (''tags'', tags)])))"

subsection \<open>Listing\<close>

definition object_source :: "manifest \<Rightarrow> pyval" where
  "object_source m = get_default (mf_lineage m) ''work_unit_metadata'' (PDict [])"

text \<open>\<open>k in source\<close>: a key, a substring or an element.\<close>

definition has_key :: "pyval \<Rightarrow> string \<Rightarrow> bool res" where
  "has_key v k = (case v of PDict d \<Rightarrow> Inr (dget d k \<noteq> None) | PStr s \<Rightarrow> Inr (contains k s) | PList xs \<Rightarrow> Inr (PStr k \<in> set xs)
     | _ \<Rightarrow> Inl (TypeError ''argument is not iterable''))"

definition list_row :: "string option \<Rightarrow> string \<Rightarrow> bool \<Rightarrow> manifest \<Rightarrow> pydict list res" where
  "list_row bucket pre include_tombstoned m =
     (if mf_state m = ''tombstoned'' \<and> \<not> include_tombstoned then Inr []
      else let source = object_source m in
      bindR (has_key source ''bucket'') (\<lambda>a. if \<not> a then Inr [] else bindR (has_key source ''key'') (\<lambda>b. if \<not> b then Inr []
      else bindR (get_from source ''key'' (PStr [])) (\<lambda>key. bindR (get_from source ''bucket'' PNone) (\<lambda>bk.
        if (case given bucket of None \<Rightarrow> False | Some want \<Rightarrow> bk \<noteq> PStr want) then Inr []
        else if pre \<noteq> [] \<and> \<not> prefix pre (py_str key) then Inr []
        else bindR (get_from source ''object_metadata'' (PDict [])) (\<lambda>metadata. bindR (get_from source ''tags'' (PDict [])) (\<lambda>tags.
          Inr [[(''bucket'', bk), (''key'', key), (''manifest_id'', PStr (mf_manifest_id m)), (''state'', PStr (mf_state m)),
            (''size'', get_default (mf_physical m) ''logical_size'' (PInt 0)), (''metadata'', metadata), (''tags'', tags)]])))))))"

definition list_objects :: "gateway_env \<Rightarrow> string \<Rightarrow> string option \<Rightarrow> string \<Rightarrow> bool \<Rightarrow> pydict oio" where
  "list_objects ge tenant bucket pre include_tombstoned =
     bindS (in_world (inspect (\<lambda>w. file_list (e_ctx (ge_env ge)) (Some tenant) (w_manifests w)))) (\<lambda>ms.
     bindS (liftR (map_res concat (seq_res (map (list_row bucket pre include_tombstoned) ms)))) (\<lambda>rows.
     retS [(''objects'', PList (map PDict rows)), (''count'', PInt (int (length rows)))]))"

subsection \<open>Deletion\<close>

definition delete_event :: "manifest \<Rightarrow> string \<Rightarrow> string \<Rightarrow> string \<Rightarrow> pydict \<Rightarrow> ledger_event" where
  "delete_event m ty actor decision details = (event_draft ty (mf_tenant m) (Some (mf_work_unit_id m)))
     \<lparr>ev_manifest_id := Some (mf_manifest_id m), ev_actor := Some actor, ev_decision := Some decision,
      ev_details := details, ev_trace_id := mf_trace_id m\<rparr>"

definition log_deletion :: "env \<Rightarrow> ledger_event \<Rightarrow> unit oio" where
  "log_deletion en e = in_world (thenS (append_event en e) (retS ()))"

definition deny_deletion :: "gateway_env \<Rightarrow> string \<Rightarrow> string \<Rightarrow> manifest \<Rightarrow> string \<Rightarrow> pydict oio" where
  "deny_deletion ge i actor m reason =
     thenS (log_deletion (ge_env ge) (delete_event m ''s3.delete.denied'' actor ''denied'' [(''reason'', PStr reason)]))
     (retS [(''deleted'', PBool False), (''manifest_id'', PStr i), (''reason'', PStr reason)])"

definition tombstone :: "gateway_env \<Rightarrow> string \<Rightarrow> string \<Rightarrow> manifest \<Rightarrow> pydict oio" where
  "tombstone ge i actor m =
     thenS (in_world (put_manifest (ge_env ge) (m\<lparr>mf_state := ''tombstoned''\<rparr>)))
     (thenS (log_deletion (ge_env ge) (delete_event m ''s3.delete.tombstoned'' actor ''tombstoned'' [(''raw_chunks_retained'', PBool True)]))
     (retS [(''deleted'', PBool True), (''manifest_id'', PStr i), (''state'', PStr ''tombstoned''),
       (''raw_chunks_retained'', PBool True)]))"

definition delete_object :: "gateway_env \<Rightarrow> string \<Rightarrow> string \<Rightarrow> string \<Rightarrow> bool \<Rightarrow> pydict oio" where
  "delete_object ge tenant i actor allow_delete =
     bindS (own_manifest (ge_env ge) tenant i) (\<lambda>m.
     bindS (liftR (lineage_get m ''policy_context'' ''legal_hold'' PNone)) (\<lambda>hold.
     if hold = PBool True \<or> \<not> allow_delete then
       deny_deletion ge i actor m (if hold = PBool True then ''legal_hold'' else ''delete_disabled_by_default'')
     else tombstone ge i actor m))"

subsection \<open>Multipart uploads\<close>

definition multipart_dir :: "string \<Rightarrow> string res" where
  "multipart_dir i = validate_identifier i ''multipart upload id'' (Some ''mpu_'')"

definition part_file :: "nat \<Rightarrow> string" where
  "part_file n = ''part-'' @ pad_zeros 8 (show_nat n) @ ''.bin''"

definition the_upload :: "string \<Rightarrow> upload oio" where
  "the_upload i = (\<lambda>s. (case uploads s i of None \<Rightarrow> Inl (KeyError i) | Some u \<Rightarrow> Inr u, s))"

text \<open>Reading the meta file and checking its tenant.\<close>

definition read_meta :: "string \<Rightarrow> upload \<Rightarrow> upload_meta res" where
  "read_meta tenant u = (if um_tenant (up_meta u) \<noteq> tenant then Inl (tenant_mismatch tenant (um_tenant (up_meta u))) else Inr (up_meta u))"

text \<open>Writing the meta file of a new upload; files of an earlier one with its identifier stay.\<close>

definition open_upload :: "string \<Rightarrow> upload_meta \<Rightarrow> pydict oio" where
  "open_upload i m = bindS (\<lambda>s. (Inr (uploads s i), s)) (\<lambda>old.
     thenS (set_upload i \<lparr>up_meta = m, up_files = (case old of None \<Rightarrow> [] | Some u \<Rightarrow> up_files u)\<rparr>)
     (retS [(''upload_id'', PStr i), (''bucket'', PStr (um_bucket m)), (''key'', PStr (um_key m))]))"

definition create_multipart_upload :: "gateway_env \<Rightarrow> string \<Rightarrow> string \<Rightarrow> string \<Rightarrow> string \<Rightarrow> pydict \<Rightarrow> pydict \<Rightarrow> pydict oio" where
  "create_multipart_upload ge tenant bucket key ns metadata tags =
     thenS (liftR (guardR (py_strip bucket \<noteq> [] \<and> key \<noteq> []) (ValueError ''bucket and key are required'')))
     (bindS (in_world draw) (\<lambda>n. let i = e_ids (ge_env ge) ''mpu'' n in
     bindS (liftR (multipart_dir i)) (\<lambda>_.
     open_upload i \<lparr>um_tenant = tenant, um_bucket = bucket, um_key = key, um_namespace = ns,
       um_metadata = jfile_dict metadata, um_tags = jfile_dict tags, um_parts = [], um_status = Open\<rparr>)))"

definition upload_part :: "string \<Rightarrow> string \<Rightarrow> int \<Rightarrow> bytes \<Rightarrow> pydict oio" where
  "upload_part tenant i number body =
     thenS (liftR (guardR (0 < number \<and> number \<le> 10000) (ValueError ''part_number must be between 1 and 10000'')))
     (thenS (bindS (liftR (multipart_dir i)) (\<lambda>_. retS ()))
     (bindS (the_upload i) (\<lambda>u.
     bindS (liftR (read_meta tenant u)) (\<lambda>m.
     thenS (liftR (guardR (um_status m = Open) (ValueError ''multipart upload is not open'')))
     (let n = nat number; f = part_file n in
      thenS (set_upload i \<lparr>up_meta = m\<lparr>um_parts := AList.update n
          \<lparr>pr_sha256 = sha256_bytes body, pr_size = length body, pr_file = f\<rparr> (um_parts m)\<rparr>,
          up_files = AList.update f body (up_files u)\<rparr>)
      (retS [(''upload_id'', PStr i), (''part_number'', PInt number), (''size'', PInt (int (length body))),
        (''etag'', PStr (sha256_bytes body))]))))))"

text \<open>The bytes of the parts in the order of their numbers, each checked against its record.\<close>

definition part_body :: "upload \<Rightarrow> nat \<times> part_record \<Rightarrow> bytes res" where
  "part_body u nr = (case map_of (up_files u) (pr_file (snd nr)) of None \<Rightarrow> Inl (FileNotFoundError (pr_file (snd nr)))
     | Some data \<Rightarrow> if length data \<noteq> pr_size (snd nr) \<or> sha256_bytes data \<noteq> pr_sha256 (snd nr)
         then Inl (ValueError (''multipart part verification failed: '' @ show_nat (fst nr))) else Inr data)"

definition joined_parts :: "upload \<Rightarrow> upload_meta \<Rightarrow> bytes res" where
  "joined_parts u m = map_res concat (seq_res (map (part_body u) (sort_key fst (um_parts m))))"

text \<open>\<open>_remove_multipart\<close>: the directory goes when the upload has the expected status.\<close>

definition remove_multipart :: "string \<Rightarrow> string \<Rightarrow> upload_status \<Rightarrow> unit oio" where
  "remove_multipart tenant i expected = bindS (the_upload i) (\<lambda>u. bindS (liftR (read_meta tenant u)) (\<lambda>m.
     thenS (liftR (guardR (um_status m = expected) (ValueError (''multipart upload must be ''
       @ (case expected of Open \<Rightarrow> ''open'' | Completing \<Rightarrow> ''completing'') @ '' for cleanup''))))
     (drop_upload i)))"

definition set_status :: "string \<Rightarrow> upload_status \<Rightarrow> unit oio" where
  "set_status i st = (\<lambda>s. case uploads s i of None \<Rightarrow> (Inr (), s)
     | Some u \<Rightarrow> set_upload i (u\<lparr>up_meta := (up_meta u)\<lparr>um_status := st\<rparr>\<rparr>) s)"

text \<open>\<open>try: m except Exception: cleanup; raise\<close>.\<close>

definition on_failure :: "unit oio \<Rightarrow> 'a oio \<Rightarrow> 'a oio" where
  "on_failure cleanup m = (\<lambda>s. case m s of (Inl e, s') \<Rightarrow> (Inl e, snd (cleanup s')) | (Inr x, s') \<Rightarrow> (Inr x, s'))"

definition finish_upload :: "gateway_env \<Rightarrow> string \<Rightarrow> string \<Rightarrow> upload_meta \<Rightarrow> bytes \<Rightarrow> pydict oio" where
  "finish_upload ge tenant i m body =
     thenS (set_status i Completing)
     (bindS (on_failure (set_status i Open)
         (put_object ge tenant (um_bucket m) (um_key m) body (um_namespace m) (um_metadata m) (um_tags m))) (\<lambda>r.
     thenS (remove_multipart tenant i Completing)
     (retS (dset ''parts'' (PInt (int (length (um_parts m)))) (dset ''upload_id'' (PStr i) r)))))"

definition complete_multipart_upload :: "gateway_env \<Rightarrow> string \<Rightarrow> string \<Rightarrow> pydict oio" where
  "complete_multipart_upload ge tenant i =
     bindS (liftR (multipart_dir i)) (\<lambda>_.
     bindS (the_upload i) (\<lambda>u.
     bindS (liftR (read_meta tenant u)) (\<lambda>m.
     bindS (liftR (guardR (um_status m = Open) (ValueError ''multipart upload is already completing''))) (\<lambda>_.
     bindS (liftR (guardR (um_parts m \<noteq> []) (ValueError ''multipart upload has no parts''))) (\<lambda>_.
     bindS (liftR (joined_parts u m)) (\<lambda>body.
     finish_upload ge tenant i m body))))))"

definition abort_multipart_upload :: "string \<Rightarrow> string \<Rightarrow> pydict oio" where
  "abort_multipart_upload tenant i =
     thenS (bindS (liftR (multipart_dir i)) (\<lambda>_. retS ()))
     (bindS (\<lambda>s. (Inr (uploads s i), s)) (\<lambda>u.
     thenS (case u of None \<Rightarrow> retS () | Some _ \<Rightarrow> remove_multipart tenant i Open)
     (retS [(''upload_id'', PStr i), (''aborted'', PBool True)])))"

end
