(* ===== verification/ObjectLaws.thy ===== *)
theory ObjectLaws
  imports ObjectStore Answering
begin

text \<open>
  What \<open>LocalS3Adapter\<close> promises: an object that was put is returned byte for byte, a deletion
  never costs data and never passes a legal hold, and a multipart upload is a map from part
  numbers to bytes whose completion stores the parts in the order of their numbers.
\<close>

subsection \<open>Effects on the parts of the state\<close>

abbreviation os_world :: "object_store \<Rightarrow> world" where
  "os_world s \<equiv> gw_world (os_gateway s)"

lemma on_gateway_eq [effect_simps]:
  "(on_gateway m s = (r, s')) = (\<exists>g. m (os_gateway s) = (r, g) \<and> s' = s\<lparr>os_gateway := g\<rparr>)"
  by (simp add: on_gateway_def zoom_eq)

lemma in_world_eq [effect_simps]:
  "(in_world m s = (r, s')) = (\<exists>w. m (os_world s) = (r, w) \<and> s' = s\<lparr>os_gateway := (os_gateway s)\<lparr>gw_world := w\<rparr>\<rparr>)"
  by (auto simp: in_world_def on_world_def effect_simps)

lemma own_manifest_eq [effect_simps]:
  "(own_manifest en t i s = (r, s')) = (s' = s \<and> file_get_for_tenant (e_ctx en) i t (w_manifests (os_world s)) = r)"
  by (auto simp: own_manifest_def effect_simps)

text \<open>A manifest that a caller of a tenant may read.\<close>

lemma get_for_tenant_Inr [effect_simps]:
  "(file_get_for_tenant c i t s = Inr m) = (file_get c i s = Inr m \<and> mf_tenant m = t)"
  by (auto simp: file_get_for_tenant_def require_manifest_tenant_def effect_simps split: if_splits)

lemma enforce_mode: "execution_mode en (Some ''enforce'') = Inr ''enforce''"
proof -
  have "py_lower (py_strip ''enforce'') = ''enforce''" "given (Some ''enforce'') = Some ''enforce''" by code_simp+
  then show ?thesis by (simp add: execution_mode_def modes_def Let_def)
qed

subsection \<open>The manifest of an execution\<close>

text \<open>Every manifest is filed under its own identifier.\<close>

definition own_names :: "json_files \<Rightarrow> bool" where
  "own_names files = (\<forall>i m. file_view files i = Some m \<longrightarrow> mf_manifest_id m = i)"

lemma own_names_put: "file_put sch c m s = (Inr u, s') \<Longrightarrow> own_names s \<Longrightarrow> own_names s'"
  using file_manifests.put_done [of sch c m s u s'] by (auto simp: own_names_def filed_manifest_def)

lemma own_name: "own_names files \<Longrightarrow> file_get c i files = Inr m \<Longrightarrow> mf_manifest_id m = i"
  by (auto simp: own_names_def file_manifests.get_iff)

definition os_inv :: "env \<Rightarrow> stored_item set \<Rightarrow> object_store \<Rightarrow> bool" where
  "os_inv en U s = (store_inv (e_zip en) U (w_chunks (os_world s)) \<and> own_names (w_manifests (os_world s)))"

text \<open>The manifest of an execution: where it is, what it says, and that no other changed.\<close>

definition made_by :: "work_unit \<Rightarrow> string \<Rightarrow> manifest \<Rightarrow> bool" where
  "made_by wu md m = (mf_tenant m = wu_tenant wu \<and> mf_state m = (if md = ''enforce'' then ''active'' else ''superseded'')
     \<and> mf_lineage m = jfile_dict [(''work_unit_metadata'', PDict (wu_metadata wu)), (''policy_context'', PDict (wu_policy_context wu))])"

lemma write_manifest_files:
  assumes "write_manifest en wu d p mode adapter payload segs v w = (Inr r, w')"
  shows "\<exists>m. file_get (e_ctx en) (er_manifest_id r) (w_manifests w') = Inr m \<and> made_by wu mode m"
    and "er_output r = PDict [(''sha256'', PStr (sha256_bytes payload))]"
    and "own_names (w_manifests w) \<Longrightarrow> own_names (w_manifests w')"
    and "i \<noteq> er_manifest_id r \<Longrightarrow> (file_get c i (w_manifests w') = Inr x) = (file_get c i (w_manifests w) = Inr x)"
proof -
  obtain n mfs where put0: "file_put (e_schemas en) (e_ctx en) (exec_manifest en wu d p mode adapter payload segs n v (w_drawn w))
        (w_manifests w) = (Inr (), mfs)"
    and rest0: "announce_manifest en wu d mode adapter payload segs n (exec_manifest en wu d p mode adapter payload segs n v (w_drawn w))
        (w\<lparr>w_drawn := Suc (w_drawn w), w_manifests := mfs\<rparr>) = (Inr r, w')"
    using assms(1) by (auto simp: write_manifest_def put_manifest_def on_manifests_def Let_def effect_simps)
  define m where m: "m = exec_manifest en wu d p mode adapter payload segs n v (w_drawn w)"
  note put = put0 [folded m] and rest = rest0 [folded m]
  have mfs: "w_manifests w' = mfs" using keepsD [OF announce_manifest_keeps(2) _ rest, of mfs] by simp
  have ident: "er_manifest_id r = mf_manifest_id m" by (rule announce_manifest_id [OF rest])
  have "file_get (e_ctx en) (mf_manifest_id m) mfs = Inr (filed_manifest m)"
    by (rule file_manifests.get_after_put [OF put]) simp
  moreover have "made_by wu mode (filed_manifest m)"
    by (simp add: m made_by_def filed_manifest_def exec_manifest_def base_manifest_def)
  ultimately show "\<exists>m. file_get (e_ctx en) (er_manifest_id r) (w_manifests w') = Inr m \<and> made_by wu mode m"
    by (auto simp: mfs ident)
  show "er_output r = PDict [(''sha256'', PStr (sha256_bytes payload))]"
    using rest unfolding announce_manifest_def effect_simps by (elim exE conjE) auto
  show "own_names (w_manifests w')" if "own_names (w_manifests w)" using own_names_put [OF put that] by (simp add: mfs)
  show "(file_get c i (w_manifests w') = Inr x) = (file_get c i (w_manifests w) = Inr x)" if "i \<noteq> er_manifest_id r"
    unfolding mfs by (rule file_manifests.get_other [OF put]) (use that in \<open>simp_all add: ident\<close>)
qed

lemma execution_files:
  assumes run: "execute_exact_object en wu mode pb adapter w = (Inr r, w')"
    and mode: "execution_mode en mode = Inr md" "md \<noteq> ''observe''" "payload_to_bytes (wu_payload wu) = Inr payload"
  shows "\<exists>m. file_get (e_ctx en) (er_manifest_id r) (w_manifests w') = Inr m \<and> made_by wu md m"
    and "er_output r = PDict [(''sha256'', PStr (sha256_bytes payload))]"
    and "own_names (w_manifests w) \<Longrightarrow> own_names (w_manifests w')"
    and "i \<noteq> er_manifest_id r \<Longrightarrow> (file_get c i (w_manifests w') = Inr x) = (file_get c i (w_manifests w) = Inr x)"
proof -
  obtain d p w1 where w1: "w_manifests w1 = w_manifests w" and body: "store_and_verify en wu d p md adapter payload w1 = (Inr r, w')"
    by (rule execution_parts [OF run]) (use mode in auto)
  obtain cs segs v w2 w3 where st: "store_segments en wu d (storage_namespace wu md) p cs w1 = (Inr segs, w2)"
    and ver: "verify_restore en wu d (sha256_bytes payload) segs w2 = (Inr v, w3)"
    and wr: "write_manifest en wu d p md adapter payload segs v w3 = (Inr r, w')"
    using body by (auto simp: store_and_verify_def effect_simps)
  have w3: "w_manifests w3 = w_manifests w"
    using keepsD [OF verify_restore_keeps(2) _ ver, of "w_manifests w2"] keepsD [OF store_segments_keeps _ st, of "w_manifests w1"] w1 by simp
  note files = write_manifest_files [OF wr, unfolded w3]
  show "\<exists>m. file_get (e_ctx en) (er_manifest_id r) (w_manifests w') = Inr m \<and> made_by wu md m" by (rule files(1))
  show "er_output r = PDict [(''sha256'', PStr (sha256_bytes payload))]" by (rule files(2))
  show "own_names (w_manifests w')" if "own_names (w_manifests w)" by (rule files(3) [OF that])
  show "(file_get c i (w_manifests w') = Inr x) = (file_get c i (w_manifests w) = Inr x)" if "i \<noteq> er_manifest_id r"
    by (rule files(4) [OF that])
qed

subsection \<open>Objects\<close>

lemma object_unit_simps [simp]:
  "wu_kind (object_unit en n t bucket key body ns md tags) = BYTE_OBJECT"
  "wu_tenant (object_unit en n t bucket key body ns md tags) = t"
  "payload_to_bytes (wu_payload (object_unit en n t bucket key body ns md tags)) = Inr body"
  "storage_namespace (object_unit en n t bucket key body ns md tags) ''enforce'' = ns"
  "wu_requested_contract (object_unit en n t bucket key body ns md tags) = None"
  by (simp_all add: object_unit_def payload_to_bytes_def storage_namespace_def)

text \<open>What a successful put did.\<close>

lemma put_object_parts:
  assumes "put_object ge t bucket key body ns md tags s = (Inr out, s')"
  obtains n r pb adapter where "execute_exact_object (ge_env ge) (object_unit (ge_env ge) n t bucket key body ns md tags)
      (Some ''enforce'') pb adapter ((os_world s)\<lparr>w_drawn := Suc (w_drawn (os_world s))\<rparr>) = (Inr r, os_world s')"
    "n = w_drawn (os_world s)"
    "out = [(''bucket'', PStr bucket), (''key'', PStr key), (''work_unit_id'', PStr (er_work_unit_id r)),
       (''manifest_id'', PStr (er_manifest_id r)), (''etag'', PStr (sha256_bytes body))]"
    "os_uploads s' = os_uploads s"
proof -
  let ?w = "(os_world s)\<lparr>w_drawn := Suc (w_drawn (os_world s))\<rparr>" and ?u = "object_unit (ge_env ge) (w_drawn (os_world s)) t bucket key body ns md tags"
  obtain r g etag where run: "execute_work_unit ge ?u (Some ''enforce'') ((os_gateway s)\<lparr>gw_world := ?w\<rparr>) = (Inr r, g)"
    and out: "at_key (er_output r) ''sha256'' = Inr etag" "out = [(''bucket'', PStr bucket), (''key'', PStr key),
       (''work_unit_id'', PStr (er_work_unit_id r)), (''manifest_id'', PStr (er_manifest_id r)), (''etag'', etag)]"
    and s': "s' = s\<lparr>os_gateway := g\<rparr>"
    using assms unfolding put_object_def effect_simps by auto
  obtain md' pb adapter where ex0: "execution_mode (ge_env ge) (Some ''enforce'') = Inr md'"
      "execute_exact_object (ge_env ge) ?u (Some md') pb adapter ?w = (Inr r, gw_world g)"
    by (rule executed_exactly [OF run]) auto
  then have ex: "execute_exact_object (ge_env ge) ?u (Some ''enforce'') pb adapter ?w = (Inr r, gw_world g)" by (simp add: enforce_mode)
  have "er_output r = PDict [(''sha256'', PStr (sha256_bytes body))]"
    by (rule execution_files(2) [OF ex enforce_mode]) auto
  then have "etag = PStr (sha256_bytes body)" using out(1) by (auto simp: item_def)
  with out s' show thesis by (intro that [of _ pb adapter r]) (use ex in simp_all)
qed

text \<open>A stored object: a manifest that serves its bytes.\<close>

definition holds_object :: "env \<Rightarrow> stored_item set \<Rightarrow> string \<Rightarrow> string \<Rightarrow> bytes \<Rightarrow> object_store \<Rightarrow> bool" where
  "holds_object en U t i body s = (served en U (os_world s) i body
     \<and> (\<exists>m. file_get_for_tenant (e_ctx en) i t (w_manifests (os_world s)) = Inr m))"

lemma get_held:
  assumes "os_inv (ge_env ge) U s" "holds_object (ge_env ge) U t i body s"
  shows "get_object ge t i s = (Inr body, s)"
proof -
  obtain m where m: "file_get_for_tenant (e_ctx (ge_env ge)) i t (w_manifests (os_world s)) = Inr m"
    using assms(2) by (auto simp: holds_object_def)
  have "rehydrate_manifest (ge_env ge) i (os_world s) = Inr body"
    by (rule rehydrate_served [where U = U]) (use assms in \<open>simp_all add: os_inv_def holds_object_def\<close>)
  then show ?thesis using m by (simp add: get_object_def own_manifest_def in_world_def on_gateway_def on_world_def zoom_def
        inspect_def thenS_def bindS_def retS_def)
qed

lemma put_holds:
  assumes put: "put_object ge t bucket key body ns md tags s = (Inr out, s')"
    and inv: "os_inv (ge_env ge) U s" and U: "covers U t ns body"
  obtains i m where "get_value out ''manifest_id'' = PStr i" "get_value out ''etag'' = PStr (sha256_bytes body)"
    "holds_object (ge_env ge) U t i body s'" "os_inv (ge_env ge) U s'" "os_uploads s' = os_uploads s"
    "file_get (e_ctx (ge_env ge)) i (w_manifests (os_world s')) = Inr m"
    "made_by (object_unit (ge_env ge) (w_drawn (os_world s)) t bucket key body ns md tags) ''enforce'' m"
    "\<forall>j b. j \<noteq> i \<longrightarrow> served (ge_env ge) U (os_world s) j b \<longrightarrow> served (ge_env ge) U (os_world s') j b"
    "\<forall>c j x. j \<noteq> i \<longrightarrow> (file_get c j (w_manifests (os_world s')) = Inr x) = (file_get c j (w_manifests (os_world s)) = Inr x)"
proof -
  let ?en = "ge_env ge" and ?u = "object_unit (ge_env ge) (w_drawn (os_world s)) t bucket key body ns md tags"
  obtain n r pb adapter where run0: "execute_exact_object ?en (object_unit ?en n t bucket key body ns md tags) (Some ''enforce'') pb adapter
        ((os_world s)\<lparr>w_drawn := Suc (w_drawn (os_world s))\<rparr>) = (Inr r, os_world s')" and n: "n = w_drawn (os_world s)"
    and out: "out = [(''bucket'', PStr bucket), (''key'', PStr key), (''work_unit_id'', PStr (er_work_unit_id r)),
       (''manifest_id'', PStr (er_manifest_id r)), (''etag'', PStr (sha256_bytes body))]" and ups: "os_uploads s' = os_uploads s"
    by (rule put_object_parts [OF put])
  note run = run0 [unfolded n]
  have w: "w_chunks ((os_world s)\<lparr>w_drawn := Suc (w_drawn (os_world s))\<rparr>) = w_chunks (os_world s)"
      "w_manifests ((os_world s)\<lparr>w_drawn := Suc (w_drawn (os_world s))\<rparr>) = w_manifests (os_world s)" by simp_all
  have same: "served ?en U ((os_world s)\<lparr>w_drawn := k\<rparr>) j b = served ?en U (os_world s) j b" for j b k by (simp add: served_def)
  have p: "payload_to_bytes (wu_payload ?u) = Inr body" by simp
  have ex: "store_inv (e_zip ?en) U (w_chunks (os_world s'))" "served ?en U (os_world s') (er_manifest_id r) body"
      "\<forall>j b. j \<noteq> er_manifest_id r \<longrightarrow> served ?en U (os_world s) j b \<longrightarrow> served ?en U (os_world s') j b"
    using execution_serves [OF run _ enforce_mode _ p, of U] inv U by (simp_all add: os_inv_def w same)
  note files = execution_files [OF run enforce_mode _ p, unfolded w]
  obtain m where m: "file_get (e_ctx ?en) (er_manifest_id r) (w_manifests (os_world s')) = Inr m" "made_by ?u ''enforce'' m"
    using files(1) by auto
  then have "mf_tenant m = t" by (simp add: made_by_def)
  then have "holds_object ?en U t (er_manifest_id r) body s'" using m(1) ex(2) by (auto simp: holds_object_def get_for_tenant_Inr)
  moreover have "os_inv ?en U s'" using files(3) inv ex(1) by (simp add: os_inv_def)
  moreover have "get_value out ''manifest_id'' = PStr (er_manifest_id r)" "get_value out ''etag'' = PStr (sha256_bytes body)"
    by (simp_all add: out get_value_def)
  moreover have "\<forall>c j x. j \<noteq> er_manifest_id r \<longrightarrow>
      (file_get c j (w_manifests (os_world s')) = Inr x) = (file_get c j (w_manifests (os_world s)) = Inr x)"
    using files(4) by simp
  ultimately show thesis using that m ex(3) ups by blast
qed


subsection \<open>Deletion\<close>

definition on_hold :: "manifest \<Rightarrow> bool" where
  "on_hold m = (lineage_get m ''policy_context'' ''legal_hold'' PNone = Inr (PBool True))"

lemma log_deletion_frame:
  assumes "log_deletion en e s = (r, s')"
  shows "w_chunks (os_world s') = w_chunks (os_world s)" "w_manifests (os_world s') = w_manifests (os_world s)"
proof -
  have run: "thenS (append_event en e) (retS ()) (os_world s) = (r, os_world s')"
    using assms by (auto simp: log_deletion_def effect_simps)
  show "w_chunks (os_world s') = w_chunks (os_world s)" "w_manifests (os_world s') = w_manifests (os_world s)"
    using keepsD [OF keeps_thenS [OF traces_keep_chunks(1) keeps_retS] _ run] keepsD [OF keeps_thenS [OF traces_keep_manifests(1) keeps_retS] _ run]
    by simp_all
qed

text \<open>Putting the tombstone changes the state of one manifest and nothing else.\<close>

lemma tombstone_put:
  assumes m: "file_get (e_ctx en) i (w_manifests (os_world s)) = Inr m" and inv: "os_inv en U s"
    and run: "in_world (put_manifest en (m\<lparr>mf_state := ''tombstoned''\<rparr>)) s = (res, s')"
  shows "os_inv en U s'" "w_chunks (os_world s') = w_chunks (os_world s)"
    "served en U (os_world s) j b \<Longrightarrow> served en U (os_world s') j b"
    "res = Inr u \<Longrightarrow> file_get (e_ctx en) i (w_manifests (os_world s')) = Inr (filed_manifest (m\<lparr>mf_state := ''tombstoned''\<rparr>))"
    "j \<noteq> i \<Longrightarrow> (file_get c j (w_manifests (os_world s')) = Inr x) = (file_get c j (w_manifests (os_world s)) = Inr x)"
    "res = Inl e \<Longrightarrow> w_manifests (os_world s') = w_manifests (os_world s)"
proof -
  let ?m = "m\<lparr>mf_state := ''tombstoned''\<rparr>"
  obtain mfs where put: "file_put (e_schemas en) (e_ctx en) ?m (w_manifests (os_world s)) = (res, mfs)"
    and s': "s' = s\<lparr>os_gateway := (os_gateway s)\<lparr>gw_world := (os_world s)\<lparr>w_manifests := mfs\<rparr>\<rparr>\<rparr>"
    using run by (auto simp: put_manifest_def on_manifests_def effect_simps)
  have ident: "mf_manifest_id ?m = i" using own_name [OF _ m] inv by (simp add: os_inv_def)
  show chunks: "w_chunks (os_world s') = w_chunks (os_world s)" by (simp add: s')
  have failed: "mfs = w_manifests (os_world s)" if "res = Inl e" for e
    using file_manifests.put_refused put that by blast
  then show "w_manifests (os_world s') = w_manifests (os_world s)" if "res = Inl e" using that by (simp add: s')
  have got: "file_get (e_ctx en) i mfs = Inr (filed_manifest ?m)" if "res = Inr u" for u
    using file_manifests.get_after_put [OF put [unfolded that]] by (simp add: ident)
  then show "file_get (e_ctx en) i (w_manifests (os_world s')) = Inr (filed_manifest ?m)" if "res = Inr u" using that by (simp add: s')
  show other: "(file_get c j (w_manifests (os_world s')) = Inr x) = (file_get c j (w_manifests (os_world s)) = Inr x)"
    if "j \<noteq> i" for c j x
    using file_manifests.get_other [OF _ _ that [folded ident]] put failed by (cases res) (auto simp: s')
  show "os_inv en U s'" using own_names_put inv put failed by (cases res) (auto simp: os_inv_def s')
  show "served en U (os_world s') j b" if old: "served en U (os_world s) j b" for j b
  proof (cases "j = i \<and> (\<exists>u. res = Inr u)")
    case True
    then have "describes (e_zip en) U (w_chunks (os_world s)) (mf_physical m) b" using old m by (simp add: served_def)
    then have "describes (e_zip en) U (w_chunks (os_world s)) (jfile_dict (mf_physical m)) b"
      by (rule describes_jfile [rotated]) (use inv in \<open>simp add: os_inv_def\<close>)
    then show ?thesis using got True by (auto simp: served_def s' filed_manifest_def)
  next
    case False
    then show ?thesis using old other [of j "e_ctx en"] failed chunks by (cases res) (auto simp: served_def s')
  qed
qed

lemma bindS_cases:
  assumes "bindS m f s = (r, s')"
  obtains e where "m s = (Inl e, s')" "r = Inl e" | x s1 where "m s = (Inr x, s1)" "f x s1 = (r, s')"
  using assms by (auto simp: bindS_def split: prod.splits sum.splits)

lemma then_ret: "thenS m (retS x) s = (r, s') \<Longrightarrow> \<exists>u. m s = (u, s')"
  by (auto simp: thenS_def bindS_def retS_def split: prod.splits sum.splits)

text \<open>The three ways a deletion goes: refused, denied, or tombstoned.\<close>

lemma delete_cases:
  assumes "delete_object ge t i actor allow s = (res, s')"
  obtains e where "res = Inl e" "s' = s"
  | m where "file_get (e_ctx (ge_env ge)) i (w_manifests (os_world s)) = Inr m" "mf_tenant m = t" "on_hold m \<or> \<not> allow"
      "deny_deletion ge i actor m (if on_hold m then ''legal_hold'' else ''delete_disabled_by_default'') s = (res, s')"
  | m where "file_get (e_ctx (ge_env ge)) i (w_manifests (os_world s)) = Inr m" "mf_tenant m = t" "\<not> on_hold m" "allow"
      "tombstone ge i actor m s = (res, s')"
  using assms unfolding delete_object_def
proof (cases rule: bindS_cases)
  case (2 m s1)
  then have m: "s1 = s" "file_get (e_ctx (ge_env ge)) i (w_manifests (os_world s)) = Inr m" "mf_tenant m = t"
    by (simp_all add: effect_simps)
  show thesis using 2(2)
  proof (cases rule: bindS_cases)
    case (2 v s2)
    then have "on_hold m = (v = PBool True)" "s2 = s" by (auto simp: on_hold_def effect_simps m)
    then show thesis using 2(2) that(2,3) [OF m(2,3)] by (auto split: if_splits)
  qed (use that(1) m in \<open>auto simp: effect_simps\<close>)
qed (use that(1) in \<open>auto simp: effect_simps\<close>)

text \<open>Neither denial nor tombstone loses data.\<close>

lemma denial_keeps:
  assumes "deny_deletion ge i actor m reason s = (res, s')"
  shows "w_chunks (os_world s') = w_chunks (os_world s)" "w_manifests (os_world s') = w_manifests (os_world s)"
proof -
  have "\<exists>u. log_deletion (ge_env ge) (delete_event m ''s3.delete.denied'' actor ''denied'' [(''reason'', PStr reason)]) s = (u, s')"
    by (rule then_ret [OF assms [unfolded deny_deletion_def]])
  then show "w_chunks (os_world s') = w_chunks (os_world s)" "w_manifests (os_world s') = w_manifests (os_world s)"
    using log_deletion_frame by blast+
qed

lemma tombstone_steps:
  assumes "tombstone ge i actor m s = (res, s')"
  obtains p s1 where "in_world (put_manifest (ge_env ge) (m\<lparr>mf_state := ''tombstoned''\<rparr>)) s = (p, s1)"
    "w_chunks (os_world s') = w_chunks (os_world s1)" "w_manifests (os_world s') = w_manifests (os_world s1)"
    "\<not> isl res \<Longrightarrow> \<not> isl p"
  using assms unfolding tombstone_def thenS_def
proof (cases rule: bindS_cases)
  case (2 u s1)
  obtain v where v: "log_deletion (ge_env ge) (delete_event m ''s3.delete.tombstoned'' actor ''tombstoned''
      [(''raw_chunks_retained'', PBool True)]) s1 = (v, s')"
    using then_ret [OF 2(2) [folded thenS_def]] by blast
  show thesis by (rule that [OF 2(1) log_deletion_frame [OF v]]) simp
next
  case (1 e)
  show thesis by (rule that [OF 1(1) refl refl]) (simp add: 1(2))
qed

lemma delete_keeps:
  assumes inv: "os_inv (ge_env ge) U s" and run: "delete_object ge t i actor allow s = (res, s')"
  shows "os_inv (ge_env ge) U s'" "holds_object (ge_env ge) U t' j b s \<Longrightarrow> holds_object (ge_env ge) U t' j b s'"
proof -
  have "os_inv (ge_env ge) U s' \<and> (holds_object (ge_env ge) U t' j b s \<longrightarrow> holds_object (ge_env ge) U t' j b s')"
    using run
  proof (cases rule: delete_cases)
    case (1 e)
    then show ?thesis using inv by simp
  next
    case (2 m)
    note frame = denial_keeps [OF 2(4)]
    show ?thesis using inv frame by (simp add: os_inv_def holds_object_def served_def)
  next
    case (3 m)
    obtain p s1 where run: "in_world (put_manifest (ge_env ge) (m\<lparr>mf_state := ''tombstoned''\<rparr>)) s = (p, s1)"
      and frame: "w_chunks (os_world s') = w_chunks (os_world s1)" "w_manifests (os_world s') = w_manifests (os_world s1)"
      by (rule tombstone_steps [OF 3(5)])
    note put = tombstone_put [OF 3(1) inv run]
    have other: "file_get (e_ctx (ge_env ge)) j (w_manifests (os_world s1)) = Inr x"
      if "file_get (e_ctx (ge_env ge)) j (w_manifests (os_world s)) = Inr x" "j \<noteq> i" for x
      using put(5) [OF that(2)] that(1) by blast
    have tombed: "\<exists>m'. file_get (e_ctx (ge_env ge)) i (w_manifests (os_world s1)) = Inr m' \<and> mf_tenant m' = t"
    proof (cases p)
      case (Inl e)
      from put(6) [OF this] 3(1,2) show ?thesis by simp
    next
      case (Inr u)
      from put(4) [OF this] 3(2) show ?thesis by (simp add: filed_manifest_def)
    qed
    have "\<exists>m'. file_get (e_ctx (ge_env ge)) j (w_manifests (os_world s1)) = Inr m' \<and> mf_tenant m' = t'"
      if "file_get (e_ctx (ge_env ge)) j (w_manifests (os_world s)) = Inr x" "mf_tenant x = t'" for x
      using that other tombed 3(1,2) by (cases "j = i") (simp, blast)
    moreover have "os_inv (ge_env ge) U s'" using put(1) by (simp add: os_inv_def frame)
    moreover have "served (ge_env ge) U (os_world s) j b \<Longrightarrow> served (ge_env ge) U (os_world s') j b"
      using put(3) [of j b] by (simp add: served_def frame)
    ultimately show ?thesis unfolding holds_object_def get_for_tenant_Inr frame by blast
  qed
  then show "os_inv (ge_env ge) U s'" "holds_object (ge_env ge) U t' j b s \<Longrightarrow> holds_object (ge_env ge) U t' j b s'" by blast+
qed

text \<open>
  Deletion never costs data: whatever \<open>delete_object\<close> does (refuse, deny, fail to
  write, or tombstone), the invariant of the store is kept and every object that could be read
  before, the deleted one included, is read byte for byte afterwards.
\<close>

theorem deletion_keeps_data:
  assumes "os_inv (ge_env ge) U s" "delete_object ge t i actor allow s = (res, s')"
  shows "os_inv (ge_env ge) U s' \<and> (\<forall>t' j b. holds_object (ge_env ge) U t' j b s \<longrightarrow> get_object ge t' j s' = (Inr b, s'))"
  using delete_keeps [OF assms] get_held by blast

lemma log_deletion_logged:
  assumes "log_deletion en e s = (Inr u, s')" "audit_inv l0 (os_world s)" "fresh_events en"
  shows "audit_inv l0 (os_world s') \<and> has_event (w_ledger (os_world s')) (ev_event_type e) (ev_manifest_id e)"
proof -
  obtain y where run: "append_event en e (os_world s) = (Inr y, os_world s')"
    using assms(1) by (auto simp: log_deletion_def effect_simps)
  show ?thesis using append_event_logged [OF run assms(2,3)] keepsD [OF append_event_audited [OF assms(3)] assms(2) run] by blast
qed

lemma denied_outcome:
  assumes "deny_deletion ge i actor m reason s = (Inr out, s')" "audit_inv l0 (os_world s)" "fresh_events (ge_env ge)"
  shows "get_value out ''deleted'' = PBool False \<and> get_value out ''reason'' = PStr reason \<and> audit_inv l0 (os_world s')
    \<and> has_event (w_ledger (os_world s')) ''s3.delete.denied'' (Some (mf_manifest_id m))"
proof -
  obtain u where log: "log_deletion (ge_env ge) (delete_event m ''s3.delete.denied'' actor ''denied'' [(''reason'', PStr reason)]) s = (Inr u, s')"
    and out: "out = [(''deleted'', PBool False), (''manifest_id'', PStr i), (''reason'', PStr reason)]"
    using assms(1) unfolding deny_deletion_def effect_simps by blast
  from log_deletion_logged [OF log assms(2,3)] show ?thesis by (simp add: out get_value_def delete_event_def event_draft_def)
qed

lemma tombstoned_outcome:
  assumes "tombstone ge i actor m s = (Inr out, s')" "audit_inv l0 (os_world s)" "fresh_events (ge_env ge)"
    and "file_get (e_ctx (ge_env ge)) i (w_manifests (os_world s)) = Inr m" "os_inv (ge_env ge) U s"
  shows "get_value out ''deleted'' = PBool True \<and> audit_inv l0 (os_world s')
    \<and> has_event (w_ledger (os_world s')) ''s3.delete.tombstoned'' (Some (mf_manifest_id m))
    \<and> file_get (e_ctx (ge_env ge)) i (w_manifests (os_world s')) = Inr (filed_manifest (m\<lparr>mf_state := ''tombstoned''\<rparr>))"
proof -
  obtain s1 u where put: "in_world (put_manifest (ge_env ge) (m\<lparr>mf_state := ''tombstoned''\<rparr>)) s = (Inr (), s1)"
    and log: "log_deletion (ge_env ge) (delete_event m ''s3.delete.tombstoned'' actor ''tombstoned'' [(''raw_chunks_retained'', PBool True)]) s1
      = (Inr u, s')" and out: "out = [(''deleted'', PBool True), (''manifest_id'', PStr i), (''state'', PStr ''tombstoned''),
       (''raw_chunks_retained'', PBool True)]"
    using assms(1) unfolding tombstone_def thenS_Inr retS_eq by auto
  have run: "put_manifest (ge_env ge) (m\<lparr>mf_state := ''tombstoned''\<rparr>) (os_world s) = (Inr (), os_world s1)"
    using put by (auto simp: in_world_eq)
  have "audit_inv l0 (os_world s1)" by (rule keepsD [OF others_audited(6) assms(2) run])
  from log_deletion_logged [OF log this assms(3)] tombstone_put(4) [OF assms(4,5) put refl] log_deletion_frame [OF log]
  show ?thesis by (simp add: out get_value_def delete_event_def event_draft_def)
qed

text \<open>
  Deletion is decided by the legal hold and the caller's switch, and audited: with
  an intact ledger, a deletion that returns found a manifest of the caller's tenant; when it is
  on legal hold, or deletion was not allowed, the answer says so, no manifest changed and the
  denial is in the ledger; otherwise the manifest is tombstoned, its chunk references and all, and
  the ledger says that. The ledger's chain stays intact and only grows.
\<close>

theorem deletion_decided:
  assumes "delete_object ge t i actor allow s = (Inr out, s')" "os_inv (ge_env ge) U s"
    and "verify_chain (w_ledger (os_world s)) = Inr True" "fresh_events (ge_env ge)"
  shows "\<exists>m. file_get (e_ctx (ge_env ge)) i (w_manifests (os_world s)) = Inr m \<and> mf_tenant m = t \<and> mf_manifest_id m = i
    \<and> (if on_hold m \<or> \<not> allow
       then get_value out ''deleted'' = PBool False \<and> w_manifests (os_world s') = w_manifests (os_world s)
         \<and> has_event (w_ledger (os_world s')) ''s3.delete.denied'' (Some i)
       else get_value out ''deleted'' = PBool True
         \<and> file_get (e_ctx (ge_env ge)) i (w_manifests (os_world s')) = Inr (filed_manifest (m\<lparr>mf_state := ''tombstoned''\<rparr>))
         \<and> has_event (w_ledger (os_world s')) ''s3.delete.tombstoned'' (Some i))
    \<and> verify_chain (w_ledger (os_world s')) = Inr True \<and> prefix (w_ledger (os_world s)) (w_ledger (os_world s'))"
  using assms(1)
proof (cases rule: delete_cases)
  case (2 m)
  have I: "audit_inv (w_ledger (os_world s)) (os_world s)" using assms(3) by (simp add: audit_inv_def)
  have id: "mf_manifest_id m = i" using own_name [OF _ 2(1)] assms(2) by (simp add: os_inv_def)
  from denied_outcome [OF 2(4) I assms(4)] denial_keeps(2) [OF 2(4)] 2 id show ?thesis by (auto simp: audit_inv_def)
next
  case (3 m)
  have I: "audit_inv (w_ledger (os_world s)) (os_world s)" using assms(3) by (simp add: audit_inv_def)
  have id: "mf_manifest_id m = i" using own_name [OF _ 3(1)] assms(2) by (simp add: os_inv_def)
  from tombstoned_outcome [OF 3(5) I assms(4) 3(1) assms(2)] 3 id show ?thesis by (auto simp: audit_inv_def)
qed simp

subsection \<open>Multipart uploads\<close>

text \<open>
  The abstract upload: who owns it, where its object goes, and a finite map from part numbers to
  bytes. The concrete one is a meta file with sizes and digests, and one file per part.
\<close>

record upload_spec =
  us_tenant :: string
  us_target :: "string \<times> string \<times> string \<times> pydict \<times> pydict"
  us_parts :: "nat \<rightharpoonup> bytes"

definition part_map :: "upload \<Rightarrow> nat \<Rightarrow> bytes option" where
  "part_map u n = (case map_of (um_parts (up_meta u)) n of None \<Rightarrow> None | Some r \<Rightarrow> map_of (up_files u) (pr_file r))"

definition spec_of :: "upload \<Rightarrow> upload_spec" where
  "spec_of u = (let m = up_meta u in \<lparr>us_tenant = um_tenant m,
     us_target = (um_bucket m, um_key m, um_namespace m, um_metadata m, um_tags m), us_parts = part_map u\<rparr>)"

definition upload_specs :: "object_store \<Rightarrow> string \<rightharpoonup> upload_spec" where
  "upload_specs s = map_option spec_of \<circ> uploads s"

text \<open>The object of the abstract upload: its parts in the order of their numbers.\<close>

definition assembled :: "(nat \<rightharpoonup> bytes) \<Rightarrow> bytes" where
  "assembled parts = concat (map (the \<circ> parts) (sorted_list_of_set (dom parts)))"

text \<open>An upload at rest: open, and every recorded part is the file that the record describes.\<close>

definition sound_part :: "upload \<Rightarrow> nat \<times> part_record \<Rightarrow> bool" where
  "sound_part u nr = (pr_file (snd nr) = part_file (fst nr) \<and> (\<exists>b. map_of (up_files u) (part_file (fst nr)) = Some b
     \<and> pr_size (snd nr) = length b \<and> pr_sha256 (snd nr) = sha256_bytes b))"

definition sound_upload :: "upload \<Rightarrow> bool" where
  "sound_upload u = (um_status (up_meta u) = Open \<and> distinct (map fst (um_parts (up_meta u)))
     \<and> list_all (sound_part u) (um_parts (up_meta u)))"

definition sound_uploads :: "object_store \<Rightarrow> bool" where
  "sound_uploads s = (\<forall>i u. uploads s i = Some u \<longrightarrow> sound_upload u)"

lemma decimal_zeros: "decimal_value (replicate k (CHR ''0'') @ ds) = decimal_value ds"
proof -
  have "foldl (\<lambda>a c. 10 * a + (of_char c - 48)) 0 (replicate k (CHR ''0'')) = (0::nat)" by (induction k) auto
  then show ?thesis by (simp add: decimal_value_def)
qed

lemma part_file_inject [simp]: "part_file m = part_file n \<longleftrightarrow> m = n"
proof
  assume "part_file m = part_file n"
  then have "pad_zeros 8 (show_nat m) = pad_zeros 8 (show_nat n)" by (simp add: part_file_def)
  then have "decimal_value (pad_zeros 8 (show_nat m)) = decimal_value (pad_zeros 8 (show_nat n))" by simp
  then show "m = n" by (simp add: pad_zeros_def decimal_zeros decimal_value_show)
qed simp

lemma list_all_update:
  assumes "distinct (map fst xs)" "\<And>a b. (a, b) \<in> set xs \<Longrightarrow> a \<noteq> k \<Longrightarrow> P (a, b)" "P (k, v)"
  shows "list_all P (AList.update k v xs)"
  using assms(1,2)
proof (induction xs)
  case Nil
  then show ?case using assms(3) by simp
next
  case (Cons x xs)
  show ?case
  proof (cases "fst x = k")
    case True
    have "P (a, b)" if "(a, b) \<in> set xs" for a b
    proof (rule Cons.prems(2))
      show "(a, b) \<in> set (x # xs)" using that by simp
      have "a \<in> fst ` set xs" using that by (rule rev_image_eqI) simp
      moreover have "fst x \<notin> fst ` set xs" using Cons.prems(1) by simp
      ultimately show "a \<noteq> k" using True by metis
    qed
    then have "list_all P xs" by (auto simp: list_all_iff)
    then show ?thesis using True assms(3) by (cases x) simp
  next
    case False
    then have "P x" using Cons.prems(2) by (cases x) auto
    then show ?thesis using False Cons by (cases x) auto
  qed
qed

lemma sound_record:
  assumes "sound_upload u" "map_of (um_parts (up_meta u)) n = Some r"
  shows "sound_part u (n, r)"
  using assms by (auto simp: sound_upload_def list_all_iff dest!: map_of_SomeD)

lemma sound_dom: "sound_upload u \<Longrightarrow> dom (part_map u) = set (map fst (um_parts (up_meta u)))"
proof -
  assume u: "sound_upload u"
  have "(part_map u n \<noteq> None) = (map_of (um_parts (up_meta u)) n \<noteq> None)" for n
    using sound_record [OF u, of n] by (auto simp: part_map_def sound_part_def split: option.splits)
  then show ?thesis by (auto simp: dom_def map_of_eq_None_iff)
qed

text \<open>Receiving a part.\<close>

definition received :: "upload \<Rightarrow> nat \<Rightarrow> bytes \<Rightarrow> upload" where
  "received u n body = \<lparr>up_meta = (up_meta u)\<lparr>um_parts := AList.update n
     \<lparr>pr_sha256 = sha256_bytes body, pr_size = length body, pr_file = part_file n\<rparr> (um_parts (up_meta u))\<rparr>,
     up_files = AList.update (part_file n) body (up_files u)\<rparr>"

lemma received_sound:
  assumes u: "sound_upload u"
  shows "sound_upload (received u n body)" "part_map (received u n body) = (part_map u)(n \<mapsto> body)"
proof -
  have d: "distinct (map fst (um_parts (up_meta u)))" and all: "list_all (sound_part u) (um_parts (up_meta u))"
    using u by (simp_all add: sound_upload_def)
  have "sound_part (received u n body) (a, b)" if "(a, b) \<in> set (um_parts (up_meta u))" "a \<noteq> n" for a b
    using all that by (fastforce simp: list_all_iff sound_part_def received_def update_conv')
  then have "list_all (sound_part (received u n body)) (um_parts (up_meta (received u n body)))"
    by (simp add: received_def) (rule list_all_update [OF d], auto simp: sound_part_def received_def update_conv')
  then show "sound_upload (received u n body)"
    using u by (simp add: sound_upload_def received_def distinct_update)
  show "part_map (received u n body) = (part_map u)(n \<mapsto> body)"
  proof
    fix k
    show "part_map (received u n body) k = ((part_map u)(n \<mapsto> body)) k"
      using sound_record [OF u, of k] by (auto simp: part_map_def received_def update_conv' sound_part_def split: option.splits)
  qed
qed

text \<open>Joining the parts.\<close>

lemma joined_assembled:
  assumes u: "sound_upload u"
  shows "joined_parts u (up_meta u) = Inr (assembled (part_map u))"
proof -
  let ?ps = "um_parts (up_meta u)"
  have body: "part_body u nr = Inr (the (part_map u (fst nr)))" if "nr \<in> set (sort_key fst ?ps)" for nr
  proof -
    have "map_of ?ps (fst nr) = Some (snd nr)" "sound_part u nr"
      using that u by (auto simp: sound_upload_def list_all_iff)
    then show ?thesis by (auto simp: part_body_def part_map_def sound_part_def)
  qed
  have keys: "map fst (sort_key fst ?ps) = sorted_list_of_set (dom (part_map u))"
  proof (rule sorted_distinct_set_unique)
    show "distinct (map fst (sort_key fst ?ps))" using u by (simp add: sound_upload_def distinct_map)
    show "set (map fst (sort_key fst ?ps)) = set (sorted_list_of_set (dom (part_map u)))"
      unfolding sound_dom [OF u] by simp
  qed simp_all
  have "map (the \<circ> part_map u) (sorted_list_of_set (dom (part_map u))) = map (\<lambda>nr. the (part_map u (fst nr))) (sort_key fst ?ps)"
    unfolding keys [symmetric] by simp
  moreover have "seq_res (map (part_body u) (sort_key fst ?ps)) = Inr (map (\<lambda>nr. the (part_map u (fst nr))) (sort_key fst ?ps))"
    by (rule seq_res_map_Inr [OF body])
  ultimately show ?thesis by (simp add: joined_parts_def assembled_def)
qed

text \<open>What can happen to the uploads, and what it does to the abstract ones.\<close>

datatype upload_event =
    Quiet
  | Opened string string "string \<times> string \<times> string \<times> pydict \<times> pydict"
  | Received string nat bytes
  | Closed string

fun spec_effect :: "upload_event \<Rightarrow> (string \<rightharpoonup> upload_spec) \<Rightarrow> (string \<rightharpoonup> upload_spec)" where
  "spec_effect Quiet S = S"
| "spec_effect (Opened i t target) S = S(i \<mapsto> \<lparr>us_tenant = t, us_target = target, us_parts = Map.empty\<rparr>)"
| "spec_effect (Received i n body) S = S(i := map_option (\<lambda>u. u\<lparr>us_parts := (us_parts u)(n \<mapsto> body)\<rparr>) (S i))"
| "spec_effect (Closed i) S = S(i := None)"

text \<open>The steps of the adapter, every call and every outcome.\<close>

inductive os_step :: "gateway_env \<Rightarrow> upload_event \<Rightarrow> object_store \<Rightarrow> object_store \<Rightarrow> bool" for ge where
  Put: "put_object ge t bucket key body ns md tags s = (r, s') \<Longrightarrow> os_step ge Quiet s s'"
| Delete: "delete_object ge t i actor allow s = (r, s') \<Longrightarrow> os_step ge Quiet s s'"
| Create: "create_multipart_upload ge t bucket key ns md tags s = (Inr out, s') \<Longrightarrow> get_value out ''upload_id'' = PStr i
    \<Longrightarrow> os_step ge (Opened i t (bucket, key, ns, jfile_dict md, jfile_dict tags)) s s'"
| CreateFails: "create_multipart_upload ge t bucket key ns md tags s = (Inl e, s') \<Longrightarrow> os_step ge Quiet s s'"
| Part: "upload_part t i n body s = (Inr out, s') \<Longrightarrow> os_step ge (Received i (nat n) body) s s'"
| PartFails: "upload_part t i n body s = (Inl e, s') \<Longrightarrow> os_step ge Quiet s s'"
| Complete: "complete_multipart_upload ge t i s = (Inr out, s') \<Longrightarrow> os_step ge (Closed i) s s'"
| CompleteFails: "complete_multipart_upload ge t i s = (Inl e, s') \<Longrightarrow> os_step ge Quiet s s'"
| Abort: "abort_multipart_upload t i s = (Inr out, s') \<Longrightarrow> os_step ge (Closed i) s s'"
| AbortFails: "abort_multipart_upload t i s = (Inl e, s') \<Longrightarrow> os_step ge Quiet s s'"

inductive os_run :: "gateway_env \<Rightarrow> upload_event list \<Rightarrow> object_store \<Rightarrow> object_store \<Rightarrow> bool" for ge where
  Stop: "os_run ge [] s s"
| Step: "os_step ge e s s' \<Longrightarrow> os_run ge es s' s'' \<Longrightarrow> os_run ge (e # es) s s''"

inductive_cases os_stepE: "os_step ge e s s'"
inductive_cases os_runE: "os_run ge es s s'"

text \<open>Operations on the world leave the uploads alone.\<close>

lemma keeps_uploads [keeps_rules]:
  "keeps (\<lambda>s. os_uploads s = ups) (on_gateway m)" "keeps (\<lambda>s. os_uploads s = ups) (in_world m')"
  "keeps (\<lambda>s. os_uploads s = ups) (own_manifest en t i)" "keeps (\<lambda>s. os_uploads s = ups) (log_deletion en ev)"
  unfolding own_manifest_def log_deletion_def in_world_def on_gateway_def
  by (simp_all add: keeps_def zoom_def split: prod.splits)

lemma put_uploads [keeps_rules]: "keeps (\<lambda>s. os_uploads s = ups) (put_object ge t bucket key body ns md tags)"
  unfolding put_object_def by (intro keeps_rules)

lemma delete_uploads: "keeps (\<lambda>s. os_uploads s = ups) (delete_object ge t i actor allow)"
  unfolding delete_object_def deny_deletion_def tombstone_def by (intro keeps_rules)

lemma same_uploads: "keeps (\<lambda>s. os_uploads s = os_uploads s0) m \<Longrightarrow> m s0 = (r, s') \<Longrightarrow> os_uploads s' = os_uploads s0"
  by (force simp: keeps_def)

lemma specs_update: "upload_specs (s\<lparr>os_uploads := AList.update i u (os_uploads s)\<rparr>) = (upload_specs s)(i \<mapsto> spec_of u)"
  by (rule ext) (simp add: upload_specs_def uploads_def update_conv')

lemma specs_delete: "upload_specs (s\<lparr>os_uploads := AList.delete i (os_uploads s)\<rparr>) = (upload_specs s)(i := None)"
  by (rule ext) (simp add: upload_specs_def uploads_def delete_conv')

lemma sound_update: "sound_uploads s \<Longrightarrow> sound_upload u \<Longrightarrow> sound_uploads (s\<lparr>os_uploads := AList.update i u (os_uploads s)\<rparr>)"
  by (auto simp: sound_uploads_def uploads_def update_conv' split: if_splits)

lemma sound_delete: "sound_uploads s \<Longrightarrow> sound_uploads (s\<lparr>os_uploads := AList.delete i (os_uploads s)\<rparr>)"
  by (auto simp: sound_uploads_def uploads_def delete_conv' restrict_map_def split: if_splits)

lemma same_map: "uploads s' = uploads s \<Longrightarrow> upload_specs s' = upload_specs s \<and> sound_uploads s' = sound_uploads s"
  by (simp add: upload_specs_def sound_uploads_def)

lemma gateway_map [simp]: "uploads (s\<lparr>os_gateway := g\<rparr>) = uploads s"
  by (simp add: uploads_def)

lemma part_outcome:
  assumes "upload_part t i n body s = (res, s')"
  obtains e where "res = Inl e" "s' = s"
  | u out where "res = Inr out" "uploads s i = Some u" "um_tenant (up_meta u) = t" "um_status (up_meta u) = Open" "0 < n" "n \<le> 10000"
      "s' = s\<lparr>os_uploads := AList.update i (received u (nat n) body) (os_uploads s)\<rparr>"
proof (cases res)
  case (Inl e)
  then have "s' = s" using assms
    by (auto simp: upload_part_def Let_def thenS_def bindS_def liftR_def the_upload_def set_upload_def retS_def read_meta_def
        split: prod.splits sum.splits option.splits if_splits)
  then show thesis using that(1) Inl by blast
next
  case (Inr out)
  then show thesis using assms that(2)
    by (auto simp: upload_part_def Let_def effect_simps the_upload_def set_upload_def read_meta_def received_def
        split: prod.splits sum.splits option.splits if_splits)
qed

lemma create_outcome:
  assumes "create_multipart_upload ge t bucket key ns md tags s = (res, s')"
  obtains e where "res = Inl e" "uploads s' = uploads s"
  | i u out g where "res = Inr out" "get_value out ''upload_id'' = PStr i" "um_status (up_meta u) = Open" "um_parts (up_meta u) = []"
      "spec_of u = \<lparr>us_tenant = t, us_target = (bucket, key, ns, jfile_dict md, jfile_dict tags), us_parts = Map.empty\<rparr>"
      "s' = s\<lparr>os_gateway := g, os_uploads := AList.update i u (os_uploads s)\<rparr>" "\<exists>n. i = e_ids (ge_env ge) ''mpu'' n"
  using assms unfolding create_multipart_upload_def Let_def thenS_def
proof (cases rule: bindS_cases)
  case (2 x s1)
  then have s1: "s1 = s" by (simp add: effect_simps)
  show thesis using 2(2)
  proof (cases rule: bindS_cases)
    case (2 n s2)
    then have s2: "uploads s2 = uploads s" "s2 = s\<lparr>os_gateway := os_gateway s2\<rparr>" by (auto simp: effect_simps s1)
    show thesis using 2(2)
    proof (cases rule: bindS_cases)
      case (2 y s3)
      let ?i = "e_ids (ge_env ge) ''mpu'' n"
      let ?m = "\<lparr>um_tenant = t, um_bucket = bucket, um_key = key, um_namespace = ns, um_metadata = jfile_dict md,
        um_tags = jfile_dict tags, um_parts = [], um_status = Open\<rparr>"
      let ?u = "\<lparr>up_meta = ?m, up_files = (case uploads s2 ?i of None \<Rightarrow> [] | Some u \<Rightarrow> up_files u)\<rparr>"
      have "s3 = s2" using 2(1) by (simp add: effect_simps)
      then have out: "res = Inr [(''upload_id'', PStr ?i), (''bucket'', PStr bucket), (''key'', PStr key)]"
          "s' = s2\<lparr>os_uploads := AList.update ?i ?u (os_uploads s2)\<rparr>"
        using 2(2) by (simp_all add: open_upload_def thenS_def bindS_def set_upload_def retS_def)
      have "s' = s\<lparr>os_gateway := os_gateway s2, os_uploads := AList.update ?i ?u (os_uploads s)\<rparr>"
        unfolding out(2) by (subst s2(2), subst (3) s2(2)) simp
      then show thesis by (intro that(2) [OF out(1)]) (auto simp add: get_value_def spec_of_def part_map_def fun_eq_iff)
    qed (use that(1) s2 in \<open>auto simp: effect_simps\<close>)
  qed (auto simp: effect_simps)
qed (use that(1) in \<open>auto simp: effect_simps\<close>)

lemma remove_outcome:
  assumes "remove_multipart t i st s = (res, s')"
  obtains e where "res = Inl e" "s' = s"
  | u where "res = Inr ()" "s' = s\<lparr>os_uploads := AList.delete i (os_uploads s)\<rparr>" "uploads s i = Some u" "um_tenant (up_meta u) = t"
proof (cases res)
  case (Inl e)
  then have "s' = s" using assms
    by (auto simp: remove_multipart_def thenS_def bindS_def liftR_def the_upload_def drop_upload_def
        split: prod.splits sum.splits option.splits)
  then show thesis using that(1) Inl by blast
next
  case (Inr u)
  then show thesis using assms that(2)
    by (auto simp: remove_multipart_def effect_simps the_upload_def drop_upload_def read_meta_def split: option.splits if_splits)
qed

lemma abort_outcome:
  assumes "abort_multipart_upload t i s = (res, s')"
  obtains e where "res = Inl e" "s' = s"
  | out where "res = Inr out" "upload_specs s' = (upload_specs s)(i := None)" "sound_uploads s \<Longrightarrow> sound_uploads s'"
      "uploads s' = (uploads s)(i := None)" "\<And>u. uploads s i = Some u \<Longrightarrow> um_tenant (up_meta u) = t"
  using assms unfolding abort_multipart_upload_def thenS_def [of "bindS _ _"]
proof (cases rule: bindS_cases)
  case (1 e)
  then have "s' = s" by (auto simp: bindS_def liftR_def retS_def split: sum.splits)
  then show thesis using that(1) 1 by blast
next
  case (2 x s1)
  then have s1: "s1 = s" by (auto simp: effect_simps)
  show thesis
  proof (cases "uploads s i")
    case None
    then have *: "\<exists>out. res = Inr out" "s' = s" using 2(2) by (auto simp: s1 bindS_def thenS_def retS_def)
    moreover have "(upload_specs s)(i := None) = upload_specs s" "(uploads s)(i := None) = uploads s"
      using None by (auto simp: upload_specs_def)
    ultimately show thesis using that(2) None by auto
  next
    case (Some u)
    then have "thenS (remove_multipart t i Open) (retS [(''upload_id'', PStr i), (''aborted'', PBool True)]) s = (res, s')"
      using 2(2) by (simp add: s1 bindS_def)
    then show thesis unfolding thenS_def
    proof (cases rule: bindS_cases)
      case (1 e)
      show thesis by (rule remove_outcome [OF 1(1)]) (use that(1) 1 in auto)
    next
      case (2 v s2)
      show thesis by (rule remove_outcome [OF 2(1)])
        (use that(2) 2 specs_delete sound_delete in \<open>auto simp: effect_simps uploads_def delete_conv'\<close>)
    qed
  qed
qed

text \<open>Storing the object of a completing upload, with the upload reopened when that fails.\<close>

definition marked :: "string \<Rightarrow> upload \<Rightarrow> object_store \<Rightarrow> object_store" where
  "marked i u s = s\<lparr>os_uploads := AList.update i (u\<lparr>up_meta := (up_meta u)\<lparr>um_status := Completing\<rparr>\<rparr>) (os_uploads s)\<rparr>"

lemma reopened:
  assumes "uploads s i = Some u" "um_status (up_meta u) = Open" "os_uploads s1 = os_uploads (marked i u s)"
  shows "uploads (snd (set_status i Open s1)) = uploads s"
proof -
  let ?c = "u\<lparr>up_meta := (up_meta u)\<lparr>um_status := Completing\<rparr>\<rparr>"
  have "uploads s1 i = Some ?c" using assms(3) by (simp add: uploads_def marked_def update_conv')
  moreover have "?c\<lparr>up_meta := (up_meta ?c)\<lparr>um_status := Open\<rparr>\<rparr> = u" using assms(2) by simp
  ultimately have "snd (set_status i Open s1) = s1\<lparr>os_uploads := AList.update i u (os_uploads s1)\<rparr>"
    by (simp add: set_status_def set_upload_def del: upload.surjective)
  then show ?thesis using assms(1,3) by (auto simp: uploads_def marked_def update_conv' fun_eq_iff)
qed

lemma set_marked: "uploads s i = Some u \<Longrightarrow> set_status i Completing s = (Inr (), marked i u s)"
  by (simp add: set_status_def set_upload_def marked_def)

text \<open>The put of a completing upload, and what follows when it succeeds.\<close>

abbreviation put_upload :: "gateway_env \<Rightarrow> string \<Rightarrow> upload_meta \<Rightarrow> bytes \<Rightarrow> pydict oio" where
  "put_upload ge t m body \<equiv> put_object ge t (um_bucket m) (um_key m) body (um_namespace m) (um_metadata m) (um_tags m)"

lemma finish_stores:
  assumes u: "uploads s i = Some u" "um_tenant (up_meta u) = t"
    and put: "put_upload ge t (up_meta u) body (marked i u s) = (Inr r, s1)"
  shows "finish_upload ge t i (up_meta u) body s
     = (Inr (dset ''parts'' (PInt (int (length (um_parts (up_meta u))))) (dset ''upload_id'' (PStr i) r)),
        s1\<lparr>os_uploads := AList.delete i (os_uploads s1)\<rparr>)"
proof -
  have ups: "os_uploads s1 = os_uploads (marked i u s)" by (rule same_uploads [OF put_uploads put])
  have there: "uploads s1 i = Some (u\<lparr>up_meta := (up_meta u)\<lparr>um_status := Completing\<rparr>\<rparr>)"
    using ups by (simp add: uploads_def marked_def update_conv')
  have removed: "remove_multipart t i Completing s1 = (Inr (), s1\<lparr>os_uploads := AList.delete i (os_uploads s1)\<rparr>)"
    by (simp add: remove_multipart_def bindS_def thenS_def liftR_def the_upload_def there read_meta_def u(2) drop_upload_def)
  have "on_failure (set_status i Open) (put_upload ge t (up_meta u) body) (marked i u s) = (Inr r, s1)"
    by (simp add: on_failure_def put)
  then show ?thesis by (simp add: finish_upload_def thenS_def set_marked [OF u(1)] removed retS_def)
qed

lemma finish_outcome:
  assumes run: "finish_upload ge t i (up_meta u) body s = (res, s')"
    and u: "uploads s i = Some u" "um_tenant (up_meta u) = t" "um_status (up_meta u) = Open"
  obtains e where "res = Inl e" "uploads s' = uploads s"
  | r s1 where "put_upload ge t (up_meta u) body (marked i u s) = (Inr r, s1)"
      "os_uploads s1 = os_uploads (marked i u s)" "s' = s1\<lparr>os_uploads := AList.delete i (os_uploads s1)\<rparr>"
      "res = Inr (dset ''parts'' (PInt (int (length (um_parts (up_meta u))))) (dset ''upload_id'' (PStr i) r))"
proof -
  obtain r s1 where put: "put_upload ge t (up_meta u) body (marked i u s) = (r, s1)" by fastforce
  have ups: "os_uploads s1 = os_uploads (marked i u s)" by (rule same_uploads [OF put_uploads put])
  show thesis
  proof (cases r)
    case (Inl e)
    have "on_failure (set_status i Open) (put_upload ge t (up_meta u) body) (marked i u s) = (Inl e, snd (set_status i Open s1))"
      by (simp add: on_failure_def put Inl)
    then have "res = Inl e" "s' = snd (set_status i Open s1)"
      using run by (simp_all add: finish_upload_def thenS_def [of "set_status i Completing"] set_marked [OF u(1)])
    then show thesis using that(1) reopened [OF u(1,3) ups] by simp
  next
    case (Inr x)
    from finish_stores [OF u(1,2) put [unfolded Inr]] run show thesis using that(2) put Inr ups by auto
  qed
qed

text \<open>The checks of a completion: a known upload of the caller, at rest, with parts.\<close>

lemma complete_checks:
  assumes "uploads s i = Some u" "um_tenant (up_meta u) = t" "um_parts (up_meta u) \<noteq> []" "multipart_dir i = Inr d" "sound_upload u"
  shows "complete_multipart_upload ge t i s = finish_upload ge t i (up_meta u) (assembled (part_map u)) s"
proof -
  have "um_status (up_meta u) = Open" using assms(5) by (simp add: sound_upload_def)
  then show ?thesis
    using assms by (simp add: complete_multipart_upload_def bindS_def liftR_def the_upload_def read_meta_def joined_assembled)
qed

lemma complete_outcome:
  assumes run: "complete_multipart_upload ge t i s = (res, s')" and sound: "sound_uploads s"
  obtains e where "res = Inl e" "uploads s' = uploads s"
  | u r s1 where "uploads s i = Some u" "um_tenant (up_meta u) = t" "um_parts (up_meta u) \<noteq> []"
      "put_upload ge t (up_meta u) (assembled (part_map u)) (marked i u s) = (Inr r, s1)"
      "os_uploads s1 = os_uploads (marked i u s)" "s' = s1\<lparr>os_uploads := AList.delete i (os_uploads s1)\<rparr>"
      "res = Inr (dset ''parts'' (PInt (int (length (um_parts (up_meta u))))) (dset ''upload_id'' (PStr i) r))"
proof (cases "\<exists>u. uploads s i = Some u \<and> um_tenant (up_meta u) = t \<and> um_parts (up_meta u) \<noteq> [] \<and> \<not> isl (multipart_dir i)")
  case True
  then obtain u d where u: "uploads s i = Some u" "um_tenant (up_meta u) = t" "um_parts (up_meta u) \<noteq> []" "multipart_dir i = Inr d"
    by (auto simp: isl_def) (metis sum.exhaust)
  have su: "sound_upload u" using sound u(1) by (simp add: sound_uploads_def)
  then have st: "um_status (up_meta u) = Open" by (simp add: sound_upload_def)
  have run': "finish_upload ge t i (up_meta u) (assembled (part_map u)) s = (res, s')"
    using run complete_checks [OF u su] by simp
  show thesis by (rule finish_outcome [OF run' u(1,2) st]) (use that u(1-3) in blast)+
next
  case False
  have "\<exists>e. res = Inl e" "s' = s"
    using run False by (auto simp: complete_multipart_upload_def bindS_def liftR_def the_upload_def read_meta_def guardR_def
        split: sum.splits option.splits if_splits)
  then show thesis using that(1) by blast
qed

subsection \<open>Uploads refine finite maps\<close>

lemma closed_specs:
  assumes "os_uploads s1 = os_uploads (marked i u s)"
  shows "upload_specs (s1\<lparr>os_uploads := AList.delete i (os_uploads s1)\<rparr>) = (upload_specs s)(i := None)"
    "sound_uploads s \<Longrightarrow> sound_uploads (s1\<lparr>os_uploads := AList.delete i (os_uploads s1)\<rparr>)"
proof -
  have eq: "uploads (s1\<lparr>os_uploads := AList.delete i (os_uploads s1)\<rparr>) = (uploads s)(i := None)"
    by (rule ext) (simp add: uploads_def assms marked_def delete_conv' update_conv')
  show "upload_specs (s1\<lparr>os_uploads := AList.delete i (os_uploads s1)\<rparr>) = (upload_specs s)(i := None)"
    unfolding upload_specs_def eq by (rule ext) simp
  show "sound_uploads (s1\<lparr>os_uploads := AList.delete i (os_uploads s1)\<rparr>)" if "sound_uploads s"
    using that unfolding sound_uploads_def eq by simp
qed

lemma step_refines:
  assumes "os_step ge e s s'" "sound_uploads s"
  shows "sound_uploads s' \<and> upload_specs s' = spec_effect e (upload_specs s)"
  using assms
proof (cases rule: os_step.cases)
  case (Put t bucket key body ns md tags r)
  have "os_uploads s' = os_uploads s" by (rule same_uploads [OF put_uploads Put(2)])
  then have "uploads s' = uploads s" by (simp add: uploads_def)
  from same_map [OF this] show ?thesis using assms(2) Put(1) by simp
next
  case (Delete t i actor allow r)
  have "os_uploads s' = os_uploads s" by (rule same_uploads [OF delete_uploads Delete(2)])
  then have "uploads s' = uploads s" by (simp add: uploads_def)
  from same_map [OF this] show ?thesis using assms(2) Delete(1) by simp
next
  case (Create t bucket key ns md tags out i)
  from Create(2) show ?thesis
  proof (cases rule: create_outcome)
    case (2 j u out' g)
    have ij: "j = i" using 2(1,2) Create(3) by simp
    let ?s = "s\<lparr>os_gateway := g\<rparr>"
    have s': "s' = ?s\<lparr>os_uploads := AList.update i u (os_uploads ?s)\<rparr>" using 2(6) ij by simp
    have base: "upload_specs ?s = upload_specs s" "sound_uploads ?s" using same_map [of ?s s] assms(2) by simp_all
    have "sound_upload u" using 2(3,4) by (simp add: sound_upload_def)
    then show ?thesis unfolding s' using sound_update [OF base(2)] specs_update [where s = ?s] base(1) by (simp add: Create(1) 2(5))
  qed simp
next
  case (CreateFails t bucket key ns md tags x)
  from CreateFails(2) have "uploads s' = uploads s" by (cases rule: create_outcome) simp_all
  from same_map [OF this] show ?thesis using assms(2) CreateFails(1) by simp
next
  case (Part t i n body out)
  from Part(2) show ?thesis
  proof (cases rule: part_outcome)
    case (2 u out')
    have u: "sound_upload u" using assms(2) 2(2) by (simp add: sound_uploads_def)
    note rec = received_sound [OF u]
    have "spec_of (received u (nat n) body) = (spec_of u)\<lparr>us_parts := (part_map u)(nat n \<mapsto> body)\<rparr>"
      by (simp add: spec_of_def rec(2) Let_def) (simp add: received_def)
    moreover have "upload_specs s i = Some (spec_of u)" by (simp add: upload_specs_def 2(2))
    ultimately show ?thesis unfolding 2(7) specs_update Part(1) using sound_update [OF assms(2) rec(1)]
      by (simp add: spec_of_def Let_def)
  qed simp
next
  case (PartFails t i n body x)
  from PartFails(2) have "s' = s" by (cases rule: part_outcome) simp_all
  then show ?thesis using assms(2) PartFails(1) by simp
next
  case (Complete t i out)
  from Complete(2) assms(2) show ?thesis
  proof (cases rule: complete_outcome)
    case (2 u r s1)
    then show ?thesis using closed_specs [OF 2(5)] assms(2) Complete(1) by simp
  qed simp
next
  case (CompleteFails t i x)
  from CompleteFails(2) assms(2) have "uploads s' = uploads s" by (cases rule: complete_outcome) simp_all
  from same_map [OF this] show ?thesis using assms(2) CompleteFails(1) by simp
next
  case (Abort t i out)
  from Abort(2) show ?thesis by (cases rule: abort_outcome) (use assms(2) Abort(1) in simp_all)
next
  case (AbortFails t i x)
  from AbortFails(2) have "s' = s" by (cases rule: abort_outcome) simp_all
  then show ?thesis using assms(2) AbortFails(1) by simp
qed

lemma run_refines:
  assumes "os_run ge es s s'" "sound_uploads s"
  shows "sound_uploads s' \<and> upload_specs s' = fold spec_effect es (upload_specs s)"
  using assms
proof (induction rule: os_run.induct)
  case (Step e s s' es s'')
  from step_refines [OF Step(1,4)] Step(3) show ?case by simp
qed simp

text \<open>
  C6 (refinement). Multipart uploads are finite maps: over any sequence of calls of the adapter,
  by any tenants and with any outcomes, starting from uploads at rest, each upload is the map from
  part numbers to bytes that the successful calls made (a part written twice is the later one, a
  completed or aborted upload is gone, a failed call changes no upload), and all uploads are at
  rest again: none is left completing, and every part on disk has the recorded size and digest.
\<close>

theorem multipart_refines:
  assumes "os_run ge es s s'" "sound_uploads s"
  shows "upload_specs s' = fold spec_effect es (upload_specs s) \<and> sound_uploads s'"
  using run_refines [OF assms] by blast

text \<open>
  C15 (functional). A completed upload is the object of its parts: after any sequence of calls, a
  completion that succeeds leaves an object whose bytes are the parts of the upload in ascending
  order of their numbers, whatever the order they were sent in; it is read back byte for byte, the
  answer counts the parts, and the upload is gone.
\<close>

theorem completed_upload_is_object:
  assumes "os_run ge es s0 s" "sound_uploads s0" "os_inv (ge_env ge) U s"
    and "fold spec_effect es (upload_specs s0) i = Some sp" "us_target sp = (bucket, key, ns, md, tags)"
    and "covers U t ns (assembled (us_parts sp))"
    and "complete_multipart_upload ge t i s = (Inr out, s')"
  shows "\<exists>j. get_value out ''manifest_id'' = PStr j \<and> get_object ge t j s' = (Inr (assembled (us_parts sp)), s')
    \<and> get_value out ''parts'' = PInt (int (card (dom (us_parts sp)))) \<and> upload_specs s' i = None"
proof -
  have sound: "sound_uploads s" and specs: "upload_specs s i = Some sp" using run_refines [OF assms(1,2)] assms(4) by simp_all
  from assms(7) sound show ?thesis
  proof (cases rule: complete_outcome)
    case (2 u r s1)
    have sp: "sp = spec_of u" using specs 2(1) by (simp add: upload_specs_def)
    have u: "sound_upload u" using sound 2(1) by (simp add: sound_uploads_def)
    have parts: "us_parts sp = part_map u" "bucket = um_bucket (up_meta u)" "ns = um_namespace (up_meta u)"
      using assms(5) by (simp_all add: sp spec_of_def Let_def)
    have inv: "os_inv (ge_env ge) U (marked i u s)" using assms(3) by (simp add: os_inv_def marked_def)
    have card: "length (um_parts (up_meta u)) = card (dom (us_parts sp))"
      unfolding parts(1) sound_dom [OF u] using u distinct_card [of "map fst (um_parts (up_meta u))"] by (simp add: sound_upload_def)
    obtain j m where j: "get_value r ''manifest_id'' = PStr j"
        "holds_object (ge_env ge) U t j (assembled (part_map u)) s1" "os_inv (ge_env ge) U s1"
      by (rule put_holds [OF 2(4) inv]) (use assms(6) parts in auto)
    have "os_inv (ge_env ge) U s'" "holds_object (ge_env ge) U t j (assembled (part_map u)) s'"
      using j(2,3) by (simp_all add: 2(6) os_inv_def holds_object_def)
    from get_held [OF this] have "get_object ge t j s' = (Inr (assembled (us_parts sp)), s')" by (simp add: parts)
    moreover have "upload_specs s' i = None" using closed_specs(1) [OF 2(5)] by (simp add: 2(6))
    moreover have "get_value out ''manifest_id'' = PStr j" "get_value out ''parts'' = PInt (int (card (dom (us_parts sp))))"
      using 2(7) j(1) card by (simp_all add: get_value_def)
    ultimately show ?thesis by blast
  qed simp
qed

subsection \<open>Legal hold and tenants\<close>

lemma object_hold:
  assumes "made_by (object_unit en n t bucket key body ns md tags) mode m"
  shows "lineage_get m ''policy_context'' ''legal_hold'' PNone = Inr (if truthy_tag (get_value tags ''legal_hold'') then PBool True else PNone)"
proof -
  let ?ctx = "(''tags'', PDict tags) # (if truthy_tag (get_value tags ''legal_hold'') then [(''legal_hold'', PBool True)] else [])"
  have "mf_lineage m = jfile_dict [(''work_unit_metadata'', PDict (wu_metadata (object_unit en n t bucket key body ns md tags))),
      (''policy_context'', PDict ?ctx)]"
    using assms by (simp add: made_by_def) (simp add: object_unit_def)
  then have "get_default (mf_lineage m) ''policy_context'' (PDict []) = PDict (jfile_dict ?ctx)"
    by (simp add: get_default_def jfile_PDict del: jfile.simps(4))
  then show ?thesis by (simp add: lineage_get_def get_from_def get_default_def)
qed

lemma object_on_hold:
  "made_by (object_unit en n t bucket key body ns md tags) mode m \<Longrightarrow> truthy_tag (get_value tags ''legal_hold'') \<Longrightarrow> on_hold m"
  by (simp add: on_hold_def object_hold)

lemma delete_spares:
  assumes "os_inv (ge_env ge) U s" "delete_object ge t j actor allow s = (r, s')"
    and m: "file_get (e_ctx (ge_env ge)) i (w_manifests (os_world s)) = Inr m" and "j \<noteq> i \<or> on_hold m"
  shows "file_get (e_ctx (ge_env ge)) i (w_manifests (os_world s')) = Inr m"
  using assms(2)
proof (cases rule: delete_cases)
  case (2 x)
  then show ?thesis using m denial_keeps(2) [OF 2(4)] by simp
next
  case (3 x)
  obtain p s1 where run: "in_world (put_manifest (ge_env ge) (x\<lparr>mf_state := ''tombstoned''\<rparr>)) s = (p, s1)"
    and frame: "w_manifests (os_world s') = w_manifests (os_world s1)"
    by (rule tombstone_steps [OF 3(5)])
  have "i \<noteq> j" using assms(4) 3(1,3) m by auto
  from tombstone_put(5) [OF 3(1) assms(1) run this, of "e_ctx (ge_env ge)" m] m show ?thesis by (simp add: frame)
qed (use m in simp)

text \<open>A sequence of deletions: by whom, of what, as which actor, allowed or not.\<close>

fun after_deletions :: "gateway_env \<Rightarrow> (string \<times> string \<times> string \<times> bool) list \<Rightarrow> object_store \<Rightarrow> object_store" where
  "after_deletions ge [] s = s"
| "after_deletions ge ((t, j, actor, allow) # ds) s = after_deletions ge ds (snd (delete_object ge t j actor allow s))"

lemma deletions_spare:
  assumes "os_inv (ge_env ge) U s" "holds_object (ge_env ge) U t i b s"
    "file_get (e_ctx (ge_env ge)) i (w_manifests (os_world s)) = Inr m" "on_hold m"
  shows "os_inv (ge_env ge) U (after_deletions ge ds s) \<and> holds_object (ge_env ge) U t i b (after_deletions ge ds s)
    \<and> file_get (e_ctx (ge_env ge)) i (w_manifests (os_world (after_deletions ge ds s))) = Inr m"
  using assms
proof (induction ds arbitrary: s)
  case (Cons d ds)
  obtain t' j actor allow where d: "d = (t', j, actor, allow)" by (cases d)
  obtain r s1 where run: "delete_object ge t' j actor allow s = (r, s1)" by fastforce
  have "file_get (e_ctx (ge_env ge)) i (w_manifests (os_world s1)) = Inr m"
    by (rule delete_spares [OF Cons.prems(1) run Cons.prems(3)]) (simp add: Cons.prems(4))
  from Cons.IH [OF delete_keeps(1) [OF Cons.prems(1) run] delete_keeps(2) [OF Cons.prems(1) run Cons.prems(2)] this Cons.prems(4)]
  show ?case by (simp add: d run)
qed simp

text \<open>
  C8 (safety). A legal hold protects: an object that was put with a true \<open>legal_hold\<close> tag is never
  tombstoned and is read back byte for byte, whatever deletions of whatever objects are tried
  afterwards, by any tenants and actors, with deletion allowed or not.
\<close>

theorem hold_protects:
  assumes "put_object ge t bucket key body ns md tags s = (Inr out, s1)" "truthy_tag (get_value tags ''legal_hold'')"
    and "os_inv (ge_env ge) U s" "covers U t ns body" "get_value out ''manifest_id'' = PStr i"
  shows "get_object ge t i (after_deletions ge ds s1) = (Inr body, after_deletions ge ds s1)
    \<and> (\<exists>m. file_get (e_ctx (ge_env ge)) i (w_manifests (os_world (after_deletions ge ds s1))) = Inr m \<and> mf_state m = ''active'')"
proof -
  obtain j m where j: "get_value out ''manifest_id'' = PStr j" "holds_object (ge_env ge) U t j body s1" "os_inv (ge_env ge) U s1"
      "file_get (e_ctx (ge_env ge)) j (w_manifests (os_world s1)) = Inr m"
      "made_by (object_unit (ge_env ge) (w_drawn (os_world s)) t bucket key body ns md tags) ''enforce'' m"
    by (rule put_holds [OF assms(1,3,4)])
  have "j = i" using j(1) assms(5) by simp
  moreover have "mf_state m = ''active''" using j(5) by (simp add: made_by_def)
  ultimately show ?thesis using deletions_spare [OF j(3,2,4) object_on_hold [OF j(5) assms(2)], of ds] get_held by blast
qed

text \<open>
  Tenants are apart: a caller gets, heads, ranges over and deletes no object of
  another tenant, and adds no part to, completes and aborts no upload of another tenant; each such
  call raises and changes nothing.
\<close>

theorem adapter_isolation:
  assumes "\<And>m. file_get (e_ctx (ge_env ge)) i (w_manifests (os_world s)) = Inr m \<Longrightarrow> mf_tenant m \<noteq> t"
    and "uploads s k = Some u" "um_tenant (up_meta u) \<noteq> t"
  shows "(\<exists>e. get_object ge t i s = (Inl e, s)) \<and> (\<exists>e. range_read ge t i a b s = (Inl e, s))
    \<and> (\<exists>e. head_object ge t i s = (Inl e, s)) \<and> (\<exists>e. delete_object ge t i actor allow s = (Inl e, s))
    \<and> (\<exists>e. upload_part t k n body s = (Inl e, s)) \<and> (\<exists>e. complete_multipart_upload ge t k s = (Inl e, s))
    \<and> (\<exists>e. abort_multipart_upload t k s = (Inl e, s))"
proof -
  have "\<exists>e. file_get_for_tenant (e_ctx (ge_env ge)) i t (w_manifests (os_world s)) = Inl e"
    using assms(1) by (cases "file_get_for_tenant (e_ctx (ge_env ge)) i t (w_manifests (os_world s))") (auto simp: effect_simps)
  then obtain e where own: "own_manifest (ge_env ge) t i s = (Inl e, s)" by (auto simp: effect_simps)
  have objects: "get_object ge t i s = (Inl e, s)" "range_read ge t i a b s = (Inl e, s)" "head_object ge t i s = (Inl e, s)"
      "delete_object ge t i actor allow s = (Inl e, s)"
    by (simp_all add: get_object_def range_read_def head_object_def delete_object_def thenS_def own)
  have there: "the_upload k s = (Inr u, s)" and meta: "\<exists>e. read_meta t u = Inl e"
    using assms(2,3) by (simp_all add: the_upload_def read_meta_def)
  obtain r s' where part: "upload_part t k n body s = (r, s')" by fastforce
  then have "\<exists>e. upload_part t k n body s = (Inl e, s)" by (cases rule: part_outcome) (use part assms(2,3) in auto)
  moreover have "\<exists>e. complete_multipart_upload ge t k s = (Inl e, s)"
    using meta by (auto simp: complete_multipart_upload_def bindS_def liftR_def there split: sum.split)
  moreover have "\<exists>e. abort_multipart_upload t k s = (Inl e, s)"
    using meta assms(2) by (auto simp: abort_multipart_upload_def remove_multipart_def thenS_def bindS_def liftR_def there retS_def split: sum.split)
  ultimately show ?thesis using objects by blast
qed

end
