(* ===== verification/ObjectRuns.thy ===== *)
theory ObjectRuns
  imports ObjectLaws
begin

text \<open>
  Puts return: in an open environment without a policy bundle every object can be stored, with or
  without a legal hold. The samples at the end run the adapter on small objects and uploads.
\<close>

definition object_decision :: "pydict \<Rightarrow> policy_decision" where
  "object_decision tags = (if truthy_tag (get_value tags ''legal_hold'') then legal_hold_decision else global_default_decision EXACT_BYTES)"

lemma object_decided: "evaluate_policy (object_unit en n t bucket key body ns md tags) [] = Inr (object_decision tags)"
  by (simp add: evaluate_policy_def evaluate_bundle_def legal_hold_def requested_contract_def object_unit_def object_decision_def
      ai_kind_def text_kind_def)

lemma object_planned: "\<exists>p. plan_work_unit (object_unit en n t bucket key body ns md tags) ''enforce'' [] (Some (object_decision tags)) = Inr p"
  by (rule supported_plan; cases "truthy_tag (get_value tags ''legal_hold'')")
    (simp_all add: modes_def framework_def object_decision_def legal_hold_decision_def global_default_decision_def simple_decision_def
      kind_contracts_def compute_kind_def exact_contracts_def)

lemma object_needs: "\<not> pd_require_approval (object_decision tags)"
    "set (pd_required (object_decision tags)) \<subseteq> {''sha256_restore'', ''sha256_restore@0''}"
  by (simp_all add: object_decision_def legal_hold_decision_def global_default_decision_def simple_decision_def)

lemma object_wants: "wanted_bundle (object_unit en n t bucket key body ns md tags) = None"
  by (simp add: wanted_bundle_def object_unit_def get_value_def)

text \<open>Where an execution may go ahead: open, enabled, and no policy bundle published.\<close>

definition plain_gateway :: "gateway_env \<Rightarrow> string \<Rightarrow> gateway \<Rightarrow> bool" where
  "plain_gateway ge t g = (open_env (ge_env ge) t \<and> readable (gw_world g) \<and> (\<forall>i. require_execution_enabled (ge_env ge) i = Inr ())
     \<and> resolve_active_policy_bundle (e_vars (ge_env ge) ''URP_ACTIVE_POLICY'') None (w_policies (gw_world g)) = Inr None)"

abbreviation plain_store :: "gateway_env \<Rightarrow> string \<Rightarrow> object_store \<Rightarrow> bool" where
  "plain_store ge t s \<equiv> plain_gateway ge t (os_gateway s)"

lemma plain_drawn [simp]: "plain_gateway ge t (g\<lparr>gw_world := (gw_world g)\<lparr>w_drawn := n\<rparr>\<rparr>) = plain_gateway ge t g"
  by (simp add: plain_gateway_def readable_def w_ledger_def)

lemma unit_executes:
  assumes plain: "plain_gateway ge (wu_tenant wu) g" and inv: "store_inv (e_zip (ge_env ge)) U (w_chunks (gw_world g))"
    and kind: "wu_kind wu \<noteq> PROMPT_REQUEST" "wanted_bundle wu = None"
    and mode: "execution_mode (ge_env ge) mode = Inr md" "payload_to_bytes (wu_payload wu) = Inr data"
      "covers U (wu_tenant wu) (storage_namespace wu md) data"
    and needs: "evaluate_policy wu [] = Inr d" "plan_work_unit wu md [] (Some d) = Inr p" "\<not> pd_require_approval d"
      "set (pd_required d) \<subseteq> {''sha256_restore'', ''sha256_restore@0''}"
  obtains r w adapter where "execute_work_unit ge wu mode g = (Inr r, g\<lparr>gw_world := w\<rparr>)"
    "execute_exact_object (ge_env ge) wu (Some md) [] adapter (gw_world g) = (Inr r, w)"
proof -
  let ?en = "ge_env ge"
  define adapter where "adapter = (if exact_kind (wu_kind wu) then None else Some (let a = get_value (wu_metadata wu) ''adapter''
       in if truthy a then py_str a else ''local_mock''))"
  have "open_env ?en (wu_tenant wu)" "readable (gw_world g)" using plain by (simp_all add: plain_gateway_def)
  note ok = execution_ok [OF this inv mode_again [OF mode(1)] mode(2,3) needs]
  obtain r w where ex: "execute_exact_object ?en wu (Some md) [] adapter (gw_world g) = (Inr r, w)" using ok by blast
  have schema: "e_schemas ?en n x = Inr ()" for n x using plain by (simp add: plain_gateway_def open_env_def)
  have enabled: "require_execution_enabled ?en i = Inr ()" for i using plain by (simp add: plain_gateway_def)
  have none: "resolve_active_policy_bundle (e_vars ?en ''URP_ACTIVE_POLICY'') None (w_policies (gw_world g)) = Inr None"
    using plain by (simp add: plain_gateway_def)
  have "execute_work_unit ge wu mode g = (Inr r, g\<lparr>gw_world := w\<rparr>)"
    using ex kind(1) by (simp add: execute_work_unit_def Let_def thenS_def bindS_def liftR_def mode(1) enabled schema kind(2)
        on_world_def zoom_def inspect_def none execute_mock_adapter_def adapter_def split: if_splits)
  then show thesis using ex that by blast
qed

lemma put_ok:
  assumes "plain_store ge t s" "os_inv (ge_env ge) U s" "covers U t ns body"
  shows "\<exists>out s'. put_object ge t bucket key body ns md tags s = (Inr out, s')"
proof -
  let ?en = "ge_env ge" and ?g = "(os_gateway s)\<lparr>gw_world := (os_world s)\<lparr>w_drawn := Suc (w_drawn (os_world s))\<rparr>\<rparr>"
  let ?u = "object_unit ?en (w_drawn (os_world s)) t bucket key body ns md tags"
  obtain p where p: "plan_work_unit ?u ''enforce'' [] (Some (object_decision tags)) = Inr p" using object_planned by blast
  obtain r w adapter where unit: "execute_work_unit ge ?u (Some ''enforce'') ?g = (Inr r, ?g\<lparr>gw_world := w\<rparr>)"
    and ex: "execute_exact_object ?en ?u (Some ''enforce'') [] adapter (gw_world ?g) = (Inr r, w)"
    by (rule unit_executes [OF _ _ _ object_wants enforce_mode _ _ object_decided p object_needs, of ge ?g U body])
      (use assms in \<open>simp_all add: os_inv_def\<close>)
  have "er_output r = PDict [(''sha256'', PStr (sha256_bytes body))]"
    by (rule execution_files(2) [OF ex enforce_mode]) simp_all
  then have etag: "at_key (er_output r) ''sha256'' = Inr (PStr (sha256_bytes body))" by (simp add: item_def)
  have draw: "in_world draw s = (Inr (w_drawn (os_world s)), s\<lparr>os_gateway := ?g\<rparr>)"
    by (simp add: effect_simps)
  have run: "on_gateway (execute_work_unit ge ?u (Some ''enforce'')) (s\<lparr>os_gateway := ?g\<rparr>) = (Inr r, s\<lparr>os_gateway := ?g\<lparr>gw_world := w\<rparr>\<rparr>)"
    unfolding on_gateway_eq using unit by auto
  show ?thesis unfolding put_object_def by (simp add: draw run etag liftR_def retS_def bindS_def)
qed

text \<open>
  Puts return: in an open environment with execution enabled and no policy bundle
  published, on a readable ledger and a store that satisfies its invariant, putting an object
  succeeds, whatever its names, metadata and tags, a legal hold included.
\<close>

theorem put_returns:
  assumes "plain_store ge t s" "os_inv (ge_env ge) U s" "covers U t ns body"
  shows "\<exists>out s'. put_object ge t bucket key body ns md tags s = (Inr out, s')"
  by (rule put_ok [OF assms])

subsection \<open>Samples\<close>

definition no_objects :: object_store where
  "no_objects = \<lparr>os_gateway = first_gateway, os_uploads = []\<rparr>"

lemma first_objects: "os_inv (ge_env mock_gateway) (small_items ''s3'') no_objects" "sound_uploads no_objects"
    "plain_store mock_gateway ''acme'' no_objects" "covers (small_items ''s3'') ''acme'' ''s3'' [5]"
proof -
  have "store_inv (e_zip sample_env) (small_items ''s3'') (w_chunks empty_world)" by (rule small_store) (simp add: NUL_def)
  then show "os_inv (ge_env mock_gateway) (small_items ''s3'') no_objects"
    by (simp add: os_inv_def no_objects_def mock_gateway_def first_gateway_def own_names_def file_view_def)
       (simp add: empty_world_def row_view_def)
  show "sound_uploads no_objects" by (simp add: sound_uploads_def uploads_def no_objects_def)
  show "covers (small_items ''s3'') ''acme'' ''s3'' [5]" by (rule small_covers)
  have enabled: "require_execution_enabled sample_env i = Inr ()" for i
    by (simp add: require_execution_enabled_def sample_env_def) code_simp
  have none: "resolve_active_policy_bundle None None no_policies = Inr None" by code_simp
  show "plain_store mock_gateway ''acme'' no_objects"
    using empty_readable(1) enabled none mock_open
    by (simp add: plain_gateway_def no_objects_def first_gateway_def mock_gateway_def) (simp add: sample_env_def empty_world_def)
qed

lemma small_put:
  obtains out s1 where "put_object mock_gateway ''acme'' b k [5] ''s3'' md tags no_objects = (Inr out, s1)"
  using put_ok [OF first_objects(3,1,4)] by blast

theorem put_returns_witness:
  "\<exists>out s'. put_object mock_gateway ''acme'' ''b'' ''k'' [5] ''s3'' [] [] no_objects = (Inr out, s')"
  by (rule put_returns [OF first_objects(3,1,4)])


theorem hold_protects_witness:
  "\<exists>s1 i. get_object mock_gateway ''acme'' i (after_deletions mock_gateway [(''acme'', i, ''admin'', True)] s1)
     = (Inr [5], after_deletions mock_gateway [(''acme'', i, ''admin'', True)] s1)"
proof -
  let ?tags = "[(''legal_hold'', PBool True)]"
  obtain out s1 where put: "put_object mock_gateway ''acme'' ''b'' ''k'' [5] ''s3'' [] ?tags no_objects = (Inr out, s1)"
    by (rule small_put)
  obtain i where i: "get_value out ''manifest_id'' = PStr i" by (rule put_holds [OF put first_objects(1,4)])
  have "truthy_tag (get_value ?tags ''legal_hold'')" by (simp add: truthy_tag_def get_value_def)
  from hold_protects [OF put this first_objects(1,4) i] show ?thesis by blast
qed

theorem deletion_keeps_data_witness:
  "\<exists>s1 i. get_object mock_gateway ''acme'' i (snd (delete_object mock_gateway ''acme'' i ''admin'' True s1))
     = (Inr [5], snd (delete_object mock_gateway ''acme'' i ''admin'' True s1))"
proof -
  obtain out s1 where put: "put_object mock_gateway ''acme'' ''b'' ''k'' [5] ''s3'' [] [] no_objects = (Inr out, s1)" by (rule small_put)
  obtain i where i: "holds_object (ge_env mock_gateway) (small_items ''s3'') ''acme'' i [5] s1"
      "os_inv (ge_env mock_gateway) (small_items ''s3'') s1"
    by (rule put_holds [OF put first_objects(1,4)])
  obtain r s2 where run: "delete_object mock_gateway ''acme'' i ''admin'' True s1 = (r, s2)" by fastforce
  have "get_object mock_gateway ''acme'' i s2 = (Inr [5], s2)" using deletion_keeps_data [OF i(2) run] i(1) by blast
  then have "get_object mock_gateway ''acme'' i (snd (delete_object mock_gateway ''acme'' i ''admin'' True s1))
     = (Inr [5], snd (delete_object mock_gateway ''acme'' i ''admin'' True s1))" by (simp add: run)
  then show ?thesis by blast
qed

theorem adapter_isolation_witness:
  "\<exists>s e. fst (abort_multipart_upload ''evil'' ''mpu_1'' s) = Inl e"
proof -
  let ?m = "\<lparr>um_tenant = ''acme'', um_bucket = ''b'', um_key = ''k'', um_namespace = ''s3'', um_metadata = [], um_tags = [],
    um_parts = [], um_status = Open\<rparr>"
  let ?s = "no_objects\<lparr>os_uploads := [(''mpu_1'', \<lparr>up_meta = ?m, up_files = []\<rparr>)]\<rparr>"
  have files: "file_get (e_ctx (ge_env mock_gateway)) ''mf_1'' (w_manifests (os_world ?s)) \<noteq> Inr m" for m
    by (simp add: file_get_def no_objects_def first_gateway_def empty_world_def) (auto simp: effect_simps)
  have "\<exists>e. abort_multipart_upload ''evil'' ''mpu_1'' ?s = (Inl e, ?s)"
    using adapter_isolation [of mock_gateway "''mf_1''" ?s "''evil''" "''mpu_1''" "\<lparr>up_meta = ?m, up_files = []\<rparr>"] files
    by (simp add: uploads_def)
  then show ?thesis by (metis fst_conv)
qed

lemma mpu_ok: "multipart_dir ''mpu_1'' = Inr ''mpu_1''"
  by code_simp

lemma small_upload:
  obtains s1 s2 out where "create_multipart_upload mock_gateway ''acme'' ''b'' ''k'' ''s3'' [] [] no_objects = (Inr out, s1)"
    "get_value out ''upload_id'' = PStr ''mpu_1''" "\<exists>r. upload_part ''acme'' ''mpu_1'' 1 [5] s1 = (Inr r, s2)"
    "os_gateway s2 = first_gateway\<lparr>gw_world := empty_world\<lparr>w_drawn := 1\<rparr>\<rparr>"
proof -
  have id: "e_ids (ge_env mock_gateway) ''mpu'' n = ''mpu_1''" for n by (simp add: mock_gateway_def sample_env_def)
  have ok: "py_strip ''b'' \<noteq> []" by code_simp
  let ?u = "\<lparr>up_meta = \<lparr>um_tenant = ''acme'', um_bucket = ''b'', um_key = ''k'', um_namespace = ''s3'', um_metadata = [], um_tags = [],
      um_parts = [], um_status = Open\<rparr>, up_files = []\<rparr>"
  let ?s1 = "\<lparr>os_gateway = first_gateway\<lparr>gw_world := empty_world\<lparr>w_drawn := 1\<rparr>\<rparr>, os_uploads = [(''mpu_1'', ?u)]\<rparr>"
  have one: "create_multipart_upload mock_gateway ''acme'' ''b'' ''k'' ''s3'' [] [] no_objects
      = (Inr [(''upload_id'', PStr ''mpu_1''), (''bucket'', PStr ''b''), (''key'', PStr ''k'')], ?s1)"
    unfolding create_multipart_upload_def Let_def id
    by (simp add: ok mpu_ok thenS_def bindS_def liftR_def retS_def in_world_def on_gateway_def on_world_def zoom_def draw_def
        open_upload_def uploads_def set_upload_def no_objects_def first_gateway_def empty_world_def jfile_dict_def)
  have two: "upload_part ''acme'' ''mpu_1'' 1 [5] ?s1 = (Inr [(''upload_id'', PStr ''mpu_1''), (''part_number'', PInt 1),
      (''size'', PInt 1), (''etag'', PStr (sha256_bytes [5]))],
      ?s1\<lparr>os_uploads := [(''mpu_1'', received ?u 1 [5])]\<rparr>)"
    by (simp add: upload_part_def mpu_ok thenS_def bindS_def liftR_def retS_def the_upload_def uploads_def read_meta_def
        set_upload_def received_def Let_def)
  show thesis by (rule that [OF one _ exI, OF _ two]) (simp_all add: get_value_def)
qed

text \<open>One upload of one part, from its creation to its object.\<close>

definition first_target :: "string \<times> string \<times> string \<times> pydict \<times> pydict" where
  "first_target = (''b'', ''k'', ''s3'', [], [])"

definition first_run :: "upload_event list" where
  "first_run = [Opened ''mpu_1'' ''acme'' first_target, Received ''mpu_1'' 1 [5]]"

definition first_upload :: upload_spec where
  "first_upload = \<lparr>us_tenant = ''acme'', us_target = first_target, us_parts = [1 \<mapsto> [5]]\<rparr>"

lemma no_specs: "upload_specs no_objects = Map.empty"
  by (rule ext) (simp add: upload_specs_def uploads_def no_objects_def)

lemma first_specs: "fold spec_effect first_run (upload_specs no_objects) ''mpu_1'' = Some first_upload"
  by (simp add: first_run_def no_specs first_upload_def)

lemma run_two:
  obtains s2 where "os_run mock_gateway first_run no_objects s2" "os_gateway s2 = first_gateway\<lparr>gw_world := empty_world\<lparr>w_drawn := 1\<rparr>\<rparr>"
proof -
  obtain s1 s2 out r where one: "create_multipart_upload mock_gateway ''acme'' ''b'' ''k'' ''s3'' [] [] no_objects = (Inr out, s1)"
      "get_value out ''upload_id'' = PStr ''mpu_1''" and two: "upload_part ''acme'' ''mpu_1'' 1 [5] s1 = (Inr r, s2)"
      and g: "os_gateway s2 = first_gateway\<lparr>gw_world := empty_world\<lparr>w_drawn := 1\<rparr>\<rparr>"
    by (rule small_upload) blast
  have "os_step mock_gateway (Opened ''mpu_1'' ''acme'' first_target) no_objects s1"
    using os_step.Create [OF one] by (simp add: first_target_def jfile_dict_def)
  moreover have "os_step mock_gateway (Received ''mpu_1'' 1 [5]) s1 s2" using os_step.Part [OF two] by simp
  ultimately show thesis using that [OF _ g] by (simp add: first_run_def os_run.intros)
qed

theorem multipart_refines_witness:
  "\<exists>s. upload_specs s = fold spec_effect first_run (upload_specs no_objects) \<and> upload_specs s ''mpu_1'' = Some first_upload"
proof -
  obtain s2 where run: "os_run mock_gateway first_run no_objects s2" by (rule run_two)
  from multipart_refines [OF run first_objects(2)] first_specs show ?thesis by auto
qed

theorem completed_upload_is_object_witness:
  "\<exists>j s'. get_object mock_gateway ''acme'' j s' = (Inr [5], s') \<and> upload_specs s' ''mpu_1'' = None"
proof -
  obtain s where run: "os_run mock_gateway first_run no_objects s"
      and g: "os_gateway s = first_gateway\<lparr>gw_world := empty_world\<lparr>w_drawn := 1\<rparr>\<rparr>" by (rule run_two)
  have state: "sound_uploads s" "upload_specs s ''mpu_1'' = Some first_upload"
    using run_refines [OF run first_objects(2)] first_specs by auto
  obtain u where u: "uploads s ''mpu_1'' = Some u" "spec_of u = first_upload" using state(2) by (auto simp: upload_specs_def)
  have su: "sound_upload u" using state(1) u(1) by (simp add: sound_uploads_def)
  have parts: "part_map u = [1 \<mapsto> [5]]" "um_tenant (up_meta u) = ''acme''" "um_namespace (up_meta u) = ''s3''"
    using u(2) by (simp_all add: spec_of_def first_upload_def first_target_def Let_def)
  have whole: "assembled [1 \<mapsto> [5]] = [5]" by (simp add: assembled_def)
  have inv: "os_inv (ge_env mock_gateway) (small_items ''s3'') s" "plain_store mock_gateway ''acme'' s"
    using first_objects(1,3) g by (simp_all add: os_inv_def plain_gateway_def no_objects_def first_gateway_def readable_def w_ledger_def)
  have marks: "os_inv (ge_env mock_gateway) (small_items ''s3'') (marked ''mpu_1'' u s)" "plain_store mock_gateway ''acme'' (marked ''mpu_1'' u s)"
    using inv by (simp_all add: os_inv_def plain_gateway_def marked_def)
  have "\<exists>r s1. put_upload mock_gateway ''acme'' (up_meta u) [5] (marked ''mpu_1'' u s) = (Inr r, s1)"
    unfolding parts by (rule put_ok [OF marks(2,1) first_objects(4)])
  then obtain r s1 where put: "put_upload mock_gateway ''acme'' (up_meta u) [5] (marked ''mpu_1'' u s) = (Inr r, s1)" by blast
  have "um_parts (up_meta u) \<noteq> []" using parts(1) by (auto simp: part_map_def fun_eq_iff split: if_splits)
  then have "complete_multipart_upload mock_gateway ''acme'' ''mpu_1'' s
      = finish_upload mock_gateway ''acme'' ''mpu_1'' (up_meta u) [5] s"
    using complete_checks [OF u(1) parts(2) _ mpu_ok su, of mock_gateway] unfolding parts(1) whole by blast
  then obtain out s' where "complete_multipart_upload mock_gateway ''acme'' ''mpu_1'' s = (Inr out, s')"
    using finish_stores [OF u(1) parts(2) put] by simp
  from completed_upload_is_object [OF run first_objects(2) inv(1) first_specs _ _ this, of "''b''" "''k''" "''s3''" "[]" "[]"] first_objects(4)
  show ?thesis by (auto simp: first_upload_def first_target_def whole [simplified])
qed

text \<open>A put is audited, so that a deletion can be.\<close>

lemma put_audited:
  assumes "put_object ge t bucket key body ns md tags s = (Inr out, s')" "verify_chain (w_ledger (os_world s)) = Inr True"
    and "fresh_events (ge_env ge)"
  shows "verify_chain (w_ledger (os_world s')) = Inr True"
proof -
  obtain n r pb adapter where run: "execute_exact_object (ge_env ge) (object_unit (ge_env ge) n t bucket key body ns md tags)
      (Some ''enforce'') pb adapter ((os_world s)\<lparr>w_drawn := Suc (w_drawn (os_world s))\<rparr>) = (Inr r, os_world s')"
    by (rule put_object_parts [OF assms(1)])
  have I: "audit_inv (w_ledger (os_world s)) ((os_world s)\<lparr>w_drawn := Suc (w_drawn (os_world s))\<rparr>)"
    using assms(2) by (simp add: audit_inv_def w_ledger_def)
  show ?thesis using keepsD [OF execution_audited(1) [OF assms(3)] I run] by (simp add: audit_inv_def)
qed

lemma denial_ok:
  assumes "open_env (ge_env ge) t" "readable (os_world s)" "mf_tenant m = t"
  shows "\<exists>out s'. deny_deletion ge i actor m reason s = (Inr out, s')"
proof -
  have "runs (append_event (ge_env ge) (delete_event m ''s3.delete.denied'' actor ''denied'' [(''reason'', PStr reason)]))"
    by (rule append_event_runs [OF assms(1)]) (simp_all add: assms(3) delete_event_def event_draft_def)
  from runsD [OF this assms(2)] obtain x w where "append_event (ge_env ge)
      (delete_event m ''s3.delete.denied'' actor ''denied'' [(''reason'', PStr reason)]) (os_world s) = (Inr x, w)" by blast
  then show ?thesis by (simp add: deny_deletion_def log_deletion_def in_world_def on_gateway_def on_world_def zoom_def
        thenS_def bindS_def retS_def)
qed

theorem deletion_decided_witness:
  "\<exists>s i out s'. delete_object mock_gateway ''acme'' i ''admin'' False s = (Inr out, s')
     \<and> get_value out ''deleted'' = PBool False \<and> has_event (w_ledger (os_world s')) ''s3.delete.denied'' (Some i)"
proof -
  obtain out s1 where put: "put_object mock_gateway ''acme'' ''b'' ''k'' [5] ''s3'' [] [] no_objects = (Inr out, s1)" by (rule small_put)
  obtain i m where i: "os_inv (ge_env mock_gateway) (small_items ''s3'') s1"
      "file_get (e_ctx (ge_env mock_gateway)) i (w_manifests (os_world s1)) = Inr m"
      "made_by (object_unit (ge_env mock_gateway) (w_drawn (os_world no_objects)) ''acme'' ''b'' ''k'' [5] ''s3'' [] []) ''enforce'' m"
    by (rule put_holds [OF put first_objects(1,4)])
  have t: "mf_tenant m = ''acme''" using i(3) by (simp add: made_by_def)
  have id: "mf_manifest_id m = i" using own_name [OF _ i(2)] i(1) by (simp add: os_inv_def)
  have fresh: "fresh_events (ge_env mock_gateway)" using mock_open by (simp add: open_env_def)
  have chain: "verify_chain (w_ledger (os_world s1)) = Inr True"
    by (rule put_audited [OF put _ fresh]) (use empty_readable(2) in \<open>simp add: no_objects_def first_gateway_def\<close>)
  then have "readable (os_world s1)" by (auto simp: readable_def verify_chain_def effect_simps)
  then obtain d s2 where denied: "deny_deletion mock_gateway i ''admin'' m ''delete_disabled_by_default'' s1 = (Inr d, s2)"
    using denial_ok [OF mock_open _ t] by blast
  have own: "own_manifest (ge_env mock_gateway) ''acme'' i s1 = (Inr m, s1)" using i(2) t by (simp add: effect_simps)
  have hold: "lineage_get m ''policy_context'' ''legal_hold'' PNone = Inr PNone"
    unfolding object_hold [OF i(3)] by (simp add: truthy_tag_def get_value_def)
  have run: "delete_object mock_gateway ''acme'' i ''admin'' False s1 = (Inr d, s2)"
    by (simp add: delete_object_def own hold denied liftR_def bindS_def)
  from deletion_decided [OF run i(1) chain fresh] id i(2)
  have "get_value d ''deleted'' = PBool False \<and> has_event (w_ledger (os_world s2)) ''s3.delete.denied'' (Some i)" by simp
  with run show ?thesis by blast
qed

end
