(* ===== verification/Service.thy ===== *)
theory Service
  imports ObjectStore Embeddings
begin

text \<open>
  The HTTP boundary of \<open>python/urp/service_runtime.py\<close>: how a POST request is read, authenticated
  and authorized, how the S3 and AI gateways turn it into calls, and how every exception becomes a
  status. \<open>rq_json\<close> is what \<open>json.loads\<close> makes of the body. Text fields of a request (names,
  identifiers, tenants) are strings; another JSON type in their place is an error of the model. A
  failure of the schema validator is the exception named \<open>SchemaValidationError\<close>, with its message.
\<close>

subsection \<open>Requests and responses\<close>

record http_request =
  rq_path :: string
  rq_authorization :: "string option"
  rq_api_key :: "string option"
  rq_tenant :: "string option"
  rq_length :: "string option"
  rq_json :: "pyval res"

datatype http_body = JsonBody pyval | BytesBody bytes

type_synonym http_response = "nat \<times> http_body"

definition error_body :: "string \<Rightarrow> string \<Rightarrow> pydict \<Rightarrow> http_body" where
  "error_body code message details = JsonBody (PDict [(''error'', PDict [(''code'', PStr code), (''message'', PStr message),
     (''retryable'', PBool False), (''details'', PDict details)])])"

text \<open>\<open>str(exc).strip("'")\<close>.\<close>

definition strip_quotes :: "string \<Rightarrow> string" where
  "strip_quotes s = (let q = (\<lambda>c. c = CHR 0x27) in rev (dropWhile q (rev (dropWhile q s))))"

definition urp_status :: "string \<Rightarrow> nat" where
  "urp_status code =
     (if code \<in> {''manifest_not_found'', ''work_unit_not_found'', ''plan_not_found''} then 404
      else if code = ''request_too_large'' then 413
      else if code = ''authentication_required'' then 401
      else if code \<in> {''authorization_denied'', ''policy_denied'', ''tenant_mismatch''} then 403 else 400)"

fun error_response :: "py_exc \<Rightarrow> http_response" where
  "error_response (URPError code message wu b retryable details) =
     (urp_status code, JsonBody (PDict (urp_error_to_dict (URPError code message wu b retryable details))))"
| "error_response (ValueError m) = (400, error_body ''invalid_request'' m [])"
| "error_response (KeyError k) = (404, let missing = strip_quotes (exc_text (KeyError k)) in
     error_body ''not_found'' (''resource not found: '' @ missing) [(''id'', PStr missing)])"
| "error_response (FileNotFoundError p) = (404, error_body ''not_found'' (''resource not found: '' @ p) [(''path'', PStr p)])"
| "error_response (OtherError n) =
     (if prefix ''SchemaValidationError: '' n then (400, error_body ''schema_validation_failed'' (drop 23 n) [])
      else (500, error_body ''internal_error'' ''internal service error'' []))"
| "error_response e = (500, error_body ''internal_error'' ''internal service error'' [])"

definition not_found :: "string \<Rightarrow> http_response" where
  "not_found path = (404, JsonBody (PDict [(''error'', PDict [(''code'', PStr ''not_found''), (''path'', PStr path)])]))"

definition json_ok_response :: "pydict \<Rightarrow> http_response" where
  "json_ok_response d = (200, JsonBody (PDict d))"

subsection \<open>Reading and authorizing a request\<close>

definition read_payload :: "env \<Rightarrow> http_request \<Rightarrow> pyval res" where
  "read_payload en rq =
     bindR (py_int (PStr (case rq_length rq of None \<Rightarrow> ''0'' | Some s \<Rightarrow> s))) (\<lambda>len.
     bindR (py_int (PStr (case e_vars en ''URP_MAX_REQUEST_BYTES'' of None \<Rightarrow> show_nat (16 * 1024 * 1024) | Some s \<Rightarrow> s))) (\<lambda>maximum.
     if len < 0 \<or> maximum < len
       then Inl (URPError ''request_too_large'' (''request exceeds '' @ show_int maximum @ '' bytes'') None None False [])
     else if len = 0 then Inr (PDict []) else rq_json rq))"

text \<open>The tenant a POST request names: in the payload, in its options, or in the header.\<close>

definition requested_tenant :: "http_request \<Rightarrow> pyval \<Rightarrow> pyval res" where
  "requested_tenant rq payload = (let header = opt_value (rq_tenant rq) in
     if \<not> truthy payload then Inr header
     else bindR (as_dict payload) (\<lambda>d. let urp = (case get_value d ''urp'' of PDict u \<Rightarrow> u | _ \<Rightarrow> []) in
       Inr (if truthy (get_value d ''tenant'') then get_value d ''tenant''
         else if truthy (get_value urp ''tenant'') then get_value urp ''tenant'' else header)))"

definition authenticate_request :: "authenticator \<Rightarrow> permissions \<Rightarrow> http_request \<Rightarrow> string \<Rightarrow> pyval \<Rightarrow> principal res" where
  "authenticate_request authn perms rq method payload =
     (if rq_path rq \<in> {''/healthz'', ''/readyz''} then Inr \<lparr>pr_actor = ''health-check'', pr_tenant = ''*'', pr_roles = []\<rparr>
      else bindR (bearer_token (rq_authorization rq) (rq_api_key rq)) (\<lambda>token.
        bindR (authenticate authn token) (\<lambda>p.
        bindR (requested_tenant rq payload) (\<lambda>t.
        bindR (require_permission perms p (action_for_request method (rq_path rq)) (if truthy t then Some (py_str t) else None)) (\<lambda>_.
        Inr p)))))"

text \<open>\<open>bind_principal\<close>: the calls of the request run as the principal.\<close>

definition acting_as :: "principal \<Rightarrow> gateway_env \<Rightarrow> gateway_env" where
  "acting_as p ge = ge\<lparr>ge_env := (ge_env ge)\<lparr>e_ctx := Some p\<rparr>\<rparr>"

subsection \<open>The S3 gateway\<close>

definition payload_tenant :: "ctx \<Rightarrow> pydict \<Rightarrow> string" where
  "payload_tenant c d = (if truthy (get_value d ''tenant'') then py_str (get_value d ''tenant'')
     else case current_tenant c of Some t \<Rightarrow> if t = [] then ''local'' else t | None \<Rightarrow> ''local'')"

definition body_from_payload :: "pydict \<Rightarrow> bytes res" where
  "body_from_payload d =
     (case dget d ''body_base64'' of
        Some v \<Rightarrow> bindR (as_str v) (\<lambda>s. case b64decode s of Some b \<Rightarrow> Inr b | None \<Rightarrow> Inl (ValueError ''Incorrect padding''))
      | None \<Rightarrow> (case dget d ''body_text'' of Some v \<Rightarrow> Inr (utf8 (py_str v))
        | None \<Rightarrow> (case dget d ''body'' of None \<Rightarrow> Inr []
          | Some (PBytes b) \<Rightarrow> Inr b | Some v \<Rightarrow> Inr (utf8 (py_str v)))))"

definition text_field :: "pydict \<Rightarrow> string \<Rightarrow> string res" where
  "text_field d k = bindR (item d k) as_str"

definition text_or :: "pydict \<Rightarrow> string \<Rightarrow> string \<Rightarrow> string res" where
  "text_or d k fallback = as_str (get_default d k (PStr fallback))"

text \<open>\<open>dict(payload.get(k) or {})\<close> of a JSON object.\<close>

definition mapping_field :: "pydict \<Rightarrow> string \<Rightarrow> pydict res" where
  "mapping_field d k = (let v = get_value d k in if \<not> truthy v then Inr [] else as_dict v)"

definition int_field :: "pydict \<Rightarrow> string \<Rightarrow> int res" where
  "int_field d k = bindR (item d k) py_int"

definition answer_json :: "pydict oio \<Rightarrow> http_response oio" where
  "answer_json m = bindS m (\<lambda>d. retS (json_ok_response d))"

definition answer_bytes :: "bytes oio \<Rightarrow> http_response oio" where
  "answer_bytes m = bindS m (\<lambda>b. retS (200, BytesBody b))"

text \<open>The fields that name a new object or upload.\<close>

definition object_fields :: "pydict \<Rightarrow> (string \<times> string \<times> string \<times> pydict \<times> pydict) res" where
  "object_fields d = bindR (text_field d ''bucket'') (\<lambda>b. bindR (text_field d ''key'') (\<lambda>k.
     bindR (text_or d ''namespace'' ''s3'') (\<lambda>n. bindR (mapping_field d ''metadata'') (\<lambda>m.
     map_res (\<lambda>t. (b, k, n, m, t)) (mapping_field d ''tags'')))))"

definition handle_s3 :: "gateway_env \<Rightarrow> string \<Rightarrow> pydict \<Rightarrow> http_response oio" where
  "handle_s3 ge path d =
     (let t = payload_tenant (e_ctx (ge_env ge)) d;
          actor = (case e_ctx (ge_env ge) of Some p \<Rightarrow> pr_actor p | None \<Rightarrow> ''gateway-s3'');
          mid = text_field d ''manifest_id''; upid = text_field d ''upload_id'' in
      if path = ''/v1/s3/objects'' then
        bindS (liftR (body_from_payload d)) (\<lambda>body. bindS (liftR (object_fields d)) (\<lambda>(b, k, n, m, tg).
          answer_json (put_object ge t b k body n m tg)))
      else if path = ''/v1/s3/objects/head'' then bindS (liftR mid) (\<lambda>i. answer_json (head_object ge t i))
      else if path = ''/v1/s3/objects/range'' then
        bindS (liftR mid) (\<lambda>i. bindS (liftR (int_field d ''start'')) (\<lambda>a. bindS (liftR (int_field d ''end'')) (\<lambda>z.
          answer_bytes (range_read ge t i a z))))
      else if path = ''/v1/s3/objects/get'' then bindS (liftR mid) (\<lambda>i. answer_bytes (get_object ge t i))
      else if path = ''/v1/s3/objects/list'' then
        bindS (liftR (as_opt_str (get_value d ''bucket''))) (\<lambda>b. bindS (liftR (text_or d ''prefix'' [])) (\<lambda>pre.
          answer_json (list_objects ge t b pre (get_value d ''include_tombstoned'' = PBool True))))
      else if path = ''/v1/s3/objects/delete'' then
        bindS (liftR mid) (\<lambda>i. answer_json (delete_object ge t i actor (get_value d ''allow_delete'' = PBool True)))
      else if path = ''/v1/s3/multipart/create'' then
        bindS (liftR (object_fields d)) (\<lambda>(b, k, n, m, tg). answer_json (create_multipart_upload ge t b k n m tg))
      else if path = ''/v1/s3/multipart/part'' then
        bindS (liftR upid) (\<lambda>i. bindS (liftR (int_field d ''part_number'')) (\<lambda>n. bindS (liftR (body_from_payload d)) (\<lambda>body.
          answer_json (upload_part t i n body))))
      else if path = ''/v1/s3/multipart/complete'' then bindS (liftR upid) (\<lambda>i. answer_json (complete_multipart_upload ge t i))
      else if path = ''/v1/s3/multipart/abort'' then bindS (liftR upid) (\<lambda>i. answer_json (abort_multipart_upload t i))
      else retS (not_found path))"

subsection \<open>The AI gateway\<close>

definition ai_tenant :: "ctx \<Rightarrow> pydict \<Rightarrow> string res" where
  "ai_tenant c urp = (if truthy (get_value urp ''tenant'') then as_str (get_value urp ''tenant'')
     else Inr (case current_tenant c of Some t \<Rightarrow> if t = [] then ''local'' else t | None \<Rightarrow> ''local''))"

definition handle_ai :: "gateway_env \<Rightarrow> string \<Rightarrow> pydict \<Rightarrow> http_response oio" where
  "handle_ai ge path d =
     (let run = (\<lambda>f. bindS (liftR (as_dict (get_default d ''urp'' (PDict [])))) (\<lambda>urp.
          bindS (liftR (ai_tenant (e_ctx (ge_env ge)) urp)) (\<lambda>t. bindS (liftR (text_or urp ''namespace'' ''default'')) (\<lambda>n.
          bindS (liftR (as_opt_str (get_value urp ''mode''))) (\<lambda>mode. answer_json (on_gateway (f t n mode))))))) in
      if path = ''/v1/chat/completions'' then run (\<lambda>t n mode. handle_chat_completion ge d t n None mode)
      else if path = ''/v1/completions'' then run (\<lambda>t n mode. handle_completion ge d t n None mode)
      else if path = ''/v1/embeddings'' then run (\<lambda>t n mode. handle_embeddings ge d t n None mode)
      else retS (not_found path))"

subsection \<open>A POST request\<close>

text \<open>\<open>do_POST\<close> of the two gateways.\<close>

definition dispatch_post :: "gateway_env \<Rightarrow> string \<Rightarrow> string \<Rightarrow> pyval \<Rightarrow> http_response oio" where
  "dispatch_post ge service path payload =
     (if service = ''gateway-s3'' then bindS (liftR (as_dict payload)) (handle_s3 ge path)
      else if service = ''gateway-ai'' \<and> path \<in> {''/v1/chat/completions'', ''/v1/completions'', ''/v1/embeddings''}
        then bindS (liftR (as_dict payload)) (handle_ai ge path)
      else retS (not_found path))"

definition do_POST :: "gateway_env \<Rightarrow> authenticator \<Rightarrow> permissions \<Rightarrow> string \<Rightarrow> http_request \<Rightarrow> object_store \<Rightarrow> http_response \<times> object_store" where
  "do_POST ge authn perms service rq s =
     (case bindR (read_payload (ge_env ge) rq) (\<lambda>payload. map_res (Pair payload) (authenticate_request authn perms rq ''POST'' payload)) of
        Inl e \<Rightarrow> (error_response e, s)
      | Inr (payload, p) \<Rightarrow> (case dispatch_post (acting_as p ge) service (rq_path rq) payload s of
          (Inl e, s') \<Rightarrow> (error_response e, s') | (Inr r, s') \<Rightarrow> (r, s')))"

end
