(* ===== verification/ServiceLaws.thy ===== *)
theory ServiceLaws
  imports Service ObjectRuns
begin

text \<open>
  What the HTTP boundary promises: a principal bound to a tenant reaches, through the S3 gateway,
  the objects and uploads of that tenant and no others, and every failure is a status of the table.
\<close>

subsection \<open>The tenant of a request\<close>

lemma py_repr_nonempty: "truthy v \<Longrightarrow> py_str v \<noteq> []"
proof (cases v)
  case (PTuple xs)
  then show "truthy v \<Longrightarrow> py_str v \<noteq> []" by (cases xs rule: remdups_adj.cases) auto
qed (auto simp: show_int_def show_nat.simps [of "nat _"] show_float_def repr_bytes_def Let_def)

text \<open>A principal bound to a tenant acts for that tenant.\<close>

definition bound_to :: "string \<Rightarrow> principal \<Rightarrow> bool" where
  "bound_to t p = (pr_tenant p = t \<and> t \<noteq> ''*'' \<and> t \<noteq> [])"

lemma authenticated_tenant:
  assumes "authenticate_request authn perms rq m (PDict d) = Inr p" "bound_to t p"
  shows "payload_tenant (Some p) d = t"
proof (cases "truthy (get_value d ''tenant'')")
  case True
  have "rq_path rq \<notin> {''/healthz'', ''/readyz''}" using assms by (auto simp: authenticate_request_def bound_to_def)
  moreover have "requested_tenant rq (PDict d) = Inr (get_value d ''tenant'')"
    using True by (cases d) (auto simp: requested_tenant_def Let_def get_value_def)
  ultimately have "require_permission perms p (action_for_request m (rq_path rq)) (Some (py_str (get_value d ''tenant''))) = Inr ()"
    using assms(1) True by (auto simp: authenticate_request_def effect_simps)
  then have "\<not> outside_tenant p (Some (py_str (get_value d ''tenant'')))" by (auto simp: require_permission_def split: if_splits)
  then have "pr_tenant p = py_str (get_value d ''tenant'')"
    using assms(2) py_repr_nonempty [OF True] by (simp add: outside_tenant_def bound_to_def)
  then show ?thesis using True assms(2) by (simp add: payload_tenant_def bound_to_def)
next
  case False
  then show ?thesis using assms(2) by (simp add: payload_tenant_def current_tenant_def bound_to_def)
qed

text \<open>The header names a tenant for the permission only: the S3 gateway does not act for it.\<close>

lemma header_tenant_ignored:
  assumes "pr_tenant p = ''*''" "\<not> truthy (get_value d ''tenant'')"
  shows "payload_tenant (Some p) d = ''local''"
  using assms by (simp add: payload_tenant_def current_tenant_def)

subsection \<open>What a call leaves alone\<close>

text \<open>The manifests of \<open>F\<close> are still filed.\<close>

definition still_filed :: "(string \<times> manifest) set \<Rightarrow> json_files \<Rightarrow> bool" where
  "still_filed F files = (\<forall>(i, m) \<in> F. file_view files i = Some m)"

lemma keeps_of_field: "(\<And>x. keeps (\<lambda>s. f s = x) m) \<Longrightarrow> keeps (\<lambda>s. P (f s)) m"
  unfolding keeps_def by metis

lemma still_filed_put:
  assumes "mf_manifest_id m \<notin> fst ` F"
  shows "keeps (\<lambda>w. still_filed F (w_manifests w)) (put_manifest en m)"
proof (rule keepsI)
  fix w r w' assume I: "still_filed F (w_manifests w)" and run: "put_manifest en m w = (r, w')"
  obtain mfs where put: "file_put (e_schemas en) (e_ctx en) m (w_manifests w) = (r, mfs)" and w': "w_manifests w' = mfs"
    using run by (auto simp: put_manifest_def on_manifests_def effect_simps)
  show "still_filed F (w_manifests w')"
  proof (cases r)
    case (Inl e)
    then show ?thesis using file_manifests.put_refused put I w' by metis
  next
    case (Inr u)
    then have "file_view mfs = (file_view (w_manifests w))(mf_manifest_id m \<mapsto> filed_manifest m)"
      using file_manifests.put_done [OF put [unfolded Inr]] by simp
    then show ?thesis using I assms by (force simp: still_filed_def w')
  qed
qed

lemma execution_still_filed:
  assumes "\<And>n. e_ids en ''mf'' n \<notin> fst ` F"
  shows "keeps (\<lambda>w. still_filed F (w_manifests w)) (execute_exact_object en wu mode pb adapter)"
proof -
  let ?J = "\<lambda>w. still_filed F (w_manifests w)"
  note keep = keeps_of_field [where f = w_manifests and P = "still_filed F"]
  have put: "keeps ?J (put_manifest en (exec_manifest en wu d p md ad payload segs k v n))"
      "keeps ?J (put_manifest en (observed_manifest en wu d p ad payload n))" for d p md ad payload segs k v n
    by (rule still_filed_put; simp add: assms exec_manifest_def observed_manifest_def base_manifest_def)+
  have draw: "keeps ?J draw" by (rule keep [OF traces_keep_manifests(7)])
  have event: "keeps ?J (append_event en e)" for e by (rule keep [OF traces_keep_manifests(1)])
  have wrote: "keeps ?J (announce_manifest en wu d md ad payload segs k m)" for d md ad payload segs k m
    by (rule keep [OF announce_manifest_keeps(2)])
  have gate: "keeps ?J (require_policy_approval en wu d)" "keeps ?J (announce en wu d p payload)" for d p payload
    by (rule keep [OF approval_keeps(2)], rule keep [OF announce_keeps(2)])
  have store: "keeps ?J (store_segments en wu d ns p cs)" "keeps ?J (verify_restore en wu d whole segs)" for d ns p cs whole segs
    by (rule keep [OF store_segments_keeps], rule keep [OF verify_restore_keeps(2)])
  have "keeps ?J (record_observation en wu d p payload ad)" for d p payload ad
    unfolding record_observation_def Let_def by (intro keeps_bindS keeps_thenS keeps_retS draw put event)
  moreover have "keeps ?J (write_manifest en wu d p md ad payload segs v)" for d p md ad payload segs v
    unfolding write_manifest_def Let_def by (intro keeps_bindS keeps_thenS keeps_liftR draw put wrote)
  ultimately show ?thesis
    unfolding execute_exact_object_def store_and_verify_def
    by (intro keeps_bindS keeps_thenS keeps_liftR keeps_if gate store)
qed

lemma keeps_through_gateway: "keeps P m \<Longrightarrow> keeps (\<lambda>s. P (os_world s)) (in_world m)"
  by (auto simp: keeps_def in_world_def on_gateway_def on_world_def zoom_def split: prod.splits)

lemma keeps_on_gateway: "keeps (\<lambda>g. P (gw_world g)) m \<Longrightarrow> keeps (\<lambda>s. P (os_world s)) (on_gateway m)"
  by (auto simp: keeps_def on_gateway_def zoom_def split: prod.splits)

lemma keeps_world_part: "keeps P m \<Longrightarrow> keeps (\<lambda>g. P (gw_world g)) (on_world m)"
  by (auto simp: keeps_def on_world_def zoom_def split: prod.splits)

lemma keeps_uploads_only [keeps_rules]:
  "keeps (\<lambda>s. P (os_world s)) (set_upload i u)" "keeps (\<lambda>s. P (os_world s)) (drop_upload i)"
  "keeps (\<lambda>s. P (os_world s)) (the_upload i)" "keeps (\<lambda>s. P (os_world s)) (set_status i st)"
  "keeps (\<lambda>s. P (os_world s)) (\<lambda>s. (g s, s))"
  by (auto simp: keeps_def set_upload_def drop_upload_def the_upload_def set_status_def split: option.splits)

lemma keeps_on_failure: "keeps I m \<Longrightarrow> keeps I c \<Longrightarrow> keeps I (on_failure c m)"
  by (auto simp: keeps_def on_failure_def split: prod.splits sum.splits)

lemma unit_still_filed:
  assumes "\<And>n. e_ids (ge_env ge) ''mf'' n \<notin> fst ` F" "wu_kind wu = BYTE_OBJECT"
  shows "keeps (\<lambda>g. still_filed F (w_manifests (gw_world g))) (execute_work_unit ge wu mode)"
  unfolding execute_work_unit_def Let_def exact_kind_def assms(2)
  by (simp, intro keeps_bindS keeps_thenS keeps_liftR keeps_world_part [where P = "\<lambda>w. still_filed F (w_manifests w)"] keeps_inspect
      execution_still_filed [OF assms(1)])

lemma draw_still_filed: "keeps (\<lambda>s. still_filed F (w_manifests (os_world s))) (in_world draw)"
  by (rule keeps_through_gateway [where P = "\<lambda>w. still_filed F (w_manifests w)"]) (rule keeps_of_field [OF traces_keep_manifests(7)])

lemma put_still_filed:
  assumes "\<And>n. e_ids (ge_env ge) ''mf'' n \<notin> fst ` F"
  shows "keeps (\<lambda>s. still_filed F (w_manifests (os_world s))) (put_object ge t b k body ns md tags)"
  unfolding put_object_def
  by (intro keeps_bindS keeps_liftR keeps_retS draw_still_filed keeps_on_gateway [where P = "\<lambda>w. still_filed F (w_manifests w)"]
      unit_still_filed [OF assms]) simp

lemma uploads_still_filed:
  assumes "\<And>n. e_ids (ge_env ge) ''mf'' n \<notin> fst ` F"
  shows "keeps (\<lambda>s. still_filed F (w_manifests (os_world s))) (create_multipart_upload ge t b k ns md tags)"
    "keeps (\<lambda>s. still_filed F (w_manifests (os_world s))) (upload_part t i n body)"
    "keeps (\<lambda>s. still_filed F (w_manifests (os_world s))) (complete_multipart_upload ge t i)"
    "keeps (\<lambda>s. still_filed F (w_manifests (os_world s))) (abort_multipart_upload t i)"
proof -
  note world = keeps_uploads_only [where P = "\<lambda>w. still_filed F (w_manifests w)"]
  have remove: "keeps (\<lambda>s. still_filed F (w_manifests (os_world s))) (remove_multipart t i st)" for i st
    unfolding remove_multipart_def by (intro keeps_bindS keeps_thenS keeps_liftR world)
  show "keeps (\<lambda>s. still_filed F (w_manifests (os_world s))) (create_multipart_upload ge t b k ns md tags)"
    unfolding create_multipart_upload_def open_upload_def Let_def
    by (intro keeps_bindS keeps_thenS keeps_liftR keeps_retS draw_still_filed world)
  show "keeps (\<lambda>s. still_filed F (w_manifests (os_world s))) (upload_part t i n body)"
    unfolding upload_part_def Let_def by (intro keeps_bindS keeps_thenS keeps_liftR keeps_retS world)
  show "keeps (\<lambda>s. still_filed F (w_manifests (os_world s))) (complete_multipart_upload ge t i)"
    unfolding complete_multipart_upload_def finish_upload_def
    by (intro keeps_bindS keeps_thenS keeps_liftR keeps_retS keeps_on_failure put_still_filed [OF assms] remove world)
  show "keeps (\<lambda>s. still_filed F (w_manifests (os_world s))) (abort_multipart_upload t i)"
    unfolding abort_multipart_upload_def by (intro keeps_bindS keeps_thenS keeps_liftR keeps_retS keeps_option remove world)
qed

subsection \<open>Confinement\<close>

text \<open>Nothing of another tenant than \<open>t\<close> changed: its uploads and its manifests.\<close>

definition spares :: "string \<Rightarrow> object_store \<Rightarrow> object_store \<Rightarrow> bool" where
  "spares t s s' = ((\<forall>i u. uploads s i = Some u \<and> um_tenant (up_meta u) \<noteq> t \<longrightarrow> uploads s' i = Some u)
     \<and> (\<forall>i m. file_view (w_manifests (os_world s)) i = Some m \<and> mf_tenant m \<noteq> t \<longrightarrow> file_view (w_manifests (os_world s')) i = Some m))"

definition others :: "string \<Rightarrow> object_store \<Rightarrow> (string \<times> manifest) set" where
  "others t s = {(i, m). file_view (w_manifests (os_world s)) i = Some m \<and> mf_tenant m \<noteq> t}"

text \<open>Identifiers that are yet to be drawn name nothing.\<close>

definition fresh_ids :: "env \<Rightarrow> object_store \<Rightarrow> bool" where
  "fresh_ids en s = (\<forall>n. uploads s (e_ids en ''mpu'' n) = None \<and> file_view (w_manifests (os_world s)) (e_ids en ''mf'' n) = None)"

definition confined :: "string \<Rightarrow> 'a oio \<Rightarrow> object_store \<Rightarrow> bool" where
  "confined t m s = spares t s (snd (m s))"

lemma spares_refl [simp]: "spares t s s"
  by (simp add: spares_def)

lemma confined_lift: "(\<And>x. v = Inr x \<Longrightarrow> confined t (f x) s) \<Longrightarrow> confined t (bindS (liftR v) f) s"
  by (cases v) (simp_all add: confined_def bindS_def liftR_def)

lemma confined_answers: "confined t m s \<Longrightarrow> confined t (answer_json m) s" "confined t m' s \<Longrightarrow> confined t (answer_bytes m') s"
  by (auto simp: confined_def answer_json_def answer_bytes_def bindS_def retS_def split: prod.splits sum.splits)

lemma others_fresh: "fresh_ids en s \<Longrightarrow> e_ids en ''mf'' n \<notin> fst ` others t s"
  by (auto simp: fresh_ids_def others_def)

lemma spares_filed:
  assumes "keeps (\<lambda>s. still_filed (others t s0) (w_manifests (os_world s))) m" "m s0 = (r, s')"
    and "\<And>i u. uploads s0 i = Some u \<Longrightarrow> um_tenant (up_meta u) \<noteq> t \<Longrightarrow> uploads s' i = Some u"
  shows "spares t s0 s'"
proof -
  have "still_filed (others t s0) (w_manifests (os_world s0))" by (auto simp: still_filed_def others_def)
  from keepsD [OF assms(1) this assms(2)] show ?thesis using assms(3) by (auto simp: spares_def still_filed_def others_def)
qed

lemma put_confined:
  assumes "fresh_ids (ge_env ge) s"
  shows "confined t (put_object ge t b k body ns md tags) s"
proof -
  obtain r s' where run: "put_object ge t b k body ns md tags s = (r, s')" by fastforce
  have "os_uploads s' = os_uploads s" by (rule same_uploads [OF put_uploads run])
  then have "spares t s s'"
    by (intro spares_filed [OF put_still_filed [OF others_fresh [OF assms]] run]) (simp add: uploads_def)
  then show ?thesis by (simp add: confined_def run)
qed

lemma upload_confined:
  assumes fresh: "fresh_ids (ge_env ge) s" and sound: "sound_uploads s"
  shows "confined t (create_multipart_upload ge t b k ns md tags) s" "confined t (upload_part t i n body) s"
    "confined t (complete_multipart_upload ge t i) s" "confined t (abort_multipart_upload t i) s"
proof -
  note filed = uploads_still_filed [where F = "others t s" and ge = ge, OF others_fresh [OF fresh]]
  obtain r s' where run: "create_multipart_upload ge t b k ns md tags s = (r, s')" by fastforce
  have "uploads s' j = Some v" if "uploads s j = Some v" for j v
    using run
  proof (cases rule: create_outcome)
    case (2 i u out g)
    obtain n where "i = e_ids (ge_env ge) ''mpu'' n" using 2(7) by blast
    then have "j \<noteq> i" using fresh that by (auto simp: fresh_ids_def)
    then show ?thesis using that by (simp add: 2(6) uploads_def update_conv')
  qed (use that in simp)
  then show "confined t (create_multipart_upload ge t b k ns md tags) s" using spares_filed [OF filed(1) run] by (simp add: confined_def run)
next
  note filed = uploads_still_filed [where F = "others t s" and ge = ge, OF others_fresh [OF fresh]]
  obtain r s' where run: "upload_part t i n body s = (r, s')" by fastforce
  have "uploads s' j = Some v" if "uploads s j = Some v" "um_tenant (up_meta v) \<noteq> t" for j v
    using run
  proof (cases rule: part_outcome)
    case (2 u out)
    then have "j \<noteq> i" using that by auto
    then show ?thesis using that by (simp add: 2(7) uploads_def update_conv')
  qed (use that in simp)
  then show "confined t (upload_part t i n body) s" using spares_filed [OF filed(2) run] by (simp add: confined_def run)
next
  note filed = uploads_still_filed [where F = "others t s" and ge = ge, OF others_fresh [OF fresh]]
  obtain r s' where run: "complete_multipart_upload ge t i s = (r, s')" by fastforce
  have "uploads s' j = Some v" if "uploads s j = Some v" "um_tenant (up_meta v) \<noteq> t" for j v
    using run sound
  proof (cases rule: complete_outcome)
    case (2 u q s1)
    then have "j \<noteq> i" using that by auto
    then show ?thesis using that by (simp add: 2(5,6) uploads_def marked_def update_conv' delete_conv')
  qed (use that in simp)
  then show "confined t (complete_multipart_upload ge t i) s" using spares_filed [OF filed(3) run] by (simp add: confined_def run)
next
  note filed = uploads_still_filed [where F = "others t s" and ge = ge, OF others_fresh [OF fresh]]
  obtain r s' where run: "abort_multipart_upload t i s = (r, s')" by fastforce
  have "uploads s' j = Some v" if "uploads s j = Some v" "um_tenant (up_meta v) \<noteq> t" for j v
    using run
  proof (cases rule: abort_outcome)
    case (2 out)
    then show ?thesis using that by (cases "j = i") auto
  qed (use that in simp)
  then show "confined t (abort_multipart_upload t i) s" using spares_filed [OF filed(4) run] by (simp add: confined_def run)
qed

lemma own_manifest_pure:
  "own_manifest en t i s = (file_get_for_tenant (e_ctx en) i t (w_manifests (os_world s)), s)"
  by (simp add: effect_simps)

lemma keeps_own_manifest: "keeps I (own_manifest en t i)"
  by (simp add: keeps_def own_manifest_pure)

lemma pure_confined: "keeps (\<lambda>x. x = s) m \<Longrightarrow> confined t m s"
  unfolding keeps_def confined_def by (metis spares_refl surjective_pairing)

lemma keeps_look: "keeps I (in_world (inspect f))"
  by (simp add: keeps_def in_world_def on_gateway_def on_world_def zoom_def inspect_def)

lemma look_confined:
  "confined t (head_object ge t i) s" "confined t (get_object ge t i) s" "confined t (list_objects ge t b pre inc) s"
  unfolding head_object_def get_object_def list_objects_def thenS_def
  by (intro pure_confined keeps_bindS keeps_liftR keeps_retS keeps_own_manifest keeps_look)+

lemma range_still_filed:
  "keeps (\<lambda>s. still_filed F (w_manifests (os_world s))) (range_read ge t i a z)"
proof -
  have "keeps (\<lambda>w. w_manifests w = x) (rehydrate_manifest_range (ge_env ge) i a z)" for x
    unfolding rehydrate_manifest_range_def Let_def
    by (intro keeps_thenS keeps_bindS keeps_liftR keeps_inspect keeps_if keeps_retS keeps_raiseS traces_keep_manifests(3))
  from keeps_through_gateway [where P = "\<lambda>w. still_filed F (w_manifests w)", OF keeps_of_field [where P = "still_filed F", OF this]]
  show ?thesis unfolding range_read_def by (intro keeps_thenS keeps_bindS keeps_retS keeps_own_manifest)
qed

lemma range_confined: "confined t (range_read ge t i a z) s"
proof -
  have ups: "keeps (\<lambda>s. os_uploads s = x) (range_read ge t i a z)" for x
    unfolding range_read_def by (intro keeps_rules)
  obtain r s' where run: "range_read ge t i a z s = (r, s')" by fastforce
  have "os_uploads s' = os_uploads s" by (rule same_uploads [OF ups run])
  then show ?thesis using spares_filed [OF range_still_filed run, of t] by (simp add: confined_def uploads_def run)
qed

lemma delete_confined:
  assumes "own_names (w_manifests (os_world s))"
  shows "confined t (delete_object ge t i actor allow) s"
proof -
  obtain r s' where run: "delete_object ge t i actor allow s = (r, s')" by fastforce
  have ups: "uploads s' = uploads s" using same_uploads [OF delete_uploads run] by (simp add: uploads_def)
  have "file_view (w_manifests (os_world s')) j = Some m"
    if m: "file_view (w_manifests (os_world s)) j = Some m" "mf_tenant m \<noteq> t" for j m
    using run
  proof (cases rule: delete_cases)
    case (2 x)
    then show ?thesis using m denial_keeps(2) [OF 2(4)] by simp
  next
    case (3 x)
    obtain p s1 where put: "in_world (put_manifest (ge_env ge) (x\<lparr>mf_state := ''tombstoned''\<rparr>)) s = (p, s1)"
      and frame: "w_manifests (os_world s') = w_manifests (os_world s1)"
      by (rule tombstone_steps [OF 3(5)])
    have "file_view (w_manifests (os_world s)) i = Some x" using 3(1) by (simp add: file_manifests.get_iff)
    then have ji: "j \<noteq> i" using m 3(2) by auto
    have "mf_manifest_id x = i" by (rule own_name [OF assms 3(1)])
    then have "keeps (\<lambda>w. still_filed {(j, m)} (w_manifests w)) (put_manifest (ge_env ge) (x\<lparr>mf_state := ''tombstoned''\<rparr>))"
      using ji by (intro still_filed_put) simp
    from keepsD [OF keeps_through_gateway [where P = "\<lambda>w. still_filed {(j, m)} (w_manifests w)", OF this] _ put] m(1)
    show ?thesis by (simp add: still_filed_def frame)
  qed (use m in simp)
  then show ?thesis using ups by (simp add: confined_def run spares_def)
qed

text \<open>Every request to the S3 gateway stays within the tenant it acts for.\<close>

lemma handle_s3_confined:
  assumes "fresh_ids (ge_env ge) s" "sound_uploads s" "own_names (w_manifests (os_world s))" "payload_tenant (e_ctx (ge_env ge)) d = t"
  shows "confined t (handle_s3 ge path d) s"
  unfolding handle_s3_def Let_def assms(4)
  by (auto intro!: confined_lift confined_answers put_confined [OF assms(1)] upload_confined [OF assms(1,2)] look_confined range_confined
      delete_confined [OF assms(3)] split: prod.split) (simp add: confined_def retS_def)

text \<open>Bytes leave only through the two reads, and only of an own manifest.\<close>

definition own_bytes :: "ctx \<Rightarrow> string \<Rightarrow> pydict \<Rightarrow> json_files \<Rightarrow> http_response oio \<Rightarrow> object_store \<Rightarrow> bool" where
  "own_bytes c t d files m s = (\<forall>code b s'. m s = (Inr (code, BytesBody b), s') \<longrightarrow>
     (\<exists>i x. get_value d ''manifest_id'' = PStr i \<and> file_get c i files = Inr x \<and> mf_tenant x = t))"

lemma own_bytes_lift: "(\<And>x. v = Inr x \<Longrightarrow> own_bytes c t d fs (f x) s) \<Longrightarrow> own_bytes c t d fs (bindS (liftR v) f) s"
  by (cases v) (simp_all add: own_bytes_def bindS_def liftR_def)

lemma own_bytes_json: "own_bytes c t d fs (answer_json m) s"
  by (auto simp: own_bytes_def answer_json_def json_ok_response_def bindS_def retS_def split: prod.splits sum.splits)

lemma text_field_Inr: "(text_field d k = Inr i) = (get_value d k = PStr i)"
  by (auto simp: text_field_def item_def get_value_def effect_simps split: option.splits elim!: as_str.elims)

lemma own_bytes_read:
  assumes "text_field d ''manifest_id'' = Inr i"
  shows "own_bytes (e_ctx (ge_env ge)) t d (w_manifests (os_world s)) (answer_bytes (get_object ge t i)) s"
    "own_bytes (e_ctx (ge_env ge)) t d (w_manifests (os_world s)) (answer_bytes (range_read ge t i a z)) s"
  using assms unfolding own_bytes_def answer_bytes_def get_object_def range_read_def text_field_Inr
  by (auto simp: thenS_def bindS_def retS_def own_manifest_pure get_for_tenant_Inr split: prod.splits sum.splits)

lemma handle_s3_bytes:
  assumes "payload_tenant (e_ctx (ge_env ge)) d = t"
  shows "own_bytes (e_ctx (ge_env ge)) t d (w_manifests (os_world s)) (handle_s3 ge path d) s"
  unfolding handle_s3_def Let_def assms
  by (auto intro!: own_bytes_lift own_bytes_json own_bytes_read split: prod.split)
    (simp add: own_bytes_def retS_def not_found_def)

lemma error_bytes: "snd (error_response e) \<noteq> BytesBody b"
  by (cases e) (simp_all add: error_body_def Let_def)


lemma authenticated_by:
  assumes "authenticate_request authn perms rq m v = Inr q" "rq_path rq \<notin> {''/healthz'', ''/readyz''}"
  obtains tok where "authenticate authn tok = Inr q"
  using assms by (auto simp: authenticate_request_def effect_simps)

lemma only_principal:
  assumes "authenticate_request \<lparr>auth_disabled = False, auth_records = [(h, p)]\<rparr> perms rq m v = Inr q"
    "rq_path rq \<notin> {''/healthz'', ''/readyz''}"
  shows "q = p"
proof -
  obtain tok where "authenticate \<lparr>auth_disabled = False, auth_records = [(h, p)]\<rparr> tok = Inr q"
    by (rule authenticated_by [OF assms])
  then show ?thesis by (auto simp: authenticate_def split: option.splits if_splits)
qed


end
