(* ===== verification/Recovery.thy ===== *)
theory Recovery
  imports Approvals Verifiers
begin

text \<open>
  Backup and restore of the state directory (\<open>python/urp/disaster_recovery.py\<close>). A directory is the
  list of its files, named by their POSIX path below it; a name is a directory when files lie below
  it (empty directories, file modes and symbolic links on disk are not in the model). An archive is
  the list of its entries; \<open>ar_manifest\<close> is what \<open>json.loads\<close> makes of \<open>backup_manifest.json\<close>, and
  reading an entry may fail. The checkpoint of the SQLite files is an argument.
\<close>

subsection \<open>Directories\<close>

type_synonym tree = "(string \<times> bytes) list"

definition path_parts :: "string \<Rightarrow> string list" where
  "path_parts p = split_on (CHR ''/'') p"

definition is_directory :: "tree \<Rightarrow> string \<Rightarrow> bool" where
  "is_directory t p = list_ex (prefix (p @ ''/'')) (dkeys t)"

definition below_file :: "tree \<Rightarrow> string \<Rightarrow> bool" where
  "below_file t p = list_ex (\<lambda>q. prefix (q @ ''/'') p) (dkeys t)"

text \<open>\<open>atomic_write_bytes\<close>: a directory stays a directory, and nothing is written below a file.\<close>

definition write_file :: "string \<Rightarrow> bytes \<Rightarrow> (unit, tree) sres" where
  "write_file p b t = (if is_directory t p \<or> below_file t p then (Inl (OtherError ''OSError''), t) else (Inr (), dset p b t))"

definition by_path :: "string list \<Rightarrow> string list" where
  "by_path ps = sort_key path_parts ps"

subsection \<open>What is backed up\<close>

definition INCLUDED_STATE_PATHS :: "string list" where
  "INCLUDED_STATE_PATHS = [''approval_signing.key'', ''approvals'', ''cache'', ''checkpoints'', ''chunks'', ''kms_keys.json'',
     ''kms_master.key'', ''ledger.jsonl'', ''logs.jsonl'', ''manifests'', ''manifests.sqlite3'', ''plans'', ''plugins'', ''policies'',
     ''route_feedback.jsonl'', ''scheduler_jobs.jsonl'', ''traces.jsonl'', ''work_units'']"

definition BACKUP_VERSION :: string where
  "BACKUP_VERSION = ''urp.backup.v2''"

definition MAX_ARCHIVE_FILES :: nat where
  "MAX_ARCHIVE_FILES = 1000000"

definition MAX_ARCHIVE_BYTES :: nat where
  "MAX_ARCHIVE_BYTES = 1024 * 1024 * 1024 * 1024"

definition files_of :: "tree \<Rightarrow> string \<Rightarrow> string list" where
  "files_of t entry = (if is_directory t entry then by_path (filter (prefix (entry @ ''/'')) (dkeys t))
     else if entry \<in> set (dkeys t) then [entry] else [])"

definition ends_with :: "string \<Rightarrow> string \<Rightarrow> bool" where
  "ends_with s x = prefix (rev x) (rev s)"

definition backed_up :: "string option \<Rightarrow> string \<Rightarrow> bool" where
  "backed_up output p = (let name = last (path_parts p) in Some p \<noteq> output
     \<and> \<not> (ends_with name ''.lock'' \<or> ends_with name ''-wal'' \<or> ends_with name ''-shm'') \<and> \<not> prefix ''.backup'' name)"

text \<open>\<open>output\<close> is the path of the archive below the state directory, when it lies there.\<close>

definition state_files :: "tree \<Rightarrow> string option \<Rightarrow> string list" where
  "state_files t output = filter (backed_up output) (concat (map (files_of t) INCLUDED_STATE_PATHS))"

subsection \<open>Archives\<close>

record zip_entry =
  ze_name :: string
  ze_size :: nat
  ze_attr :: "32 word"
  ze_data :: "bytes res"

record archive =
  ar_entries :: "zip_entry list"
  ar_manifest :: "pyval res"

definition MANIFEST_NAME :: string where
  "MANIFEST_NAME = ''backup_manifest.json''"

definition is_symlink :: "zip_entry \<Rightarrow> bool" where
  "is_symlink e = (and (drop_bit 16 (ze_attr e)) 0xF000 = 0xA000)"

definition is_dir :: "zip_entry \<Rightarrow> bool" where
  "is_dir e = ends_with (ze_name e) ''/''"

definition manifest_mac :: "string \<Rightarrow> pydict \<Rightarrow> string" where
  "manifest_mac key m = hex_bytes (hmac_sha256 (utf8 key) (utf8 (py_str (get_value m ''content_hash''))))"

definition sign_manifest :: "string option \<Rightarrow> pydict \<Rightarrow> pydict" where
  "sign_manifest key m = (case given key of None \<Rightarrow> m
     | Some k \<Rightarrow> dset ''signature'' (PStr (manifest_mac k m)) (dset ''signature_algorithm'' (PStr ''hmac-sha256'') m))"

definition file_row :: "bytes \<Rightarrow> pyval" where
  "file_row b = PDict [(''sha256'', PStr (sha256_hex b)), (''size'', PInt (int (length b)))]"

definition bytes_at :: "tree \<Rightarrow> string \<Rightarrow> bytes" where
  "bytes_at t p = (case dget t p of Some b \<Rightarrow> b | None \<Rightarrow> [])"

definition file_table :: "tree \<Rightarrow> string list \<Rightarrow> pydict" where
  "file_table t ps = fold (\<lambda>p d. dset p (file_row (bytes_at t p)) d) ps []"

definition backup_manifest :: "string option \<Rightarrow> string \<Rightarrow> tree \<Rightarrow> string list \<Rightarrow> pydict" where
  "backup_manifest key now t ps = (let table = PDict (file_table t ps) in sign_manifest key
     [(''backup_version'', PStr BACKUP_VERSION), (''generated_at'', PStr now), (''state_format'', PStr ''local-durable-v1''),
      (''files'', table), (''content_hash'', PStr (stable_json_hash table))])"

text \<open>A regular file.\<close>

definition file_entry :: "string \<Rightarrow> bytes \<Rightarrow> zip_entry" where
  "file_entry p b = \<lparr>ze_name = p, ze_size = length b, ze_attr = 0x81800000, ze_data = Inr b\<rparr>"

definition manifest_entry :: "pydict \<Rightarrow> zip_entry" where
  "manifest_entry m = (let text = utf8 (dumps '', '' '': '' (PDict m)) in file_entry MANIFEST_NAME text)"

definition write_archive :: "pydict \<Rightarrow> tree \<Rightarrow> string list \<Rightarrow> archive" where
  "write_archive m t ps = \<lparr>ar_entries = map (\<lambda>p. file_entry p (bytes_at t p)) ps @ [manifest_entry m],
     ar_manifest = Inr (PDict (jnorm_dict m))\<rparr>"

definition export_state :: "(tree \<Rightarrow> tree res) \<Rightarrow> string option \<Rightarrow> string \<Rightarrow> string \<Rightarrow> string option \<Rightarrow> tree \<Rightarrow> (pydict \<times> archive) res" where
  "export_state checkpoint key now out output state = bindR (checkpoint state) (\<lambda>t.
     let ps = state_files t output; m = backup_manifest key now t ps in
     Inr (m @ [(''archive'', PStr out), (''file_count'', PInt (int (length (file_table t ps))))], write_archive m t ps))"

subsection \<open>Checking an archive\<close>

definition validate_backup :: "string option \<Rightarrow> pyval \<Rightarrow> pydict res" where
  "validate_backup key v = bindR (as_dict v) (\<lambda>m.
     bindR (guardR (py_eq (get_value m ''backup_version'') (PStr BACKUP_VERSION))
       (ValueError (''unsupported backup version: '' @ py_str (get_value m ''backup_version'')))) (\<lambda>_.
     case get_value m ''files'' of
       PDict files \<Rightarrow>
         bindR (guardR (py_eq (PStr (stable_json_hash (PDict files))) (get_value m ''content_hash''))
           (ValueError ''backup manifest content hash mismatch'')) (\<lambda>_.
         (case given key of
            None \<Rightarrow> Inr m
          | Some k \<Rightarrow>
              bindR (guardR (truthy (get_value m ''signature'')) (ValueError ''signed backup is required by URP_BACKUP_SIGNING_KEY'')) (\<lambda>_.
              bindR (compare_digest (py_str (get_value m ''signature'')) (manifest_mac k m)) (\<lambda>same.
              if same then Inr m else Inl (ValueError ''backup manifest signature mismatch'')))))
     | _ \<Rightarrow> Inl (ValueError ''backup manifest files must be an object'')))"

text \<open>\<open>PurePosixPath(name).parts\<close>, an absolute path aside.\<close>

definition pure_parts :: "string \<Rightarrow> string list" where
  "pure_parts name = filter (\<lambda>p. p \<noteq> [] \<and> p \<noteq> ''.'') (path_parts name)"

definition validate_archive_name :: "string \<Rightarrow> unit res" where
  "validate_archive_name name =
     guardR (\<not> (prefix ''/'' name \<or> pure_parts name = [] \<or> list_ex (\<lambda>p. p \<in> {[], ''.'', ''..''}) (pure_parts name)))
       (ValueError (''unsafe backup archive path: '' @ name))"

definition staged_path :: "string \<Rightarrow> string res" where
  "staged_path name = map_res (\<lambda>p. join ''/'' (drop 1 p)) (resolve_under [''state''] (join ''/'' (pure_parts name)))"

definition extract_entry :: "pydict \<Rightarrow> zip_entry \<Rightarrow> (unit, tree) sres" where
  "extract_entry files e =
     (if ze_name e = MANIFEST_NAME \<or> is_dir e then retS ()
      else thenS (liftR (validate_archive_name (ze_name e)))
        (thenS (liftR (guardR (\<not> is_symlink e) (ValueError (''backup archive contains a symbolic link: '' @ ze_name e))))
        (bindS (liftR (staged_path (ze_name e))) (\<lambda>target.
         bindS (liftR (ze_data e)) (\<lambda>data.
         bindS (liftR (item files (ze_name e))) (\<lambda>expected.
         bindS (liftR (bindR (at_key expected ''size'') py_int)) (\<lambda>size.
         bindS (liftR (if size \<noteq> int (length data) then Inr False
           else map_res (py_eq (PStr (sha256_hex data))) (at_key expected ''sha256''))) (\<lambda>same.
         if same then write_file target data else liftR (Inl (ValueError (''backup checksum mismatch: '' @ ze_name e)))))))))))"

fun extract_entries :: "pydict \<Rightarrow> zip_entry list \<Rightarrow> (unit, tree) sres" where
  "extract_entries files [] = retS ()"
| "extract_entries files (e # es) = thenS (extract_entry files e) (extract_entries files es)"

definition declared_names :: "zip_entry list \<Rightarrow> string list" where
  "declared_names es = filter (\<lambda>n. n \<noteq> MANIFEST_NAME \<and> \<not> ends_with n ''/'') (map ze_name es)"

definition extract_verified :: "string option \<Rightarrow> archive \<Rightarrow> (tree \<times> pydict) res" where
  "extract_verified key ar = (let es = ar_entries ar; names = map ze_name es in
     bindR (guardR (length es \<le> MAX_ARCHIVE_FILES) (ValueError ''backup archive contains too many entries'')) (\<lambda>_.
     bindR (guardR (sum_list (map ze_size es) \<le> MAX_ARCHIVE_BYTES) (ValueError ''backup archive exceeds the configured extraction limit'')) (\<lambda>_.
     bindR (guardR (distinct names) (ValueError ''backup archive contains duplicate entries'')) (\<lambda>_.
     bindR (guardR (MANIFEST_NAME \<in> set names) (ValueError ''backup archive is missing backup_manifest.json'')) (\<lambda>_.
     bindR (ar_manifest ar) (\<lambda>v. bindR (validate_backup key v) (\<lambda>m. bindR (as_dict (get_value m ''files'')) (\<lambda>files.
     bindR (guardR (set (dkeys files) = set (declared_names es)) (ValueError ''backup archive entries do not match the signed manifest'')) (\<lambda>_.
     case extract_entries files es [] of (r, staging) \<Rightarrow> map_res (\<lambda>_. (staging, m)) r)))))))))"

subsection \<open>Restoring\<close>

text \<open>The state directory and its predecessor, each of which may be absent.\<close>

record state_dirs =
  live :: "tree option"
  previous :: "tree option"

text \<open>\<open>_replace_state\<close>; \<open>renames\<close> says of its three renames whether the operating system performs them.\<close>

definition replace_state :: "bool \<times> bool \<times> bool \<Rightarrow> tree \<Rightarrow> (unit, state_dirs) sres" where
  "replace_state renames staging ds = (case renames of (away, into, back) \<Rightarrow>
     (case live ds of
        None \<Rightarrow> (if into then (Inr (), \<lparr>live = Some staging, previous = None\<rparr>)
                 else (Inl (OtherError ''OSError''), \<lparr>live = None, previous = None\<rparr>))
      | Some t \<Rightarrow>
          (if \<not> away then (Inl (OtherError ''OSError''), \<lparr>live = Some t, previous = None\<rparr>)
           else if into then (Inr (), \<lparr>live = Some staging, previous = None\<rparr>)
           else if back then (Inl (OtherError ''OSError''), \<lparr>live = Some t, previous = None\<rparr>)
           else (Inl (OtherError ''OSError''), \<lparr>live = None, previous = Some t\<rparr>))))"

definition merge_file :: "string \<times> bytes \<Rightarrow> (unit, tree) sres" where
  "merge_file source t = (case source of (p, b) \<Rightarrow> (case dget t p of
       Some old \<Rightarrow> (if sha256_hex old \<noteq> sha256_hex b
         then (Inl (OtherError (''restore would overwrite existing state: '' @ p)), t) else (Inr (), t))
     | None \<Rightarrow> write_file p b t))"

fun merge_files :: "tree \<Rightarrow> (unit, tree) sres" where
  "merge_files [] = retS ()"
| "merge_files (s # ss) = thenS (merge_file s) (merge_files ss)"

definition merge_state :: "tree \<Rightarrow> (unit, state_dirs) sres" where
  "merge_state staging ds = (case merge_files (sort_key (\<lambda>s. path_parts (fst s)) staging) (case live ds of Some t \<Rightarrow> t | None \<Rightarrow> []) of
     (r, t) \<Rightarrow> (r, ds\<lparr>live := Some t\<rparr>))"

definition import_state :: "bool \<times> bool \<times> bool \<Rightarrow> string option \<Rightarrow> archive \<Rightarrow> bool \<Rightarrow> (pydict, state_dirs) sres" where
  "import_state renames key ar replace ds = (case extract_verified key ar of
     Inl e \<Rightarrow> (Inl e, ds)
   | Inr (staging, m) \<Rightarrow> bindS (if replace then replace_state renames staging else merge_state staging)
       (\<lambda>_. liftR (bindR (as_dict (get_default m ''files'' (PDict []))) (\<lambda>files.
          Inr [(''imported'', PBool True), (''backup_version'', get_value m ''backup_version''),
            (''file_count'', PInt (int (length files))), (''mismatches'', PList []), (''replace'', PBool replace)]))) ds)"

subsection \<open>Paths\<close>

lemma split_on_not_Nil [simp]: "split_on c s \<noteq> []"
  by (induction s) (auto split: list.splits)

lemma join_split [simp]: "join [c] (split_on c s) = s"
proof (induction s)
  case (Cons a s)
  obtain w ws where "split_on c s = w # ws" by (cases "split_on c s") auto
  then show ?case using Cons by (cases ws) auto
qed simp

lemma split_join: "join ''/'' (path_parts p) = p"
  by (simp add: path_parts_def)

lemma split_on_first: "CHR ''/'' \<notin> set x \<Longrightarrow> split_on (CHR ''/'') (x @ CHR ''/'' # y) = x # split_on (CHR ''/'') y"
proof (induction x)
  case Nil
  obtain w ws where "split_on (CHR ''/'') y = w # ws" by (cases "split_on (CHR ''/'') y") auto
  then show ?case by simp
next
  case (Cons a x)
  then show ?case by (cases "a = CHR ''/''") auto
qed

lemma join_first: "\<exists>r. join ''/'' (x # xs) = x @ r \<and> (xs \<noteq> [] \<longrightarrow> (\<exists>r'. r = CHR ''/'' # r')) \<and> (xs = [] \<longrightarrow> r = [])"
  by (cases xs) auto

text \<open>The first part of a path says below which entry of the state directory it lies.\<close>

lemma first_part:
  assumes "CHR ''/'' \<notin> set x"
  shows "hd (path_parts p) = x \<longleftrightarrow> p = x \<or> prefix (x @ ''/'') p"
proof
  assume h: "hd (path_parts p) = x"
  obtain w ws where w: "path_parts p = w # ws" by (cases "path_parts p") (auto simp: path_parts_def)
  then have "p = join ''/'' (x # ws)" using h split_join [of p] by simp
  then show "p = x \<or> prefix (x @ ''/'') p" using join_first [of x ws] by (cases ws) (auto simp: prefix_def)
next
  assume "p = x \<or> prefix (x @ ''/'') p"
  then show "hd (path_parts p) = x"
  proof
    assume "p = x"
    then show ?thesis using assms by (simp add: path_parts_def split_on_no_sep)
  next
    assume "prefix (x @ ''/'') p"
    then obtain y where "p = x @ CHR ''/'' # y" by (auto simp: prefix_def)
    then show ?thesis by (simp add: path_parts_def split_on_first [OF assms])
  qed
qed

text \<open>A path as a directory listing gives it.\<close>

definition clean_path :: "string \<Rightarrow> bool" where
  "clean_path p = list_all (\<lambda>c. c \<notin> {[], ''.'', ''..''}) (path_parts p)"

lemma clean_parts: "clean_path p \<Longrightarrow> pure_parts p = path_parts p"
  by (auto simp: clean_path_def pure_parts_def list_all_iff filter_id_conv)

lemma clean_not_absolute: "clean_path p \<Longrightarrow> \<not> prefix ''/'' p"
  by (cases p) (auto simp: clean_path_def path_parts_def split: list.splits)

lemma clean_name: "clean_path p \<Longrightarrow> validate_archive_name p = Inr ()"
  using clean_not_absolute [of p]
  by (simp add: validate_archive_name_def clean_parts clean_path_def path_parts_def list_all_iff list_ex_iff guardR_def)

lemma clean_staged: "clean_path p \<Longrightarrow> staged_path p = Inr p"
proof -
  assume c: "clean_path p"
  have "resolve_acc [''state''] (path_parts p) = [''state''] @ path_parts p"
    using c by (subst resolve_acc_clean) (auto simp: clean_path_def list_all_iff)
  moreover have "resolve_path [''state''] = [''state'']" by code_simp
  ultimately have "resolve_under [''state''] p = Inr (''state'' # path_parts p)"
    using clean_not_absolute [OF c] resolve_path_base [of "[''state'']" "path_parts p"]
    by (simp add: resolve_under_def Let_def path_parts_def)
  then show ?thesis using split_join by (simp add: staged_path_def clean_parts [OF c])
qed

lemma no_final_slash: "clean_path p \<Longrightarrow> \<not> ends_with p ''/''"
proof
  assume c: "clean_path p" and "ends_with p ''/''"
  then obtain x where p: "p = x @ ''/''" by (auto simp: ends_with_def prefix_def)
  have "split_on (CHR ''/'') (x @ ''/'') = split_on (CHR ''/'') x @ [[]]" for x
  proof (induction x)
    case (Cons a x)
    obtain w ws where "split_on (CHR ''/'') x = w # ws" by (cases "split_on (CHR ''/'') x") auto
    then show ?case using Cons by simp
  qed simp
  then have "[] \<in> set (path_parts p)" by (simp add: p path_parts_def)
  then show False using c by (simp add: clean_path_def list_all_iff) blast
qed

subsection \<open>The files of a backup\<close>

text \<open>What a directory tree promises: each file once, by a clean path, and none below another.\<close>

definition sound_tree :: "tree \<Rightarrow> bool" where
  "sound_tree t = (distinct (dkeys t) \<and> list_all clean_path (dkeys t) \<and> list_all (\<lambda>p. \<not> below_file t p) (dkeys t))"

definition in_backup :: "string option \<Rightarrow> string \<Rightarrow> bool" where
  "in_backup output p = (backed_up output p \<and> hd (path_parts p) \<in> set INCLUDED_STATE_PATHS)"

lemma included_no_slash: "x \<in> set INCLUDED_STATE_PATHS \<Longrightarrow> CHR ''/'' \<notin> set x"
proof -
  have "list_all (\<lambda>x. CHR ''/'' \<notin> set x) INCLUDED_STATE_PATHS" by code_simp
  then show "x \<in> set INCLUDED_STATE_PATHS \<Longrightarrow> CHR ''/'' \<notin> set x" by (simp add: list_all_iff)
qed

lemma set_by_path [simp]: "set (by_path ps) = set ps" "distinct (by_path ps) = distinct ps"
  by (simp_all add: by_path_def)

lemma files_of_set:
  assumes "sound_tree t" "x \<in> set INCLUDED_STATE_PATHS"
  shows "set (files_of t x) = {p \<in> set (dkeys t). hd (path_parts p) = x}" "distinct (files_of t x)"
proof -
  note first = first_part [OF included_no_slash [OF assms(2)]]
  have own: "x \<notin> set (dkeys t)" if "is_directory t x"
  proof
    assume x: "x \<in> set (dkeys t)"
    from that obtain p where p: "p \<in> set (dkeys t)" "prefix (x @ ''/'') p" by (auto simp: is_directory_def list_ex_iff)
    then have "below_file t p" using x by (auto simp: below_file_def list_ex_iff)
    then show False using assms(1) p(1) by (simp add: sound_tree_def list_all_iff)
  qed
  have dir: "is_directory t x = (\<exists>p \<in> set (dkeys t). prefix (x @ ''/'') p)" by (simp add: is_directory_def list_ex_iff)
  have "p \<in> set (files_of t x) \<longleftrightarrow> p \<in> set (dkeys t) \<and> (p = x \<or> prefix (x @ ''/'') p)" for p
  proof (cases "is_directory t x")
    case True
    then have "p \<in> set (files_of t x) \<longleftrightarrow> p \<in> set (dkeys t) \<and> prefix (x @ ''/'') p" by (auto simp: files_of_def)
    then show ?thesis using own [OF True] by blast
  next
    case False
    then have "files_of t x = (if x \<in> set (dkeys t) then [x] else [])" by (simp add: files_of_def)
    then have "p \<in> set (files_of t x) \<longleftrightarrow> p \<in> set (dkeys t) \<and> p = x" by (cases "x \<in> set (dkeys t)"; simp; blast)
    then show ?thesis using False dir by blast
  qed
  then show "set (files_of t x) = {p \<in> set (dkeys t). hd (path_parts p) = x}"
    by (intro set_eqI) (simp only: first mem_Collect_eq)
  show "distinct (files_of t x)" using assms(1) by (simp add: files_of_def sound_tree_def)
qed

lemma distinct_concat_by:
  assumes "distinct xs" "\<And>x. x \<in> set xs \<Longrightarrow> distinct (f x)" "\<And>x y. x \<in> set xs \<Longrightarrow> y \<in> set (f x) \<Longrightarrow> g y = x"
  shows "distinct (concat (map f xs))"
  using assms
proof (induction xs)
  case (Cons x xs)
  have "y \<notin> set (f z)" if "y \<in> set (f x)" "z \<in> set xs" for y z
    using Cons.prems(1) Cons.prems(3) [of x y] Cons.prems(3) [of z y] that by auto
  then show ?case using Cons by auto
qed simp

lemma state_files_set:
  assumes "sound_tree t"
  shows "set (state_files t output) = {p \<in> set (dkeys t). in_backup output p}" "distinct (state_files t output)"
proof -
  show "set (state_files t output) = {p \<in> set (dkeys t). in_backup output p}"
    using files_of_set(1) [OF assms] by (auto simp: state_files_def in_backup_def)
  have "distinct INCLUDED_STATE_PATHS" by code_simp
  then have "distinct (concat (map (files_of t) INCLUDED_STATE_PATHS))"
    by (rule distinct_concat_by [where g = "\<lambda>p. hd (path_parts p)"]) (auto simp: files_of_set [OF assms])
  then show "distinct (state_files t output)" by (simp add: state_files_def)
qed

lemma manifest_outside: "\<not> in_backup output MANIFEST_NAME"
proof -
  have "hd (path_parts MANIFEST_NAME) \<notin> set INCLUDED_STATE_PATHS" by code_simp
  then show ?thesis by (simp add: in_backup_def)
qed

lemma file_table_map: "distinct ps \<Longrightarrow> file_table t ps = map (\<lambda>p. (p, file_row (bytes_at t p))) ps"
proof -
  have new: "dset k v d = d @ [(k, v)]" if "k \<notin> fst ` set d" for k and v :: pyval and d
    using that by (induction d) (auto simp: dset_def)
  have "fold (\<lambda>p d. dset p (file_row (bytes_at t p)) d) ps d = d @ map (\<lambda>p. (p, file_row (bytes_at t p))) ps"
    if "distinct ps" "set ps \<inter> fst ` set d = {}" for d
    using that by (induction ps arbitrary: d) (auto simp: new)
  then show "distinct ps \<Longrightarrow> ?thesis" by (simp add: file_table_def)
qed

lemma dget_file_table: "distinct ps \<Longrightarrow> p \<in> set ps \<Longrightarrow> dget (file_table t ps) p = Some (file_row (bytes_at t p))"
  by (simp add: file_table_map dget_def map_of_map_restrict)

subsection \<open>What a check accepts\<close>

lemma py_eq_str: "py_eq (PStr s) v \<Longrightarrow> v = PStr s"
  by (cases v) auto

lemma jnorm_row [simp]: "jnorm (file_row b) = file_row b"
  by (simp add: file_row_def insort_key_def)

text \<open>A manifest as \<open>export_state\<close> makes it passes the check with the same key.\<close>

lemma mac_hex: "\<exists>bs. manifest_mac k m = sha256_hex bs"
  by (auto simp: manifest_mac_def hmac_sha256_def sha256_hex_def Let_def)

lemma mac_nonempty [simp]: "manifest_mac k m \<noteq> []"
  using mac_hex [of k m] sha256_hex_length by (metis length_0_conv zero_neq_numeral)

lemma compare_mac [simp]: "compare_digest (manifest_mac k m) (manifest_mac k m) = Inr True"
  using mac_hex [of k m] hex_ascii by (auto simp: compare_digest_def list_all_iff)

lemma get_value_jnorm: "get_value (jnorm_dict d) k = jnorm (get_value d k)"
  by (simp add: get_value_def split: option.splits)

lemma backup_manifest_fields:
  "get_value (backup_manifest key now t ps) ''files'' = PDict (file_table t ps)"
  "get_value (backup_manifest key now t ps) ''backup_version'' = PStr BACKUP_VERSION"
  "get_value (backup_manifest key now t ps) ''content_hash'' = PStr (stable_json_hash (PDict (file_table t ps)))"
  by (simp_all add: backup_manifest_def sign_manifest_def get_value_def Let_def split: option.splits)

lemma mac_cong: "get_value m ''content_hash'' = get_value m' ''content_hash'' \<Longrightarrow> manifest_mac k m = manifest_mac k m'"
  by (simp add: manifest_mac_def)

lemma backup_signature:
  assumes "given key = Some k"
  shows "get_value (backup_manifest key now t ps) ''signature'' = PStr (manifest_mac k (jnorm_dict (backup_manifest key now t ps)))"
proof -
  have sig: "get_value (sign_manifest key m) ''signature'' = PStr (manifest_mac k m)" for m
    by (simp add: sign_manifest_def assms get_value_def)
  have "get_value (jnorm_dict (sign_manifest key m)) ''content_hash'' = get_value m ''content_hash''"
    if "jnorm (get_value m ''content_hash'') = get_value m ''content_hash''" for m
    using that by (simp add: sign_manifest_def assms get_value_jnorm) (simp add: get_value_def)
  then have "manifest_mac k (jnorm_dict (sign_manifest key m)) = manifest_mac k m"
    if "jnorm (get_value m ''content_hash'') = get_value m ''content_hash''" for m
    using that by (intro mac_cong)
  moreover have "get_value (x # xs) ''content_hash'' = get_value xs ''content_hash''" if "fst x \<noteq> ''content_hash''" for x xs
    using that by (cases x) (simp add: get_value_def)
  ultimately show ?thesis unfolding backup_manifest_def Let_def sig by (simp add: get_value_def)
qed

lemma own_manifest_valid:
  "validate_backup key (PDict (jnorm_dict (backup_manifest key now t ps))) = Inr (jnorm_dict (backup_manifest key now t ps))"
proof (cases "given key")
  case None
  then show ?thesis by (simp add: validate_backup_def guardR_def get_value_jnorm backup_manifest_fields jnorm_PDict del: jnorm.simps(3))
next
  case (Some k)
  then show ?thesis
    by (simp add: validate_backup_def guardR_def get_value_jnorm backup_manifest_fields jnorm_PDict backup_signature [OF Some]
        del: jnorm.simps(3))
qed

subsection \<open>Extraction and restoring\<close>

lemma dkeys_dom: "set (dkeys d) = dom (dget d)"
  by (simp add: dkeys_def dget_def [abs_def] dom_map_of_conv_image_fst)

declare dkeys_dset [simp]

lemma bytes_at_key: "p \<in> set (dkeys t) \<Longrightarrow> dget t p = Some (bytes_at t p)"
  by (auto simp: dkeys_dom bytes_at_def)

text \<open>A file of a sound directory can be written to any part of it.\<close>

lemma write_part:
  assumes "sound_tree t" "set (dkeys st) \<subseteq> set (dkeys t)" "p \<in> set (dkeys t)"
  shows "write_file p b st = (Inr (), dset p b st)"
proof -
  have free: "\<not> prefix (q @ ''/'') p'" if "p' \<in> set (dkeys t)" "q \<in> set (dkeys t)" for p' q
    using assms(1) that by (auto simp: sound_tree_def list_all_iff below_file_def list_ex_iff)
  then show ?thesis using assms(2,3) by (auto simp: write_file_def is_directory_def below_file_def list_ex_iff)
qed

lemma extract_own_entry:
  assumes "sound_tree t" "set (dkeys st) \<subseteq> set (dkeys t)" "p \<in> set (dkeys t)" "p \<noteq> MANIFEST_NAME"
    "item files p = Inr (file_row (bytes_at t p))"
  shows "extract_entry files (file_entry p (bytes_at t p)) st = (Inr (), dset p (bytes_at t p) st)"
proof -
  have c: "clean_path p" using assms(1,3) by (auto simp: sound_tree_def list_all_iff)
  have regular: "\<not> is_symlink (file_entry p b)" for b
  proof -
    have "and (drop_bit 16 (0x81800000 :: 32 word)) 0xF000 \<noteq> 0xA000" by code_simp
    then show ?thesis by (simp add: is_symlink_def file_entry_def)
  qed
  have "\<not> is_dir (file_entry p b)" for b using no_final_slash [OF c] by (simp add: is_dir_def file_entry_def)
  moreover have "at_key (file_row b) ''size'' = Inr (PInt (int (length b)))" "at_key (file_row b) ''sha256'' = Inr (PStr (sha256_hex b))" for b
    by (simp_all add: file_row_def item_def)
  ultimately show ?thesis
    using assms(4,5) regular
    by (simp add: extract_entry_def clean_name [OF c] clean_staged [OF c] thenS_def bindS_def liftR_def guardR_def
        write_part [OF assms(1-3)] file_entry_def)
qed

lemma extract_own:
  assumes "sound_tree t" "set ps \<subseteq> set (dkeys t)" "MANIFEST_NAME \<notin> set ps" "set (dkeys st) \<subseteq> set (dkeys t)"
    "\<And>p. p \<in> set ps \<Longrightarrow> item files p = Inr (file_row (bytes_at t p))"
  shows "\<exists>st'. extract_entries files (map (\<lambda>p. file_entry p (bytes_at t p)) ps @ [manifest_entry m]) st = (Inr (), st')
     \<and> (\<forall>p. dget st' p = (if p \<in> set ps then dget t p else dget st p))"
  using assms(2-)
proof (induction ps arbitrary: st)
  case Nil
  have "extract_entry files (manifest_entry m) st = (Inr (), st)"
    by (simp add: extract_entry_def manifest_entry_def Let_def file_entry_def retS_def)
  then show ?case by (simp add: thenS_def bindS_def retS_def)
next
  case (Cons p ps)
  have p: "p \<in> set (dkeys t)" "p \<noteq> MANIFEST_NAME" using Cons.prems by auto
  have one: "extract_entry files (file_entry p (bytes_at t p)) st = (Inr (), dset p (bytes_at t p) st)"
    by (rule extract_own_entry [OF assms(1) Cons.prems(3) p]) (simp add: Cons.prems(4))
  have "\<exists>st'. extract_entries files (map (\<lambda>p. file_entry p (bytes_at t p)) ps @ [manifest_entry m]) (dset p (bytes_at t p) st) = (Inr (), st')
     \<and> (\<forall>q. dget st' q = (if q \<in> set ps then dget t q else dget (dset p (bytes_at t p) st) q))"
    by (rule Cons.IH) (use Cons.prems p in auto)
  then show ?case using bytes_at_key [OF p(1)] by (auto simp: thenS_def one)
qed

lemma declared_own:
  assumes "\<And>p. p \<in> set ps \<Longrightarrow> clean_path p \<and> p \<noteq> MANIFEST_NAME"
  shows "declared_names (map (\<lambda>p. file_entry p (f p)) ps @ [manifest_entry m]) = ps"
  using assms by (simp add: declared_names_def manifest_entry_def Let_def file_entry_def comp_def filter_id_conv no_final_slash)

text \<open>An archive that \<open>export_state\<close> wrote is accepted under the same key, and stages the backed-up files.\<close>

lemma extract_exported:
  assumes "sound_tree t" "ps = state_files t output" "ar = write_archive m t ps" "m = backup_manifest key now t ps"
    "length t < MAX_ARCHIVE_FILES" "sum_list (map ze_size (ar_entries ar)) \<le> MAX_ARCHIVE_BYTES"
  shows "\<exists>st. extract_verified key ar = Inr (st, jnorm_dict m) \<and> (\<forall>p. dget st p = (if in_backup output p then dget t p else None))"
proof -
  have ps: "set ps = {p \<in> set (dkeys t). in_backup output p}" "distinct ps" using state_files_set [OF assms(1)] by (simp_all add: assms(2))
  have clean: "clean_path p \<and> p \<noteq> MANIFEST_NAME" if "p \<in> set ps" for p
    using that ps(1) manifest_outside assms(1) by (auto simp: sound_tree_def list_all_iff)
  let ?files = "jnorm_dict (file_table t ps)"
  have names: "map ze_name (ar_entries ar) = ps @ [MANIFEST_NAME]"
    by (simp add: assms(3) write_archive_def manifest_entry_def file_entry_def comp_def Let_def)
  have "length ps \<le> length (dkeys t)" using ps card_mono [of "set (dkeys t)" "set ps"] card_length [of "dkeys t"]
    by (auto simp: distinct_card [symmetric])
  then have few: "length (ar_entries ar) \<le> MAX_ARCHIVE_FILES" using assms(5) names by (metis dkeys_def length_append_singleton
      length_map less_Suc_eq_le not_less_eq order.strict_trans1 order_less_imp_le)
  have rows: "item ?files p = Inr (file_row (bytes_at t p))" if "p \<in> set ps" for p
    by (simp add: item_def dget_file_table [OF ps(2) that])
  have "set (dkeys ?files) = set ps" by (simp add: dkeys_def set_jnorm_dict file_table_map [OF ps(2)] image_image)
  then have table: "set (dkeys ?files) = set (declared_names (ar_entries ar))"
    using declared_own [OF clean] by (simp add: assms(3) write_archive_def)
  have entries: "ar_entries ar = map (\<lambda>p. file_entry p (bytes_at t p)) ps @ [manifest_entry m]"
    by (simp add: assms(3) write_archive_def)
  have "MANIFEST_NAME \<notin> set ps" "set ps \<subseteq> set (dkeys t)" "set (dkeys ([] :: tree)) \<subseteq> set (dkeys t)"
    using clean ps(1) by (auto simp: dkeys_def)
  from extract_own [OF assms(1) this(2,1,3) rows, of m] obtain st
    where st: "extract_entries ?files (ar_entries ar) [] = (Inr (), st)" "\<forall>p. dget st p = (if p \<in> set ps then dget t p else None)"
    unfolding entries by auto
  have man: "ar_manifest ar = Inr (PDict (jnorm_dict m))" by (simp add: assms(3) write_archive_def)
  have valid: "validate_backup key (PDict (jnorm_dict m)) = Inr (jnorm_dict m)" unfolding assms(4) by (rule own_manifest_valid)
  have files: "as_dict (get_value (jnorm_dict m) ''files'') = Inr ?files"
    by (simp add: assms(4) get_value_jnorm backup_manifest_fields jnorm_PDict del: jnorm.simps(3))
  have "distinct (map ze_name (ar_entries ar))" "MANIFEST_NAME \<in> set (map ze_name (ar_entries ar))"
    unfolding names using ps(2) clean by auto
  then have "extract_verified key ar = Inr (st, jnorm_dict m)"
    using few assms(6) table by (simp add: extract_verified_def guardR_def man valid files st(1) Let_def)
  moreover have "dget st p = (if in_backup output p then dget t p else None)" for p
    using st(2) ps(1) by (auto simp: dkeys_dom)
  ultimately show ?thesis by blast
qed

lemma merge_file_keeps: "merge_file e t = (r, t') \<Longrightarrow> dget t p = Some b \<Longrightarrow> dget t' p = Some b"
  by (auto simp: merge_file_def write_file_def split: prod.splits option.splits if_splits)

lemma merge_files_keep: "merge_files es t = (r, t') \<Longrightarrow> dget t p = Some b \<Longrightarrow> dget t' p = Some b"
proof (induction es arbitrary: t)
  case (Cons e es)
  obtain x t1 where one: "merge_file e t = (x, t1)" by fastforce
  then have keep: "dget t1 p = Some b" using merge_file_keeps Cons.prems(2) by blast
  show ?case
  proof (cases x)
    case (Inl y)
    then show ?thesis using Cons.prems(1) one keep by (simp add: thenS_def bindS_def)
  next
    case (Inr y)
    then show ?thesis using Cons.prems(1) Cons.IH [OF _ keep] one by (simp add: thenS_def)
  qed
qed (simp add: retS_def)

lemma merge_file_done:
  "merge_file (p, b) t = (Inr u, t') \<Longrightarrow> \<exists>c. dget t' p = Some c \<and> sha256_hex c = sha256_hex b"
  by (auto simp: merge_file_def write_file_def split: option.splits if_splits)

lemma merge_files_done:
  "merge_files es t = (Inr u, t') \<Longrightarrow> (p, b) \<in> set es \<Longrightarrow> \<exists>c. dget t' p = Some c \<and> sha256_hex c = sha256_hex b"
proof (induction es arbitrary: t)
  case (Cons e es)
  obtain x t1 where one: "merge_file e t = (Inr x, t1)" "merge_files es t1 = (Inr u, t')"
    using Cons.prems(1) by (auto simp: effect_simps)
  show ?case
  proof (cases "e = (p, b)")
    case True
    then obtain c where "dget t1 p = Some c" "sha256_hex c = sha256_hex b" using merge_file_done one(1) by blast
    then show ?thesis using merge_files_keep [OF one(2)] by blast
  next
    case False
    then show ?thesis using Cons.IH [OF one(2)] Cons.prems(2) by simp
  qed
qed simp

text \<open>A part of a sound directory merges into nothing as it is.\<close>

lemma merge_part:
  assumes "sound_tree t" "set (dkeys st) \<subseteq> set (dkeys t)" "distinct (map fst es)" "fst ` set es \<inter> set (dkeys st) = {}"
    "fst ` set es \<subseteq> set (dkeys t)"
  shows "\<exists>st'. merge_files es st = (Inr (), st') \<and> (\<forall>p. dget st' p = (case dget es p of Some b \<Rightarrow> Some b | None \<Rightarrow> dget st p))"
  using assms(2-)
proof (induction es arbitrary: st)
  case (Cons e es)
  obtain p b where e: "e = (p, b)" by fastforce
  have p: "p \<in> set (dkeys t)" "p \<notin> set (dkeys st)" using Cons.prems by (auto simp: e)
  then have "dget st p = None" by (auto simp: dkeys_dom)
  then have one: "merge_file e st = (Inr (), dset p b st)"
    using write_part [OF assms(1) Cons.prems(1) p(1)] by (simp add: merge_file_def e)
  obtain st' where st': "merge_files es (dset p b st) = (Inr (), st')"
     "\<forall>q. dget st' q = (case dget es q of Some c \<Rightarrow> Some c | None \<Rightarrow> dget (dset p b st) q)"
    using Cons.IH [of "dset p b st"] Cons.prems p by (auto simp: e)
  have "dget es p = None" using Cons.prems(2) by (simp add: e dget_def map_of_eq_None_iff)
  then have "\<forall>q. dget st' q = (case dget (e # es) q of Some c \<Rightarrow> Some c | None \<Rightarrow> dget st q)"
    using st'(2) by (auto simp: e split: option.splits)
  then show ?case using st'(1) by (intro exI [of _ st']) (simp add: thenS_def one)
qed (simp add: retS_def)

lemma distinct_sort_key: "distinct (map fst (sort_key f es)) = distinct (map fst es)"
  by (simp add: distinct_map)

lemma dget_sort_by: "distinct (map fst es) \<Longrightarrow> dget (sort_key f es) p = dget es p"
  using map_of_inject_set [of "sort_key f es" es] by (simp add: dget_def distinct_sort_key)

lemma extract_distinct: "extract_entries files es st = (r, st') \<Longrightarrow> distinct (dkeys st) \<Longrightarrow> distinct (dkeys st')"
proof (induction es arbitrary: st)
  case (Cons e es)
  obtain x st1 where one: "extract_entry files e st = (x, st1)" by fastforce
  have "distinct (dkeys st1)"
    using one Cons.prems(2)
    by (auto simp: extract_entry_def thenS_def bindS_def liftR_def retS_def write_file_def dset_def dkeys_def distinct_update
        split: prod.splits sum.splits if_splits)
  then show ?case using Cons one by (cases x) (auto simp: thenS_def bindS_def)
qed (simp add: retS_def)

lemma extract_verified_stages:
  assumes "extract_verified key ar = Inr (st, m)"
  shows "\<exists>files. get_value m ''files'' = PDict files \<and> extract_entries files (ar_entries ar) [] = (Inr (), st)
     \<and> set (dkeys files) = set (declared_names (ar_entries ar)) \<and> (\<exists>v. ar_manifest ar = Inr v \<and> validate_backup key v = Inr m)"
proof -
  have dict: "(as_dict v = Inr d) = (v = PDict d)" for v d by (cases v) auto
  have run: "((case p of (r, staging) \<Rightarrow> map_res (\<lambda>_. (staging, m')) r) = Inr (st, m)) = (p = (Inr (), st) \<and> m' = m)" for p and m' :: pydict
    by (cases p; cases "fst p") auto
  show ?thesis using assms unfolding extract_verified_def Let_def by (auto simp: effect_simps guardR_def dict run split: if_splits)
qed

text \<open>
  C13 (roundtrip). Backup and restore. What \<open>export_state\<close> writes, \<open>import_state\<close> accepts under the
  same signing key: with \<open>replace\<close> the state directory holds exactly the backed-up files with their
  bytes, and merging into a directory that does not exist yet gives the same files.
\<close>

theorem backup_roundtrip:
  assumes "export_state checkpoint key now out output s = Inr (info, ar)" "checkpoint s = Inr t" "sound_tree t"
    and "length t < MAX_ARCHIVE_FILES" "sum_list (map ze_size (ar_entries ar)) \<le> MAX_ARCHIVE_BYTES"
  shows "(\<exists>r restored. import_state (True, True, kept) key ar True ds = (Inr r, \<lparr>live = Some restored, previous = None\<rparr>)
       \<and> (\<forall>p. dget restored p = (if in_backup output p then dget t p else None)))
    \<and> (\<exists>r restored. import_state renames key ar False \<lparr>live = None, previous = None\<rparr> = (Inr r, \<lparr>live = Some restored, previous = None\<rparr>)
       \<and> (\<forall>p. dget restored p = (if in_backup output p then dget t p else None)))"
proof (rule conjI)
  define m where "m = backup_manifest key now t (state_files t output)"
  have ar: "ar = write_archive m t (state_files t output)" using assms(1,2) by (simp add: export_state_def m_def Let_def)
  obtain st where st: "extract_verified key ar = Inr (st, jnorm_dict m)" "dget st p = (if in_backup output p then dget t p else None)" for p
    using extract_exported [OF assms(3) refl ar m_def assms(4,5)] by blast
  obtain files where files: "get_value (jnorm_dict m) ''files'' = PDict files" "extract_entries files (ar_entries ar) [] = (Inr (), st)"
    using extract_verified_stages [OF st(1)] by blast
  have table: "as_dict (get_default (jnorm_dict m) ''files'' (PDict [])) = Inr files"
    using files(1) by (simp add: get_default_def get_value_def split: option.splits)
  show "\<exists>r restored. import_state (True, True, kept) key ar True ds = (Inr r, \<lparr>live = Some restored, previous = None\<rparr>)
       \<and> (\<forall>p. dget restored p = (if in_backup output p then dget t p else None))"
    using st(2) by (cases "live ds") (simp_all add: import_state_def st(1) replace_state_def bindS_def liftR_def table)
  have dist: "distinct (map fst st)" using extract_distinct [OF files(2)] by (simp add: dkeys_def)
  let ?es = "sort_key (\<lambda>s. path_parts (fst s)) st"
  have "p \<in> set (dkeys t)" if "p \<in> fst ` set st" for p
  proof -
    have "p \<in> dom (dget st)" using that dkeys_dom [of st] by (simp add: dkeys_def)
    then show ?thesis unfolding dkeys_dom by (auto simp: st(2) split: if_splits)
  qed
  then have "fst ` set ?es \<subseteq> set (dkeys t)" "distinct (map fst ?es)" using dist by (auto simp: distinct_sort_key)
  from merge_part [OF assms(3) _ this(2) _ this(1), of "[]"] obtain u
    where "merge_files ?es [] = (Inr (), u)" "\<forall>p. dget u p = (case dget ?es p of Some b \<Rightarrow> Some b | None \<Rightarrow> dget [] p)"
    by (auto simp: dkeys_def)
  then have u: "merge_files ?es [] = (Inr (), u)" "dget u p = dget ?es p" for p by (auto split: option.splits)
  then have "dget u p = (if in_backup output p then dget t p else None)" for p by (simp add: dget_sort_by [OF dist] st(2))
  then show "\<exists>r restored. import_state renames key ar False \<lparr>live = None, previous = None\<rparr> = (Inr r, \<lparr>live = Some restored, previous = None\<rparr>)
       \<and> (\<forall>p. dget restored p = (if in_backup output p then dget t p else None))"
    by (simp add: import_state_def st(1) merge_state_def u(1) bindS_def liftR_def table)
qed

subsection \<open>Integrity\<close>

lemma split_on_pieces: "x \<in> set (split_on c s) \<Longrightarrow> c \<notin> set x"
proof (induction s arbitrary: x)
  case (Cons a s)
  then show ?case by (cases "split_on c s") (auto split: if_splits)
qed simp

lemma split_of_join: "xs \<noteq> [] \<Longrightarrow> (\<And>x. x \<in> set xs \<Longrightarrow> CHR ''/'' \<notin> set x) \<Longrightarrow> split_on (CHR ''/'') (join ''/'' xs) = xs"
proof (induction xs)
  case step: (Cons x xs)
  show ?case
  proof (cases xs)
    case Nil
    then show ?thesis using step.prems(2) by (simp add: split_on_no_sep)
  next
    case (Cons y ys)
    then show ?thesis using step.IH step.prems(2) split_on_first [of x "join ''/'' xs"] by simp
  qed
qed simp

text \<open>The name of an entry that passes the check stays below the staging directory.\<close>

lemma valid_name_staged:
  assumes "validate_archive_name name = Inr ()" "staged_path name = Inr p"
  shows "clean_path p"
proof -
  have parts: "c \<noteq> [] \<and> c \<noteq> ''.'' \<and> c \<noteq> ''..'' \<and> CHR ''/'' \<notin> set c" if "c \<in> set (pure_parts name)" for c
    using that assms(1) split_on_pieces [of c "CHR ''/''" name]
    by (auto simp: validate_archive_name_def guardR_def list_ex_iff pure_parts_def path_parts_def split: if_splits)
  have ne: "pure_parts name \<noteq> []" using assms(1) by (simp add: validate_archive_name_def guardR_def split: if_splits)
  let ?q = "join ''/'' (pure_parts name)"
  have q: "path_parts ?q = pure_parts name" unfolding path_parts_def by (rule split_of_join [OF ne]) (use parts in blast)
  then have c: "clean_path ?q" using parts by (simp add: clean_path_def list_all_iff)
  have "staged_path name = staged_path ?q" by (simp add: staged_path_def clean_parts [OF c] q)
  then show ?thesis using assms(2) c by (simp add: clean_staged)
qed

definition vouched :: "pydict \<Rightarrow> string \<Rightarrow> bytes \<Rightarrow> bool" where
  "vouched files p b = (clean_path p \<and> (\<exists>name row. dget files name = Some row \<and> staged_path name = Inr p
     \<and> at_key row ''sha256'' = Inr (PStr (sha256_hex b)) \<and> bindR (at_key row ''size'') py_int = Inr (int (length b))))"

lemma extract_entry_vouched:
  assumes "extract_entry files e st = (Inr u, st')" "\<forall>p b. dget st p = Some b \<longrightarrow> vouched files p b" "dget st' p = Some b"
  shows "vouched files p b"
proof (cases "ze_name e = MANIFEST_NAME \<or> is_dir e")
  case True
  then show ?thesis using assms by (simp add: extract_entry_def retS_def)
next
  case False
  then obtain target data row size where ok: "validate_archive_name (ze_name e) = Inr ()" "staged_path (ze_name e) = Inr target"
      "dget files (ze_name e) = Some row" "bindR (at_key row ''size'') py_int = Inr (int (length data))"
      "at_key row ''sha256'' = Inr (PStr (sha256_hex data))"
    and w: "write_file target data st = (Inr u, st')"
    using assms(1)
    by (auto simp: extract_entry_def effect_simps item_def dest!: py_eq_str split: if_splits option.splits)
  then have "st' = dset target data st" by (simp add: write_file_def split: if_splits)
  moreover have "vouched files target data" using ok valid_name_staged [OF ok(1,2)] by (auto simp: vouched_def)
  ultimately show ?thesis using assms(2,3) by (auto split: if_splits)
qed

lemma extract_vouched:
  "extract_entries files es st = (Inr u, st') \<Longrightarrow> (\<forall>p b. dget st p = Some b \<longrightarrow> vouched files p b) \<Longrightarrow> dget st' p = Some b
   \<Longrightarrow> vouched files p b"
proof (induction es arbitrary: st)
  case (Cons e es)
  obtain x st1 where one: "extract_entry files e st = (Inr x, st1)" "extract_entries files es st1 = (Inr u, st')"
    using Cons.prems(1) by (auto simp: effect_simps)
  then show ?case using Cons.IH [OF one(2)] extract_entry_vouched [OF one(1) Cons.prems(2)] Cons.prems(3) by blast
qed (simp add: retS_def)

lemma validated:
  assumes "validate_backup key v = Inr m"
  shows "\<exists>files. get_value m ''files'' = PDict files \<and> get_value m ''content_hash'' = PStr (stable_json_hash (PDict files))"
    "given key = Some k \<Longrightarrow> py_str (get_value m ''signature'') = manifest_mac k m"
proof -
  obtain x where x: "as_dict v = Inr x" "py_eq (get_value x ''backup_version'') (PStr BACKUP_VERSION)"
    using assms by (auto simp: validate_backup_def effect_simps guardR_def split: if_splits)
  then obtain files where f: "get_value x ''files'' = PDict files"
    using assms by (cases "get_value x ''files''") (auto simp: validate_backup_def guardR_def)
  then have h: "get_value x ''content_hash'' = PStr (stable_json_hash (PDict files))"
    using assms x by (auto simp: validate_backup_def guardR_def effect_simps dest: py_eq_str split: if_splits)
  have m: "m = x" "given key = Some k \<Longrightarrow> compare_digest (py_str (get_value x ''signature'')) (manifest_mac k x) = Inr True" for k
    using assms by (auto simp: validate_backup_def guardR_def x f h effect_simps split: option.splits if_splits)
  show "\<exists>files. get_value m ''files'' = PDict files \<and> get_value m ''content_hash'' = PStr (stable_json_hash (PDict files))"
    using f h m(1) by blast
  show "given key = Some k \<Longrightarrow> py_str (get_value m ''signature'') = manifest_mac k m" using m compare_true by blast
qed

text \<open>
  C14 (safety). A tampered backup is refused. Whatever archive is restored, every file that reaches the
  staging directory lies below it and has the length and the SHA-256 the manifest's table gives it, the
  manifest's content hash is that of the table, and when a signing key is configured the signature is
  the HMAC of that hash under the key.
\<close>

theorem archive_integrity:
  assumes "extract_verified key ar = Inr (st, m)"
  shows "\<exists>files. get_value m ''files'' = PDict files \<and> get_value m ''content_hash'' = PStr (stable_json_hash (PDict files))
     \<and> (\<forall>k. given key = Some k \<longrightarrow> py_str (get_value m ''signature'') = manifest_mac k m)
     \<and> set (dkeys files) = set (declared_names (ar_entries ar)) \<and> (\<forall>p b. dget st p = Some b \<longrightarrow> vouched files p b)"
proof -
  obtain files v where f: "get_value m ''files'' = PDict files" "extract_entries files (ar_entries ar) [] = (Inr (), st)"
      "set (dkeys files) = set (declared_names (ar_entries ar))" "validate_backup key v = Inr m"
    using extract_verified_stages [OF assms] by blast
  have "vouched files p b" if "dget st p = Some b" for p b using extract_vouched [OF f(2) _ that] by simp
  then show ?thesis using f(1,3) validated [OF f(4)] by auto
qed

text \<open>
  C38 (safety). A merge overwrites nothing. Restoring without \<open>replace\<close>, accepted or refused at any
  point, leaves every file of the state directory with its bytes; and when it is accepted, every file
  of the archive is there, up to a collision of SHA-256.
\<close>

theorem merge_overwrites_nothing:
  assumes "import_state renames key ar False ds = (r, ds')" "live ds = Some t"
  shows "\<exists>t'. live ds' = Some t' \<and> (\<forall>p b. dget t p = Some b \<longrightarrow> dget t' p = Some b)
     \<and> (\<forall>info. r = Inr info \<longrightarrow> (\<exists>st m. extract_verified key ar = Inr (st, m)
          \<and> (\<forall>p b. dget st p = Some b \<longrightarrow> (\<exists>c. dget t' p = Some c \<and> sha256_hex c = sha256_hex b))))"
proof (cases "extract_verified key ar")
  case (Inl e)
  then show ?thesis using assms by (auto simp: import_state_def)
next
  case (Inr sm)
  obtain st m where sm: "sm = (st, m)" by fastforce
  obtain q t' where run: "merge_files (sort_key (\<lambda>s. path_parts (fst s)) st) t = (q, t')" by fastforce
  have merged: "merge_state st ds = (q, ds\<lparr>live := Some t'\<rparr>)" by (simp add: merge_state_def assms(2) run)
  have out: "live ds' = Some t'" "\<forall>info. r = Inr info \<longrightarrow> q = Inr ()"
    using assms(1) by (simp_all add: import_state_def Inr sm bindS_def merged liftR_def split: sum.splits) auto
  have "\<exists>c. dget t' p = Some c \<and> sha256_hex c = sha256_hex b" if "r = Inr info" "dget st p = Some b" for info p b
    using merge_files_done [of _ t "()" t' p b] run out(2) that by (auto simp: dget_def dest: map_of_SomeD)
  then show ?thesis using out(1) merge_files_keep [OF run] Inr sm by (intro exI [of _ t'] conjI allI impI exI [of _ st] exI [of _ m]) auto
qed

text \<open>
  Replacing loses nothing. A restore with \<open>replace\<close> either puts the verified archive in
  place, or it fails and the old state is still there: as the state directory or, when the operating
  system also refuses to move it back, as its predecessor.
\<close>

theorem replace_loses_nothing:
  assumes "import_state renames key ar True ds = (r, ds')"
  shows "(\<exists>info st m. r = Inr info \<and> extract_verified key ar = Inr (st, m) \<and> ds' = \<lparr>live = Some st, previous = None\<rparr>)
     \<or> (\<exists>e. r = Inl e) \<and> (live ds' = live ds \<or> previous ds' = live ds)"
proof (cases "extract_verified key ar")
  case (Inl e)
  then show ?thesis using assms by (auto simp: import_state_def)
next
  case (Inr sm)
  obtain st m where sm: "sm = (st, m)" by fastforce
  obtain files where "get_value m ''files'' = PDict files" using extract_verified_stages [OF Inr [unfolded sm]] by blast
  then have table: "as_dict (get_default m ''files'' (PDict [])) = Inr files"
    by (simp add: get_default_def get_value_def split: option.splits)
  obtain away into undo where ren: "renames = (away, into, undo)" by (metis prod_cases3)
  show ?thesis
    using assms Inr
    by (cases "live ds"; cases away; cases into; cases undo)
       (auto simp: sm ren import_state_def replace_state_def bindS_def liftR_def table)
qed

subsection \<open>What a restore leaves behind\<close>

text \<open>A refused merge has already written the files that come before the conflict.\<close>

lemma refused_merge_keeps_part:
  assumes "extract_verified key ar = Inr (st, m)" "sort_key (\<lambda>s. path_parts (fst s)) st = (p, b) # (q, c) # rest"
    "live ds = Some t" "dget t p = None" "\<not> is_directory t p" "\<not> below_file t p" "p \<noteq> q"
    "dget t q = Some old" "sha256_hex old \<noteq> sha256_hex c"
  shows "\<exists>e ds'. import_state renames key ar False ds = (Inl e, ds') \<and> live ds' = Some (dset p b t)"
  using assms by (auto simp: import_state_def merge_state_def merge_file_def write_file_def thenS_def bindS_def liftR_def)

text \<open>The uploads in progress and the edge cursor are not part of any backup.\<close>

lemma uploads_not_backed_up:
  "\<not> in_backup output ''tmp/multipart/mpu_1/meta.json''" "\<not> in_backup output ''edge_sync_cursor.json''"
proof -
  have "hd (path_parts ''tmp/multipart/mpu_1/meta.json'') \<notin> set INCLUDED_STATE_PATHS"
    "hd (path_parts ''edge_sync_cursor.json'') \<notin> set INCLUDED_STATE_PATHS" by code_simp+
  then show "\<not> in_backup output ''tmp/multipart/mpu_1/meta.json''" "\<not> in_backup output ''edge_sync_cursor.json''"
    by (simp_all add: in_backup_def)
qed

subsection \<open>A backup of one file\<close>

lemma length_utf8: "length (utf8 s) \<le> 2 * length s"
  by (induction s) (auto simp: utf8_def utf8_char_def Let_def)

lemma length_json_char: "length (json_char c) \<le> 6"
  by (simp add: json_char_def hex_escape_def Let_def)

lemma length_json_str: "length (json_str s) \<le> 2 + 6 * length s"
proof -
  have "length (concat (map json_char s)) \<le> 6 * length s"
    by (induction s) (use length_json_char in \<open>auto intro: add_mono\<close>)
  then show ?thesis by (simp add: json_str_def)
qed

definition one_file :: tree where
  "one_file = [(''logs.jsonl'', [1])]"

lemma one_file_sound: "sound_tree one_file" "state_files one_file None = [''logs.jsonl'']"
  by code_simp+

definition one_archive :: archive where
  "one_archive = write_archive (backup_manifest None ''now'' one_file [''logs.jsonl'']) one_file [''logs.jsonl'']"

lemma one_exported: "\<exists>info. export_state Inr None ''now'' ''b.zip'' None one_file = Inr (info, one_archive)"
  by (simp add: export_state_def one_archive_def one_file_sound Let_def)

lemma one_small: "length one_file < MAX_ARCHIVE_FILES" "sum_list (map ze_size (ar_entries one_archive)) \<le> MAX_ARCHIVE_BYTES"
proof -
  show "length one_file < MAX_ARCHIVE_FILES" by (simp add: one_file_def MAX_ARCHIVE_FILES_def)
  let ?m = "backup_manifest None ''now'' one_file [''logs.jsonl'']"
  have one: "show_int 1 = ''1''" by code_simp
  have "length (dumps '', '' '': '' (PDict ?m)) \<le> 2000"
    using one
      length_json_str [of "''backup_version''"] length_json_str [of "''urp.backup.v2''"] length_json_str [of "''content_hash''"] length_json_str [of "''files''"]
      length_json_str [of "''logs.jsonl''"] length_json_str [of "''sha256''"] length_json_str [of "''size''"] length_json_str [of "''generated_at''"]
      length_json_str [of "''now''"] length_json_str [of "''state_format''"] length_json_str [of "''local-durable-v1''"]
      length_json_str [of "sha256_hex [1]"] length_json_str [of "stable_json_hash (PDict (file_table one_file [''logs.jsonl'']))"]
    by (simp add: backup_manifest_def sign_manifest_def given_def file_table_map Let_def one_file_def bytes_at_def file_row_def
        BACKUP_VERSION_def stable_json_hash_def)
  then have "length (utf8 (dumps '', '' '': '' (PDict ?m))) \<le> 4000" using length_utf8 [of "dumps '', '' '': '' (PDict ?m)"] by linarith
  then show "sum_list (map ze_size (ar_entries one_archive)) \<le> MAX_ARCHIVE_BYTES"
    by (simp add: one_archive_def write_archive_def manifest_entry_def file_entry_def Let_def MAX_ARCHIVE_BYTES_def one_file_def bytes_at_def)
qed

theorem backup_roundtrip_witness:
  "\<exists>r t. import_state (True, True, True) None one_archive True \<lparr>live = Some [(''old'', [2])], previous = None\<rparr>
       = (Inr r, \<lparr>live = Some t, previous = None\<rparr>) \<and> dget t ''logs.jsonl'' = Some [1] \<and> dget t ''old'' = None"
proof -
  obtain info where e: "export_state Inr None ''now'' ''b.zip'' None one_file = Inr (info, one_archive)" using one_exported by blast
  have "in_backup None ''logs.jsonl''" by code_simp
  moreover have "dget one_file ''logs.jsonl'' = Some [1]" "dget one_file ''old'' = None" by (simp_all add: one_file_def)
  ultimately show ?thesis
    using conjunct1 [OF backup_roundtrip [where kept = True, OF e refl one_file_sound(1) one_small, where ds = "\<lparr>live = Some [(''old'', [2])], previous = None\<rparr>"]]
    by (metis (no_types, lifting))
qed

lemma one_extracted: "\<exists>st m. extract_verified None one_archive = Inr (st, m) \<and> dget st ''logs.jsonl'' = Some [1]"
proof -
  have "in_backup None ''logs.jsonl''" by code_simp
  moreover have "dget one_file ''logs.jsonl'' = Some [1]" by (simp add: one_file_def)
  ultimately show ?thesis
    using extract_exported [OF one_file_sound(1) one_file_sound(2) [symmetric] one_archive_def refl one_small] by metis
qed

theorem archive_integrity_witness:
  "\<exists>st m files. extract_verified None one_archive = Inr (st, m) \<and> get_value m ''files'' = PDict files \<and> vouched files ''logs.jsonl'' [1]"
proof -
  obtain st m where "extract_verified None one_archive = Inr (st, m)" "dget st ''logs.jsonl'' = Some [1]" using one_extracted by blast
  then show ?thesis using archive_integrity [of None one_archive st m] by blast
qed

theorem merge_overwrites_nothing_witness:
  "\<exists>t. live (snd (import_state (True, True, True) None one_archive False \<lparr>live = Some [(''logs.jsonl'', [2])], previous = None\<rparr>)) = Some t
     \<and> dget t ''logs.jsonl'' = Some [2]"
proof -
  obtain r ds where run: "import_state (True, True, True) None one_archive False \<lparr>live = Some [(''logs.jsonl'', [2])], previous = None\<rparr>
      = (r, ds)" by fastforce
  have "\<exists>t. live ds = Some t \<and> (\<forall>p b. dget [(''logs.jsonl'', [2])] p = Some b \<longrightarrow> dget t p = Some b)"
    using merge_overwrites_nothing [OF run, of "[(''logs.jsonl'', [2])]"] by auto
  then show ?thesis unfolding run by auto
qed

theorem replace_loses_nothing_witness:
  "previous (snd (import_state (True, False, False) None one_archive True \<lparr>live = Some one_file, previous = None\<rparr>)) = Some one_file
   \<or> live (snd (import_state (True, False, False) None one_archive True \<lparr>live = Some one_file, previous = None\<rparr>)) = Some one_file"
proof -
  obtain r ds where run: "import_state (True, False, False) None one_archive True \<lparr>live = Some one_file, previous = None\<rparr> = (r, ds)" by fastforce
  obtain st m where x: "extract_verified None one_archive = Inr (st, m)" using one_extracted by blast
  have "r \<noteq> Inr info" for info using run by (auto simp: import_state_def x replace_state_def bindS_def)
  then show ?thesis using replace_loses_nothing [OF run] run by auto
qed

end
