(* ===== verification/Plugins.thy ===== *)
theory Plugins
  imports Recovery Executor
begin

text \<open>
  Plugins: the descriptor check of \<open>python/urp/adapters.py\<close>, and the registry, the package checks and
  the loader of \<open>python/urp/plugins.py\<close>. A package is the list of its files with what \<open>json.loads\<close>
  makes of \<open>plugin.json\<close> (a JSON object); running its entry point is a parameter, which gives the
  descriptor and the operations (each callable or not) that \<open>urp_plugin_v1\<close> returns, if there is one.
\<close>

subsection \<open>Descriptors\<close>

record adapter_result =
  ar_accepted :: bool
  ar_details :: pydict

definition descriptor_keys :: "string list" where
  "descriptor_keys = [''api_version'', ''name'', ''version'', ''category'', ''capabilities'', ''contracts'', ''trust_level'', ''entrypoint'',
     ''entrypoint_sha256'', ''network_access'', ''operations'', ''default_enabled'']"

definition rejected :: "string \<Rightarrow> adapter_result" where
  "rejected complaint = \<lparr>ar_accepted = False, ar_details = [(''error'', PStr complaint)]\<rparr>"

text \<open>\<open>v in {...}\<close> for a set of strings: a value that cannot be hashed raises.\<close>

definition among :: "pyval \<Rightarrow> string list \<Rightarrow> bool res" where
  "among v names = (case v of PStr s \<Rightarrow> Inr (s \<in> set names) | PList _ \<Rightarrow> Inl (TypeError ''unhashable type'')
     | PDict _ \<Rightarrow> Inl (TypeError ''unhashable type'') | _ \<Rightarrow> Inr False)"

definition nonempty_text :: "pyval \<Rightarrow> bool" where
  "nonempty_text v = (case v of PStr s \<Rightarrow> s \<noteq> [] | _ \<Rightarrow> False)"

definition text_list :: "pyval \<Rightarrow> bool" where
  "text_list v = (case v of PList xs \<Rightarrow> xs \<noteq> [] \<and> list_all nonempty_text xs | _ \<Rightarrow> False)"

definition lower_hex :: "pyval \<Rightarrow> bool" where
  "lower_hex v = (case v of PStr s \<Rightarrow> length s = 64 \<and> list_all (\<lambda>c. c \<in> set ''0123456789abcdef'') s | _ \<Rightarrow> False)"

fun all_among :: "pyval list \<Rightarrow> string list \<Rightarrow> bool res" where
  "all_among [] names = Inr True"
| "all_among (v # vs) names = bindR (among v names) (\<lambda>ok. if ok then all_among vs names else Inr False)"

definition contract_list :: "pyval \<Rightarrow> bool res" where
  "contract_list v = (case v of PList xs \<Rightarrow> if xs = [] then Inr False else all_among xs (map contract_value contracts) | _ \<Rightarrow> Inr False)"

definition flag_value :: "pyval \<Rightarrow> bool" where
  "flag_value v = (case v of PBool b \<Rightarrow> True | _ \<Rightarrow> False)"

definition names_ok :: "pydict \<Rightarrow> string res" where
  "names_ok d = bindR (validate_identifier (py_str (get_value d ''name'')) ''plugin name'' None) (\<lambda>n.
     map_res (\<lambda>_. n) (validate_identifier (py_str (get_value d ''version'')) ''plugin version'' None))"

text \<open>The checks of the lists, the digest and the flags, in the order of the code.\<close>

definition descriptor_shape :: "pydict \<Rightarrow> adapter_result res" where
  "descriptor_shape d =
     (if \<not> text_list (get_value d ''capabilities'') then Inr (rejected ''capabilities_must_be_non_empty_strings'')
      else if \<not> text_list (get_value d ''operations'') then Inr (rejected ''operations_must_be_non_empty_strings'')
      else if \<not> nonempty_text (get_value d ''entrypoint'') then Inr (rejected ''entrypoint_must_be_a_string'')
      else if \<not> lower_hex (get_value d ''entrypoint_sha256'') then Inr (rejected ''entrypoint_sha256_must_be_lowercase_hex'')
      else bindR (contract_list (get_value d ''contracts'')) (\<lambda>ok.
        if \<not> ok then Inr (rejected ''invalid_contracts'')
        else if \<not> flag_value (get_value d ''network_access'') \<or> \<not> flag_value (get_value d ''default_enabled'')
          then Inr (rejected ''network_access_and_default_enabled_must_be_boolean'')
        else Inr \<lparr>ar_accepted = True, ar_details = [(''descriptor'', get_value d ''name'')]\<rparr>))"

definition validate_plugin_descriptor :: "pydict \<Rightarrow> adapter_result res" where
  "validate_plugin_descriptor d =
     (let missing = sort (filter (\<lambda>k. k \<notin> set (dkeys d)) descriptor_keys) in
      if missing \<noteq> [] then Inr \<lparr>ar_accepted = False, ar_details = [(''missing'', PList (map PStr missing))]\<rparr>
      else bindR (among (get_value d ''trust_level'') [''core'', ''certified'', ''community'', ''local'']) (\<lambda>trusted.
        if \<not> trusted then Inr (rejected ''invalid_trust_level'')
        else if get_value d ''api_version'' \<noteq> PStr ''urp.plugin.v1'' then Inr (rejected ''unsupported_api_version'')
        else bindR (among (get_value d ''category'') [''adapters'', ''classifiers'', ''transforms'', ''verifiers'']) (\<lambda>known.
          if \<not> known then Inr (rejected ''invalid_category'')
          else case names_ok d of Inl e \<Rightarrow> Inr (rejected (exc_text e)) | Inr _ \<Rightarrow> descriptor_shape d)))"

subsection \<open>The registry\<close>

record plugin_state =
  pg_files :: "(string \<times> pydict) list"
  pg_ledger :: ledger_rows

definition plugin_event :: "string \<times> string \<Rightarrow> string \<Rightarrow> string \<Rightarrow> pydict \<Rightarrow> ledger_event" where
  "plugin_event fresh tn actor details = (event_draft ''plugin.registered'' tn None)
     \<lparr>ev_actor := Some actor, ev_details := details, ev_event_id := fst fresh, ev_created_at := snd fresh\<rparr>"

definition plugin_register :: "schemas \<Rightarrow> ctx \<Rightarrow> string \<times> string \<Rightarrow> pydict \<Rightarrow> string \<Rightarrow> (pydict, plugin_state) sres" where
  "plugin_register sch c fresh d actor =
     bindS (liftR (validate_plugin_descriptor d)) (\<lambda>v.
     if \<not> ar_accepted v then liftR (Inl (ValueError (py_str (PDict (ar_details v)))))
     else bindS (liftR (validate_identifier (py_str (get_value d ''name'')) ''plugin name'' None)) (\<lambda>name.
       thenS (\<lambda>s. (Inr (), s\<lparr>pg_files := dset name (jfile_dict d) (pg_files s)\<rparr>))
       (bindS (liftR (as_str (get_default d ''tenant'' (PStr ''system'')))) (\<lambda>tn s.
        (case ledger_append sch c (plugin_event fresh tn actor [(''name'', PStr name), (''trust_level'', get_value d ''trust_level'')]) (pg_ledger s) of
           (r, rows) \<Rightarrow> (map_res (\<lambda>_. d) r, s\<lparr>pg_ledger := rows\<rparr>))))))"

definition plugin_list :: "plugin_state \<Rightarrow> pydict list" where
  "plugin_list s = map snd (sort_key (\<lambda>kv. fst kv @ ''.json'') (pg_files s))"

subsection \<open>Packages\<close>

record plugin_package =
  pk_files :: tree
  pk_descriptor :: "pydict res"

record plugin_runtime =
  rv_descriptor :: pydict
  rv_operations :: "(string \<times> bool) list"

record loaded_plugin =
  lp_descriptor :: pydict
  lp_operations :: "string list"

definition package_path :: "string \<Rightarrow> string option" where
  "package_path entry = (case resolve_under [''package''] entry of Inl e \<Rightarrow> None | Inr p \<Rightarrow> Some (join ''/'' (drop 1 p)))"

text \<open>The entry point's file, when it is a file of the package.\<close>

definition entry_code :: "tree \<Rightarrow> pydict \<Rightarrow> bytes option" where
  "entry_code t d = (case get_value d ''entrypoint'' of
     PStr e \<Rightarrow> if e = [] then None else (case package_path e of None \<Rightarrow> None | Some p \<Rightarrow> dget t p) | _ \<Rightarrow> None)"

definition entrypoint_contained :: "tree \<Rightarrow> pydict \<Rightarrow> bool" where
  "entrypoint_contained t d = (entry_code t d \<noteq> None)"

definition entrypoint_digest_matches :: "tree \<Rightarrow> pydict \<Rightarrow> bool" where
  "entrypoint_digest_matches t d = (case entry_code t d of None \<Rightarrow> False
     | Some code \<Rightarrow> PStr (sha256_hex code) = get_value d ''entrypoint_sha256'')"

definition be32 :: "nat \<Rightarrow> bytes" where
  "be32 n = [of_nat (n div 2 ^ 24), of_nat (n div 2 ^ 16), of_nat (n div 2 ^ 8), of_nat n]"

definition package_digest :: "tree \<Rightarrow> string" where
  "package_digest t = sha256_hex (concat (map (\<lambda>p. let r = utf8 p in be32 (length r) @ r @ bytes_at t p) (by_path (dkeys t))))"

definition descriptor_operations :: "pydict \<Rightarrow> string list" where
  "descriptor_operations d = (case get_value d ''operations'' of PList xs \<Rightarrow> concat (map (\<lambda>v. case v of PStr s \<Rightarrow> [s] | _ \<Rightarrow> []) xs) | _ \<Rightarrow> [])"

fun runtime_matches :: "pydict \<Rightarrow> pydict \<Rightarrow> string list \<Rightarrow> unit res" where
  "runtime_matches rd d [] = Inr ()"
| "runtime_matches rd d (k # ks) = (if py_eq (get_value rd k) (get_value d k) then runtime_matches rd d ks
     else Inl (ValueError (''runtime descriptor mismatch: '' @ k)))"

definition load_plugin_package :: "(bytes \<Rightarrow> plugin_runtime option res) \<Rightarrow> bool \<Rightarrow> plugin_package \<Rightarrow> loaded_plugin res" where
  "load_plugin_package exec allow_local pk =
     bindR (if ''plugin.json'' \<in> set (dkeys (pk_files pk)) then pk_descriptor pk else Inl (FileNotFoundError ''plugin.json'')) (\<lambda>d.
     bindR (validate_plugin_descriptor d) (\<lambda>v.
     bindR (guardR (ar_accepted v) (ValueError (''invalid plugin descriptor: '' @ py_str (PDict (ar_details v))))) (\<lambda>_.
     bindR (guardR (get_value d ''trust_level'' \<noteq> PStr ''community'')
       (ValueError ''community plugins require an out-of-process sandbox and cannot be loaded in-process'')) (\<lambda>_.
     bindR (guardR (get_value d ''trust_level'' \<noteq> PStr ''local'' \<or> allow_local) (ValueError ''loading a local plugin requires allow_local=True'')) (\<lambda>_.
     bindR (guardR (entrypoint_contained (pk_files pk) d \<and> entrypoint_digest_matches (pk_files pk) d)
       (ValueError ''plugin entrypoint containment or integrity check failed'')) (\<lambda>_.
     bindR (case entry_code (pk_files pk) d of None \<Rightarrow> Inr None | Some code \<Rightarrow> exec code) (\<lambda>r.
     case r of None \<Rightarrow> Inl (ValueError ''plugin entrypoint must export urp_plugin_v1()'')
     | Some rt \<Rightarrow>
         bindR (runtime_matches (rv_descriptor rt) d [''api_version'', ''name'', ''version'', ''category'']) (\<lambda>_.
         bindR (guardR (list_all snd (rv_operations rt)) (ValueError ''plugin runtime operations must be callable'')) (\<lambda>_.
         let missing = sort (filter (\<lambda>x. x \<notin> fst ` set (rv_operations rt)) (remdups (descriptor_operations d))) in
         bindR (guardR (missing = []) (ValueError (''plugin runtime is missing declared operations: '' @ py_repr (PList (map PStr missing))))) (\<lambda>_.
         Inr \<lparr>lp_descriptor = d, lp_operations = map fst (rv_operations rt)\<rparr>))))))))))"

definition plugin_invoke :: "loaded_plugin \<Rightarrow> (string \<Rightarrow> 'a res) \<Rightarrow> string \<Rightarrow> 'a res" where
  "plugin_invoke p run operation =
     (if operation \<notin> set (descriptor_operations (lp_descriptor p)) \<or> operation \<notin> set (lp_operations p)
      then Inl (ValueError (''plugin operation is not declared: '' @ operation)) else run operation)"

subsection \<open>Conformance of a package\<close>

definition REQUIRED_PLUGIN_FILES :: "string list" where
  "REQUIRED_PLUGIN_FILES = [''plugin.yaml'', ''plugin.json'', ''README.md'', ''security.md'']"

definition REQUIRED_PLUGIN_DIRS :: "string list" where
  "REQUIRED_PLUGIN_DIRS = [''src'', ''tests'', ''conformance'', ''examples'']"

definition exists_in :: "tree \<Rightarrow> string \<Rightarrow> bool" where
  "exists_in t name = (name \<in> set (dkeys t) \<or> is_directory t name)"

text \<open>The checks that concern the running plugin.\<close>

definition runtime_checks :: "(bytes \<Rightarrow> plugin_runtime option res) \<Rightarrow> plugin_package \<Rightarrow> pydict \<Rightarrow> bool \<Rightarrow> (string \<times> bool) list" where
  "runtime_checks exec pk d static =
     (if static then
        (case load_plugin_package exec True pk of Inl e \<Rightarrow> [(''runtime_loads'', False)]
         | Inr p \<Rightarrow> [(''runtime_loads'', True), (''declared_operations_callable'', set (descriptor_operations d) \<subseteq> set (lp_operations p))])
      else [(''runtime_loads'', False), (''declared_operations_callable'', False)])"

definition package_checks :: "(bytes \<Rightarrow> plugin_runtime option res) \<Rightarrow> plugin_package \<Rightarrow> (string \<times> bool) list res" where
  "package_checks exec pk = (let t = pk_files pk; described = exists_in t ''plugin.json'' in
     bindR (if described then pk_descriptor pk else Inr []) (\<lambda>d.
     bindR (if described then map_res ar_accepted (validate_plugin_descriptor d) else Inr False) (\<lambda>valid.
     let contained = entrypoint_contained t d; digest = entrypoint_digest_matches t d in
     Inr (map (\<lambda>n. (''has_'' @ n, exists_in t n)) REQUIRED_PLUGIN_FILES @ map (\<lambda>n. (''has_'' @ n @ ''/'', is_directory t n)) REQUIRED_PLUGIN_DIRS
       @ [(''descriptor_valid'', valid), (''entrypoint_contained'', contained), (''entrypoint_digest_matches'', digest)]
       @ runtime_checks exec pk d (valid \<and> contained \<and> digest) @ [(''package_digest_present'', package_digest t \<noteq> [])]))))"

definition package_conforms :: "(bytes \<Rightarrow> plugin_runtime option res) \<Rightarrow> plugin_package \<Rightarrow> bool res" where
  "package_conforms exec pk = map_res (list_all snd) (package_checks exec pk)"

subsection \<open>The gate\<close>

lemma among_Inr: "(among v names = Inr True) = (\<exists>s. v = PStr s \<and> s \<in> set names)"
  by (cases v) (auto simp: among_def)

lemma rejected_out [simp]: "\<not> ar_accepted (rejected c)"
  by (simp add: rejected_def)

lemma if_rejected: "(if \<not> ok then Inr (rejected c) else r) = Inr v \<Longrightarrow> ar_accepted v \<Longrightarrow> ok \<and> r = Inr v"
  by (auto split: if_splits)

lemma accepted_shape:
  assumes "descriptor_shape d = Inr v" "ar_accepted v"
  shows "text_list (get_value d ''operations'') \<and> nonempty_text (get_value d ''entrypoint'') \<and> lower_hex (get_value d ''entrypoint_sha256'')"
proof -
  note 1 = if_rejected [OF assms(1) [unfolded descriptor_shape_def] assms(2)]
  note 2 = if_rejected [OF 1 [THEN conjunct2] assms(2)]
  note 3 = if_rejected [OF 2 [THEN conjunct2] assms(2)]
  show ?thesis using 2 3 if_rejected [OF 3 [THEN conjunct2] assms(2)] by blast
qed

lemma accepted_checks:
  assumes "validate_plugin_descriptor d = Inr v" "ar_accepted v"
  shows "among (get_value d ''trust_level'') [''core'', ''certified'', ''community'', ''local''] = Inr True"
    "\<exists>n. names_ok d = Inr n" "descriptor_shape d = Inr v"
proof -
  let ?t = "among (get_value d ''trust_level'') [''core'', ''certified'', ''community'', ''local'']"
  let ?c = "among (get_value d ''category'') [''adapters'', ''classifiers'', ''transforms'', ''verifiers'']"
  have absent: "(if xs \<noteq> [] then Inr \<lparr>ar_accepted = False, ar_details = f xs\<rparr> else r) = Inr v \<Longrightarrow> r = Inr v" for xs :: "string list" and f r
    using assms(2) by (auto split: if_splits)
  have "bindR ?t (\<lambda>trusted. if \<not> trusted then Inr (rejected ''invalid_trust_level'')
        else if get_value d ''api_version'' \<noteq> PStr ''urp.plugin.v1'' then Inr (rejected ''unsupported_api_version'')
        else bindR ?c (\<lambda>known. if \<not> known then Inr (rejected ''invalid_category'')
          else case names_ok d of Inl e \<Rightarrow> Inr (rejected (exc_text e)) | Inr _ \<Rightarrow> descriptor_shape d)) = Inr v"
    using assms(1) unfolding validate_plugin_descriptor_def Let_def by (rule absent)
  then obtain tr where t: "?t = Inr tr" "tr \<and> (if get_value d ''api_version'' \<noteq> PStr ''urp.plugin.v1'' then Inr (rejected ''unsupported_api_version'')
        else bindR ?c (\<lambda>known. if \<not> known then Inr (rejected ''invalid_category'')
          else case names_ok d of Inl e \<Rightarrow> Inr (rejected (exc_text e)) | Inr _ \<Rightarrow> descriptor_shape d)) = Inr v"
    unfolding bindR_Inr [where r = ?t] using if_rejected [OF _ assms(2)] by blast
  then show "?t = Inr True" by simp
  have "bindR ?c (\<lambda>known. if \<not> known then Inr (rejected ''invalid_category'')
          else case names_ok d of Inl e \<Rightarrow> Inr (rejected (exc_text e)) | Inr _ \<Rightarrow> descriptor_shape d) = Inr v"
    using if_rejected [OF t(2) [THEN conjunct2] assms(2)] by blast
  then have last: "(case names_ok d of Inl e \<Rightarrow> Inr (rejected (exc_text e)) | Inr _ \<Rightarrow> descriptor_shape d) = Inr v"
    unfolding bindR_Inr using if_rejected [OF _ assms(2)] by blast
  then show "\<exists>n. names_ok d = Inr n" "descriptor_shape d = Inr v" using assms(2) by (cases "names_ok d"; auto)+
qed

text \<open>What an accepted descriptor says.\<close>

lemma accepted_descriptor:
  assumes "validate_plugin_descriptor d = Inr v" "ar_accepted v"
  shows "text_list (get_value d ''operations'')" "lower_hex (get_value d ''entrypoint_sha256'')"
    "validate_identifier (py_str (get_value d ''name'')) ''plugin name'' None = Inr (py_str (get_value d ''name''))"
    "\<exists>s. get_value d ''trust_level'' = PStr s \<and> s \<in> {''core'', ''certified'', ''community'', ''local''}"
  using accepted_shape [OF accepted_checks(3) [OF assms] assms(2)] accepted_checks(1,2) [OF assms]
  by (auto simp: names_ok_def effect_simps among_Inr dest: validate_identifier_Inr)

lemma runtime_missing: "sort (filter (\<lambda>x. x \<notin> A) (remdups xs)) = [] \<Longrightarrow> set xs \<subseteq> A"
proof -
  assume "sort (filter (\<lambda>x. x \<notin> A) (remdups xs)) = []"
  then have "set (filter (\<lambda>x. x \<notin> A) (remdups xs)) = {}" by (metis set_sort list.set(1))
  then show ?thesis by auto
qed

lemma loaded_checks:
  assumes "load_plugin_package exec allow_local pk = Inr p"
  shows "\<exists>v code rt. validate_plugin_descriptor (lp_descriptor p) = Inr v \<and> ar_accepted v
    \<and> get_value (lp_descriptor p) ''trust_level'' \<noteq> PStr ''community''
    \<and> (get_value (lp_descriptor p) ''trust_level'' \<noteq> PStr ''local'' \<or> allow_local)
    \<and> entry_code (pk_files pk) (lp_descriptor p) = Some code \<and> entrypoint_digest_matches (pk_files pk) (lp_descriptor p)
    \<and> exec code = Inr (Some rt) \<and> lp_operations p = map fst (rv_operations rt) \<and> list_all snd (rv_operations rt)
    \<and> set (descriptor_operations (lp_descriptor p)) \<subseteq> set (lp_operations p)"
proof -
  have guard: "(guardR b e = Inr u) = b" for b e u by (simp add: guardR_def)
  from assms show ?thesis
    unfolding load_plugin_package_def Let_def bindR_Inr guard entrypoint_contained_def
    by (auto split: option.splits simp: bindR_Inr guard simp del: runtime_matches.simps dest!: runtime_missing)
qed


subsection \<open>Registration\<close>

lemma register_parts:
  assumes "validate_plugin_descriptor d = Inr v" "ar_accepted v" "get_default d ''tenant'' (PStr ''system'') = PStr tn"
  defines "name \<equiv> py_str (get_value d ''name'')"
  shows "plugin_register sch c fresh d actor s =
     (case ledger_append sch c (plugin_event fresh tn actor [(''name'', PStr name), (''trust_level'', get_value d ''trust_level'')]) (pg_ledger s) of
        (r, rows) \<Rightarrow> (map_res (\<lambda>_. d) r, \<lparr>pg_files = dset name (jfile_dict d) (pg_files s), pg_ledger = rows\<rparr>))"
  using accepted_descriptor(3) [OF assms(1,2)] assms(1-3)
  by (simp add: plugin_register_def bindS_def liftR_def thenS_def name_def split: prod.splits)

text \<open>A rejected descriptor changes nothing.\<close>

lemma rejected_registration:
  "validate_plugin_descriptor d = Inr v \<Longrightarrow> \<not> ar_accepted v \<Longrightarrow>
   plugin_register sch c fresh d actor s = (Inl (ValueError (py_str (PDict (ar_details v)))), s)"
  by (simp add: plugin_register_def bindS_def liftR_def)

text \<open>
  The descriptor is written before the event: a principal of another tenant than the one the descriptor
  names (\<open>system\<close> by default) gets an error, but the plugin is registered and no event tells of it.
\<close>

lemma unaudited_registration:
  assumes "validate_plugin_descriptor d = Inr v" "ar_accepted v" "dget d ''tenant'' = None" "bound_tenant c = Some t" "t \<noteq> ''system''"
  shows "\<exists>e s'. plugin_register sch c fresh d actor s = (Inl e, s') \<and> pg_ledger s' = pg_ledger s
     \<and> dget (pg_files s') (py_str (get_value d ''name'')) = Some (jfile_dict d)"
proof -
  have "get_default d ''tenant'' (PStr ''system'') = PStr ''system''" using assms(3) by (simp add: get_default_def)
  moreover have "ledger_append sch c (plugin_event fresh ''system'' actor x) rows = (Inl (tenant_mismatch t ''system''), rows)" for x rows
    using assms(4,5) by (simp add: ledger_append_def thenS_def bindS_def liftR_def enforce_tenant_def plugin_event_def event_draft_def)
  ultimately show ?thesis using register_parts [OF assms(1,2), where tn = "''system''"] by simp
qed

subsection \<open>A package\<close>

definition echo_code :: bytes where
  "echo_code = [101, 99, 104, 111]"

definition echo_descriptor :: pydict where
  "echo_descriptor = [(''api_version'', PStr ''urp.plugin.v1''), (''name'', PStr ''echo''), (''version'', PStr ''1.0''),
     (''category'', PStr ''adapters''), (''capabilities'', PList [PStr ''echo'']), (''contracts'', PList [PStr ''exact_bytes'']),
     (''trust_level'', PStr ''local''), (''entrypoint'', PStr ''src/echo.py''), (''entrypoint_sha256'', PStr (sha256_hex echo_code)),
     (''network_access'', PBool False), (''operations'', PList [PStr ''run'']), (''default_enabled'', PBool False)]"

definition echo_package :: plugin_package where
  "echo_package = \<lparr>pk_files = [(''plugin.json'', []), (''src/echo.py'', echo_code)], pk_descriptor = Inr echo_descriptor\<rparr>"

definition echo_runtime :: plugin_runtime where
  "echo_runtime = \<lparr>rv_descriptor = echo_descriptor, rv_operations = [(''run'', True)]\<rparr>"

lemma digest_hex: "lower_hex (PStr (sha256_hex b))"
  using sha256_hex_chars [of _ b] by (auto simp: lower_hex_def list_all_iff hex_chars_def)

lemma echo_fields:
  "get_value echo_descriptor ''trust_level'' = PStr ''local''" "get_value echo_descriptor ''api_version'' = PStr ''urp.plugin.v1''"
  "get_value echo_descriptor ''category'' = PStr ''adapters''" "get_value echo_descriptor ''name'' = PStr ''echo''"
  "get_value echo_descriptor ''version'' = PStr ''1.0''" "get_value echo_descriptor ''capabilities'' = PList [PStr ''echo'']"
  "get_value echo_descriptor ''operations'' = PList [PStr ''run'']" "get_value echo_descriptor ''entrypoint'' = PStr ''src/echo.py''"
  "get_value echo_descriptor ''entrypoint_sha256'' = PStr (sha256_hex echo_code)"
  "get_value echo_descriptor ''contracts'' = PList [PStr ''exact_bytes'']" "get_value echo_descriptor ''network_access'' = PBool False"
  "get_value echo_descriptor ''default_enabled'' = PBool False"
  by (simp_all add: echo_descriptor_def get_value_def)

lemma echo_valid: "\<exists>v. validate_plugin_descriptor echo_descriptor = Inr v \<and> ar_accepted v"
proof -
  have keys: "dkeys echo_descriptor = [''api_version'', ''name'', ''version'', ''category'', ''capabilities'', ''contracts'', ''trust_level'',
     ''entrypoint'', ''entrypoint_sha256'', ''network_access'', ''operations'', ''default_enabled'']" by (simp add: echo_descriptor_def dkeys_def)
  have none: "filter (\<lambda>k. k \<notin> set (dkeys echo_descriptor)) descriptor_keys = []" unfolding keys by code_simp
  have names: "validate_identifier ''echo'' ''plugin name'' None = Inr ''echo''" "validate_identifier ''1.0'' ''plugin version'' None = Inr ''1.0''"
    by code_simp+
  have "contract_list (PList [PStr ''exact_bytes'']) = Inr True" by code_simp
  then have "descriptor_shape echo_descriptor = Inr \<lparr>ar_accepted = True, ar_details = [(''descriptor'', PStr ''echo'')]\<rparr>"
    using digest_hex by (simp add: descriptor_shape_def echo_fields text_list_def nonempty_text_def flag_value_def)
  then show ?thesis
    unfolding validate_plugin_descriptor_def none Let_def by (simp add: echo_fields among_def names_ok_def names)
qed

lemma echo_loads: "load_plugin_package (\<lambda>_. Inr (Some echo_runtime)) True echo_package = Inr \<lparr>lp_descriptor = echo_descriptor, lp_operations = [''run'']\<rparr>"
proof -
  obtain v where v: "validate_plugin_descriptor echo_descriptor = Inr v" "ar_accepted v" using echo_valid by blast
  have path: "package_path ''src/echo.py'' = Some ''src/echo.py''" by code_simp
  have code: "entry_code (pk_files echo_package) echo_descriptor = Some echo_code"
    by (simp add: entry_code_def echo_fields path echo_package_def)
  have same: "py_eq (get_value echo_descriptor k) (get_value echo_descriptor k)" if "k \<in> {''api_version'', ''name'', ''version'', ''category''}" for k
    using that by (auto simp: echo_fields)
  have "runtime_matches echo_descriptor echo_descriptor [''api_version'', ''name'', ''version'', ''category''] = Inr ()" by (simp add: same)
  moreover have "pk_descriptor echo_package = Inr echo_descriptor" "''plugin.json'' \<in> set (dkeys (pk_files echo_package))"
    by (simp_all add: echo_package_def dkeys_def)
  ultimately show ?thesis
    using code v
    by (simp add: load_plugin_package_def guardR_def echo_fields entrypoint_contained_def entrypoint_digest_matches_def echo_runtime_def
        descriptor_operations_def Let_def)
qed


end
