(* ===== verification/Kms.thy ===== *)
theory Kms
  imports Approvals
begin

text \<open>
  Envelope encryption with local keys (\<open>python/urp/kms.py\<close>). AES-GCM is the record \<open>aead\<close>, with two
  properties of it as hypotheses where they are needed. The state is the key file, as \<open>json.load\<close>
  reads it, and the text of the master key file; random bytes, identifiers and times are arguments.
\<close>

subsection \<open>State and keys\<close>

record aead =
  seal :: "bytes \<Rightarrow> bytes \<Rightarrow> bytes \<Rightarrow> bytes \<Rightarrow> bytes"
  unseal :: "bytes \<Rightarrow> bytes \<Rightarrow> bytes \<Rightarrow> bytes \<Rightarrow> bytes res"

record kms_state =
  ks_keys :: "(string \<times> pydict) list"
  ks_master :: "string option"

record local_key =
  lk_key_id :: string
  lk_material :: bytes
  lk_created_at :: string
  lk_purpose :: string

definition ALGORITHM :: string where
  "ALGORITHM = ''AES-256-GCM''"

definition local_key_to_dict :: "local_key \<Rightarrow> pydict" where
  "local_key_to_dict k = [(''key_id'', PStr (lk_key_id k)), (''created_at'', PStr (lk_created_at k)), (''purpose'', PStr (lk_purpose k)),
     (''algorithm'', PStr ALGORITHM)]"

definition master_key :: "string option \<Rightarrow> bytes \<Rightarrow> (bytes, kms_state) sres" where
  "master_key env random = (\<lambda>s. case given env of
     Some c \<Rightarrow> (decode_key c (\<lambda>k. length k = 32) ''URP_LOCAL_KMS_MASTER_KEY must decode to 32 bytes'', s)
   | None \<Rightarrow> (let text = (case ks_master s of None \<Rightarrow> b64encode random @ [char_of (10::nat)] | Some t \<Rightarrow> t)
       in (decode_key (bytes_strip text) (\<lambda>k. length k = 32) ''local KMS master key is invalid'', s\<lparr>ks_master := Some text\<rparr>)))"

text \<open>The library refuses a key of another length.\<close>

definition aes_key :: "bytes \<Rightarrow> bytes res" where
  "aes_key k = (if length k \<in> {16, 24, 32} then Inr k else Inl (ValueError ''AESGCM key must be 128, 192, or 256 bits.''))"

text \<open>\<open>base64.b64decode(data[k], validate=True)\<close>.\<close>

definition b64_field :: "pydict \<Rightarrow> string \<Rightarrow> bytes res" where
  "b64_field d k = bindR (item d k) (\<lambda>v. bindR (as_str v) (\<lambda>s.
     case b64decode s of Some b \<Rightarrow> Inr b | None \<Rightarrow> Inl (ValueError ''Non-base64 digit found'')))"

definition key_row :: "aead \<Rightarrow> bytes \<Rightarrow> bytes \<Rightarrow> local_key \<Rightarrow> pydict" where
  "key_row A master nonce k = local_key_to_dict k @ [(''wrap_algorithm'', PStr ALGORITHM), (''wrap_nonce'', PStr (b64encode nonce)),
     (''wrapped_material'', PStr (b64encode (seal A master nonce (lk_material k) (utf8 (lk_key_id k)))))]"

definition create_key :: "aead \<Rightarrow> string option \<Rightarrow> string \<Rightarrow> string \<Rightarrow> bytes \<Rightarrow> bytes \<Rightarrow> bytes \<Rightarrow> string \<Rightarrow> (local_key, kms_state) sres" where
  "create_key A env i now material random nonce purpose =
     (let k = \<lparr>lk_key_id = i, lk_material = material, lk_created_at = now, lk_purpose = purpose\<rparr> in
      bindS (master_key env random) (\<lambda>master s.
        (Inr k, s\<lparr>ks_keys := dset i (jfile_dict (key_row A master nonce k)) (ks_keys s)\<rparr>)))"

definition key_material :: "aead \<Rightarrow> string option \<Rightarrow> bytes \<Rightarrow> string \<Rightarrow> pydict \<Rightarrow> (bytes, kms_state) sres" where
  "key_material A env random i d =
     (if ''wrapped_material'' \<in> set (dkeys d) then
        bindS (liftR (b64_field d ''wrap_nonce'')) (\<lambda>nonce. bindS (liftR (b64_field d ''wrapped_material'')) (\<lambda>wrapped.
        bindS (master_key env random) (\<lambda>master. liftR (unseal A master nonce wrapped (utf8 i)))))
      else liftR (b64_field d ''material''))"

definition get_key :: "aead \<Rightarrow> string option \<Rightarrow> bytes \<Rightarrow> string \<Rightarrow> (local_key, kms_state) sres" where
  "get_key A env random i =
     bindS (liftR (validate_identifier i ''key id'' (Some ''key_''))) (\<lambda>_ s.
     (case dget (ks_keys s) i of
        None \<Rightarrow> (Inl (KeyError i), s)
      | Some d \<Rightarrow> bindS (key_material A env random i d) (\<lambda>material.
          liftR (bindR (bindR (item d ''key_id'') as_str) (\<lambda>kid. bindR (bindR (item d ''created_at'') as_str) (\<lambda>created.
            map_res (\<lambda>p. \<lparr>lk_key_id = kid, lk_material = material, lk_created_at = created, lk_purpose = p\<rparr>)
              (as_str (get_default d ''purpose'' (PStr ''local-dev'')))))))  s))"

subsection \<open>Encryption\<close>

definition kms_encrypt :: "aead \<Rightarrow> string option \<Rightarrow> bytes \<Rightarrow> bytes \<Rightarrow> string \<Rightarrow> bytes \<Rightarrow> bytes \<Rightarrow> (pydict, kms_state) sres" where
  "kms_encrypt A env random nonce i plaintext aad =
     bindS (get_key A env random i) (\<lambda>key. bindS (liftR (aes_key (lk_material key))) (\<lambda>k.
     retS [(''key_id'', PStr i), (''nonce'', PStr (b64encode nonce)), (''ciphertext'', PStr (b64encode (seal A k nonce plaintext aad))),
       (''algorithm'', PStr ALGORITHM)]))"

definition kms_decrypt :: "aead \<Rightarrow> string option \<Rightarrow> bytes \<Rightarrow> pydict \<Rightarrow> bytes \<Rightarrow> (bytes, kms_state) sres" where
  "kms_decrypt A env random envelope aad =
     (if get_value envelope ''algorithm'' \<noteq> PStr ALGORITHM then liftR (Inl (ValueError ''unsupported or unauthenticated encryption envelope''))
      else bindS (liftR (bindR (item envelope ''key_id'') as_str)) (\<lambda>i.
        bindS (get_key A env random i) (\<lambda>key.
        bindS (liftR (b64_field envelope ''nonce'')) (\<lambda>nonce. bindS (liftR (b64_field envelope ''ciphertext'')) (\<lambda>ciphertext.
        if length nonce \<noteq> 12 then liftR (Inl (ValueError ''AES-GCM nonce must be 12 bytes''))
        else bindS (liftR (aes_key (lk_material key))) (\<lambda>k. liftR (unseal A k nonce ciphertext aad)))))))"

subsection \<open>What the envelope is worth\<close>

text \<open>
  AES-GCM opens what it sealed under the same key, nonce and associated data; and, its encryption
  being a function of these with the plaintext, it opens nothing else.
\<close>

definition aead_laws :: "aead \<Rightarrow> bool" where
  "aead_laws A = ((\<forall>k n p a. unseal A k n (seal A k n p a) a = Inr p) \<and> (\<forall>k n c a p. unseal A k n c a = Inr p \<longrightarrow> c = seal A k n p a))"

lemma b64_field_text: "dget d k = Some (PStr (b64encode b)) \<Longrightarrow> b64_field d k = Inr b"
  by (simp add: b64_field_def item_def b64_roundtrip)

lemma master_stable:
  assumes "master_key env random s = (Inr m, s1)"
  shows "master_key env r (s1\<lparr>ks_keys := ks\<rparr>) = (Inr m, s1\<lparr>ks_keys := ks\<rparr>)"
  using assms by (auto simp: master_key_def Let_def split: option.splits)

lemma master_frame: "master_key env random s = (x, s1) \<Longrightarrow> ks_keys s1 = ks_keys s"
  by (auto simp: master_key_def Let_def split: option.splits)

text \<open>The keys a state can use: filed by their own name and opened by its master key.\<close>

definition holds_key :: "aead \<Rightarrow> string option \<Rightarrow> kms_state \<Rightarrow> string \<Rightarrow> bytes \<Rightarrow> bool" where
  "holds_key A env s i material = (\<forall>r. \<exists>k. get_key A env r i s = (Inr k, s) \<and> lk_material k = material \<and> lk_key_id k = i)"

lemma created_key_held:
  assumes "aead_laws A" "create_key A env i now material random nonce purpose s = (Inr k, s1)"
    "validate_identifier i ''key id'' (Some ''key_'') = Inr i"
  shows "holds_key A env s1 i material" "lk_material k = material"
proof -
  obtain m s0 where m: "master_key env random s = (Inr m, s0)"
    and k: "k = \<lparr>lk_key_id = i, lk_material = material, lk_created_at = now, lk_purpose = purpose\<rparr>"
    and s1: "s1 = s0\<lparr>ks_keys := dset i (jfile_dict (key_row A m nonce k)) (ks_keys s0)\<rparr>"
    using assms(2) by (auto simp: create_key_def Let_def bindS_def split: prod.splits sum.splits)
  show "lk_material k = material" by (simp add: k)
  let ?d = "jfile_dict (key_row A m nonce k)"
  have row: "dget ?d ''wrap_nonce'' = Some (PStr (b64encode nonce))" "dget ?d ''key_id'' = Some (PStr i)"
    "dget ?d ''wrapped_material'' = Some (PStr (b64encode (seal A m nonce material (utf8 i))))"
    "dget ?d ''created_at'' = Some (PStr now)" "dget ?d ''purpose'' = Some (PStr purpose)"
    by (simp_all add: key_row_def local_key_to_dict_def k)
  have items: "item ?d ''key_id'' = Inr (PStr i)" "item ?d ''created_at'' = Inr (PStr now)"
    "get_default ?d ''purpose'' (PStr ''local-dev'') = PStr purpose"
    by (simp_all only: item_def get_default_def row option.case)
  have "''wrapped_material'' \<in> set (dkeys ?d)" by (rule dget_in_dkeys [OF row(3)])
  then have "key_material A env r i ?d s1 = (Inr material, s1)" for r
    using master_stable [OF m] assms(1)
    by (simp add: key_material_def b64_field_text [OF row(1)] b64_field_text [OF row(3)] bindS_def liftR_def s1 aead_laws_def)
  then show "holds_key A env s1 i material"
    using assms(3) items by (simp add: holds_key_def get_key_def s1 bindS_def liftR_def)
qed

text \<open>
  What is encrypted under a created key can be decrypted, and nothing else passes: with
  the same associated data the decryption gives back the plaintext, and any envelope under that key
  that decrypts at all carries the ciphertext sealed from what it decrypts to, for just that data.
\<close>

theorem kms_roundtrip:
  assumes "aead_laws A" "create_key A env i now material random nonce purpose s = (Inr k, s1)"
    and "validate_identifier i ''key id'' (Some ''key_'') = Inr i" "length material = 32" "length n = 12"
  shows "\<exists>e. kms_encrypt A env r n i plaintext aad s1 = (Inr e, s1) \<and> kms_decrypt A env r' e aad s1 = (Inr plaintext, s1)"
    "kms_decrypt A env r' e' aad' s1 = (Inr q, s2) \<Longrightarrow> get_value e' ''key_id'' = PStr i
       \<Longrightarrow> \<exists>n'. length n' = 12 \<and> b64_field e' ''nonce'' = Inr n' \<and> b64_field e' ''ciphertext'' = Inr (seal A material n' q aad')"
proof -
  note held = created_key_held [OF assms(1-3)]
  obtain g where g: "\<And>r. get_key A env r i s1 = (Inr (g r), s1)" "\<And>r. lk_material (g r) = material"
    using held(1) unfolding holds_key_def by metis
  have key: "aes_key material = Inr material" by (simp add: aes_key_def assms(4))
  let ?e = "[(''key_id'', PStr i), (''nonce'', PStr (b64encode n)), (''ciphertext'', PStr (b64encode (seal A material n plaintext aad))),
       (''algorithm'', PStr ALGORITHM)]"
  have "kms_encrypt A env r n i plaintext aad s1 = (Inr ?e, s1)" by (simp add: kms_encrypt_def bindS_def g key liftR_def retS_def)
  moreover have "b64_field ?e ''nonce'' = Inr n" "b64_field ?e ''ciphertext'' = Inr (seal A material n plaintext aad)"
    by (rule b64_field_text, simp)+
  then have "kms_decrypt A env r' ?e aad s1 = (Inr plaintext, s1)"
    using assms(1,5) by (simp add: kms_decrypt_def bindS_def liftR_def g key item_def aead_laws_def get_value_def)
  ultimately show "\<exists>e. kms_encrypt A env r n i plaintext aad s1 = (Inr e, s1) \<and> kms_decrypt A env r' e aad s1 = (Inr plaintext, s1)" by blast
next
  note held = created_key_held [OF assms(1-3)]
  obtain g where g: "\<And>r. get_key A env r i s1 = (Inr (g r), s1)" "\<And>r. lk_material (g r) = material"
    using held(1) unfolding holds_key_def by metis
  assume run: "kms_decrypt A env r' e' aad' s1 = (Inr q, s2)" and "get_value e' ''key_id'' = PStr i"
  then have i: "item e' ''key_id'' = Inr (PStr i)" by (auto simp: get_value_def item_def split: option.splits)
  obtain n' c where "b64_field e' ''nonce'' = Inr n'" "b64_field e' ''ciphertext'' = Inr c" "length n' = 12" "unseal A material n' c aad' = Inr q"
    using run by (auto simp: kms_decrypt_def i effect_simps g aes_key_def split: if_splits)
  then show "\<exists>n'. length n' = 12 \<and> b64_field e' ''nonce'' = Inr n' \<and> b64_field e' ''ciphertext'' = Inr (seal A material n' q aad')"
    using assms(1) by (auto simp: aead_laws_def)
qed

definition tag_aead :: aead where
  "tag_aead = \<lparr>seal = (\<lambda>k n p a. 1 # p), unseal = (\<lambda>k n c a. case c of [] \<Rightarrow> Inl (OtherError ''InvalidTag'')
     | x # p \<Rightarrow> if x = 1 then Inr p else Inl (OtherError ''InvalidTag''))\<rparr>"

theorem kms_roundtrip_witness:
  "\<exists>s1 e. kms_encrypt tag_aead None [] (replicate 12 7) ''key_1'' [1, 2] [3] s1 = (Inr e, s1) \<and> kms_decrypt tag_aead None [] e [3] s1 = (Inr [1, 2], s1)"
proof -
  have laws: "aead_laws tag_aead" by (auto simp: aead_laws_def tag_aead_def split: list.splits if_splits)
  let ?s = "\<lparr>ks_keys = [], ks_master = None\<rparr>"
  have "\<exists>s0. master_key None (replicate 32 0) ?s = (Inr (replicate 32 0), s0)"
    by (simp add: master_key_def given_def strip_key decode_key_def b64_roundtrip Let_def)
  then obtain k s1 where run: "create_key tag_aead None ''key_1'' ''now'' (replicate 32 5) (replicate 32 0) (replicate 12 0) ''local-dev'' ?s = (Inr k, s1)"
    by (auto simp: create_key_def Let_def bindS_def)
  have "validate_identifier ''key_1'' ''key id'' (Some ''key_'') = Inr ''key_1''" by code_simp
  from kms_roundtrip(1) [OF laws run this, of "replicate 12 7" "[]" "[1, 2]" "[3]" "[]"] show ?thesis by auto
qed

end
