(* ===== verification/Explorer.thy ===== *)
theory Explorer
  imports Stores
begin

text \<open>
  The report over stored manifests (\<open>python/urp/manifest_explorer.py\<close>): the filters, the rows, the
  counts and the totals.
\<close>

subsection \<open>Rows\<close>

text \<open>\<open>int(v or 0)\<close>.\<close>

definition int_or_zero :: "pyval \<Rightarrow> int res" where
  "int_or_zero v = (if truthy v then py_int v else Inr 0)"

fun first_int :: "pydict \<Rightarrow> pydict \<Rightarrow> string list \<Rightarrow> int res" where
  "first_int primary secondary [] = Inr 0"
| "first_int primary secondary (k # ks) =
     (if k \<in> set (dkeys primary) then int_or_zero (get_value primary k)
      else if k \<in> set (dkeys secondary) then int_or_zero (get_value secondary k)
      else first_int primary secondary ks)"

definition manifest_row :: "manifest \<Rightarrow> bool \<Rightarrow> pydict res" where
  "manifest_row m hide = (let physical = mf_physical m; telemetry = mf_telemetry m in
     bindR (first_int physical telemetry [''logical_size'', ''bytes_in'']) (\<lambda>logical_size.
     bindR (first_int physical telemetry [''stored_size'', ''bytes_stored'']) (\<lambda>stored_size.
     bindR (first_int telemetry physical [''bytes_avoided'']) (\<lambda>bytes_avoided.
     bindR (int_or_zero (get_default telemetry ''dedupe_hits'' (PInt 0))) (\<lambda>dedupe_hits.
     Inr [(''manifest_id'', PStr (mf_manifest_id m)), (''work_unit_id'', PStr (mf_work_unit_id m)), (''tenant'', PStr (mf_tenant m)),
       (''namespace'', PStr (mf_namespace m)), (''kind'', PStr (kind_value (mf_kind m))), (''contract'', PStr (contract_value (mf_contract m))),
       (''state'', PStr (mf_state m)), (''logical_ref'', PStr (if hide then ''[redacted]'' else mf_logical_ref m)),
       (''trace_id'', opt_value (mf_trace_id m)), (''created_at'', PStr (mf_created_at m)), (''logical_size'', PInt logical_size),
       (''stored_size'', PInt stored_size), (''bytes_avoided'', PInt bytes_avoided), (''dedupe_hits'', PInt dedupe_hits),
       (''cache_result'', get_value physical ''cache_result''),
       (''verifier_accepted'', PBool (truthy (get_default (mf_verification m) ''accepted'' (PBool False))))])))))"

definition row_label :: "string \<Rightarrow> pydict \<Rightarrow> string" where
  "row_label key row = (let v = get_value row key in if truthy v then py_str v else ''unknown'')"

text \<open>\<open>_count\<close>: how many rows carry each label, in the order of first appearance.\<close>

definition count_label :: "(string \<times> int) list \<Rightarrow> string \<Rightarrow> (string \<times> int) list" where
  "count_label counts label = dset label ((case dget counts label of Some n \<Rightarrow> n | None \<Rightarrow> 0) + 1) counts"

definition count_rows :: "string \<Rightarrow> pydict list \<Rightarrow> (string \<times> int) list" where
  "count_rows key rows = foldl count_label [] (map (row_label key) rows)"

definition row_total :: "string \<Rightarrow> pydict list \<Rightarrow> int res" where
  "row_total key rows = map_res sum_list (seq_res (map (\<lambda>r. int_or_zero (get_value r key)) rows))"

subsection \<open>The report\<close>

record explorer_query =
  xq_tenant :: "string option"
  xq_kind :: "string option"
  xq_contract :: "string option"
  xq_state :: "string option"
  xq_limit :: "int option"
  xq_redacted :: bool

definition keep_manifests :: "explorer_query \<Rightarrow> manifest list \<Rightarrow> manifest list res" where
  "keep_manifests q ms =
     bindR (case given (xq_kind q) of None \<Rightarrow> Inr (\<lambda>m. True) | Some s \<Rightarrow> map_res (\<lambda>k m. mf_kind m = k) (kind_of s)) (\<lambda>of_kind.
     bindR (case given (xq_contract q) of None \<Rightarrow> Inr (\<lambda>m. True) | Some s \<Rightarrow> map_res (\<lambda>k m. mf_contract m = k) (contract_of s)) (\<lambda>of_contract.
     Inr (filter (\<lambda>m. (case given (xq_tenant q) of None \<Rightarrow> True | Some t \<Rightarrow> mf_tenant m = t) \<and> of_kind m \<and> of_contract m
       \<and> (case given (xq_state q) of None \<Rightarrow> True | Some st \<Rightarrow> mf_state m = st)) ms)))"

definition counts_value :: "(string \<times> int) list \<Rightarrow> pyval" where
  "counts_value counts = PDict (map (\<lambda>(k, n). (k, PInt n)) counts)"

definition explorer_filters :: "explorer_query \<Rightarrow> pydict" where
  "explorer_filters q = [(''tenant'', opt_value (xq_tenant q)), (''kind'', opt_value (xq_kind q)), (''contract'', opt_value (xq_contract q)),
     (''state'', opt_value (xq_state q)), (''limit'', case xq_limit q of None \<Rightarrow> PNone | Some l \<Rightarrow> PInt l), (''redacted'', PBool (xq_redacted q))]"

definition explorer_totals :: "pydict list \<Rightarrow> pydict res" where
  "explorer_totals rows = map_res (\<lambda>ns. zip [''logical_bytes'', ''stored_bytes'', ''bytes_avoided'', ''dedupe_hits''] (map PInt ns))
     (seq_res (map (\<lambda>k. row_total k rows) [''logical_size'', ''stored_size'', ''bytes_avoided'', ''dedupe_hits'']))"

definition manifest_explorer_report :: "ctx \<Rightarrow> explorer_query \<Rightarrow> json_files \<Rightarrow> pydict res" where
  "manifest_explorer_report c q files = bindR (file_list c None files) (\<lambda>listed. bindR (keep_manifests q listed) (\<lambda>kept.
     let ms = sort_key mf_created_at kept; selected = last_rows (xq_limit q) ms in
     bindR (seq_res (map (\<lambda>m. manifest_row m (xq_redacted q)) selected)) (\<lambda>rows.
     bindR (explorer_totals rows) (\<lambda>totals.
     Inr [(''manifest_count'', PInt (int (length ms))), (''returned'', PInt (int (length rows))), (''filters'', PDict (explorer_filters q)),
       (''by_kind'', counts_value (count_rows ''kind'' rows)), (''by_contract'', counts_value (count_rows ''contract'' rows)),
       (''by_state'', counts_value (count_rows ''state'' rows)), (''totals'', PDict totals), (''rows'', PList (map PDict rows))]))))"

subsection \<open>What a report shows\<close>

lemma seq_res_nth: "seq_res (map f xs) = Inr ys \<Longrightarrow> y \<in> set ys \<Longrightarrow> \<exists>x \<in> set xs. f x = Inr y"
proof (induction xs arbitrary: ys)
  case (Cons x xs)
  then show ?case by (cases "f x"; cases "seq_res (map f xs)") auto
qed simp

lemma set_last_rows: "set (last_rows l xs) \<subseteq> set xs"
  by (auto simp: last_rows_def split: option.splits if_splits dest: in_set_dropD)

lemma set_keep: "keep_manifests q ms = Inr kept \<Longrightarrow> m \<in> set kept \<Longrightarrow> m \<in> set ms
   \<and> (\<forall>t. given (xq_tenant q) = Some t \<longrightarrow> mf_tenant m = t) \<and> (\<forall>st. given (xq_state q) = Some st \<longrightarrow> mf_state m = st)"
  by (auto simp: keep_manifests_def effect_simps split: option.splits)

lemma row_fields:
  assumes "manifest_row m hide = Inr row"
  shows "get_value row ''tenant'' = PStr (mf_tenant m)" "get_value row ''logical_ref'' = PStr (if hide then ''[redacted]'' else mf_logical_ref m)"
    "get_value row ''state'' = PStr (mf_state m)" "get_value row ''manifest_id'' = PStr (mf_manifest_id m)"
  using assms by (auto simp: manifest_row_def Let_def effect_simps get_value_def)

text \<open>The label counts add up to the number of rows.\<close>

lemma sum_dset: "sum_list (map snd (dset k v d)) = sum_list (map snd d) - (case dget d k of Some n \<Rightarrow> n | None \<Rightarrow> 0) + (v :: int)"
  by (induction d) (auto simp: dset_def)

lemma sum_count: "sum_list (map snd (foldl count_label c ls)) = sum_list (map snd c) + int (length ls)"
  by (induction ls arbitrary: c) (simp_all add: count_label_def sum_dset)

lemma count_rows_sum: "sum_list (map snd (count_rows k rows)) = int (length rows)"
  by (simp add: count_rows_def sum_count)

definition shown_row :: "ctx \<Rightarrow> explorer_query \<Rightarrow> json_files \<Rightarrow> pydict \<Rightarrow> bool" where
  "shown_row c q files row = (\<exists>m ms. file_list c None files = Inr ms \<and> m \<in> set ms \<and> manifest_row m (xq_redacted q) = Inr row
     \<and> (\<forall>t. given (xq_tenant q) = Some t \<longrightarrow> mf_tenant m = t) \<and> (\<forall>st. given (xq_state q) = Some st \<longrightarrow> mf_state m = st))"

lemma report_parts:
  assumes "manifest_explorer_report c q files = Inr out"
  obtains rows where "get_value out ''rows'' = PList (map PDict rows)" "get_value out ''returned'' = PInt (int (length rows))"
    "\<forall>row \<in> set rows. shown_row c q files row"
    "get_value out ''by_kind'' = counts_value (count_rows ''kind'' rows)"
proof -
  from assms obtain ms kept rows totals where s: "file_list c None files = Inr ms" "keep_manifests q ms = Inr kept"
      "seq_res (map (\<lambda>m. manifest_row m (xq_redacted q)) (last_rows (xq_limit q) (sort_key mf_created_at kept))) = Inr rows"
      "explorer_totals rows = Inr totals"
    and out: "out = [(''manifest_count'', PInt (int (length (sort_key mf_created_at kept)))), (''returned'', PInt (int (length rows))),
       (''filters'', PDict (explorer_filters q)),
       (''by_kind'', counts_value (count_rows ''kind'' rows)), (''by_contract'', counts_value (count_rows ''contract'' rows)),
       (''by_state'', counts_value (count_rows ''state'' rows)), (''totals'', PDict totals), (''rows'', PList (map PDict rows))]"
    by (auto simp: manifest_explorer_report_def Let_def effect_simps)
  have "shown_row c q files row" if row: "row \<in> set rows" for row
  proof -
    obtain m where m: "m \<in> set (last_rows (xq_limit q) (sort_key mf_created_at kept))" "manifest_row m (xq_redacted q) = Inr row"
      using seq_res_nth [OF s(3) row] by blast
    then have "m \<in> set kept" using set_last_rows by fastforce
    then show ?thesis using s(1) m(2) set_keep [OF s(2)] by (auto simp: shown_row_def)
  qed
  then show thesis using that [of rows] by (simp add: out get_value_def Ball_def)
qed

text \<open>
  The manifest report stays within the tenant and keeps references back. Under a principal
  bound to a tenant every row is of that tenant, whatever tenant the query names; a redacted report
  shows no logical reference; and the counts by kind add up to the rows returned.
\<close>

theorem explorer_confined:
  assumes "manifest_explorer_report c q files = Inr out"
  shows "\<exists>rows. get_value out ''rows'' = PList (map PDict rows) \<and> get_value out ''returned'' = PInt (int (length rows))
     \<and> get_value out ''by_kind'' = counts_value (count_rows ''kind'' rows) \<and> sum_list (map snd (count_rows ''kind'' rows)) = int (length rows)
     \<and> (\<forall>row \<in> set rows. (\<forall>t. current_tenant c = Some t \<longrightarrow> t \<noteq> [] \<longrightarrow> get_value row ''tenant'' = PStr t)
          \<and> (\<forall>t. given (xq_tenant q) = Some t \<longrightarrow> get_value row ''tenant'' = PStr t)
          \<and> (xq_redacted q \<longrightarrow> get_value row ''logical_ref'' = PStr ''[redacted]''))"
proof -
  obtain rows where r: "get_value out ''rows'' = PList (map PDict rows)" "get_value out ''returned'' = PInt (int (length rows))"
    "\<forall>row \<in> set rows. shown_row c q files row" "get_value out ''by_kind'' = counts_value (count_rows ''kind'' rows)"
    by (rule report_parts [OF assms])
  have "mf_tenant m = t" if "file_list c None files = Inr ms" "m \<in> set ms" "current_tenant c = Some t" for m ms t
    using that by (auto simp: file_list_def chosen_tenant_def given_def effect_simps)
  then show ?thesis using r count_rows_sum by (intro exI [of _ rows]) (auto simp: shown_row_def row_fields)
qed

definition whole_store :: explorer_query where
  "whole_store = \<lparr>xq_tenant = None, xq_kind = None, xq_contract = None, xq_state = None, xq_limit = None, xq_redacted = True\<rparr>"

lemma one_listed:
  "file_list (Some \<lparr>pr_actor = ''ann'', pr_tenant = ''acme'', pr_roles = []\<rparr>) None [(''mf_1'', jfile_dict (manifest_to_dict sample_manifest))]
     = Inr [filed_manifest sample_manifest]"
proof -
  have "prefix ''mf_'' ''mf_1''" by code_simp
  moreover have "mf_tenant (filed_manifest sample_manifest) = ''acme''" by (simp add: filed_manifest_def sample_manifest_def)
  ultimately show ?thesis
    by (simp add: file_list_def sorted_files_def read_filed_manifest chosen_tenant_def given_def current_tenant_def)
qed

lemma row_exists: "\<exists>row. manifest_row (filed_manifest sample_manifest) True = Inr row"
proof -
  have "mf_physical (filed_manifest sample_manifest) = []" "mf_telemetry (filed_manifest sample_manifest) = []"
    by (simp_all add: filed_manifest_def sample_manifest_def jfile_dict_def)
  then show ?thesis by (simp add: manifest_row_def Let_def dkeys_def int_or_zero_def get_default_def)
qed

lemma row_numbers:
  assumes "manifest_row m hide = Inr row"
  shows "\<exists>n. get_value row ''logical_size'' = PInt n" "\<exists>n. get_value row ''stored_size'' = PInt n"
    "\<exists>n. get_value row ''bytes_avoided'' = PInt n" "\<exists>n. get_value row ''dedupe_hits'' = PInt n"
  using assms by (auto simp: manifest_row_def Let_def effect_simps get_value_def)

lemma int_or_zero_int: "int_or_zero (PInt n) = Inr n"
  by (simp add: int_or_zero_def)

lemma totals_exist:
  assumes "manifest_row m hide = Inr row"
  shows "\<exists>totals. explorer_totals [row] = Inr totals"
proof -
  from row_numbers [OF assms] obtain a b d e where "get_value row ''logical_size'' = PInt a" "get_value row ''stored_size'' = PInt b"
    "get_value row ''bytes_avoided'' = PInt d" "get_value row ''dedupe_hits'' = PInt e" by blast
  then show ?thesis by (simp add: explorer_totals_def row_total_def int_or_zero_int)
qed

theorem explorer_confined_witness:
  "\<exists>out row. manifest_explorer_report (Some \<lparr>pr_actor = ''ann'', pr_tenant = ''acme'', pr_roles = []\<rparr>) whole_store
      [(''mf_1'', jfile_dict (manifest_to_dict sample_manifest))] = Inr out
     \<and> get_value out ''rows'' = PList [PDict row] \<and> get_value row ''tenant'' = PStr ''acme'' \<and> get_value row ''logical_ref'' = PStr ''[redacted]''"
proof -
  let ?c = "Some \<lparr>pr_actor = ''ann'', pr_tenant = ''acme'', pr_roles = []\<rparr>"
  let ?s = "[(''mf_1'', jfile_dict (manifest_to_dict sample_manifest))]"
  obtain row where row: "manifest_row (filed_manifest sample_manifest) True = Inr row" using row_exists by blast
  obtain totals where "explorer_totals [row] = Inr totals" using totals_exist [OF row] by blast
  moreover have "keep_manifests whole_store ms = Inr ms" for ms by (simp add: keep_manifests_def whole_store_def given_def)
  ultimately obtain out where out: "manifest_explorer_report ?c whole_store ?s = Inr out" "get_value out ''rows'' = PList [PDict row]"
    using row by (simp add: manifest_explorer_report_def one_listed Let_def whole_store_def last_rows_def get_value_def)
  from explorer_confined [OF out(1)] out show ?thesis
    by (auto simp: current_tenant_def whole_store_def)
qed

end
