(* ===== verification/Impact.thy ===== *)
theory Impact
  imports GatewayRequest
begin

text \<open>
  The impact model of \<open>python/urp/impact.py\<close>: the checks of a scenario and what it says is avoided
  and saved. Amounts are exact real numbers (binary rounding of floats is not modelled); a reported
  amount is rounded, half to even, to the digits the code asks for. \<open>ImpactModelError\<close> is a
  \<open>ValueError\<close>. Reading a scenario from a file is not modelled.
\<close>

subsection \<open>Scenarios\<close>

record impact_scenario =
  im_name :: string
  im_currency :: string
  im_storage_gib :: real
  im_storage_reduction_rate :: real
  im_storage_cost_per_gib_month :: real
  im_monthly_data_transfer_gib :: real
  im_data_transfer_reduction_rate :: real
  im_data_transfer_cost_per_gib :: real
  im_monthly_ai_requests :: int
  im_average_input_tokens :: real
  im_average_output_tokens :: real
  im_exact_cache_hit_rate :: real
  im_context_compiler_coverage :: real
  im_context_input_reduction_rate :: real
  im_ai_input_cost_per_million_tokens :: real
  im_ai_output_cost_per_million_tokens :: real
  im_monthly_urp_operating_cost :: real
  im_implementation_cost :: real
  im_analysis_horizon_months :: int
  im_energy_kwh_per_avoided_model_call :: "real option"
  im_grid_kg_co2e_per_kwh :: "real option"

text \<open>\<open>_number\<close>, \<open>_optional_number\<close> and \<open>_integer\<close>.\<close>

definition is_bool :: "pyval \<Rightarrow> bool" where
  "is_bool v = (case v of PBool b \<Rightarrow> True | _ \<Rightarrow> False)"

definition not_finite :: "pyval \<Rightarrow> bool" where
  "not_finite v = (case v of PStr s \<Rightarrow> snd (split_sign (py_lower (py_strip s))) \<in> {''inf'', ''infinity'', ''nan''} | _ \<Rightarrow> False)"

definition number_field :: "pydict \<Rightarrow> string \<Rightarrow> real res" where
  "number_field d k = bindR (item d k) (\<lambda>v.
     if is_bool v then Inl (ValueError (k @ '' must be numeric''))
     else if not_finite v then Inl (ValueError (k @ '' must be finite''))
     else case float_value v of Inl e \<Rightarrow> Inl (ValueError (k @ '' must be numeric'')) | Inr x \<Rightarrow> Inr x)"

definition optional_number :: "pydict \<Rightarrow> string \<Rightarrow> real option res" where
  "optional_number d k = (if get_value d k = PNone then Inr None else map_res Some (number_field d k))"

definition integer_field :: "pydict \<Rightarrow> string \<Rightarrow> int res" where
  "integer_field d k = bindR (item d k) (\<lambda>v.
     if is_bool v then Inl (ValueError (k @ '' must be an integer''))
     else case py_int v of Inl e \<Rightarrow> Inl (ValueError (k @ '' must be an integer''))
       | Inr n \<Rightarrow> if py_eq (PInt n) v then Inr n else Inl (ValueError (k @ '' must be an integer'')))"

text \<open>\<open>ImpactScenario.validate\<close>: the checks in the order of the code.\<close>

definition amounts_of :: "impact_scenario \<Rightarrow> (string \<times> real) list" where
  "amounts_of sc = [(''storage_gib'', im_storage_gib sc), (''storage_cost_per_gib_month'', im_storage_cost_per_gib_month sc),
     (''monthly_data_transfer_gib'', im_monthly_data_transfer_gib sc), (''data_transfer_cost_per_gib'', im_data_transfer_cost_per_gib sc),
     (''average_input_tokens'', im_average_input_tokens sc), (''average_output_tokens'', im_average_output_tokens sc),
     (''ai_input_cost_per_million_tokens'', im_ai_input_cost_per_million_tokens sc),
     (''ai_output_cost_per_million_tokens'', im_ai_output_cost_per_million_tokens sc),
     (''monthly_urp_operating_cost'', im_monthly_urp_operating_cost sc), (''implementation_cost'', im_implementation_cost sc)]"

definition rates_of :: "impact_scenario \<Rightarrow> (string \<times> real) list" where
  "rates_of sc = [(''storage_reduction_rate'', im_storage_reduction_rate sc), (''data_transfer_reduction_rate'', im_data_transfer_reduction_rate sc),
     (''exact_cache_hit_rate'', im_exact_cache_hit_rate sc), (''context_compiler_coverage'', im_context_compiler_coverage sc),
     (''context_input_reduction_rate'', im_context_input_reduction_rate sc)]"

fun check_all :: "('a \<Rightarrow> bool) \<Rightarrow> string \<Rightarrow> (string \<times> 'a) list \<Rightarrow> unit res" where
  "check_all ok complaint [] = Inr ()"
| "check_all ok complaint ((k, x) # rest) = (if ok x then check_all ok complaint rest else Inl (ValueError (k @ complaint)))"

definition optional_ok :: "real option \<Rightarrow> bool" where
  "optional_ok x = (case x of None \<Rightarrow> True | Some r \<Rightarrow> 0 \<le> r)"

definition validate_scenario :: "impact_scenario \<Rightarrow> unit res" where
  "validate_scenario sc =
     bindR (guardR (py_strip (im_name sc) \<noteq> []) (ValueError ''scenario name cannot be empty'')) (\<lambda>_.
     bindR (guardR (py_strip (im_currency sc) \<noteq> []) (ValueError ''currency cannot be empty'')) (\<lambda>_.
     bindR (check_all (\<lambda>x. 0 \<le> x) '' must be non-negative'' (amounts_of sc)) (\<lambda>_.
     bindR (check_all (\<lambda>x. 0 \<le> x \<and> x \<le> 1) '' must be between 0 and 1'' (rates_of sc)) (\<lambda>_.
     bindR (guardR (0 \<le> im_monthly_ai_requests sc) (ValueError ''monthly_ai_requests must be non-negative'')) (\<lambda>_.
     bindR (guardR (0 < im_analysis_horizon_months sc) (ValueError ''analysis_horizon_months must be positive'')) (\<lambda>_.
     bindR (check_all optional_ok '' must be non-negative'' [(''energy_kwh_per_avoided_model_call'', im_energy_kwh_per_avoided_model_call sc),
       (''grid_kg_co2e_per_kwh'', im_grid_kg_co2e_per_kwh sc)]) (\<lambda>_.
     guardR (im_grid_kg_co2e_per_kwh sc = None \<or> im_energy_kwh_per_avoided_model_call sc \<noteq> None)
       (ValueError ''grid_kg_co2e_per_kwh requires energy_kwh_per_avoided_model_call''))))))))"

definition required_fields :: "string list" where
  "required_fields = [
    ''name'', ''currency'', ''storage_gib'', ''storage_reduction_rate'', ''storage_cost_per_gib_month'',
    ''monthly_data_transfer_gib'', ''data_transfer_reduction_rate'', ''data_transfer_cost_per_gib'',
    ''monthly_ai_requests'', ''average_input_tokens'', ''average_output_tokens'', ''exact_cache_hit_rate'',
    ''context_compiler_coverage'', ''context_input_reduction_rate'', ''ai_input_cost_per_million_tokens'',
    ''ai_output_cost_per_million_tokens'', ''monthly_urp_operating_cost'', ''implementation_cost'',
    ''analysis_horizon_months'']"

definition scenario_of :: "pydict \<Rightarrow> impact_scenario res" where
  "scenario_of d = (let missing = sort (filter (\<lambda>k. k \<notin> set (dkeys d)) required_fields) in
     bindR (guardR (missing = []) (ValueError (''impact scenario is missing required fields: '' @ join '', '' missing))) (\<lambda>_.
     bindR (item d ''name'') (\<lambda>name. bindR (item d ''currency'') (\<lambda>currency.
     bindR (number_field d ''storage_gib'') (\<lambda>x1.
     bindR (number_field d ''storage_reduction_rate'') (\<lambda>x2.
     bindR (number_field d ''storage_cost_per_gib_month'') (\<lambda>x3.
     bindR (number_field d ''monthly_data_transfer_gib'') (\<lambda>x4.
     bindR (number_field d ''data_transfer_reduction_rate'') (\<lambda>x5.
     bindR (number_field d ''data_transfer_cost_per_gib'') (\<lambda>x6.
     bindR (integer_field d ''monthly_ai_requests'') (\<lambda>x7.
     bindR (number_field d ''average_input_tokens'') (\<lambda>x8.
     bindR (number_field d ''average_output_tokens'') (\<lambda>x9.
     bindR (number_field d ''exact_cache_hit_rate'') (\<lambda>x10.
     bindR (number_field d ''context_compiler_coverage'') (\<lambda>x11.
     bindR (number_field d ''context_input_reduction_rate'') (\<lambda>x12.
     bindR (number_field d ''ai_input_cost_per_million_tokens'') (\<lambda>x13.
     bindR (number_field d ''ai_output_cost_per_million_tokens'') (\<lambda>x14.
     bindR (number_field d ''monthly_urp_operating_cost'') (\<lambda>x15.
     bindR (number_field d ''implementation_cost'') (\<lambda>x16.
     bindR (integer_field d ''analysis_horizon_months'') (\<lambda>x17.
     bindR (optional_number d ''energy_kwh_per_avoided_model_call'') (\<lambda>x18.
     bindR (optional_number d ''grid_kg_co2e_per_kwh'') (\<lambda>x19.
     (let sc = \<lparr>im_name = py_str name, im_currency = py_str currency,
         im_storage_gib = x1, im_storage_reduction_rate = x2,
         im_storage_cost_per_gib_month = x3, im_monthly_data_transfer_gib = x4,
         im_data_transfer_reduction_rate = x5, im_data_transfer_cost_per_gib = x6,
         im_monthly_ai_requests = x7, im_average_input_tokens = x8,
         im_average_output_tokens = x9, im_exact_cache_hit_rate = x10,
         im_context_compiler_coverage = x11, im_context_input_reduction_rate = x12,
         im_ai_input_cost_per_million_tokens = x13, im_ai_output_cost_per_million_tokens = x14,
         im_monthly_urp_operating_cost = x15, im_implementation_cost = x16,
         im_analysis_horizon_months = x17, im_energy_kwh_per_avoided_model_call = x18,
         im_grid_kg_co2e_per_kwh = x19\<rparr> in
     map_res (\<lambda>_. sc) (validate_scenario sc)))))))))))))))))))))))))"

subsection \<open>What is avoided and saved\<close>

definition baseline_storage_cost :: "impact_scenario \<Rightarrow> real" where
  "baseline_storage_cost sc = im_storage_gib sc * im_storage_cost_per_gib_month sc"

definition storage_gib_avoided :: "impact_scenario \<Rightarrow> real" where
  "storage_gib_avoided sc = im_storage_gib sc * im_storage_reduction_rate sc"

definition storage_cost_avoided :: "impact_scenario \<Rightarrow> real" where
  "storage_cost_avoided sc = storage_gib_avoided sc * im_storage_cost_per_gib_month sc"

definition baseline_transfer_cost :: "impact_scenario \<Rightarrow> real" where
  "baseline_transfer_cost sc = im_monthly_data_transfer_gib sc * im_data_transfer_cost_per_gib sc"

definition transfer_gib_avoided :: "impact_scenario \<Rightarrow> real" where
  "transfer_gib_avoided sc = im_monthly_data_transfer_gib sc * im_data_transfer_reduction_rate sc"

definition transfer_cost_avoided :: "impact_scenario \<Rightarrow> real" where
  "transfer_cost_avoided sc = transfer_gib_avoided sc * im_data_transfer_cost_per_gib sc"

definition requests_of :: "impact_scenario \<Rightarrow> real" where
  "requests_of sc = of_int (im_monthly_ai_requests sc)"

definition baseline_input_tokens :: "impact_scenario \<Rightarrow> real" where
  "baseline_input_tokens sc = requests_of sc * im_average_input_tokens sc"

definition baseline_output_tokens :: "impact_scenario \<Rightarrow> real" where
  "baseline_output_tokens sc = requests_of sc * im_average_output_tokens sc"

definition model_calls_avoided :: "impact_scenario \<Rightarrow> real" where
  "model_calls_avoided sc = requests_of sc * im_exact_cache_hit_rate sc"

definition cached_input_tokens_avoided :: "impact_scenario \<Rightarrow> real" where
  "cached_input_tokens_avoided sc = model_calls_avoided sc * im_average_input_tokens sc"

definition cached_output_tokens_avoided :: "impact_scenario \<Rightarrow> real" where
  "cached_output_tokens_avoided sc = model_calls_avoided sc * im_average_output_tokens sc"

definition uncached_requests :: "impact_scenario \<Rightarrow> real" where
  "uncached_requests sc = requests_of sc - model_calls_avoided sc"

definition context_input_tokens_avoided :: "impact_scenario \<Rightarrow> real" where
  "context_input_tokens_avoided sc =
     uncached_requests sc * im_context_compiler_coverage sc * im_average_input_tokens sc * im_context_input_reduction_rate sc"

definition total_input_tokens_avoided :: "impact_scenario \<Rightarrow> real" where
  "total_input_tokens_avoided sc = cached_input_tokens_avoided sc + context_input_tokens_avoided sc"

definition baseline_ai_cost :: "impact_scenario \<Rightarrow> real" where
  "baseline_ai_cost sc = baseline_input_tokens sc / 1000000 * im_ai_input_cost_per_million_tokens sc
     + baseline_output_tokens sc / 1000000 * im_ai_output_cost_per_million_tokens sc"

definition ai_cost_avoided :: "impact_scenario \<Rightarrow> real" where
  "ai_cost_avoided sc = total_input_tokens_avoided sc / 1000000 * im_ai_input_cost_per_million_tokens sc
     + cached_output_tokens_avoided sc / 1000000 * im_ai_output_cost_per_million_tokens sc"

definition baseline_direct_cost :: "impact_scenario \<Rightarrow> real" where
  "baseline_direct_cost sc = baseline_storage_cost sc + baseline_transfer_cost sc + baseline_ai_cost sc"

definition gross_monthly_savings :: "impact_scenario \<Rightarrow> real" where
  "gross_monthly_savings sc = storage_cost_avoided sc + transfer_cost_avoided sc + ai_cost_avoided sc"

definition net_monthly_savings :: "impact_scenario \<Rightarrow> real" where
  "net_monthly_savings sc = gross_monthly_savings sc - im_monthly_urp_operating_cost sc"

definition horizon_net_value :: "impact_scenario \<Rightarrow> real" where
  "horizon_net_value sc = net_monthly_savings sc * of_int (im_analysis_horizon_months sc) - im_implementation_cost sc"

definition payback_months :: "impact_scenario \<Rightarrow> real option" where
  "payback_months sc = (if 0 < net_monthly_savings sc then Some (im_implementation_cost sc / net_monthly_savings sc) else None)"

definition impact_roi :: "impact_scenario \<Rightarrow> real option" where
  "impact_roi sc = (if 0 < im_implementation_cost sc then Some (horizon_net_value sc / im_implementation_cost sc) else None)"

definition baseline_tokens :: "impact_scenario \<Rightarrow> real" where
  "baseline_tokens sc = baseline_input_tokens sc + baseline_output_tokens sc"

definition avoided_tokens :: "impact_scenario \<Rightarrow> real" where
  "avoided_tokens sc = total_input_tokens_avoided sc + cached_output_tokens_avoided sc"

subsection \<open>The report\<close>

text \<open>A decimal in the form Python prints: no trailing zero but the first.\<close>

fun short_float :: "int \<Rightarrow> nat \<Rightarrow> pyval" where
  "short_float m (Suc (Suc e)) = (if m mod 10 = 0 then short_float (m div 10) (Suc e) else PFloat m (Suc (Suc e)))"
| "short_float m e = PFloat m e"

definition rounded :: "real \<Rightarrow> nat \<Rightarrow> pyval" where
  "rounded x n = short_float (round_half_even (x * 10 ^ n)) n"

definition money :: "real \<Rightarrow> pyval" where
  "money x = rounded x 2"

definition impact_metric :: "real \<Rightarrow> pyval" where
  "impact_metric x = (let k = round_half_even (x * 10 ^ 6) in if k mod 10 ^ 6 = 0 then PInt (k div 10 ^ 6) else short_float k 6)"

definition ratio :: "real \<Rightarrow> real \<Rightarrow> pyval" where
  "ratio a b = (if b \<noteq> 0 then rounded (a / b) 6 else PFloat 0 1)"

definition energy_report :: "impact_scenario \<Rightarrow> pydict" where
  "energy_report sc = (case im_energy_kwh_per_avoided_model_call sc of
     None \<Rightarrow> [(''estimated'', PBool False), (''reason'', PStr (''Provide measured energy_kwh_per_avoided_model_call to estimate energy; ''
         @ ''URP does not assume a universal inference energy value.''))]
   | Some kwh \<Rightarrow> (let monthly = model_calls_avoided sc * kwh in
       [(''estimated'', PBool True), (''monthly_kwh_avoided'', impact_metric monthly), (''annual_kwh_avoided'', impact_metric (monthly * 12)),
        (''method'', PStr ''avoided exact-cache model calls multiplied by operator-supplied measured energy per call'')]
       @ (case im_grid_kg_co2e_per_kwh sc of None \<Rightarrow> []
          | Some g \<Rightarrow> [(''monthly_kg_co2e_avoided'', impact_metric (monthly * g)), (''annual_kg_co2e_avoided'', impact_metric (monthly * g * 12))])))"

definition impact_boundaries :: "string list" where
  "impact_boundaries = [
     ''Rates are operator assumptions, not measured production outcomes.'',
     ''Exact cache and context reduction are modeled; semantic cache, model routing, and training savings are excluded.'',
     ''Request fees, taxes, discounts, cache storage, and workload growth are excluded unless represented in operating cost.'',
     ''Net impact subtracts the supplied URP operating cost and implementation cost but is not an accounting opinion.'']"

definition baseline_report :: "impact_scenario \<Rightarrow> pydict" where
  "baseline_report sc = [(''storage_cost'', money (baseline_storage_cost sc)), (''data_transfer_cost'', money (baseline_transfer_cost sc)),
     (''ai_token_cost'', money (baseline_ai_cost sc)), (''direct_cost'', money (baseline_direct_cost sc)),
     (''ai_requests'', PInt (im_monthly_ai_requests sc)), (''input_tokens'', impact_metric (baseline_input_tokens sc)),
     (''output_tokens'', impact_metric (baseline_output_tokens sc))]"

definition avoided_report :: "impact_scenario \<Rightarrow> pydict" where
  "avoided_report sc = [(''storage_gib'', impact_metric (storage_gib_avoided sc)), (''data_transfer_gib'', impact_metric (transfer_gib_avoided sc)),
     (''model_calls'', impact_metric (model_calls_avoided sc)), (''input_tokens'', impact_metric (total_input_tokens_avoided sc)),
     (''output_tokens'', impact_metric (cached_output_tokens_avoided sc)),
     (''context_input_tokens'', impact_metric (context_input_tokens_avoided sc)),
     (''model_call_avoidance_rate'', ratio (model_calls_avoided sc) (requests_of sc)),
     (''total_token_avoidance_rate'', ratio (avoided_tokens sc) (baseline_tokens sc))]"

definition financial_report :: "impact_scenario \<Rightarrow> pydict" where
  "financial_report sc = [(''monthly_storage_cost_avoided'', money (storage_cost_avoided sc)),
     (''monthly_data_transfer_cost_avoided'', money (transfer_cost_avoided sc)), (''monthly_ai_cost_avoided'', money (ai_cost_avoided sc)),
     (''gross_monthly_savings'', money (gross_monthly_savings sc)), (''monthly_urp_operating_cost'', money (im_monthly_urp_operating_cost sc)),
     (''net_monthly_savings'', money (net_monthly_savings sc)), (''annualized_net_savings'', money (net_monthly_savings sc * 12)),
     (''gross_direct_cost_reduction_rate'', ratio (gross_monthly_savings sc) (baseline_direct_cost sc)),
     (''implementation_cost'', money (im_implementation_cost sc)),
     (''payback_months'', case payback_months sc of None \<Rightarrow> PNone | Some p \<Rightarrow> rounded p 2),
     (''analysis_horizon_months'', PInt (im_analysis_horizon_months sc)), (''horizon_net_value'', money (horizon_net_value sc)),
     (''horizon_roi'', case impact_roi sc of None \<Rightarrow> PNone | Some r \<Rightarrow> rounded r 4)]"

definition impact_report :: "impact_scenario \<Rightarrow> pydict" where
  "impact_report sc = [(''model_version'', PStr ''urp.impact.v1''), (''scenario'', PStr (im_name sc)), (''currency'', PStr (im_currency sc)),
     (''classification'', PStr ''modeled_scenario_not_forecast''), (''monthly_baseline'', PDict (baseline_report sc)),
     (''monthly_avoided_work'', PDict (avoided_report sc)), (''financial_impact'', PDict (financial_report sc)),
     (''environmental_impact'', PDict (energy_report sc)), (''boundaries'', PList (map PStr impact_boundaries))]"

definition model_impact :: "pydict \<Rightarrow> pydict res" where
  "model_impact d = bindR (scenario_of d) (\<lambda>sc. bindR (validate_scenario sc) (\<lambda>_. Inr (impact_report sc)))"

subsection \<open>Valid scenarios\<close>

definition fraction :: "real \<Rightarrow> bool" where
  "fraction x = (0 \<le> x \<and> x \<le> 1)"

text \<open>What the checks establish, field by field.\<close>

definition valid_scenario :: "impact_scenario \<Rightarrow> bool" where
  "valid_scenario sc = (list_all (\<lambda>(k, x). 0 \<le> x) (amounts_of sc) \<and> list_all (\<lambda>(k, x). fraction x) (rates_of sc)
     \<and> 0 \<le> im_monthly_ai_requests sc \<and> 0 < im_analysis_horizon_months sc
     \<and> optional_ok (im_energy_kwh_per_avoided_model_call sc) \<and> optional_ok (im_grid_kg_co2e_per_kwh sc)
     \<and> (im_grid_kg_co2e_per_kwh sc = None \<or> im_energy_kwh_per_avoided_model_call sc \<noteq> None)
     \<and> py_strip (im_name sc) \<noteq> [] \<and> py_strip (im_currency sc) \<noteq> [])"

lemma check_all_Inr: "(check_all ok c xs = Inr u) = list_all (\<lambda>(k, x). ok x) xs"
  by (induction ok c xs rule: check_all.induct) auto

lemma validated_iff: "(validate_scenario sc = Inr ()) = valid_scenario sc"
  by (auto simp: validate_scenario_def valid_scenario_def effect_simps guardR_def check_all_Inr fraction_def)

lemma scenario_of_valid: "scenario_of d = Inr sc \<Longrightarrow> validate_scenario sc = Inr ()"
proof -
  have "map_res (\<lambda>_. x) (validate_scenario x) = Inr sc \<Longrightarrow> validate_scenario sc = Inr ()" for x
    by (cases "validate_scenario x") auto
  then show "scenario_of d = Inr sc \<Longrightarrow> ?thesis" unfolding scenario_of_def Let_def by (auto simp only: bindR_Inr)
qed

lemma valid_fields:
  assumes "valid_scenario sc"
  shows "0 \<le> im_storage_gib sc" "0 \<le> im_storage_cost_per_gib_month sc" "0 \<le> im_monthly_data_transfer_gib sc"
    "0 \<le> im_data_transfer_cost_per_gib sc" "0 \<le> im_average_input_tokens sc" "0 \<le> im_average_output_tokens sc"
    "0 \<le> im_ai_input_cost_per_million_tokens sc" "0 \<le> im_ai_output_cost_per_million_tokens sc" "0 \<le> im_implementation_cost sc"
    "fraction (im_storage_reduction_rate sc)" "fraction (im_data_transfer_reduction_rate sc)" "fraction (im_exact_cache_hit_rate sc)"
    "fraction (im_context_compiler_coverage sc)" "fraction (im_context_input_reduction_rate sc)" "0 \<le> requests_of sc"
  using assms by (simp_all add: valid_scenario_def amounts_of_def rates_of_def requests_of_def)

subsection \<open>Bounds\<close>

lemma share: "fraction r \<Longrightarrow> 0 \<le> x \<Longrightarrow> 0 \<le> x * r \<and> x * r \<le> x"
  by (simp add: fraction_def mult_left_le)

lemma share_mult: "0 \<le> a \<Longrightarrow> a \<le> b \<Longrightarrow> 0 \<le> (c::real) \<Longrightarrow> 0 \<le> a * c \<and> a * c \<le> b * c"
  by (simp add: mult_right_mono)

lemma fraction_mult: "fraction r \<Longrightarrow> fraction r' \<Longrightarrow> fraction (r * r')"
  by (simp add: fraction_def mult_le_one)

lemma tokens_bounded:
  assumes "valid_scenario sc"
  shows "0 \<le> total_input_tokens_avoided sc \<and> total_input_tokens_avoided sc \<le> baseline_input_tokens sc"
    "0 \<le> cached_output_tokens_avoided sc \<and> cached_output_tokens_avoided sc \<le> baseline_output_tokens sc"
    "0 \<le> model_calls_avoided sc \<and> model_calls_avoided sc \<le> requests_of sc"
proof -
  note v = valid_fields [OF assms]
  let ?n = "requests_of sc" and ?h = "im_exact_cache_hit_rate sc" and ?a = "im_average_input_tokens sc"
  let ?c = "im_context_compiler_coverage sc" and ?r = "im_context_input_reduction_rate sc"
  show calls: "0 \<le> model_calls_avoided sc \<and> model_calls_avoided sc \<le> ?n"
    unfolding model_calls_avoided_def by (rule share [OF v(12,15)])
  show "0 \<le> cached_output_tokens_avoided sc \<and> cached_output_tokens_avoided sc \<le> baseline_output_tokens sc"
    unfolding cached_output_tokens_avoided_def baseline_output_tokens_def using calls v(6) by (intro share_mult) auto
  have "total_input_tokens_avoided sc = ?n * ?a * (?h + (1 - ?h) * (?c * ?r))"
    by (simp add: total_input_tokens_avoided_def cached_input_tokens_avoided_def context_input_tokens_avoided_def
        uncached_requests_def model_calls_avoided_def algebra_simps)
  moreover have "fraction (?h + (1 - ?h) * (?c * ?r))"
  proof -
    have cr: "fraction (?c * ?r)" by (rule fraction_mult [OF v(13,14)])
    then have "(1 - ?h) * (?c * ?r) \<le> 1 - ?h" "0 \<le> (1 - ?h) * (?c * ?r)" using v(12) by (simp_all add: fraction_def mult_left_le)
    then show ?thesis using v(12) by (simp add: fraction_def)
  qed
  ultimately show "0 \<le> total_input_tokens_avoided sc \<and> total_input_tokens_avoided sc \<le> baseline_input_tokens sc"
    using share [of _ "?n * ?a"] v(5,15) by (simp add: baseline_input_tokens_def)
qed

lemma costs_bounded:
  assumes "valid_scenario sc"
  shows "0 \<le> storage_cost_avoided sc \<and> storage_cost_avoided sc \<le> baseline_storage_cost sc"
    "0 \<le> transfer_cost_avoided sc \<and> transfer_cost_avoided sc \<le> baseline_transfer_cost sc"
    "0 \<le> ai_cost_avoided sc \<and> ai_cost_avoided sc \<le> baseline_ai_cost sc"
proof -
  note v = valid_fields [OF assms] and t = tokens_bounded [OF assms]
  show "0 \<le> storage_cost_avoided sc \<and> storage_cost_avoided sc \<le> baseline_storage_cost sc"
    unfolding storage_cost_avoided_def storage_gib_avoided_def baseline_storage_cost_def
    using share [OF v(10,1)] v(2) by (intro share_mult) auto
  show "0 \<le> transfer_cost_avoided sc \<and> transfer_cost_avoided sc \<le> baseline_transfer_cost sc"
    unfolding transfer_cost_avoided_def transfer_gib_avoided_def baseline_transfer_cost_def
    using share [OF v(11,3)] v(4) by (intro share_mult) auto
  have "0 \<le> x / 1000000 * c \<and> x / 1000000 * c \<le> y / 1000000 * c" if "0 \<le> x \<and> x \<le> y" "0 \<le> c" for x y c :: real
    using that by (intro share_mult) auto
  from this [OF t(1) v(7)] this [OF t(2) v(8)]
  show "0 \<le> ai_cost_avoided sc \<and> ai_cost_avoided sc \<le> baseline_ai_cost sc"
    by (simp add: ai_cost_avoided_def baseline_ai_cost_def)
qed

lemma round_mono_unit: "0 \<le> x \<Longrightarrow> x \<le> of_int k \<Longrightarrow> 0 \<le> round_half_even x \<and> round_half_even x \<le> k"
proof -
  assume x: "0 \<le> x" "x \<le> of_int k"
  have lo: "0 \<le> \<lfloor>x\<rfloor>" using x(1) by simp
  have "\<lfloor>x\<rfloor> + 1 \<le> k" if "x \<noteq> of_int \<lfloor>x\<rfloor>"
  proof -
    have "of_int \<lfloor>x\<rfloor> < x" using that by (metis of_int_floor_le order_le_less)
    then have "of_int \<lfloor>x\<rfloor> < (of_int k :: real)" using x(2) by linarith
    then show ?thesis by simp
  qed
  moreover have "\<lfloor>x\<rfloor> \<le> k" using x(2) by linarith
  ultimately show ?thesis using lo by (auto simp: round_half_even_def Let_def)
qed

text \<open>The value of a reported number.\<close>

definition number_value :: "pyval \<Rightarrow> real" where
  "number_value v = (case py_num v of Some (m, e) \<Rightarrow> of_int m / 10 ^ e | None \<Rightarrow> 0)"

lemma short_float_value: "number_value (short_float m e) = of_int m / 10 ^ e"
proof (induction m e rule: short_float.induct)
  case (1 m e)
  show ?case
  proof (cases "m mod 10 = 0")
    case True
    then have "m = 10 * (m div 10)" using div_mult_mod_eq [of m 10] by simp
    then have "(of_int m :: real) = 10 * of_int (m div 10)" by (metis of_int_mult of_int_numeral)
    then show ?thesis using 1 True by simp
  qed (simp add: number_value_def)
qed (simp_all add: number_value_def)

lemma ratio_fraction:
  assumes "0 \<le> a" "a \<le> b"
  shows "fraction (number_value (ratio a b))"
proof (cases "b = 0")
  case True
  then show ?thesis by (simp add: ratio_def number_value_def fraction_def)
next
  case False
  then have unit: "0 \<le> a / b" "a / b \<le> 1" using assms by simp_all
  have "0 \<le> q * 10 ^ 6 \<and> q * 10 ^ 6 \<le> of_int (10 ^ 6)" if "0 \<le> q" "q \<le> 1" for q :: real using that by simp
  note this [OF unit]
  then have "0 \<le> round_half_even (a / b * 10 ^ 6) \<and> round_half_even (a / b * 10 ^ 6) \<le> 10 ^ 6" using round_mono_unit by blast
  then have "(0::real) \<le> of_int (round_half_even (a / b * 10 ^ 6)) \<and> of_int (round_half_even (a / b * 10 ^ 6)) \<le> (10::real) ^ 6"
    by (metis of_int_0_le_iff of_int_le_iff of_int_numeral of_int_power)
  then show ?thesis using False by (simp add: ratio_def rounded_def short_float_value fraction_def)
qed


subsection \<open>What a scenario needs\<close>

text \<open>
  The pay-back month means what it says. In a valid scenario with positive net
  savings the analysis horizon covers the pay-back time exactly when the net value over the horizon is
  not negative; without net savings there is no pay-back time and the horizon loses money or breaks even.
\<close>

theorem payback_within_horizon:
  assumes "validate_scenario sc = Inr ()"
  shows "case payback_months sc of
      Some p \<Rightarrow> 0 \<le> p \<and> p * net_monthly_savings sc = im_implementation_cost sc \<and> (p \<le> of_int (im_analysis_horizon_months sc)) = (0 \<le> horizon_net_value sc)
    | None \<Rightarrow> horizon_net_value sc \<le> 0"
proof -
  have v: "valid_scenario sc" using assms by (simp add: validated_iff)
  then have h: "0 < im_analysis_horizon_months sc" and c: "0 \<le> im_implementation_cost sc" using valid_fields(9) [OF v] by (simp_all add: valid_scenario_def)
  show ?thesis
  proof (cases "0 < net_monthly_savings sc")
    case True
    then show ?thesis using c by (simp add: payback_months_def horizon_net_value_def pos_divide_le_eq mult.commute)
  next
    case False
    then have "net_monthly_savings sc * of_int (im_analysis_horizon_months sc) \<le> 0" using h by (simp add: mult_nonpos_nonneg)
    then show ?thesis using False c by (simp add: payback_months_def horizon_net_value_def)
  qed
qed

definition sample_scenario :: impact_scenario where
  "sample_scenario = \<lparr>im_name = ''test'', im_currency = ''USD'', im_storage_gib = 102400, im_storage_reduction_rate = 3 / 10,
     im_storage_cost_per_gib_month = 23 / 1000, im_monthly_data_transfer_gib = 204800, im_data_transfer_reduction_rate = 3 / 10,
     im_data_transfer_cost_per_gib = 5 / 100, im_monthly_ai_requests = 10000000, im_average_input_tokens = 1000,
     im_average_output_tokens = 250, im_exact_cache_hit_rate = 15 / 100, im_context_compiler_coverage = 4 / 10,
     im_context_input_reduction_rate = 3 / 10, im_ai_input_cost_per_million_tokens = 1, im_ai_output_cost_per_million_tokens = 4,
     im_monthly_urp_operating_cost = 2500, im_implementation_cost = 30000, im_analysis_horizon_months = 36,
     im_energy_kwh_per_avoided_model_call = None, im_grid_kg_co2e_per_kwh = None\<rparr>"

lemma sample_valid: "validate_scenario sample_scenario = Inr ()"
proof -
  have "py_strip ''test'' \<noteq> []" "py_strip ''USD'' \<noteq> []" by code_simp+
  then show ?thesis
    by (simp add: validated_iff valid_scenario_def amounts_of_def rates_of_def fraction_def optional_ok_def sample_scenario_def)
qed

lemmas scenario_figures = net_monthly_savings_def gross_monthly_savings_def storage_cost_avoided_def storage_gib_avoided_def
  transfer_cost_avoided_def transfer_gib_avoided_def ai_cost_avoided_def total_input_tokens_avoided_def cached_input_tokens_avoided_def
  cached_output_tokens_avoided_def context_input_tokens_avoided_def uncached_requests_def model_calls_avoided_def requests_of_def

theorem payback_within_horizon_witness:
  "net_monthly_savings sample_scenario = 529856 / 100 \<and> 0 \<le> horizon_net_value sample_scenario"
proof -
  have net: "net_monthly_savings sample_scenario = 529856 / 100" by (simp add: scenario_figures) (simp add: sample_scenario_def)
  have "im_implementation_cost sample_scenario = 30000" by (simp add: sample_scenario_def)
  then have "payback_months sample_scenario = Some (30000 / (529856 / 100))" by (simp add: payback_months_def net)
  then show ?thesis using payback_within_horizon [OF sample_valid] net by (simp add: sample_scenario_def)
qed

definition sample_payload :: pydict where
  "sample_payload = [(''name'', PStr ''test''), (''currency'', PStr ''USD''), (''storage_gib'', PInt 102400),
     (''storage_reduction_rate'', PFloat 3 1), (''storage_cost_per_gib_month'', PFloat 23 3), (''monthly_data_transfer_gib'', PInt 204800),
     (''data_transfer_reduction_rate'', PFloat 3 1), (''data_transfer_cost_per_gib'', PFloat 5 2), (''monthly_ai_requests'', PInt 10000000),
     (''average_input_tokens'', PInt 1000), (''average_output_tokens'', PInt 250), (''exact_cache_hit_rate'', PFloat 15 2),
     (''context_compiler_coverage'', PFloat 4 1), (''context_input_reduction_rate'', PFloat 3 1),
     (''ai_input_cost_per_million_tokens'', PFloat 10 1), (''ai_output_cost_per_million_tokens'', PFloat 40 1),
     (''monthly_urp_operating_cost'', PInt 2500), (''implementation_cost'', PInt 30000), (''analysis_horizon_months'', PInt 36)]"

lemma sample_read: "scenario_of sample_payload = Inr sample_scenario"
proof -
  have none: "filter (\<lambda>k. k \<notin> set (dkeys sample_payload)) required_fields = []" by code_simp
  have int: "integer_field d k = Inr n" if "dget d k = Some (PInt n)" for d k n
    using that by (simp add: integer_field_def item_def is_bool_def)
  have num: "number_field d k = Inr (of_int n)" if "dget d k = Some (PInt n)" for d k n
    using that by (simp add: number_field_def item_def is_bool_def not_finite_def float_value_def float_of_def)
  have flt: "number_field d k = Inr (of_int m / 10 ^ e)" if "dget d k = Some (PFloat m e)" for d k m e
    using that by (simp add: number_field_def item_def is_bool_def not_finite_def float_value_def float_of_def)
  have opt: "optional_number d k = Inr None" if "dget d k = None" for d k
    using that by (simp add: optional_number_def get_value_def)
  show ?thesis using sample_valid unfolding scenario_of_def none Let_def
    by (simp add: guardR_def sample_payload_def int num flt opt item_def sample_scenario_def)
qed


end
