(* ===== verification/Adapters.thy ===== *)
theory Adapters
  imports ObjectRuns Plugins
begin

text \<open>
  The file adapter and the mock adapters of \<open>python/urp/adapters.py\<close>. The disk beside the state
  directory is the list of its files, named by the text of their \<open>Path\<close>, with the mode and time
  \<open>stat\<close> reports; a name is a directory when files lie below it. What \<open>stat\<close> reports of a
  directory is a parameter (\<open>he_dir\<close>), as is the time a file is written at (\<open>he_mtime\<close>). Links,
  parent references and permissions are not in the model. An adapter works on one state directory.
\<close>

subsection \<open>Files\<close>

record posix_file =
  pf_data :: bytes
  pf_mode :: int
  pf_mtime :: int

record host =
  ho_gateway :: gateway
  ho_disk :: "(string \<times> posix_file) list"

record host_env =
  he_gateway :: gateway_env
  he_dir :: "string \<Rightarrow> int \<times> int \<times> int"
  he_mtime :: "nat \<Rightarrow> int"

type_synonym 'a hio = "('a, host) sres"

definition in_gateway :: "'a gio \<Rightarrow> 'a hio" where
  "in_gateway = zoom ho_gateway (\<lambda>g h. h\<lparr>ho_gateway := g\<rparr>)"

definition in_state :: "'a io \<Rightarrow> 'a hio" where
  "in_state m = in_gateway (on_world m)"

definition host_read :: "(host \<Rightarrow> 'a res) \<Rightarrow> 'a hio" where
  "host_read f = (\<lambda>h. (f h, h))"

text \<open>\<open>str(Path(p))\<close> and \<open>Path(p).name\<close>.\<close>

definition path_text :: "string \<Rightarrow> string" where
  "path_text p = (let parts = pure_parts p in
     if prefix ''/'' p then (if prefix ''//'' p \<and> \<not> prefix ''///'' p then ''//'' else ''/'') @ join ''/'' parts
     else if parts = [] then ''.'' else join ''/'' parts)"

definition path_name :: "string \<Rightarrow> string" where
  "path_name p = (let parts = pure_parts p in if parts = [] then [] else last parts)"

definition disk_tree :: "(string \<times> posix_file) list \<Rightarrow> tree" where
  "disk_tree d = map (\<lambda>(p, f). (p, pf_data f)) d"

definition dir_at :: "(string \<times> posix_file) list \<Rightarrow> string \<Rightarrow> bool" where
  "dir_at d p = (p \<in> {''.'', ''/'', ''//''} \<or> is_directory (disk_tree d) p)"

definition path_exists :: "(string \<times> posix_file) list \<Rightarrow> string \<Rightarrow> bool" where
  "path_exists d p = (dget d p \<noteq> None \<or> dir_at d p)"

text \<open>\<open>st_size\<close>, \<open>st_mode\<close> and \<open>st_mtime_ns\<close>.\<close>

definition stat_path :: "host_env \<Rightarrow> string \<Rightarrow> host \<Rightarrow> (int \<times> int \<times> int) res" where
  "stat_path he p h = (case dget (ho_disk h) p of
       Some f \<Rightarrow> Inr (int (length (pf_data f)), pf_mode f, pf_mtime f)
     | None \<Rightarrow> if dir_at (ho_disk h) p then Inr (he_dir he p)
         else if below_file (disk_tree (ho_disk h)) p then Inl (OtherError ''OSError'') else Inl (FileNotFoundError p))"

definition read_path :: "string \<Rightarrow> host \<Rightarrow> bytes res" where
  "read_path p h = (case dget (ho_disk h) p of Some f \<Rightarrow> Inr (pf_data f) | None \<Rightarrow> Inl (OtherError ''OSError''))"

text \<open>\<open>atomic_write_bytes\<close>: the file that takes the name is a new one, readable by its owner only.\<close>

definition new_file_mode :: int where
  "new_file_mode = 33152"

definition write_path :: "host_env \<Rightarrow> string \<Rightarrow> bytes \<Rightarrow> unit hio" where
  "write_path he p data = (\<lambda>h.
     if dir_at (ho_disk h) p \<or> below_file (disk_tree (ho_disk h)) p then (Inl (OtherError ''OSError''), h)
     else (Inr (), h\<lparr>ho_disk := dset p \<lparr>pf_data = data, pf_mode = new_file_mode,
       pf_mtime = he_mtime he (w_drawn (gw_world (ho_gateway h)))\<rparr> (ho_disk h)\<rparr>))"

subsection \<open>The file adapter\<close>

definition file_unit :: "env \<Rightarrow> nat \<Rightarrow> string \<Rightarrow> string \<Rightarrow> bytes \<Rightarrow> int \<times> int \<times> int \<Rightarrow> string \<Rightarrow> work_unit" where
  "file_unit en n tenant path data st ns = \<lparr>wu_kind = FILE, wu_tenant = tenant, wu_logical_ref = path_text path,
     wu_payload = PBytes data, wu_requested_contract = None, wu_namespace = ns,
     wu_metadata = [(''path'', PStr (path_text path)), (''name'', PStr (path_name path)), (''mode'', PInt (fst (snd st))),
       (''mtime_ns'', PInt (snd (snd st))), (''size'', PInt (fst st))],
     wu_policy_context = [], wu_trace_id = e_ids en ''tr'' n, wu_id = e_ids en ''wu'' n, wu_created_at = e_clock en n,
     wu_payload_ref = PNone, wu_effective_contract = None, wu_deadline = None, wu_latency_budget_ms = None, wu_quality_target = []\<rparr>"

definition work_unit_for_path :: "host_env \<Rightarrow> string \<Rightarrow> string \<Rightarrow> string \<Rightarrow> work_unit hio" where
  "work_unit_for_path he tenant path ns =
     bindS (host_read (stat_path he (path_text path))) (\<lambda>st.
     bindS (host_read (read_path (path_text path))) (\<lambda>data.
     bindS (in_state draw) (\<lambda>n. retS (file_unit (ge_env (he_gateway he)) n tenant path data st ns))))"

definition plan_file :: "host_env \<Rightarrow> string \<Rightarrow> string \<Rightarrow> string \<Rightarrow> pydict hio" where
  "plan_file he tenant path ns = bindS (work_unit_for_path he tenant path ns) (\<lambda>wu.
     bindS (liftR (plan_work_unit wu ''observe'' [] None)) (\<lambda>p. retS (plan_to_dict p)))"

definition execute_file :: "host_env \<Rightarrow> string \<Rightarrow> string \<Rightarrow> string \<Rightarrow> pydict hio" where
  "execute_file he tenant path ns = bindS (work_unit_for_path he tenant path ns) (\<lambda>wu.
     bindS (in_gateway (execute_work_unit (he_gateway he) wu None)) (\<lambda>r. retS (result_to_dict r)))"

text \<open>\<open>if p.exists() and not overwrite: raise FileExistsError\<close>.\<close>

definition guard_overwrite :: "string \<Rightarrow> bool \<Rightarrow> unit hio" where
  "guard_overwrite p overwrite = host_read (\<lambda>h.
     guardR (\<not> path_exists (ho_disk h) p \<or> overwrite) (OtherError ''FileExistsError''))"

text \<open>\<open>write_file\<close> of the adapter is another name of it.\<close>

definition put_file :: "host_env \<Rightarrow> string \<Rightarrow> string \<Rightarrow> bytes \<Rightarrow> string \<Rightarrow> bool \<Rightarrow> pydict hio" where
  "put_file he tenant path data ns overwrite =
     thenS (guard_overwrite (path_text path) overwrite)
     (thenS (write_path he (path_text path) data) (execute_file he tenant path ns))"

definition tenant_manifest :: "host_env \<Rightarrow> string \<Rightarrow> string \<Rightarrow> manifest hio" where
  "tenant_manifest he tenant i = in_state (inspect (\<lambda>w.
     file_get_for_tenant (e_ctx (ge_env (he_gateway he))) i tenant (w_manifests w)))"

definition posix_read_file :: "host_env \<Rightarrow> string \<Rightarrow> string \<Rightarrow> bytes hio" where
  "posix_read_file he tenant i = thenS (bindS (tenant_manifest he tenant i) (\<lambda>_. retS ()))
     (in_state (inspect (rehydrate_manifest (ge_env (he_gateway he)) i)))"

definition rehydrate_file :: "host_env \<Rightarrow> string \<Rightarrow> string \<Rightarrow> string \<Rightarrow> bool \<Rightarrow> pydict hio" where
  "rehydrate_file he tenant i output overwrite =
     bindS (posix_read_file he tenant i) (\<lambda>data.
     thenS (guard_overwrite (path_text output) overwrite)
     (thenS (write_path he (path_text output) data)
     (retS [(''manifest_id'', PStr i), (''path'', PStr (path_text output)), (''bytes'', PInt (int (length data)))])))"

definition stat_file :: "host_env \<Rightarrow> string \<Rightarrow> string \<Rightarrow> pydict hio" where
  "stat_file he tenant i = bindS (tenant_manifest he tenant i) (\<lambda>m. let source = lineage_get m ''work_unit_metadata'' in
     bindS (liftR (source ''path'' PNone)) (\<lambda>path. bindS (liftR (source ''mode'' PNone)) (\<lambda>mode.
     bindS (liftR (source ''mtime_ns'' PNone)) (\<lambda>mtime.
     retS [(''manifest_id'', PStr (mf_manifest_id m)), (''work_unit_id'', PStr (mf_work_unit_id m)),
       (''logical_ref'', PStr (mf_logical_ref m)), (''path'', path),
       (''content_length'', get_default (mf_physical m) ''logical_size'' (PInt 0)),
       (''sha256'', get_value (mf_physical m) ''whole_sha256''), (''mode'', mode), (''mtime_ns'', mtime)]))))"

text \<open>The names in a directory: the first part of what follows its path in the names of the files below it.\<close>

definition below_text :: "string \<Rightarrow> string" where
  "below_text p = (if p = ''.'' then [] else if p \<in> {''/'', ''//''} then p else p @ ''/'')"

definition child_names :: "(string \<times> posix_file) list \<Rightarrow> string \<Rightarrow> string list" where
  "child_names d p = (let base = below_text p;
       inside = filter (\<lambda>q. prefix base q \<and> (p = ''.'' \<longrightarrow> \<not> prefix ''/'' q)) (dkeys d) in
     sort_key (\<lambda>s. s) (remdups (map (\<lambda>q. hd (path_parts (drop (length base) q))) inside)))"

definition list_entry :: "host_env \<Rightarrow> host \<Rightarrow> string \<Rightarrow> string \<Rightarrow> pydict res" where
  "list_entry he h p name = (let child = below_text p @ name in
     bindR (stat_path he child h) (\<lambda>(size, mode, mtime).
     Inr [(''name'', PStr name), (''path'', PStr child), (''type'', PStr (if dir_at (ho_disk h) child then ''dir'' else ''file'')),
       (''size'', PInt size), (''mode'', PInt mode), (''mtime_ns'', PInt mtime)]))"

definition list_dir :: "host_env \<Rightarrow> string \<Rightarrow> pydict hio" where
  "list_dir he path = (let p = path_text path in host_read (\<lambda>h.
     if dget (ho_disk h) p \<noteq> None \<or> below_file (disk_tree (ho_disk h)) p then Inl (OtherError ''OSError'')
     else if \<not> dir_at (ho_disk h) p then Inl (FileNotFoundError p)
     else map_res (\<lambda>rows. [(''path'', PStr p), (''entries'', PList (map PDict rows)), (''count'', PInt (int (length rows)))])
       (seq_res (map (list_entry he h p) (child_names (ho_disk h) p)))))"

subsection \<open>Mock adapters\<close>

record mock_adapter =
  ma_name :: string
  ma_kinds :: "work_unit_kind list"
  ma_tenant :: string

definition mock_capabilities :: "mock_adapter \<Rightarrow> pydict" where
  "mock_capabilities a = [(''mock'', PBool True), (''plan_work_unit'', PBool True), (''execute_work_unit'', PBool True),
     (''submit_work_unit'', PBool True), (''rehydrate'', PBool True), (''kinds'', strs (map kind_value (ma_kinds a))),
     (''external_integrations_required'', PBool False)]"

definition ensure_supported :: "mock_adapter \<Rightarrow> work_unit_kind \<Rightarrow> unit res" where
  "ensure_supported a k = guardR (k \<in> set (ma_kinds a)) (ValueError (ma_name a @ '' adapter does not support '' @ kind_value k
     @ ''; supported kinds: '' @ join '', '' (map kind_value (ma_kinds a))))"

definition mock_plan :: "mock_adapter \<Rightarrow> work_unit \<Rightarrow> string \<Rightarrow> pydict res" where
  "mock_plan a wu mode = bindR (ensure_supported a (wu_kind wu)) (\<lambda>_. map_res plan_to_dict (plan_work_unit wu mode [] None))"

definition mock_execute :: "gateway_env \<Rightarrow> mock_adapter \<Rightarrow> work_unit \<Rightarrow> string \<Rightarrow> pydict gio" where
  "mock_execute ge a wu mode = thenS (liftR (ensure_supported a (wu_kind wu)))
     (bindS (execute_work_unit ge wu (Some mode)) (\<lambda>r. retS (result_to_dict r)))"

record submission =
  sm_kind :: string
  sm_logical_ref :: string
  sm_payload :: pyval
  sm_tenant :: "string option"
  sm_namespace :: "string option"
  sm_contract :: "string option"
  sm_metadata :: pydict
  sm_policy_context :: pydict
  sm_mode :: string

definition submission_tenant :: "mock_adapter \<Rightarrow> submission \<Rightarrow> string" where
  "submission_tenant a sm = (case given (sm_tenant sm) of Some t \<Rightarrow> t | None \<Rightarrow> ma_tenant a)"

definition submission_namespace :: "mock_adapter \<Rightarrow> submission \<Rightarrow> string" where
  "submission_namespace a sm = (case given (sm_namespace sm) of Some s \<Rightarrow> s | None \<Rightarrow> ma_name a)"

definition submitted_unit :: "env \<Rightarrow> nat \<Rightarrow> mock_adapter \<Rightarrow> work_unit_kind \<Rightarrow> contract option \<Rightarrow> submission \<Rightarrow> work_unit" where
  "submitted_unit en n a k c sm = \<lparr>wu_kind = k, wu_tenant = submission_tenant a sm,
     wu_logical_ref = sm_logical_ref sm, wu_payload = sm_payload sm, wu_requested_contract = c,
     wu_namespace = submission_namespace a sm,
     wu_metadata = dset ''adapter'' (PStr (ma_name a)) (sm_metadata sm), wu_policy_context = sm_policy_context sm,
     wu_trace_id = e_ids en ''tr'' n, wu_id = e_ids en ''wu'' n, wu_created_at = e_clock en n, wu_payload_ref = PNone,
     wu_effective_contract = None, wu_deadline = None, wu_latency_budget_ms = None, wu_quality_target = []\<rparr>"

text \<open>\<open>submit_work_unit\<close>; \<open>execute_kind\<close> is another name of it.\<close>

definition submit_work_unit :: "gateway_env \<Rightarrow> mock_adapter \<Rightarrow> submission \<Rightarrow> pydict gio" where
  "submit_work_unit ge a sm =
     bindS (liftR (kind_of (sm_kind sm))) (\<lambda>k.
     thenS (liftR (ensure_supported a k))
     (bindS (liftR (case given (sm_contract sm) of None \<Rightarrow> Inr None | Some c \<Rightarrow> map_res Some (contract_of c))) (\<lambda>c.
     bindS (on_world draw) (\<lambda>n.
     bindS (execute_work_unit ge (submitted_unit (ge_env ge) n a k c sm) (Some (sm_mode sm))) (\<lambda>r.
     retS (dset ''kind'' (PStr (kind_value k)) (dset ''adapter'' (PStr (ma_name a)) (result_to_dict r))))))))"

definition mock_rehydrate :: "gateway_env \<Rightarrow> string \<Rightarrow> bytes gio" where
  "mock_rehydrate ge i = on_world (inspect (rehydrate_manifest (ge_env ge) i))"

definition mock :: "string \<Rightarrow> work_unit_kind list \<Rightarrow> mock_adapter" where
  "mock name kinds = \<lparr>ma_name = name, ma_kinds = kinds, ma_tenant = ''local''\<rparr>"

definition built_in_mocks :: "mock_adapter list" where
  "built_in_mocks = [
     mock ''sql'' [TABLE_SNAPSHOT, TABLE_ROW_GROUP],
     mock ''lakehouse'' [TABLE_SNAPSHOT, STRUCTURED_FILE],
     mock ''stream'' [STREAM_SEGMENT, EVENT_BATCH],
     mock ''otlp'' [TRACE_BATCH, METRIC_SERIES, LOG_BATCH],
     mock ''training'' [FINE_TUNE_JOB, TRAINING_DATASET, MODEL_CHECKPOINT],
     mock ''vector'' [EMBEDDING_BATCH, VECTOR_INDEX_SEGMENT],
     mock ''edge'' [BATCH_COMPUTE_JOB],
     mock ''cicd'' [PLUGIN_ACTION]]"

subsection \<open>The adapters and their conformance\<close>

datatype adapter = S3Adapter | POSIXAdapter | MockAdapter mock_adapter

definition enabled :: "string list \<Rightarrow> pydict" where
  "enabled names = map (\<lambda>n. (n, PBool True)) names"

fun capabilities :: "adapter \<Rightarrow> pydict" where
  "capabilities S3Adapter = enabled [''put_object'', ''get_object'', ''head_object'', ''range_read'', ''list_objects_v2'', ''delete_object'',
     ''multipart'', ''metadata_headers'', ''object_tags'']"
| "capabilities POSIXAdapter = enabled [''plan_file'', ''execute_file'', ''read_file'', ''write_file'', ''rehydrate_file'', ''stat_file'',
     ''list_dir'']"
| "capabilities (MockAdapter a) = mock_capabilities a"

text \<open>The public methods of the classes: what \<open>callable(getattr(adapter, key, None))\<close> finds.\<close>

fun methods :: "adapter \<Rightarrow> string list" where
  "methods S3Adapter = [''capabilities'', ''put_object'', ''get_object'', ''range_read'', ''create_multipart_upload'', ''upload_part'',
     ''complete_multipart_upload'', ''abort_multipart_upload'', ''head_object'', ''list_objects'', ''delete_object'']"
| "methods POSIXAdapter = [''capabilities'', ''plan_file'', ''execute_file'', ''put_file'', ''write_file'', ''read_file'', ''rehydrate_file'',
     ''stat_file'', ''list_dir'']"
| "methods (MockAdapter a) = [''capabilities'', ''plan'', ''plan_work_unit'', ''execute'', ''execute_work_unit'', ''submit_work_unit'',
     ''execute_kind'', ''rehydrate'']"

definition built_in_adapters :: "(string \<times> adapter) list" where
  "built_in_adapters = (''s3'', S3Adapter) # (''posix'', POSIXAdapter) # map (\<lambda>a. (ma_name a, MockAdapter a)) built_in_mocks"

definition offers :: "adapter \<Rightarrow> string \<Rightarrow> bool" where
  "offers a key = (get_value (capabilities a) key = PBool True \<and> key \<in> set (methods a))"

definition conformance_checks :: "string \<Rightarrow> adapter \<Rightarrow> (string \<times> bool) list" where
  "conformance_checks name a = (let caps = capabilities a; mocked = truthy (get_value caps ''mock'') in
     [(''has_name'', name \<noteq> []), (''capabilities_non_empty'', caps \<noteq> []),
      (''declares_mock_or_operations'', mocked \<or> list_ex (\<lambda>k. truthy (get_value caps k)) [''put_object'', ''get_object'', ''execute_file''])]
     @ (if \<not> mocked then [(''advertised_operations_callable'', list_ex (offers a) (dkeys caps))]
        else [(''mock_contract_methods'', list_all (offers a) [''plan_work_unit'', ''execute_work_unit'', ''submit_work_unit'', ''rehydrate'']),
          (''mock_external_free'', get_value caps ''external_integrations_required'' = PBool False)])
     @ (if name = ''posix'' then [(''posix_file_methods'', list_all (offers a)
          [''plan_file'', ''execute_file'', ''read_file'', ''write_file'', ''rehydrate_file'', ''stat_file'', ''list_dir''])] else []))"

definition adapter_conformance :: "string \<Rightarrow> adapter \<Rightarrow> bool" where
  "adapter_conformance name a = list_all snd (conformance_checks name a)"

end
