(* ===== verification/AdapterLaws.thy ===== *)
theory AdapterLaws
  imports Adapters
begin

text \<open>
  What the file adapter and the mock adapters promise: a file that was put is on disk and in the
  store, no file is overwritten unless that was asked for, and a mock adapter runs its own kinds only.
\<close>

subsection \<open>Executed work units\<close>

text \<open>The store's part of the invariant, for a world.\<close>

definition keeps_items :: "env \<Rightarrow> stored_item set \<Rightarrow> world \<Rightarrow> bool" where
  "keeps_items en U w = (store_inv (e_zip en) U (w_chunks w) \<and> own_names (w_manifests w))"

lemma executed_unit:
  assumes run: "execute_work_unit ge wu mode g = (Inr r, g')" and kind: "wu_kind wu \<noteq> PROMPT_REQUEST"
    and inv: "keeps_items (ge_env ge) U (gw_world g)"
    and mode: "execution_mode (ge_env ge) mode = Inr md" "md \<noteq> ''observe''"
    and payload: "payload_to_bytes (wu_payload wu) = Inr data"
    and U: "covers U (wu_tenant wu) (storage_namespace wu md) data"
  obtains m where "file_get (e_ctx (ge_env ge)) (er_manifest_id r) (w_manifests (gw_world g')) = Inr m" "made_by wu md m"
    "served (ge_env ge) U (gw_world g') (er_manifest_id r) data" "keeps_items (ge_env ge) U (gw_world g')"
    "g' = g\<lparr>gw_world := gw_world g'\<rparr>"
proof -
  obtain md' pb adapter where ex: "execution_mode (ge_env ge) mode = Inr md'"
      "execute_exact_object (ge_env ge) wu (Some md') pb adapter (gw_world g) = (Inr r, gw_world g')" "g' = g\<lparr>gw_world := gw_world g'\<rparr>"
    by (rule executed_exactly [OF run kind])
  then have run: "execute_exact_object (ge_env ge) wu (Some md) pb adapter (gw_world g) = (Inr r, gw_world g')" using mode(1) by simp
  note again = mode_again [OF mode(1)]
  have serves: "store_inv (e_zip (ge_env ge)) U (w_chunks (gw_world g'))" "served (ge_env ge) U (gw_world g') (er_manifest_id r) data"
    using execution_serves [OF run _ again mode(2) payload U] inv by (simp_all add: keeps_items_def)
  note files = execution_files [OF run again mode(2) payload]
  have "keeps_items (ge_env ge) U (gw_world g')" using serves(1) files(3) inv by (simp add: keeps_items_def)
  then show thesis using files(1) serves(2) ex(3) that by blast
qed

subsection \<open>Effects on the host\<close>

lemma in_gateway_eq [effect_simps]: "(in_gateway m h = (r, h')) = (\<exists>g. m (ho_gateway h) = (r, g) \<and> h' = h\<lparr>ho_gateway := g\<rparr>)"
  by (simp add: in_gateway_def zoom_eq)

lemma in_state_eq [effect_simps]: "(in_state m h = (r, h')) =
    (\<exists>w. m (gw_world (ho_gateway h)) = (r, w) \<and> h' = h\<lparr>ho_gateway := (ho_gateway h)\<lparr>gw_world := w\<rparr>\<rparr>)"
  by (auto simp: in_state_def on_world_def effect_simps)

lemma host_read_eq [effect_simps]: "(host_read f h = (r, h')) = (f h = r \<and> h' = h)"
  by (auto simp: host_read_def)

lemma guard_overwrite_eq [effect_simps]:
  "(guard_overwrite p ow h = (r, h')) = (h' = h \<and> r = guardR (\<not> path_exists (ho_disk h) p \<or> ow) (OtherError ''FileExistsError''))"
  by (auto simp: guard_overwrite_def effect_simps)

lemma write_path_done:
  assumes "write_path he p data h = (Inr u, h')"
  shows "ho_gateway h' = ho_gateway h" "map_option pf_data (dget (ho_disk h') p) = Some data"
    "q \<noteq> p \<Longrightarrow> dget (ho_disk h') q = dget (ho_disk h) q"
  using assms by (auto simp: write_path_def split: if_splits)

text \<open>What keeps the disk.\<close>

lemma keeps_disk [keeps_rules]:
  "keeps (\<lambda>h. P (ho_disk h)) (in_gateway m)" "keeps (\<lambda>h. P (ho_disk h)) (in_state n)" "keeps (\<lambda>h. P (ho_disk h)) (host_read f)"
  "keeps (\<lambda>h. P (ho_disk h)) (guard_overwrite p ow)"
  by (auto simp: keeps_def in_state_def in_gateway_def zoom_def host_read_def guard_overwrite_def split: prod.splits)

lemma unit_for_path_keeps [keeps_rules]: "keeps (\<lambda>h. P (ho_disk h)) (work_unit_for_path he t path ns)"
  unfolding work_unit_for_path_def by (intro keeps_rules)

lemma execute_file_keeps [keeps_rules]: "keeps (\<lambda>h. P (ho_disk h)) (execute_file he t path ns)"
  unfolding execute_file_def by (intro keeps_rules)

lemma read_file_keeps [keeps_rules]: "keeps (\<lambda>h. P (ho_disk h)) (posix_read_file he t i)"
  unfolding posix_read_file_def tenant_manifest_def by (intro keeps_rules)

subsection \<open>Files\<close>

text \<open>A guarded write keeps a file unless it is the file to overwrite.\<close>

lemma guarded_write_keeps:
  assumes "ow \<longrightarrow> q \<noteq> p" "keeps (\<lambda>h. dget (ho_disk h) q = Some f) m"
  shows "keeps (\<lambda>h. dget (ho_disk h) q = Some f) (thenS (guard_overwrite p ow) (thenS (write_path he p data) m))"
proof (rule keepsI)
  fix h r h'
  assume present: "dget (ho_disk h) q = Some f" and run: "thenS (guard_overwrite p ow) (thenS (write_path he p data) m) h = (r, h')"
  show "dget (ho_disk h') q = Some f"
  proof (cases "path_exists (ho_disk h) p \<and> \<not> ow")
    case True
    then have "h' = h" using run by (auto simp: thenS_def bindS_def guard_overwrite_def host_read_def guardR_def)
    then show ?thesis using present by simp
  next
    case False
    then have "q \<noteq> p" using present assms(1) by (auto simp: path_exists_def)
    then have "keeps (\<lambda>h. dget (ho_disk h) q = Some f) (write_path he p data)" by (auto simp: keeps_def write_path_def)
    then have "keeps (\<lambda>h. dget (ho_disk h) q = Some f) (thenS (guard_overwrite p ow) (thenS (write_path he p data) m))"
      by (intro keeps_thenS keeps_disk assms(2))
    from keepsD [OF this present run] show ?thesis .
  qed
qed

text \<open>Without the flag no file on disk is overwritten, by a put or a rehydration that succeeds or fails; with
  it the named file is the only one that changes.\<close>

theorem files_not_overwritten:
  assumes "overwrite \<longrightarrow> q \<noteq> path_text path"
  shows "keeps (\<lambda>h. dget (ho_disk h) q = Some f) (put_file he t path data ns overwrite)
    \<and> keeps (\<lambda>h. dget (ho_disk h) q = Some f) (rehydrate_file he t i path overwrite)"
  unfolding put_file_def rehydrate_file_def
  by (intro conjI keeps_bindS read_file_keeps guarded_write_keeps assms execute_file_keeps keeps_retS)

lemma file_unit_simps [simp]:
  "wu_kind (file_unit en n t path data st ns) = FILE" "wu_tenant (file_unit en n t path data st ns) = t"
  "payload_to_bytes (wu_payload (file_unit en n t path data st ns)) = Inr data"
  by (simp_all add: file_unit_def payload_to_bytes_def)

text \<open>A file in the store: its manifest belongs to the tenant and serves its bytes.\<close>

definition holds_file :: "host_env \<Rightarrow> stored_item set \<Rightarrow> string \<Rightarrow> string \<Rightarrow> bytes \<Rightarrow> host \<Rightarrow> bool" where
  "holds_file he U t i data h = (keeps_items (ge_env (he_gateway he)) U (gw_world (ho_gateway h))
     \<and> served (ge_env (he_gateway he)) U (gw_world (ho_gateway h)) i data
     \<and> (\<exists>m. file_get_for_tenant (e_ctx (ge_env (he_gateway he))) i t (w_manifests (gw_world (ho_gateway h))) = Inr m))"

lemma read_held:
  assumes "holds_file he U t i data h"
  shows "posix_read_file he t i h = (Inr data, h)"
proof -
  obtain m where m: "file_get_for_tenant (e_ctx (ge_env (he_gateway he))) i t (w_manifests (gw_world (ho_gateway h))) = Inr m"
    using assms by (auto simp: holds_file_def)
  have "rehydrate_manifest (ge_env (he_gateway he)) i (gw_world (ho_gateway h)) = Inr data"
    by (rule rehydrate_served [where U = U]) (use assms in \<open>simp_all add: keeps_items_def holds_file_def\<close>)
  then show ?thesis using m
    by (simp add: posix_read_file_def tenant_manifest_def in_state_def in_gateway_def on_world_def zoom_def inspect_def thenS_def bindS_def retS_def)
qed

lemma execute_file_holds:
  assumes run: "execute_file he t path ns h = (Inr out, h')" and present: "map_option pf_data (dget (ho_disk h) (path_text path)) = Some data"
    and inv: "keeps_items (ge_env (he_gateway he)) U (gw_world (ho_gateway h))"
    and mode: "execution_mode (ge_env (he_gateway he)) None = Inr md" "md \<noteq> ''observe''"
    and U: "covers U t (if md = ''enforce'' then ns else ''shadow-'' @ ns) data"
  shows "\<exists>i. get_value out ''manifest_id'' = PStr i \<and> holds_file he U t i data h'"
proof -
  let ?en = "ge_env (he_gateway he)"
  obtain wu h1 r g where unit: "work_unit_for_path he t path ns h = (Inr wu, h1)"
    and ex: "execute_work_unit (he_gateway he) wu None (ho_gateway h1) = (Inr r, g)" and h': "h' = h1\<lparr>ho_gateway := g\<rparr>"
    and out: "out = result_to_dict r"
    using run unfolding execute_file_def effect_simps by auto
  obtain n st where wu: "wu = file_unit ?en n t path data st ns" and w: "gw_world (ho_gateway h1) = (gw_world (ho_gateway h))\<lparr>w_drawn := Suc n\<rparr>"
    using unit present unfolding work_unit_for_path_def effect_simps by (auto simp: read_path_def)
  have items: "keeps_items ?en U (gw_world (ho_gateway h1))" using inv by (simp add: w keeps_items_def)
  have ns: "storage_namespace wu md = (if md = ''enforce'' then ns else ''shadow-'' @ ns)"
    by (simp add: wu file_unit_def storage_namespace_def)
  obtain m where "file_get (e_ctx ?en) (er_manifest_id r) (w_manifests (gw_world g)) = Inr m" "made_by wu md m"
      "served ?en U (gw_world g) (er_manifest_id r) data" "keeps_items ?en U (gw_world g)"
    by (rule executed_unit [OF ex _ items mode, where data = data]) (use U in \<open>simp_all add: ns [unfolded wu] wu\<close>)
  then have "holds_file he U t (er_manifest_id r) data h'"
    by (auto simp: holds_file_def h' effect_simps made_by_def wu)
  moreover have "get_value out ''manifest_id'' = PStr (er_manifest_id r)" by (simp add: out result_to_dict_def get_value_def)
  ultimately show ?thesis by blast
qed


subsection \<open>Listings\<close>

lemma hd_split_on: "hd (split_on c s) = takeWhile (\<lambda>x. x \<noteq> c) s"
  by (induction s) (auto split: list.splits)

lemma first_part_iff: "(takeWhile (\<lambda>x. x \<noteq> c) s = name) = (c \<notin> set name \<and> (s = name \<or> prefix (name @ [c]) s))"
proof (induction s arbitrary: name)
  case (Cons a s)
  then show ?case by (cases name) auto
qed auto

text \<open>A listing has the entries of the directory, sorted, each once: the files in it and the directories
  files lie below.\<close>

theorem listing_is_children:
  "sorted (child_names d p) \<and> distinct (child_names d p) \<and>
   (name \<in> set (child_names d p)) = (CHR ''/'' \<notin> set name \<and> (\<exists>q. q \<in> set (dkeys d) \<and> (p \<noteq> ''.'' \<or> \<not> prefix ''/'' q)
     \<and> (q = below_text p @ name \<or> prefix (below_text p @ name @ ''/'') q)))"
proof -
  have "(prefix b q \<and> hd (path_parts (drop (length b) q)) = name)
      = (CHR ''/'' \<notin> set name \<and> (q = b @ name \<or> prefix (b @ name @ ''/'') q))" for b q
  proof -
    have "prefix b q \<and> P (drop (length b) q) \<longleftrightarrow> (\<exists>r. q = b @ r \<and> P r)" for P by (auto simp: prefix_def)
    then show ?thesis unfolding path_parts_def hd_split_on first_part_iff by (auto simp: prefix_def)
  qed
  note below = this
  have "(name \<in> set (child_names d p)) = (\<exists>q. q \<in> set (dkeys d) \<and> (p \<noteq> ''.'' \<or> \<not> prefix ''/'' q)
     \<and> (prefix (below_text p) q \<and> hd (path_parts (drop (length (below_text p)) q)) = name))"
    unfolding child_names_def Let_def set_sort set_remdups set_map set_filter image_iff by blast
  then have "(name \<in> set (child_names d p)) = (CHR ''/'' \<notin> set name \<and> (\<exists>q. q \<in> set (dkeys d) \<and> (p \<noteq> ''.'' \<or> \<not> prefix ''/'' q)
     \<and> (q = below_text p @ name \<or> prefix (below_text p @ name @ ''/'') q)))"
    unfolding below by blast
  moreover have "sorted (child_names d p)" using sorted_sort_key [of "\<lambda>s. s"] by (simp add: child_names_def Let_def)
  ultimately show ?thesis by (simp add: child_names_def Let_def distinct_sort_key)
qed

subsection \<open>Mock adapters\<close>

lemma built_in_kinds:
  assumes "a \<in> set built_in_mocks" "k \<in> set (ma_kinds a)"
  shows "\<not> compute_kind k \<and> \<not> ai_kind k"
  using assms by (auto simp: built_in_mocks_def mock_def compute_kind_def ai_kind_def text_kind_def)

lemma dget_jfile_rows: "dget (map (\<lambda>kv. (fst kv, jfile (snd kv))) d) k = map_option jfile (dget d k)"
  by (induction d) auto

text \<open>A kind the adapter does not have is refused, with nothing done.\<close>

lemma unsupported_refused:
  assumes "\<forall>k. kind_of (sm_kind sm) = Inr k \<longrightarrow> k \<notin> set (ma_kinds a)"
  shows "\<exists>m. submit_work_unit ge a sm g = (Inl (ValueError m), g)"
  using assms by (cases "kind_of (sm_kind sm)")
    (auto simp: submit_work_unit_def thenS_def bindS_def liftR_def ensure_supported_def guardR_def kind_of_def split: option.splits)

lemma submitted_simps [simp]:
  "wu_kind (submitted_unit en n a k c sm) = k" "wu_tenant (submitted_unit en n a k c sm) = submission_tenant a sm"
  "wu_payload (submitted_unit en n a k c sm) = sm_payload sm"
  "storage_namespace (submitted_unit en n a k c sm) ''enforce'' = submission_namespace a sm"
  by (simp_all add: submitted_unit_def storage_namespace_def)

text \<open>A submission to a built-in mock adapter that succeeds was of a kind of the adapter, belongs to the
  tenant asked for, is marked with the adapter's name and gives its payload back.\<close>

theorem mock_submission:
  assumes "submit_work_unit ge a sm g = (Inr out, g')" "a \<in> set built_in_mocks"
    and "keeps_items (ge_env ge) U (gw_world g)" "payload_to_bytes (sm_payload sm) = Inr data"
    and "execution_mode (ge_env ge) (Some (sm_mode sm)) = Inr ''enforce''"
    and "covers U (submission_tenant a sm) (submission_namespace a sm) data"
  shows "\<exists>k i m. kind_of (sm_kind sm) = Inr k \<and> k \<in> set (ma_kinds a) \<and> get_value out ''manifest_id'' = PStr i
    \<and> mock_rehydrate ge i g' = (Inr data, g') \<and> file_get (e_ctx (ge_env ge)) i (w_manifests (gw_world g')) = Inr m
    \<and> mf_tenant m = submission_tenant a sm \<and> lineage_get m ''work_unit_metadata'' ''adapter'' PNone = Inr (PStr (ma_name a))"
proof -
  let ?en = "ge_env ge"
  obtain k c n r where k: "kind_of (sm_kind sm) = Inr k" "k \<in> set (ma_kinds a)"
    and run: "execute_work_unit ge (submitted_unit ?en n a k c sm) (Some (sm_mode sm)) (g\<lparr>gw_world := (gw_world g)\<lparr>w_drawn := Suc n\<rparr>\<rparr>) = (Inr r, g')"
    and out: "out = dset ''kind'' (PStr (kind_value k)) (dset ''adapter'' (PStr (ma_name a)) (result_to_dict r))"
    using assms(1) unfolding submit_work_unit_def effect_simps ensure_supported_def
    by (auto simp: on_world_def effect_simps guardR_def split: if_splits)
  have items: "keeps_items ?en U (gw_world (g\<lparr>gw_world := (gw_world g)\<lparr>w_drawn := Suc n\<rparr>\<rparr>))"
    using assms(3) by (simp add: keeps_items_def)
  obtain m where m: "file_get (e_ctx ?en) (er_manifest_id r) (w_manifests (gw_world g')) = Inr m"
      "made_by (submitted_unit ?en n a k c sm) ''enforce'' m" "served ?en U (gw_world g') (er_manifest_id r) data" "keeps_items ?en U (gw_world g')"
    by (rule executed_unit [OF run _ items assms(5), where data = data])
      (use assms(4,6) built_in_kinds [OF assms(2) k(2)] in \<open>auto simp: compute_kind_def\<close>)
  have "rehydrate_manifest ?en (er_manifest_id r) (gw_world g') = Inr data"
    by (rule rehydrate_served [where U = U]) (use m(3,4) in \<open>simp_all add: keeps_items_def\<close>)
  then have "mock_rehydrate ge (er_manifest_id r) g' = (Inr data, g')"
    by (simp add: mock_rehydrate_def on_world_def zoom_def inspect_def)
  moreover have "get_value out ''manifest_id'' = PStr (er_manifest_id r)" by (simp add: out result_to_dict_def get_value_def)
  moreover have "lineage_get m ''work_unit_metadata'' ''adapter'' PNone = Inr (PStr (ma_name a))"
    using m(2) by (simp add: made_by_def lineage_get_def get_default_def submitted_unit_def get_from_def dget_jfile_rows)
  ultimately show ?thesis using k m(1,2) by (auto simp: made_by_def)
qed

text \<open>Every built-in adapter passes its conformance checks.\<close>

theorem built_in_adapters_conform: "list_all (\<lambda>(name, a). adapter_conformance name a) built_in_adapters"
  by code_simp

subsection \<open>Submissions and puts return\<close>

lemma plain_decided:
  assumes "\<not> ai_kind (wu_kind wu)" "\<not> legal_hold wu" "wu_requested_contract wu = None"
  shows "evaluate_policy wu [] = Inr (global_default_decision EXACT_BYTES)"
  using assms by (simp add: evaluate_policy_def evaluate_bundle_def requested_contract_def)

lemma plain_planned:
  assumes "\<not> compute_kind (wu_kind wu)"
  shows "\<exists>p. plan_work_unit wu ''enforce'' [] (Some (global_default_decision EXACT_BYTES)) = Inr p"
  by (rule supported_plan)
    (use assms in \<open>simp_all add: modes_def framework_def global_default_decision_def simple_decision_def kind_contracts_def exact_contracts_def\<close>)

lemma plain_unit_executes:
  assumes "plain_gateway ge (wu_tenant wu) g" "keeps_items (ge_env ge) U (gw_world g)"
    and "\<not> ai_kind (wu_kind wu)" "wu_policy_context wu = []" "wu_requested_contract wu = None"
    and "execution_mode (ge_env ge) mode = Inr ''enforce''" "payload_to_bytes (wu_payload wu) = Inr data"
    and "covers U (wu_tenant wu) (wu_namespace wu) data"
  shows "\<exists>r w. execute_work_unit ge wu mode g = (Inr r, g\<lparr>gw_world := w\<rparr>)"
proof -
  have kinds: "wu_kind wu \<noteq> PROMPT_REQUEST" "\<not> compute_kind (wu_kind wu)" "\<not> legal_hold wu" "wanted_bundle wu = None"
    using assms(3,4) by (auto simp: ai_kind_def text_kind_def compute_kind_def legal_hold_def wanted_bundle_def get_value_def)
  obtain p where p: "plan_work_unit wu ''enforce'' [] (Some (global_default_decision EXACT_BYTES)) = Inr p"
    using plain_planned [OF kinds(2)] by blast
  have space: "covers U (wu_tenant wu) (storage_namespace wu ''enforce'') data" using assms(8) by (simp add: storage_namespace_def)
  have inv: "store_inv (e_zip (ge_env ge)) U (w_chunks (gw_world g))" using assms(2) by (simp add: keeps_items_def)
  obtain r w adapter where "execute_work_unit ge wu mode g = (Inr r, g\<lparr>gw_world := w\<rparr>)"
    by (rule unit_executes [OF assms(1) inv kinds(1,4) assms(6,7) space plain_decided [OF assms(3) kinds(3) assms(5)] p])
      (simp_all add: global_default_decision_def simple_decision_def)
  then show ?thesis by blast
qed

text \<open>Putting a file returns, in an open environment, when its path can be written.\<close>

lemma put_file_returns:
  assumes plain: "plain_gateway (he_gateway he) t (ho_gateway h)" "keeps_items (ge_env (he_gateway he)) U (gw_world (ho_gateway h))"
    and mode: "execution_mode (ge_env (he_gateway he)) None = Inr ''enforce''" and U: "covers U t ns data"
    and path: "\<not> dir_at (ho_disk h) (path_text path)" "\<not> below_file (disk_tree (ho_disk h)) (path_text path)"
      "overwrite \<or> dget (ho_disk h) (path_text path) = None"
  shows "\<exists>out h'. put_file he t path data ns overwrite h = (Inr out, h')"
proof -
  let ?p = "path_text path" and ?en = "ge_env (he_gateway he)"
  obtain h1 where wr: "write_path he ?p data h = (Inr (), h1)" using path(1,2) by (simp add: write_path_def)
  note w = write_path_done [OF wr]
  obtain st where st: "stat_path he ?p h1 = Inr st" using w(2) by (auto simp: stat_path_def)
  let ?n = "w_drawn (gw_world (ho_gateway h))"
  let ?u = "file_unit ?en ?n t path data st ns" and ?g = "(ho_gateway h)\<lparr>gw_world := (gw_world (ho_gateway h))\<lparr>w_drawn := Suc ?n\<rparr>\<rparr>"
  have unit: "work_unit_for_path he t path ns h1 = (Inr ?u, h1\<lparr>ho_gateway := ?g\<rparr>)"
    using w(1,2) by (auto simp: work_unit_for_path_def bindS_def host_read_def st read_path_def in_state_def in_gateway_def
        on_world_def zoom_def draw_def retS_def)
  have "plain_gateway (he_gateway he) (wu_tenant ?u) ?g" "keeps_items ?en U (gw_world ?g)" using plain by (simp_all add: keeps_items_def)
  from plain_unit_executes [OF this _ _ _ mode, of data] obtain r w'
    where "execute_work_unit (he_gateway he) ?u None ?g = (Inr r, ?g\<lparr>gw_world := w'\<rparr>)"
    using U by (auto simp: file_unit_def payload_to_bytes_def ai_kind_def text_kind_def)
  then have "\<exists>out h'. execute_file he t path ns h1 = (Inr out, h')"
    unfolding execute_file_def effect_simps using unit by fastforce
  moreover have "guard_overwrite ?p overwrite h = (Inr (), h)" using path by (auto simp: effect_simps guardR_def path_exists_def)
  ultimately show ?thesis unfolding put_file_def thenS_def using wr by (auto simp: bindS_def)
qed

lemma submission_returns:
  assumes "plain_gateway ge (submission_tenant a sm) g" "keeps_items (ge_env ge) U (gw_world g)"
    and "kind_of (sm_kind sm) = Inr k" "k \<in> set (ma_kinds a)" "a \<in> set built_in_mocks" "given (sm_contract sm) = None" "sm_policy_context sm = []"
    and "execution_mode (ge_env ge) (Some (sm_mode sm)) = Inr ''enforce''" "payload_to_bytes (sm_payload sm) = Inr data"
    and "covers U (submission_tenant a sm) (submission_namespace a sm) data"
  shows "\<exists>out g'. submit_work_unit ge a sm g = (Inr out, g')"
proof -
  let ?n = "w_drawn (gw_world g)" and ?g = "g\<lparr>gw_world := (gw_world g)\<lparr>w_drawn := Suc (w_drawn (gw_world g))\<rparr>\<rparr>"
  let ?u = "submitted_unit (ge_env ge) ?n a k None sm"
  have "plain_gateway ge (wu_tenant ?u) ?g" "keeps_items (ge_env ge) U (gw_world ?g)" using assms(1,2) by (simp_all add: keeps_items_def)
  from plain_unit_executes [OF this _ _ _ assms(8), of data] obtain r w
    where "execute_work_unit ge ?u (Some (sm_mode sm)) ?g = (Inr r, ?g\<lparr>gw_world := w\<rparr>)"
    using assms(7,9,10) built_in_kinds [OF assms(5,4)] by (auto simp: submitted_unit_def)
  then show ?thesis unfolding submit_work_unit_def effect_simps
    using assms(3,4,6) by (auto simp: ensure_supported_def guardR_def on_world_def effect_simps)
qed

subsection \<open>Samples\<close>

definition sample_host :: host_env where
  "sample_host = \<lparr>he_gateway = mock_gateway, he_dir = (\<lambda>p. (4096, 16877, 0)), he_mtime = int\<rparr>"

definition empty_host :: host where
  "empty_host = \<lparr>ho_gateway = first_gateway, ho_disk = []\<rparr>"

lemma first_items: "keeps_items (ge_env mock_gateway) (small_items ns) (gw_world first_gateway)" if "NUL \<notin> set ns"
  using small_store [OF that] by (simp add: keeps_items_def mock_gateway_def first_gateway_def own_names_def file_view_def)
    (simp add: empty_world_def row_view_def)

lemma first_plain: "plain_gateway mock_gateway ''acme'' first_gateway"
  using first_objects(3) by (simp add: no_objects_def)

lemma small_put_file:
  obtains out h' where "put_file sample_host ''acme'' ''/data/a.txt'' [5] ''posix'' False empty_host = (Inr out, h')"
proof -
  have path: "\<not> dir_at (ho_disk empty_host) (path_text ''/data/a.txt'')"
      "\<not> below_file (disk_tree (ho_disk empty_host)) (path_text ''/data/a.txt'')" by code_simp+
  have "execution_mode (ge_env (he_gateway sample_host)) None = Inr ''enforce''" by code_simp
  from put_file_returns [of sample_host "''acme''" empty_host "small_items ''posix''", OF _ _ this small_covers path] that
  show thesis using first_plain first_items [of "''posix''"] by (auto simp: sample_host_def empty_host_def NUL_def)
qed


theorem files_not_overwritten_witness:
  "dget (ho_disk (snd (put_file sample_host ''acme'' ''a'' [5] ''posix'' False
     (empty_host\<lparr>ho_disk := [(''a'', \<lparr>pf_data = [1], pf_mode = 0, pf_mtime = 0\<rparr>)]\<rparr>)))) ''a'' = Some \<lparr>pf_data = [1], pf_mode = 0, pf_mtime = 0\<rparr>"
  using files_not_overwritten [of False "''a''" "''a''" "\<lparr>pf_data = [1], pf_mode = 0, pf_mtime = 0\<rparr>" sample_host "''acme''" "[5]" "''posix''" "[]"]
  by (simp add: keeps_def)

definition edge_submission :: submission where
  "edge_submission = \<lparr>sm_kind = ''batch_compute_job'', sm_logical_ref = ''edge://1'', sm_payload = PBytes [5], sm_tenant = Some ''acme'',
     sm_namespace = None, sm_contract = None, sm_metadata = [], sm_policy_context = [], sm_mode = ''enforce''\<rparr>"

theorem mock_submission_witness:
  "\<exists>i out g'. submit_work_unit mock_gateway (mock ''edge'' [BATCH_COMPUTE_JOB]) edge_submission first_gateway = (Inr out, g')
     \<and> get_value out ''manifest_id'' = PStr i \<and> mock_rehydrate mock_gateway i g' = (Inr [5], g')"
proof -
  let ?a = "mock ''edge'' [BATCH_COMPUTE_JOB]"
  have a: "?a \<in> set built_in_mocks" by (simp add: built_in_mocks_def)
  have fs: "submission_tenant ?a edge_submission = ''acme''" "submission_namespace ?a edge_submission = ''edge''"
      "kind_of (sm_kind edge_submission) = Inr BATCH_COMPUTE_JOB" "payload_to_bytes (sm_payload edge_submission) = Inr [5]" by code_simp+
  have fields: "given (sm_contract edge_submission) = None" "sm_policy_context edge_submission = []" "BATCH_COMPUTE_JOB \<in> set (ma_kinds ?a)"
      "sm_mode edge_submission = ''enforce''" by (simp_all add: edge_submission_def mock_def given_def)
  have items: "keeps_items (ge_env mock_gateway) (small_items ''edge'') (gw_world first_gateway)" by (rule first_items) (simp add: NUL_def)
  have mode: "execution_mode (ge_env mock_gateway) (Some (sm_mode edge_submission)) = Inr ''enforce''" using enforce_mode fields(4) by simp
  obtain out g' where run: "submit_work_unit mock_gateway ?a edge_submission first_gateway = (Inr out, g')"
    using submission_returns [OF _ items fs(3) fields(3) a fields(1,2) mode fs(4)] first_plain small_covers by (auto simp: fs)
  from mock_submission [OF run a items fs(4) mode] small_covers run show ?thesis by (auto simp: fs)
qed

end
