(* ===== verification/ControlPlane.thy ===== *)
theory ControlPlane
  imports Service Scheduler Plugins Kms Explorer
begin

text \<open>
  The control plane, worker and scheduler of \<open>python/urp/service_runtime.py\<close>: their POST routes and the
  GET routes that read the stores. Backup and restore, benchmarks, health, reports and platform
  checks are the parameter \<open>outside\<close> of the dispatchers. As in \<open>Service\<close>, a field of a payload that has
  another JSON type than the code expects is an error of the model, as is a payload that is not an object.
\<close>

subsection \<open>State and surroundings\<close>

record control_state =
  cs_objects :: object_store
  cs_units :: json_files
  cs_plugins :: "(string \<times> pydict) list"
  cs_keys :: kms_state
  cs_jobs :: "pydict list"

text \<open>Random bytes of the key service: \<open>ce_random\<close> for the master key, \<open>ce_bytes\<close> for keys and nonces.\<close>

record control_env =
  ce_gateway :: gateway_env
  ce_aead :: aead
  ce_random :: bytes
  ce_bytes :: "nat \<Rightarrow> bytes \<times> bytes"
  ce_permissions :: permissions

type_synonym 'a cio = "('a, control_state) sres"

abbreviation ce_env :: "control_env \<Rightarrow> env" where
  "ce_env ce \<equiv> ge_env (ce_gateway ce)"

definition in_objects :: "'a oio \<Rightarrow> 'a cio" where
  "in_objects = zoom cs_objects (\<lambda>x s. s\<lparr>cs_objects := x\<rparr>)"

definition at_gateway :: "'a gio \<Rightarrow> 'a cio" where
  "at_gateway m = in_objects (on_gateway m)"

definition at_world :: "'a io \<Rightarrow> 'a cio" where
  "at_world m = at_gateway (on_world m)"

definition at_units :: "('a, json_files) sres \<Rightarrow> 'a cio" where
  "at_units = zoom cs_units (\<lambda>x s. s\<lparr>cs_units := x\<rparr>)"

definition at_policies :: "('a, policy_state) sres \<Rightarrow> 'a cio" where
  "at_policies m = at_world (zoom w_policies (\<lambda>p w. w\<lparr>w_policies := p\<rparr>) m)"

text \<open>The ledger beside another part of the state.\<close>

definition control_ledger :: "control_state \<Rightarrow> ledger_rows" where
  "control_ledger s = w_ledger (gw_world (os_gateway (cs_objects s)))"

definition set_control_ledger :: "ledger_rows \<Rightarrow> control_state \<Rightarrow> control_state" where
  "set_control_ledger rows s = s\<lparr>cs_objects := (cs_objects s)\<lparr>os_gateway := (os_gateway (cs_objects s))\<lparr>gw_world :=
     (gw_world (os_gateway (cs_objects s)))\<lparr>w_policies := (w_policies (gw_world (os_gateway (cs_objects s))))\<lparr>ps_ledger := rows\<rparr>\<rparr>\<rparr>\<rparr>\<rparr>"

definition ok_json :: "pyval \<Rightarrow> http_response cio" where
  "ok_json v = retS (200, JsonBody v)"

definition ok_dict :: "pydict \<Rightarrow> http_response cio" where
  "ok_dict d = ok_json (PDict d)"

definition ok_rows :: "pydict list \<Rightarrow> http_response cio" where
  "ok_rows ds = ok_json (PList (map PDict ds))"

text \<open>\<open>_actor\<close>.\<close>

definition actor_or :: "control_env \<Rightarrow> string \<Rightarrow> string" where
  "actor_or ce service = (case e_ctx (ce_env ce) of Some p \<Rightarrow> pr_actor p | None \<Rightarrow> service)"

subsection \<open>Fields\<close>

definition opt_text :: "pydict \<Rightarrow> string \<Rightarrow> string option res" where
  "opt_text d k = as_opt_str (get_value d k)"

definition dict_or_empty :: "pydict \<Rightarrow> string \<Rightarrow> pydict res" where
  "dict_or_empty d k = as_dict (get_default d k (PDict []))"

definition opt_int_field :: "pydict \<Rightarrow> string \<Rightarrow> int option res" where
  "opt_int_field d k = (case get_value d k of PNone \<Rightarrow> Inr None | PInt i \<Rightarrow> Inr (Some i) | PBool b \<Rightarrow> Inr (Some (if b then 1 else 0))
     | _ \<Rightarrow> Inl (TypeError ''int expected''))"

definition strings_of :: "pyval \<Rightarrow> string list res" where
  "strings_of v = (case v of PList xs \<Rightarrow> seq_res (map as_str xs) | _ \<Rightarrow> Inl (TypeError ''list expected''))"

text \<open>\<open>set(payload.get("source_fingerprints", []))\<close>.\<close>

definition sources_field :: "pydict \<Rightarrow> string list res" where
  "sources_field d = strings_of (get_default d ''source_fingerprints'' (PList []))"

definition event_types_field :: "pydict \<Rightarrow> string list res" where
  "event_types_field d = (case get_value d ''event_types'' of PNone \<Rightarrow> Inr [] | v \<Rightarrow> strings_of v)"

definition contract_field :: "pydict \<Rightarrow> string \<Rightarrow> contract option res" where
  "contract_field d k = (if truthy (get_value d k) then map_res Some (bindR (text_field d k) contract_of) else Inr None)"

subsection \<open>Work units\<close>

definition payload_unit :: "env \<Rightarrow> nat \<Rightarrow> pydict \<Rightarrow> work_unit res" where
  "payload_unit en n d =
     bindR (bindR (text_field d ''kind'') kind_of) (\<lambda>k.
     bindR (text_field d ''tenant'') (\<lambda>t.
     bindR (text_field d ''logical_ref'') (\<lambda>ref.
     bindR (decode_json_value (get_value d ''payload'')) (\<lambda>payload.
     bindR (contract_field d ''requested_contract'') (\<lambda>requested.
     bindR (text_or d ''namespace'' ''default'') (\<lambda>ns.
     bindR (dict_or_empty d ''metadata'') (\<lambda>md.
     bindR (dict_or_empty d ''policy_context'') (\<lambda>pc.
     bindR (contract_field d ''effective_contract'') (\<lambda>effective.
     bindR (opt_text d ''deadline'') (\<lambda>deadline.
     bindR (case get_value d ''latency_budget_ms'' of PNone \<Rightarrow> Inr None | v \<Rightarrow> map_res Some (py_int v)) (\<lambda>latency.
     bindR (dict_or_empty d ''quality_target'') (\<lambda>quality.
     Inr \<lparr>wu_kind = k, wu_tenant = t, wu_logical_ref = ref, wu_payload = payload, wu_requested_contract = requested,
       wu_namespace = ns, wu_metadata = md, wu_policy_context = pc, wu_trace_id = e_ids en ''tr'' n, wu_id = e_ids en ''wu'' n,
       wu_created_at = e_clock en n, wu_payload_ref = get_value d ''payload_ref'', wu_effective_contract = effective,
       wu_deadline = deadline, wu_latency_budget_ms = latency, wu_quality_target = quality\<rparr>))))))))))))"

definition work_unit_from_payload :: "control_env \<Rightarrow> pydict \<Rightarrow> work_unit cio" where
  "work_unit_from_payload ce d = bindS (at_world draw) (\<lambda>n.
     bindS (liftR (payload_unit (ce_env ce) n d)) (\<lambda>wu.
     thenS (liftR (e_schemas (ce_env ce) ''work_unit'' (json_safe_work_unit wu))) (retS wu)))"

definition active_policy :: "control_env \<Rightarrow> work_unit \<Rightarrow> pydict cio" where
  "active_policy ce wu = bindS (at_world (inspect (\<lambda>w.
       resolve_active_policy_bundle (e_vars (ce_env ce) ''URP_ACTIVE_POLICY'') (wanted_bundle wu) (w_policies w))))
     (\<lambda>b. retS (case b of None \<Rightarrow> [] | Some x \<Rightarrow> x))"

definition stored_unit :: "control_env \<Rightarrow> string \<Rightarrow> work_unit cio" where
  "stored_unit ce i = at_units (\<lambda>files. (unit_get (e_ctx (ce_env ce)) i files, files))"

definition create_unit :: "control_env \<Rightarrow> pydict \<Rightarrow> http_response cio" where
  "create_unit ce d = bindS (work_unit_from_payload ce d) (\<lambda>wu.
     thenS (at_units (unit_put (e_schemas (ce_env ce)) (e_ctx (ce_env ce)) wu))
     (thenS (at_world (append_event (ce_env ce) ((event_draft ''work_unit.created'' (wu_tenant wu) (Some (wu_id wu)))
        \<lparr>ev_trace_id := Some (wu_trace_id wu)\<rparr>)))
     (ok_dict [(''work_unit_id'', PStr (wu_id wu)), (''trace_id'', PStr (wu_trace_id wu)), (''state'', PStr ''received'')])))"

definition plan_unit :: "control_env \<Rightarrow> string \<Rightarrow> pydict \<Rightarrow> work_unit \<Rightarrow> http_response cio" where
  "plan_unit ce service d wu = bindS (liftR (text_or d ''mode'' ''observe'')) (\<lambda>mode.
     bindS (active_policy ce wu) (\<lambda>pb.
     bindS (liftR (plan_work_unit wu mode pb None)) (\<lambda>p.
     bindS (at_world (store_plan (ce_env ce) p wu (Some (actor_or ce service)) [])) (\<lambda>_. ok_dict (plan_to_dict p)))))"

definition execute_unit :: "control_env \<Rightarrow> pydict \<Rightarrow> work_unit \<Rightarrow> http_response cio" where
  "execute_unit ce d wu = bindS (liftR (opt_text d ''mode'')) (\<lambda>mode.
     bindS (at_gateway (execute_work_unit (ce_gateway ce) wu mode)) (\<lambda>r. ok_dict (result_to_dict r)))"

subsection \<open>Manifests and the ledger\<close>

definition may_see :: "control_env \<Rightarrow> string option \<Rightarrow> bool" where
  "may_see ce t = (case e_ctx (ce_env ce) of None \<Rightarrow> False | Some p \<Rightarrow> allowed (ce_permissions ce) p ''manifest:sensitive'' t)"

definition shown_manifest :: "control_env \<Rightarrow> bool \<Rightarrow> manifest \<Rightarrow> pydict" where
  "shown_manifest ce redact m = (if redact \<or> \<not> may_see ce (Some (mf_tenant m)) then redact_manifest m else manifest_to_dict m)"

definition found_manifests :: "control_env \<Rightarrow> string option \<Rightarrow> string option \<Rightarrow> manifest list cio" where
  "found_manifests ce ref tenant = bindS (at_world (inspect (\<lambda>w. let c = e_ctx (ce_env ce) in (case given ref of
         Some r \<Rightarrow> file_find_by_logical_ref c r (w_manifests w) | None \<Rightarrow> file_list c None (w_manifests w)))))
     (\<lambda>ms. retS (filter (\<lambda>m. wants tenant (Some (mf_tenant m))) ms))"

definition export_manifests :: "control_env \<Rightarrow> pydict \<Rightarrow> http_response cio" where
  "export_manifests ce d = bindS (liftR (opt_text d ''logical_ref'')) (\<lambda>ref. bindS (liftR (opt_text d ''tenant'')) (\<lambda>tenant.
     bindS (found_manifests ce ref tenant) (\<lambda>ms.
     let wanted = (get_default d ''redacted'' (PBool True) \<noteq> PBool False) in
     ok_dict [(''manifest_count'', PInt (int (length ms))),
       (''redacted'', PBool (wanted \<or> list_ex (\<lambda>m. \<not> may_see ce (Some (mf_tenant m))) ms)),
       (''manifests'', PList (map (\<lambda>m. PDict (shown_manifest ce wanted m)) ms))])))"

definition rehydrate_route :: "control_env \<Rightarrow> string \<Rightarrow> pydict \<Rightarrow> http_response cio" where
  "rehydrate_route ce i d = (let range = get_value d ''range'' in
     bindS (if truthy range
       then bindS (liftR (as_dict range)) (\<lambda>r. bindS (liftR (int_field r ''start'')) (\<lambda>a. bindS (liftR (int_field r ''end'')) (\<lambda>z.
         at_world (rehydrate_manifest_range (ce_env ce) i a z))))
       else at_world (inspect (rehydrate_manifest (ce_env ce) i)))
     (\<lambda>data. retS (200, BytesBody data)))"

definition query_ledger :: "control_env \<Rightarrow> string option \<Rightarrow> string option \<Rightarrow> string option \<Rightarrow> string list \<Rightarrow> int option \<Rightarrow> ledger_event list cio" where
  "query_ledger ce tenant wu mf types limit =
     at_world (inspect (\<lambda>w. ledger_query (e_ctx (ce_env ce)) tenant wu mf types limit (w_ledger w)))"

definition ledger_route :: "control_env \<Rightarrow> pydict \<Rightarrow> http_response cio" where
  "ledger_route ce d = bindS (liftR (opt_text d ''tenant'')) (\<lambda>tenant. bindS (liftR (opt_text d ''work_unit_id'')) (\<lambda>wu.
     bindS (liftR (opt_text d ''manifest_id'')) (\<lambda>mf. bindS (liftR (event_types_field d)) (\<lambda>types.
     bindS (liftR (opt_int_field d ''limit'')) (\<lambda>limit.
     bindS (query_ledger ce tenant wu mf types limit) (\<lambda>es. ok_rows (map event_to_dict es)))))))"

subsection \<open>Policies and approvals\<close>

definition evaluate_route :: "control_env \<Rightarrow> pydict \<Rightarrow> http_response cio" where
  "evaluate_route ce d = bindS (work_unit_from_payload ce d) (\<lambda>wu. bindS (active_policy ce wu) (\<lambda>pb.
     bindS (liftR (evaluate_policy wu pb)) (\<lambda>dec. ok_dict (decision_to_dict dec))))"

definition validate_route :: "control_env \<Rightarrow> pydict \<Rightarrow> http_response cio" where
  "validate_route ce d = thenS (liftR (e_schemas (ce_env ce) ''policy'' d))
     (bindS (liftR (bundle_metadata d ''name'' (PStr ''policy_bundle''))) (\<lambda>name.
     ok_dict [(''valid'', PBool True), (''policy_bundle_id'', name)]))"

definition publish_route :: "control_env \<Rightarrow> string \<Rightarrow> pydict \<Rightarrow> http_response cio" where
  "publish_route ce service d = (let en = ce_env ce in
     bindS (liftR (as_dict (get_default d ''bundle'' (PDict d)))) (\<lambda>b.
     bindS (at_world draw) (\<lambda>n.
     bindS (at_policies (policy_publish (e_schemas en) (e_ctx en) (e_ids en ''evt'' n, e_clock en n) (e_clock en n) b (actor_or ce service))) ok_dict)))"

definition rollback_route :: "control_env \<Rightarrow> string \<Rightarrow> string \<Rightarrow> pydict \<Rightarrow> http_response cio" where
  "rollback_route ce service name d = (let en = ce_env ce in
     bindS (liftR (text_field d ''version'')) (\<lambda>version.
     bindS (at_world draw) (\<lambda>n.
     bindS (at_policies (policy_rollback (e_schemas en) (e_ctx en) (e_ids en ''evt'' n, e_clock en n) name version (actor_or ce service))) ok_dict)))"

definition reload_route :: "control_env \<Rightarrow> string \<Rightarrow> string \<Rightarrow> http_response cio" where
  "reload_route ce service name = (let en = ce_env ce in
     bindS (at_world draw) (\<lambda>n.
     bindS (at_policies (policy_reload (e_schemas en) (e_ctx en) (e_ids en ''evt'' n, e_clock en n) (e_clock en n) name (actor_or ce service))) ok_dict))"

definition approval_event :: "string \<Rightarrow> approval \<Rightarrow> ledger_event" where
  "approval_event tenant a = (event_draft ''approval.issued'' tenant (ap_work_unit_id a))
     \<lparr>ev_policy_bundle_id := Some (ap_policy_bundle_id a), ev_actor := Some (ap_actor a), ev_decision := Some (ap_contract a),
      ev_details := [(''approval_id'', PStr (ap_approval_id a)), (''expires_at'', PStr (ap_expires_at a)), (''reason'', PStr (ap_reason a))]\<rparr>"

text \<open>\<open>str(payload.get("tenant") or current_tenant() or "")\<close>.\<close>

definition approval_tenant :: "ctx \<Rightarrow> pydict \<Rightarrow> string" where
  "approval_tenant c d = (let v = get_value d ''tenant'' in if truthy v then py_str v
     else case current_tenant c of Some t \<Rightarrow> t | None \<Rightarrow> [])"

definition approve_route :: "control_env \<Rightarrow> string \<Rightarrow> pydict \<Rightarrow> http_response cio" where
  "approve_route ce service d = (let en = ce_env ce; tenant = approval_tenant (e_ctx en) d in
     thenS (liftR (guardR (tenant \<noteq> []) (ValueError ''tenant is required for an approval'')))
     (bindS (liftR (text_field d ''contract'')) (\<lambda>contract.
     bindS (liftR (map_res py_str (item d ''policy_bundle_id''))) (\<lambda>bundle.
     bindS (liftR (opt_text d ''work_unit_id'')) (\<lambda>wu.
     bindS (liftR (py_int (get_default d ''ttl_seconds'' (PInt 900)))) (\<lambda>ttl.
     bindS (at_world draw) (\<lambda>n.
     bindS (at_world (on_approvals (approval_issue (e_ctx en) (e_vars en ''URP_APPROVAL_SIGNING_KEY'') (e_random en)
        (e_ids en ''appr'' n) (e_now en) tenant (actor_or ce service) contract bundle (text_or_empty (get_value d ''reason'')) wu ttl))) (\<lambda>a.
     thenS (at_world (append_event en (approval_event tenant a)))
     (ok_dict (approval_to_dict a))))))))))"

subsection \<open>Plugins, keys and jobs\<close>

text \<open>A tool of the registry works on its files and the ledger.\<close>

definition at_plugins :: "('a, plugin_state) sres \<Rightarrow> 'a cio" where
  "at_plugins = zoom (\<lambda>s. \<lparr>pg_files = cs_plugins s, pg_ledger = control_ledger s\<rparr>)
     (\<lambda>p s. set_control_ledger (pg_ledger p) (s\<lparr>cs_plugins := pg_files p\<rparr>))"

definition register_route :: "control_env \<Rightarrow> string \<Rightarrow> pydict \<Rightarrow> http_response cio" where
  "register_route ce service d = (let en = ce_env ce in
     bindS (liftR (as_dict (get_default d ''descriptor'' (PDict d)))) (\<lambda>descriptor.
     bindS (at_world draw) (\<lambda>n.
     bindS (at_plugins (plugin_register (e_schemas en) (e_ctx en) (e_ids en ''evt'' n, e_clock en n) descriptor (actor_or ce service))) ok_dict)))"

definition key_route :: "control_env \<Rightarrow> pydict \<Rightarrow> http_response cio" where
  "key_route ce d = (let en = ce_env ce in
     bindS (liftR (text_or d ''purpose'' ''local-dev'')) (\<lambda>purpose.
     bindS (at_world draw) (\<lambda>n.
     bindS (zoom cs_keys (\<lambda>k s. s\<lparr>cs_keys := k\<rparr>)
        (create_key (ce_aead ce) (e_vars en ''URP_LOCAL_KMS_MASTER_KEY'') (e_ids en ''key'' n) (e_clock en n) (fst (ce_bytes ce n))
          (ce_random ce) (snd (ce_bytes ce n)) purpose))
     (\<lambda>k. ok_dict (local_key_to_dict k)))))"

definition payload_job :: "env \<Rightarrow> nat \<Rightarrow> pydict \<Rightarrow> job res" where
  "payload_job en n d =
     bindR (text_or d ''tenant'' ''local'') (\<lambda>t.
     bindR (text_or d ''kind'' ''batch_compute_job'') (\<lambda>k.
     bindR (opt_int_field d ''deadline_seconds'') (\<lambda>deadline.
     bindR (py_int (get_default d ''estimated_runtime_seconds'' (PInt 0))) (\<lambda>runtime.
     bindR (case get_value d ''carbon_signal'' of PNone \<Rightarrow> Inr None
       | v \<Rightarrow> (case py_num v of None \<Rightarrow> Inl (TypeError ''number expected'') | Some x \<Rightarrow> Inr (Some x))) (\<lambda>carbon.
     bindR (text_or d ''preferred_region'' ''local'') (\<lambda>region.
     bindR (dict_or_empty d ''policy_context'') (\<lambda>policy.
     new_job \<lparr>jb_tenant = t, jb_kind = k, jb_deadline = deadline, jb_runtime = runtime, jb_carbon = carbon, jb_region = region,
       jb_policy = policy, jb_id = e_ids en ''job'' n, jb_created_at = e_clock en n\<rparr>)))))))"

text \<open>The job store works on the queue and the counters.\<close>

definition at_jobs :: "('a, scheduler_state) sres \<Rightarrow> 'a cio" where
  "at_jobs = zoom (\<lambda>s. (cs_jobs s, w_metrics (gw_world (os_gateway (cs_objects s)))))
     (\<lambda>q s. s\<lparr>cs_jobs := fst q, cs_objects := (cs_objects s)\<lparr>os_gateway := (os_gateway (cs_objects s))\<lparr>gw_world :=
        (gw_world (os_gateway (cs_objects s)))\<lparr>w_metrics := snd q\<rparr>\<rparr>\<rparr>\<rparr>)"

definition job_route :: "control_env \<Rightarrow> pydict \<Rightarrow> http_response cio" where
  "job_route ce d = (let en = ce_env ce in
     bindS (at_world draw) (\<lambda>n. bindS (liftR (payload_job en n d)) (\<lambda>j.
     bindS (at_jobs (scheduler_submit (e_ctx en) (e_clock en n) j)) (\<lambda>dec. ok_dict (decision_dict dec)))))"

subsection \<open>Caches\<close>

definition hit_body :: "pyval option \<Rightarrow> pydict" where
  "hit_body found = (let v = (case found of None \<Rightarrow> PNone | Some x \<Rightarrow> x) in [(''hit'', PBool (v \<noteq> PNone)), (''value'', v)])"

definition cache_lookup_route :: "control_env \<Rightarrow> pydict \<Rightarrow> http_response cio" where
  "cache_lookup_route ce d =
     bindS (liftR (text_field d ''key'')) (\<lambda>k. bindS (liftR (text_field d ''tenant'')) (\<lambda>t.
     bindS (liftR (text_or d ''namespace'' ''default'')) (\<lambda>ns. bindS (liftR (sources_field d)) (\<lambda>src.
     bindS (at_gateway (read_clock (ce_gateway ce))) (\<lambda>now.
     bindS (at_gateway (on_cache (sqlc_get now k t ns (Some src)))) (\<lambda>found. ok_dict (hit_body found)))))))"

definition spec_field :: "pydict \<Rightarrow> pydict option res" where
  "spec_field d = (case get_value d ''verification'' of PNone \<Rightarrow> Inr None | v \<Rightarrow> map_res Some (as_dict v))"

definition cache_store_route :: "control_env \<Rightarrow> pydict \<Rightarrow> http_response cio" where
  "cache_store_route ce d =
     bindS (liftR (spec_field d)) (\<lambda>spec.
     bindS (liftR (verify_cache_value (get_value d ''value'') spec)) (\<lambda>v.
     thenS (liftR (guardR (vr_accepted v) (verifier_failed ''cache value verification failed'' None (verification_to_dict v))))
     (bindS (liftR (float_value (get_default d ''ttl_seconds'' (PInt 3600)))) (\<lambda>ttl.
     thenS (liftR (guardR (0 < ttl \<and> ttl \<le> 86400) (ValueError ''ttl_seconds must be between 1 and 86400'')))
     (bindS (liftR (text_field d ''key'')) (\<lambda>k. bindS (liftR (text_field d ''tenant'')) (\<lambda>t.
     bindS (liftR (text_or d ''namespace'' ''default'')) (\<lambda>ns. bindS (liftR (sources_field d)) (\<lambda>src.
     bindS (at_gateway (read_clock (ce_gateway ce))) (\<lambda>now.
     thenS (at_gateway (on_cache (sqlc_put now \<lparr>ce_key = k, ce_tenant = t, ce_namespace = ns, ce_value = get_value d ''value'',
        ce_sources = src, ce_verified = True, ce_expires = Some (now + ttl)\<rparr>)))
     (ok_dict [(''stored'', PBool True), (''verification'', PDict (verification_to_dict v))])))))))))))"

definition lookup_semantic_cache :: "gateway_env \<Rightarrow> string \<Rightarrow> string \<Rightarrow> string \<Rightarrow> string list \<Rightarrow> string \<Rightarrow> pyval option gio" where
  "lookup_semantic_cache ge t ns txt src task = bindS (read_clock ge) (\<lambda>now.
     bindS (on_semantic (sem_lookup_hit_sql (ge_threshold ge) now t ns txt src task None None)) (\<lambda>h. retS (map_option sh_value h)))"

definition lookup_unit :: "env \<Rightarrow> nat \<Rightarrow> string \<Rightarrow> string \<Rightarrow> string \<Rightarrow> pydict \<Rightarrow> work_unit" where
  "lookup_unit en n t ref ns context = \<lparr>wu_kind = PROMPT_REQUEST, wu_tenant = t, wu_logical_ref = ref, wu_payload = PNone,
     wu_requested_contract = Some SEMANTIC, wu_namespace = ns, wu_metadata = [], wu_policy_context = context,
     wu_trace_id = e_ids en ''tr'' n, wu_id = e_ids en ''wu'' n, wu_created_at = e_clock en n, wu_payload_ref = PNone,
     wu_effective_contract = None, wu_deadline = None, wu_latency_budget_ms = None, wu_quality_target = []\<rparr>"

definition lookup_context :: "pydict \<Rightarrow> pydict" where
  "lookup_context d = (''allow_semantic_cache'', PBool (get_value d ''allow_semantic_cache'' = PBool True))
     # (if truthy (get_value d ''policy_bundle_id'') then [(''policy_bundle_id'', get_value d ''policy_bundle_id'')] else [])"

definition semantic_route :: "control_env \<Rightarrow> pydict \<Rightarrow> http_response cio" where
  "semantic_route ce d =
     bindS (liftR (text_field d ''tenant'')) (\<lambda>t. bindS (liftR (text_or d ''logical_ref'' ''cache://semantic/lookup'')) (\<lambda>ref.
     bindS (liftR (text_or d ''namespace'' ''default'')) (\<lambda>ns.
     bindS (at_world draw) (\<lambda>n. let wu = lookup_unit (ce_env ce) n t ref ns (lookup_context d) in
     bindS (active_policy ce wu) (\<lambda>pb. bindS (liftR (evaluate_policy wu pb)) (\<lambda>dec.
     if ''semantic_cache_lookup'' \<notin> set (pd_allowed dec)
       then ok_dict [(''hit'', PBool False), (''allowed'', PBool False), (''decision'', PDict (decision_to_dict dec))]
       else bindS (liftR (text_or d ''text'' [])) (\<lambda>txt. bindS (liftR (sources_field d)) (\<lambda>src.
         bindS (liftR (text_or d ''task_type'' ''general'')) (\<lambda>task.
         bindS (at_gateway (lookup_semantic_cache (ce_gateway ce) t ns txt src task)) (\<lambda>found.
         let v = (case found of None \<Rightarrow> PNone | Some x \<Rightarrow> x) in
         ok_dict [(''hit'', PBool (v \<noteq> PNone)), (''allowed'', PBool True), (''value'', v)]))))))))))"

subsection \<open>Observability and authorization\<close>

definition traces_route :: "control_env \<Rightarrow> pydict \<Rightarrow> http_response cio" where
  "traces_route ce d = bindS (liftR (opt_text d ''trace_id'')) (\<lambda>tr. bindS (liftR (opt_text d ''name'')) (\<lambda>name.
     bindS (at_world (inspect (\<lambda>w. Inr (trace_query (e_ctx (ce_env ce)) tr name (w_traces w))))) ok_rows))"

definition logs_route :: "control_env \<Rightarrow> pydict \<Rightarrow> http_response cio" where
  "logs_route ce d =
     bindS (liftR (opt_text d ''tenant'')) (\<lambda>tenant. bindS (liftR (opt_text d ''work_unit_id'')) (\<lambda>wu.
     bindS (liftR (opt_text d ''manifest_id'')) (\<lambda>mf. bindS (liftR (event_types_field d)) (\<lambda>types.
     bindS (liftR (opt_text d ''trace_id'')) (\<lambda>tr. bindS (liftR (opt_text d ''severity'')) (\<lambda>sev.
     bindS (liftR (opt_text d ''error_code'')) (\<lambda>code. bindS (liftR (opt_int_field d ''limit'')) (\<lambda>limit.
     bindS (at_world (inspect (\<lambda>w. log_query (e_ctx (ce_env ce)) tenant wu mf types tr sev code limit (w_logs w)))) (\<lambda>es.
     ok_rows (map log_to_dict es))))))))))"

definition check_route :: "control_env \<Rightarrow> pydict \<Rightarrow> http_response cio" where
  "check_route ce d = (case e_ctx (ce_env ce) of
       None \<Rightarrow> raiseS (authentication_required ''authentication is required'')
     | Some p \<Rightarrow> bindS (liftR (opt_text d ''tenant'')) (\<lambda>asked. bindS (liftR (text_or d ''action'' ''auth:self'')) (\<lambda>action.
         let tenant = (case given asked of Some t \<Rightarrow> Some t | None \<Rightarrow> if pr_tenant p = ''*'' then None else Some (pr_tenant p));
             ok = allowed (ce_permissions ce) p action tenant in
         retS (if ok then 200 else 403, JsonBody (PDict [(''allowed'', PBool ok), (''actor'', PStr (pr_actor p)),
           (''roles'', strs (sort (remdups (pr_roles p))))])))))"

subsection \<open>Routes\<close>

text \<open>\<open>path.split("/")[-2]\<close> and \<open>path.rsplit("/", 1)[-1]\<close>.\<close>

definition second_last :: "string \<Rightarrow> string" where
  "second_last path = (let ps = path_parts path in ps ! (length ps - 2))"

definition last_part :: "string \<Rightarrow> string" where
  "last_part path = last (path_parts path)"

definition under :: "string \<Rightarrow> string \<Rightarrow> string \<Rightarrow> bool" where
  "under base ending path = (prefix base path \<and> suffix ending path)"

definition outside_posts :: "string list" where
  "outside_posts = [''/v1/admin/backup'', ''/v1/admin/restore'']"

text \<open>The handler of a POST path, if there is one.\<close>

definition post_handler :: "control_env \<Rightarrow> (string \<Rightarrow> pydict \<Rightarrow> http_response cio) \<Rightarrow> string \<Rightarrow> string \<Rightarrow> (pydict \<Rightarrow> http_response cio) option" where
  "post_handler ce outside service path =
     (let control = (service = ''control-plane''); works = (service \<in> {''control-plane'', ''worker''}) in
      if control \<and> path = ''/v1/work-units'' then Some (create_unit ce)
      else if works \<and> path = ''/v1/work-units/plan'' then Some (\<lambda>d. bindS (work_unit_from_payload ce d) (plan_unit ce service d))
      else if control \<and> under ''/v1/work-units/'' ''/plan'' path
        then Some (\<lambda>d. bindS (stored_unit ce (second_last path)) (plan_unit ce service d))
      else if control \<and> path = ''/v1/plans'' then Some (\<lambda>d. bindS (work_unit_from_payload ce d) (plan_unit ce service d))
      else if works \<and> path = ''/v1/work-units/execute'' then Some (\<lambda>d. bindS (work_unit_from_payload ce d) (execute_unit ce d))
      else if control \<and> under ''/v1/work-units/'' ''/execute'' path
        then Some (\<lambda>d. bindS (stored_unit ce (second_last path)) (execute_unit ce d))
      else if control \<and> path = ''/v1/manifests/export'' then Some (export_manifests ce)
      else if control \<and> under ''/v1/manifests/'' ''/rehydrate'' path then Some (rehydrate_route ce (second_last path))
      else if control \<and> path = ''/v1/ledger/query'' then Some (ledger_route ce)
      else if control \<and> path = ''/v1/policies/evaluate'' then Some (evaluate_route ce)
      else if control \<and> path = ''/v1/policies/validate'' then Some (validate_route ce)
      else if control \<and> path = ''/v1/policies/bundles'' then Some (publish_route ce service)
      else if control \<and> under ''/v1/policies/bundles/'' ''/rollback'' path then Some (rollback_route ce service (second_last path))
      else if control \<and> under ''/v1/policies/bundles/'' ''/reload'' path then Some (\<lambda>d. reload_route ce service (second_last path))
      else if control \<and> path = ''/v1/approvals'' then Some (approve_route ce service)
      else if control \<and> path = ''/v1/plugins/register'' then Some (register_route ce service)
      else if control \<and> path = ''/v1/kms/keys'' then Some (key_route ce)
      else if control \<and> path \<in> set outside_posts then Some (outside path)
      else if control \<and> path = ''/v1/cache/exact/lookup'' then Some (cache_lookup_route ce)
      else if control \<and> path = ''/v1/cache/store'' then Some (cache_store_route ce)
      else if control \<and> path = ''/v1/cache/semantic/lookup'' then Some (semantic_route ce)
      else if control \<and> path = ''/v1/traces/query'' then Some (traces_route ce)
      else if control \<and> path = ''/v1/logs/query'' then Some (logs_route ce)
      else if control \<and> path = ''/v1/auth/check'' then Some (check_route ce)
      else if works \<and> path = ''/v1/benchmarks/run'' then Some (outside path)
      else if service = ''scheduler'' \<and> path = ''/v1/scheduler/submit'' then Some (job_route ce)
      else None)"

text \<open>\<open>do_POST\<close> of every service.\<close>

definition serve_post :: "control_env \<Rightarrow> (string \<Rightarrow> pydict \<Rightarrow> http_response cio) \<Rightarrow> string \<Rightarrow> string \<Rightarrow> pyval \<Rightarrow> http_response cio" where
  "serve_post ce outside service path payload =
     (if service \<in> {''gateway-s3'', ''gateway-ai''} then in_objects (dispatch_post (ce_gateway ce) service path payload)
      else case post_handler ce outside service path of
        None \<Rightarrow> retS (not_found path)
      | Some handler \<Rightarrow> bindS (liftR (as_dict payload)) handler)"

definition control_as :: "principal \<Rightarrow> control_env \<Rightarrow> control_env" where
  "control_as p ce = ce\<lparr>ce_gateway := acting_as p (ce_gateway ce)\<rparr>"

definition control_answer :: "http_response cio \<Rightarrow> control_state \<Rightarrow> http_response \<times> control_state" where
  "control_answer m s = (case m s of (Inl e, s') \<Rightarrow> (error_response e, s') | (Inr r, s') \<Rightarrow> (r, s'))"

definition handle_POST :: "control_env \<Rightarrow> (control_env \<Rightarrow> string \<Rightarrow> pydict \<Rightarrow> http_response cio) \<Rightarrow> authenticator \<Rightarrow> string \<Rightarrow> http_request
    \<Rightarrow> control_state \<Rightarrow> http_response \<times> control_state" where
  "handle_POST ce outside authn service rq =
     control_answer (bindS (liftR (bindR (read_payload (ce_env ce) rq) (\<lambda>payload.
         map_res (Pair payload) (authenticate_request authn (ce_permissions ce) rq ''POST'' payload))))
       (\<lambda>(payload, p). let ce' = control_as p ce in serve_post ce' (outside ce') service (rq_path rq) payload))"

subsection \<open>GET requests\<close>

text \<open>A query is its names with their first values.\<close>

type_synonym http_query = "(string \<times> string) list"

definition list_units_route :: "control_env \<Rightarrow> http_query \<Rightarrow> http_response cio" where
  "list_units_route ce q = bindS (at_units (\<lambda>files. (unit_list (e_ctx (ce_env ce)) (dget q ''tenant'') files, files)))
     (\<lambda>us. ok_rows (map json_safe_work_unit us))"

definition list_plans_route :: "control_env \<Rightarrow> http_query \<Rightarrow> http_response cio" where
  "list_plans_route ce q = bindS (at_world (inspect (\<lambda>w. plan_list (e_ctx (ce_env ce)) (dget q ''work_unit_id'') (w_plans w))))
     (\<lambda>ps. ok_rows (map plan_to_dict ps))"

definition list_manifests_route :: "control_env \<Rightarrow> http_query \<Rightarrow> http_response cio" where
  "list_manifests_route ce q = bindS (found_manifests ce (dget q ''logical_ref'') (dget q ''tenant''))
     (\<lambda>ms. ok_rows (map (shown_manifest ce (dget q ''redacted'' = Some ''true'')) ms))"

definition int_or_none :: "string option \<Rightarrow> int option res" where
  "int_or_none v = (case v of None \<Rightarrow> Inr None | Some s \<Rightarrow> map_res Some (py_int (PStr s)))"

definition explore_route :: "control_env \<Rightarrow> http_query \<Rightarrow> http_response cio" where
  "explore_route ce q = bindS (liftR (int_or_none (dget q ''limit''))) (\<lambda>limit.
     bindS (at_world (inspect (\<lambda>w. manifest_explorer_report (e_ctx (ce_env ce)) \<lparr>xq_tenant = dget q ''tenant'', xq_kind = dget q ''kind'',
       xq_contract = dget q ''contract'', xq_state = dget q ''state'', xq_limit = limit,
       xq_redacted = (dget q ''redacted'' \<noteq> Some ''false'' \<or> \<not> may_see ce (dget q ''tenant''))\<rparr> (w_manifests w)))) ok_dict)"

definition get_manifest_route :: "control_env \<Rightarrow> string \<Rightarrow> http_response cio" where
  "get_manifest_route ce i = bindS (at_world (inspect (\<lambda>w. file_get (e_ctx (ce_env ce)) i (w_manifests w))))
     (\<lambda>m. ok_dict (shown_manifest ce False m))"

definition query_event_types :: "string option \<Rightarrow> string list" where
  "query_event_types v = (case given v of None \<Rightarrow> [] | Some s \<Rightarrow> filter (\<lambda>t. t \<noteq> []) (map py_strip (split_on (CHR '','') s)))"

definition stream_body :: "ledger_event list \<Rightarrow> bytes" where
  "stream_body es = utf8 (concat (map (\<lambda>e. ''data: '' @ dumps '', '' '': '' (PDict (event_to_dict e)) @ [CHR 0x0A, CHR 0x0A]) es))"

definition stream_route :: "control_env \<Rightarrow> http_query \<Rightarrow> http_response cio" where
  "stream_route ce q = bindS (liftR (int_or_none (dget q ''limit''))) (\<lambda>limit.
     bindS (query_ledger ce (dget q ''tenant'') (dget q ''work_unit_id'') (dget q ''manifest_id'') (query_event_types (dget q ''event_types'')) limit)
     (\<lambda>es. retS (200, BytesBody (stream_body es))))"

definition feedback_route :: "control_env \<Rightarrow> http_response cio" where
  "feedback_route ce = bindS (at_gateway (\<lambda>g. (feedback_summary (e_ctx (ce_env ce)) None (gw_feedback g), g))) (\<lambda>rows.
     let float = e_float (ce_env ce) in
     ok_dict (map (\<lambda>(m, s). (m, PDict [(''count'', float (of_nat (ru_count s))), (''verifier_passed'', float (of_nat (ru_passed s))),
       (''avg_latency_ms'', float (ru_latency s)), (''pass_rate'', float (ru_pass_rate s))])) rows))"

definition list_approvals_route :: "control_env \<Rightarrow> http_query \<Rightarrow> http_response cio" where
  "list_approvals_route ce q = (let en = ce_env ce; tenant = (case given (dget q ''tenant'') of Some t \<Rightarrow> Some t | None \<Rightarrow> current_tenant (e_ctx en)) in
     bindS (at_world (on_approvals (approval_list (e_ctx en) (e_vars en ''URP_APPROVAL_SIGNING_KEY'') (e_random en) tenant)))
     (\<lambda>rs. ok_rows (map approval_to_dict rs)))"

definition get_approval_route :: "control_env \<Rightarrow> string \<Rightarrow> http_response cio" where
  "get_approval_route ce i = (let en = ce_env ce in
     bindS (at_world (on_approvals (approval_get (e_vars en ''URP_APPROVAL_SIGNING_KEY'') (e_random en) i))) (\<lambda>a.
     case given (current_tenant (e_ctx en)) of
       None \<Rightarrow> ok_dict (approval_to_dict a)
     | Some t \<Rightarrow> if ap_tenant a \<noteq> t then raiseS (tenant_mismatch t (ap_tenant a)) else ok_dict (approval_to_dict a)))"

definition jobs_route :: "control_env \<Rightarrow> http_response cio" where
  "jobs_route ce = bindS (at_jobs (\<lambda>q. (scheduler_read (e_ctx (ce_env ce)) q, q))) ok_rows"

definition outside_gets :: "string list" where
  "outside_gets = [''/v1/reports/savings'', ''/v1/reports/dashboard'', ''/v1/adapters/conformance'', ''/v1/conformance/ai'', ''/v1/admin/readiness'',
     ''/v1/platforms'', ''/v1/platforms/readiness'', ''/v1/platforms/matrix'']"

definition serve_get :: "control_env \<Rightarrow> (string \<Rightarrow> http_query \<Rightarrow> http_response cio) \<Rightarrow> string \<Rightarrow> string \<Rightarrow> http_query \<Rightarrow> http_response cio" where
  "serve_get ce outside service path q =
     (let control = (service = ''control-plane'') in
      if path \<in> {''/healthz'', ''/readyz'', ''/metrics''} then outside path q
      else if service = ''gateway-ai'' \<and> path = ''/v1/models'' then ok_dict list_models
      else if service = ''scheduler'' \<and> path = ''/v1/scheduler/jobs'' then jobs_route ce
      else if control \<and> path = ''/v1/work-units'' then list_units_route ce q
      else if control \<and> prefix ''/v1/work-units/'' path
        then bindS (stored_unit ce (last_part path)) (\<lambda>wu. ok_dict (json_safe_work_unit wu))
      else if control \<and> path = ''/v1/plans'' then list_plans_route ce q
      else if control \<and> prefix ''/v1/plans/'' path
        then bindS (at_world (inspect (\<lambda>w. plan_get (e_ctx (ce_env ce)) (last_part path) (w_plans w)))) (\<lambda>p. ok_dict (plan_to_dict p))
      else if control \<and> path = ''/v1/manifests'' then list_manifests_route ce q
      else if control \<and> path = ''/v1/manifests/explore'' then explore_route ce q
      else if control \<and> prefix ''/v1/manifests/'' path then get_manifest_route ce (last_part path)
      else if control \<and> path = ''/v1/ledger/stream'' then stream_route ce q
      else if control \<and> path = ''/v1/routes/feedback'' then feedback_route ce
      else if control \<and> path = ''/v1/policies/bundles'' then bindS (at_world (inspect (\<lambda>w. policy_list (w_policies w)))) ok_rows
      else if control \<and> path = ''/v1/approvals'' then list_approvals_route ce q
      else if control \<and> prefix ''/v1/approvals/'' path then get_approval_route ce (last_part path)
      else if control \<and> path = ''/v1/plugins'' then at_plugins (\<lambda>p. (Inr (200, JsonBody (PList (map PDict (plugin_list p)))), p))
      else if control \<and> path \<in> set outside_gets then outside path q
      else retS (not_found path))"

text \<open>The tenant of a query takes precedence over the header, as that of a payload does.\<close>

definition query_payload :: "http_query \<Rightarrow> pyval" where
  "query_payload q = PDict (case dget q ''tenant'' of None \<Rightarrow> [] | Some t \<Rightarrow> [(''tenant'', PStr t)])"

definition handle_GET :: "control_env \<Rightarrow> (control_env \<Rightarrow> string \<Rightarrow> http_query \<Rightarrow> http_response cio) \<Rightarrow> authenticator \<Rightarrow> string \<Rightarrow> http_request
    \<Rightarrow> http_query \<Rightarrow> control_state \<Rightarrow> http_response \<times> control_state" where
  "handle_GET ce outside authn service rq q =
     control_answer (bindS (liftR (authenticate_request authn (ce_permissions ce) rq ''GET'' (query_payload q)))
       (\<lambda>p. let ce' = control_as p ce in serve_get ce' (outside ce') service (rq_path rq) q))"

end
