(* ===== verification/ControlLaws.thy ===== *)
theory ControlLaws
  imports ControlPlane ServiceLaws Embedded
begin

text \<open>
  What the services promise over HTTP: every POST request, answered or refused, keeps the ledger a
  verifiable chain that extends the one before.
\<close>

subsection \<open>What a request keeps\<close>

abbreviation cs_world :: "control_state \<Rightarrow> world" where
  "cs_world s \<equiv> os_world (cs_objects s)"

lemma keeps_in_objects: "keeps P m \<Longrightarrow> keeps (\<lambda>s. P (cs_objects s)) (in_objects m)"
  by (auto simp: keeps_def in_objects_def zoom_def split: prod.splits)

definition ctl_audit :: "ledger_rows \<Rightarrow> control_state \<Rightarrow> bool" where
  "ctl_audit l0 s = audit_inv l0 (cs_world s)"

definition os_audit :: "ledger_rows \<Rightarrow> object_store \<Rightarrow> bool" where
  "os_audit l0 s = audit_inv l0 (os_world s)"

named_theorems control_rules \<open>what keeps the ledger of the services verifiable\<close>

lemma audit_objects [control_rules]: "keeps (os_audit l0) m \<Longrightarrow> keeps (ctl_audit l0) (in_objects m)"
  using keeps_in_objects [of "os_audit l0"] by (simp add: ctl_audit_def [abs_def] os_audit_def)

lemma audit_through: "keeps (gw_audit l0) m \<Longrightarrow> keeps (os_audit l0) (on_gateway m)"
  using keeps_on_gateway [of "audit_inv l0"] by (simp add: os_audit_def [abs_def] gw_audit_def [abs_def])

lemma audit_in_world: "keeps (audit_inv l0) m \<Longrightarrow> keeps (os_audit l0) (in_world m)"
  unfolding in_world_def by (intro audit_through audit_on_world)

lemma audit_gateway [control_rules]: "keeps (gw_audit l0) m \<Longrightarrow> keeps (ctl_audit l0) (at_gateway m)"
  unfolding at_gateway_def by (intro audit_objects audit_through)

lemma audit_world [control_rules]: "keeps (audit_inv l0) m \<Longrightarrow> keeps (ctl_audit l0) (at_world m)"
  unfolding at_world_def by (intro audit_gateway audit_on_world)

lemma audit_draw [control_rules]: "keeps (ctl_audit l0) (at_world draw)"
  by (intro audit_world draw_audited)

lemma audit_inspect [control_rules]: "keeps (ctl_audit l0) (at_world (inspect f))"
  by (intro audit_world keeps_inspect)

lemma audit_units [control_rules]: "keeps (ctl_audit l0) (at_units m)" "keeps (ctl_audit l0) (ok_json v)" "keeps (ctl_audit l0) (ok_dict d)"
    "keeps (ctl_audit l0) (ok_rows ds)" "keeps (ctl_audit l0) (at_jobs q)" "keeps (ctl_audit l0) (zoom cs_keys (\<lambda>k s. s\<lparr>cs_keys := k\<rparr>) ks)"
  by (auto simp: keeps_def at_units_def at_jobs_def zoom_def ctl_audit_def audit_inv_def ok_json_def ok_dict_def ok_rows_def retS_def
      split: prod.splits)

subsection \<open>The execution of work units\<close>

lemma unit_audited:
  assumes "fresh_events (ge_env ge)"
  shows "keeps (gw_audit l0) (execute_work_unit ge wu mode)"
  unfolding execute_work_unit_def execute_prompt_def execute_mock_adapter_def Let_def
  by (intro keeps_control audit_on_world keeps_inspect gateway_audited execution_audited assms)

subsection \<open>The S3 gateway\<close>

lemma uploads_audited [control_rules]:
  "keeps (os_audit l0) (set_upload i u)" "keeps (os_audit l0) (drop_upload i)" "keeps (os_audit l0) (the_upload i)"
  "keeps (os_audit l0) (set_status i st)" "keeps (os_audit l0) (\<lambda>s. (f s, s))"
  unfolding os_audit_def [abs_def] by (intro keeps_uploads_only)+

lemma put_keeps_audit:
  assumes "fresh_events (ge_env ge)"
  shows "keeps (os_audit l0) (put_object ge t b k body ns md tags)"
  unfolding put_object_def by (intro keeps_control audit_in_world draw_audited audit_through unit_audited assms)

lemma objects_audited:
  assumes "fresh_events (ge_env ge)"
  shows "keeps (os_audit l0) (get_object ge t i)" "keeps (os_audit l0) (range_read ge t i a z)" "keeps (os_audit l0) (head_object ge t i)"
    "keeps (os_audit l0) (list_objects ge t bk pre inc)" "keeps (os_audit l0) (delete_object ge t i actor allow)"
    "keeps (os_audit l0) (create_multipart_upload ge t b k ns md tags)" "keeps (os_audit l0) (upload_part t i n body)"
    "keeps (os_audit l0) (complete_multipart_upload ge t i)" "keeps (os_audit l0) (abort_multipart_upload t i)"
proof -
  have own: "keeps (os_audit l0) (own_manifest en t i)" for en
    unfolding own_manifest_def by (intro audit_in_world keeps_inspect)
  have range: "keeps (audit_inv l0) (rehydrate_manifest_range (ge_env ge) i a z)"
    unfolding rehydrate_manifest_range_def Let_def by (intro keeps_rules assms)
  have log: "keeps (os_audit l0) (log_deletion (ge_env ge) e)" for e
    unfolding log_deletion_def by (intro keeps_control audit_in_world append_event_audited assms)
  have removal: "keeps (os_audit l0) (remove_multipart t i st)" for i st
    unfolding remove_multipart_def by (intro keeps_control control_rules)
  show "keeps (os_audit l0) (get_object ge t i)" "keeps (os_audit l0) (range_read ge t i a z)" "keeps (os_audit l0) (head_object ge t i)"
    "keeps (os_audit l0) (list_objects ge t bk pre inc)"
    unfolding get_object_def range_read_def head_object_def list_objects_def
    by (intro keeps_control audit_in_world keeps_inspect own range)+
  show "keeps (os_audit l0) (delete_object ge t i actor allow)"
    unfolding delete_object_def deny_deletion_def tombstone_def Let_def
    by (intro keeps_control own log audit_in_world others_audited)
  show "keeps (os_audit l0) (create_multipart_upload ge t b k ns md tags)" "keeps (os_audit l0) (upload_part t i n body)"
    unfolding create_multipart_upload_def open_upload_def upload_part_def Let_def
    by (intro keeps_control audit_in_world draw_audited control_rules)+
  show "keeps (os_audit l0) (complete_multipart_upload ge t i)"
    unfolding complete_multipart_upload_def finish_upload_def
    by (intro keeps_control keeps_on_failure put_keeps_audit assms removal control_rules)
  show "keeps (os_audit l0) (abort_multipart_upload t i)"
    unfolding abort_multipart_upload_def by (intro keeps_control removal control_rules)
qed

lemma answers_audited:
  "keeps (os_audit l0) m \<Longrightarrow> keeps (os_audit l0) (answer_json m)" "keeps (os_audit l0) m' \<Longrightarrow> keeps (os_audit l0) (answer_bytes m')"
  unfolding answer_json_def answer_bytes_def by (intro keeps_control; assumption)+

lemma gateways_audited:
  assumes "fresh_events (ge_env ge)"
  shows "keeps (os_audit l0) (dispatch_post ge service path payload)"
proof -
  note parts = answers_audited objects_audited [OF assms] put_keeps_audit [OF assms]
  have s3: "keeps (os_audit l0) (handle_s3 ge path d)" for d
    unfolding handle_s3_def Let_def split_def by (intro keeps_control parts)
  have completion: "keeps (gw_audit l0) (handle_completion ge d t n b mode)" for d t n b mode
    unfolding handle_completion_def by (intro keeps_control gateway_audited assms)
  have ai: "keeps (os_audit l0) (handle_ai ge path d)" for d
    unfolding handle_ai_def Let_def
    by (intro keeps_control answers_audited audit_through gateway_audited completion embeddings_audited assms)
  show ?thesis unfolding dispatch_post_def by (intro keeps_control s3 ai)
qed

subsection \<open>Policies, approvals and plugins\<close>

definition rows_audit :: "ledger_rows \<Rightarrow> ledger_rows \<Rightarrow> bool" where
  "rows_audit l0 rows = (verify_chain rows = Inr True \<and> prefix l0 rows)"

lemma keeps_reading: "(\<And>s x. keeps I (g s x)) \<Longrightarrow> keeps I (\<lambda>s. bindS (liftR (f s)) (g s) s)"
  by (simp add: keeps_def bindS_def liftR_def split: sum.splits)

lemma policies_audited:
  assumes "i \<noteq> []" "t \<noteq> []"
  shows "keeps (\<lambda>p. rows_audit l0 (ps_ledger p)) (policy_publish sch c (i, t) now b actor)"
    "keeps (\<lambda>p. rows_audit l0 (ps_ledger p)) (policy_rollback sch c (i, t) name version actor)"
    "keeps (\<lambda>p. rows_audit l0 (ps_ledger p)) (policy_reload sch c (i, t) now name actor)"
proof -
  let ?J = "\<lambda>p. rows_audit l0 (ps_ledger p)"
  have audit: "keeps ?J (policy_audit sch c (policy_event (i, t) ty tn name actor decision details))" for ty tn name actor decision details
  proof (rule keepsI)
    fix p r p' assume "?J p" "policy_audit sch c (policy_event (i, t) ty tn name actor decision details) p = (r, p')"
    then show "?J p'" using append_audited [of "ps_ledger p" l0 "policy_event (i, t) ty tn name actor decision details" sch c] assms
      by (auto simp: policy_audit_def policy_event_def rows_audit_def split: prod.splits)
  qed
  have active: "keeps ?J (write_active name version)" for name version
    unfolding write_active_def by (intro keeps_control) (simp add: keeps_def)
  have recording: "keeps ?J (write_record name version row)" for name version row
    by (simp add: keeps_def write_record_def)
  show "keeps ?J (policy_publish sch c (i, t) now b actor)"
    unfolding policy_publish_def Let_def by (intro keeps_control audit active recording)
  show "keeps ?J (policy_rollback sch c (i, t) name version actor)" "keeps ?J (policy_reload sch c (i, t) now name actor)"
    unfolding policy_rollback_def policy_reload_def Let_def
    by (rule keeps_reading, intro keeps_control audit active)+
qed

lemma audit_policies:
  assumes "keeps (\<lambda>p. rows_audit l0 (ps_ledger p)) m"
  shows "keeps (ctl_audit l0) (at_policies m)"
proof -
  have "keeps (audit_inv l0) (zoom w_policies (\<lambda>p w. w\<lparr>w_policies := p\<rparr>) m)"
    by (rule keeps_zoom [OF assms]) (simp_all add: audit_inv_def rows_audit_def w_ledger_def)
  then show ?thesis unfolding at_policies_def by (rule audit_world)
qed

lemma registry_audited:
  assumes "i \<noteq> []" "t \<noteq> []"
  shows "keeps (ctl_audit l0) (at_plugins (plugin_register sch c (i, t) d actor))"
proof -
  have "keeps (\<lambda>p. rows_audit l0 (pg_ledger p)) (plugin_register sch c (i, t) d actor)"
  proof -
    have audit: "keeps (\<lambda>p. rows_audit l0 (pg_ledger p)) (\<lambda>p. case ledger_append sch c (plugin_event (i, t) tn actor details) (pg_ledger p) of
        (r, rows) \<Rightarrow> (map_res (\<lambda>_. d) r, p\<lparr>pg_ledger := rows\<rparr>))" for tn details
    proof (rule keepsI)
      fix p r p' assume "rows_audit l0 (pg_ledger p)" "(case ledger_append sch c (plugin_event (i, t) tn actor details) (pg_ledger p) of
        (r, rows) \<Rightarrow> (map_res (\<lambda>_. d) r, p\<lparr>pg_ledger := rows\<rparr>)) = (r, p')"
      then show "rows_audit l0 (pg_ledger p')" using append_audited [of "pg_ledger p" l0 "plugin_event (i, t) tn actor details" sch c] assms
        by (auto simp: plugin_event_def rows_audit_def split: prod.splits)
    qed
    have filing: "keeps (\<lambda>p. rows_audit l0 (pg_ledger p)) (\<lambda>p. (Inr (), p\<lparr>pg_files := f p\<rparr>))" for f by (simp add: keeps_def)
    show ?thesis unfolding plugin_register_def by (intro keeps_control filing audit)
  qed
  then show ?thesis unfolding at_plugins_def
    by (rule keeps_zoom) (simp_all add: ctl_audit_def audit_inv_def rows_audit_def control_ledger_def set_control_ledger_def)
qed

subsection \<open>The routes\<close>

lemma routes_audited:
  assumes "fresh_events (ce_env ce)"
  shows "keeps (ctl_audit l0) (create_unit ce d)" "keeps (ctl_audit l0) (bindS (work_unit_from_payload ce d) (plan_unit ce service d))"
    "keeps (ctl_audit l0) (bindS (stored_unit ce i) (plan_unit ce service d))"
    "keeps (ctl_audit l0) (bindS (work_unit_from_payload ce d) (execute_unit ce d))"
    "keeps (ctl_audit l0) (bindS (stored_unit ce i) (execute_unit ce d))"
    "keeps (ctl_audit l0) (export_manifests ce d)" "keeps (ctl_audit l0) (rehydrate_route ce i d)" "keeps (ctl_audit l0) (ledger_route ce d)"
proof -
  let ?J = "ctl_audit l0"
  have payload: "keeps ?J (work_unit_from_payload ce d)" unfolding work_unit_from_payload_def by (intro keeps_control control_rules)
  have stored: "keeps ?J (stored_unit ce i)" unfolding stored_unit_def by (intro control_rules)
  have plan: "keeps ?J (plan_unit ce service d wu)" for wu
    unfolding plan_unit_def active_policy_def by (intro keeps_control control_rules store_plan_audited assms)
  have execute: "keeps ?J (execute_unit ce d wu)" for wu
    unfolding execute_unit_def by (intro keeps_control control_rules unit_audited assms)
  show "keeps ?J (create_unit ce d)"
    unfolding create_unit_def by (intro keeps_control payload control_rules append_event_audited assms)
  show "keeps ?J (bindS (work_unit_from_payload ce d) (plan_unit ce service d))" "keeps ?J (bindS (stored_unit ce i) (plan_unit ce service d))"
      "keeps ?J (bindS (work_unit_from_payload ce d) (execute_unit ce d))" "keeps ?J (bindS (stored_unit ce i) (execute_unit ce d))"
    by (intro keeps_control payload stored plan execute)+
  have range: "keeps (audit_inv l0) (rehydrate_manifest_range (ce_env ce) i a z)" for a z
    unfolding rehydrate_manifest_range_def Let_def by (intro keeps_rules assms)
  show "keeps ?J (export_manifests ce d)" "keeps ?J (rehydrate_route ce i d)" "keeps ?J (ledger_route ce d)"
    unfolding export_manifests_def found_manifests_def rehydrate_route_def ledger_route_def query_ledger_def Let_def
    by (intro keeps_control control_rules range)+
qed

lemma policy_routes_audited:
  assumes "fresh_events (ce_env ce)"
  shows "keeps (ctl_audit l0) (evaluate_route ce d)" "keeps (ctl_audit l0) (validate_route ce d)" "keeps (ctl_audit l0) (publish_route ce service d)"
    "keeps (ctl_audit l0) (rollback_route ce service name d)" "keeps (ctl_audit l0) (reload_route ce service name)"
    "keeps (ctl_audit l0) (approve_route ce service d)" "keeps (ctl_audit l0) (register_route ce service d)"
proof -
  have fresh: "e_ids (ce_env ce) ''evt'' n \<noteq> []" "e_clock (ce_env ce) n \<noteq> []" for n using assms by (simp_all add: fresh_events_def)
  note policies = policies_audited [OF fresh]
  show "keeps (ctl_audit l0) (evaluate_route ce d)" "keeps (ctl_audit l0) (validate_route ce d)"
    unfolding evaluate_route_def validate_route_def work_unit_from_payload_def active_policy_def by (intro keeps_control control_rules)+
  show "keeps (ctl_audit l0) (publish_route ce service d)" "keeps (ctl_audit l0) (rollback_route ce service name d)"
      "keeps (ctl_audit l0) (reload_route ce service name)" "keeps (ctl_audit l0) (register_route ce service d)"
    unfolding publish_route_def rollback_route_def reload_route_def register_route_def Let_def
    by (intro keeps_control control_rules audit_policies policies registry_audited fresh)+
  show "keeps (ctl_audit l0) (approve_route ce service d)"
    unfolding approve_route_def Let_def by (intro keeps_control control_rules others_audited append_event_audited assms)
qed

lemma cache_routes_audited:
  shows "keeps (ctl_audit l0) (cache_lookup_route ce d)" "keeps (ctl_audit l0) (cache_store_route ce d)" "keeps (ctl_audit l0) (semantic_route ce d)"
    "keeps (ctl_audit l0) (traces_route ce d)" "keeps (ctl_audit l0) (logs_route ce d)" "keeps (ctl_audit l0) (check_route ce d)"
    "keeps (ctl_audit l0) (key_route ce d)" "keeps (ctl_audit l0) (job_route ce d)"
  unfolding cache_lookup_route_def cache_store_route_def semantic_route_def lookup_semantic_cache_def active_policy_def traces_route_def
    logs_route_def check_route_def key_route_def job_route_def Let_def
  by (intro keeps_control control_rules audit_rules)+

subsection \<open>A POST request\<close>

definition some_all :: "('a \<Rightarrow> bool) \<Rightarrow> 'a option \<Rightarrow> bool" where
  "some_all P x = (\<forall>y. x = Some y \<longrightarrow> P y)"

lemma some_all_intros:
  "some_all P None" "P y \<Longrightarrow> some_all P (Some y)" "some_all P x \<Longrightarrow> some_all P x' \<Longrightarrow> some_all P (if b then x else x')"
  by (simp_all add: some_all_def)

lemma handlers_audited:
  assumes "fresh_events (ce_env ce)" "\<And>path d. keeps (ctl_audit l0) (outside path d)"
  shows "some_all (\<lambda>h. \<forall>d. keeps (ctl_audit l0) (h d)) (post_handler ce outside service path)"
  unfolding post_handler_def Let_def
  by (intro some_all_intros allI routes_audited policy_routes_audited cache_routes_audited assms)

lemma serve_audited:
  assumes "fresh_events (ce_env ce)" "\<And>path d. keeps (ctl_audit l0) (outside path d)"
  shows "keeps (ctl_audit l0) (serve_post ce outside service path payload)"
proof -
  have "keeps (ctl_audit l0) (case post_handler ce outside service path of None \<Rightarrow> retS (not_found path)
      | Some handler \<Rightarrow> bindS (liftR (as_dict payload)) handler)"
    using handlers_audited [OF assms, where service = service and path = path]
    by (cases "post_handler ce outside service path") (auto simp: some_all_def intro!: keeps_control)
  then show ?thesis unfolding serve_post_def by (intro keeps_if audit_objects gateways_audited assms(1))
qed

text \<open>A request, whatever its outcome, keeps the ledger verifiable and only appends to it.\<close>

lemma post_keeps_ledger:
  assumes "fresh_events (ce_env ce)" "\<And>p path d. keeps (ctl_audit l0) (outside (control_as p ce) path d)" "ctl_audit l0 s"
  shows "ctl_audit l0 (snd (handle_POST ce outside authn service rq s))"
proof -
  have fresh: "fresh_events (ce_env (control_as p ce))" for p
    using assms(1) by (simp add: control_as_def acting_as_def fresh_events_def)
  have "keeps (ctl_audit l0) (bindS (liftR (bindR (read_payload (ce_env ce) rq) (\<lambda>payload.
         map_res (Pair payload) (authenticate_request authn (ce_permissions ce) rq ''POST'' payload))))
       (\<lambda>(payload, p). let ce' = control_as p ce in serve_post ce' (outside ce') service (rq_path rq) payload))"
    unfolding split_def Let_def by (intro keeps_control serve_audited fresh assms(2))
  from keepsD [OF this assms(3)] show ?thesis
    by (auto simp: handle_POST_def control_answer_def split: prod.splits sum.splits)
qed

fun serve_all :: "control_env \<Rightarrow> (control_env \<Rightarrow> string \<Rightarrow> pydict \<Rightarrow> http_response cio) \<Rightarrow> authenticator \<Rightarrow> (string \<times> http_request) list
    \<Rightarrow> control_state \<Rightarrow> control_state" where
  "serve_all ce outside authn [] s = s"
| "serve_all ce outside authn ((service, rq) # rqs) s = serve_all ce outside authn rqs (snd (handle_POST ce outside authn service rq s))"


end
