(* ===== verification/ControlRoutes.thy ===== *)
theory ControlRoutes
  imports ControlLaws
begin

text \<open>
  What single routes of the control plane promise: manifests are shown in full only to those who may
  see them, and GET requests change nothing but the key that approvals are signed with, which the
  first request that needs it files. The samples at the end serve requests.
\<close>

subsection \<open>Shown manifests\<close>

text \<open>A row that may be shown to \<open>p\<close>: of a manifest in the store, of the principal's tenant if it is
  bound to one, and redacted unless the principal may read sensitive manifests of that tenant.\<close>

definition guarded_row :: "control_env \<Rightarrow> principal \<Rightarrow> json_files \<Rightarrow> pydict \<Rightarrow> bool" where
  "guarded_row ce p files row = (\<exists>m. (\<exists>kv \<in> set files. read_manifest (snd kv) = Inr m)
     \<and> (\<forall>t. bound_to t p \<longrightarrow> mf_tenant m = t)
     \<and> (row = redact_manifest m \<or> (allowed (ce_permissions ce) p ''manifest:sensitive'' (Some (mf_tenant m)) \<and> row = manifest_to_dict m)))"

lemma listed_manifest:
  assumes "file_list (Some p) None files = Inr ms" "m \<in> set ms"
  shows "(\<exists>kv \<in> set files. read_manifest (snd kv) = Inr m) \<and> (\<forall>t. bound_to t p \<longrightarrow> mf_tenant m = t)"
proof -
  obtain all where all: "seq_res (map (\<lambda>kv. read_manifest (snd kv)) (sorted_files ''mf_'' files)) = Inr all"
    and ms: "ms = filter (\<lambda>m. case chosen_tenant (Some p) None of None \<Rightarrow> True | Some t \<Rightarrow> mf_tenant m = t) all"
    using assms(1) by (auto simp: file_list_def effect_simps)
  have "m \<in> set all" using assms(2) ms by auto
  from seq_res_nth [OF all this] obtain kv where "kv \<in> set (sorted_files ''mf_'' files)" "read_manifest (snd kv) = Inr m" by auto
  then have "\<exists>kv \<in> set files. read_manifest (snd kv) = Inr m" by (intro bexI [of _ kv]) (simp_all add: sorted_files_def)
  moreover have "chosen_tenant (Some p) None = Some t" if "bound_to t p" for t
    using that by (auto simp: chosen_tenant_def given_def current_tenant_def bound_to_def)
  ultimately show ?thesis using assms(2) ms by auto
qed

lemma shown_guarded:
  assumes "e_ctx (ce_env ce) = Some p" "\<exists>kv \<in> set files. read_manifest (snd kv) = Inr m" "\<forall>t. bound_to t p \<longrightarrow> mf_tenant m = t"
  shows "guarded_row ce p files (shown_manifest ce redact m)"
  using assms by (auto simp: guarded_row_def shown_manifest_def may_see_def)

lemma at_world_eq [effect_simps]: "(at_world m s = (r, s')) = (\<exists>w. m (cs_world s) = (r, w)
    \<and> s' = s\<lparr>cs_objects := (cs_objects s)\<lparr>os_gateway := (os_gateway (cs_objects s))\<lparr>gw_world := w\<rparr>\<rparr>\<rparr>)"
  by (auto simp: at_world_def at_gateway_def in_objects_def on_world_def effect_simps)

lemma found_guarded:
  assumes "e_ctx (ce_env ce) = Some p" "found_manifests ce ref tenant s = (Inr ms, s')" "m \<in> set ms"
  shows "guarded_row ce p (w_manifests (cs_world s)) (shown_manifest ce redact m)"
proof -
  obtain all where all: "file_list (Some p) None (w_manifests (cs_world s)) = Inr all" "m \<in> set all"
    using assms unfolding found_manifests_def effect_simps
    by (auto simp: Let_def file_find_by_logical_ref_def effect_simps split: option.splits)
  from listed_manifest [OF this] show ?thesis by (intro shown_guarded assms(1)) blast+
qed

lemma found_all_guarded:
  assumes "e_ctx (ce_env ce) = Some p" "found_manifests ce ref tenant s = (Inr ms, s')"
  shows "list_all (guarded_row ce p (w_manifests (cs_world s))) (map (shown_manifest ce redact) ms)"
  using found_guarded [OF assms] by (auto simp: list_all_iff)

text \<open>
  C36 (safety). Manifests are guarded: every row that the export, the listing or a single read of
  manifests answers with is that of a manifest in the store, of the principal's tenant if it is
  bound to one, and redacted unless the principal may read sensitive manifests of that tenant,
  whatever the request asks for.
\<close>

theorem manifests_guarded:
  assumes "e_ctx (ce_env ce) = Some p"
  shows "(\<forall>st out s'. export_manifests ce d s = (Inr (st, JsonBody (PDict out)), s') \<longrightarrow>
        (\<exists>rows. get_value out ''manifests'' = PList (map PDict rows) \<and> list_all (guarded_row ce p (w_manifests (cs_world s))) rows))
    \<and> (\<forall>st v s'. list_manifests_route ce q s = (Inr (st, JsonBody v), s') \<longrightarrow>
        (\<exists>rows. v = PList (map PDict rows) \<and> list_all (guarded_row ce p (w_manifests (cs_world s))) rows))
    \<and> (\<forall>st v s'. get_manifest_route ce i s = (Inr (st, JsonBody v), s') \<longrightarrow>
        (\<exists>row. v = PDict row \<and> guarded_row ce p (w_manifests (cs_world s)) row))"
proof (intro conjI allI impI)
  fix st out s' assume run: "export_manifests ce d s = (Inr (st, JsonBody (PDict out)), s')"
  let ?wanted = "get_default d ''redacted'' (PBool True) \<noteq> PBool False"
  obtain ref tenant ms s1 kv1 kv2 where ms: "found_manifests ce ref tenant s = (Inr ms, s1)"
    and out: "out = [(''manifest_count'', kv1), (''redacted'', kv2), (''manifests'', PList (map (\<lambda>m. PDict (shown_manifest ce ?wanted m)) ms))]"
    using run unfolding export_manifests_def bindS_Inr liftR_eq Let_def ok_dict_def ok_json_def retS_eq
    by (elim exE conjE, hypsubst+) (rule that, assumption, simp only: prod.inject sum.inject http_body.inject pyval.inject)
  from out have "get_value out ''manifests'' = PList (map PDict (map (shown_manifest ce ?wanted) ms))"
    by (simp add: get_value_def dget_def comp_def)
  then show "\<exists>rows. get_value out ''manifests'' = PList (map PDict rows) \<and> list_all (guarded_row ce p (w_manifests (cs_world s))) rows"
    using found_all_guarded [OF assms ms] by blast
next
  fix st v s' assume run: "list_manifests_route ce q s = (Inr (st, JsonBody v), s')"
  obtain ms s1 where ms: "found_manifests ce (dget q ''logical_ref'') (dget q ''tenant'') s = (Inr ms, s1)"
    and v: "v = PList (map PDict (map (shown_manifest ce (dget q ''redacted'' = Some ''true'')) ms))"
    using run unfolding list_manifests_route_def bindS_Inr ok_rows_def ok_json_def retS_eq
    by (elim exE conjE) (rule that, assumption, simp)
  then show "\<exists>rows. v = PList (map PDict rows) \<and> list_all (guarded_row ce p (w_manifests (cs_world s))) rows"
    using found_all_guarded [OF assms ms] by blast
next
  fix st v s' assume run: "get_manifest_route ce i s = (Inr (st, JsonBody v), s')"
  obtain m where m: "file_get (Some p) i (w_manifests (cs_world s)) = Inr m" and v: "v = PDict (shown_manifest ce False m)"
    using run assms unfolding get_manifest_route_def effect_simps ok_dict_def ok_json_def by (auto simp: effect_simps)
  obtain row where row: "dget (w_manifests (cs_world s)) i = Some row" "read_manifest row = Inr m" "sees (Some p) (Some (mf_tenant m))"
    using m by (auto simp: file_get_def effect_simps split: option.splits)
  have "\<exists>kv \<in> set (w_manifests (cs_world s)). read_manifest (snd kv) = Inr m"
    using row(2) map_of_SomeD [OF row(1) [unfolded dget_def]] by (intro bexI [of _ "(i, row)"]) simp_all
  moreover have "\<forall>t. bound_to t p \<longrightarrow> mf_tenant m = t"
    using row(3) by (auto simp: sees_def bound_tenant_def current_tenant_def bound_to_def)
  ultimately show "\<exists>row. v = PDict row \<and> guarded_row ce p (w_manifests (cs_world s)) row"
    unfolding v using shown_guarded [OF assms] by blast
qed

subsection \<open>GET requests\<close>

text \<open>The same approvals, except that a key for signing is filed where there was none.\<close>

definition same_approvals :: "approval_state \<Rightarrow> approval_state \<Rightarrow> bool" where
  "same_approvals a0 a = (a = a0 \<or> as_key_file a0 = None \<and> (\<exists>k. a = a0\<lparr>as_key_file := Some k\<rparr>))"

definition with_approvals :: "approval_state \<Rightarrow> control_state \<Rightarrow> control_state" where
  "with_approvals a s = s\<lparr>cs_objects := (cs_objects s)\<lparr>os_gateway := (os_gateway (cs_objects s))\<lparr>gw_world := (cs_world s)\<lparr>w_approvals := a\<rparr>\<rparr>\<rparr>\<rparr>"

definition only_read :: "control_state \<Rightarrow> control_state \<Rightarrow> bool" where
  "only_read s0 s = (\<exists>a. same_approvals (w_approvals (cs_world s0)) a \<and> s = with_approvals a s0)"

named_theorems reading_rules \<open>what a request that only reads keeps\<close>

lemma key_kept: "keeps (same_approvals a0) (signing_key env random)"
  by (auto simp: keeps_def signing_key_def same_approvals_def Let_def split: option.splits)

lemma check_kept: "keeps (same_approvals a0) (check_signature env random r)"
  unfolding check_signature_def by (intro keeps_control key_kept)

lemma approvals_kept [reading_rules]:
  "keeps (same_approvals a0) (approval_list c env random tn)" "keeps (same_approvals a0) (approval_get env random i)"
proof -
  have "keeps (same_approvals a0) (bindS (mapS (\<lambda>kv. bindS (liftR (approval_from_dict (snd kv))) (check_signature env random)) xs)
      (\<lambda>rs. retS (f rs)))" for xs and f :: "approval list \<Rightarrow> approval list"
    by (intro keeps_control keeps_mapS check_kept)
  then show "keeps (same_approvals a0) (approval_list c env random tn)"
    unfolding keeps_def approval_list_def by blast
  have "keeps (same_approvals a0) (bindS (liftR r) (check_signature env random))" for r by (intro keeps_control check_kept)
  then have "keeps (same_approvals a0) (\<lambda>st. case dget (as_files st) i of None \<Rightarrow> (Inl (FileNotFoundError (i @ ''.json'')), st)
      | Some d \<Rightarrow> bindS (liftR (approval_from_dict d)) (check_signature env random) st)"
    by (auto simp: keeps_def split: option.splits)
  then show "keeps (same_approvals a0) (approval_get env random i)" unfolding approval_get_def by (intro keeps_thenS keeps_liftR)
qed

lemma only_read_refl: "only_read s s"
  by (auto simp: only_read_def same_approvals_def with_approvals_def intro!: exI [of _ "w_approvals (cs_world s)"])

lemma read_approvals [reading_rules]:
  assumes "\<And>a0. keeps (same_approvals a0) m"
  shows "keeps (only_read s0) (at_world (on_approvals m))"
proof (rule keepsI)
  fix s r s' assume s: "only_read s0 s" and run: "at_world (on_approvals m) s = (r, s')"
  from run obtain a where a: "m (w_approvals (cs_world s)) = (r, a)" and s': "s' = with_approvals a s"
    by (auto simp: at_world_eq on_approvals_def effect_simps with_approvals_def)
  from s obtain b where b: "same_approvals (w_approvals (cs_world s0)) b" "s = with_approvals b s0" by (auto simp: only_read_def)
  have "w_approvals (cs_world s) = b" by (simp add: b(2) with_approvals_def)
  with keepsD [OF assms b(1), of r a] a have "same_approvals (w_approvals (cs_world s0)) a" by simp
  moreover have "s' = with_approvals a s0" by (simp add: s' b(2) with_approvals_def)
  ultimately show "only_read s0 s'" by (auto simp: only_read_def)
qed

lemma keeps_unchanged: "(\<And>s. snd (m s) = s) \<Longrightarrow> keeps I m"
  by (simp add: keeps_def)

lemma reads_nothing_else [reading_rules]:
  "keeps (only_read s0) (at_world (inspect f))" "keeps (only_read s0) (at_units (\<lambda>x. (g x, x)))" "keeps (only_read s0) (at_gateway (\<lambda>x. (h x, x)))"
  "keeps (only_read s0) (at_jobs (\<lambda>x. (j x, x)))" "keeps (only_read s0) (at_plugins (\<lambda>x. (k x, x)))"
  "keeps (only_read s0) (ok_json v)" "keeps (only_read s0) (ok_dict d)" "keeps (only_read s0) (ok_rows ds)"
  by (rule keeps_unchanged, simp add: at_world_def at_gateway_def in_objects_def on_gateway_def on_world_def inspect_def zoom_def
      at_units_def at_jobs_def at_plugins_def set_control_ledger_def control_ledger_def w_ledger_def ok_json_def ok_dict_def ok_rows_def retS_def)+

lemma reading_routes [reading_rules]:
  "keeps (only_read s0) (list_units_route ce q)" "keeps (only_read s0) (stored_unit ce i)" "keeps (only_read s0) (list_plans_route ce q)"
  "keeps (only_read s0) (list_manifests_route ce q)" "keeps (only_read s0) (explore_route ce q)" "keeps (only_read s0) (get_manifest_route ce i)"
  "keeps (only_read s0) (stream_route ce q)" "keeps (only_read s0) (feedback_route ce)" "keeps (only_read s0) (list_approvals_route ce q)"
  "keeps (only_read s0) (get_approval_route ce i)" "keeps (only_read s0) (jobs_route ce)"
  unfolding list_units_route_def stored_unit_def list_plans_route_def list_manifests_route_def found_manifests_def explore_route_def
    get_manifest_route_def stream_route_def query_ledger_def feedback_route_def list_approvals_route_def get_approval_route_def jobs_route_def Let_def
  by (intro keeps_control reading_rules)+

text \<open>A GET request changes nothing, except that it may file the key that approvals are signed with.\<close>

theorem gets_change_nothing:
  assumes "\<And>p path. keeps (only_read s) (outside (control_as p ce) path q)"
  shows "only_read s (snd (handle_GET ce outside authn service rq q s))"
proof -
  have "keeps (only_read s) (serve_get (control_as p ce) (outside (control_as p ce)) service path q)" for p path
    unfolding serve_get_def Let_def by (intro keeps_control reading_rules assms)
  then have "keeps (only_read s) (bindS (liftR (authenticate_request authn (ce_permissions ce) rq ''GET'' (query_payload q)))
       (\<lambda>p. let ce' = control_as p ce in serve_get ce' (outside ce') service (rq_path rq) q))"
    unfolding Let_def by (intro keeps_control)
  from keepsD [OF this only_read_refl] show ?thesis
    by (auto simp: handle_GET_def control_answer_def split: prod.splits sum.splits)
qed

subsection \<open>Samples\<close>

definition no_control :: control_state where
  "no_control = \<lparr>cs_objects = no_objects, cs_units = [], cs_plugins = [], cs_keys = \<lparr>ks_keys = [], ks_master = None\<rparr>, cs_jobs = []\<rparr>"

definition sample_control :: control_env where
  "sample_control = \<lparr>ce_gateway = mock_gateway, ce_aead = \<lparr>seal = (\<lambda>k n m a. m), unseal = (\<lambda>k n c a. Inr c)\<rparr>, ce_random = [],
     ce_bytes = (\<lambda>n. ([], [])), ce_permissions = default_permissions\<rparr>"

definition nothing_outside :: "control_env \<Rightarrow> string \<Rightarrow> 'a \<Rightarrow> http_response cio" where
  "nothing_outside ce path d = retS (not_found path)"

definition ann :: principal where
  "ann = \<lparr>pr_actor = ''ann'', pr_tenant = ''acme'', pr_roles = []\<rparr>"

definition one_manifest :: control_state where
  "one_manifest = no_control\<lparr>cs_objects := no_objects\<lparr>os_gateway := first_gateway\<lparr>gw_world :=
     empty_world\<lparr>w_manifests := [(''mf_1'', jfile_dict (manifest_to_dict sample_manifest))]\<rparr>\<rparr>\<rparr>\<rparr>"

definition sample_request :: "string \<Rightarrow> pyval \<Rightarrow> http_request" where
  "sample_request path v = \<lparr>rq_path = path, rq_authorization = None, rq_api_key = Some ''k'', rq_tenant = None, rq_length = Some ''90'', rq_json = Inr v\<rparr>"

definition open_access :: authenticator where
  "open_access = \<lparr>auth_disabled = True, auth_records = []\<rparr>"


theorem gets_change_nothing_witness:
  "only_read no_control (snd (handle_GET sample_control nothing_outside open_access ''control-plane''
     (sample_request ''/v1/approvals'' PNone) [] no_control))"
  by (rule gets_change_nothing) (unfold nothing_outside_def, intro keeps_control)

theorem manifests_guarded_witness:
  "\<exists>ce s' row. e_ctx (ce_env ce) = Some ann \<and> list_manifests_route ce [] one_manifest = (Inr (200, JsonBody (PList [PDict row])), s')
     \<and> guarded_row ce ann (w_manifests (cs_world one_manifest)) row \<and> row = redact_manifest (filed_manifest sample_manifest)"
proof -
  let ?ce = "control_as ann sample_control"
  have c: "e_ctx (ce_env ?ce) = Some ann" by (simp add: control_as_def acting_as_def)
  have stored: "w_manifests (cs_world one_manifest) = [(''mf_1'', jfile_dict (manifest_to_dict sample_manifest))]" by (simp add: one_manifest_def)
  have "\<not> may_see ?ce t" for t by (simp add: may_see_def c) (simp add: ann_def allowed_def)
  then have shown: "shown_manifest ?ce b m = redact_manifest m" for b m by (simp add: shown_manifest_def)
  obtain s1 where "found_manifests ?ce None None one_manifest = (Inr [filed_manifest sample_manifest], s1)"
    using one_listed unfolding ann_def [symmetric] by (auto simp: found_manifests_def effect_simps at_world_eq c stored given_def Let_def wants_def)
  then have run: "list_manifests_route ?ce [] one_manifest = (Inr (200, JsonBody (PList [PDict (redact_manifest (filed_manifest sample_manifest))])), s1)"
    by (simp add: list_manifests_route_def effect_simps ok_rows_def ok_json_def shown dget_def)
  from manifests_guarded [OF c, where q = "[]" and s = one_manifest and d = "[]" and i = "[]", THEN conjunct2, THEN conjunct1,
    rule_format, OF run] obtain rows where
    "PList [PDict (redact_manifest (filed_manifest sample_manifest))] = PList (map PDict rows)"
    "list_all (guarded_row ?ce ann (w_manifests (cs_world one_manifest))) rows" by (elim exE conjE)
  then have "guarded_row ?ce ann (w_manifests (cs_world one_manifest)) (redact_manifest (filed_manifest sample_manifest))"
    by (cases rows) auto
  with c run show ?thesis by blast
qed

end
