(* ===== verification/Spec2Isabelle.thy ===== *)
theory Spec2Isabelle
  imports ChunkStore EdgeSync Liveness Checkpoints Training Lakehouse Scheduler Advanced Context Router
    SemanticCache Embedded Provider ObjectRuns ServiceLaws Recovery Plugins Kms Explorer Impact
    AdapterLaws ControlRoutes
begin

text \<open>
  A model of the Python package \<open>python/urp\<close>: a layer that takes \<^emph>\<open>work units\<close> (byte objects,
  log batches, prompts, checkpoints), decides by policy under which \<^emph>\<open>contract\<close> they may be
  reduced, plans the reduction, stores the bytes deduplicated and compressed, verifies them,
  and records a manifest and a hash-chained audit event for each. On top of it stand an AI gateway
  (chat, text completions, embeddings, with an exact and a semantic cache), an S3-like object store,
  adapters for files and other systems, and the HTTP services in front of all of it.

  \<^bold>\<open>Values, records and authorization\<close>

  \<^item> \<open>Prelude\<close>, \<open>Sha256\<close>: generic lemmas and the hash function (\<open>hashlib.sha256\<close>, over 32-bit
    words; no proof ever evaluates it, and collision freedom is a hypothesis where one is needed).
  \<^item> \<open>PyVal\<close>, \<open>Json\<close>, \<open>JsonText\<close>, \<open>PyText\<close>, \<open>PyTime\<close>: Python values (\<open>pyval\<close>), dictionaries as
    association lists in insertion order, exceptions as values (\<open>py_exc\<close>, \<open>'a res\<close>), state
    passing (\<open>sres\<close>), \<open>json.dumps\<close>, \<open>repr\<close>, string methods, \<open>storage.py\<close>'s identifiers and
    path containment, and the UTC times of \<open>datetime\<close> with their text.
  \<^item> \<open>Contracts\<close>: \<open>contracts.py\<close> and \<open>encoding.py\<close>, the records and their dictionary forms.
  \<^item> \<open>Auth\<close>: \<open>errors.py\<close> and \<open>auth.py\<close>. The context variable that holds the current principal is
    the argument \<open>ctx\<close> (or the field of an environment) of every operation that reads it.

  \<^bold>\<open>Storage, audit and records\<close>

  \<^item> \<open>Chunking\<close>, \<open>ChunkStore\<close>: \<open>chunking.py\<close>, \<open>verifiers.py\<close> (checksum), \<open>transforms.py\<close> and
    \<open>chunk_store.py\<close>. A directory tree is a map from paths to bytes; the compressor is a parameter
    with the hypothesis that it inverts. The locale \<open>segment_store\<close> is interpreted on the store.
  \<^item> \<open>Verifiers\<close>: the other verifiers of \<open>verifiers.py\<close> and \<open>cache_verification.py\<close>.
  \<^item> \<open>Ledger\<close>, \<open>EdgeSync\<close>: \<open>ledger.py\<close> and \<open>edge_sync.py\<close>. A JSON-lines file is its list of
    rows; the text level appears where the code reads the file backwards in blocks.
  \<^item> \<open>Observability\<close>: \<open>structured_logs.py\<close>, \<open>tracing.py\<close>, \<open>metrics.py\<close>.
  \<^item> \<open>Stores\<close>: \<open>manifest_store.py\<close>, \<open>plan_store.py\<close>, \<open>work_unit_store.py\<close>. The locale
    \<open>tenant_store\<close> is the contract of all of them and \<open>store_refinement\<close> relates two backends.
  \<^item> \<open>PolicyStore\<close>, \<open>Approvals\<close>, \<open>Kms\<close>: \<open>policy_store.py\<close> (versioned bundles),
    \<open>approval_store.py\<close> (signed approvals) and \<open>kms.py\<close> (envelope encryption; AES-GCM is the
    parameter \<open>aead\<close>).
  \<^item> \<open>Caches\<close>, \<open>SemanticCache\<close>: \<open>cache.py\<close> and \<open>semantic_cache.py\<close>, in memory and on SQLite. The
    locale \<open>exact_cache\<close> is the contract of both exact caches.
  \<^item> \<open>Recovery\<close>, \<open>Explorer\<close>: \<open>disaster_recovery.py\<close> (backup and restore of the state directory as
    a list of files) and \<open>manifest_explorer.py\<close>.

  \<^bold>\<open>Deciding and executing\<close>

  \<^item> \<open>Classifier\<close>, \<open>Policy\<close>, \<open>Planner\<close>: \<open>entropy.py\<close>, \<open>classifier.py\<close>, \<open>policy.py\<close>,
    \<open>action_registry.py\<close>, \<open>planner.py\<close>.
  \<^item> \<open>Runtime\<close>: the state of the service (\<open>world\<close>, one field per store) and the surroundings of a
    call (\<open>env\<close>: principal, environment variables, fresh identifiers, clock, schemas, floats).
  \<^item> \<open>Executor\<close>, \<open>Execution\<close>, \<open>Liveness\<close>, \<open>Dispatch\<close>: \<open>executor.py\<close>; the operations, what
    execution guarantees, that it returns in an open environment, and \<open>execute_work_unit\<close>.
  \<^item> \<open>Advanced\<close>, \<open>Checkpoints\<close>, \<open>Training\<close>, \<open>Lakehouse\<close>, \<open>Scheduler\<close>: the reducers of
    \<open>advanced.py\<close>, \<open>checkpoints.py\<close>, \<open>training.py\<close>, \<open>lakehouse.py\<close>, \<open>scheduler.py\<close>.
  \<^item> \<open>Plugins\<close>, \<open>Impact\<close>: \<open>plugins.py\<close> with the descriptor check of \<open>adapters.py\<close>, and the
    savings model of \<open>impact.py\<close>.

  \<^bold>\<open>Serving\<close>

  \<^item> \<open>Context\<close>, \<open>Router\<close>: \<open>context.py\<close> and \<open>ai_router.py\<close>.
  \<^item> \<open>GatewayRequest\<close>, \<open>Gateway\<close>, \<open>Serving\<close>, \<open>Answering\<close>: the chat and text completions of
    \<open>ai_gateway.py\<close>; reading a request, the handler, what it guarantees, and that it answers.
  \<^item> \<open>Vectors\<close>, \<open>Embeddings\<close>, \<open>Embedded\<close>: the embeddings of \<open>ai_gateway.py\<close>. \<open>Provider\<close>: the
    OpenAI-compatible provider, over an endpoint that is a parameter.
  \<^item> \<open>ObjectStore\<close>, \<open>ObjectLaws\<close>, \<open>ObjectRuns\<close>: \<open>LocalS3Adapter\<close> of \<open>adapters.py\<close>.
  \<^item> \<open>Adapters\<close>, \<open>AdapterLaws\<close>: the POSIX adapter, the mock adapters and the built-in adapters of
    \<open>adapters.py\<close>. A host is a disk (a map from paths to files) beside the state of the gateway.
  \<^item> \<open>Service\<close>, \<open>ServiceLaws\<close>: the POST requests of \<open>service_runtime.py\<close> to the S3 and AI
    gateways, from the headers to the status of the response.
  \<^item> \<open>ControlPlane\<close>, \<open>ControlLaws\<close>, \<open>ControlRoutes\<close>: the POST and GET requests of
    \<open>service_runtime.py\<close> to the control plane, the worker and the scheduler, one definition per
    route; \<open>control_state\<close> is the state of all stores. What every POST request keeps of the ledger,
    that GET requests only read, and that manifests are shown redacted.

  \<^bold>\<open>What the lemmas show\<close>

  Chunkings tile their input and the chunk store returns what was stored, deduplicating exactly
  repeats within a tenant and namespace; the ledger's chain stays verifiable under appends and
  queries show only visible events; synchronisation delivers every event once; policy decisions
  keep the guardrails and plans obey them; executed work units can be read back in full and by
  range, and execution returns; stores isolate tenants and their backends agree; caches return
  what was put under the same key and scope only; logs hold no sensitive value; identifiers and
  paths stay below the storage root; checkpoints rebuild, compaction and scheduling respect their
  budgets; gateway answers are verified, calls are bounded, and a repeated request is served from
  the cache; objects are returned byte for byte, holds protect them, and a completed upload is the
  object of its parts in order; a principal reaches its tenant's objects only; backups restore the
  files they hold, refuse damaged archives and overwrite nothing when they merge; code of a plugin
  runs only when its package is the one that was reviewed; files round-trip through the POSIX adapter
  and are not overwritten unless asked; every sequence of requests leaves the ledger verifiable, and
  manifests are shown in full only to those who may see them.

  \<^bold>\<open>Parameters and bounds\<close>

  Fresh identifiers and times (\<open>uuid4\<close>, the clock), random bytes, the compressors, AES-GCM, the
  \<open>jsonschema\<close> validator, the model provider, the HTTP endpoint behind it, the reading of a float
  from its text, the SQLite checkpoint, the code of plugins, what the disk says of
  directories and times (\<open>he_dir\<close>, \<open>he_mtime\<close>) and the routes outside the model (\<open>outside\<close>) are
  arguments, with the behaviour a theorem needs as a hypothesis. Recursion is structural or has a proved measure, and the digest
  loop of the vectors is a \<open>while\<close> whose end is proved. The one bound is the recursion depth of
  \<open>read_checkpoint\<close>: Python's, at which it raises \<open>RecursionError\<close>; the theorems hold for every
  depth above the length of the chain of bases.
  Floats are decimals with an explicit exponent where they are stored and real numbers where they
  are computed (entropy, scores, times of the caches, amounts of the impact model); the text of a
  float is read without \<open>inf\<close> and \<open>nan\<close>, and the single precision floats of an encoded vector that
  are not finite stand as 0. Strings are sequences of code points below 256. What \<open>json.loads\<close>
  makes of a request body, an archive manifest, a plugin descriptor or a key file is the value the
  model starts from, and the text fields of an HTTP request are strings.

  \<^bold>\<open>Not modelled\<close>

  File locks, \<open>fsync\<close>, atomic renames and other failures of the operating system; creating SQL
  tables; the matching of the regular expressions of \<open>log_templates.py\<close>; the routes for health,
  readiness, metrics, reports, conformance, platforms, benchmarks, backup and restore, and the socket
  server; the library interface, the command line and the process lifecycle; drivers of external
  systems; build, benchmark and document tooling. The manifest lists every component with its state.
\<close>

end
